(* ===== verification/Prelude.thy ===== *)
theory Prelude
  imports Complex_Main "HOL-Library.List_Lexorder" "HOL-Library.Char_ord"
begin

section \<open>Shared vocabulary of the development\<close>

text \<open>
  What every component uses: the errors the services throw, computations that may throw,
  JavaScript strings, insertion-ordered sets, JSON values, and the generic lemmas on them.

  A JavaScript string is a list of UTF-16 code units. Here it is a \<^typ>\<open>string\<close>: each
  \<^typ>\<open>char\<close> stands for one code unit in the range U+0000 to U+00FF, so \<^const>\<open>length\<close>
  is the \<^verbatim>\<open>.length\<close> of the source and the character tests below are the ones of
  \<^verbatim>\<open>trim\<close>, \<^verbatim>\<open>\s\<close> and \<^verbatim>\<open>toLowerCase\<close> on that range.
  Times are integers: milliseconds since the epoch, what \<^verbatim>\<open>Date.getTime()\<close> returns.
\<close>

named_theorems res_simps "rewriting computations that may throw"

type_synonym time = int

subsection \<open>Errors and computations that may throw\<close>

text \<open>The exceptions of the services: Nest's HTTP exceptions, a plain \<^verbatim>\<open>Error\<close>, and the Desk
  provisioner's own exception (whether its rollback is confirmed, and the Desk's origin).\<close>

datatype http_error =
    BadRequest string
  | Unauthorized string
  | Forbidden string
  | NotFound string
  | Conflict string
  | BadGateway string
  | ServiceUnavailable string
  | TooManyRequests string
  | PlainError string
  | DeskProvisioningFailure bool string

type_synonym 'a res = "http_error + 'a"

definition bindR :: "'e + 'a \<Rightarrow> ('a \<Rightarrow> 'e + 'b) \<Rightarrow> 'e + 'b" where
  "bindR m f = (case m of Inl e \<Rightarrow> Inl e | Inr x \<Rightarrow> f x)"

definition throwIf :: "bool \<Rightarrow> 'e \<Rightarrow> 'e + 'b \<Rightarrow> 'e + 'b" where
  "throwIf b e m = (if b then Inl e else m)"

text \<open>\<^verbatim>\<open>xs.map(f)\<close> where \<^verbatim>\<open>f\<close> may throw: the first exception wins.\<close>

fun mapR :: "('a \<Rightarrow> 'e + 'b) \<Rightarrow> 'a list \<Rightarrow> 'e + 'b list" where
  "mapR f [] = Inr []"
| "mapR f (x # xs) = bindR (f x) (\<lambda>y. bindR (mapR f xs) (\<lambda>ys. Inr (y # ys)))"

text \<open>\<^verbatim>\<open>try { m } catch { return d }\<close> and a rethrow that changes the error.\<close>

definition orElse :: "'e + 'a \<Rightarrow> 'a \<Rightarrow> 'a" where
  "orElse m d = (case m of Inl _ \<Rightarrow> d | Inr x \<Rightarrow> x)"

definition rethrow :: "('e \<Rightarrow> 'f) \<Rightarrow> 'e + 'a \<Rightarrow> 'f + 'a" where
  "rethrow h m = (case m of Inl e \<Rightarrow> Inl (h e) | Inr x \<Rightarrow> Inr x)"

fun error_message :: "http_error \<Rightarrow> string" where
  "error_message (BadRequest s) = s"
| "error_message (Unauthorized s) = s"
| "error_message (Forbidden s) = s"
| "error_message (NotFound s) = s"
| "error_message (Conflict s) = s"
| "error_message (BadGateway s) = s"
| "error_message (ServiceUnavailable s) = s"
| "error_message (TooManyRequests s) = s"
| "error_message (PlainError s) = s"
| "error_message (DeskProvisioningFailure confirmed targetUrl) =
     (if confirmed then ''Hara Desk provisioning failed; the remote installation was rolled back''
      else ''Hara Desk provisioning failed and remote rollback could not be confirmed'')"

lemma bindR_Inl [simp, res_simps]: "bindR (Inl e) f = Inl e"
  by (simp add: bindR_def)

lemma bindR_Inr [simp, res_simps]: "bindR (Inr x) f = f x"
  by (simp add: bindR_def)

lemma bindR_eq_Inr [res_simps]: "bindR m f = Inr y \<longleftrightarrow> (\<exists>x. m = Inr x \<and> f x = Inr y)"
  by (cases m) auto

lemma bindR_eq_Inl [res_simps]:
  "bindR m f = Inl e \<longleftrightarrow> m = Inl e \<or> (\<exists>x. m = Inr x \<and> f x = Inl e)"
  by (cases m) auto

lemma bindR_cong [fundef_cong]:
  "m = m' \<Longrightarrow> (\<And>x. m' = Inr x \<Longrightarrow> f x = g x) \<Longrightarrow> bindR m f = bindR m' g"
  by (cases m') auto

lemma throwIf_eq_Inr [res_simps]: "throwIf b e m = Inr y \<longleftrightarrow> \<not> b \<and> m = Inr y"
  by (simp add: throwIf_def)

lemma throwIf_eq_Inl [res_simps]:
  "throwIf b e m = Inl d \<longleftrightarrow> (b \<and> d = e) \<or> (\<not> b \<and> m = Inl d)"
  by (auto simp: throwIf_def)

lemma throwIf_False [simp]: "throwIf False e m = m"
  and throwIf_True [simp]: "throwIf True e m = Inl e"
  by (simp_all add: throwIf_def)

lemma throwIf_cong [fundef_cong]:
  "b = b' \<Longrightarrow> e = e' \<Longrightarrow> (\<not> b' \<Longrightarrow> m = m') \<Longrightarrow> throwIf b e m = throwIf b' e' m'"
  by (simp add: throwIf_def)

lemma rethrow_eq_Inr [simp, res_simps]: "rethrow h m = Inr x \<longleftrightarrow> m = Inr x"
  by (cases m) (auto simp: rethrow_def)

lemma rethrow_Inl [simp]: "rethrow h (Inl e) = Inl (h e)"
  and rethrow_Inr [simp]: "rethrow h (Inr x) = Inr x"
  by (simp_all add: rethrow_def)

lemma mapR_eq_Inr: "mapR f xs = Inr ys \<longleftrightarrow> list_all2 (\<lambda>x y. f x = Inr y) xs ys"
  by (induction xs arbitrary: ys) (auto simp: bindR_eq_Inr list_all2_Cons1)

lemma mapR_length: "mapR f xs = Inr ys \<Longrightarrow> length ys = length xs"
  by (simp add: mapR_eq_Inr list_all2_lengthD)

lemma mapR_all: "(\<And>x. x \<in> set xs \<Longrightarrow> f x = Inr (g x)) \<Longrightarrow> mapR f xs = Inr (map g xs)"
  by (induction xs) auto

lemma mapR_in_set: "mapR f xs = Inr ys \<Longrightarrow> y \<in> set ys \<Longrightarrow> \<exists>x \<in> set xs. f x = Inr y"
  by (induction xs arbitrary: ys) (auto simp: bindR_eq_Inr)

subsection \<open>Nullish values\<close>

text \<open>
  \<^verbatim>\<open>T | null | undefined\<close> is an \<^typ>\<open>'a option\<close>; \<^verbatim>\<open>a ?? b\<close> is
  \<^verbatim>\<open>nullish\<close>, and \<^verbatim>\<open>a || b\<close> on strings is \<^verbatim>\<open>orStr\<close> (the empty string is falsy).
\<close>

definition nullish :: "'a option \<Rightarrow> 'a \<Rightarrow> 'a" where
  "nullish a d = (case a of None \<Rightarrow> d | Some x \<Rightarrow> x)"

definition orStr :: "string \<Rightarrow> string \<Rightarrow> string" where
  "orStr a b = (if a = [] then b else a)"

lemma nullish_simps [simp]: "nullish None d = d" "nullish (Some x) d = x"
  by (simp_all add: nullish_def)

lemma orStr_simps [simp]: "orStr [] b = b" "a \<noteq> [] \<Longrightarrow> orStr a b = a"
  by (simp_all add: orStr_def)

subsection \<open>Characters and strings\<close>

abbreviation code :: "char \<Rightarrow> nat" where
  "code c \<equiv> of_char c"

definition is_ws :: "char \<Rightarrow> bool" where
  "is_ws c \<longleftrightarrow> code c \<in> {9, 10, 11, 12, 13, 32, 160}"

text \<open>The class \<^verbatim>\<open>[\u0000-\u001f\u007f]\<close>.\<close>

definition is_control :: "char \<Rightarrow> bool" where
  "is_control c \<longleftrightarrow> code c \<le> 31 \<or> code c = 127"

definition is_upper_az :: "char \<Rightarrow> bool" where
  "is_upper_az c \<longleftrightarrow> 65 \<le> code c \<and> code c \<le> 90"

definition is_lower_az :: "char \<Rightarrow> bool" where
  "is_lower_az c \<longleftrightarrow> 97 \<le> code c \<and> code c \<le> 122"

definition is_digit :: "char \<Rightarrow> bool" where
  "is_digit c \<longleftrightarrow> 48 \<le> code c \<and> code c \<le> 57"

text \<open>\<^verbatim>\<open>toLowerCase\<close> on one code unit: ASCII letters and the Latin-1 capitals, not the sign U+00D7.\<close>

definition lower_char :: "char \<Rightarrow> char" where
  "lower_char c =
     (if is_upper_az c \<or> (192 \<le> code c \<and> code c \<le> 222 \<and> code c \<noteq> 215)
      then char_of (code c + 32) else c)"

definition toLowerCase :: "string \<Rightarrow> string" where
  "toLowerCase s = map lower_char s"

definition trim :: "string \<Rightarrow> string" where
  "trim s = rev (dropWhile is_ws (rev (dropWhile is_ws s)))"

definition startsWith :: "string \<Rightarrow> string \<Rightarrow> bool" where
  "startsWith s p \<longleftrightarrow> take (length p) s = p"

text \<open>\<^verbatim>\<open>xs.join(sep)\<close>\<close>

fun join :: "string \<Rightarrow> string list \<Rightarrow> string" where
  "join sep [] = []"
| "join sep [x] = x"
| "join sep (x # y # zs) = x @ sep @ join sep (y # zs)"

text \<open>\<^verbatim>\<open>s.padStart(n, "0")\<close>\<close>

definition padStart0 :: "nat \<Rightarrow> string \<Rightarrow> string" where
  "padStart0 n s = replicate (n - length s) CHR ''0'' @ s"

text \<open>\<^verbatim>\<open>s.split(sep)\<close> for a one-character separator: never the empty list.\<close>

fun split_on :: "char \<Rightarrow> string \<Rightarrow> string list" where
  "split_on c [] = [[]]"
| "split_on c (x # xs) =
     (case split_on c xs of
        [] \<Rightarrow> [[x]]
      | w # ws \<Rightarrow> if x = c then [] # w # ws else (x # w) # ws)"

lemma split_on_nonempty [simp]: "split_on c s \<noteq> []"
  by (induction s) (auto split: list.splits)

lemma split_on_no_sep: "c \<notin> set s \<Longrightarrow> split_on c s = [s]"
  by (induction s) auto

lemma split_on_sep: "c \<notin> set a \<Longrightarrow> split_on c (a @ c # b) = a # split_on c b"
proof (induction a)
  case Nil
  then show ?case by (auto split: list.splits)
qed auto

lemma dropWhile_rev_dropWhile:
  "dropWhile P (rev (dropWhile P (rev (dropWhile P s)))) = rev (dropWhile P (rev (dropWhile P s)))"
proof (cases "dropWhile P s")
  case Nil
  show ?thesis unfolding Nil by simp
next
  case (Cons a t)
  then have a: "\<not> P a" using hd_dropWhile [of P s] by auto
  have "rev (dropWhile P (rev (a # t))) = a # rev (dropWhile P (rev t))"
    using a by (simp add: dropWhile_append)
  with a show ?thesis using Cons by simp
qed

lemma trim_idem [simp]: "trim (trim s) = trim s"
proof -
  have "rev (dropWhile is_ws (rev (trim s))) = trim s"
    unfolding trim_def by (simp add: dropWhile_idem)
  then show ?thesis
    unfolding trim_def [of "trim s"] by (simp add: trim_def dropWhile_rev_dropWhile)
qed

lemma trim_Nil [simp]: "trim [] = []"
  by (simp add: trim_def)

lemma set_trim: "set (trim s) \<subseteq> set s"
  unfolding trim_def by (metis set_dropWhileD set_rev subsetI)

lemma length_trim: "length (trim s) \<le> length s"
  unfolding trim_def by (metis length_dropWhile_le length_rev order_trans)

lemma lower_char_idem [simp]: "lower_char (lower_char c) = lower_char c"
proof -
  have "code c < 256" by simp
  then show ?thesis
    by (auto simp: lower_char_def is_upper_az_def)
qed

lemma toLowerCase_idem [simp]: "toLowerCase (toLowerCase s) = toLowerCase s"
  by (simp add: toLowerCase_def)

subsection \<open>Insertion-ordered sets\<close>

text \<open>
  \<^verbatim>\<open>[...new Set(xs)]\<close> keeps the first occurrence of each element in order.
\<close>

fun nub :: "'a list \<Rightarrow> 'a list" where
  "nub [] = []"
| "nub (x # xs) = x # filter (\<lambda>y. y \<noteq> x) (nub xs)"

lemma set_nub [simp]: "set (nub xs) = set xs"
  by (induction xs) auto

lemma distinct_nub [simp]: "distinct (nub xs)"
  by (induction xs) auto

lemma nub_distinct: "distinct xs \<Longrightarrow> nub xs = xs"
proof (induction xs)
  case (Cons x xs)
  then have "filter (\<lambda>y. y \<noteq> x) xs = xs"
    by (auto simp: filter_id_conv)
  with Cons show ?case by simp
qed simp

lemma nub_idem [simp]: "nub (nub xs) = nub xs"
  by (simp add: nub_distinct)

lemma nub_eq_Nil [simp]: "nub xs = [] \<longleftrightarrow> xs = []"
  by (cases xs) auto

lemma length_nub: "length (nub xs) \<le> length xs"
proof -
  have "length (nub xs) = card (set xs)"
    using distinct_card [OF distinct_nub [of xs]] by simp
  then show ?thesis by (simp add: card_length)
qed

lemma sort_distinct_unique:
  fixes xs ys :: "'a::linorder list"
  shows "distinct xs \<Longrightarrow> distinct ys \<Longrightarrow> set xs = set ys \<Longrightarrow> sort xs = sort ys"
  by (metis distinct_sort set_sort sorted_distinct_set_unique sorted_sort)

text \<open>Sorting: an element not below the others goes last, and a map that keeps the keys commutes.\<close>

lemma insort_key_snoc: "f x \<le> f r \<Longrightarrow> insort_key f x (ys @ [r]) = insort_key f x ys @ [r]"
  by (induction ys) auto

lemma sort_key_snoc: "(\<And>x. x \<in> set xs \<Longrightarrow> f x \<le> f r) \<Longrightarrow> sort_key f (xs @ [r]) = sort_key f xs @ [r]"
  by (induction xs) (auto simp: insort_key_snoc)

lemma insort_key_map: "(\<And>x. f (g x) = f x) \<Longrightarrow> insort_key f (g x) (map g ys) = map g (insort_key f x ys)"
  by (induction ys) auto

lemma sort_key_map: "(\<And>x. f (g x) = f x) \<Longrightarrow> sort_key f (map g xs) = map g (sort_key f xs)"
  by (induction xs) (auto simp: insort_key_map)

lemma find_snoc: "find p xs = None \<Longrightarrow> p x \<Longrightarrow> find p (xs @ [x]) = Some x"
  by (induction xs) (auto split: if_splits)

end
