(* ===== verification/JsNumber.thy ===== *)
theory JsNumber
  imports Prelude
begin

section \<open>JavaScript numbers and JSON values\<close>

text \<open>
  The part of ECMAScript the services compute with. A Number is a finite IEEE-754 double (held as
  the rational it denotes), an infinity or NaN; the sign of zero is not kept, no service reads it.
  \<^verbatim>\<open>fl64\<close> is the rounding every double operation performs: to the nearest multiple of the unit in
  the last place, ties to even, with gradual underflow; \<^verbatim>\<open>toNumber\<close> adds overflow to infinity.
  \<^verbatim>\<open>stringToNumber\<close> and \<^verbatim>\<open>Number_js\<close> are the coercions behind \<^verbatim>\<open>Number(x)\<close>.
\<close>

named_theorems num_simps "evaluation of comparisons on JavaScript numbers"

datatype number = NaN | PosInf | NegInf | Fin rat

subsection \<open>Rounding to a double\<close>

fun log2n :: "nat \<Rightarrow> nat" where
  "log2n n = (if n < 2 then 0 else Suc (log2n (n div 2)))"

declare log2n.simps [simp del]

lemma log2n_lower: "0 < n \<Longrightarrow> 2 ^ log2n n \<le> n"
proof (induction n rule: log2n.induct)
  case (1 n)
  show ?case
  proof (cases "n < 2")
    case True
    with 1 show ?thesis by (simp add: log2n.simps [of n])
  next
    case False
    with 1 have "2 ^ log2n (n div 2) \<le> n div 2" by simp
    with False show ?thesis by (simp add: log2n.simps [of n])
  qed
qed

lemma log2n_upper: "n < 2 ^ Suc (log2n n)"
proof (induction n rule: log2n.induct)
  case (1 n)
  show ?case
  proof (cases "n < 2")
    case True
    then show ?thesis by (simp add: log2n.simps [of n])
  next
    case False
    with 1 have "n div 2 < 2 ^ Suc (log2n (n div 2))" by simp
    with False show ?thesis by (simp add: log2n.simps [of n])
  qed
qed

definition pow2 :: "int \<Rightarrow> rat" where
  "pow2 e = (if 0 \<le> e then 2 ^ nat e else 1 / 2 ^ nat (- e))"

text \<open>The binary exponent of a positive rational: \<^verbatim>\<open>2^e \<le> x < 2^(e+1)\<close>.\<close>

definition exponent :: "rat \<Rightarrow> int" where
  "exponent x =
     (let (p, q) = quotient_of x;
          e = int (log2n (nat p)) - int (log2n (nat q))
      in if pow2 e \<le> x then e else e - 1)"

definition round_half_even :: "rat \<Rightarrow> int" where
  "round_half_even y =
     (let f = \<lfloor>y\<rfloor>; d = y - of_int f
      in if d < 1 / 2 then f else if 1 / 2 < d then f + 1 else if even f then f else f + 1)"

definition fl64_pos :: "rat \<Rightarrow> rat" where
  "fl64_pos x =
     (let u = pow2 (max (exponent x - 52) (- 1074)) in of_int (round_half_even (x / u)) * u)"

definition fl64 :: "rat \<Rightarrow> rat" where
  "fl64 x = (if x = 0 then 0 else if x < 0 then - fl64_pos (- x) else fl64_pos x)"

definition toNumber :: "rat \<Rightarrow> number" where
  "toNumber x =
     (let r = fl64 x
      in if 2 ^ 1024 \<le> r then PosInf else if r \<le> - (2 ^ 1024) then NegInf else Fin r)"

lemma pow2_pos [simp]: "0 < pow2 e"
  by (simp add: pow2_def)

lemma pow2_powi: "pow2 e = 2 powi e"
  by (simp add: pow2_def power_int_def field_simps power_inverse)

lemma pow2_add: "pow2 (a + b) = pow2 a * pow2 b"
  by (simp add: pow2_powi power_int_add)

lemma pow2_mono: "a \<le> b \<Longrightarrow> pow2 a \<le> pow2 b"
  by (simp add: pow2_powi power_int_increasing)

lemma exponent_bounds:
  assumes "0 < x"
  shows "pow2 (exponent x) \<le> x" and "x < pow2 (exponent x + 1)"
proof -
  obtain p q where pq: "quotient_of x = (p, q)" by fastforce
  have q: "0 < q" using pq by (rule quotient_of_denom_pos)
  have x: "x = of_int p / of_int q" using pq by (rule quotient_of_div)
  have p: "0 < p" using assms q by (simp add: x zero_less_divide_iff)
  define a where "a = log2n (nat p)"
  define b where "b = log2n (nat q)"
  have "2 ^ a \<le> nat p" "nat p < 2 ^ Suc a" "2 ^ b \<le> nat q" "nat q < 2 ^ Suc b"
    unfolding a_def b_def using p q log2n_lower [of "nat p"] log2n_lower [of "nat q"] log2n_upper
    by simp_all
  then have "int (2 ^ a) \<le> int (nat p)" "int (nat p) < int (2 ^ Suc a)"
    "int (2 ^ b) \<le> int (nat q)" "int (nat q) < int (2 ^ Suc b)"
    by (simp_all only: of_nat_le_iff of_nat_less_iff)
  then have i: "2 ^ a \<le> p" "p < 2 ^ Suc a" "2 ^ b \<le> q" "q < 2 ^ Suc b"
    using p q by simp_all
  have r: "(2::rat) ^ a \<le> of_int p" "(of_int p :: rat) < 2 ^ Suc a"
    "(2::rat) ^ b \<le> of_int q" "(of_int q :: rat) < 2 ^ Suc b"
    using of_int_le_iff [of "2 ^ a" p, where 'a = rat] of_int_less_iff [of p "2 ^ Suc a", where 'a = rat]
      of_int_le_iff [of "2 ^ b" q, where 'a = rat] of_int_less_iff [of q "2 ^ Suc b", where 'a = rat] i
    by simp_all
  define e where "e = int a - int b"
  have pe: "pow2 (e + 1) = 2 ^ Suc a / 2 ^ b" "pow2 (e - 1) = 2 ^ a / 2 ^ Suc b"
    by (simp_all add: e_def pow2_powi power_int_diff power_int_add)
  have up: "x < pow2 (e + 1)"
    unfolding x pe(1) using r p by (intro frac_less) auto
  have lo: "pow2 (e - 1) \<le> x"
    unfolding x pe(2) using r p q by (intro frac_le) auto
  have ex: "exponent x = (if pow2 e \<le> x then e else e - 1)"
    by (simp add: exponent_def pq e_def a_def b_def)
  show "pow2 (exponent x) \<le> x" using lo ex by auto
  show "x < pow2 (exponent x + 1)" using up ex by auto
qed

lemma round_half_even_near: "\<bar>of_int (round_half_even y) - y\<bar> \<le> 1 / 2"
  unfolding round_half_even_def Let_def by (auto simp: abs_if) linarith+

lemma round_half_even_int [simp]: "round_half_even (of_int i) = i"
  by (simp add: round_half_even_def Let_def)

text \<open>The relative error of one double operation, outside the subnormal range.\<close>

lemma fl64_pos_error:
  assumes "pow2 (- 1022) \<le> x"
  shows "\<bar>fl64_pos x - x\<bar> \<le> x / 2 ^ 53"
proof -
  have x: "0 < x" using assms pow2_pos [of "-1022"] by linarith
  have "- 1022 \<le> exponent x"
  proof (rule ccontr)
    assume "\<not> - 1022 \<le> exponent x"
    then have "pow2 (exponent x + 1) \<le> pow2 (- 1022)" by (intro pow2_mono) simp
    with exponent_bounds(2) [OF x] assms show False by simp
  qed
  then have m: "max (exponent x - 52) (- 1074) = exponent x - 52" by simp
  define u where "u = pow2 (exponent x - 52)"
  have u: "0 < u" by (simp add: u_def)
  have "u * 2 ^ 52 = pow2 (exponent x)"
    by (simp add: u_def pow2_powi power_int_diff)
  with exponent_bounds(1) [OF x] have ux: "u / 2 \<le> x / 2 ^ 53" by simp
  have "fl64_pos x - x = (of_int (round_half_even (x / u)) - x / u) * u"
    unfolding fl64_pos_def Let_def m u_def [symmetric] using u by (simp add: algebra_simps)
  then have "\<bar>fl64_pos x - x\<bar> = \<bar>of_int (round_half_even (x / u)) - x / u\<bar> * u"
    using u by (simp add: abs_mult)
  also have "\<dots> \<le> 1 / 2 * u"
    using round_half_even_near u by (intro mult_right_mono) auto
  finally show ?thesis using ux by simp
qed

lemma fl64_error: "pow2 (- 1022) \<le> x \<Longrightarrow> \<bar>fl64 x - x\<bar> \<le> x / 2 ^ 53"
  using fl64_pos_error [of x] less_le_trans [OF pow2_pos [of "-1022"], of x] by (simp add: fl64_def)

lemma exponent_le: "0 < x \<Longrightarrow> x < pow2 (e + 1) \<Longrightarrow> exponent x \<le> e"
proof (rule ccontr)
  assume x: "0 < x" "x < pow2 (e + 1)" and "\<not> exponent x \<le> e"
  then have "pow2 (e + 1) \<le> pow2 (exponent x)" by (intro pow2_mono) simp
  with exponent_bounds(1) [OF x(1)] x(2) show False by simp
qed

text \<open>Integers of at most 53 bits are doubles, so arithmetic on them is exact.\<close>

lemma fl64_pos_int:
  assumes "0 < i" "i < 2 ^ 53"
  shows "fl64_pos (of_int i) = of_int i"
proof -
  have "(of_int i :: rat) < of_int (2 ^ 53)" using assms by (simp only: of_int_less_iff)
  then have "exponent (of_int i) \<le> 52"
    using assms by (intro exponent_le) (simp_all add: pow2_def)
  define n where "n = nat (- max (exponent (of_int i) - 52) (- 1074))"
  have u: "pow2 (max (exponent (of_int i) - 52) (- 1074)) = 1 / 2 ^ n"
    using \<open>exponent (of_int i) \<le> 52\<close> by (auto simp: pow2_def n_def)
  have "(of_int i :: rat) / (1 / 2 ^ n) = of_int (i * 2 ^ n)" by simp
  then show ?thesis
    unfolding fl64_pos_def Let_def u by (simp only: round_half_even_int) simp
qed

lemma fl64_int [simp]: "\<bar>i\<bar> < 2 ^ 53 \<Longrightarrow> fl64 (of_int i) = of_int i"
  using fl64_pos_int [of i] fl64_pos_int [of "- i"] by (auto simp: fl64_def)

lemma toNumber_int:
  assumes "\<bar>i\<bar> < 2 ^ 53"
  shows "toNumber (of_int i) = Fin (of_int i)"
proof -
  have "\<bar>of_int i :: rat\<bar> < of_int (2 ^ 53)" using assms by (simp only: of_int_less_iff flip: of_int_abs)
  then have "(of_int i :: rat) < 2 ^ 53" "- (2 ^ 53) < (of_int i :: rat)"
    by (simp_all only: abs_less_iff of_int_power of_int_numeral) linarith
  moreover have "(2::rat) ^ 53 < 2 ^ 1024" by simp
  ultimately have "(of_int i :: rat) < 2 ^ 1024" "- (2 ^ 1024) < (of_int i :: rat)" by linarith+
  then show ?thesis
    unfolding toNumber_def Let_def fl64_int [OF assms] by (auto simp: not_le)
qed

subsection \<open>Comparisons and arithmetic\<close>

fun num_lt :: "number \<Rightarrow> number \<Rightarrow> bool" where
  "num_lt (Fin a) (Fin b) = (a < b)"
| "num_lt NaN _ = False"
| "num_lt _ NaN = False"
| "num_lt NegInf b = (b \<noteq> NegInf)"
| "num_lt _ NegInf = False"
| "num_lt PosInf _ = False"
| "num_lt _ PosInf = True"

definition num_le :: "number \<Rightarrow> number \<Rightarrow> bool" where
  "num_le a b \<longleftrightarrow> num_lt a b \<or> (a = b \<and> a \<noteq> NaN)"

text \<open>\<^verbatim>\<open>===\<close> on numbers.\<close>

definition num_eq :: "number \<Rightarrow> number \<Rightarrow> bool" where
  "num_eq a b \<longleftrightarrow> a = b \<and> a \<noteq> NaN"

definition isFinite :: "number \<Rightarrow> bool" where
  "isFinite n \<longleftrightarrow> (case n of Fin _ \<Rightarrow> True | _ \<Rightarrow> False)"

definition is_int :: "rat \<Rightarrow> bool" where
  "is_int r \<longleftrightarrow> of_int \<lfloor>r\<rfloor> = r"

definition isSafeInteger :: "number \<Rightarrow> bool" where
  "isSafeInteger n \<longleftrightarrow>
     (case n of Fin r \<Rightarrow> is_int r \<and> \<bar>r\<bar> \<le> 9007199254740991 | _ \<Rightarrow> False)"

text \<open>\<^verbatim>\<open>Math.round\<close>: the integer nearest, ties towards plus infinity.\<close>

fun round_js :: "number \<Rightarrow> number" where
  "round_js (Fin x) = Fin (of_int \<lfloor>x + 1 / 2\<rfloor>)"
| "round_js n = n"

fun num_mult :: "number \<Rightarrow> number \<Rightarrow> number" where
  "num_mult (Fin a) (Fin b) = toNumber (a * b)"
| "num_mult NaN _ = NaN"
| "num_mult _ NaN = NaN"
| "num_mult a b =
     (let sg = (\<lambda>n. case n of PosInf \<Rightarrow> 1 | NegInf \<Rightarrow> - 1 | Fin r \<Rightarrow> sgn r | NaN \<Rightarrow> 0);
          s = sg a * sg b
      in if s = 0 then NaN else if 0 < s then PosInf else NegInf)"

text \<open>Division by a finite non-zero number, all the services divide by.\<close>

fun num_div :: "number \<Rightarrow> rat \<Rightarrow> number" where
  "num_div (Fin a) d = toNumber (a / d)"
| "num_div NaN d = NaN"
| "num_div PosInf d = (if 0 < d then PosInf else NegInf)"
| "num_div NegInf d = (if 0 < d then NegInf else PosInf)"

fun num_add :: "number \<Rightarrow> number \<Rightarrow> number" where
  "num_add (Fin a) (Fin b) = toNumber (a + b)"
| "num_add NaN _ = NaN"
| "num_add _ NaN = NaN"
| "num_add PosInf b = (if b = NegInf then NaN else PosInf)"
| "num_add NegInf b = (if b = PosInf then NaN else NegInf)"
| "num_add _ b = b"

abbreviation num :: "int \<Rightarrow> number" where
  "num i \<equiv> Fin (of_int i)"

text \<open>\<^verbatim>\<open>new Date(n)\<close>: the time value clipped to an integer in range, None for an invalid date.\<close>

definition timeClip :: "number \<Rightarrow> time option" where
  "timeClip n =
     (case n of
        Fin r \<Rightarrow> if \<bar>r\<bar> \<le> 8640000000000000 then Some (if 0 \<le> r then \<lfloor>r\<rfloor> else - \<lfloor>- r\<rfloor>) else None
      | _ \<Rightarrow> None)"

lemma isFinite_iff [num_simps]: "isFinite n \<longleftrightarrow> (\<exists>r. n = Fin r)"
  by (cases n) (auto simp: isFinite_def)

lemma is_int_of_int [simp]: "is_int (of_int i)"
  by (simp add: is_int_def)

lemma isSafeInteger_iff [num_simps]:
  "isSafeInteger n \<longleftrightarrow> (\<exists>i. n = num i \<and> \<bar>i\<bar> \<le> 9007199254740991)"
proof
  assume "isSafeInteger n"
  then obtain r where r: "n = Fin r" "of_int \<lfloor>r\<rfloor> = r" "\<bar>r\<bar> \<le> 9007199254740991"
    by (auto simp: isSafeInteger_def is_int_def split: number.splits)
  then have "\<bar>\<lfloor>r\<rfloor>\<bar> \<le> (9007199254740991 :: int)"
    by (metis of_int_abs of_int_le_iff of_int_numeral)
  with r show "\<exists>i. n = num i \<and> \<bar>i\<bar> \<le> 9007199254740991" by metis
next
  assume "\<exists>i. n = num i \<and> \<bar>i\<bar> \<le> 9007199254740991"
  then obtain i where i: "n = num i" "\<bar>i\<bar> \<le> 9007199254740991" by blast
  then have "\<bar>(of_int i :: rat)\<bar> \<le> 9007199254740991"
    by (metis of_int_abs of_int_le_iff of_int_numeral)
  with i show "isSafeInteger n" by (simp add: isSafeInteger_def)
qed

lemma num_lt_Fin [simp]: "num_lt (Fin a) (Fin b) \<longleftrightarrow> a < b"
  by simp

lemma num_le_Fin [simp]: "num_le (Fin a) (Fin b) \<longleftrightarrow> a \<le> b"
  by (auto simp: num_le_def)

lemma num_lt_irrefl [simp]: "\<not> num_lt n n"
  by (cases n) auto

lemma round_js_near: "round_js (Fin x) = Fin (of_int k) \<Longrightarrow> \<bar>of_int k - x\<bar> \<le> 1 / 2"
  by (simp add: abs_if) linarith

lemma round_js_unique: "\<bar>of_int k - x\<bar> < 1 / 2 \<Longrightarrow> round_js (Fin x) = num k"
  by (simp add: abs_if floor_eq_iff split: if_splits)

subsection \<open>JSON values and coercion\<close>

text \<open>
  A value the services read without a type: request bodies and \<^verbatim>\<open>Json\<close> columns. An object is an
  association list, in the insertion order of its keys; \<^verbatim>\<open>JUndef\<close> is a missing property.
\<close>

datatype jsval =
    JUndef
  | JNull
  | JBool bool
  | JNum number
  | JStr string
  | JArr "jsval list"
  | JObj "(string \<times> jsval) list"

text \<open>\<^verbatim>\<open>v.key\<close>; on anything but an object the keys the services ask for are absent.\<close>

definition prop_of :: "jsval \<Rightarrow> string \<Rightarrow> jsval" where
  "prop_of v k =
     (case v of JObj kvs \<Rightarrow> (case map_of kvs k of Some x \<Rightarrow> x | None \<Rightarrow> JUndef) | _ \<Rightarrow> JUndef)"

definition digits_val :: "nat \<Rightarrow> (char \<Rightarrow> nat) \<Rightarrow> string \<Rightarrow> nat" where
  "digits_val b d s = foldl (\<lambda>a c. a * b + d c) 0 s"

definition hex_digit :: "char \<Rightarrow> nat" where
  "hex_digit c =
     (if is_digit c then code c - 48
      else if is_lower_az c then code c - 87
      else if is_upper_az c then code c - 55 else 255)"

text \<open>The optional exponent of a decimal literal: \<^verbatim>\<open>[eE][+-]?[0-9]+\<close>, and nothing after it.\<close>

definition parse_exponent :: "string \<Rightarrow> int option" where
  "parse_exponent s =
     (case s of
        [] \<Rightarrow> Some 0
      | c # t \<Rightarrow>
          if c \<noteq> CHR ''e'' \<and> c \<noteq> CHR ''E'' then None
          else let neg = (t \<noteq> [] \<and> hd t = CHR ''-'');
                   ds = (if t \<noteq> [] \<and> hd t \<in> {CHR ''-'', CHR ''+''} then tl t else t)
               in if ds = [] \<or> \<not> list_all is_digit ds then None
                  else Some ((if neg then - 1 else 1) * int (digits_val 10 hex_digit ds)))"

definition pow10 :: "int \<Rightarrow> rat" where
  "pow10 e = (if 0 \<le> e then 10 ^ nat e else 1 / 10 ^ nat (- e))"

definition parse_unsigned_decimal :: "string \<Rightarrow> rat option" where
  "parse_unsigned_decimal s =
     (let ip = takeWhile is_digit s;
          rest = dropWhile is_digit s;
          dot = (rest \<noteq> [] \<and> hd rest = CHR ''.'');
          fp = (if dot then takeWhile is_digit (tl rest) else []);
          tail = (if dot then dropWhile is_digit (tl rest) else rest)
      in if ip = [] \<and> fp = [] then None
         else case parse_exponent tail of
                None \<Rightarrow> None
              | Some e \<Rightarrow>
                  Some (of_nat (digits_val 10 hex_digit (ip @ fp)) * pow10 (e - int (length fp))))"

definition parse_radix :: "nat \<Rightarrow> string \<Rightarrow> rat option" where
  "parse_radix b s =
     (if s = [] \<or> \<not> list_all (\<lambda>c. hex_digit c < b) s then None
      else Some (of_nat (digits_val b hex_digit s)))"

definition stringToNumber :: "string \<Rightarrow> number" where
  "stringToNumber s =
     (let t = trim s;
          lift = (\<lambda>r. case r of None \<Rightarrow> NaN | Some x \<Rightarrow> toNumber x);
          neg = (t \<noteq> [] \<and> hd t = CHR ''-'');
          u = (if t \<noteq> [] \<and> hd t \<in> {CHR ''-'', CHR ''+''} then tl t else t)
      in if t = [] then Fin 0
         else if take 2 t \<in> {''0x'', ''0X''} then lift (parse_radix 16 (drop 2 t))
         else if take 2 t \<in> {''0o'', ''0O''} then lift (parse_radix 8 (drop 2 t))
         else if take 2 t \<in> {''0b'', ''0B''} then lift (parse_radix 2 (drop 2 t))
         else if u = ''Infinity'' then (if neg then NegInf else PosInf)
         else lift (map_option (\<lambda>x. if neg then - x else x) (parse_unsigned_decimal u)))"

text \<open>
  \<^verbatim>\<open>Number(v)\<close>. An array is first printed with \<^verbatim>\<open>join(",")\<close>: no element gives the empty
  string, one element its own text, several a text with a comma, which is no number; the text
  of a number reads back as that number.
\<close>

fun Number_js :: "jsval \<Rightarrow> number" where
  "Number_js JUndef = NaN"
| "Number_js JNull = Fin 0"
| "Number_js (JBool b) = Fin (if b then 1 else 0)"
| "Number_js (JNum n) = n"
| "Number_js (JStr s) = stringToNumber s"
| "Number_js (JArr []) = Fin 0"
| "Number_js (JArr [v]) =
     (case v of JUndef \<Rightarrow> Fin 0 | JNull \<Rightarrow> Fin 0 | JBool _ \<Rightarrow> NaN | _ \<Rightarrow> Number_js v)"
| "Number_js (JArr (_ # _ # _)) = NaN"
| "Number_js (JObj _) = NaN"

subsection \<open>Printing numbers and dates\<close>

fun show_nat :: "nat \<Rightarrow> string" where
  "show_nat n =
     (if n < 10 then [char_of (48 + n)] else show_nat (n div 10) @ [char_of (48 + n mod 10)])"

declare show_nat.simps [simp del]

definition show_int :: "int \<Rightarrow> string" where
  "show_int i = (if i < 0 then ''-'' @ show_nat (nat (- i)) else show_nat (nat i))"

text \<open>
  \<^verbatim>\<open>Number.prototype.toString\<close>: integers of at most 53 bits print in full; any other positive
  double prints the fewest digits \<^verbatim>\<open>k\<close> (17 always suffice) of which the nearest double is the number,
  in decimal notation for exponents from -6 to 21 and in scientific notation outside.
\<close>

definition decimal_exponent :: "rat \<Rightarrow> int" where
  "decimal_exponent x =
     (let e = (if 1 \<le> x then int (length (show_nat (nat \<lfloor>x\<rfloor>)))
               else 1 - int (length (show_nat (nat \<lceil>1 / x\<rceil>))))
      in if x < pow10 (e - 1) then e - 1 else if pow10 e \<le> x then e + 1 else e)"

definition shortest_digits :: "rat \<Rightarrow> (nat \<times> int) option" where
  "shortest_digits x =
     (let n = decimal_exponent x
      in List.find (\<lambda>(s, k). fl64 (of_nat s * pow10 (n - k)) = x)
           (concat (map (\<lambda>k. let y = x * pow10 (int k - n); lo = nat \<lfloor>y\<rfloor>; hi = lo + 1
                in if y - of_nat lo \<le> 1 / 2 then [(lo, int k), (hi, int k)]
                   else [(hi, int k), (lo, int k)]) [1..<18])))"

definition layout_digits :: "string \<Rightarrow> int \<Rightarrow> string" where
  "layout_digits ds n =
     (let k = int (length ds)
      in if k \<le> n \<and> n \<le> 21 then ds @ replicate (nat (n - k)) CHR ''0''
         else if 0 < n \<and> n \<le> 21 then take (nat n) ds @ ''.'' @ drop (nat n) ds
         else if - 6 < n \<and> n \<le> 0 then ''0.'' @ replicate (nat (- n)) CHR ''0'' @ ds
         else take 1 ds @ (if k = 1 then [] else ''.'' @ drop 1 ds) @ ''e'' @
              (if 0 \<le> n - 1 then ''+'' else ''-'') @ show_nat (nat \<bar>n - 1\<bar>))"

definition show_positive :: "rat \<Rightarrow> string" where
  "show_positive x =
     (case shortest_digits x of
        None \<Rightarrow> []
      | Some (s, k) \<Rightarrow> layout_digits (show_nat s) (decimal_exponent x))"

fun show_number :: "number \<Rightarrow> string" where
  "show_number NaN = ''NaN''"
| "show_number PosInf = ''Infinity''"
| "show_number NegInf = ''-Infinity''"
| "show_number (Fin x) =
     (if is_int x \<and> \<bar>x\<bar> \<le> 9007199254740991 then show_int \<lfloor>x\<rfloor>
      else if x < 0 then ''-'' @ show_positive (- x) else show_positive x)"

text \<open>
  \<^verbatim>\<open>Date.prototype.toISOString\<close>: the proleptic Gregorian date by 400-year eras that start on
  1 March, and the time of day; years outside 0 to 9999 print with a sign and six digits.
\<close>

definition civil_from_days :: "int \<Rightarrow> int \<times> int \<times> int" where
  "civil_from_days z0 =
     (let z = z0 + 719468;
          era = z div 146097;
          doe = z mod 146097;
          yoe = (doe - doe div 1460 + doe div 36524 - doe div 146096) div 365;
          doy = doe - (365 * yoe + yoe div 4 - yoe div 100);
          mp = (5 * doy + 2) div 153;
          d = doy - (153 * mp + 2) div 5 + 1;
          m = (if mp < 10 then mp + 3 else mp - 9);
          y = yoe + era * 400 + (if m \<le> 2 then 1 else 0)
      in (y, m, d))"

definition pad_int :: "nat \<Rightarrow> int \<Rightarrow> string" where
  "pad_int n i = padStart0 n (show_int i)"

definition toISOString :: "time \<Rightarrow> string" where
  "toISOString t =
     (let day = t div 86400000; ms = t mod 86400000; (y, m, d) = civil_from_days day
      in (if 0 \<le> y \<and> y \<le> 9999 then pad_int 4 y
          else (if y < 0 then ''-'' else ''+'') @ pad_int 6 \<bar>y\<bar>) @ ''-'' @
         pad_int 2 m @ ''-'' @ pad_int 2 d @ ''T'' @ pad_int 2 (ms div 3600000) @ '':'' @
         pad_int 2 (ms div 60000 mod 60) @ '':'' @ pad_int 2 (ms div 1000 mod 60) @ ''.'' @
         pad_int 3 (ms mod 1000) @ ''Z'')"

text \<open>\<^verbatim>\<open>toFixed(2)\<close> below 10^21.\<close>

fun toFixed2 :: "number \<Rightarrow> string" where
  "toFixed2 NaN = ''NaN''"
| "toFixed2 PosInf = ''Infinity''"
| "toFixed2 NegInf = ''-Infinity''"
| "toFixed2 (Fin x) =
     (let h = nat \<lfloor>\<bar>x\<bar> * 100 + 1 / 2\<rfloor>
      in (if x < 0 then ''-'' else []) @ show_nat (h div 100) @ ''.'' @
         [char_of (48 + h mod 100 div 10), char_of (48 + h mod 10)])"

text \<open>\<^verbatim>\<open>String(v)\<close>\<close>

fun String_js :: "jsval \<Rightarrow> string" where
  "String_js JUndef = ''undefined''"
| "String_js JNull = ''null''"
| "String_js (JBool b) = (if b then ''true'' else ''false'')"
| "String_js (JNum n) = show_number n"
| "String_js (JStr s) = s"
| "String_js (JArr vs) = join '','' (map (\<lambda>v. if v = JUndef \<or> v = JNull then [] else String_js v) vs)"
| "String_js (JObj kvs) = ''[object Object]''"

text \<open>The characters a printed number can have: none that JSON gives a meaning.\<close>

definition number_char :: "char \<Rightarrow> bool" where
  "number_char c \<longleftrightarrow> is_digit c \<or> c \<in> set ''-+.e''"

lemma digit_number_char: "d < 10 \<Longrightarrow> number_char (char_of (48 + d :: nat))"
  by (simp add: number_char_def is_digit_def)

lemma show_nat_chars: "list_all number_char (show_nat n)"
proof (induction n rule: show_nat.induct)
  case (1 n)
  then show ?case
    using digit_number_char [of n] digit_number_char [of "n mod 10"]
    by (simp add: show_nat.simps [of n])
qed

lemma number_char_consts [simp]:
  "number_char CHR ''0''" "number_char CHR ''.''" "number_char CHR ''e''" "number_char CHR ''+''"
  "number_char CHR ''-''"
  by (simp_all add: number_char_def is_digit_def)

lemma show_int_chars: "list_all number_char (show_int i)"
  by (simp add: show_int_def show_nat_chars)

lemma list_all_take_drop: "list_all P xs \<Longrightarrow> list_all P (take n xs) \<and> list_all P (drop n xs)"
  by (metis append_take_drop_id list_all_append)

lemma list_all_replicate: "P c \<Longrightarrow> list_all P (replicate n c)"
  by (induction n) auto

lemma layout_digits_chars: "list_all number_char ds \<Longrightarrow> list_all number_char (layout_digits ds n)"
  using list_all_take_drop [of number_char ds]
  by (simp add: layout_digits_def Let_def list_all_replicate show_nat_chars)

lemma show_number_chars: "list_all number_char (show_number (Fin x))"
  by (simp add: show_int_chars show_positive_def layout_digits_chars show_nat_chars
      split: option.splits prod.splits)

end
