(* ===== verification/KeyPolicy.thy ===== *)
theory KeyPolicy
  imports JsNumber
begin

section \<open>Access-key policies (gateway/key-policy.ts)\<close>

text \<open>
  The policy attached to an enrollment code and to the gateway key it issues: a token lifetime,
  at most one spend limit per budget window, and request and token rates. \<^verbatim>\<open>normalizeAccessKeyPolicy\<close>
  checks what an administrator sent, \<^verbatim>\<open>parseStoredAccessKeyPolicy\<close> re-checks what the database
  returns, \<^verbatim>\<open>gatewayLimits\<close> is what the gateway is told. The lemmas show that an accepted policy is
  within bounds and that storing and reading a policy back loses nothing, double rounding included.
\<close>

datatype budgetDuration = D5h | D7d | D30d

definition ACCESS_BUDGET_WINDOWS :: "string list" where
  "ACCESS_BUDGET_WINDOWS = [''5h'', ''week'', ''month'']"

text \<open>An untyped \<^verbatim>\<open>window\<close> (a row of a \<^verbatim>\<open>Json\<close> column) can be any value.\<close>

record AccessBudgetLimitInput =
  bi_window :: jsval
  bi_maxUsd :: number

record GatewayBudgetLimit =
  gl_budgetDuration :: budgetDuration
  gl_maxBudgetUsd :: number

record GatewayKeyLimits =
  gk_budgetLimits :: "GatewayBudgetLimit list"
  gk_rpmLimit :: "number option"
  gk_tpmLimit :: "number option"

record StoredAccessBudgetLimit =
  bl_window :: string
  bl_maxUsd :: number
  bl_budgetDuration :: budgetDuration

record StoredAccessKeyPolicy =
  kp_tokenTtlMinutes :: "number option"
  kp_tokenNeverExpires :: bool
  kp_budgetLimits :: "StoredAccessBudgetLimit list"
  kp_rpmLimit :: "number option"
  kp_tpmLimit :: "number option"

record AccessKeyPolicyInput =
  ki_tokenTtlMinutes :: "number option"
  ki_tokenNeverExpires :: "bool option"
  ki_budgetLimits :: "AccessBudgetLimitInput list option"
  ki_rpmLimit :: "number option"
  ki_tpmLimit :: "number option"

definition WINDOW_DURATION :: "string \<Rightarrow> budgetDuration" where
  "WINDOW_DURATION w = (if w = ''5h'' then D5h else if w = ''week'' then D7d else D30d)"

definition MIN_TOKEN_TTL_MINUTES :: int where
  "MIN_TOKEN_TTL_MINUTES = 5"

definition MAX_TOKEN_TTL_MINUTES :: int where
  "MAX_TOKEN_TTL_MINUTES = 365 * 24 * 60"

definition MAX_BUDGET_USD :: int where
  "MAX_BUDGET_USD = 1000000"

definition MAX_RPM_LIMIT :: int where
  "MAX_RPM_LIMIT = 1000000"

definition MAX_TPM_LIMIT :: int where
  "MAX_TPM_LIMIT = 1000000000"

text \<open>The literal \<^verbatim>\<open>0.01\<close>: the double nearest to one hundredth.\<close>

definition MIN_BUDGET_USD :: number where
  "MIN_BUDGET_USD = toNumber (1 / 100)"

definition finiteInteger :: "number option \<Rightarrow> string \<Rightarrow> int \<Rightarrow> number option res" where
  "finiteInteger value label mx =
     (case value of
        None \<Rightarrow> Inr None
      | Some v \<Rightarrow>
          throwIf (\<not> isSafeInteger v \<or> num_lt v (num 1) \<or> num_lt (num mx) v)
            (PlainError (label @ '' must be a whole number between 1 and '' @ show_int mx))
            (Inr (Some v)))"

definition checkTokenTtl :: "number \<Rightarrow> unit res" where
  "checkTokenTtl t =
     throwIf (\<not> isSafeInteger t \<or> num_lt t (num MIN_TOKEN_TTL_MINUTES) \<or>
              num_lt (num MAX_TOKEN_TTL_MINUTES) t)
       (PlainError (''tokenTtlMinutes must be a whole number between '' @
          show_int MIN_TOKEN_TTL_MINUTES @ '' and '' @ show_int MAX_TOKEN_TTL_MINUTES))
       (Inr ())"

text \<open>\<^verbatim>\<open>Math.round(maxUsd * 1_000_000) / 1_000_000\<close> in double arithmetic.\<close>

definition micro_usd :: "number \<Rightarrow> number" where
  "micro_usd m = num_div (round_js (num_mult m (Fin 1000000))) 1000000"

text \<open>The callback of \<^verbatim>\<open>source.map\<close>, with the set \<^verbatim>\<open>seen\<close> it closes over.\<close>

definition normalizeBudgetLimit ::
  "string set \<Rightarrow> AccessBudgetLimitInput \<Rightarrow> StoredAccessBudgetLimit res" where
  "normalizeBudgetLimit seen entry =
     (case bi_window entry of
        JStr w \<Rightarrow>
          throwIf (w \<notin> set ACCESS_BUDGET_WINDOWS)
            (PlainError ''budget window must be one of: 5h, week, month'')
         (throwIf (w \<in> seen) (PlainError (''duplicate budget window: '' @ w))
         (throwIf (\<not> isFinite (bi_maxUsd entry) \<or> num_lt (bi_maxUsd entry) MIN_BUDGET_USD \<or>
                   num_lt (num MAX_BUDGET_USD) (bi_maxUsd entry))
            (PlainError (''budget maxUsd must be between 0.01 and '' @ show_int MAX_BUDGET_USD))
         (Inr \<lparr>bl_window = w, bl_maxUsd = micro_usd (bi_maxUsd entry),
               bl_budgetDuration = WINDOW_DURATION w\<rparr>)))
      | _ \<Rightarrow> Inl (PlainError ''budget window must be one of: 5h, week, month''))"

fun normalizeBudgetLimits ::
  "string set \<Rightarrow> AccessBudgetLimitInput list \<Rightarrow> StoredAccessBudgetLimit list res" where
  "normalizeBudgetLimits seen [] = Inr []"
| "normalizeBudgetLimits seen (e # es) =
     bindR (normalizeBudgetLimit seen e) (\<lambda>b.
     bindR (normalizeBudgetLimits (insert (bl_window b) seen) es) (\<lambda>bs. Inr (b # bs)))"

definition normalizeAccessKeyPolicy ::
  "AccessKeyPolicyInput \<Rightarrow> number \<Rightarrow> StoredAccessKeyPolicy res" where
  "normalizeAccessKeyPolicy input defaultTokenTtlMinutes =
     (let tokenNeverExpires = (ki_tokenNeverExpires input = Some True);
          tokenTtlMinutes =
            (if tokenNeverExpires then None
             else Some (nullish (ki_tokenTtlMinutes input) defaultTokenTtlMinutes));
          source = nullish (ki_budgetLimits input) []
      in throwIf (tokenNeverExpires \<and> ki_tokenTtlMinutes input \<noteq> None)
           (PlainError ''tokenNeverExpires cannot be combined with tokenTtlMinutes'')
        (bindR (case tokenTtlMinutes of None \<Rightarrow> Inr () | Some t \<Rightarrow> checkTokenTtl t) (\<lambda>_.
         throwIf (length ACCESS_BUDGET_WINDOWS < length source)
           (PlainError ''budgetLimits may contain at most one 5h, week, and month window'')
        (bindR (normalizeBudgetLimits {} source) (\<lambda>budgetLimits.
         bindR (finiteInteger (ki_rpmLimit input) ''rpmLimit'' MAX_RPM_LIMIT) (\<lambda>rpm.
         bindR (finiteInteger (ki_tpmLimit input) ''tpmLimit'' MAX_TPM_LIMIT) (\<lambda>tpm.
         Inr \<lparr>kp_tokenTtlMinutes = tokenTtlMinutes, kp_tokenNeverExpires = tokenNeverExpires,
              kp_budgetLimits = budgetLimits, kp_rpmLimit = rpm, kp_tpmLimit = tpm\<rparr>)))))))"

definition gatewayLimits :: "StoredAccessKeyPolicy \<Rightarrow> GatewayKeyLimits" where
  "gatewayLimits policy =
     \<lparr>gk_budgetLimits =
        map (\<lambda>e. \<lparr>gl_budgetDuration = bl_budgetDuration e, gl_maxBudgetUsd = bl_maxUsd e\<rparr>)
          (kp_budgetLimits policy),
      gk_rpmLimit = kp_rpmLimit policy, gk_tpmLimit = kp_tpmLimit policy\<rparr>"

text \<open>The columns of an enrollment code or a device token the policy is read back from.\<close>

record StoredPolicyColumns =
  pc_tokenTtlMinutes :: "number option"
  pc_tokenNeverExpires :: "bool option"
  pc_budgetLimits :: jsval
  pc_rpmLimit :: "number option"
  pc_tpmLimit :: "number option"

definition parseStoredBudgetLimit :: "jsval \<Rightarrow> AccessBudgetLimitInput res" where
  "parseStoredBudgetLimit entry =
     (case entry of
        JObj _ \<Rightarrow> Inr \<lparr>bi_window = prop_of entry ''window'',
                      bi_maxUsd = Number_js (prop_of entry ''maxUsd'')\<rparr>
      | JArr _ \<Rightarrow> Inr \<lparr>bi_window = prop_of entry ''window'',
                      bi_maxUsd = Number_js (prop_of entry ''maxUsd'')\<rparr>
      | _ \<Rightarrow> Inl (PlainError ''stored budget limit is malformed''))"

definition parseStoredAccessKeyPolicy ::
  "StoredPolicyColumns \<Rightarrow> number \<Rightarrow> StoredAccessKeyPolicy res" where
  "parseStoredAccessKeyPolicy input defaultTokenTtlMinutes =
     (let rawLimits = (case pc_budgetLimits input of JArr vs \<Rightarrow> vs | _ \<Rightarrow> []);
          never = (pc_tokenNeverExpires input = Some True)
      in bindR (mapR parseStoredBudgetLimit rawLimits) (\<lambda>limits.
         normalizeAccessKeyPolicy
           \<lparr>ki_tokenTtlMinutes =
              (if never then None
               else Some (nullish (pc_tokenTtlMinutes input) defaultTokenTtlMinutes)),
            ki_tokenNeverExpires = (if never then Some True else None),
            ki_budgetLimits = Some limits,
            ki_rpmLimit = pc_rpmLimit input, ki_tpmLimit = pc_tpmLimit input\<rparr>
           defaultTokenTtlMinutes))"

text \<open>How a policy is written to its columns (\<^verbatim>\<open>budgetLimits\<close> as JSON).\<close>

definition duration_text :: "budgetDuration \<Rightarrow> string" where
  "duration_text d = (case d of D5h \<Rightarrow> ''5h'' | D7d \<Rightarrow> ''7d'' | D30d \<Rightarrow> ''30d'')"

definition storedBudgetJson :: "StoredAccessBudgetLimit \<Rightarrow> jsval" where
  "storedBudgetJson b =
     JObj [(''window'', JStr (bl_window b)), (''maxUsd'', JNum (bl_maxUsd b)),
           (''budgetDuration'', JStr (duration_text (bl_budgetDuration b)))]"

definition storePolicy :: "StoredAccessKeyPolicy \<Rightarrow> StoredPolicyColumns" where
  "storePolicy p =
     \<lparr>pc_tokenTtlMinutes = kp_tokenTtlMinutes p, pc_tokenNeverExpires = Some (kp_tokenNeverExpires p),
      pc_budgetLimits = JArr (map storedBudgetJson (kp_budgetLimits p)),
      pc_rpmLimit = kp_rpmLimit p, pc_tpmLimit = kp_tpmLimit p\<rparr>"

subsection \<open>Well-formed policies\<close>

definition wf_rate :: "int \<Rightarrow> number option \<Rightarrow> bool" where
  "wf_rate mx v \<longleftrightarrow> (case v of None \<Rightarrow> True | Some n \<Rightarrow> \<exists>i. n = num i \<and> 1 \<le> i \<and> i \<le> mx)"

definition wf_budget :: "StoredAccessBudgetLimit \<Rightarrow> bool" where
  "wf_budget b \<longleftrightarrow>
     bl_window b \<in> set ACCESS_BUDGET_WINDOWS \<and>
     bl_budgetDuration b = WINDOW_DURATION (bl_window b) \<and>
     num_le MIN_BUDGET_USD (bl_maxUsd b) \<and> num_le (bl_maxUsd b) (num MAX_BUDGET_USD)"

definition wf_policy :: "StoredAccessKeyPolicy \<Rightarrow> bool" where
  "wf_policy p \<longleftrightarrow>
     (case kp_tokenTtlMinutes p of
        None \<Rightarrow> kp_tokenNeverExpires p
      | Some t \<Rightarrow> \<not> kp_tokenNeverExpires p \<and>
          (\<exists>i. t = num i \<and> MIN_TOKEN_TTL_MINUTES \<le> i \<and> i \<le> MAX_TOKEN_TTL_MINUTES)) \<and>
     (\<forall>b \<in> set (kp_budgetLimits p). wf_budget b) \<and>
     distinct (map bl_window (kp_budgetLimits p)) \<and>
     wf_rate MAX_RPM_LIMIT (kp_rpmLimit p) \<and> wf_rate MAX_TPM_LIMIT (kp_tpmLimit p)"

lemmas policy_consts = MIN_TOKEN_TTL_MINUTES_def MAX_TOKEN_TTL_MINUTES_def MAX_BUDGET_USD_def
  MAX_RPM_LIMIT_def MAX_TPM_LIMIT_def

lemma finiteInteger_wf:
  assumes "finiteInteger v l mx = Inr r"
  shows "r = v \<and> wf_rate mx r"
  using assms
  by (cases v) (auto simp: finiteInteger_def wf_rate_def isSafeInteger_iff throwIf_def
      split: if_splits)

lemma wf_rate_finiteInteger:
  "wf_rate mx v \<Longrightarrow> mx \<le> 9007199254740991 \<Longrightarrow> finiteInteger v l mx = Inr v"
  by (auto simp: finiteInteger_def wf_rate_def isSafeInteger_iff split: option.splits)

lemma checkTokenTtl_iff:
  "checkTokenTtl t = Inr () \<longleftrightarrow>
     (\<exists>i. t = num i \<and> MIN_TOKEN_TTL_MINUTES \<le> i \<and> i \<le> MAX_TOKEN_TTL_MINUTES)"
  by (auto simp: checkTokenTtl_def throwIf_eq_Inr isSafeInteger_iff policy_consts)

subsection \<open>Rounding to whole millionths\<close>

text \<open>
  Accepted limits lie on the grid of whole millionths of a dollar, rounded to doubles; rounding a
  grid point again gives the same point, so a stored limit does not drift.
\<close>

definition grid :: "int \<Rightarrow> number" where
  "grid k = toNumber (of_int k / 1000000)"

lemma toNumber_small:
  assumes "1 / 1000 \<le> x" and "x \<le> 2 ^ 60"
  shows "toNumber x = Fin (fl64 x)" and "\<bar>fl64 x - x\<bar> \<le> x / 2 ^ 53"
proof -
  have "pow2 (- 1022) \<le> pow2 (- 10)" by (intro pow2_mono) simp
  also have "pow2 (- 10) = 1 / 1024" by (simp add: pow2_def)
  finally have "pow2 (- 1022) \<le> x" using assms by simp
  then show e: "\<bar>fl64 x - x\<bar> \<le> x / 2 ^ 53" by (rule fl64_error)
  have "x / 2 ^ 53 \<le> 2 ^ 7" using assms(2) by simp
  then have "fl64 x \<le> 2 ^ 60 + 2 ^ 7" "0 \<le> fl64 x" using e assms by (auto simp: abs_if split: if_splits)
  moreover have "(2::rat) ^ 60 + 2 ^ 7 < 2 ^ 1024" by simp
  ultimately have "fl64 x < 2 ^ 1024" "0 \<le> fl64 x" by linarith+
  then show "toNumber x = Fin (fl64 x)"
    unfolding toNumber_def Let_def by (auto simp: not_le)
qed

lemma MIN_BUDGET_USD_near:
  obtains m where "MIN_BUDGET_USD = Fin m" "\<bar>m - 1 / 100\<bar> \<le> (1 / 100) / 2 ^ 53"
  unfolding MIN_BUDGET_USD_def using toNumber_small [of "1 / 100"] by simp

lemma grid_near:
  assumes "10000 \<le> k" "k \<le> 1000000000000"
  obtains u where "grid k = Fin u" "\<bar>u * 1000000 - of_int k\<bar> \<le> of_int k / 2 ^ 53"
proof
  have r: "(10000::rat) \<le> of_int k" "(of_int k::rat) \<le> 1000000000000"
    using assms by simp_all
  then show "grid k = Fin (fl64 (of_int k / 1000000))"
    unfolding grid_def by (intro toNumber_small) auto
  have "\<bar>fl64 (of_int k / 1000000) - of_int k / 1000000\<bar> \<le> (of_int k / 1000000) / 2 ^ 53"
    using r by (intro toNumber_small) auto
  then show "\<bar>fl64 (of_int k / 1000000) * 1000000 - of_int k\<bar> \<le> of_int k / 2 ^ 53"
    by (simp add: abs_if split: if_splits)
qed

lemma micro_usd_near:
  assumes "1 / 1000 \<le> m" "m \<le> 2 ^ 21" and "\<bar>m * 1000000 - of_int k\<bar> < 1 / 4" 
  shows "micro_usd (Fin m) = grid k"
proof -
  have m: "1 / 1000 \<le> m * 1000000" "m * 1000000 \<le> 2 ^ 41" using assms by simp_all
  have "toNumber (m * 1000000) = Fin (fl64 (m * 1000000))"
    and e: "\<bar>fl64 (m * 1000000) - m * 1000000\<bar> \<le> m * 1000000 / 2 ^ 53"
    using m by (intro toNumber_small; simp)+
  moreover have "m * 1000000 / 2 ^ 53 < 1 / 4" using m by simp
  then have "\<bar>of_int k - fl64 (m * 1000000)\<bar> < 1 / 2" using e assms(3) by (simp add: abs_if split: if_splits)
  ultimately show ?thesis
    by (simp only: micro_usd_def num_mult.simps round_js_unique num_div.simps grid_def)
qed

lemma micro_usd_grid: 
  assumes "10000 \<le> k" "k \<le> 1000000000000"
  shows "micro_usd (grid k) = grid k"
proof -
  obtain u where u: "grid k = Fin u" "\<bar>u * 1000000 - of_int k\<bar> \<le> of_int k / 2 ^ 53"
    using grid_near [OF assms] .
  have k: "(10000::rat) \<le> of_int k" "(of_int k::rat) \<le> 1000000000000" using assms by simp_all
  have "(of_int k :: rat) / 2 ^ 53 < 1 / 4" using k by simp
  with u have d: "\<bar>u * 1000000 - of_int k\<bar> < 1 / 4" by simp
  then have "1 / 1000 \<le> u" "u \<le> 2 ^ 21" using k by (simp_all add: abs_if split: if_splits)
  then show ?thesis unfolding u(1) using micro_usd_near d u(1) by simp
qed

lemma grid_range:
  assumes "10000 \<le> k" "k \<le> 1000000000000"
  shows "num_le MIN_BUDGET_USD (grid k)" and "num_le (grid k) (num MAX_BUDGET_USD)"
proof -
  obtain u where u: "grid k = Fin u" "\<bar>u * 1000000 - of_int k\<bar> \<le> of_int k / 2 ^ 53"
    using grid_near [OF assms] .
  have k: "(10000::rat) \<le> of_int k" "(of_int k::rat) \<le> 1000000000000" using assms by simp_all
  obtain m where m: "MIN_BUDGET_USD = Fin m" "\<bar>m - 1 / 100\<bar> \<le> (1 / 100) / 2 ^ 53"
    by (rule MIN_BUDGET_USD_near)
  show "num_le MIN_BUDGET_USD (grid k)"
  proof (cases "k = 10000")
    case True
    then show ?thesis by (simp add: grid_def MIN_BUDGET_USD_def num_le_Fin toNumber_small(1))
  next
    case False
    then have "10001 \<le> k" using assms by simp
    then have "(10001::rat) \<le> of_int k" by simp
    then show ?thesis using u k m unfolding u(1) m(1) num_le_Fin abs_le_iff by simp
  qed
  show "num_le (grid k) (num MAX_BUDGET_USD)"
  proof (cases "k = 1000000000000")
    case True
    then show ?thesis using toNumber_int [of 1000000] by (simp add: grid_def MAX_BUDGET_USD_def)
  next
    case False
    then have "k \<le> 999999999999" using assms by simp
    then have "(of_int k::rat) \<le> 999999999999" by simp
    then show ?thesis using u k by (simp add: MAX_BUDGET_USD_def abs_if split: if_splits)
  qed
qed

lemma micro_usd_on_grid:
  assumes "num_le MIN_BUDGET_USD (Fin m)" "num_le (Fin m) (num MAX_BUDGET_USD)"
  obtains k where "10000 \<le> k" "k \<le> 1000000000000" "micro_usd (Fin m) = grid k"
proof
  define y where "y = fl64 (m * 1000000)"
  define k where "k = \<lfloor>y + 1 / 2\<rfloor>"
  obtain m0 where m0: "MIN_BUDGET_USD = Fin m0" "\<bar>m0 - 1 / 100\<bar> \<le> (1 / 100) / 2 ^ 53"
    by (rule MIN_BUDGET_USD_near)
  have m: "1 / 100 - (1 / 100) / 2 ^ 53 \<le> m" "m \<le> 1000000"
    using assms m0(2) unfolding m0(1) num_le_Fin MAX_BUDGET_USD_def abs_le_iff by simp_all
  have "toNumber (m * 1000000) = Fin y" and e: "\<bar>y - m * 1000000\<bar> \<le> m * 1000000 / 2 ^ 53"
    unfolding y_def using m by (intro toNumber_small; simp)+
  then show "micro_usd (Fin m) = grid k"
    by (simp only: micro_usd_def num_mult.simps round_js.simps num_div.simps grid_def k_def)
  have "10000 - 1 / 2 \<le> y" "y \<le> 1000000000000 + 1 / 4"
    using e m by (simp_all add: abs_if split: if_splits)
  then show "10000 \<le> k" "k \<le> 1000000000000"
    unfolding k_def by (simp_all add: le_floor_iff floor_le_iff)
qed

subsection \<open>Accepted policies are well formed and read back unchanged\<close>

definition on_grid :: "StoredAccessBudgetLimit \<Rightarrow> bool" where
  "on_grid b \<longleftrightarrow> (\<exists>k. 10000 \<le> k \<and> k \<le> 1000000000000 \<and> bl_maxUsd b = grid k)"

lemma normalizeBudgetLimit_ok:
  assumes "normalizeBudgetLimit seen e = Inr b"
  shows "wf_budget b" and "on_grid b" and "bl_window b \<notin> seen" and "bi_window e = JStr (bl_window b)"
proof -
  obtain w m where *: "bi_window e = JStr w" "bi_maxUsd e = Fin m" "w \<in> set ACCESS_BUDGET_WINDOWS"
    "w \<notin> seen" "\<not> num_lt (Fin m) MIN_BUDGET_USD" "\<not> num_lt (num MAX_BUDGET_USD) (Fin m)"
    "b = \<lparr>bl_window = w, bl_maxUsd = micro_usd (Fin m), bl_budgetDuration = WINDOW_DURATION w\<rparr>"
    using assms
    by (auto simp: normalizeBudgetLimit_def throwIf_eq_Inr isFinite_iff split: jsval.splits)
  obtain m0 where m0: "MIN_BUDGET_USD = Fin m0" by (rule MIN_BUDGET_USD_near)
  have "num_le MIN_BUDGET_USD (Fin m)" "num_le (Fin m) (num MAX_BUDGET_USD)"
    using *(5,6) unfolding m0 by simp_all
  then obtain k where k: "10000 \<le> k" "k \<le> 1000000000000" "micro_usd (Fin m) = grid k"
    by (rule micro_usd_on_grid)
  then show "on_grid b" using * by (auto simp: on_grid_def)
  show "wf_budget b" using * k grid_range [OF k(1,2)] by (simp add: wf_budget_def)
  show "bl_window b \<notin> seen" "bi_window e = JStr (bl_window b)" using * by simp_all
qed

lemma normalizeBudgetLimits_ok:
  assumes "normalizeBudgetLimits seen es = Inr bs"
  shows "(\<forall>b \<in> set bs. wf_budget b \<and> on_grid b) \<and> distinct (map bl_window bs) \<and>
    bl_window ` set bs \<inter> seen = {} \<and> length bs = length es"
  using assms
proof (induction es arbitrary: seen bs)
  case (Cons e es)
  then obtain b bs' where b: "normalizeBudgetLimit seen e = Inr b" "bs = b # bs'"
    "normalizeBudgetLimits (insert (bl_window b) seen) es = Inr bs'"
    by (auto simp: bindR_eq_Inr)
  show ?case using Cons.IH [OF b(3)] normalizeBudgetLimit_ok [OF b(1)] by (auto simp: b(2))
qed simp

lemma storedBudgetJson_parse:
  "parseStoredBudgetLimit (storedBudgetJson b) =
     Inr \<lparr>bi_window = JStr (bl_window b), bi_maxUsd = bl_maxUsd b\<rparr>"
  by (simp add: parseStoredBudgetLimit_def storedBudgetJson_def prop_of_def)

lemma normalizeBudgetLimit_fix:
  assumes "wf_budget b" "on_grid b" "bl_window b \<notin> seen"
  shows "normalizeBudgetLimit seen \<lparr>bi_window = JStr (bl_window b), bi_maxUsd = bl_maxUsd b\<rparr> = Inr b"
proof -
  obtain k where k: "10000 \<le> k" "k \<le> 1000000000000" "bl_maxUsd b = grid k"
    using assms by (auto simp: on_grid_def)
  obtain u where u: "grid k = Fin u" using grid_near [OF k(1,2)] by blast
  obtain m0 where m0: "MIN_BUDGET_USD = Fin m0" by (rule MIN_BUDGET_USD_near)
  have r: "m0 \<le> u" "u \<le> of_int MAX_BUDGET_USD" using grid_range [OF k(1,2)] by (simp_all add: u m0)
  have m: "micro_usd (Fin u) = Fin u" using micro_usd_grid [OF k(1,2)] by (simp add: u)
  show ?thesis
    using assms r
    by (simp add: normalizeBudgetLimit_def k(3) u m m0 wf_budget_def throwIf_def isFinite_iff not_less)
qed

lemma normalizeBudgetLimits_fix:
  assumes "\<forall>b \<in> set bs. wf_budget b \<and> on_grid b" "distinct (map bl_window bs)"
    "bl_window ` set bs \<inter> seen = {}"
  shows "normalizeBudgetLimits seen
    (map (\<lambda>b. \<lparr>bi_window = JStr (bl_window b), bi_maxUsd = bl_maxUsd b\<rparr>) bs) = Inr bs"
  using assms
proof (induction bs arbitrary: seen)
  case (Cons b bs)
  then show ?case by (auto simp: normalizeBudgetLimit_fix)
qed simp

lemma wf_windows_length:
  assumes "\<forall>b \<in> set bs. wf_budget b" "distinct (map bl_window bs)"
  shows "length bs \<le> length ACCESS_BUDGET_WINDOWS"
proof -
  have "length bs = card (bl_window ` set bs)"
    using assms(2) distinct_card [of "map bl_window bs"] by simp
  also have "\<dots> \<le> card (set ACCESS_BUDGET_WINDOWS)"
    using assms(1) by (intro card_mono) (auto simp: wf_budget_def)
  also have "\<dots> \<le> length ACCESS_BUDGET_WINDOWS" by (rule card_length)
  finally show ?thesis .
qed

lemma normalizeAccessKeyPolicy_ok:
  assumes "normalizeAccessKeyPolicy input d = Inr p"
  shows "wf_policy p \<and> (\<forall>b \<in> set (kp_budgetLimits p). on_grid b)"
proof -
  let ?never = "ki_tokenNeverExpires input = Some True"
  let ?ttl = "nullish (ki_tokenTtlMinutes input) d"
  obtain bs where *: "normalizeBudgetLimits {} (nullish (ki_budgetLimits input) []) = Inr bs"
    "?never \<or> checkTokenTtl ?ttl = Inr ()"
    "finiteInteger (ki_rpmLimit input) ''rpmLimit'' MAX_RPM_LIMIT = Inr (kp_rpmLimit p)"
    "finiteInteger (ki_tpmLimit input) ''tpmLimit'' MAX_TPM_LIMIT = Inr (kp_tpmLimit p)"
    "kp_budgetLimits p = bs" "kp_tokenNeverExpires p = ?never"
    "kp_tokenTtlMinutes p = (if ?never then None else Some ?ttl)"
    using assms
    by (auto simp: normalizeAccessKeyPolicy_def Let_def throwIf_eq_Inr bindR_eq_Inr split: if_splits)
  show ?thesis
    using normalizeBudgetLimits_ok [OF *(1)] *(2,5,6,7) finiteInteger_wf [OF *(3)]
      finiteInteger_wf [OF *(4)]
    by (auto simp: wf_policy_def checkTokenTtl_iff)
qed

lemma parse_store_fix:
  assumes "wf_policy p" "\<forall>b \<in> set (kp_budgetLimits p). on_grid b"
  shows "parseStoredAccessKeyPolicy (storePolicy p) d = Inr p"
proof -
  have b: "\<forall>b \<in> set (kp_budgetLimits p). wf_budget b" "distinct (map bl_window (kp_budgetLimits p))"
    using assms by (simp_all add: wf_policy_def)
  have lim: "normalizeBudgetLimits {}
      (map (\<lambda>b. \<lparr>bi_window = JStr (bl_window b), bi_maxUsd = bl_maxUsd b\<rparr>) (kp_budgetLimits p))
      = Inr (kp_budgetLimits p)"
    using b assms(2) by (intro normalizeBudgetLimits_fix) auto
  have raw: "mapR parseStoredBudgetLimit (map storedBudgetJson (kp_budgetLimits p)) =
      Inr (map (\<lambda>b. \<lparr>bi_window = JStr (bl_window b), bi_maxUsd = bl_maxUsd b\<rparr>) (kp_budgetLimits p))"
    by (induction "kp_budgetLimits p") (simp_all add: mapR_eq_Inr list_all2_conv_all_nth storedBudgetJson_parse)
  have rates: "finiteInteger (kp_rpmLimit p) l MAX_RPM_LIMIT = Inr (kp_rpmLimit p)"
    "finiteInteger (kp_tpmLimit p) l MAX_TPM_LIMIT = Inr (kp_tpmLimit p)" for l
    using assms(1) by (simp_all add: wf_policy_def wf_rate_finiteInteger policy_consts)
  have ttl: "checkTokenTtl t = Inr ()" if "kp_tokenTtlMinutes p = Some t" for t
    using assms(1) that by (simp add: wf_policy_def checkTokenTtl_iff)
  show ?thesis
    using assms(1) wf_windows_length [OF b]
    by (cases "kp_tokenTtlMinutes p")
      (simp_all add: parseStoredAccessKeyPolicy_def normalizeAccessKeyPolicy_def storePolicy_def raw
        lim rates ttl wf_policy_def)
qed

subsection \<open>What is accepted\<close>

definition limit_in_range :: "number \<Rightarrow> bool" where
  "limit_in_range m \<longleftrightarrow> num_le MIN_BUDGET_USD m \<and> num_le m (num MAX_BUDGET_USD)"

definition acceptable_policy :: "AccessKeyPolicyInput \<Rightarrow> number \<Rightarrow> bool" where
  "acceptable_policy input d \<longleftrightarrow>
     (let es = nullish (ki_budgetLimits input) []
      in (if ki_tokenNeverExpires input = Some True then ki_tokenTtlMinutes input = None
          else \<exists>i. nullish (ki_tokenTtlMinutes input) d = num i \<and> 5 \<le> i \<and> i \<le> 525600) \<and>
         bi_window ` set es \<subseteq> JStr ` {''5h'', ''week'', ''month''} \<and>
         distinct (map bi_window es) \<and> (\<forall>e \<in> set es. limit_in_range (bi_maxUsd e)) \<and>
         wf_rate 1000000 (ki_rpmLimit input) \<and> wf_rate 1000000000 (ki_tpmLimit input))"

lemma limit_in_range_iff:
  "limit_in_range m \<longleftrightarrow>
     isFinite m \<and> \<not> num_lt m MIN_BUDGET_USD \<and> \<not> num_lt (num MAX_BUDGET_USD) m"
proof -
  obtain m0 where m0: "MIN_BUDGET_USD = Fin m0" by (rule MIN_BUDGET_USD_near)
  show ?thesis
    unfolding limit_in_range_def m0 by (cases m) (auto simp: num_le_def isFinite_iff)
qed

lemma normalizeBudgetLimit_Ex:
  "(\<exists>b. normalizeBudgetLimit seen e = Inr b) \<longleftrightarrow>
     bi_window e \<in> JStr ` (set ACCESS_BUDGET_WINDOWS - seen) \<and> limit_in_range (bi_maxUsd e)"
  by (cases "bi_window e")
    (auto simp: normalizeBudgetLimit_def throwIf_eq_Inr limit_in_range_iff)

lemma normalizeBudgetLimits_Ex:
  "(\<exists>bs. normalizeBudgetLimits seen es = Inr bs) \<longleftrightarrow>
     bi_window ` set es \<subseteq> JStr ` (set ACCESS_BUDGET_WINDOWS - seen) \<and>
     distinct (map bi_window es) \<and> (\<forall>e \<in> set es. limit_in_range (bi_maxUsd e))"
proof (induction es arbitrary: seen)
  case (Cons e es)
  have "(\<exists>bs. normalizeBudgetLimits seen (e # es) = Inr bs) \<longleftrightarrow>
      (\<exists>b. normalizeBudgetLimit seen e = Inr b \<and>
        (\<exists>bs. normalizeBudgetLimits (insert (bl_window b) seen) es = Inr bs))"
    by (auto simp: bindR_eq_Inr)
  also have "\<dots> \<longleftrightarrow> (\<exists>b. normalizeBudgetLimit seen e = Inr b) \<and>
      bi_window ` set es \<subseteq> JStr ` (set ACCESS_BUDGET_WINDOWS - seen) - {bi_window e} \<and>
      distinct (map bi_window es) \<and> (\<forall>e \<in> set es. limit_in_range (bi_maxUsd e))"
    unfolding Cons.IH using normalizeBudgetLimit_ok(4) by fastforce
  also have "\<dots> \<longleftrightarrow> bi_window ` set (e # es) \<subseteq> JStr ` (set ACCESS_BUDGET_WINDOWS - seen) \<and>
     distinct (map bi_window (e # es)) \<and> (\<forall>e \<in> set (e # es). limit_in_range (bi_maxUsd e))"
    unfolding normalizeBudgetLimit_Ex by (auto simp: image_iff)
  finally show ?case .
qed simp

lemma windows_length:
  assumes "W \<subseteq> JStr ` set ACCESS_BUDGET_WINDOWS" "distinct ws" "set ws = W"
  shows "length ws \<le> length ACCESS_BUDGET_WINDOWS"
proof -
  have "length ws = card W" using assms distinct_card by fastforce
  also have "\<dots> \<le> card (JStr ` set ACCESS_BUDGET_WINDOWS)" using assms by (intro card_mono) auto
  also have "\<dots> \<le> length ACCESS_BUDGET_WINDOWS"
    by (rule order_trans [OF card_image_le card_length]) simp
  finally show ?thesis .
qed

lemma finiteInteger_Ex:
  "mx \<le> 9007199254740991 \<Longrightarrow> (\<exists>r. finiteInteger v l mx = Inr r) \<longleftrightarrow> wf_rate mx v"
  using finiteInteger_wf [of v l mx] wf_rate_finiteInteger [of mx v l] by blast

text \<open>
  Property C1. \<^verbatim>\<open>normalizeAccessKeyPolicy\<close> returns exactly on the acceptable inputs: a lifetime
  of 5 minutes to a year or an explicit never-expires (not both), at most one limit per known
  window, each between one cent and a million dollars, whole rates in range; otherwise it throws.
\<close>

theorem normalize_accepts_iff:
  "(\<exists>p. normalizeAccessKeyPolicy input d = Inr p) \<longleftrightarrow> acceptable_policy input d"
proof -
  let ?es = "nullish (ki_budgetLimits input) []"
  have len: "length ?es \<le> length ACCESS_BUDGET_WINDOWS"
    if "bi_window ` set ?es \<subseteq> JStr ` set ACCESS_BUDGET_WINDOWS" "distinct (map bi_window ?es)"
    using windows_length [OF that] by simp
  have "(\<exists>p. normalizeAccessKeyPolicy input d = Inr p) \<longleftrightarrow>
      (if ki_tokenNeverExpires input = Some True then ki_tokenTtlMinutes input = None
       else checkTokenTtl (nullish (ki_tokenTtlMinutes input) d) = Inr ()) \<and>
      length ?es \<le> length ACCESS_BUDGET_WINDOWS \<and>
      (\<exists>bs. normalizeBudgetLimits {} ?es = Inr bs) \<and>
      (\<exists>r. finiteInteger (ki_rpmLimit input) ''rpmLimit'' MAX_RPM_LIMIT = Inr r) \<and>
      (\<exists>r. finiteInteger (ki_tpmLimit input) ''tpmLimit'' MAX_TPM_LIMIT = Inr r)"
    by (auto simp: normalizeAccessKeyPolicy_def Let_def throwIf_eq_Inr bindR_eq_Inr)
  also have "\<dots> \<longleftrightarrow> acceptable_policy input d"
    unfolding normalizeBudgetLimits_Ex checkTokenTtl_iff acceptable_policy_def Let_def
    using len by (auto simp: finiteInteger_Ex policy_consts ACCESS_BUDGET_WINDOWS_def)
  finally show ?thesis .
qed

text \<open>
  What \<^verbatim>\<open>normalizeAccessKeyPolicy\<close> returns is within the documented bounds: the
  lifetime is absent exactly for a never-expiring key, every spend limit is between the two bounds
  and carries its window's duration, no window occurs twice, and the rates are whole and in range.
\<close>

theorem normalize_well_formed:
  assumes "normalizeAccessKeyPolicy input d = Inr p"
  shows "wf_policy p"
  using normalizeAccessKeyPolicy_ok [OF assms] by blast

text \<open>
  A policy written to its columns and read back is the policy that was written,
  whatever default lifetime the reader has: rounding to millionths in double arithmetic is stable.
\<close>

theorem stored_policy_roundtrip:
  assumes "normalizeAccessKeyPolicy input d = Inr p"
  shows "parseStoredAccessKeyPolicy (storePolicy p) d' = Inr p"
  using normalizeAccessKeyPolicy_ok [OF assms] by (blast intro: parse_store_fix)

subsection \<open>A sample policy\<close>

definition sample_input :: AccessKeyPolicyInput where
  "sample_input =
     \<lparr>ki_tokenTtlMinutes = Some (num 60), ki_tokenNeverExpires = None,
      ki_budgetLimits = Some [\<lparr>bi_window = JStr ''week'', bi_maxUsd = num 25\<rparr>,
                              \<lparr>bi_window = JStr ''5h'', bi_maxUsd = num 3\<rparr>],
      ki_rpmLimit = Some (num 120), ki_tpmLimit = None\<rparr>"

definition sample_policy :: StoredAccessKeyPolicy where
  "sample_policy =
     \<lparr>kp_tokenTtlMinutes = Some (num 60), kp_tokenNeverExpires = False,
      kp_budgetLimits = [\<lparr>bl_window = ''week'', bl_maxUsd = num 25, bl_budgetDuration = D7d\<rparr>,
                         \<lparr>bl_window = ''5h'', bl_maxUsd = num 3, bl_budgetDuration = D5h\<rparr>],
      kp_rpmLimit = Some (num 120), kp_tpmLimit = None\<rparr>"

lemma micro_usd_int: "0 \<le> i \<Longrightarrow> i \<le> 1000000 \<Longrightarrow> micro_usd (num i) = num i"
proof -
  assume i: "0 \<le> i" "i \<le> 1000000"
  have "round_js (num (i * 1000000)) = num (i * 1000000)" by (rule round_js_unique) simp
  with i show ?thesis
    using toNumber_int [of "i * 1000000"] toNumber_int [of i] by (simp add: micro_usd_def)
qed

lemma MIN_BUDGET_USD_le_int: "1 \<le> i \<Longrightarrow> \<not> num_lt (num i) MIN_BUDGET_USD"
proof -
  assume "1 \<le> i"
  then have i: "(1::rat) \<le> of_int i" by simp
  obtain m0 where m0: "MIN_BUDGET_USD = Fin m0" "\<bar>m0 - 1 / 100\<bar> \<le> (1 / 100) / 2 ^ 53"
    by (rule MIN_BUDGET_USD_near)
  show ?thesis using i m0(2) unfolding m0(1) abs_le_iff by simp
qed

lemma sample_normalizes: "normalizeAccessKeyPolicy sample_input (num 10080) = Inr sample_policy"
  using MIN_BUDGET_USD_le_int [of 25] MIN_BUDGET_USD_le_int [of 3]
    micro_usd_int [of 25] micro_usd_int [of 3]
  by (simp add: sample_input_def sample_policy_def normalizeAccessKeyPolicy_def Let_def
      checkTokenTtl_def finiteInteger_def normalizeBudgetLimit_def isFinite_iff isSafeInteger_def
      is_int_def policy_consts ACCESS_BUDGET_WINDOWS_def WINDOW_DURATION_def throwIf_def)

theorem normalize_well_formed_witness: "wf_policy sample_policy"
  by (rule normalize_well_formed [OF sample_normalizes])

theorem stored_policy_roundtrip_witness:
  "parseStoredAccessKeyPolicy (storePolicy sample_policy) (num 5) = Inr sample_policy"
  by (rule stored_policy_roundtrip [OF sample_normalizes])

end
