(* ===== verification/TokenDiscipline.thy ===== *)
theory TokenDiscipline
  imports KeyPolicy
begin

section \<open>Device-token discipline (security/token-discipline.ts)\<close>

text \<open>
  The single check behind every device-token use: revoked, expired and over-cap tokens are refused.
  The environment is a map from variable names to strings. The live-spend lookup is a parameter,
  \<^typ>\<open>'t \<Rightarrow> number res\<close> when it is supplied (it may itself throw).
\<close>

type_synonym env = "string \<Rightarrow> string option"

record ValidatableToken =
  vt_revokedAt :: "time option"
  vt_expiresAt :: "time option"
  vt_deviceId :: "string option"
  vt_gatewayKeyId :: "string option"

definition DEFAULT_DEVICE_TOKEN_TTL_MINUTES :: int where
  "DEFAULT_DEVICE_TOKEN_TTL_MINUTES = 7 * 24 * 60"

text \<open>\<^verbatim>\<open>Number(env.X)\<close>: NaN when the variable is not set.\<close>

definition envNumber :: "env \<Rightarrow> string \<Rightarrow> number" where
  "envNumber env k = (case env k of None \<Rightarrow> NaN | Some s \<Rightarrow> stringToNumber s)"

definition deviceTokenTtlMinutes :: "env \<Rightarrow> number" where
  "deviceTokenTtlMinutes env =
     (let v = envNumber env ''HARA_DEVICE_TOKEN_TTL_MINUTES''
      in if isFinite v \<and> num_lt (num 0) v then v else num DEFAULT_DEVICE_TOKEN_TTL_MINUTES)"

text \<open>\<^verbatim>\<open>new Date(now.getTime() + ttlMinutes * 60_000)\<close>; None is an invalid date.\<close>

definition deviceTokenExpiry :: "time \<Rightarrow> number \<Rightarrow> time option" where
  "deviceTokenExpiry now ttlMinutes =
     timeClip (num_add (num now) (num_mult ttlMinutes (Fin 60000)))"

definition deviceSpendCapUsd :: "env \<Rightarrow> number" where
  "deviceSpendCapUsd env =
     (let v = envNumber env ''HARA_DEVICE_SPEND_CAP_USD''
      in if isFinite v \<and> num_lt (num 0) v then v else num 0)"

type_synonym SpendChecker = "ValidatableToken \<Rightarrow> number res"

definition assertTokenUsable ::
  "time \<Rightarrow> env \<Rightarrow> SpendChecker option \<Rightarrow> ValidatableToken option \<Rightarrow> unit res" where
  "assertTokenUsable now env spendChecker token =
     (case token of
        None \<Rightarrow> Inl (Unauthorized ''revoked or unknown token'')
      | Some t \<Rightarrow>
          throwIf (vt_revokedAt t \<noteq> None) (Unauthorized ''revoked or unknown token'')
         (throwIf (case vt_expiresAt t of None \<Rightarrow> False | Some e \<Rightarrow> e \<le> now)
            (Unauthorized ''token expired - re-enroll the device'')
         (let cap = deviceSpendCapUsd env
          in case spendChecker of
               None \<Rightarrow> Inr ()
             | Some chk \<Rightarrow>
                 if num_lt (num 0) cap
                 then bindR (chk t) (\<lambda>spent.
                        throwIf (num_le cap spent)
                          (Forbidden (''device spend cap reached ($'' @ toFixed2 spent @ '' / $'' @
                             toFixed2 cap @ '')'')) (Inr ()))
                 else Inr ())))"

definition token_live :: "time \<Rightarrow> ValidatableToken \<Rightarrow> bool" where
  "token_live now t \<longleftrightarrow>
     vt_revokedAt t = None \<and> (\<forall>e. vt_expiresAt t = Some e \<longrightarrow> now < e)"

lemma deviceSpendCap_nonneg: "num_le (num 0) (deviceSpendCapUsd env)"
  by (auto simp: deviceSpendCapUsd_def Let_def num_le_def)

lemma deviceSpendCap_finite: "\<exists>c. deviceSpendCapUsd env = Fin c \<and> 0 \<le> c"
  by (auto simp: deviceSpendCapUsd_def Let_def isFinite_iff intro: less_imp_le)

text \<open>Without a spend lookup (how every caller of the repository uses it) the check is liveness.\<close>

lemma assertTokenUsable_no_checker:
  "assertTokenUsable now env None (Some t) = Inr () \<longleftrightarrow> token_live now t"
  by (auto simp: assertTokenUsable_def token_live_def throwIf_eq_Inr split: option.splits)

lemma assertTokenUsable_iff:
  "assertTokenUsable now env chk tk = Inr () \<longleftrightarrow>
     (\<exists>t. tk = Some t \<and> token_live now t \<and>
        (\<forall>c. chk = Some c \<and> num_lt (num 0) (deviceSpendCapUsd env) \<longrightarrow>
           (\<exists>spent. c t = Inr spent \<and> \<not> num_le (deviceSpendCapUsd env) spent)))"
  by (auto simp: assertTokenUsable_def token_live_def throwIf_eq_Inr bindR_eq_Inr Let_def
      split: option.splits)

lemma token_live_antimono: "token_live now t \<Longrightarrow> now' \<le> now \<Longrightarrow> token_live now' t"
  by (fastforce simp: token_live_def)

text \<open>
  Property C2. A device token passes exactly when it is known, not revoked, not expired at the
  time of the check, and, when both a cap and a spend lookup are configured, the lookup answers
  with a spend below the cap.
\<close>

theorem token_accepted_iff:
  "assertTokenUsable now env chk tk = Inr () \<longleftrightarrow>
     (\<exists>t. tk = Some t \<and> vt_revokedAt t = None \<and>
        \<not> (\<exists>e. vt_expiresAt t = Some e \<and> e \<le> now) \<and>
        (chk = None \<or> deviceSpendCapUsd env = num 0 \<or>
         (\<exists>spent. the chk t = Inr spent \<and> \<not> num_le (deviceSpendCapUsd env) spent)))"
proof -
  obtain c where c: "deviceSpendCapUsd env = Fin c" "0 \<le> c" using deviceSpendCap_finite by blast
  show ?thesis
    unfolding assertTokenUsable_iff token_live_def c(1)
    using c(2) by (cases chk) (auto simp: not_le not_less)
qed

text \<open>
  A token refused for its own state (revoked, unknown or expired) stays refused at
  every later time, whatever the environment: expiry and revocation are permanent.
\<close>

theorem token_refusal_permanent:
  assumes "assertTokenUsable now env None tk \<noteq> Inr ()" and "now \<le> now'"
  shows "assertTokenUsable now' env' chk tk \<noteq> Inr ()"
  using assms token_live_antimono [of now' _ now]
  by (cases tk) (auto simp: assertTokenUsable_iff)

definition expired_sample :: ValidatableToken where
  "expired_sample =
     \<lparr>vt_revokedAt = None, vt_expiresAt = Some 1000, vt_deviceId = None, vt_gatewayKeyId = None\<rparr>"

theorem token_refusal_permanent_witness:
  "assertTokenUsable 1000 Map.empty None (Some expired_sample) \<noteq> Inr () \<and>
   assertTokenUsable 5000 Map.empty None (Some expired_sample) \<noteq> Inr ()"
  using token_refusal_permanent [of 1000 Map.empty "Some expired_sample" 5000 Map.empty None]
  by (simp add: expired_sample_def assertTokenUsable_def)

text \<open>
  Property C3. For every lifetime a policy may carry, the expiry computed in double arithmetic is
  exactly that many minutes after now, so a fresh token is accepted before it and refused from it on.
\<close>

theorem token_expiry_exact:
  assumes "MIN_TOKEN_TTL_MINUTES \<le> i" "i \<le> MAX_TOKEN_TTL_MINUTES" "0 \<le> now" "now \<le> 8000000000000000"
  shows "deviceTokenExpiry now (num i) = Some (now + i * 60000)"
proof -
  have i: "5 \<le> i" "i \<le> 525600" using assms by (simp_all add: policy_consts)
  have a: "num_mult (num i) (Fin 60000) = num (i * 60000)"
    using toNumber_int [of "i * 60000"] i by simp
  have b: "num_add (num now) (num (i * 60000)) = num (now + i * 60000)"
    using toNumber_int [of "now + i * 60000"] i assms by simp
  have "\<bar>of_int (now + i * 60000) :: rat\<bar> \<le> of_int 8640000000000000"
    using i assms unfolding of_int_abs [symmetric] of_int_le_iff by simp
  moreover have "0 \<le> now + i * 60000" using i assms by simp
  ultimately show ?thesis
    unfolding deviceTokenExpiry_def a b timeClip_def number.case
    by (simp only: of_int_numeral of_int_0_le_iff if_True floor_of_int)
qed

theorem token_expiry_exact_witness:
  "deviceTokenExpiry 1700000000000 (num 10080) = Some 1700604800000"
  using token_expiry_exact [of 10080 1700000000000] by (simp add: policy_consts)

end
