(* ===== verification/ModelPolicy.thy ===== *)
theory ModelPolicy
  imports TokenDiscipline
begin

section \<open>Managed models (providers/model-policy.ts)\<close>

text \<open>
  Which model ids a deployment offers, which one an enrollment gets, which capabilities are
  advertised and which ids a device key may call. Table look-ups read own keys only: an id that is
  the name of a member of \<^verbatim>\<open>Object.prototype\<close> is outside the model.
\<close>

definition DEFAULT_MANAGED_MODELS :: "string list" where
  "DEFAULT_MANAGED_MODELS =
     [''deepseek-v4-flash'', ''deepseek-v4-pro'', ''deepseek-v4-flash-vision-exp'']"

text \<open>\<^verbatim>\<open>/^[A-Za-z0-9][A-Za-z0-9._:/-]{0,127}$/\<close>\<close>

definition is_alnum :: "char \<Rightarrow> bool" where
  "is_alnum c \<longleftrightarrow> is_upper_az c \<or> is_lower_az c \<or> is_digit c"

definition SAFE_MODEL_ID :: "string \<Rightarrow> bool" where
  "SAFE_MODEL_ID s \<longleftrightarrow>
     (case s of
        [] \<Rightarrow> False
      | c # t \<Rightarrow> is_alnum c \<and> length t \<le> 127 \<and>
          list_all (\<lambda>x. is_alnum x \<or> x \<in> set ''._:/-'') t)"

definition LEGACY_MANAGED_MODEL_ALIASES :: "string \<Rightarrow> string option" where
  "LEGACY_MANAGED_MODEL_ALIASES =
     map_of [(''deepseek-chat'', ''deepseek-v4-flash''), (''deepseek-pro'', ''deepseek-v4-pro'')]"

record ModelDetails =
  md_provider :: string
  md_family :: string
  md_tier :: string
  md_contextWindowTokens :: int
  md_maxOutputTokens :: int
  md_thinkingEfforts :: "string list"
  md_inputModalities :: "string list"

definition v4_details :: "string \<Rightarrow> string list \<Rightarrow> ModelDetails" where
  "v4_details tier modalities =
     \<lparr>md_provider = ''deepseek'', md_family = ''deepseek-v4'', md_tier = tier,
      md_contextWindowTokens = 1000000, md_maxOutputTokens = 384000,
      md_thinkingEfforts = [''off'', ''low'', ''high'', ''max''], md_inputModalities = modalities\<rparr>"

definition DEEPSEEK_V4_DETAILS :: "string \<Rightarrow> ModelDetails option" where
  "DEEPSEEK_V4_DETAILS =
     map_of
       [(''deepseek-v4-flash'', v4_details ''flash'' [''text'']),
        (''deepseek-v4-pro'', v4_details ''pro'' [''text'']),
        (''deepseek-v4-flash-vision-exp'', v4_details ''vision'' [''text'', ''image''])]"

record ManagedModelOption =
  mo_id :: string
  mo_provider :: string
  mo_family :: string
  mo_tier :: string
  mo_contextWindowTokens :: "int option"
  mo_maxOutputTokens :: "int option"
  mo_thinkingEfforts :: "string list"
  mo_inputModalities :: "string list"
  mo_isDefault :: bool

definition canonicalManagedModelId :: "string \<Rightarrow> string" where
  "canonicalManagedModelId model =
     (let trimmed = trim model in nullish (LEGACY_MANAGED_MODEL_ALIASES trimmed) trimmed)"

definition env_or :: "env \<Rightarrow> string \<Rightarrow> string \<Rightarrow> string" where
  "env_or env k d = orStr (nullish (env k) []) d"

definition allowedManagedModels :: "env \<Rightarrow> string list res" where
  "allowedManagedModels env =
     (let configured =
            filter (\<lambda>m. m \<noteq> [])
              (map canonicalManagedModelId (split_on CHR '','' (env_or env ''HARA_ALLOWED_MODELS'' [])));
          models = (if configured \<noteq> [] then nub configured else DEFAULT_MANAGED_MODELS)
      in throwIf (list_ex (\<lambda>m. \<not> SAFE_MODEL_ID m) models)
           (PlainError ''HARA_ALLOWED_MODELS contains an invalid model id'')
           (Inr models))"

definition defaultManagedModel :: "env \<Rightarrow> string res" where
  "defaultManagedModel env =
     bindR (allowedManagedModels env) (\<lambda>allowed.
       let model = canonicalManagedModelId (env_or env ''HARA_DEFAULT_MODEL'' (hd allowed))
       in throwIf (model \<notin> set allowed)
            (PlainError ''HARA_DEFAULT_MODEL must be present in HARA_ALLOWED_MODELS'')
            (Inr model))"

definition managedModelOptions :: "env \<Rightarrow> ManagedModelOption list res" where
  "managedModelOptions env =
     bindR (defaultManagedModel env) (\<lambda>selectedDefault.
     bindR (allowedManagedModels env) (\<lambda>allowed.
     Inr (map (\<lambda>i. case DEEPSEEK_V4_DETAILS i of
            Some d \<Rightarrow>
              \<lparr>mo_id = i, mo_provider = md_provider d, mo_family = md_family d, mo_tier = md_tier d,
               mo_contextWindowTokens = Some (md_contextWindowTokens d),
               mo_maxOutputTokens = Some (md_maxOutputTokens d),
               mo_thinkingEfforts = md_thinkingEfforts d, mo_inputModalities = md_inputModalities d,
               mo_isDefault = (i = selectedDefault)\<rparr>
          | None \<Rightarrow>
              \<lparr>mo_id = i, mo_provider = ''custom'', mo_family = ''custom'', mo_tier = ''custom'',
               mo_contextWindowTokens = None, mo_maxOutputTokens = None,
               mo_thinkingEfforts = [], mo_inputModalities = [''text''],
               mo_isDefault = (i = selectedDefault)\<rparr>) allowed)))"

definition managedModelThinkingEfforts :: "string \<Rightarrow> string list" where
  "managedModelThinkingEfforts model =
     (case DEEPSEEK_V4_DETAILS (canonicalManagedModelId model) of
        None \<Rightarrow> [] | Some d \<Rightarrow> md_thinkingEfforts d)"

definition managedModelCapabilities :: "string list \<Rightarrow> (string \<times> string list) list" where
  "managedModelCapabilities models = map (\<lambda>m. (m, managedModelThinkingEfforts m)) models"

definition resolveEnrollmentReasoningEffort :: "string option \<Rightarrow> string \<Rightarrow> string res" where
  "resolveEnrollmentReasoningEffort requested model =
     (let effort = trim (nullish requested [])
      in if effort = [] then Inr []
         else throwIf (effort \<notin> set (managedModelThinkingEfforts model))
           (PlainError (''model \"'' @ model @ ''\" does not support reasoning effort \"'' @ effort @ ''\"''))
           (Inr effort))"

definition managedModelsThinkingEfforts :: "string list \<Rightarrow> string list" where
  "managedModelsThinkingEfforts models =
     (case map managedModelThinkingEfforts models of
        [] \<Rightarrow> []
      | e # es \<Rightarrow>
          if list_ex (\<lambda>items. items = []) (e # es) then []
          else filter (\<lambda>effort. list_all (\<lambda>items. effort \<in> set items) es) e)"

abbreviation is_litellm :: "env \<Rightarrow> bool" where
  "is_litellm env \<equiv> env ''GATEWAY_ADAPTER'' = Some ''litellm''"

definition not_allowed :: "string \<Rightarrow> http_error" where
  "not_allowed m = PlainError (''model \"'' @ m @ ''\" is not allowed by this Hara deployment'')"

definition resolveEnrollmentModel :: "string option \<Rightarrow> env \<Rightarrow> string res" where
  "resolveEnrollmentModel requested env =
     (let requestedModel = trim (nullish requested [])
      in if \<not> is_litellm env then Inr requestedModel
         else let model = canonicalManagedModelId requestedModel
              in bindR (allowedManagedModels env) (\<lambda>allowed.
                 bindR (if model \<noteq> [] then Inr model else defaultManagedModel env) (\<lambda>resolved.
                 throwIf (resolved \<notin> set allowed) (not_allowed resolved) (Inr resolved))))"

definition enrollmentManagedModels :: "string \<Rightarrow> env \<Rightarrow> string list res" where
  "enrollmentManagedModels selected env =
     (if \<not> is_litellm env then Inr (if selected \<noteq> [] then [selected] else [])
      else bindR (allowedManagedModels env) (\<lambda>models.
           bindR (resolveEnrollmentModel (Some selected) env) (\<lambda>r.
           throwIf (r \<notin> set models) (not_allowed selected) (Inr models))))"

definition managedModelsForRecordedToken :: "string \<Rightarrow> env \<Rightarrow> string list res" where
  "managedModelsForRecordedToken selected env =
     (if \<not> is_litellm env then Inr (if selected \<noteq> [] then [selected] else [])
      else bindR (allowedManagedModels env) (\<lambda>models.
           let c = canonicalManagedModelId selected
           in bindR (if c \<noteq> [] then Inr c else defaultManagedModel env) (\<lambda>resolved.
              Inr (if resolved \<in> set models then models else []))))"

definition managedKeyAuthorizationModels :: "string \<Rightarrow> string list \<Rightarrow> string list" where
  "managedKeyAuthorizationModels storedModel catalog =
     (let models = nub catalog; legacy = trim storedModel
      in if legacy \<noteq> [] \<and> canonicalManagedModelId legacy \<noteq> legacy \<and> legacy \<notin> set models
         then models @ [legacy] else models)"

subsection \<open>Canonical ids\<close>

lemma canonical_cases:
  obtains "canonicalManagedModelId m = trim m"
  | "trim m \<in> {''deepseek-chat'', ''deepseek-pro''}"
    "canonicalManagedModelId m \<in> {''deepseek-v4-flash'', ''deepseek-v4-pro''}"
  by (cases "trim m = ''deepseek-chat''"; cases "trim m = ''deepseek-pro''")
    (auto simp: canonicalManagedModelId_def LEGACY_MANAGED_MODEL_ALIASES_def)

lemma trim_v4 [simp]:
  "trim ''deepseek-v4-flash'' = ''deepseek-v4-flash''" "trim ''deepseek-v4-pro'' = ''deepseek-v4-pro''"
  "trim ''deepseek-v4-flash-vision-exp'' = ''deepseek-v4-flash-vision-exp''"
  by (simp_all add: trim_def is_ws_def)

lemma canonical_v4 [simp]:
  "canonicalManagedModelId ''deepseek-v4-flash'' = ''deepseek-v4-flash''"
  "canonicalManagedModelId ''deepseek-v4-pro'' = ''deepseek-v4-pro''"
  "canonicalManagedModelId ''deepseek-v4-flash-vision-exp'' = ''deepseek-v4-flash-vision-exp''"
  by (simp_all add: canonicalManagedModelId_def LEGACY_MANAGED_MODEL_ALIASES_def)

lemma canonical_idem [simp]:
  "canonicalManagedModelId (canonicalManagedModelId m) = canonicalManagedModelId m"
proof (cases rule: canonical_cases [of m])
  case 1
  then show ?thesis by (simp add: canonicalManagedModelId_def [of "trim m"] canonicalManagedModelId_def [of m])
next
  case 2
  then show ?thesis by auto
qed

lemma canonical_trim [simp]: "canonicalManagedModelId (trim m) = canonicalManagedModelId m"
  by (simp add: canonicalManagedModelId_def)

lemma trim_canonical [simp]: "trim (canonicalManagedModelId m) = canonicalManagedModelId m"
  by (cases rule: canonical_cases [of m]) auto

lemma allowed_props:
  assumes "allowedManagedModels env = Inr ms"
  shows "ms \<noteq> []" "distinct ms" "\<And>m. m \<in> set ms \<Longrightarrow> SAFE_MODEL_ID m"
    "\<And>m. m \<in> set ms \<Longrightarrow> canonicalManagedModelId m = m"
  using assms
  by (auto simp: allowedManagedModels_def Let_def throwIf_eq_Inr list_ex_iff DEFAULT_MANAGED_MODELS_def
      split: if_splits)

lemma safe_nonempty: "SAFE_MODEL_ID m \<Longrightarrow> m \<noteq> []"
  by (auto simp: SAFE_MODEL_ID_def)

lemma default_in_allowed:
  assumes "defaultManagedModel env = Inr m"
  obtains ms where "allowedManagedModels env = Inr ms" "m \<in> set ms"
  using assms by (auto simp: defaultManagedModel_def bindR_eq_Inr Let_def throwIf_eq_Inr)

lemma default_succeeds:
  assumes "allowedManagedModels env = Inr ms" "env ''HARA_DEFAULT_MODEL'' \<in> {None, Some []}"
  shows "defaultManagedModel env = Inr (hd ms)"
  using assms allowed_props [OF assms(1)]
  by (auto simp: defaultManagedModel_def env_or_def throwIf_def)

lemma resolve_litellm:
  assumes "is_litellm env" "resolveEnrollmentModel req env = Inr m"
  obtains ms where "allowedManagedModels env = Inr ms" "m \<in> set ms" "canonicalManagedModelId m = m"
    "m \<noteq> []"
  using assms allowed_props safe_nonempty
  by (fastforce simp: resolveEnrollmentModel_def bindR_eq_Inr Let_def throwIf_eq_Inr split: if_splits)

lemma resolve_allowed:
  assumes "is_litellm env" "allowedManagedModels env = Inr ms" "canonicalManagedModelId r \<in> set ms"
  shows "resolveEnrollmentModel (Some r) env = Inr (canonicalManagedModelId r)"
  using assms allowed_props [OF assms(2)] safe_nonempty
  by (auto simp: resolveEnrollmentModel_def)

subsection \<open>Properties\<close>

text \<open>
  With the LiteLLM gateway every enrollment gets a model of the deployment's catalog:
  a successful \<^verbatim>\<open>resolveEnrollmentModel\<close> returns a safe canonical id of the catalog, resolving it
  again changes nothing, and \<^verbatim>\<open>enrollmentManagedModels\<close> on it succeeds with the whole catalog.
\<close>

theorem resolved_model_is_allowed:
  assumes "is_litellm env" "resolveEnrollmentModel req env = Inr m"
  shows "\<exists>ms. allowedManagedModels env = Inr ms \<and> m \<in> set ms \<and> SAFE_MODEL_ID m \<and>
    resolveEnrollmentModel (Some m) env = Inr m \<and> enrollmentManagedModels m env = Inr ms"
proof -
  obtain ms where ms: "allowedManagedModels env = Inr ms" "m \<in> set ms" "canonicalManagedModelId m = m"
    using resolve_litellm [OF assms] .
  then have r: "resolveEnrollmentModel (Some m) env = Inr m"
    using resolve_allowed [OF assms(1) ms(1), of m] by simp
  then show ?thesis
    using ms assms(1) allowed_props(3) [OF ms(1)] by (simp add: enrollmentManagedModels_def)
qed

definition litellm_env :: env where
  "litellm_env = [''GATEWAY_ADAPTER'' \<mapsto> ''litellm'']"

lemma litellm_env_allowed: "allowedManagedModels litellm_env = Inr DEFAULT_MANAGED_MODELS"
  by (simp add: allowedManagedModels_def litellm_env_def env_or_def canonicalManagedModelId_def
      LEGACY_MANAGED_MODEL_ALIASES_def DEFAULT_MANAGED_MODELS_def SAFE_MODEL_ID_def is_alnum_def
      is_lower_az_def is_upper_az_def is_digit_def)

lemma litellm_env_is [simp]: "is_litellm litellm_env"
  by (simp add: litellm_env_def)

theorem resolved_model_is_allowed_witness:
  "enrollmentManagedModels ''deepseek-v4-pro'' litellm_env = Inr DEFAULT_MANAGED_MODELS"
proof -
  have "canonicalManagedModelId '' deepseek-pro '' = ''deepseek-v4-pro''"
    by (simp add: canonicalManagedModelId_def LEGACY_MANAGED_MODEL_ALIASES_def trim_def is_ws_def)
  then have "resolveEnrollmentModel (Some '' deepseek-pro '') litellm_env = Inr ''deepseek-v4-pro''"
    using resolve_allowed [OF litellm_env_is litellm_env_allowed, of "'' deepseek-pro ''"]
    by (simp add: DEFAULT_MANAGED_MODELS_def)
  from resolved_model_is_allowed [OF litellm_env_is this] show ?thesis
    by (simp add: litellm_env_allowed)
qed

text \<open>
  The shared reasoning dial of a multi-model connection offers exactly the efforts
  every one of its models supports: whichever model the user switches to, an advertised effort
  is accepted as an explicit default, and a missing one is refused by some model.
\<close>

theorem shared_efforts_valid_everywhere:
  "e \<in> set (managedModelsThinkingEfforts models) \<longleftrightarrow>
     models \<noteq> [] \<and> (\<forall>m. m \<in> set models \<longrightarrow>
        e \<noteq> [] \<and> resolveEnrollmentReasoningEffort (Some e) m = Inr e)"
proof -
  have known: "e \<in> set (managedModelThinkingEfforts m) \<Longrightarrow> e \<noteq> [] \<and> trim e = e" for m
    by (auto simp: managedModelThinkingEfforts_def DEEPSEEK_V4_DETAILS_def v4_details_def trim_def
        is_ws_def split: if_splits option.splits)
  have one: "e \<in> set (managedModelThinkingEfforts m) \<longleftrightarrow>
      e \<noteq> [] \<and> resolveEnrollmentReasoningEffort (Some e) m = Inr e" for m
    using known [of m] by (auto simp: resolveEnrollmentReasoningEffort_def Let_def throwIf_eq_Inr)
  have "e \<in> set (managedModelsThinkingEfforts models) \<longleftrightarrow>
      models \<noteq> [] \<and> (\<forall>m \<in> set models. e \<in> set (managedModelThinkingEfforts m))"
    by (cases models; simp add: managedModelsThinkingEfforts_def list_ex_iff list_all_iff)
      force
  then show ?thesis by (auto simp: one)
qed

theorem shared_efforts_valid_everywhere_witness:
  "''high'' \<in> set (managedModelsThinkingEfforts [''deepseek-chat'', ''deepseek-v4-pro''])"
  using shared_efforts_valid_everywhere [of "''high''" "[''deepseek-chat'', ''deepseek-v4-pro'']"]
  by (simp add: resolveEnrollmentReasoningEffort_def managedModelThinkingEfforts_def trim_def is_ws_def
      canonicalManagedModelId_def LEGACY_MANAGED_MODEL_ALIASES_def DEEPSEEK_V4_DETAILS_def
      v4_details_def)

lemma authorization_models_set:
  "set (managedKeyAuthorizationModels stored catalog) =
     set catalog \<union> (if trim stored \<noteq> [] \<and> canonicalManagedModelId stored \<noteq> trim stored
                   then {trim stored} else {})"
  by (auto simp: managedKeyAuthorizationModels_def Let_def)

text \<open>
  A device key is authorised for its catalog and, beyond it, at most for the legacy
  alias the device stored; for a device whose stored model resolves in the deployment, every
  authorised id stands for a model of the catalog, and no id is listed twice.
\<close>

theorem key_authorization_within_catalog:
  assumes "is_litellm env" "resolveEnrollmentModel (Some stored) env = Inr m"
    and "enrollmentManagedModels m env = Inr catalog"
  shows "distinct (managedKeyAuthorizationModels stored catalog) \<and>
    set catalog \<subseteq> set (managedKeyAuthorizationModels stored catalog) \<and>
    canonicalManagedModelId ` set (managedKeyAuthorizationModels stored catalog) = set catalog"
proof (intro conjI)
  obtain ms where ms: "allowedManagedModels env = Inr ms" using assms(1,2) by (rule resolve_litellm)
  then have cat: "catalog = ms" using assms
    by (auto simp: enrollmentManagedModels_def bindR_eq_Inr throwIf_eq_Inr)
  have "canonicalManagedModelId stored \<in> set ms" if "canonicalManagedModelId stored \<noteq> []"
    using assms(1,2) that ms
    by (auto simp: resolveEnrollmentModel_def Let_def bindR_eq_Inr throwIf_eq_Inr)
  moreover have "canonicalManagedModelId stored \<noteq> []" if "trim stored \<noteq> []"
    using that by (cases rule: canonical_cases [of stored]) auto
  moreover have "canonicalManagedModelId ` set ms = set ms"
    using allowed_props(4) [OF ms] by (auto simp: image_iff)
  ultimately show "canonicalManagedModelId ` set (managedKeyAuthorizationModels stored catalog) = set catalog"
    unfolding authorization_models_set cat by auto
  show "set catalog \<subseteq> set (managedKeyAuthorizationModels stored catalog)"
    unfolding authorization_models_set by auto
  show "distinct (managedKeyAuthorizationModels stored catalog)"
    by (auto simp: managedKeyAuthorizationModels_def Let_def)
qed

theorem key_authorization_within_catalog_witness:
  "canonicalManagedModelId `
     set (managedKeyAuthorizationModels ''deepseek-chat'' DEFAULT_MANAGED_MODELS)
   = set DEFAULT_MANAGED_MODELS"
proof -
  have "canonicalManagedModelId ''deepseek-chat'' = ''deepseek-v4-flash''"
    by (simp add: canonicalManagedModelId_def LEGACY_MANAGED_MODEL_ALIASES_def trim_def is_ws_def)
  then have r: "resolveEnrollmentModel (Some ''deepseek-chat'') litellm_env = Inr ''deepseek-v4-flash''"
    using resolve_allowed [OF litellm_env_is litellm_env_allowed, of "''deepseek-chat''"]
    by (simp add: DEFAULT_MANAGED_MODELS_def)
  have "resolveEnrollmentModel (Some ''deepseek-v4-flash'') litellm_env = Inr ''deepseek-v4-flash''"
    using resolve_allowed [OF litellm_env_is litellm_env_allowed, of "''deepseek-v4-flash''"]
    by (simp add: DEFAULT_MANAGED_MODELS_def)
  then have "enrollmentManagedModels ''deepseek-v4-flash'' litellm_env = Inr DEFAULT_MANAGED_MODELS"
    by (simp add: enrollmentManagedModels_def litellm_env_allowed DEFAULT_MANAGED_MODELS_def)
  from key_authorization_within_catalog [OF litellm_env_is r this] show ?thesis by simp
qed

end
