(* ===== verification/HashChain.thy ===== *)
theory HashChain
  imports JsNumber "HOL-Library.Multiset"
begin

section \<open>Canonical JSON and hash chains (common/crypto.ts)\<close>

text \<open>
  \<^verbatim>\<open>canonicalJson\<close> prints a value with the keys of every object sorted; \<^verbatim>\<open>chainHash\<close> hashes that text
  followed by the previous hash. SHA-256 is a parameter \<^verbatim>\<open>H\<close> everywhere. The locale \<^verbatim>\<open>chained_texts\<close>
  states what a chain needs of the texts it hashes (no text is a proper prefix of another one with
  a hash appended) and proves tamper evidence once: two chains with the same head are equal, or
  two different hashed strings with the same hash have been exhibited.
\<close>

subsection \<open>Canonical JSON\<close>

definition hex_nibble :: "nat \<Rightarrow> char" where
  "hex_nibble n = char_of (if n < 10 then 48 + n else 87 + n)"

text \<open>\<^verbatim>\<open>JSON.stringify\<close> of a string: the quote, the backslash and the control characters are escaped.\<close>

definition json_escape :: "char \<Rightarrow> string" where
  "json_escape c =
     (let n = code c
      in if n = 34 then [CHR 0x5C, CHR 0x22]
         else if n = 92 then [CHR 0x5C, CHR 0x5C]
         else if n = 8 then CHR 0x5C # ''b''
         else if n = 9 then CHR 0x5C # ''t''
         else if n = 10 then CHR 0x5C # ''n''
         else if n = 12 then CHR 0x5C # ''f''
         else if n = 13 then CHR 0x5C # ''r''
         else if n < 32 then CHR 0x5C # ''u00'' @ [hex_nibble (n div 16), hex_nibble (n mod 16)]
         else [c])"

abbreviation quote :: char where
  "quote \<equiv> CHR 0x22"

abbreviation backslash :: char where
  "backslash \<equiv> CHR 0x5C"

definition json_string :: "string \<Rightarrow> string" where
  "json_string s = quote # concat (map json_escape s) @ [quote]"

text \<open>
  \<^verbatim>\<open>JSON.stringify(v) ?? "null"\<close> on what is not an object, the recursive printer on the rest; the
  members are printed first and then sorted by key, which gives the same text as sorting the keys.
\<close>

fun canonicalJson :: "jsval \<Rightarrow> string" where
  "canonicalJson JUndef = ''null''"
| "canonicalJson JNull = ''null''"
| "canonicalJson (JBool b) = (if b then ''true'' else ''false'')"
| "canonicalJson (JNum n) = (case n of Fin r \<Rightarrow> show_number (Fin r) | _ \<Rightarrow> ''null'')"
| "canonicalJson (JStr s) = json_string s"
| "canonicalJson (JArr vs) = ''['' @ join '','' (map canonicalJson vs) @ '']''"
| "canonicalJson (JObj kvs) =
     ''{'' @ join '','' (map (\<lambda>(k, t). json_string k @ '':'' @ t)
        (sort_key fst (map (\<lambda>(k, v). (k, canonicalJson v)) kvs))) @ ''}''"

definition chainHash :: "(string \<Rightarrow> string) \<Rightarrow> jsval \<Rightarrow> string \<Rightarrow> string" where
  "chainHash H fields prevHash = H (canonicalJson fields @ prevHash)"

subsection \<open>Key order does not matter\<close>

text \<open>Two values equal up to the order of the members of their objects: what JSONB may change.\<close>

inductive json_perm :: "jsval \<Rightarrow> jsval \<Rightarrow> bool" where
  json_refl: "json_perm v v"
| json_arr: "list_all2 json_perm vs ws \<Longrightarrow> json_perm (JArr vs) (JArr ws)"
| json_obj: "\<lbrakk>map fst kvs = map fst kws; list_all2 json_perm (map snd kvs) (map snd kws);
      mset kws' = mset kws; distinct (map fst kvs)\<rbrakk> \<Longrightarrow> json_perm (JObj kvs) (JObj kws')"

lemma sort_key_perm:
  fixes f :: "'a \<Rightarrow> 'k::linorder"
  assumes "mset xs = mset ys" "distinct (map f xs)"
  shows "sort_key f xs = sort_key f ys"
proof -
  have inj: "inj_on f (set xs)" using assms by (simp add: distinct_map)
  have s: "set xs = set ys" using assms(1) by (rule mset_eq_setD)
  have "mset (map f xs) = mset (map f ys)" using assms(1) by simp
  then have "distinct (map f ys)" using assms(2) mset_eq_imp_distinct_iff by blast
  then have "distinct (map f (sort_key f xs))" "distinct (map f (sort_key f ys))"
    using assms(2) by (simp_all add: distinct_map)
  then have "map f (sort_key f xs) = map f (sort_key f ys)"
    using s by (intro sorted_distinct_set_unique) simp_all
  then show ?thesis using inj s by (intro map_inj_on [of f]) simp_all
qed

lemma canonicalJson_perm: "json_perm v w \<Longrightarrow> canonicalJson v = canonicalJson w"
proof (induction rule: json_perm.induct)
  case (json_arr vs ws)
  then have "map canonicalJson vs = map canonicalJson ws"
    by (induction vs ws rule: list_all2_induct) auto
  then show ?case by simp
next
  case (json_obj kvs kws kws')
  let ?c = "map (\<lambda>(k, v). (k, canonicalJson v))"
  have "map canonicalJson (map snd kvs) = map canonicalJson (map snd kws)"
    using json_obj.IH by (induction rule: list_all2_induct) auto
  then have "?c kvs = ?c kws"
    using json_obj(1) by (induction kvs kws rule: list_induct2') auto
  moreover have "sort_key fst (?c kws) = sort_key fst (?c kws')"
    using json_obj.hyps by (intro sort_key_perm) (simp_all add: case_prod_unfold comp_def)
  ultimately show ?case by simp
qed simp

subsection \<open>The text of an object ends where its braces close\<close>

text \<open>
  \<^verbatim>\<open>scan d q s\<close> reads \<^verbatim>\<open>s\<close> at bracket depth \<^verbatim>\<open>d\<close>, inside a string when \<^verbatim>\<open>q\<close>, and returns what follows
  the bracket that closes the outermost one.
\<close>

fun scan :: "nat \<Rightarrow> bool \<Rightarrow> string \<Rightarrow> string option" where
  "scan d q [] = None"
| "scan d True [c] = None"
| "scan d True (c # c' # cs) =
     (if c = backslash then scan d True cs
      else scan d (c \<noteq> quote) (c' # cs))"
| "scan d False (c # cs) =
     (if c = quote then scan d True cs
      else if c \<in> set ''{['' then scan (Suc d) False cs
      else if c \<in> set ''}]'' then (if d \<le> 1 then Some cs else scan (d - 1) False cs)
      else scan d False cs)"

definition plain :: "char \<Rightarrow> bool" where
  "plain c \<longleftrightarrow> c \<noteq> quote \<and> c \<notin> set ''{[]}''"

lemma scan_plain: "list_all plain t \<Longrightarrow> scan d False (t @ r) = scan d False r"
  by (induction t) (auto simp: plain_def)

lemma plain_number_char: "number_char c \<Longrightarrow> plain c"
  by (auto simp: number_char_def plain_def is_digit_def)

lemma scan_quoted_char: "cs \<noteq> [] \<Longrightarrow> scan d True (json_escape c @ cs) = scan d True cs"
proof -
  assume "cs \<noteq> []"
  then obtain x xs where cs: "cs = x # xs" by (cases cs) auto
  have qb: "of_char quote = (34::nat)" "of_char backslash = (92::nat)" by simp_all
  have hex: "hex_nibble n \<noteq> backslash" "hex_nibble n \<noteq> quote" if "n < 16" for n
  proof -
    have "code (hex_nibble n) = (if n < 10 then 48 + n else 87 + n)"
      using that by (simp add: hex_nibble_def)
    then show "hex_nibble n \<noteq> backslash" "hex_nibble n \<noteq> quote"
      using that qb by (auto split: if_splits)
  qed
  from qb have "code c \<noteq> 34 \<Longrightarrow> c \<noteq> quote" "code c \<noteq> 92 \<Longrightarrow> c \<noteq> backslash" by metis+
  then show ?thesis
    by (simp add: json_escape_def Let_def cs hex)
qed

lemma scan_quoted: "scan d True (concat (map json_escape s) @ quote # r) = scan d False r"
proof (induction s)
  case Nil
  then show ?case by (cases r) auto
next
  case (Cons c s)
  have "concat (map json_escape s) @ quote # r \<noteq> []" by simp
  from scan_quoted_char [OF this, of d c] Cons show ?case by simp
qed

lemma scan_json_string: "scan d False (json_string s @ r) = scan d False r"
  by (simp add: json_string_def scan_quoted)

lemma scan_join:
  assumes "\<And>t r. t \<in> set ts \<Longrightarrow> scan d False (t @ r) = scan d False r"
  shows "scan d False (join '','' ts @ r) = scan d False r"
  using assms by (induction "'',''" ts rule: join.induct) auto

lemma scan_json: "0 < d \<Longrightarrow> scan d False (canonicalJson v @ r) = scan d False r"
proof (induction v arbitrary: d r)
  case (JNum n)
  have "list_all plain (show_number (Fin x))" for x
    using show_number_chars [of x] plain_number_char by (auto simp: list_all_iff)
  then show ?case by (auto simp: scan_plain plain_def split: number.splits)
next
  case (JArr vs)
  have "scan (Suc d) False (join '','' (map canonicalJson vs) @ (CHR '']'' # r))
      = scan (Suc d) False (CHR '']'' # r)"
    using JArr by (intro scan_join) auto
  then show ?case using JArr.prems by simp
next
  case (JObj kvs)
  let ?ts = "map (\<lambda>(k, t). json_string k @ '':'' @ t)
    (sort_key fst (map (\<lambda>(k, v). (k, canonicalJson v)) kvs))"
  have "scan (Suc d) False (join '','' ?ts @ (CHR ''}'' # r)) = scan (Suc d) False (CHR ''}'' # r)"
  proof (intro scan_join)
    fix t r' assume "t \<in> set ?ts"
    then obtain k v where kv: "(k, v) \<in> set kvs" "t = json_string k @ '':'' @ canonicalJson v" by auto
    have "scan (Suc d) False (canonicalJson v @ r') = scan (Suc d) False r'"
      using JObj.IH [OF kv(1), of v "Suc d"] by (simp add: snds.intros)
    then show "scan (Suc d) False (t @ r') = scan (Suc d) False r'"
      by (simp add: kv(2) scan_json_string)
  qed
  then show ?case using JObj.prems by simp
qed (auto simp: scan_json_string)

lemma scan_object: "scan 0 False (canonicalJson (JObj kvs) @ r) = Some r"
proof -
  let ?body = "join '','' (map (\<lambda>(k, t). json_string k @ '':'' @ t)
    (sort_key fst (map (\<lambda>(k, v). (k, canonicalJson v)) kvs)))"
  have "scan 1 False (?body @ CHR ''}'' # r) = scan 1 False (CHR ''}'' # r)"
    by (intro scan_join) (auto simp: scan_json_string scan_json)
  then show ?thesis by simp
qed

lemma object_text_unique_ending:
  assumes "canonicalJson (JObj a) @ p = canonicalJson (JObj b) @ q"
  shows "canonicalJson (JObj a) = canonicalJson (JObj b) \<and> p = q"
  using assms scan_object [of a p] scan_object [of b q] by auto

subsection \<open>Chains of hashed texts\<close>

text \<open>
  A link is a hashed text with the hash stored beside it; \<^verbatim>\<open>linked\<close> checks a list of links from the
  hash \<^verbatim>\<open>prev\<close> on, and \<^verbatim>\<open>head_hash\<close> is the hash of the last one.
\<close>

fun linked :: "(string \<Rightarrow> string) \<Rightarrow> string \<Rightarrow> (string \<times> string) list \<Rightarrow> bool" where
  "linked H prev [] = True"
| "linked H prev ((t, h) # ls) = (h = H (t @ prev) \<and> linked H h ls)"

definition head_hash :: "string \<Rightarrow> (string \<times> string) list \<Rightarrow> string" where
  "head_hash prev ls = (if ls = [] then prev else snd (last ls))"

definition collision :: "(string \<Rightarrow> string) \<Rightarrow> bool" where
  "collision H \<longleftrightarrow> (\<exists>x y. x \<noteq> y \<and> H x = H y)"

text \<open>The strings hashed along a chain.\<close>

fun preimages :: "string \<Rightarrow> (string \<times> string) list \<Rightarrow> string list" where
  "preimages prev [] = []"
| "preimages prev ((t, h) # ls) = (t @ prev) # preimages h ls"

lemma linked_snoc:
  "linked H prev (ls @ [(t, h)]) \<longleftrightarrow> linked H prev ls \<and> h = H (t @ head_hash prev ls)"
  by (induction ls arbitrary: prev) (auto simp: head_hash_def)

lemma preimages_snoc: "preimages prev (ls @ [(t, h)]) = preimages prev ls @ [t @ head_hash prev ls]"
  by (induction ls arbitrary: prev) (auto simp: head_hash_def)

lemma head_hash_snoc [simp]: "head_hash prev (ls @ [(t, h)]) = h"
  by (simp add: head_hash_def)

lemma head_hash_nonempty:
  assumes "\<And>x. H x \<noteq> []" "linked H [] ls" "ls \<noteq> []"
  shows "head_hash [] ls \<noteq> []"
proof -
  obtain ls' t h where "ls = ls' @ [(t, h)]" using assms(3) by (metis rev_exhaust surj_pair)
  with assms(1,2) show ?thesis by (simp add: linked_snoc)
qed

locale chained_texts =
  fixes texts :: "string set"
  assumes unique_ending: "s \<in> texts \<Longrightarrow> t \<in> texts \<Longrightarrow> s @ p = t @ q \<Longrightarrow> s = t \<and> p = q"
begin

text \<open>Same head: same chain, or two hashed strings that collide.\<close>

lemma same_head_same_chain:
  assumes nonempty: "\<And>x. H x \<noteq> []"
    and "linked H [] xs" "linked H [] ys" "fst ` set xs \<subseteq> texts" "fst ` set ys \<subseteq> texts"
    and "head_hash [] xs = head_hash [] ys"
  shows "xs = ys \<or> (\<exists>x \<in> set (preimages [] xs). \<exists>y \<in> set (preimages [] ys). x \<noteq> y \<and> H x = H y)"
  using assms(2-)
proof (induction xs arbitrary: ys rule: rev_induct)
  case Nil
  then have "head_hash [] ys = []" by (simp add: head_hash_def [of "[]" "[]"])
  then have "ys = []" using head_hash_nonempty [OF nonempty Nil.prems(2)] by blast
  then show ?case by simp
next
  case (snoc l xs)
  obtain s h where l: "l = (s, h)" by (cases l)
  have "ys \<noteq> []" using head_hash_nonempty [OF nonempty snoc.prems(1)] snoc.prems(5) by (auto simp: head_hash_def)
  then obtain ys' t k where ys: "ys = ys' @ [(t, k)]" by (metis rev_exhaust surj_pair)
  have hx: "linked H [] xs" "h = H (s @ head_hash [] xs)" and hy: "linked H [] ys'"
    "k = H (t @ head_hash [] ys')" and hk: "h = k"
    using snoc.prems by (simp_all add: l ys linked_snoc)
  show ?case
  proof (cases "s @ head_hash [] xs = t @ head_hash [] ys'")
    case False
    then show ?thesis using hx hy hk by (auto simp: l ys preimages_snoc)
  next
    case True
    then have st: "s = t" "head_hash [] xs = head_hash [] ys'"
      using unique_ending snoc.prems(3,4) by (auto simp: l ys)
    have "xs = ys' \<or> (\<exists>x \<in> set (preimages [] xs). \<exists>y \<in> set (preimages [] ys'). x \<noteq> y \<and> H x = H y)"
      using snoc.IH [OF hx(1) hy(1)] snoc.prems(3,4) st(2) by (simp add: ys)
    then show ?thesis using st(1) hk by (auto simp: l ys preimages_snoc)
  qed
qed

end

text \<open>Canonical JSON objects are such texts.\<close>

definition object_texts :: "string set" where
  "object_texts = range (\<lambda>kvs. canonicalJson (JObj kvs))"

interpretation object_chain: chained_texts object_texts
proof unfold_locales
  fix s t p q assume "s \<in> object_texts" "t \<in> object_texts" "s @ p = t @ q"
  then show "s = t \<and> p = q" unfolding object_texts_def by (metis imageE object_text_unique_ending)
qed

end
