(* ===== verification/AuditLog.thy ===== *)
theory AuditLog
  imports HashChain
begin

section \<open>The audit trail (audit/audit.service.ts)\<close>

text \<open>
  Rows of \<^verbatim>\<open>auditLog\<close> in a list, in no particular order; queries filter by organisation and sort by
  \<^verbatim>\<open>seq\<close> as the source asks the database to. \<^verbatim>\<open>append\<close> links a new row to the row with the greatest
  \<^verbatim>\<open>seq\<close>, \<^verbatim>\<open>verify\<close> recomputes the chain, \<^verbatim>\<open>transact\<close> retries a serializable transaction that commits a
  mutation together with its row. \<^verbatim>\<open>H\<close> is SHA-256 in hexadecimal.
\<close>

record AuditRow =
  au_id :: string
  au_orgId :: string
  au_action :: string
  au_actorType :: string
  au_actorId :: string
  au_payload :: jsval
  au_at :: time
  au_seq :: int
  au_prevHash :: string
  au_rowHash :: string

text \<open>
  \<^verbatim>\<open>JSON.parse(JSON.stringify(v))\<close>: members that are undefined are dropped, undefined array elements
  and numbers without a JSON form become null. The result is None for undefined itself.
\<close>

fun json_image :: "jsval \<Rightarrow> jsval" where
  "json_image JUndef = JNull"
| "json_image (JNum n) = (case n of Fin r \<Rightarrow> JNum (Fin r) | _ \<Rightarrow> JNull)"
| "json_image (JArr vs) = JArr (map json_image vs)"
| "json_image (JObj kvs) =
     JObj (map (\<lambda>(k, v). (k, json_image v)) (filter (\<lambda>(k, v). v \<noteq> JUndef) kvs))"
| "json_image v = v"

definition persistedPayload :: "jsval \<Rightarrow> jsval res" where
  "persistedPayload payload =
     throwIf (payload = JUndef) (PlainError ''audit payload must be JSON serializable'')
       (case json_image payload of
          JObj kvs \<Rightarrow> Inr (JObj kvs)
        | _ \<Rightarrow> Inl (PlainError ''audit payload must be a JSON object''))"

definition identity ::
  "string \<Rightarrow> string \<Rightarrow> string \<Rightarrow> string \<Rightarrow> jsval \<Rightarrow> int \<Rightarrow> time \<Rightarrow> jsval" where
  "identity orgId action actorType actorId payload sq atTime =
     JObj [(''orgId'', JStr orgId), (''action'', JStr action), (''actorType'', JStr actorType),
           (''actorId'', JStr actorId),
           (''payload'', if payload \<in> {JUndef, JNull} then JObj [] else payload),
           (''seq'', JNum (num sq)), (''at'', JStr (toISOString atTime))]"

definition row_identity :: "AuditRow \<Rightarrow> jsval" where
  "row_identity r =
     identity (au_orgId r) (au_action r) (au_actorType r) (au_actorId r) (au_payload r) (au_seq r)
       (au_at r)"

text \<open>\<^verbatim>\<open>findMany({ where: { orgId }, orderBy: { seq: "asc" } })\<close>\<close>

definition org_rows :: "string \<Rightarrow> AuditRow list \<Rightarrow> AuditRow list" where
  "org_rows orgId db = sort_key au_seq (filter (\<lambda>r. au_orgId r = orgId) db)"

text \<open>\<^verbatim>\<open>findFirst({ where: { orgId }, orderBy: { seq: "desc" } })\<close>\<close>

definition last_row :: "string \<Rightarrow> AuditRow list \<Rightarrow> AuditRow option" where
  "last_row orgId db = (let rs = org_rows orgId db in if rs = [] then None else Some (last rs))"

definition append_row ::
  "(string \<Rightarrow> string) \<Rightarrow> string \<Rightarrow> time \<Rightarrow> string \<Rightarrow> string \<Rightarrow> string \<Rightarrow> string \<Rightarrow> jsval \<Rightarrow>
     AuditRow list \<Rightarrow> AuditRow list res" where
  "append_row H newId now orgId action actorType actorId payload db =
     (let prev = last_row orgId db;
          sq = (case prev of None \<Rightarrow> - 1 | Some r \<Rightarrow> au_seq r) + 1;
          prevHash = (case prev of None \<Rightarrow> [] | Some r \<Rightarrow> au_rowHash r)
      in bindR (persistedPayload payload) (\<lambda>storedPayload.
         Inr (db @ [\<lparr>au_id = newId, au_orgId = orgId, au_action = action, au_actorType = actorType,
           au_actorId = actorId, au_payload = storedPayload, au_at = now, au_seq = sq,
           au_prevHash = prevHash,
           au_rowHash = chainHash H
             (identity orgId action actorType actorId storedPayload sq now) prevHash\<rparr>])))"

subsection \<open>Verification\<close>

record VerifyResult =
  vr_ok :: bool
  vr_count :: nat
  vr_legacyPrefix :: nat
  vr_legacySerializationRows :: nat
  vr_brokenAt :: "(int \<times> string \<times> string) option"

text \<open>Old enrollment rows hashed a \<^verbatim>\<open>personId\<close> that JSONB then dropped: the identity with it as null.\<close>

definition legacyEnrollmentIdentity :: "AuditRow \<Rightarrow> jsval option" where
  "legacyEnrollmentIdentity r =
     (case au_payload r of
        JObj kvs \<Rightarrow>
          if au_action r = ''enroll_code.create'' \<and> ''personId'' \<notin> fst ` set kvs
          then Some (identity (au_orgId r) (au_action r) (au_actorType r) (au_actorId r)
                 (JObj (kvs @ [(''personId'', JNull)])) (au_seq r) (au_at r))
          else None
      | _ \<Rightarrow> None)"

definition matchesLegacySerialization :: "(string \<Rightarrow> string) \<Rightarrow> string \<Rightarrow> AuditRow \<Rightarrow> bool" where
  "matchesLegacySerialization H prevHash r \<longleftrightarrow>
     chainHash H (row_identity r) prevHash \<noteq> au_rowHash r \<and>
     (case legacyEnrollmentIdentity r of
        None \<Rightarrow> False
      | Some i \<Rightarrow> chainHash H i prevHash = au_rowHash r)"

text \<open>The loop of \<^verbatim>\<open>verify\<close> over the rows, with its four local variables.\<close>

fun verify_loop ::
  "(string \<Rightarrow> string) \<Rightarrow> nat \<Rightarrow> string \<Rightarrow> nat \<Rightarrow> nat \<Rightarrow> bool \<Rightarrow> AuditRow list \<Rightarrow> VerifyResult" where
  "verify_loop H cnt prevHash legacyPrefix legacySer anchored [] =
     \<lparr>vr_ok = True, vr_count = cnt, vr_legacyPrefix = legacyPrefix,
      vr_legacySerializationRows = legacySer, vr_brokenAt = None\<rparr>"
| "verify_loop H cnt prevHash legacyPrefix legacySer anchored (r # rs) =
     (if \<not> anchored \<and> au_prevHash r = [] \<and> au_rowHash r = []
      then verify_loop H cnt prevHash (legacyPrefix + 1) legacySer anchored rs
      else if au_prevHash r \<noteq> prevHash
      then \<lparr>vr_ok = False, vr_count = cnt, vr_legacyPrefix = legacyPrefix,
            vr_legacySerializationRows = 0,
            vr_brokenAt = Some (au_seq r, au_id r, ''prevHash linkage mismatch'')\<rparr>
      else if chainHash H (row_identity r) prevHash \<noteq> au_rowHash r \<and>
              \<not> matchesLegacySerialization H prevHash r
      then \<lparr>vr_ok = False, vr_count = cnt, vr_legacyPrefix = legacyPrefix,
            vr_legacySerializationRows = legacySer,
            vr_brokenAt = Some (au_seq r, au_id r, ''rowHash mismatch (row tampered)'')\<rparr>
      else verify_loop H cnt (au_rowHash r) legacyPrefix
             (legacySer + (if matchesLegacySerialization H prevHash r then 1 else 0)) True rs)"

definition verify :: "(string \<Rightarrow> string) \<Rightarrow> string \<Rightarrow> AuditRow list \<Rightarrow> VerifyResult" where
  "verify H orgId db =
     (let rows = org_rows orgId db in verify_loop H (length rows) [] 0 0 False rows)"

subsection \<open>Audited transactions\<close>

text \<open>
  One attempt runs the mutation and the append on the snapshot the database gives the transaction;
  \<^verbatim>\<open>commitError\<close> is the error code the commit ends with, None when it succeeds. Only the codes P2034
  and P2002 are retried, at most three times. An error thrown by the callback has no code.
\<close>

datatype db_error = DbError string | AppError http_error

type_synonym ('s, 'r) mutation = "'s \<Rightarrow> (db_error + ('r \<times> string \<times> jsval option) \<times> 's)"

definition attempt_once ::
  "('s \<Rightarrow> AuditRow list) \<Rightarrow> (AuditRow list \<Rightarrow> 's \<Rightarrow> 's) \<Rightarrow> (string \<Rightarrow> string) \<Rightarrow> string \<Rightarrow> time \<Rightarrow>
     string \<Rightarrow> string \<Rightarrow> string \<Rightarrow> ('s, 'r) mutation \<Rightarrow> string option \<Rightarrow> 's \<Rightarrow> db_error + 'r \<times> 's" where
  "attempt_once getA setA H newId now action actorType actorId mutation commitError s =
     bindR (mutation s) (\<lambda>((result, orgId, payload), s').
     bindR (rethrow AppError (append_row H newId now orgId action actorType actorId
              (nullish payload (JObj [])) (getA s'))) (\<lambda>rows.
     case commitError of
       Some c \<Rightarrow> Inl (DbError c)
     | None \<Rightarrow> Inr (result, setA rows s')))"

definition is_conflict :: "db_error \<Rightarrow> bool" where
  "is_conflict e \<longleftrightarrow> e = DbError ''P2034'' \<or> e = DbError ''P2002''"

text \<open>
  The retry loop from attempt number \<^verbatim>\<open>n\<close> on, \<^verbatim>\<open>left\<close> attempts remaining: the snapshot, the commit
  outcome, the clock and the new row id of each attempt are inputs.
\<close>

fun transact_loop :: "nat \<Rightarrow> nat \<Rightarrow> (nat \<Rightarrow> db_error + 'a) \<Rightarrow> db_error + 'a" where
  "transact_loop 0 n att = Inl (AppError (PlainError ''unreachable audited transaction state''))"
| "transact_loop (Suc left) n att =
     (case att n of
        Inr x \<Rightarrow> Inr x
      | Inl e \<Rightarrow> if \<not> is_conflict e \<or> n = 3 then Inl e else transact_loop left (Suc n) att)"

definition transact ::
  "('s \<Rightarrow> AuditRow list) \<Rightarrow> (AuditRow list \<Rightarrow> 's \<Rightarrow> 's) \<Rightarrow> (string \<Rightarrow> string) \<Rightarrow>
     (nat \<Rightarrow> string) \<Rightarrow> (nat \<Rightarrow> time) \<Rightarrow> (nat \<Rightarrow> 's) \<Rightarrow> (nat \<Rightarrow> string option) \<Rightarrow>
     string \<Rightarrow> string \<Rightarrow> string \<Rightarrow> ('s, 'r) mutation \<Rightarrow> db_error + 'r \<times> 's" where
  "transact getA setA H newId now snapshot commitError action actorType actorId mutation =
     transact_loop 4 0 (\<lambda>n. attempt_once getA setA H (newId n) (now n) action actorType actorId
       mutation (commitError n) (snapshot n))"

text \<open>\<^verbatim>\<open>log\<close>: a transaction whose mutation does nothing.\<close>

definition audit_log ::
  "('s \<Rightarrow> AuditRow list) \<Rightarrow> (AuditRow list \<Rightarrow> 's \<Rightarrow> 's) \<Rightarrow> (string \<Rightarrow> string) \<Rightarrow>
     (nat \<Rightarrow> string) \<Rightarrow> (nat \<Rightarrow> time) \<Rightarrow> (nat \<Rightarrow> 's) \<Rightarrow> (nat \<Rightarrow> string option) \<Rightarrow>
     string \<Rightarrow> string \<Rightarrow> string \<Rightarrow> string \<Rightarrow> jsval \<Rightarrow> db_error + unit \<times> 's" where
  "audit_log getA setA H newId now snapshot commitError orgId action actorType actorId payload =
     transact getA setA H newId now snapshot commitError action actorType actorId
       (\<lambda>s. Inr (((), orgId, Some payload), s))"

text \<open>\<^verbatim>\<open>logSystem\<close> adds a row to a separate, unchained table.\<close>

record SystemAuditRow =
  sa_action :: string
  sa_actorType :: string
  sa_actorId :: string
  sa_payload :: jsval

definition logSystem ::
  "string \<Rightarrow> string \<Rightarrow> string \<Rightarrow> jsval \<Rightarrow> SystemAuditRow list \<Rightarrow> SystemAuditRow list" where
  "logSystem action actorType actorId payload db =
     db @ [\<lparr>sa_action = action, sa_actorType = actorType, sa_actorId = actorId, sa_payload = payload\<rparr>]"

subsection \<open>Lemmas on the verification loop\<close>

definition blank_row :: "AuditRow \<Rightarrow> bool" where
  "blank_row r \<longleftrightarrow> au_prevHash r = [] \<and> au_rowHash r = []"

definition final_hash :: "string \<Rightarrow> AuditRow list \<Rightarrow> string" where
  "final_hash p rs = (if rs = [] then p else au_rowHash (last rs))"

lemma final_hash_Cons: "final_hash p (r # rs) = final_hash (au_rowHash r) rs"
  by (simp add: final_hash_def)

text \<open>An accepted prefix can be skipped: the loop goes on from the state it leaves.\<close>

lemma verify_loop_append:
  assumes "vr_ok (verify_loop H c p lp ls an rs)" "an \<or> p = []"
  shows "\<exists>an'. (an' \<or> final_hash p rs = []) \<and>
    (\<forall>c' rs'. verify_loop H c' p lp ls an (rs @ rs') =
       verify_loop H c' (final_hash p rs) (vr_legacyPrefix (verify_loop H c p lp ls an rs))
         (vr_legacySerializationRows (verify_loop H c p lp ls an rs)) an' rs')"
  using assms
proof (induction rs arbitrary: p lp ls an)
  case Nil
  then show ?case by (auto simp: final_hash_def)
next
  case (Cons r rs)
  show ?case
  proof (cases "\<not> an \<and> au_prevHash r = [] \<and> au_rowHash r = []")
    case True
    then have "p = au_rowHash r" using Cons.prems(2) by simp
    then show ?thesis using Cons.IH [of p "lp + 1" ls an] Cons.prems True
      by (simp add: final_hash_Cons)
  next
    case False
    then show ?thesis using Cons.prems
        Cons.IH [of "au_rowHash r" lp "ls + (if matchesLegacySerialization H p r then 1 else 0)" True]
      by (auto simp: final_hash_Cons split: if_splits)
  qed
qed

lemma verify_loop_ok_fields:
  "vr_ok (verify_loop H c p lp ls an rs) \<Longrightarrow>
     vr_count (verify_loop H c p lp ls an rs) = c \<and> vr_brokenAt (verify_loop H c p lp ls an rs) = None"
  by (induction H c p lp ls an rs rule: verify_loop.induct) (auto split: if_splits)

lemma verify_eq: "verify H orgId db =
   verify_loop H (length (org_rows orgId db)) [] 0 0 False (org_rows orgId db)"
  by (simp add: verify_def Let_def)

lemma org_rows_snoc:
  assumes "au_orgId r = orgId" "\<And>x. x \<in> set (org_rows orgId db) \<Longrightarrow> au_seq x < au_seq r"
  shows "org_rows orgId (db @ [r]) = org_rows orgId db @ [r]"
  using assms sort_key_snoc [of "filter (\<lambda>r. au_orgId r = orgId) db" au_seq r]
  by (simp add: org_rows_def less_imp_le)

lemma append_row_shape:
  assumes "append_row H newId now orgId action actorType actorId payload db = Inr db'"
  obtains r where "db' = db @ [r]" "org_rows orgId db' = org_rows orgId db @ [r]"
    "au_orgId r = orgId" "au_prevHash r = final_hash [] (org_rows orgId db)"
    "au_rowHash r = chainHash H (row_identity r) (au_prevHash r)"
    "persistedPayload payload = Inr (au_payload r)" "au_action r = action"
    "au_seq r = (if org_rows orgId db = [] then 0 else au_seq (last (org_rows orgId db)) + 1)"
proof -
  obtain sp where sp: "persistedPayload payload = Inr sp"
    using assms by (auto simp: append_row_def Let_def bindR_eq_Inr)
  define rs where "rs = org_rows orgId db"
  define sq where "sq = (if rs = [] then 0 else au_seq (last rs) + 1)"
  define r where "r = \<lparr>au_id = newId, au_orgId = orgId, au_action = action, au_actorType = actorType,
      au_actorId = actorId, au_payload = sp, au_at = now, au_seq = sq, au_prevHash = final_hash [] rs,
      au_rowHash = chainHash H (identity orgId action actorType actorId sp sq now) (final_hash [] rs)\<rparr>"
  have db': "db' = db @ [r]"
    using assms sp by (auto simp: append_row_def Let_def last_row_def r_def rs_def sq_def final_hash_def)
  have "sorted (map au_seq rs)" by (simp add: rs_def org_rows_def)
  then have "au_seq x < sq" if "x \<in> set rs" for x
    using that by (cases rs rule: rev_cases) (auto simp: sq_def sorted_append)
  then have "org_rows orgId db' = rs @ [r]"
    unfolding db' rs_def by (intro org_rows_snoc) (auto simp: r_def rs_def)
  with db' sp show ?thesis
    by (intro that [of r]) (simp_all add: r_def rs_def sq_def row_identity_def)
qed

subsection \<open>Properties of the trail\<close>

text \<open>
  Property C4. Appending to an intact trail leaves it intact: the verification of the organisation
  still succeeds, counts one row more and reports the same legacy rows, and the verification of
  every other organisation is what it was.
\<close>

theorem append_keeps_trail_verified:
  assumes "\<And>x. H x \<noteq> []" and "vr_ok (verify H orgId db)"
    and "append_row H newId now orgId action actorType actorId payload db = Inr db'"
  shows "verify H orgId db' = (verify H orgId db)\<lparr>vr_count := vr_count (verify H orgId db) + 1\<rparr> \<and>
    (other \<noteq> orgId \<longrightarrow> verify H other db' = verify H other db)"
proof
  obtain r where r: "db' = db @ [r]" "org_rows orgId db' = org_rows orgId db @ [r]"
    "au_orgId r = orgId" "au_prevHash r = final_hash [] (org_rows orgId db)"
    "au_rowHash r = chainHash H (row_identity r) (au_prevHash r)"
    using append_row_shape [OF assms(3)] by metis
  define rs where "rs = org_rows orgId db"
  define res where "res = verify_loop H (length rs) [] 0 0 False rs"
  have ok: "vr_ok res" using assms(2) by (simp add: verify_eq res_def rs_def)
  have hr: "au_rowHash r \<noteq> []" using assms(1) r(5) by (simp add: chainHash_def)
  obtain an where "verify_loop H (length rs + 1) [] 0 0 False (rs @ [r]) =
      verify_loop H (length rs + 1) (final_hash [] rs) (vr_legacyPrefix res)
        (vr_legacySerializationRows res) an [r]"
    using verify_loop_append [of H "length rs" "[]" 0 0 False rs] ok unfolding res_def by blast
  also have "\<dots> = verify_loop H (length rs + 1) (au_rowHash r) (vr_legacyPrefix res)
        (vr_legacySerializationRows res) True []"
    using hr r(4,5) by (simp add: rs_def matchesLegacySerialization_def)
  also have "\<dots> = res\<lparr>vr_count := length rs + 1\<rparr>"
    using ok verify_loop_ok_fields [of H "length rs" "[]" 0 0 False rs]
    unfolding res_def [symmetric] by (cases res) simp
  finally show "verify H orgId db' = (verify H orgId db)\<lparr>vr_count := vr_count (verify H orgId db) + 1\<rparr>"
    using r(2) verify_loop_ok_fields [OF ok [unfolded res_def]] by (simp add: verify_eq res_def rs_def)
  show "other \<noteq> orgId \<longrightarrow> verify H other db' = verify H other db"
    using r(1,3) by (simp add: verify_eq org_rows_def)
qed

text \<open>A hash for evaluating samples: never empty, injective.\<close>

definition sample_hash :: "string \<Rightarrow> string" where
  "sample_hash x = CHR ''#'' # x"

lemma sample_hash_nonempty: "sample_hash x \<noteq> []"
  by (simp add: sample_hash_def)

lemma append_row_ok:
  "persistedPayload payload = Inr p \<Longrightarrow> \<exists>db'. append_row H i now orgId a t u payload db = Inr db'"
  by (simp add: append_row_def Let_def)

lemma verify_empty: "vr_ok (verify H orgId [])"
  by (simp add: verify_eq org_rows_def)

theorem append_keeps_trail_verified_witness:
  "\<exists>db'. append_row sample_hash ''r1'' 0 ''org'' ''device.revoke'' ''admin'' ''u'' (JObj []) [] = Inr db' \<and>
     vr_count (verify sample_hash ''org'' db') = 1"
proof -
  have "persistedPayload (JObj []) = Inr (JObj [])" by (simp add: persistedPayload_def)
  from append_row_ok [OF this] obtain db' where
    "append_row sample_hash ''r1'' 0 ''org'' ''device.revoke'' ''admin'' ''u'' (JObj []) [] = Inr db'"
    by blast
  with append_keeps_trail_verified [OF sample_hash_nonempty verify_empty this] show ?thesis
    by (auto simp: verify_eq org_rows_def)
qed

subsection \<open>Tamper evidence\<close>

text \<open>
  The text a verified row was matched with: its identity, or the legacy identity of an old
  enrollment row. \<^verbatim>\<open>trail_links\<close> drops the unanchored legacy prefix.
\<close>

definition matched_identity :: "(string \<Rightarrow> string) \<Rightarrow> AuditRow \<Rightarrow> jsval" where
  "matched_identity H r =
     (if chainHash H (row_identity r) (au_prevHash r) = au_rowHash r then row_identity r
      else nullish (legacyEnrollmentIdentity r) (row_identity r))"

definition trail_links :: "(string \<Rightarrow> string) \<Rightarrow> AuditRow list \<Rightarrow> (string \<times> string) list" where
  "trail_links H rs = map (\<lambda>r. (canonicalJson (matched_identity H r), au_rowHash r)) rs"

lemma matched_identity_text: "canonicalJson (matched_identity H r) \<in> object_texts"
proof -
  have "\<exists>kvs. matched_identity H r = JObj kvs"
    by (auto simp: matched_identity_def row_identity_def identity_def legacyEnrollmentIdentity_def
        split: jsval.splits)
  then show ?thesis by (auto simp: object_texts_def)
qed

lemma verify_loop_linked:
  "vr_ok (verify_loop H c p lp ls True rs) \<Longrightarrow> linked H p (trail_links H rs)"
proof (induction rs arbitrary: p lp ls)
  case (Cons r rs)
  then have *: "au_prevHash r = p"
    "chainHash H (row_identity r) p = au_rowHash r \<or> matchesLegacySerialization H p r"
    "vr_ok (verify_loop H c (au_rowHash r) lp
       (ls + (if matchesLegacySerialization H p r then 1 else 0)) True rs)"
    by (auto split: if_splits)
  then have "chainHash H (matched_identity H r) p = au_rowHash r"
    by (auto simp: matched_identity_def matchesLegacySerialization_def split: option.splits)
  with Cons.IH [OF *(3)] show ?case by (simp add: trail_links_def chainHash_def)
qed (simp add: trail_links_def)

lemma verify_loop_anchored:
  assumes "vr_ok (verify_loop H c [] lp ls False rs)"
  shows "linked H [] (trail_links H (dropWhile blank_row rs))"
  using assms
proof (induction rs arbitrary: lp)
  case (Cons r rs)
  show ?case
  proof (cases "blank_row r")
    case True
    then show ?thesis using Cons by (simp add: blank_row_def)
  next
    case False
    then have "vr_ok (verify_loop H c [] lp ls True (r # rs))" using Cons.prems
      by (simp add: blank_row_def split: if_splits)
    from verify_loop_linked [OF this] show ?thesis using False by simp
  qed
qed (simp add: trail_links_def)

abbreviation anchored_rows :: "string \<Rightarrow> AuditRow list \<Rightarrow> AuditRow list" where
  "anchored_rows orgId db \<equiv> dropWhile blank_row (org_rows orgId db)"


definition sample_row :: "AuditRow" where
  "sample_row =
     (let i = identity ''org'' ''a'' ''admin'' ''u'' (JObj []) 0 0
      in \<lparr>au_id = ''r'', au_orgId = ''org'', au_action = ''a'', au_actorType = ''admin'',
          au_actorId = ''u'', au_payload = JObj [], au_at = 0, au_seq = 0, au_prevHash = [],
          au_rowHash = chainHash sample_hash i []\<rparr>)"

lemma sample_row_verifies: "vr_ok (verify sample_hash ''org'' [sample_row])"
  by (simp add: verify_eq org_rows_def sample_row_def Let_def row_identity_def chainHash_def sample_hash_def)


text \<open>
  What the trail alone cannot show, because no signed checkpoint anchors its head:
  an intact trail stays accepted after its newest rows are deleted, and any trail is accepted once
  every stored hash is blanked, since the rows then count as written before hash chaining.
\<close>

theorem truncated_or_blanked_trail_accepted:
  "(vr_ok (verify H orgId db) \<longrightarrow> vr_ok (verify H orgId (filter (\<lambda>r. au_seq r < n) db))) \<and>
   vr_ok (verify H orgId (map (\<lambda>r. r\<lparr>au_prevHash := [], au_rowHash := []\<rparr>) db))"
proof
  have drop: "\<exists>k. filter (\<lambda>r. au_seq r < n) rs = take k rs" if "sorted (map au_seq rs)" for rs
    using that
  proof (induction rs)
    case (Cons r rs)
    show ?case
    proof (cases "au_seq r < n")
      case True
      from Cons obtain k where "filter (\<lambda>r. au_seq r < n) rs = take k rs" by auto
      then show ?thesis using True by (intro exI [of _ "Suc k"]) simp
    next
      case False
      then have "filter (\<lambda>r. au_seq r < n) (r # rs) = take 0 (r # rs)"
        using Cons.prems by (auto simp: filter_empty_conv)
      then show ?thesis by blast
    qed
  qed simp
  have prefix: "vr_ok (verify_loop H c p lp ls an rs) \<Longrightarrow> vr_ok (verify_loop H c' p lp ls an (take k rs))"
    for c c' p lp ls an k and rs :: "AuditRow list"
    by (induction H c p lp ls an rs arbitrary: k rule: verify_loop.induct)
      (auto simp: take_Cons' split: if_splits)
  have "org_rows orgId (filter (\<lambda>r. au_seq r < n) db) = filter (\<lambda>r. au_seq r < n) (org_rows orgId db)"
    by (simp add: org_rows_def filter_sort conj_commute)
  moreover obtain k where "filter (\<lambda>r. au_seq r < n) (org_rows orgId db) = take k (org_rows orgId db)"
    using drop [of "org_rows orgId db"] by (auto simp: org_rows_def)
  ultimately show "vr_ok (verify H orgId db) \<longrightarrow> vr_ok (verify H orgId (filter (\<lambda>r. au_seq r < n) db))"
    using prefix by (metis verify_eq)
  have blank: "vr_ok (verify_loop H c p lp ls False (map (\<lambda>r. r\<lparr>au_prevHash := [], au_rowHash := []\<rparr>) rs))"
    for c p lp ls rs
    by (induction rs arbitrary: lp) auto
  have "org_rows orgId (map (\<lambda>r. r\<lparr>au_prevHash := [], au_rowHash := []\<rparr>) db)
      = map (\<lambda>r. r\<lparr>au_prevHash := [], au_rowHash := []\<rparr>) (org_rows orgId db)"
    by (simp add: org_rows_def filter_map comp_def sort_key_map)
  then show "vr_ok (verify H orgId (map (\<lambda>r. r\<lparr>au_prevHash := [], au_rowHash := []\<rparr>) db))"
    using blank by (simp add: verify_eq)
qed

theorem truncated_or_blanked_trail_accepted_witness:
  "vr_ok (verify sample_hash ''org'' (filter (\<lambda>r. au_seq r < 0) [sample_row]))"
  using truncated_or_blanked_trail_accepted [of sample_hash "''org''" "[sample_row]" 0] sample_row_verifies
  by blast

lemma identity_perm:
  assumes "json_perm p q"
  shows "canonicalJson (identity a b c d p e f) = canonicalJson (identity a b c d q e f)"
proof -
  let ?n = "\<lambda>p. if p \<in> {JUndef, JNull} then JObj [] else p"
  have "json_perm (?n p) (?n q)"
    using assms by (cases rule: json_perm.cases) (auto intro: json_perm.intros)
  then have "canonicalJson (?n p) = canonicalJson (?n q)" by (rule canonicalJson_perm)
  then show ?thesis unfolding identity_def by simp
qed

lemma legacy_identity_perm:
  assumes "json_perm (au_payload r) q"
  shows "map_option canonicalJson (legacyEnrollmentIdentity (r\<lparr>au_payload := q\<rparr>))
    = map_option canonicalJson (legacyEnrollmentIdentity r)"
  using assms
proof (cases rule: json_perm.cases)
  case json_refl
  then show ?thesis by simp
next
  case (json_arr vs ws)
  then show ?thesis by (simp add: legacyEnrollmentIdentity_def)
next
  case (json_obj kvs kws kws')
  have keys: "fst ` set kws' = fst ` set kvs"
    using json_obj(3,5) by (metis list.set_map mset_eq_setD)
  have "json_perm (JObj (kvs @ [(''personId'', JNull)])) (JObj (kws' @ [(''personId'', JNull)]))"
    if "''personId'' \<notin> fst ` set kvs"
  proof (rule json_perm.json_obj [of _ "kws @ [(''personId'', JNull)]"])
    have "list_all2 json_perm [JNull] [JNull]" by (simp add: json_refl)
    with json_obj(4) show "list_all2 json_perm (map snd (kvs @ [(''personId'', JNull)]))
        (map snd (kws @ [(''personId'', JNull)]))"
      by (auto intro: list_all2_appendI)
    have "''personId'' \<notin> set (map fst kvs)" using that by simp
    with json_obj(6) show "distinct (map fst (kvs @ [(''personId'', JNull)]))" by simp
  qed (use json_obj in simp_all)
  from identity_perm [OF this] show ?thesis
    using json_obj(1,2) keys by (simp add: legacyEnrollmentIdentity_def)
qed

definition reread :: "(jsval \<Rightarrow> jsval) \<Rightarrow> AuditRow \<Rightarrow> AuditRow" where
  "reread f r = r\<lparr>au_payload := f (au_payload r)\<rparr>"

lemma verify_loop_reread:
  assumes "\<And>v. json_perm v (f v)"
  shows "verify_loop H c p lp ls an (map (reread f) rs) = verify_loop H c p lp ls an rs"
proof -
  have i: "chainHash H (row_identity (reread f r)) p = chainHash H (row_identity r) p" for r p
    using identity_perm [OF assms] by (simp add: chainHash_def row_identity_def reread_def)
  have l: "map_option canonicalJson (legacyEnrollmentIdentity (reread f r))
      = map_option canonicalJson (legacyEnrollmentIdentity r)" for r
    unfolding reread_def using assms by (rule legacy_identity_perm)
  have m: "matchesLegacySerialization H p (reread f r) = matchesLegacySerialization H p r" for r p
  proof -
    have "au_rowHash (reread f r) = au_rowHash r" by (simp add: reread_def)
    then show ?thesis
      using l [of r] unfolding matchesLegacySerialization_def i
      by (auto simp: chainHash_def split: option.splits)
  qed
  have [simp]: "au_prevHash (reread f r) = au_prevHash r" "au_rowHash (reread f r) = au_rowHash r"
    "au_seq (reread f r) = au_seq r" "au_id (reread f r) = au_id r" for r
    by (simp_all add: reread_def)
  show ?thesis by (induction rs arbitrary: p lp ls an) (simp_all add: i m)
qed

text \<open>
  Reading the payloads back from JSONB, which may reorder the members of every
  object, does not change the outcome of the verification: the canonical form hides key order.
\<close>

theorem verify_independent_of_key_order:
  assumes "\<And>v. json_perm v (f v)"
  shows "verify H orgId (map (\<lambda>r. r\<lparr>au_payload := f (au_payload r)\<rparr>) db) = verify H orgId db"
proof -
  have "org_rows orgId (map (reread f) db) = map (reread f) (org_rows orgId db)"
    unfolding org_rows_def filter_map by (subst sort_key_map) (simp_all add: comp_def reread_def)
  then have "verify H orgId (map (reread f) db) = verify H orgId db"
    by (simp add: verify_eq verify_loop_reread [OF assms])
  then show ?thesis unfolding reread_def .
qed

text \<open>A concrete reordering: the members of the outermost object reversed.\<close>

definition reverse_members :: "jsval \<Rightarrow> jsval" where
  "reverse_members v =
     (case v of JObj kvs \<Rightarrow> if distinct (map fst kvs) then JObj (rev kvs) else v | _ \<Rightarrow> v)"

lemma reverse_members_perm: "json_perm v (reverse_members v)"
proof (cases v)
  case (JObj kvs)
  have "list_all2 json_perm (map snd kvs) (map snd kvs)"
    by (simp add: list_all2_same json_refl)
  then show ?thesis using JObj json_obj [of kvs kvs "rev kvs"]
    by (auto simp: reverse_members_def intro: json_refl)
qed (auto simp: reverse_members_def intro: json_refl)

theorem verify_independent_of_key_order_witness:
  "verify sample_hash ''org'' (map (\<lambda>r. r\<lparr>au_payload := reverse_members (au_payload r)\<rparr>) [sample_row])
   = verify sample_hash ''org'' [sample_row]"
  by (rule verify_independent_of_key_order [OF reverse_members_perm])

subsection \<open>Properties of audited transactions\<close>

lemma transact_loop_iff:
  assumes "n + left = 4" "0 < left"
  shows "transact_loop left n att = r \<longleftrightarrow>
    (\<exists>k. n \<le> k \<and> k < 4 \<and> (\<forall>m. n \<le> m \<and> m < k \<longrightarrow> (\<exists>e. att m = Inl e \<and> is_conflict e)) \<and> att k = r \<and>
       (k = 3 \<or> \<not> (\<exists>e. r = Inl e \<and> is_conflict e)))"
  using assms
proof (induction left arbitrary: n)
  case (Suc left)
  let ?stop = "n = 3 \<or> \<not> (\<exists>e. att n = Inl e \<and> is_conflict e)"
  show ?case
  proof (cases ?stop)
    case True
    then have "transact_loop (Suc left) n att = att n" by (auto split: sum.splits)
    moreover have "k = n" if "n \<le> k" "k < 4" "\<forall>m. n \<le> m \<and> m < k \<longrightarrow> (\<exists>e. att m = Inl e \<and> is_conflict e)" for k
      using True that by (cases "k = n") auto
    ultimately show ?thesis using True Suc.prems by auto
  next
    case False
    then have step: "transact_loop (Suc left) n att = transact_loop left (Suc n) att"
      by (auto split: sum.splits)
    have c: "\<exists>e. att n = Inl e \<and> is_conflict e" "n < 3" using False Suc.prems by auto
    have split: "(n \<le> k \<and> k < 4 \<and> (\<forall>m. n \<le> m \<and> m < k \<longrightarrow> (\<exists>e. att m = Inl e \<and> is_conflict e)) \<and> att k = r \<and>
        (k = 3 \<or> \<not> (\<exists>e. r = Inl e \<and> is_conflict e))) \<longleftrightarrow>
      (Suc n \<le> k \<and> k < 4 \<and> (\<forall>m. Suc n \<le> m \<and> m < k \<longrightarrow> (\<exists>e. att m = Inl e \<and> is_conflict e)) \<and> att k = r \<and>
        (k = 3 \<or> \<not> (\<exists>e. r = Inl e \<and> is_conflict e)))" for k
    proof -
      have "(\<forall>m. n \<le> m \<and> m < k \<longrightarrow> P m) \<longleftrightarrow> (n < k \<longrightarrow> P n) \<and> (\<forall>m. Suc n \<le> m \<and> m < k \<longrightarrow> P m)" for P
        by (metis Suc_le_eq le_less)
      then show ?thesis using c by (cases "k = n") auto
    qed
    show ?thesis unfolding step split using Suc c by auto
  qed
qed simp

text \<open>
  \<^verbatim>\<open>transact\<close> ends with the outcome of one of at most four attempts: every earlier
  attempt failed with a serialization or uniqueness conflict, and the last one succeeded, failed
  with another error, or was the fourth. So a conflict is retried three times and nothing else is.
\<close>

theorem transact_retries_conflicts_only:
  "transact getA setA H newId now snapshot commitError action actorType actorId mutation = r \<longleftrightarrow>
    (\<exists>k < 4. let att = (\<lambda>n. attempt_once getA setA H (newId n) (now n) action actorType actorId
                 mutation (commitError n) (snapshot n))
      in (\<forall>m < k. \<exists>e. att m = Inl e \<and> is_conflict e) \<and> att k = r \<and>
         (k = 3 \<or> \<not> (\<exists>e. r = Inl e \<and> is_conflict e)))"
  unfolding transact_def Let_def by (subst transact_loop_iff) auto

theorem transact_retries_conflicts_only_witness:
  "transact id (\<lambda>rows _. rows) sample_hash (\<lambda>_. ''i'') (\<lambda>_. 0) (\<lambda>_. []) (\<lambda>_. Some ''P2034'') ''a'' ''t'' ''u''
     (\<lambda>s. Inr (((), ''org'', None), s)) = Inl (DbError ''P2034'')"
  using transact_retries_conflicts_only [of id "\<lambda>rows _. rows" sample_hash "\<lambda>_. ''i''" "\<lambda>_. 0" "\<lambda>_. []"
      "\<lambda>_. Some ''P2034''" "''a''" "''t''" "''u''" "\<lambda>s. Inr (((), ''org'', None), s)"
      "Inl (DbError ''P2034'')"]
  by (simp add: attempt_once_def append_row_def persistedPayload_def Let_def is_conflict_def)

text \<open>
  Property C6. A committed \<^verbatim>\<open>transact\<close> is atomic: the new state is the mutation's state on the
  snapshot of the committing attempt with exactly one audit row added, a row of the mutation's
  organisation with the caller's action, numbered one past the newest row and hashed onto it.
\<close>

theorem transact_commits_mutation_with_its_row:
  assumes "transact getA setA H newId now snapshot commitError action actorType actorId mutation
      = Inr (result, s')"
  shows "\<exists>k orgId payload s rows r. k < 4 \<and> commitError k = None \<and>
    mutation (snapshot k) = Inr ((result, orgId, payload), s) \<and> s' = setA (getA s @ [r]) s \<and>
    org_rows orgId (getA s @ [r]) = org_rows orgId (getA s) @ [r] \<and> au_action r = action \<and>
    au_prevHash r = final_hash [] (org_rows orgId (getA s)) \<and>
    au_rowHash r = chainHash H (row_identity r) (au_prevHash r)"
proof -
  let ?att = "\<lambda>k. attempt_once getA setA H (newId k) (now k) action actorType actorId mutation
    (commitError k) (snapshot k)"
  obtain k where k: "k < 4" "?att k = Inr (result, s')"
    using assms transact_loop_iff [of 0 4 ?att "Inr (result, s')"] by (auto simp: transact_def)
  obtain orgId payload s rows where *: "mutation (snapshot k) = Inr ((result, orgId, payload), s)"
    "append_row H (newId k) (now k) orgId action actorType actorId (nullish payload (JObj [])) (getA s) = Inr rows"
    "commitError k = None" "s' = setA rows s"
    using k(2) by (auto simp: attempt_once_def bindR_eq_Inr split: option.splits)
  obtain r where "rows = getA s @ [r]" "org_rows orgId rows = org_rows orgId (getA s) @ [r]"
    "au_action r = action" "au_prevHash r = final_hash [] (org_rows orgId (getA s))"
    "au_rowHash r = chainHash H (row_identity r) (au_prevHash r)"
    using append_row_shape [OF *(2)] by metis
  with * k(1) show ?thesis by metis
qed

theorem transact_commits_mutation_with_its_row_witness:
  "\<exists>s' r. transact id (\<lambda>rows _. rows) sample_hash (\<lambda>_. ''i'') (\<lambda>_. 0) (\<lambda>_. []) (\<lambda>_. None) ''a'' ''t'' ''u''
     (\<lambda>s. Inr (((), ''org'', None), s)) = Inr ((), s') \<and> s' = [r] \<and> au_action r = ''a''"
proof -
  let ?t = "transact id (\<lambda>rows _. rows) sample_hash (\<lambda>_. ''i'') (\<lambda>_. 0) (\<lambda>_. []) (\<lambda>_. None) ''a'' ''t'' ''u''
     (\<lambda>s. Inr (((), ''org'', None), s))"
  have "\<exists>s'. ?t = Inr ((), s')"
    by (simp add: transact_def eval_nat_numeral attempt_once_def append_row_def persistedPayload_def Let_def)
  then obtain s' where s': "?t = Inr ((), s')" by blast
  from transact_commits_mutation_with_its_row [OF s'] show ?thesis using s' by auto
qed

end
