(* ===== verification/OrgTree.thy ===== *)
theory OrgTree
  imports JsNumber
begin

section \<open>The organisation tree (org/org-tree.service.ts)\<close>

text \<open>
  The table of organisations is a list of rows. \<^verbatim>\<open>ancestors\<close> walks \<^verbatim>\<open>parentId\<close> upwards, \<^verbatim>\<open>descendants\<close>
  searches breadth first downwards; both are guarded against cycles and against size. The lemmas
  relate them to one relation, \<^verbatim>\<open>parent_rel\<close>, and so to each other.
\<close>

datatype OrgType = GROUP | COMPANY | DEPARTMENT | TEAM

record Organization =
  org_id :: string
  org_name :: string
  org_type :: OrgType
  org_parentId :: "string option"

definition MAX_ORG_DEPTH :: nat where
  "MAX_ORG_DEPTH = 64"

fun selectInherited :: "'n list \<Rightarrow> ('n \<Rightarrow> 't option) \<Rightarrow> 't option" where
  "selectInherited [] pick = None"
| "selectInherited (node # chain) pick =
     (case pick node of Some v \<Rightarrow> Some v | None \<Rightarrow> selectInherited chain pick)"

definition find_org :: "Organization list \<Rightarrow> string \<Rightarrow> Organization option" where
  "find_org db i = List.find (\<lambda>g. org_id g = i) db"

text \<open>The loop of \<^verbatim>\<open>ancestors\<close>: the set of visited ids, the chain so far, and the id to look up next.\<close>

function ancestors_loop ::
  "Organization list \<Rightarrow> string \<Rightarrow> string set \<Rightarrow> Organization list \<Rightarrow> string option \<Rightarrow>
     Organization list res" where
  "ancestors_loop db orgId seen chain current =
     (case current of
        None \<Rightarrow> Inr chain
      | Some cur \<Rightarrow>
          if cur = [] then Inr chain
          else if cur \<in> seen
          then Inl (PlainError (''org hierarchy cycle detected at \"'' @ cur @
                 ''\" (a node cannot be its own ancestor)''))
          else if MAX_ORG_DEPTH \<le> length chain
          then Inl (PlainError (''org hierarchy too deep (> 64) starting at \"'' @ orgId @
                 ''\" - likely a cycle''))
          else case find_org db cur of
                 None \<Rightarrow>
                   if chain = [] then Inl (PlainError (''org \"'' @ orgId @ ''\" not found'')) else Inr chain
               | Some node \<Rightarrow>
                   ancestors_loop db orgId (insert cur seen) (chain @ [node]) (org_parentId node))"
  by pat_completeness auto

termination
  by (relation "measure (\<lambda>(db, orgId, seen, chain, current). MAX_ORG_DEPTH - length chain)") auto

definition ancestors :: "Organization list \<Rightarrow> string \<Rightarrow> Organization list res" where
  "ancestors db orgId = ancestors_loop db orgId {} [] (Some orgId)"

definition child_ids :: "Organization list \<Rightarrow> string \<Rightarrow> string list" where
  "child_ids db i = map org_id (filter (\<lambda>g. org_parentId g = Some i) db)"

text \<open>The breadth-first search: an id already seen is skipped, another one is output and expanded.\<close>

function descendants_loop ::
  "Organization list \<Rightarrow> string \<Rightarrow> string set \<Rightarrow> string list \<Rightarrow> string list \<Rightarrow> string list res" where
  "descendants_loop db orgId seen out queue =
     (case queue of
        [] \<Rightarrow> Inr out
      | i # rest \<Rightarrow>
          if i \<in> seen then descendants_loop db orgId seen out rest
          else if MAX_ORG_DEPTH * MAX_ORG_DEPTH < length (out @ [i])
          then Inl (PlainError (''org subtree under \"'' @ orgId @ ''\" too large - likely a cycle''))
          else descendants_loop db orgId (insert i seen) (out @ [i])
                 (rest @ filter (\<lambda>k. k \<notin> insert i seen) (child_ids db i)))"
  by pat_completeness auto

termination
  by (relation "measures [\<lambda>(db, orgId, seen, out, queue). MAX_ORG_DEPTH * MAX_ORG_DEPTH - length out,
        \<lambda>(db, orgId, seen, out, queue). length queue]") (auto simp: MAX_ORG_DEPTH_def)

definition descendants :: "Organization list \<Rightarrow> string \<Rightarrow> string list res" where
  "descendants db orgId = descendants_loop db orgId {} [] [orgId]"

definition resolveInherited ::
  "Organization list \<Rightarrow> string \<Rightarrow> (Organization \<Rightarrow> 't option) \<Rightarrow> 't option res" where
  "resolveInherited db orgId pick =
     bindR (ancestors db orgId) (\<lambda>chain. Inr (selectInherited chain pick))"

declare ancestors_loop.simps [simp del] descendants_loop.simps [simp del]

lemma ancestors_loop_None: "ancestors_loop db orgId seen chain None = Inr chain"
  by (simp add: ancestors_loop.simps)

lemmas ancestors_loop_Some = ancestors_loop.simps [of _ _ _ _ "Some cur", unfolded option.case] for cur

lemma descendants_loop_Nil: "descendants_loop db orgId seen out [] = Inr out"
  by (simp add: descendants_loop.simps)

lemmas descendants_loop_Cons =
  descendants_loop.simps [of _ _ _ _ "i # rest", unfolded list.case] for i rest

subsection \<open>The parent relation\<close>

definition parent_rel :: "Organization list \<Rightarrow> (string \<times> string) set" where
  "parent_rel db = {(org_id g, p) | g p. g \<in> set db \<and> org_parentId g = Some p}"

definition wf_orgs :: "Organization list \<Rightarrow> bool" where
  "wf_orgs db \<longleftrightarrow> distinct (map org_id db) \<and> [] \<notin> org_id ` set db"

lemma find_org_Some: "find_org db i = Some g \<Longrightarrow> g \<in> set db \<and> org_id g = i"
  by (auto simp: find_org_def find_Some_iff)

lemma find_org_None: "find_org db i = None \<longleftrightarrow> i \<notin> org_id ` set db"
  by (auto simp: find_org_def find_None_iff)

lemma find_org_unique:
  assumes "wf_orgs db" "g \<in> set db"
  shows "find_org db (org_id g) = Some g"
proof -
  obtain x where x: "find_org db (org_id g) = Some x" using assms(2) find_org_None by (cases "find_org db (org_id g)") blast+
  with find_org_Some [OF x] assms show ?thesis by (auto simp: wf_orgs_def distinct_map inj_on_def)
qed

lemma parent_rel_find: "wf_orgs db \<Longrightarrow> find_org db i = Some g \<Longrightarrow> (i, p) \<in> parent_rel db \<longleftrightarrow> org_parentId g = Some p"
  using find_org_unique find_org_Some unfolding parent_rel_def by fastforce

text \<open>\<^verbatim>\<open>upward db c ns\<close>: the rows met when walking up from the id \<^verbatim>\<open>c\<close>, to the end.\<close>

inductive upward :: "Organization list \<Rightarrow> string option \<Rightarrow> Organization list \<Rightarrow> bool" for db where
  up_null: "c \<in> {None, Some []} \<Longrightarrow> upward db c []"
| up_dangling: "find_org db i = None \<Longrightarrow> upward db (Some i) []"
| up_step: "i \<noteq> [] \<Longrightarrow> find_org db i = Some g \<Longrightarrow> upward db (org_parentId g) ns \<Longrightarrow> upward db (Some i) (g # ns)"

inductive_simps upward_Nil: "upward db c []"
inductive_simps upward_Cons: "upward db c (g # ns)"

lemma ancestors_loop_upward:
  "ancestors_loop db orgId seen chain current = Inr res \<Longrightarrow> \<exists>ns. res = chain @ ns \<and> upward db current ns"
proof (induction db orgId seen chain current rule: ancestors_loop.induct)
  case (1 db orgId seen chain current)
  show ?case
  proof (cases current)
    case None
    then show ?thesis using 1(2) by (auto simp: ancestors_loop_None intro: upward.intros)
  next
    case cur: (Some cur)
    show ?thesis
    proof (cases "find_org db cur")
      case None
      then show ?thesis using 1(2) cur
        by (auto simp: ancestors_loop_Some intro: upward.intros split: if_splits)
    next
      case (Some node)
      show ?thesis
      proof (cases "cur = []")
        case True
        then show ?thesis using 1(2) cur by (auto simp: ancestors_loop_Some intro: upward.intros)
      next
        case False
        then have g: "cur \<notin> seen" "\<not> MAX_ORG_DEPTH \<le> length chain"
          "ancestors_loop db orgId (insert cur seen) (chain @ [node]) (org_parentId node) = Inr res"
          using 1(2) cur Some by (auto simp: ancestors_loop_Some split: if_splits)
        from 1(1) [OF cur False g(1,2) Some g(3)] show ?thesis
          using False Some cur by (auto intro: upward.intros)
      qed
    qed
  qed
qed

lemma upward_set:
  assumes "wf_orgs db" "upward db c ns"
  shows "org_id ` set ns = {a. \<exists>i. c = Some i \<and> (i, a) \<in> (parent_rel db)\<^sup>* \<and> a \<in> org_id ` set db}"
  using assms(2)
proof induction
  case (up_null c)
  have "[] \<notin> Domain (parent_rel db)" using assms(1) by (auto simp: parent_rel_def wf_orgs_def)
  with up_null assms(1) show ?case by (auto simp: wf_orgs_def elim: converse_rtranclE)
next
  case (up_dangling i)
  then have "i \<notin> Domain (parent_rel db)" "i \<notin> org_id ` set db" by (auto simp: parent_rel_def find_org_None)
  then show ?case by (auto elim: converse_rtranclE)
next
  case (up_step i g ns)
  have g: "g \<in> set db" "org_id g = i" using find_org_Some [OF up_step(2)] by auto
  have "(i, a) \<in> (parent_rel db)\<^sup>* \<longleftrightarrow> a = i \<or> (\<exists>j. org_parentId g = Some j \<and> (j, a) \<in> (parent_rel db)\<^sup>*)" for a
    using parent_rel_find [OF assms(1) up_step(2)]
    by (metis converse_rtranclE converse_rtrancl_into_rtrancl rtrancl.rtrancl_refl)
  then show ?case using up_step.IH g by auto
qed

text \<open>An exhaustive search: everything output is reachable, and the frontier closes.\<close>

lemma child_ids_iff: "k \<in> set (child_ids db i) \<longleftrightarrow> (k, i) \<in> parent_rel db"
  by (auto simp: child_ids_def parent_rel_def)

definition bfs_inv :: "Organization list \<Rightarrow> string \<Rightarrow> string set \<Rightarrow> string list \<Rightarrow> string list \<Rightarrow> bool" where
  "bfs_inv db rt seen out queue \<longleftrightarrow>
     seen = set out \<and> distinct out \<and> rt \<in> set out \<union> set queue \<and>
     (\<forall>x \<in> set out \<union> set queue. (x, rt) \<in> (parent_rel db)\<^sup>*) \<and>
     (\<forall>i \<in> set out. \<forall>k. (k, i) \<in> parent_rel db \<longrightarrow> k \<in> set out \<union> set queue)"

lemma bfs_inv_start: "bfs_inv db rt {} [] [rt]"
  by (simp add: bfs_inv_def)

lemma bfs_inv_skip: "bfs_inv db rt seen out (i # rest) \<Longrightarrow> i \<in> seen \<Longrightarrow> bfs_inv db rt seen out rest"
  unfolding bfs_inv_def by auto

lemma bfs_inv_expand:
  assumes "bfs_inv db rt seen out (i # rest)" "i \<notin> seen"
  shows "bfs_inv db rt (insert i seen) (out @ [i]) (rest @ filter (\<lambda>k. k \<notin> insert i seen) (child_ids db i))"
  using assms unfolding bfs_inv_def
  by (auto simp: child_ids_iff intro: converse_rtrancl_into_rtrancl)

lemma bfs_inv_final:
  assumes "bfs_inv db rt seen out []"
  shows "set out = {x. (x, rt) \<in> (parent_rel db)\<^sup>*}"
proof -
  have "x \<in> set out" if "(x, rt) \<in> (parent_rel db)\<^sup>*" for x
    using that
  proof (induction rule: converse_rtrancl_induct)
    case base
    then show ?case using assms by (simp add: bfs_inv_def)
  next
    case (step y z)
    then show ?case using assms unfolding bfs_inv_def by fastforce
  qed
  moreover have "(x, rt) \<in> (parent_rel db)\<^sup>*" if "x \<in> set out" for x
    using assms that by (simp add: bfs_inv_def)
  ultimately show ?thesis by blast
qed


lemma descendants_loop_Inr:
  assumes "bfs_inv db rt seen out queue" "descendants_loop db rt seen out queue = Inr ds"
  shows "distinct ds \<and> set ds = {x. (x, rt) \<in> (parent_rel db)\<^sup>*}"
  using assms
proof (induction db rt seen out queue rule: descendants_loop.induct)
  case (1 db rt seen out queue)
  show ?case
  proof (cases queue)
    case Nil
    then have "ds = out" using 1(4) by (simp add: descendants_loop_Nil descendants_loop_Cons)
    with bfs_inv_final 1(3) Nil show ?thesis by (auto simp: bfs_inv_def)
  next
    case (Cons i rest)
    show ?thesis
    proof (cases "i \<in> seen")
      case True
      then show ?thesis using 1(1) [OF Cons True] 1(3,4) bfs_inv_skip Cons
        by (auto simp: descendants_loop_Cons)
    next
      case False
      then have small: "\<not> MAX_ORG_DEPTH * MAX_ORG_DEPTH < length (out @ [i])"
        using 1(4) Cons by (auto simp: descendants_loop_Cons split: if_splits)
      from 1(2) [OF Cons False small] bfs_inv_expand [OF 1(3) [unfolded Cons] False] 1(4) Cons False small
      show ?thesis by (simp add: descendants_loop_Nil descendants_loop_Cons)
    qed
  qed
qed

lemma finite_below: "finite {x. (x, rt) \<in> (parent_rel db)\<^sup>*}"
proof (rule finite_subset)
  show "{x. (x, rt) \<in> (parent_rel db)\<^sup>*} \<subseteq> insert rt (org_id ` set db)"
    by (auto simp: parent_rel_def elim: converse_rtranclE)
qed simp

lemma descendants_loop_total:
  assumes "bfs_inv db rt seen out queue"
    "card {x. (x, rt) \<in> (parent_rel db)\<^sup>*} \<le> MAX_ORG_DEPTH * MAX_ORG_DEPTH"
  shows "\<exists>ds. descendants_loop db rt seen out queue = Inr ds"
  using assms
proof (induction db rt seen out queue rule: descendants_loop.induct)
  case (1 db rt seen out queue)
  show ?case
  proof (cases queue)
    case Nil
    then show ?thesis by (simp add: descendants_loop_Nil descendants_loop_Cons)
  next
    case (Cons i rest)
    show ?thesis
    proof (cases "i \<in> seen")
      case True
      then show ?thesis using 1(1) [OF Cons True] 1(3,4) bfs_inv_skip Cons
        by (auto simp: descendants_loop_Cons)
    next
      case False
      let ?q = "rest @ filter (\<lambda>k. k \<notin> insert i seen) (child_ids db i)"
      have inv: "bfs_inv db rt (insert i seen) (out @ [i]) ?q"
        using bfs_inv_expand 1(3) Cons False by blast
      then have "set (out @ [i]) \<subseteq> {x. (x, rt) \<in> (parent_rel db)\<^sup>*}" "distinct (out @ [i])"
        by (auto simp: bfs_inv_def)
      then have "length (out @ [i]) \<le> card {x. (x, rt) \<in> (parent_rel db)\<^sup>*}"
        using card_mono [OF finite_below] distinct_card by metis
      then have small: "\<not> MAX_ORG_DEPTH * MAX_ORG_DEPTH < length (out @ [i])" using 1(4) by simp
      from 1(2) [OF Cons False small inv 1(4)] Cons False small
      show ?thesis by (simp add: descendants_loop_Nil descendants_loop_Cons)
    qed
  qed
qed

lemma ancestors_loop_complete:
  assumes "upward db current ns" "seen = org_id ` set chain" "set chain \<subseteq> set db"
    "distinct (map org_id (chain @ ns))" "length (chain @ ns) < MAX_ORG_DEPTH" "chain @ ns \<noteq> []"
  shows "ancestors_loop db orgId seen chain current = Inr (chain @ ns)"
  using assms
proof (induction arbitrary: seen chain rule: upward.induct)
  case (up_null c)
  then show ?case by (auto simp: ancestors_loop_None ancestors_loop_Some)
next
  case (up_dangling i)
  then have "i \<notin> seen" by (auto simp: find_org_None)
  then show ?case using up_dangling by (simp add: ancestors_loop_Some)
next
  case (up_step i g ns)
  have g: "g \<in> set db" "org_id g = i" using find_org_Some [OF up_step(2)] by auto
  have "ancestors_loop db orgId (insert i seen) (chain @ [g]) (org_parentId g) = Inr ((chain @ [g]) @ ns)"
    using up_step.prems g by (intro up_step.IH) auto
  then show ?case using up_step g by (auto simp: ancestors_loop_Some)
qed

lemma upward_deterministic: "upward db c ns \<Longrightarrow> upward db c ms \<Longrightarrow> ns = ms"
proof (induction arbitrary: ms rule: upward.induct)
  case (up_null c)
  from up_null(2) show ?case by (cases rule: upward.cases) (use up_null(1) in auto)
next
  case (up_dangling i)
  from up_dangling(2) show ?case by (cases rule: upward.cases) (use up_dangling(1) in auto)
next
  case (up_step i g ns)
  from up_step.prems obtain ms' where "ms = g # ms'" "upward db (org_parentId g) ms'"
    by (cases rule: upward.cases) (use up_step(1,2) in auto)
  then show ?case using up_step.IH by simp
qed

text \<open>A walk that ends visits no row twice.\<close>

lemma upward_suffix: "upward db c (xs @ g # ys) \<Longrightarrow> upward db (Some (org_id g)) (g # ys)"
proof (induction xs arbitrary: c)
  case Nil
  then show ?case using find_org_Some by (fastforce simp: upward_Cons)
next
  case (Cons x xs)
  then have "\<exists>c'. upward db c' (xs @ g # ys)" by (auto simp: upward_Cons)
  then show ?case using Cons.IH by blast
qed

lemma upward_drop: "upward db c ns \<Longrightarrow> i < length ns \<Longrightarrow> upward db (Some (org_id (ns ! i))) (drop i ns)"
  using upward_suffix [of db c "take i ns" "ns ! i" "drop (Suc i) ns"]
  by (simp add: Cons_nth_drop_Suc)

lemma upward_distinct: "upward db c ns \<Longrightarrow> distinct (map org_id ns)"
proof (rule ccontr)
  assume up: "upward db c ns" and "\<not> distinct (map org_id ns)"
  then obtain i j where ij: "i < length ns" "j < length ns" "i < j" "org_id (ns ! i) = org_id (ns ! j)"
    by (auto simp: distinct_conv_nth) (metis linorder_less_linear)
  have "drop i ns = drop j ns"
    using upward_drop [OF up ij(1)] upward_drop [OF up ij(2)] ij(4) upward_deterministic by metis
  then have "length (drop i ns) = length (drop j ns)" by simp
  with ij show False by simp
qed

subsection \<open>Properties\<close>

text \<open>
  \<^verbatim>\<open>ancestors\<close> returns exactly the walk to the root: what it returns starts at the node
  and follows \<^verbatim>\<open>parentId\<close> to a null or dangling parent without repetition, and it does return that
  walk whenever the walk exists and is shorter than the depth limit; so it fails only on
  a missing node, a cycle or a tree that is too deep.
\<close>

theorem ancestors_is_walk_to_root:
  "(ancestors db i = Inr chain \<longrightarrow>
      upward db (Some i) chain \<and> distinct (map org_id chain) \<and> length chain \<le> MAX_ORG_DEPTH) \<and>
   (upward db (Some i) chain \<and> chain \<noteq> [] \<and> length chain < MAX_ORG_DEPTH \<longrightarrow> ancestors db i = Inr chain)"
proof (intro conjI impI)
  assume r: "ancestors db i = Inr chain"
  then show up: "upward db (Some i) chain"
    using ancestors_loop_upward [of db i "{}" "[]" "Some i" chain] by (simp add: ancestors_def)
  then show "distinct (map org_id chain)" by (rule upward_distinct)
  have "length res \<le> MAX_ORG_DEPTH" if "ancestors_loop db orgId seen ch c = Inr res" "length ch \<le> MAX_ORG_DEPTH"
    for orgId seen ch c res
    using that
  proof (induction db orgId seen ch c rule: ancestors_loop.induct)
    case (1 db orgId seen ch c)
    show ?case
    proof (cases c)
      case None
      then show ?thesis using 1 by (simp add: ancestors_loop_None)
    next
      case (Some cur)
      then show ?thesis using 1 by (auto simp: ancestors_loop_Some split: if_splits option.splits)
    qed
  qed
  from this [of i "{}" "[]" "Some i" chain] r show "length chain \<le> MAX_ORG_DEPTH" by (simp add: ancestors_def)
next
  assume "upward db (Some i) chain \<and> chain \<noteq> [] \<and> length chain < MAX_ORG_DEPTH"
  then show "ancestors db i = Inr chain"
    unfolding ancestors_def using ancestors_loop_complete [of db "Some i" chain "{}" "[]"] upward_distinct by auto
qed

text \<open>
  \<^verbatim>\<open>descendants\<close> returns, without repetition, exactly the nodes whose parent chain
  reaches the given node (itself included), and it returns whenever these are at most 4096.
\<close>

theorem descendants_is_subtree:
  "(descendants db i = Inr ds \<longrightarrow> distinct ds \<and> set ds = {x. (x, i) \<in> (parent_rel db)\<^sup>*}) \<and>
   (card {x. (x, i) \<in> (parent_rel db)\<^sup>*} \<le> MAX_ORG_DEPTH * MAX_ORG_DEPTH \<longrightarrow>
      (\<exists>ds. descendants db i = Inr ds))"
  unfolding descendants_def
  using descendants_loop_Inr [OF bfs_inv_start] descendants_loop_total [OF bfs_inv_start] by blast

text \<open>
  The two walks agree: for existing nodes, \<^verbatim>\<open>a\<close> is among the ancestors of \<^verbatim>\<open>x\<close>
  exactly when \<^verbatim>\<open>x\<close> is among the descendants of \<^verbatim>\<open>a\<close>.
\<close>

theorem ancestors_descendants_dual:
  assumes "wf_orgs db" "a \<in> org_id ` set db" "ancestors db x = Inr chain" "descendants db a = Inr ds"
  shows "a \<in> org_id ` set chain \<longleftrightarrow> x \<in> set ds"
proof -
  have up: "upward db (Some x) chain"
    using ancestors_loop_upward [of db x "{}" "[]" "Some x" chain] assms(3) by (simp add: ancestors_def)
  have "set ds = {y. (y, a) \<in> (parent_rel db)\<^sup>*}"
    using descendants_loop_Inr [OF bfs_inv_start] assms(4) by (simp add: descendants_def)
  with upward_set [OF assms(1) up] assms(2) show ?thesis by simp
qed

definition sample_orgs :: "Organization list" where
  "sample_orgs =
     [\<lparr>org_id = ''c'', org_name = ''Acme'', org_type = COMPANY, org_parentId = None\<rparr>,
      \<lparr>org_id = ''d'', org_name = ''R&D'', org_type = DEPARTMENT, org_parentId = Some ''c''\<rparr>,
      \<lparr>org_id = ''t'', org_name = ''Core'', org_type = TEAM, org_parentId = Some ''d''\<rparr>]"

lemma sample_walks:
  "ancestors sample_orgs ''t'' = Inr (rev sample_orgs)" "descendants sample_orgs ''c'' = Inr [''c'', ''d'', ''t'']"
  by (simp_all add: ancestors_def descendants_def sample_orgs_def ancestors_loop.simps descendants_loop.simps
      find_org_def child_ids_def MAX_ORG_DEPTH_def)

theorem ancestors_is_walk_to_root_witness: "distinct (map org_id (rev sample_orgs))"
  using ancestors_is_walk_to_root [of sample_orgs "''t''" "rev sample_orgs"] sample_walks(1) by blast

theorem descendants_is_subtree_witness:
  "{x. (x, ''c'') \<in> (parent_rel sample_orgs)\<^sup>*} = {''c'', ''d'', ''t''}"
  using descendants_is_subtree [of sample_orgs "''c''" "[''c'', ''d'', ''t'']"] sample_walks(2) by simp

theorem ancestors_descendants_dual_witness:
  "''c'' \<in> org_id ` set (rev sample_orgs) \<longleftrightarrow> ''t'' \<in> set [''c'', ''d'', ''t'']"
  by (rule ancestors_descendants_dual [OF _ _ sample_walks])
    (simp_all add: sample_orgs_def wf_orgs_def)

end
