(* ===== verification/Totp.thy ===== *)
theory Totp
  imports JsNumber "HOL-Library.Word"
begin

unbundle bit_operations_syntax

section \<open>Base32 and one-time codes (common/crypto.ts)\<close>

text \<open>
  The TOTP secret travels as Base32 text. The coder and decoder keep a 32-bit accumulator, as the
  bitwise operators of JavaScript do, and shift out five or eight bits at a time. The proof of the
  round trip reads the accumulator as a list of bits. HMAC-SHA1 is a parameter.
\<close>

type_synonym byte = "8 word"

definition B32_ALPHABET :: string where
  "B32_ALPHABET = ''ABCDEFGHIJKLMNOPQRSTUVWXYZ234567''"

subsection \<open>Encoding and decoding\<close>

text \<open>\<^verbatim>\<open>(value >>> (bits - 5)) & 0x1f\<close>\<close>

definition b32_digit :: "32 word \<Rightarrow> nat" where
  "b32_digit w = unat (w AND 31)"

text \<open>The inner \<^verbatim>\<open>while (bits >= 5)\<close> loop; it appends digits and leaves fewer than five bits.\<close>

fun emit5 :: "32 word \<Rightarrow> nat \<Rightarrow> nat list \<Rightarrow> nat \<times> nat list" where
  "emit5 v bits out =
     (if 5 \<le> bits then emit5 v (bits - 5) (out @ [b32_digit (drop_bit (bits - 5) v)]) else (bits, out))"

declare emit5.simps [simp del]

fun encode_bytes :: "32 word \<Rightarrow> nat \<Rightarrow> nat list \<Rightarrow> byte list \<Rightarrow> nat list" where
  "encode_bytes v bits out [] =
     (if 0 < bits then out @ [b32_digit (push_bit (5 - bits) v)] else out)"
| "encode_bytes v bits out (b # bs) =
     (let v' = push_bit 8 v OR ucast b; (bits', out') = emit5 v' (bits + 8) out
      in encode_bytes v' bits' out' bs)"

definition base32Encode :: "byte list \<Rightarrow> string" where
  "base32Encode bs = map (\<lambda>i. B32_ALPHABET ! i) (encode_bytes 0 0 [] bs)"

fun index_of :: "char \<Rightarrow> string \<Rightarrow> nat option" where
  "index_of c [] = None"
| "index_of c (x # xs) = (if c = x then Some 0 else map_option Suc (index_of c xs))"

fun decode_chars :: "32 word \<Rightarrow> nat \<Rightarrow> byte list \<Rightarrow> string \<Rightarrow> byte list res" where
  "decode_chars v bits out [] = Inr out"
| "decode_chars v bits out (ch # cs) =
     (case index_of ch B32_ALPHABET of
        None \<Rightarrow> Inl (PlainError ''invalid base32 character'')
      | Some idx \<Rightarrow>
          let v' = push_bit 5 v OR of_nat idx; bits' = bits + 5
          in if 8 \<le> bits'
             then decode_chars v' (bits' - 8) (out @ [ucast (drop_bit (bits' - 8) v' AND 255)]) cs
             else decode_chars v' bits' out cs)"

text \<open>\<^verbatim>\<open>s.replace(/\s+/g, "").replace(/=+$/g, "").toUpperCase()\<close>, on the Latin-1 range.\<close>

definition upper_char :: "char \<Rightarrow> char" where
  "upper_char c =
     (if is_lower_az c \<or> (224 \<le> code c \<and> code c \<le> 254 \<and> code c \<noteq> 247)
      then char_of (code c - 32) else c)"

definition clean_base32 :: "string \<Rightarrow> string" where
  "clean_base32 s =
     map upper_char (rev (dropWhile (\<lambda>c. c = CHR ''='') (rev (filter (\<lambda>c. \<not> is_ws c) s))))"

definition base32Decode :: "string \<Rightarrow> byte list res" where
  "base32Decode s = decode_chars 0 0 [] (clean_base32 s)"

definition genTotpSecret :: "byte list \<Rightarrow> string" where
  "genTotpSecret random20 = base32Encode random20"

subsection \<open>One-time codes\<close>

text \<open>
  \<^verbatim>\<open>hotp6\<close>: the counter in eight bytes (\<^verbatim>\<open>writeUInt32BE\<close> throws outside 32 bits), its MAC, the dynamic
  truncation to 31 bits, six decimal digits. \<^verbatim>\<open>mac\<close> is HMAC-SHA1 of a key and a message.
\<close>

definition be32 :: "int \<Rightarrow> byte list" where
  "be32 n = map (\<lambda>k. word_of_int (n div 2 ^ k)) [24, 16, 8, 0]"

definition truncate_mac :: "byte list \<Rightarrow> nat" where
  "truncate_mac m =
     (let off = unat (last m AND 15);
          b = (\<lambda>i. ucast (m ! (off + i)) :: 32 word)
      in unat (push_bit 24 (b 0 AND 127) OR push_bit 16 (b 1 AND 255) OR push_bit 8 (b 2 AND 255) OR
               (b 3 AND 255)))"

definition hotp6 :: "(byte list \<Rightarrow> byte list \<Rightarrow> byte list) \<Rightarrow> byte list \<Rightarrow> int \<Rightarrow> string res" where
  "hotp6 mac key counter =
     (let high = counter div 4294967296; low = counter mod 4294967296
      in throwIf (high < 0 \<or> 4294967295 < high) (PlainError ''out of range'')
           (Inr (padStart0 6 (show_nat (truncate_mac (mac key (be32 high @ be32 low)) mod 1000000)))))"

definition is_six_digits :: "string \<Rightarrow> bool" where
  "is_six_digits s \<longleftrightarrow> length s = 6 \<and> list_all is_digit s"

text \<open>\<^verbatim>\<open>verifyTotp(secret, code, window)\<close> at the time \<^verbatim>\<open>now\<close> in milliseconds.\<close>

fun try_window :: "(int \<Rightarrow> string res) \<Rightarrow> string \<Rightarrow> int \<Rightarrow> int list \<Rightarrow> bool res" where
  "try_window f input step [] = Inr False"
| "try_window f input step (w # ws) =
     bindR (f (step + w)) (\<lambda>candidate.
       if candidate = input then Inr True else try_window f input step ws)"

definition verifyTotp ::
  "(byte list \<Rightarrow> byte list \<Rightarrow> byte list) \<Rightarrow> time \<Rightarrow> int \<Rightarrow> string \<Rightarrow> string \<Rightarrow> bool res" where
  "verifyTotp mac now window secret txt =
     (let trimmed = filter (\<lambda>c. \<not> is_ws c) txt
      in if secret = [] \<or> \<not> is_six_digits trimmed then Inr False
         else case base32Decode secret of
                Inl _ \<Rightarrow> Inr False
              | Inr key \<Rightarrow> try_window (hotp6 mac key) trimmed (now div 30000) [- window..window])"

subsection \<open>The accumulator as a list of bits\<close>

definition bits_msb :: "nat \<Rightarrow> 'a::len word \<Rightarrow> bool list" where
  "bits_msb n w = rev (map (bit w) [0..<n])"

lemma length_bits_msb [simp]: "length (bits_msb n w) = n"
  by (simp add: bits_msb_def)

lemma bits_msb_split: "k \<le> n \<Longrightarrow> bits_msb n w = bits_msb (n - k) (drop_bit k w) @ bits_msb k w"
proof -
  assume "k \<le> n"
  then have "[0..<n] = [0..<k] @ map (\<lambda>i. i + k) [0..<n - k]"
    using upt_add_eq_append [of 0 k "n - k"] by (simp add: map_add_upt)
  then show ?thesis by (simp add: bits_msb_def bit_drop_bit_eq comp_def add.commute)
qed

lemma bits_msb_cong: "(\<And>i. i < n \<Longrightarrow> bit v i = bit w i) \<Longrightarrow> bits_msb n v = bits_msb n w"
  by (simp add: bits_msb_def)

lemma bits_msb_inj: "bits_msb LENGTH('a) v = bits_msb LENGTH('a) (w :: 'a::len word) \<Longrightarrow> v = w"
  by (rule bit_word_eqI) (auto simp: bits_msb_def)

abbreviation bits5 :: "nat \<Rightarrow> bool list" where
  "bits5 i \<equiv> bits_msb 5 (of_nat i :: 32 word)"

lemma bits5_digit: "bits5 (b32_digit w) = bits_msb 5 w"
proof (rule bits_msb_cong)
  fix i :: nat assume "i < 5"
  have "(31 :: 32 word) = mask 5" by (simp add: mask_eq_decr_exp)
  then have "bit (31 :: 32 word) i" using \<open>i < 5\<close> by (simp only: bit_mask_iff) simp
  then show "bit (of_nat (b32_digit w) :: 32 word) i = bit w i"
    by (simp add: b32_digit_def bit_and_iff)
qed

lemma bits_msb_push_or:
  assumes "n + k \<le> 32"
  shows "bits_msb (n + k) (push_bit k v OR take_bit k x :: 32 word) = bits_msb n v @ bits_msb k x"
proof -
  let ?w = "push_bit k v OR take_bit k x"
  have "bits_msb n (drop_bit k ?w) = bits_msb n v"
    using assms by (intro bits_msb_cong)
      (simp add: bit_drop_bit_eq bit_or_iff bit_push_bit_iff bit_take_bit_iff)
  moreover have "bits_msb k ?w = bits_msb k x"
    by (intro bits_msb_cong) (simp add: bit_or_iff bit_push_bit_iff bit_take_bit_iff)
  ultimately show ?thesis using bits_msb_split [of k "n + k" ?w] by simp
qed

lemma emit5_bits:
  "emit5 v bits out = (bits', out') \<Longrightarrow>
     concat (map bits5 out') @ bits_msb bits' v = concat (map bits5 out) @ bits_msb bits v \<and> bits' < 5"
proof (induction v bits out rule: emit5.induct)
  case (1 v bits out)
  show ?case
  proof (cases "5 \<le> bits")
    case True
    have "bits_msb bits v = bits_msb 5 (drop_bit (bits - 5) v) @ bits_msb (bits - 5) v"
      using bits_msb_split [of "bits - 5" bits v] True by simp
    then show ?thesis using 1 True by (simp add: emit5.simps [of v bits] bits5_digit)
  next
    case False
    then show ?thesis using 1(2) by (simp add: emit5.simps [of v bits])
  qed
qed

lemma encode_bytes_bits:
  assumes "bits < 5"
  shows "\<exists>pad. length pad < 5 \<and> concat (map bits5 (encode_bytes v bits out bs)) =
    concat (map bits5 out) @ bits_msb bits v @ concat (map (bits_msb 8) bs) @ pad"
  using assms
proof (induction bs arbitrary: v bits out)
  case Nil
  have "bits_msb 5 (push_bit (5 - bits) v) = bits_msb bits v @ bits_msb (5 - bits) (0 :: 32 word)"
    using bits_msb_push_or [of bits "5 - bits" v 0] Nil by simp
  then show ?case using Nil
    by (cases "bits = 0")
      (auto simp: bits5_digit intro: exI [of _ "[]"] exI [of _ "bits_msb (5 - bits) (0 :: 32 word)"], simp add: bits_msb_def)
next
  case (Cons b bs)
  define v' where "v' = push_bit 8 v OR (ucast b :: 32 word)"
  obtain bits' out' where e: "emit5 v' (bits + 8) out = (bits', out')" by (cases "emit5 v' (bits + 8) out")
  have ub: "(ucast b :: 32 word) = take_bit 8 (ucast b)"
    by (rule bit_word_eqI) (auto simp: bit_take_bit_iff bit_ucast_iff dest: bit_imp_le_length)
  have "bits_msb (bits + 8) v' = bits_msb bits v @ bits_msb 8 (ucast b :: 32 word)"
    unfolding v'_def using bits_msb_push_or [of bits 8 v "ucast b"] Cons.prems ub by simp
  also have "bits_msb 8 (ucast b :: 32 word) = bits_msb 8 b"
    by (simp add: bits_msb_def bit_ucast_iff)
  finally have step: "concat (map bits5 out') @ bits_msb bits' v' =
      concat (map bits5 out) @ bits_msb bits v @ bits_msb 8 b"
    using emit5_bits [OF e] by simp
  obtain pad where pad: "length pad < 5" "concat (map bits5 (encode_bytes v' bits' out' bs)) =
      concat (map bits5 out') @ bits_msb bits' v' @ concat (map (bits_msb 8) bs) @ pad"
    using Cons.IH emit5_bits [OF e] by blast
  have "encode_bytes v bits out (b # bs) = encode_bytes v' bits' out' bs"
    using e by (simp add: v'_def Let_def)
  moreover have "concat (map bits5 (encode_bytes v' bits' out' bs)) =
      concat (map bits5 out) @ bits_msb bits v @ concat (map (bits_msb 8) (b # bs)) @ pad"
    unfolding pad(2) using arg_cong [OF step, of "\<lambda>x. x @ concat (map (bits_msb 8) bs) @ pad"] by simp
  ultimately show ?case using pad(1) by metis
qed

lemma digit_bound: "b32_digit w < 32"
proof -
  have "w AND 31 \<le> (31 :: 32 word)" by (rule word_and_le1)
  then show ?thesis by (simp add: b32_digit_def word_le_nat_alt)
qed

lemma emit5_range: "emit5 v bits out = (bits', out') \<Longrightarrow> set out' \<subseteq> set out \<union> {..<32}"
proof (induction v bits out rule: emit5.induct)
  case (1 v bits out)
  then show ?case by (auto simp: emit5.simps [of v bits] digit_bound split: if_splits)
qed

lemma encode_bytes_range: "set (encode_bytes v bits out bs) \<subseteq> set out \<union> {..<32}"
proof (induction bs arbitrary: v bits out)
  case (Cons b bs)
  obtain bits' out' where e: "emit5 (push_bit 8 v OR ucast b) (bits + 8) out = (bits', out')"
    by (cases "emit5 (push_bit 8 v OR ucast b) (bits + 8) out")
  have "set (encode_bytes (push_bit 8 v OR ucast b) bits' out' bs) \<subseteq> set out' \<union> {..<32}" by (rule Cons.IH)
  then show ?case using emit5_range [OF e] by (auto simp: Let_def e)
qed (auto simp: digit_bound)

text \<open>The alphabet and its index are inverse; its characters survive the cleaning.\<close>

lemma index_alphabet: "i < 32 \<Longrightarrow> index_of (B32_ALPHABET ! i) B32_ALPHABET = Some i"
proof -
  assume "i < 32"
  then have "i \<in> set [0..<32]" by simp
  moreover have "list_all (\<lambda>i. index_of (B32_ALPHABET ! i) B32_ALPHABET = Some i) [0..<32]"
    by code_simp
  ultimately show ?thesis by (auto simp: list_all_iff)
qed

lemma alphabet_clean: "i < 32 \<Longrightarrow>
   \<not> is_ws (B32_ALPHABET ! i) \<and> B32_ALPHABET ! i \<noteq> CHR ''='' \<and> upper_char (B32_ALPHABET ! i) = B32_ALPHABET ! i"
proof -
  assume "i < 32"
  then have "i \<in> set [0..<32]" by simp
  moreover have "list_all (\<lambda>c. \<not> is_ws c \<and> c \<noteq> CHR ''='' \<and> upper_char c = c) B32_ALPHABET"
    by (simp add: B32_ALPHABET_def is_ws_def upper_char_def is_lower_az_def)
  moreover have "length B32_ALPHABET = 32" by (simp add: B32_ALPHABET_def)
  ultimately show ?thesis by (auto simp: list_all_length)
qed

lemma clean_alphabet:
  assumes "set is \<subseteq> {..<32}"
  shows "clean_base32 (map (\<lambda>i. B32_ALPHABET ! i) is) = map (\<lambda>i. B32_ALPHABET ! i) is"
proof -
  let ?s = "map (\<lambda>i. B32_ALPHABET ! i) is"
  have c: "\<not> is_ws c \<and> c \<noteq> CHR ''='' \<and> upper_char c = c" if "c \<in> set ?s" for c
    using that assms alphabet_clean by auto
  then have "filter (\<lambda>c. \<not> is_ws c) ?s = ?s" by (auto simp: filter_id_conv)
  moreover have "dropWhile (\<lambda>c. c = CHR ''='') (rev ?s) = rev ?s"
  proof (cases "rev ?s")
    case (Cons x xs)
    then have "x \<in> set ?s" by (metis list.set_intros(1) set_rev)
    then show ?thesis using c Cons by simp
  qed simp
  moreover have "map upper_char ?s = ?s" using c by (simp add: map_idI)
  ultimately show ?thesis by (simp add: clean_base32_def)
qed

lemma decode_chars_bits:
  assumes "set is \<subseteq> {..<32}" "bits < 8"
  shows "\<exists>res rest. decode_chars v bits out (map (\<lambda>i. B32_ALPHABET ! i) is) = Inr res \<and> length rest < 8 \<and>
    concat (map (bits_msb 8) res) @ rest = concat (map (bits_msb 8) out) @ bits_msb bits v @ concat (map bits5 is)"
  using assms
proof (induction "is" arbitrary: v bits out)
  case Nil
  then show ?case by (auto intro: exI [of _ "bits_msb bits v"])
next
  case (Cons i "is")
  define v' where "v' = push_bit 5 v OR (of_nat i :: 32 word)"
  have "(of_nat i :: 32 word) = take_bit 5 (of_nat i)"
    using Cons.prems take_bit_nat_eq_self [of i 5] by (simp add: take_bit_of_nat)
  then have b: "bits_msb (bits + 5) v' = bits_msb bits v @ bits5 i"
    unfolding v'_def using bits_msb_push_or [of bits 5 v "of_nat i"] Cons.prems by simp
  have idx: "index_of (B32_ALPHABET ! i) B32_ALPHABET = Some i" using Cons.prems index_alphabet by simp
  show ?case
  proof (cases "8 \<le> bits + 5")
    case False
    then have "decode_chars v bits out (map (\<lambda>i. B32_ALPHABET ! i) (i # is)) =
        decode_chars v' (bits + 5) out (map (\<lambda>i. B32_ALPHABET ! i) is)"
      by (simp add: idx v'_def Let_def)
    then show ?thesis using Cons.IH [of "bits + 5" v' out] Cons.prems False by (simp add: b)
  next
    case True
    let ?k = "bits + 5 - 8"
    let ?o = "ucast (drop_bit ?k v' AND 255) :: byte"
    have m: "(255 :: 32 word) = mask 8" by (simp add: mask_eq_decr_exp)
    have "bits_msb 8 ?o = bits_msb 8 (drop_bit ?k v')"
      unfolding m by (auto simp: bits_msb_def bit_ucast_iff bit_and_iff bit_mask_iff)
    then have o: "bits_msb (bits + 5) v' = bits_msb 8 ?o @ bits_msb ?k v'"
      using bits_msb_split [of ?k "bits + 5" v'] True by simp
    have d: "decode_chars v bits out (map (\<lambda>i. B32_ALPHABET ! i) (i # is)) =
        decode_chars v' ?k (out @ [?o]) (map (\<lambda>i. B32_ALPHABET ! i) is)"
      using True by (simp add: idx v'_def Let_def)
    have "bits_msb 8 ?o @ bits_msb ?k v' @ x = bits_msb bits v @ bits5 i @ x" for x
      using o b by (metis append.assoc)
    then have c: "concat (map (bits_msb 8) (out @ [?o])) @ bits_msb ?k v' @ concat (map bits5 is) =
        concat (map (bits_msb 8) out) @ bits_msb bits v @ concat (map bits5 (i # is))"
      by simp
    have "set is \<subseteq> {..<32}" "?k < 8" using Cons.prems by auto
    from Cons.IH [OF this, of v' "out @ [?o]"] show ?thesis unfolding c d .
  qed
qed

lemma concat_bits8_inj:
  "length xs = length ys \<Longrightarrow> concat (map (bits_msb 8) xs) = concat (map (bits_msb 8) (ys :: byte list)) \<Longrightarrow> xs = ys"
proof (induction xs ys rule: list_induct2)
  case (Cons x xs y ys)
  then have "bits_msb 8 x = bits_msb 8 y" "xs = ys" by (auto simp: append_eq_append_conv)
  then show ?case using bits_msb_inj [of x y] by simp
qed simp

subsection \<open>Properties\<close>

text \<open>
  Decoding what was encoded gives the same bytes, for every secret: the 32-bit
  accumulator loses nothing, the padding bits of the last character are ignored.
\<close>

theorem base32_roundtrip: "base32Decode (base32Encode bs) = Inr bs"
proof -
  define ds where "ds = encode_bytes 0 0 [] bs"
  have r: "set ds \<subseteq> {..<32}" using encode_bytes_range [of 0 0 "[]" bs] by (simp add: ds_def)
  obtain pad where pad: "length pad < 5" "concat (map bits5 ds) = concat (map (bits_msb 8) bs) @ pad"
    using encode_bytes_bits [of 0 0 "[]" bs] by (auto simp: ds_def bits_msb_def)
  obtain res rest where res: "decode_chars 0 0 [] (map (\<lambda>i. B32_ALPHABET ! i) ds) = Inr res"
    "length rest < 8" "concat (map (bits_msb 8) res) @ rest = concat (map (bits_msb 8) bs) @ pad"
    using decode_chars_bits [OF r, of 0 0 "[]"] pad by (auto simp: bits_msb_def)
  have len: "length (concat (map (bits_msb 8) xs)) = 8 * length xs" for xs :: "byte list"
    by (induction xs) auto
  have "8 * length res + length rest = 8 * length bs + length pad"
    using arg_cong [OF res(3), of length] by (simp only: length_append len)
  then have "length res = length bs" using res(2) pad(1) by simp
  moreover have "concat (map (bits_msb 8) res) = concat (map (bits_msb 8) bs)"
    using res(3) calculation by (simp add: append_eq_append_conv len)
  ultimately have "res = bs" by (rule concat_bits8_inj)
  then show ?thesis
    using res(1) r by (simp add: base32Decode_def base32Encode_def clean_alphabet flip: ds_def)
qed

lemma show_nat_digits: "list_all is_digit (show_nat n)"
proof (induction n rule: show_nat.induct)
  case (1 n)
  have "is_digit (char_of (48 + d))" if "d < 10" for d :: nat
    using that by (simp add: is_digit_def)
  with 1 show ?case by (simp add: show_nat.simps [of n])
qed

lemma length_show_nat: "n < 10 ^ k \<Longrightarrow> 0 < k \<Longrightarrow> length (show_nat n) \<le> k"
proof (induction k arbitrary: n)
  case (Suc k)
  show ?case
  proof (cases "n < 10")
    case True
    then show ?thesis by (simp add: show_nat.simps [of n])
  next
    case False
    then have "0 < k" using Suc.prems by (cases k) auto
    moreover have "n div 10 < 10 ^ k" using Suc.prems by (simp add: less_mult_imp_div_less)
    ultimately show ?thesis using Suc.IH [of "n div 10"] False by (simp add: show_nat.simps [of n])
  qed
qed simp

text \<open>Six digits, whatever the MAC.\<close>

lemma hotp6_six_digits:
  assumes "0 \<le> c" "c < 2 ^ 64"
  obtains s where "hotp6 mac key c = Inr s" "is_six_digits s"
proof
  let ?n = "truncate_mac (mac key (be32 (c div 4294967296) @ be32 (c mod 4294967296))) mod 1000000"
  have "0 \<le> c div 4294967296" "c div 4294967296 \<le> 4294967295" using assms by auto
  then show "hotp6 mac key c = Inr (padStart0 6 (show_nat ?n))"
    by (simp add: hotp6_def Let_def)
  have "length (show_nat ?n) \<le> 6" by (rule length_show_nat) simp_all
  then show "is_six_digits (padStart0 6 (show_nat ?n))"
    using show_nat_digits [of ?n]
    by (simp add: is_six_digits_def padStart0_def list_all_replicate is_digit_def)
qed

lemma try_window_iff:
  assumes "\<And>w. w \<in> set ws \<Longrightarrow> \<exists>s. f (step + w) = Inr s"
  shows "try_window f input step ws = Inr (\<exists>w \<in> set ws. f (step + w) = Inr input)"
  using assms
proof (induction ws)
  case (Cons w ws)
  obtain s where "f (step + w) = Inr s" using Cons.prems by auto
  with Cons show ?case by auto
qed simp

text \<open>
  A TOTP code is accepted exactly when the secret decodes and the code, spaces
  removed, is the HOTP value of the current 30-second step or of one of its two neighbours; the
  check always answers, never throws.
\<close>

theorem totp_accepts_iff:
  assumes "30000 \<le> now" "now \<le> 8640000000000000"
  shows "verifyTotp mac now 1 secret txt =
    Inr (secret \<noteq> [] \<and> (\<exists>key w. base32Decode secret = Inr key \<and> w \<in> {- 1, 0, 1} \<and>
      hotp6 mac key (now div 30000 + w) = Inr (filter (\<lambda>c. \<not> is_ws c) txt)))"
proof -
  let ?t = "filter (\<lambda>c. \<not> is_ws c) txt"
  have window: "[- 1..1 :: int] = [- 1, 0, 1]" by (simp add: upto.simps)
  have total: "\<exists>s. hotp6 mac key (now div 30000 + w) = Inr s \<and> is_six_digits s" if "w \<in> {- 1, 0, 1}" for key w
  proof -
    have "0 \<le> now div 30000 + w" "now div 30000 + w < 2 ^ 64" using that assms by auto
    then show ?thesis using hotp6_six_digits by blast
  qed
  have six: "is_six_digits ?t" if "hotp6 mac key (now div 30000 + w) = Inr ?t" "w \<in> {- 1, 0, 1}" for key w
    using total [OF that(2), of key] that(1) by auto
  have "try_window (hotp6 mac key) ?t (now div 30000) [- 1, 0, 1] =
      Inr (\<exists>w \<in> {- 1, 0, 1}. hotp6 mac key (now div 30000 + w) = Inr ?t)" for key
  proof -
    have "\<exists>s. hotp6 mac key (now div 30000 + w) = Inr s" if "w \<in> set [- 1, 0, 1]" for w
      using total [of w key] that by auto
    from try_window_iff [of "[- 1, 0, 1]" "hotp6 mac key" "now div 30000", OF this]
    show ?thesis by (simp only: list.set)
  qed
  then show ?thesis
    unfolding verifyTotp_def Let_def window using six by (auto split: sum.splits)
qed

theorem totp_accepts_iff_witness:
  "verifyTotp (\<lambda>_ _. replicate 20 0) 60000 1 ''MFRGG'' ''000 000'' = Inr True"
proof -
  have d: "base32Decode ''MFRGG'' = Inr [0x61, 0x62, 0x63]" by code_simp
  have "replicate 5 CHR ''0'' = ''00000''" by (simp add: eval_nat_numeral)
  moreover have "char_of (48::nat) = CHR ''0''" by code_simp
  ultimately have "hotp6 (\<lambda>_ _. replicate 20 0) [0x61, 0x62, 0x63] 2 = Inr ''000000''"
    by (simp add: hotp6_def truncate_mac_def show_nat.simps padStart0_def)
  moreover have "filter (\<lambda>c. \<not> is_ws c) ''000 000'' = ''000000''" by (simp add: is_ws_def)
  ultimately show ?thesis
    using totp_accepts_iff [of 60000 "\<lambda>_ _. replicate 20 0" "''MFRGG''" "''000 000''"] d by auto
qed

end
