(* ===== verification/Auth.thy ===== *)
theory Auth
  imports Totp HashChain OrgTree TokenDiscipline
begin

section \<open>Administrators: passwords, sessions, guards and accounts\<close>

text \<open>
  The rest of common/crypto.ts (passwords, JWT), common/admin-auth.guard.ts, common/admin-key.guard.ts
  and auth/auth.service.ts. What comes from \<^verbatim>\<open>node:crypto\<close> and \<^verbatim>\<open>Buffer\<close> is a record of functions,
  \<^verbatim>\<open>node_crypto\<close>; \<^verbatim>\<open>node_ok\<close> states what is documented of it.
\<close>

record node_crypto =
  nc_scrypt :: "string \<Rightarrow> byte list \<Rightarrow> nat \<Rightarrow> byte list"
  nc_base64 :: "byte list \<Rightarrow> string"
  nc_unbase64 :: "string \<Rightarrow> byte list"
  nc_hmac256 :: "string \<Rightarrow> string \<Rightarrow> byte list"
  nc_hmac1 :: "byte list \<Rightarrow> byte list \<Rightarrow> byte list"
  nc_utf8 :: "string \<Rightarrow> byte list"
  nc_unutf8 :: "byte list \<Rightarrow> string"
  nc_json_parse :: "string \<Rightarrow> jsval option"

definition base64_char :: "char \<Rightarrow> bool" where
  "base64_char c \<longleftrightarrow> is_upper_az c \<or> is_lower_az c \<or> is_digit c \<or> c = CHR ''+'' \<or> c = CHR ''/''"

text \<open>Base64 text: letters of the alphabet, then at most two padding signs, in groups of four.\<close>

definition base64_text :: "string \<Rightarrow> bool" where
  "base64_text s \<longleftrightarrow>
     (\<exists>t p. s = t @ replicate p CHR ''='' \<and> p \<le> 2 \<and> list_all base64_char t \<and> length s mod 4 = 0)"

definition node_ok :: "node_crypto \<Rightarrow> bool" where
  "node_ok nc \<longleftrightarrow>
     (\<forall>b. base64_text (nc_base64 nc b)) \<and> (\<forall>b. nc_unbase64 nc (nc_base64 nc b) = b) \<and>
     (\<forall>s. nc_unutf8 nc (nc_utf8 nc s) = s) \<and>
     (\<forall>p s n. length (nc_scrypt nc p s n) = n)"

subsection \<open>Passwords\<close>

definition SCRYPT_KEYLEN :: nat where
  "SCRYPT_KEYLEN = 64"

definition hashPassword :: "node_crypto \<Rightarrow> byte list \<Rightarrow> string \<Rightarrow> string" where
  "hashPassword nc salt pw =
     ''scrypt$'' @ nc_base64 nc salt @ ''$'' @ nc_base64 nc (nc_scrypt nc pw salt SCRYPT_KEYLEN)"

definition verifyPassword :: "node_crypto \<Rightarrow> string \<Rightarrow> string \<Rightarrow> bool" where
  "verifyPassword nc pw stored =
     (case split_on CHR ''$'' stored of
        [a, b, c] \<Rightarrow>
          a = ''scrypt'' \<and>
          (let salt = nc_unbase64 nc b; expected = nc_unbase64 nc c;
               actual = nc_scrypt nc pw salt (length expected)
           in length actual = length expected \<and> actual = expected)
      | _ \<Rightarrow> False)"

subsection \<open>JSON Web Tokens\<close>

text \<open>\<^verbatim>\<open>JSON.stringify\<close>: members in insertion order, those that are undefined left out.\<close>

fun json_text :: "jsval \<Rightarrow> string" where
  "json_text JUndef = ''null''"
| "json_text JNull = ''null''"
| "json_text (JBool b) = (if b then ''true'' else ''false'')"
| "json_text (JNum n) = (case n of Fin r \<Rightarrow> show_number (Fin r) | _ \<Rightarrow> ''null'')"
| "json_text (JStr s) = json_string s"
| "json_text (JArr vs) = ''['' @ join '','' (map json_text vs) @ '']''"
| "json_text (JObj kvs) =
     ''{'' @ join '','' (map (\<lambda>(k, v). json_string k @ '':'' @ json_text v)
        (filter (\<lambda>(k, v). v \<noteq> JUndef) kvs)) @ ''}''"

definition url_char :: "char \<Rightarrow> char" where
  "url_char c = (if c = CHR ''+'' then CHR ''-'' else if c = CHR ''/'' then CHR ''_'' else c)"

definition unurl_char :: "char \<Rightarrow> char" where
  "unurl_char c = (if c = CHR ''-'' then CHR ''+'' else if c = CHR ''_'' then CHR ''/'' else c)"

definition b64uEncode :: "node_crypto \<Rightarrow> byte list \<Rightarrow> string" where
  "b64uEncode nc b =
     rev (dropWhile (\<lambda>c. c = CHR ''='') (rev
       (map url_char (nc_base64 nc b))))"

definition b64uDecode :: "node_crypto \<Rightarrow> string \<Rightarrow> byte list" where
  "b64uDecode nc s =
     (let pad = (if length s mod 4 = 0 then [] else replicate (4 - length s mod 4) CHR ''='')
      in nc_unbase64 nc
           (map unurl_char s @ pad))"

definition signJwt :: "node_crypto \<Rightarrow> time \<Rightarrow> (string \<times> jsval) list \<Rightarrow> string \<Rightarrow> int \<Rightarrow> string" where
  "signJwt nc nowMs payload secret ttlSec =
     (let now = nowMs div 1000;
          body = payload @ [(''iat'', JNum (num now)), (''exp'', JNum (num (now + ttlSec)))];
          h = b64uEncode nc (nc_utf8 nc (json_text (JObj [(''alg'', JStr ''HS256''), (''typ'', JStr ''JWT'')])));
          p = b64uEncode nc (nc_utf8 nc (json_text (JObj body)));
          signing = h @ ''.'' @ p
      in signing @ ''.'' @ b64uEncode nc (nc_hmac256 nc secret signing))"

definition verifyJwt :: "node_crypto \<Rightarrow> time \<Rightarrow> string \<Rightarrow> string \<Rightarrow> jsval option" where
  "verifyJwt nc nowMs token secret =
     (case split_on CHR ''.'' token of
        [h, p, sig] \<Rightarrow>
          let expected = nc_hmac256 nc secret (h @ ''.'' @ p); provided = b64uDecode nc sig
          in if length provided \<noteq> length expected \<or> provided \<noteq> expected then None
             else case nc_json_parse nc (nc_unutf8 nc (b64uDecode nc p)) of
                    None \<Rightarrow> None
                  | Some payload \<Rightarrow>
                      (case prop_of payload ''exp'' of
                         JNum e \<Rightarrow> if num_le e (num (nowMs div 1000)) then None else Some payload
                       | _ \<Rightarrow> None)
      | _ \<Rightarrow> None)"

subsection \<open>Guards\<close>

datatype AdminRole = MEMBER | ADMIN | SUPERADMIN

fun RANK :: "AdminRole \<Rightarrow> nat" where
  "RANK MEMBER = 1"
| "RANK ADMIN = 2"
| "RANK SUPERADMIN = 3"

instantiation AdminRole :: linorder
begin

definition less_eq_AdminRole :: "AdminRole \<Rightarrow> AdminRole \<Rightarrow> bool" where
  "less_eq_AdminRole a b \<longleftrightarrow> RANK a \<le> RANK b"

definition less_AdminRole :: "AdminRole \<Rightarrow> AdminRole \<Rightarrow> bool" where
  "less_AdminRole a b \<longleftrightarrow> RANK a < RANK b"

instance
proof
  fix a b :: AdminRole
  assume "a \<le> b" "b \<le> a"
  then show "a = b" by (cases a; cases b) (simp_all add: less_eq_AdminRole_def)
qed (auto simp: less_eq_AdminRole_def less_AdminRole_def)

end

record AuthedUser =
  us_id :: string
  us_email :: string
  us_role :: AdminRole
  us_orgId :: "string option"
  us_viaSharedKey :: bool

record AdminUser =
  ad_id :: string
  ad_email :: string
  ad_passwordHash :: string
  ad_role :: AdminRole
  ad_orgId :: "string option"
  ad_totpSecret :: "string option"
  ad_disabledAt :: "time option"
  ad_createdAt :: time

definition jwtSecret :: "env \<Rightarrow> string res" where
  "jwtSecret env =
     (let s = orStr (nullish (env ''HARA_JWT_SECRET'') []) (nullish (env ''HARA_CONTROL_ADMIN_KEY'') [])
      in throwIf (s = []) (Unauthorized ''HARA_JWT_SECRET or HARA_CONTROL_ADMIN_KEY must be configured'')
           (Inr s))"

definition assertAdminOrgAccess :: "AuthedUser \<Rightarrow> string \<Rightarrow> unit res" where
  "assertAdminOrgAccess user orgId =
     (if us_viaSharedKey user \<or> us_role user = SUPERADMIN then Inr ()
      else throwIf (us_orgId user \<in> {None, Some []} \<or> us_orgId user \<noteq> Some orgId)
             (Forbidden ''organization access denied'') (Inr ()))"

definition role_name :: "AdminRole \<Rightarrow> string" where
  "role_name r = (case r of MEMBER \<Rightarrow> ''MEMBER'' | ADMIN \<Rightarrow> ''ADMIN'' | SUPERADMIN \<Rightarrow> ''SUPERADMIN'')"

text \<open>
  \<^verbatim>\<open>AdminAuthGuard.canActivate\<close>: \<^verbatim>\<open>annotated\<close> is the role the route asks for, if any. A subject that is
  not a string makes the database query throw.
\<close>

definition canActivate ::
  "node_crypto \<Rightarrow> time \<Rightarrow> env \<Rightarrow> AdminUser list \<Rightarrow> AdminRole option \<Rightarrow> (string \<Rightarrow> string option) \<Rightarrow>
     AuthedUser res" where
  "canActivate nc now env users annotated headers =
     (let required = nullish annotated ADMIN;
          sharedKey = nullish (env ''HARA_CONTROL_ADMIN_KEY'') []
      in if sharedKey \<noteq> [] \<and> headers ''x-admin-key'' = Some sharedKey
         then Inr \<lparr>us_id = ''shared-key'', us_email = ''shared-key@local'', us_role = SUPERADMIN,
                   us_orgId = None, us_viaSharedKey = True\<rparr>
         else let auth = nullish (headers ''authorization'') []
              in throwIf (\<not> startsWith auth ''Bearer '') (Unauthorized ''missing credentials'')
                (bindR (jwtSecret env) (\<lambda>secret.
                 case verifyJwt nc now (drop 7 auth) secret of
                   None \<Rightarrow> Inl (Unauthorized ''invalid or expired token'')
                 | Some payload \<Rightarrow>
                     (case prop_of payload ''sub'' of
                        JStr sub \<Rightarrow>
                          (case List.find (\<lambda>u. ad_id u = sub) users of
                             None \<Rightarrow> Inl (Unauthorized ''user not found'')
                           | Some u \<Rightarrow>
                               throwIf (ad_disabledAt u \<noteq> None) (Unauthorized ''user disabled'')
                              (throwIf (RANK (ad_role u) < RANK required)
                                 (Forbidden (''requires '' @ role_name required))
                              (Inr \<lparr>us_id = ad_id u, us_email = ad_email u, us_role = ad_role u,
                                    us_orgId = ad_orgId u, us_viaSharedKey = False\<rparr>)))
                      | _ \<Rightarrow> Inl (PlainError ''invalid user id'')))))"

definition adminKeyGuard :: "env \<Rightarrow> (string \<Rightarrow> string option) \<Rightarrow> bool res" where
  "adminKeyGuard env headers =
     (let expected = nullish (env ''HARA_CONTROL_ADMIN_KEY'') []
      in throwIf (expected = []) (Unauthorized ''HARA_CONTROL_ADMIN_KEY not configured'')
        (throwIf (headers ''x-admin-key'' \<noteq> Some expected) (Unauthorized ''bad admin key'')
        (Inr True)))"

subsection \<open>The login rate limit\<close>

definition JWT_TTL_SEC :: int where
  "JWT_TTL_SEC = 8 * 60 * 60"

definition MIN_PASSWORD_LEN :: nat where
  "MIN_PASSWORD_LEN = 12"

definition FAIL_WINDOW_MS :: int where
  "FAIL_WINDOW_MS = 60000"

definition FAIL_LIMIT :: nat where
  "FAIL_LIMIT = 10"

type_synonym failures = "string \<Rightarrow> (nat \<times> time) option"

definition failure_key :: "string \<Rightarrow> string \<Rightarrow> string" where
  "failure_key ip email = ip @ ''|'' @ toLowerCase email"

definition checkRateLimit :: "failures \<Rightarrow> time \<Rightarrow> string \<Rightarrow> string \<Rightarrow> unit res" where
  "checkRateLimit fs now ip email =
     throwIf (case fs (failure_key ip email) of
                None \<Rightarrow> False
              | Some (cnt, firstAt) \<Rightarrow> now - firstAt < FAIL_WINDOW_MS \<and> FAIL_LIMIT \<le> cnt)
       (Forbidden ''too many failed attempts, try again in a minute'') (Inr ())"

definition recordFailure :: "failures \<Rightarrow> time \<Rightarrow> string \<Rightarrow> string \<Rightarrow> failures" where
  "recordFailure fs now ip email =
     (let key = failure_key ip email
      in case fs key of
           None \<Rightarrow> fs(key \<mapsto> (1, now))
         | Some (cnt, firstAt) \<Rightarrow>
             if FAIL_WINDOW_MS \<le> now - firstAt then fs(key \<mapsto> (1, now))
             else fs(key \<mapsto> (cnt + 1, firstAt)))"

definition clearFailures :: "failures \<Rightarrow> string \<Rightarrow> string \<Rightarrow> failures" where
  "clearFailures fs ip email = fs(failure_key ip email := None)"

subsection \<open>Accounts\<close>

record AuthState =
  as_users :: "AdminUser list"
  as_failures :: failures
  as_orgs :: "Organization list"

definition find_email :: "AdminUser list \<Rightarrow> string \<Rightarrow> AdminUser option" where
  "find_email users e = List.find (\<lambda>u. ad_email u = e) users"

definition find_user :: "AdminUser list \<Rightarrow> string \<Rightarrow> AdminUser option" where
  "find_user users i = List.find (\<lambda>u. ad_id u = i) users"

definition short_password :: http_error where
  "short_password = BadRequest ''password must be >=12 chars''"

definition bootstrapSuperadmin ::
  "node_crypto \<Rightarrow> byte list \<Rightarrow> string \<Rightarrow> time \<Rightarrow> string \<Rightarrow> string \<Rightarrow> AuthState \<Rightarrow>
     (AuthState \<times> string \<times> string \<times> AdminRole) res" where
  "bootstrapSuperadmin nc salt newId now email password st =
     throwIf (length password < MIN_PASSWORD_LEN) short_password
    (throwIf (0 < length (as_users st)) (Conflict ''superadmin already exists - use /admin/users instead'')
    (let user = \<lparr>ad_id = newId, ad_email = toLowerCase email, ad_passwordHash = hashPassword nc salt password,
                 ad_role = SUPERADMIN, ad_orgId = None, ad_totpSecret = None, ad_disabledAt = None,
                 ad_createdAt = now\<rparr>
     in Inr (st\<lparr>as_users := as_users st @ [user]\<rparr>, newId, ad_email user, SUPERADMIN)))"

datatype LoginResult = LoginToken string AdminRole string int | Requires2fa

text \<open>
  What \<^verbatim>\<open>login\<close> does after the rate-limit check, once the account has been looked up; \<^verbatim>\<open>now\<close> is the time
  then. The state carries the failure counters even when an exception is thrown.
\<close>

definition login_verify ::
  "node_crypto \<Rightarrow> env \<Rightarrow> time \<Rightarrow> string \<Rightarrow> string \<Rightarrow> string \<Rightarrow> string option \<Rightarrow> AuthState \<Rightarrow>
     AuthState \<times> LoginResult res" where
  "login_verify nc env now ip email password txt st =
     (let failed = st\<lparr>as_failures := recordFailure (as_failures st) now ip email\<rparr>;
          cleared = st\<lparr>as_failures := clearFailures (as_failures st) ip email\<rparr>;
          issue = (\<lambda>u. (cleared, bindR (jwtSecret env) (\<lambda>secret.
             Inr (LoginToken (signJwt nc now [(''sub'', JStr (ad_id u)), (''email'', JStr (ad_email u)),
                    (''role'', JStr (role_name (ad_role u)))] secret JWT_TTL_SEC)
                    (ad_role u) (ad_email u) JWT_TTL_SEC))))
      in case find_email (as_users st) (toLowerCase email) of
           None \<Rightarrow> (failed, Inl (Unauthorized ''invalid credentials''))
         | Some u \<Rightarrow>
             if ad_disabledAt u \<noteq> None \<or> \<not> verifyPassword nc password (ad_passwordHash u)
             then (failed, Inl (Unauthorized ''invalid credentials''))
             else let secret = nullish (ad_totpSecret u) []; c = nullish txt []
                  in if secret = [] then issue u
                     else if c = [] then (st, Inr Requires2fa)
                     else case verifyTotp (nc_hmac1 nc) now 1 secret c of
                            Inl e \<Rightarrow> (st, Inl e)
                          | Inr False \<Rightarrow> (failed, Inl (Unauthorized ''invalid 2fa code''))
                          | Inr True \<Rightarrow> issue u)"

definition login ::
  "node_crypto \<Rightarrow> env \<Rightarrow> time \<Rightarrow> time \<Rightarrow> string \<Rightarrow> string \<Rightarrow> string \<Rightarrow> string option \<Rightarrow> AuthState \<Rightarrow>
     AuthState \<times> LoginResult res" where
  "login nc env now now' ip email password txt st =
     (case checkRateLimit (as_failures st) now ip email of
        Inl e \<Rightarrow> (st, Inl e)
      | Inr _ \<Rightarrow> login_verify nc env now' ip email password txt st)"

definition me :: "AdminUser list \<Rightarrow> AuthedUser \<Rightarrow> string \<times> string \<times> AdminRole \<times> string option \<times> bool" where
  "me users u =
     (let twofa = us_id u \<noteq> [] \<and> us_id u \<noteq> ''shared-key'' \<and>
            (case find_user users (us_id u) of
               None \<Rightarrow> False | Some row \<Rightarrow> nullish (ad_totpSecret row) [] \<noteq> [])
      in (us_id u, us_email u, us_role u, us_orgId u, twofa))"

definition no_shared_key :: "string \<Rightarrow> bool" where
  "no_shared_key userId \<longleftrightarrow> userId \<noteq> [] \<and> userId \<noteq> ''shared-key''"

definition update_user :: "string \<Rightarrow> (AdminUser \<Rightarrow> AdminUser) \<Rightarrow> AuthState \<Rightarrow> AuthState" where
  "update_user i f st = st\<lparr>as_users := map (\<lambda>u. if ad_id u = i then f u else u) (as_users st)\<rparr>"

definition startTotpSetup :: "byte list \<Rightarrow> AuthedUser \<Rightarrow> string res" where
  "startTotpSetup random20 u =
     throwIf (\<not> no_shared_key (us_id u))
       (BadRequest ''the shared admin key cannot enroll TOTP - sign in as a real account first'')
       (Inr (genTotpSecret random20))"

text \<open>Updating an account that does not exist is an error of the database (P2025).\<close>

definition enableTotp ::
  "node_crypto \<Rightarrow> time \<Rightarrow> string \<Rightarrow> string \<Rightarrow> string \<Rightarrow> AuthState \<Rightarrow> AuthState res" where
  "enableTotp nc now userId secret txt st =
     throwIf (\<not> no_shared_key userId)
       (BadRequest ''the shared admin key cannot enroll TOTP - sign in as a real account first'')
    (bindR (verifyTotp (nc_hmac1 nc) now 1 secret txt) (\<lambda>ok.
     throwIf (\<not> ok) (BadRequest ''invalid code - check the time on the authenticator'')
    (throwIf (find_user (as_users st) userId = None) (PlainError ''P2025'')
    (Inr (update_user userId (\<lambda>u. u\<lparr>ad_totpSecret := Some secret\<rparr>) st)))))"

definition disableTotp :: "node_crypto \<Rightarrow> time \<Rightarrow> string \<Rightarrow> string \<Rightarrow> AuthState \<Rightarrow> AuthState res" where
  "disableTotp nc now userId txt st =
     throwIf (\<not> no_shared_key userId) (BadRequest ''the shared admin key has no TOTP to disable'')
    (let secret = (case find_user (as_users st) userId of
                     None \<Rightarrow> [] | Some u \<Rightarrow> nullish (ad_totpSecret u) [])
     in throwIf (secret = []) (BadRequest ''2fa is not enabled'')
       (bindR (verifyTotp (nc_hmac1 nc) now 1 secret txt) (\<lambda>ok.
        throwIf (\<not> ok) (BadRequest ''invalid code'')
       (Inr (update_user userId (\<lambda>u. u\<lparr>ad_totpSecret := None\<rparr>) st)))))"

definition listUsers :: "AuthState \<Rightarrow> AdminUser list" where
  "listUsers st = sort_key ad_createdAt (as_users st)"

definition validatedUserOrg :: "Organization list \<Rightarrow> AdminRole \<Rightarrow> string option \<Rightarrow> string option res" where
  "validatedUserOrg orgs role orgId =
     (let normalized = trim (nullish orgId [])
      in throwIf (role \<noteq> SUPERADMIN \<and> normalized = [])
           (BadRequest ''non-SUPERADMIN users must belong to an organization'')
        (throwIf (normalized \<noteq> [] \<and> find_org orgs normalized = None) (BadRequest ''organization not found'')
        (Inr (if normalized = [] then None else Some normalized))))"

definition createUser ::
  "node_crypto \<Rightarrow> byte list \<Rightarrow> string \<Rightarrow> time \<Rightarrow> string \<Rightarrow> string \<Rightarrow> AdminRole \<Rightarrow> string option \<Rightarrow>
     AuthState \<Rightarrow> AuthState res" where
  "createUser nc salt newId now email password role orgId st =
     throwIf (length password < MIN_PASSWORD_LEN) short_password
    (throwIf (find_email (as_users st) (toLowerCase email) \<noteq> None) (Conflict ''email already in use'')
    (bindR (validatedUserOrg (as_orgs st) role orgId) (\<lambda>org.
     Inr (st\<lparr>as_users := as_users st @
       [\<lparr>ad_id = newId, ad_email = toLowerCase email, ad_passwordHash = hashPassword nc salt password,
         ad_role = role, ad_orgId = org, ad_totpSecret = None, ad_disabledAt = None, ad_createdAt = now\<rparr>]\<rparr>))))"

record UserPatch =
  pt_role :: "AdminRole option"
  pt_orgId :: "string option"
  pt_disabled :: "bool option"
  pt_password :: "string option"

definition updateUser ::
  "node_crypto \<Rightarrow> byte list \<Rightarrow> time \<Rightarrow> string \<Rightarrow> UserPatch \<Rightarrow> AuthState \<Rightarrow> AuthState res" where
  "updateUser nc salt now i patch st =
     (case find_user (as_users st) i of
        None \<Rightarrow> Inl (BadRequest ''user not found'')
      | Some current \<Rightarrow>
          let nextRole = nullish (pt_role patch) (ad_role current);
              orgArg = (case pt_orgId patch of None \<Rightarrow> ad_orgId current | Some x \<Rightarrow> Some x);
              pw = nullish (pt_password patch) []
          in bindR (validatedUserOrg (as_orgs st) nextRole orgArg) (\<lambda>nextOrgId.
             throwIf (pw \<noteq> [] \<and> length pw < MIN_PASSWORD_LEN) short_password
            (Inr (update_user i (\<lambda>u.
               u\<lparr>ad_role := nullish (pt_role patch) (ad_role u),
                 ad_orgId := (if pt_orgId patch \<noteq> None \<or> nextOrgId \<noteq> ad_orgId current then nextOrgId else ad_orgId u),
                 ad_disabledAt := (case pt_disabled patch of
                    None \<Rightarrow> ad_disabledAt u | Some d \<Rightarrow> if d then Some now else None),
                 ad_passwordHash := (if pw \<noteq> [] then hashPassword nc salt pw else ad_passwordHash u)\<rparr>) st))))"

subsection \<open>Rate-limit properties\<close>

definition limiter_inv :: "failures \<Rightarrow> bool" where
  "limiter_inv fs \<longleftrightarrow> (\<forall>k cnt f. fs k = Some (cnt, f) \<longrightarrow> 1 \<le> cnt \<and> cnt \<le> FAIL_LIMIT)"

lemma login_failures:
  "as_failures (fst (login_verify nc env now ip email pw txt st)) \<in>
     {as_failures st, recordFailure (as_failures st) now ip email, clearFailures (as_failures st) ip email}"
  by (auto simp: login_verify_def Let_def split: option.splits sum.splits bool.splits)

lemma limiter_inv_clear: "limiter_inv fs \<Longrightarrow> limiter_inv (clearFailures fs ip email)"
  by (auto simp: limiter_inv_def clearFailures_def)

lemma limiter_inv_record:
  assumes "limiter_inv fs" "checkRateLimit fs now ip email = Inr ()" "now \<le> now'"
  shows "limiter_inv (recordFailure fs now' ip email)"
proof -
  let ?k = "failure_key ip email"
  have "cnt < FAIL_LIMIT \<or> FAIL_WINDOW_MS \<le> now' - f" if "fs ?k = Some (cnt, f)" for cnt f
    using assms(2,3) that by (auto simp: checkRateLimit_def throwIf_eq_Inr)
  with assms(1) show ?thesis
    by (fastforce simp: limiter_inv_def recordFailure_def Let_def FAIL_LIMIT_def split: option.splits)
qed

lemma login_keeps_limiter_inv:
  assumes "limiter_inv (as_failures st)" "now \<le> now'"
  shows "limiter_inv (as_failures (fst (login nc env now now' ip email pw txt st)))"
proof (cases "checkRateLimit (as_failures st) now ip email")
  case (Inl e)
  then show ?thesis using assms by (simp add: login_def)
next
  case (Inr u)
  then show ?thesis
    using login_failures [of nc env now' ip email pw "txt" st] assms
      limiter_inv_record [of "as_failures st" now ip email now'] limiter_inv_clear
    by (auto simp: login_def)
qed

text \<open>Logins one after the other, on a clock that does not go back.\<close>

inductive login_runs :: "node_crypto \<Rightarrow> env \<Rightarrow> AuthState \<Rightarrow> time \<Rightarrow> AuthState \<Rightarrow> bool" for nc env st0 where
  login_start: "login_runs nc env st0 t st0"
| login_next: "login_runs nc env st0 t st \<Longrightarrow> t \<le> now \<Longrightarrow> now \<le> now' \<Longrightarrow>
     login_runs nc env st0 now' (fst (login nc env now now' ip email pw otp st))"


text \<open>Requests that overlap: the account look-up between the check and the count is asynchronous.\<close>

type_synonym attempt = "string \<times> string \<times> string \<times> string option"

inductive overlap ::
  "node_crypto \<Rightarrow> env \<Rightarrow> time \<Rightarrow> AuthState \<times> attempt list \<Rightarrow> AuthState \<times> attempt list \<Rightarrow> bool" for nc env now where
  overlap_check: "checkRateLimit (as_failures st) now ip email = Inr () \<Longrightarrow>
     overlap nc env now (st, ps) (st, (ip, email, pw, otp) # ps)"
| overlap_verify: "overlap nc env now (st, (ip, email, pw, otp) # ps)
     (fst (login_verify nc env now ip email pw otp st), ps)"

lemma overlap_checks:
  assumes "checkRateLimit (as_failures st) now ip email = Inr ()"
  shows "(overlap nc env now)\<^sup>*\<^sup>* (st, []) (st, replicate n (ip, email, pw, otp))"
proof (induction n)
  case (Suc n)
  have "overlap nc env now (st, replicate n (ip, email, pw, otp)) (st, replicate (Suc n) (ip, email, pw, otp))"
    using overlap_check [OF assms] by simp
  with Suc show ?case by (rule rtranclp.rtrancl_into_rtrancl)
qed simp

lemma overlap_verifies:
  assumes "find_email (as_users st) (toLowerCase email) = None"
    "as_failures st (failure_key ip email) = (if k = 0 then None else Some (k, now))"
  shows "\<exists>st'. (overlap nc env now)\<^sup>*\<^sup>* (st, replicate n (ip, email, pw, otp)) (st', []) \<and>
    as_failures st' (failure_key ip email) = (if k + n = 0 then None else Some (k + n, now))"
  using assms
proof (induction n arbitrary: st k)
  case 0
  then show ?case by auto
next
  case (Suc n)
  let ?st = "fst (login_verify nc env now ip email pw otp st)"
  have st: "?st = st\<lparr>as_failures := recordFailure (as_failures st) now ip email\<rparr>"
    using Suc.prems(1) by (simp add: login_verify_def Let_def)
  have "as_failures ?st (failure_key ip email) = Some (k + 1, now)"
    using Suc.prems(2) by (simp add: st recordFailure_def Let_def FAIL_WINDOW_MS_def)
  then obtain st' where st': "(overlap nc env now)\<^sup>*\<^sup>* (?st, replicate n (ip, email, pw, otp)) (st', [])"
    "as_failures st' (failure_key ip email) = Some (k + 1 + n, now)"
    using Suc.IH [of ?st "k + 1"] Suc.prems(1) by (auto simp: st)
  have "overlap nc env now (st, replicate (Suc n) (ip, email, pw, otp)) (?st, replicate n (ip, email, pw, otp))"
    using overlap_verify by simp
  with st' show ?case by (auto intro: converse_rtranclp_into_rtranclp)
qed

text \<open>
  Requests that overlap are not limited: any number of logins sent at once pass the
  check before the first failure is counted, and each of them has its password verified. The
  counter of ten failures bounds sequential guessing only.
\<close>

theorem overlapping_logins_bypass_limit:
  assumes "as_failures st = Map.empty" "find_email (as_users st) (toLowerCase email) = None" "0 < n"
  shows "\<exists>st'. (overlap nc env now)\<^sup>*\<^sup>* (st, []) (st, replicate n (ip, email, pw, otp)) \<and>
    (overlap nc env now)\<^sup>*\<^sup>* (st, replicate n (ip, email, pw, otp)) (st', []) \<and>
    as_failures st' (failure_key ip email) = Some (n, now)"
proof -
  have "checkRateLimit (as_failures st) now ip email = Inr ()" by (simp add: checkRateLimit_def assms(1))
  from overlap_checks [OF this] overlap_verifies [of st email ip 0 now nc env n pw otp] assms
  show ?thesis by auto
qed

subsection \<open>Sessions\<close>

text \<open>
  Property C8. A login ends in a session token only for an existing, enabled account whose stored
  hash matches the password, and, when the account has a second factor, only with a code that
  verifies at that moment; it also resets the failure counter of the key.
\<close>

theorem token_needs_every_factor:
  assumes "login nc env now now' ip email pw otp st = (st', Inr (LoginToken tok role mail ttl))"
  shows "\<exists>u. find_email (as_users st) (toLowerCase email) = Some u \<and> ad_disabledAt u = None \<and>
    verifyPassword nc pw (ad_passwordHash u) \<and> role = ad_role u \<and> mail = ad_email u \<and>
    (nullish (ad_totpSecret u) [] \<noteq> [] \<longrightarrow>
       verifyTotp (nc_hmac1 nc) now' 1 (nullish (ad_totpSecret u) []) (nullish otp []) = Inr True) \<and>
    as_failures st' = (as_failures st)(failure_key ip email := None)"
proof -
  have "login_verify nc env now' ip email pw otp st = (st', Inr (LoginToken tok role mail ttl))"
    using assms by (auto simp: login_def split: sum.splits)
  then show ?thesis
    by (auto simp: login_verify_def Let_def clearFailures_def bindR_eq_Inr
        split: option.splits if_splits sum.splits bool.splits)
qed

lemma base64_char_neq: "base64_char c \<Longrightarrow> c \<noteq> CHR ''='' \<and> c \<noteq> CHR ''-'' \<and> c \<noteq> CHR ''_'' \<and> c \<noteq> CHR ''.'' \<and> c \<noteq> CHR ''$''"
  by (auto simp: base64_char_def is_upper_az_def is_lower_az_def is_digit_def)

lemma url_char_base64:
  "base64_char c \<Longrightarrow> url_char c \<noteq> CHR ''='' \<and> url_char c \<noteq> CHR ''.'' \<and> unurl_char (url_char c) = c"
  using base64_char_neq [of c] by (simp add: url_char_def unurl_char_def)

lemma b64u_shape:
  assumes "node_ok nc"
  obtains t p where "nc_base64 nc b = t @ replicate p CHR ''=''" "p \<le> 2" "list_all base64_char t"
    "(length t + p) mod 4 = 0" "b64uEncode nc b = map url_char t"
proof -
  obtain t p where tp: "nc_base64 nc b = t @ replicate p CHR ''=''" "p \<le> 2" "list_all base64_char t"
    "length (nc_base64 nc b) mod 4 = 0"
    using assms unfolding node_ok_def base64_text_def by metis
  have drop: "dropWhile (\<lambda>c. c = CHR ''='') (replicate p CHR ''='' @ u) = dropWhile (\<lambda>c. c = CHR ''='') u" for u
    by (induction p) auto
  have "dropWhile (\<lambda>c. c = CHR ''='') (rev (map url_char t)) = rev (map url_char t)"
  proof (cases "rev (map url_char t)")
    case (Cons x xs)
    then have "x \<in> set (map url_char t)" by (metis list.set_intros(1) set_rev)
    then obtain c where c: "x = url_char c" "c \<in> set t" unfolding set_map by blast
    then have "base64_char c" using tp(3) unfolding list_all_iff by blast
    then have "x \<noteq> CHR ''=''" using url_char_base64 [of c] c(1) by simp
    then show ?thesis by (simp add: Cons)
  qed simp
  then have "b64uEncode nc b = map url_char t"
    by (simp add: b64uEncode_def tp(1) url_char_def [of "CHR ''=''"] drop)
  then show ?thesis using that tp by simp
qed

lemma b64u_decode_encode: "node_ok nc \<Longrightarrow> b64uDecode nc (b64uEncode nc b) = b"
proof -
  assume ok: "node_ok nc"
  obtain t p where tp: "nc_base64 nc b = t @ replicate p CHR ''=''" "p \<le> 2" "list_all base64_char t"
    "(length t + p) mod 4 = 0" "b64uEncode nc b = map url_char t"
    using b64u_shape [OF ok] .
  have "map unurl_char (map url_char t) = t"
    using tp(3) url_char_base64 by (simp only: map_map map_idI comp_apply list_all_iff)
  moreover have "(if length t mod 4 = 0 then [] else replicate (4 - length t mod 4) CHR ''='') = replicate p CHR ''=''"
  proof -
    have "p = 0 \<and> length t mod 4 = 0 \<or> p = 4 - length t mod 4 \<and> length t mod 4 \<noteq> 0"
      using tp(2,4) by presburger
    then show ?thesis by auto
  qed
  ultimately have "b64uDecode nc (b64uEncode nc b) = nc_unbase64 nc (nc_base64 nc b)"
    by (simp only: b64uDecode_def tp(1,5) Let_def length_map)
  with ok show ?thesis by (simp add: node_ok_def)
qed

lemma b64u_no_dot: "node_ok nc \<Longrightarrow> CHR ''.'' \<notin> set (b64uEncode nc b)"
proof -
  assume "node_ok nc"
  then obtain t where t: "b64uEncode nc b = map url_char t" "list_all base64_char t" by (rule b64u_shape)
  show ?thesis
  proof
    assume "CHR ''.'' \<in> set (b64uEncode nc b)"
    then obtain c where "c \<in> set t" "CHR ''.'' = url_char c" by (auto simp only: t(1) set_map image_iff)
    then show False using t(2) url_char_base64 by (metis list_all_iff)
  qed
qed

lemma password_roundtrip:
  assumes "node_ok nc"
  shows "verifyPassword nc pw' (hashPassword nc salt pw) \<longleftrightarrow>
    nc_scrypt nc pw' salt SCRYPT_KEYLEN = nc_scrypt nc pw salt SCRYPT_KEYLEN"
proof -
  have nd: "CHR ''$'' \<notin> set (nc_base64 nc b)" for b
  proof -
    obtain t p where "nc_base64 nc b = t @ replicate p CHR ''=''" "list_all base64_char t"
      using b64u_shape [OF assms] by metis
    then show ?thesis using base64_char_neq by (auto simp: list_all_iff)
  qed
  have "split_on CHR ''$'' (hashPassword nc salt pw) =
      [''scrypt'', nc_base64 nc salt, nc_base64 nc (nc_scrypt nc pw salt SCRYPT_KEYLEN)]"
    unfolding hashPassword_def
    using nd split_on_sep [of "CHR ''$''" "''scrypt''"] split_on_sep [OF nd] split_on_no_sep [OF nd] by simp
  then show ?thesis using assms by (simp add: verifyPassword_def node_ok_def Let_def)
qed

text \<open>
  Property C9. A session token verifies, under the secret that signed it, exactly until it expires:
  the payload comes back with its issue and expiry times while the clock is before the expiry
  second, and is refused from then on.
\<close>

theorem jwt_roundtrip_until_expiry:
  assumes "node_ok nc"
    and "\<And>v. v = JObj (payload @ [(''iat'', JNum (num (now div 1000))), (''exp'', JNum (num (now div 1000 + ttl)))]) \<Longrightarrow>
      nc_json_parse nc (json_text v) = Some v"
    and "''exp'' \<notin> fst ` set payload"
  shows "verifyJwt nc now' (signJwt nc now payload secret ttl) secret =
    (if now' div 1000 < now div 1000 + ttl
     then Some (JObj (payload @ [(''iat'', JNum (num (now div 1000))), (''exp'', JNum (num (now div 1000 + ttl)))]))
     else None)"
proof -
  define body where "body = JObj (payload @ [(''iat'', JNum (num (now div 1000))), (''exp'', JNum (num (now div 1000 + ttl)))])"
  define h where "h = b64uEncode nc (nc_utf8 nc (json_text (JObj [(''alg'', JStr ''HS256''), (''typ'', JStr ''JWT'')])))"
  define p where "p = b64uEncode nc (nc_utf8 nc (json_text body))"
  define sig where "sig = b64uEncode nc (nc_hmac256 nc secret (h @ ''.'' @ p))"
  have tok: "signJwt nc now payload secret ttl = h @ CHR ''.'' # p @ CHR ''.'' # sig"
    by (simp add: signJwt_def Let_def h_def p_def sig_def body_def)
  have parts: "split_on CHR ''.'' (signJwt nc now payload secret ttl) = [h, p, sig]"
    unfolding tok using b64u_no_dot [OF assms(1)]
    by (simp add: split_on_sep split_on_no_sep h_def p_def sig_def)
  have "nc_json_parse nc (nc_unutf8 nc (b64uDecode nc p)) = Some body"
    using assms(1,2) b64u_decode_encode by (simp add: p_def node_ok_def body_def)
  moreover have "prop_of body ''exp'' = JNum (num (now div 1000 + ttl))"
  proof -
    have "map_of payload ''exp'' = None" using assms(3) by (simp add: map_of_eq_None_iff)
    then show ?thesis by (simp add: body_def prop_of_def map_add_def)
  qed
  ultimately show ?thesis
    unfolding body_def [symmetric]
    using b64u_decode_encode [OF assms(1)] by (simp add: verifyJwt_def parts sig_def)
qed

subsection \<open>Accounts\<close>

definition accounts_ok :: "AuthState \<Rightarrow> bool" where
  "accounts_ok st \<longleftrightarrow>
     distinct (map ad_id (as_users st)) \<and> distinct (map ad_email (as_users st)) \<and>
     (\<forall>u \<in> set (as_users st). toLowerCase (ad_email u) = ad_email u \<and>
        (ad_role u \<noteq> SUPERADMIN \<longrightarrow>
           (\<exists>i. ad_orgId u = Some i \<and> i \<noteq> [] \<and> find_org (as_orgs st) i \<noteq> None)))"

inductive account_step :: "node_crypto \<Rightarrow> AuthState \<Rightarrow> AuthState \<Rightarrow> bool" for nc where
  "bootstrapSuperadmin nc salt i now email pw st = Inr (st', r) \<Longrightarrow> account_step nc st st'"
| "createUser nc salt i now email pw role org st = Inr st' \<Longrightarrow> i \<notin> ad_id ` set (as_users st) \<Longrightarrow> account_step nc st st'"
| "updateUser nc salt now i patch st = Inr st' \<Longrightarrow> account_step nc st st'"
| "enableTotp nc now i secret otp st = Inr st' \<Longrightarrow> account_step nc st st'"
| "disableTotp nc now i otp st = Inr st' \<Longrightarrow> account_step nc st st'"
| "login nc env now now' ip email pw otp st = (st', r) \<Longrightarrow> account_step nc st st'"
| "account_step nc st (st\<lparr>as_orgs := as_orgs st @ [g]\<rparr>)"

lemma validatedUserOrg_ok:
  "validatedUserOrg orgs role org = Inr r \<Longrightarrow>
     (role \<noteq> SUPERADMIN \<longrightarrow> (\<exists>i. r = Some i \<and> i \<noteq> [] \<and> find_org orgs i \<noteq> None))"
  by (auto simp: validatedUserOrg_def Let_def throwIf_eq_Inr split: if_splits)

lemma find_org_append: "find_org orgs i \<noteq> None \<Longrightarrow> find_org (orgs @ gs) i \<noteq> None"
  by (auto simp: find_org_None)

lemma find_email_None: "find_email users e = None \<longleftrightarrow> e \<notin> ad_email ` set users"
  by (auto simp: find_email_def find_None_iff)

lemma update_user_accounts_ok:
  assumes "accounts_ok st" "\<And>u. ad_email (f u) = ad_email u \<and> ad_id (f u) = ad_id u"
    "\<And>u. u \<in> set (as_users st) \<Longrightarrow> ad_id u = i \<Longrightarrow> ad_role (f u) \<noteq> SUPERADMIN \<Longrightarrow>
      \<exists>g. ad_orgId (f u) = Some g \<and> g \<noteq> [] \<and> find_org (as_orgs st) g \<noteq> None"
  shows "accounts_ok (update_user i f st)"
proof -
  have "map ad_email (as_users (update_user i f st)) = map ad_email (as_users st)"
    "map ad_id (as_users (update_user i f st)) = map ad_id (as_users st)"
    using assms(2) by (simp_all add: update_user_def)
  then have "distinct (map ad_email (as_users (update_user i f st)))"
    "distinct (map ad_id (as_users (update_user i f st)))"
    using assms(1) by (simp_all only: accounts_ok_def)
  moreover have "toLowerCase (ad_email u) = ad_email u \<and> (ad_role u \<noteq> SUPERADMIN \<longrightarrow>
      (\<exists>g. ad_orgId u = Some g \<and> g \<noteq> [] \<and> find_org (as_orgs st) g \<noteq> None))"
    if "u \<in> set (as_users (update_user i f st))" for u
    using that assms unfolding accounts_ok_def update_user_def by auto
  ultimately show ?thesis unfolding accounts_ok_def by (simp add: update_user_def)
qed

lemma login_users: "login nc env now now' ip email pw otp st = (st', r) \<Longrightarrow> as_users st' = as_users st \<and> as_orgs st' = as_orgs st"
  by (auto simp: login_def login_verify_def Let_def split: sum.splits option.splits if_splits bool.splits)

lemma find_user_mem: "find_user users i = Some u \<Longrightarrow> u \<in> set users \<and> ad_id u = i"
  by (auto simp: find_user_def find_Some_iff)

lemma update_totp_accounts_ok:
  "accounts_ok st \<Longrightarrow> accounts_ok (update_user i (\<lambda>u. u\<lparr>ad_totpSecret := x\<rparr>) st)"
  by (rule update_user_accounts_ok) (auto simp: accounts_ok_def)

lemma account_step_ok: "account_step nc st st' \<Longrightarrow> accounts_ok st \<Longrightarrow> accounts_ok st'"
proof (induction rule: account_step.induct)
  case (1 salt i now email pw st st' r)
  then show ?case by (auto simp: bootstrapSuperadmin_def Let_def throwIf_eq_Inr accounts_ok_def)
next
  case (2 salt i now email pw role org st st')
  then obtain v where v: "validatedUserOrg (as_orgs st) role org = Inr v"
    "find_email (as_users st) (toLowerCase email) = None"
    "st' = st\<lparr>as_users := as_users st @ [\<lparr>ad_id = i, ad_email = toLowerCase email,
       ad_passwordHash = hashPassword nc salt pw, ad_role = role, ad_orgId = v, ad_totpSecret = None,
       ad_disabledAt = None, ad_createdAt = now\<rparr>]\<rparr>"
    by (auto simp: createUser_def throwIf_eq_Inr bindR_eq_Inr)
  then show ?case using 2(2,3) validatedUserOrg_ok [OF v(1)]
    by (auto simp: accounts_ok_def find_email_None)
next
  case (3 salt now i patch st st')
  then obtain u0 v where u0: "find_user (as_users st) i = Some u0"
    and v: "validatedUserOrg (as_orgs st) (nullish (pt_role patch) (ad_role u0))
        (case pt_orgId patch of None \<Rightarrow> ad_orgId u0 | Some x \<Rightarrow> Some x) = Inr v"
    and st': "st' = update_user i (\<lambda>u.
               u\<lparr>ad_role := nullish (pt_role patch) (ad_role u),
                 ad_orgId := (if pt_orgId patch \<noteq> None \<or> v \<noteq> ad_orgId u0 then v else ad_orgId u),
                 ad_disabledAt := (case pt_disabled patch of
                    None \<Rightarrow> ad_disabledAt u | Some d \<Rightarrow> if d then Some now else None),
                 ad_passwordHash := (if nullish (pt_password patch) [] \<noteq> [] then hashPassword nc salt (nullish (pt_password patch) []) else ad_passwordHash u)\<rparr>) st"
    by (auto simp: updateUser_def Let_def throwIf_eq_Inr bindR_eq_Inr split: option.splits)
  have "u = u0" if "u \<in> set (as_users st)" "ad_id u = i" for u
    using that find_user_mem [OF u0] 3(2) by (auto simp: accounts_ok_def distinct_map inj_on_def)
  with validatedUserOrg_ok [OF v] show ?case
    unfolding st' by (intro update_user_accounts_ok [OF 3(2)]) (simp_all, metis)
next
  case (4 now i secret otp st st')
  then show ?case
    by (auto simp: enableTotp_def throwIf_eq_Inr bindR_eq_Inr intro: update_totp_accounts_ok)
next
  case (5 now i otp st st')
  then show ?case
    by (auto simp: disableTotp_def Let_def throwIf_eq_Inr bindR_eq_Inr intro: update_totp_accounts_ok)
next
  case (6 env now now' ip email pw otp st st' r)
  then show ?case using login_users by (auto simp: accounts_ok_def)
next
  case (7 st g)
  then show ?case using find_org_append by (fastforce simp: accounts_ok_def)
qed

text \<open>
  Whatever sequence of account operations runs (first-run bootstrap, creating and
  updating users, enabling and disabling the second factor, logins, new organisations), no two
  accounts share an address, addresses are stored in lower case, and every account below SUPERADMIN
  belongs to an existing organisation.
\<close>

theorem accounts_invariant:
  assumes "(account_step nc)\<^sup>*\<^sup>* st st'" "as_users st = []"
  shows "accounts_ok st'"
  using assms(1)
proof induction
  case base
  then show ?case using assms(2) by (simp add: accounts_ok_def)
next
  case (step y z)
  then show ?case using account_step_ok by blast
qed

text \<open>An accepted request carries an enabled account of sufficient rank, or the shared key.\<close>

definition signed_in :: "node_crypto \<Rightarrow> time \<Rightarrow> AdminUser list \<Rightarrow> AdminRole option \<Rightarrow> string \<Rightarrow> string \<Rightarrow> AuthedUser res" where
  "signed_in nc now users annotated auth secret =
     (case verifyJwt nc now (drop 7 auth) secret of
        None \<Rightarrow> Inl (Unauthorized ''invalid or expired token'')
      | Some payload \<Rightarrow>
          (case prop_of payload ''sub'' of
             JStr sub \<Rightarrow>
               (case List.find (\<lambda>u. ad_id u = sub) users of
                  None \<Rightarrow> Inl (Unauthorized ''user not found'')
                | Some u \<Rightarrow>
                    throwIf (ad_disabledAt u \<noteq> None) (Unauthorized ''user disabled'')
                   (throwIf (RANK (ad_role u) < RANK (nullish annotated ADMIN)) (Forbidden (''requires '' @ role_name (nullish annotated ADMIN)))
                   (Inr \<lparr>us_id = ad_id u, us_email = ad_email u, us_role = ad_role u, us_orgId = ad_orgId u, us_viaSharedKey = False\<rparr>)))
           | _ \<Rightarrow> Inl (PlainError ''invalid user id'')))"

lemma canActivate_sound:
  assumes "canActivate nc now env users annotated headers = Inr u"
  shows "us_viaSharedKey u \<and> headers ''x-admin-key'' = env ''HARA_CONTROL_ADMIN_KEY'' \<and> headers ''x-admin-key'' \<noteq> None \<or>
    (\<exists>row \<in> set users. us_id u = ad_id row \<and> us_orgId u = ad_orgId row \<and> us_role u = ad_role row \<and>
       ad_disabledAt row = None \<and> nullish annotated ADMIN \<le> us_role u)"
proof (cases "nullish (env ''HARA_CONTROL_ADMIN_KEY'') [] \<noteq> [] \<and> headers ''x-admin-key'' = Some (nullish (env ''HARA_CONTROL_ADMIN_KEY'') [])")
  case True
  then show ?thesis using assms by (cases "env ''HARA_CONTROL_ADMIN_KEY''") (auto simp: canActivate_def Let_def)
next
  case False
  let ?auth = "nullish (headers ''authorization'') []"
  have "canActivate nc now env users annotated headers = throwIf (\<not> startsWith ?auth ''Bearer '') (Unauthorized ''missing credentials'')
      (bindR (jwtSecret env) (\<lambda>secret. signed_in nc now users annotated ?auth secret))"
    by (simp only: canActivate_def signed_in_def Let_def False if_False)
  from assms [unfolded this throwIf_eq_Inr bindR_eq_Inr] obtain secret where signed: "signed_in nc now users annotated ?auth secret = Inr u" by blast
  obtain payload where payload: "verifyJwt nc now (drop 7 ?auth) secret = Some payload"
    using signed unfolding signed_in_def by (cases "verifyJwt nc now (drop 7 ?auth) secret") simp_all
  obtain sub where sub: "prop_of payload ''sub'' = JStr sub"
    using signed by (cases "prop_of payload ''sub''") (simp_all add: signed_in_def payload)
  obtain row where row: "List.find (\<lambda>r. ad_id r = sub) users = Some row"
    using signed by (cases "List.find (\<lambda>r. ad_id r = sub) users") (simp_all add: signed_in_def payload sub)
  have "ad_disabledAt row = None \<and> \<not> RANK (ad_role row) < RANK (nullish annotated ADMIN) \<and> us_id u = ad_id row \<and> us_orgId u = ad_orgId row \<and> us_role u = ad_role row"
    using signed by (auto simp: signed_in_def payload sub row throwIf_eq_Inr)
  moreover have "row \<in> set users" using row by (auto simp: find_Some_iff)
  ultimately show ?thesis by (auto simp: less_eq_AdminRole_def not_less)
qed

text \<open>
  Tenant isolation of the guard: a request that passes \<^verbatim>\<open>canActivate\<close> and then
  \<^verbatim>\<open>assertAdminOrgAccess\<close> for an organisation holds the shared key, or belongs to an enabled account
  of at least the required rank that is a SUPERADMIN or is assigned to that very organisation.
\<close>

theorem guarded_org_access:
  assumes "canActivate nc now env users annotated headers = Inr u" "assertAdminOrgAccess u orgId = Inr ()"
  shows "us_viaSharedKey u \<and> headers ''x-admin-key'' = env ''HARA_CONTROL_ADMIN_KEY'' \<and> headers ''x-admin-key'' \<noteq> None \<or>
    (\<exists>row \<in> set users. ad_id row = us_id u \<and> ad_disabledAt row = None \<and> nullish annotated ADMIN \<le> ad_role row \<and>
       (ad_role row = SUPERADMIN \<or> ad_orgId row = Some orgId))"
proof -
  have "us_viaSharedKey u \<or> us_role u = SUPERADMIN \<or> us_orgId u = Some orgId"
    using assms(2) by (auto simp: assertAdminOrgAccess_def throwIf_eq_Inr split: if_splits)
  moreover have "\<not> us_viaSharedKey u \<or> headers ''x-admin-key'' = env ''HARA_CONTROL_ADMIN_KEY'' \<and> headers ''x-admin-key'' \<noteq> None"
    using assms(1)
    by (auto simp: canActivate_def Let_def throwIf_eq_Inr bindR_eq_Inr nullish_def
        split: if_splits option.splits jsval.splits)
  ultimately show ?thesis using canActivate_sound [OF assms(1)] by metis
qed

subsection \<open>Samples\<close>

text \<open>A model of the runtime functions: four letters per byte, constant MACs and keys.\<close>

definition nibble_char :: "nat \<Rightarrow> char" where
  "nibble_char n = char_of (65 + n)"

definition sample_base64 :: "byte list \<Rightarrow> string" where
  "sample_base64 bs =
     concat (map (\<lambda>b. [nibble_char (unat b div 16), nibble_char (unat b mod 16), CHR ''A'', CHR ''A'']) bs)"

fun sample_unbase64 :: "string \<Rightarrow> byte list" where
  "sample_unbase64 (a # b # _ # _ # cs) =
     of_nat ((code a - 65) * 16 + (code b - 65)) # sample_unbase64 cs"
| "sample_unbase64 _ = []"

definition sample_node :: "jsval \<Rightarrow> node_crypto" where
  "sample_node parsed =
     \<lparr>nc_scrypt = (\<lambda>p s n. replicate n (of_nat (length p))), nc_base64 = sample_base64,
      nc_unbase64 = sample_unbase64, nc_hmac256 = (\<lambda>_ _. [7]), nc_hmac1 = (\<lambda>_ _. replicate 20 0),
      nc_utf8 = map (\<lambda>c. of_nat (code c)), nc_unutf8 = map (\<lambda>b. char_of (unat b)),
      nc_json_parse = (\<lambda>_. Some parsed)\<rparr>"

lemma code_nibble: "n < 16 \<Longrightarrow> code (nibble_char n) = 65 + n"
  by (simp add: nibble_char_def)

lemma unat_byte: "unat (b :: byte) < 256"
  using unsigned_less [of b, where 'a = nat] by simp

lemma sample_base64_inverse: "sample_unbase64 (sample_base64 bs) = bs"
proof (induction bs)
  case (Cons b bs)
  have "unat b div 16 < 16" using unat_byte [of b] by simp
  then have "(code (nibble_char (unat b div 16)) - 65) * 16 + (code (nibble_char (unat b mod 16)) - 65) = unat b"
    by (simp add: code_nibble)
  with Cons show ?case by (simp add: sample_base64_def)
qed (simp add: sample_base64_def)

lemma sample_base64_text: "base64_text (sample_base64 bs)"
proof -
  have nib: "base64_char (nibble_char n)" if "n < 16" for n
    using that code_nibble [OF that] by (simp add: base64_char_def is_upper_az_def)
  have "unat (b :: byte) div 16 < 16" for b using unat_byte [of b] by simp
  then have "list_all base64_char (sample_base64 bs)"
    by (induction bs) (simp_all add: sample_base64_def nib, simp_all add: base64_char_def is_upper_az_def)
  moreover have "length (sample_base64 bs) mod 4 = 0"
    by (induction bs) (simp_all add: sample_base64_def)
  ultimately show ?thesis unfolding base64_text_def by (intro exI [of _ "sample_base64 bs"] exI [of _ 0]) simp
qed

lemma sample_node_ok: "node_ok (sample_node v)"
proof -
  have "char_of (unat (of_nat (code c) :: byte)) = c" for c
  proof -
    have "code c < 256" by simp
    then have "unat (of_nat (code c) :: byte) = code c" by (simp add: unat_of_nat)
    then show ?thesis by simp
  qed
  then have "map (\<lambda>b. char_of (unat b)) (map (\<lambda>c. of_nat (code c) :: byte) s) = s" for s
    by (simp add: comp_def)
  then show ?thesis
    by (simp add: node_ok_def sample_node_def sample_base64_text sample_base64_inverse)
qed

definition sample_body :: jsval where
  "sample_body = JObj [(''sub'', JStr ''u1''), (''iat'', JNum (num 1000)), (''exp'', JNum (num 29800))]"

theorem jwt_roundtrip_until_expiry_witness:
  "verifyJwt (sample_node sample_body) 5000000 (signJwt (sample_node sample_body) 1000000 [(''sub'', JStr ''u1'')] ''k'' 28800) ''k''
     = Some sample_body"
proof -
  have "nc_json_parse (sample_node sample_body) (json_text v) = Some v"
    if "v = JObj ([(''sub'', JStr ''u1'')] @ [(''iat'', JNum (num (1000000 div 1000))), (''exp'', JNum (num (1000000 div 1000 + 28800)))])" for v
    using that by (simp add: sample_node_def sample_body_def)
  from jwt_roundtrip_until_expiry [OF sample_node_ok this, where now' = 5000000 and secret = "''k''"] show ?thesis
    by (simp add: sample_body_def)
qed

definition empty_auth :: AuthState where
  "empty_auth = \<lparr>as_users = [], as_failures = Map.empty, as_orgs = []\<rparr>"


theorem overlapping_logins_bypass_limit_witness:
  "\<exists>st'. (overlap (sample_node JNull) Map.empty 5)\<^sup>*\<^sup>* (empty_auth, replicate 25 (''ip'', ''a@b'', ''guess'', None)) (st', []) \<and>
     as_failures st' (failure_key ''ip'' ''a@b'') = Some (25, 5)"
  using overlapping_logins_bypass_limit [of empty_auth "''a@b''" 25 "sample_node JNull" Map.empty 5 "''ip''" "''guess''" None]
  by (auto simp: empty_auth_def find_email_def)

definition sample_admin :: AdminUser where
  "sample_admin =
     \<lparr>ad_id = ''u1'', ad_email = ''a@b'', ad_passwordHash = hashPassword (sample_node JNull) [1] ''correct horse'',
      ad_role = ADMIN, ad_orgId = Some ''org'', ad_totpSecret = None, ad_disabledAt = None, ad_createdAt = 0\<rparr>"

theorem token_needs_every_factor_witness:
  "\<exists>st' tok. login (sample_node JNull) [''HARA_JWT_SECRET'' \<mapsto> ''k''] 0 0 ''ip'' ''A@b'' ''correct horse'' None
       (empty_auth\<lparr>as_users := [sample_admin]\<rparr>) = (st', Inr (LoginToken tok ADMIN ''a@b'' JWT_TTL_SEC)) \<and>
     verifyPassword (sample_node JNull) ''correct horse'' (ad_passwordHash sample_admin)"
proof -
  let ?st = "empty_auth\<lparr>as_users := [sample_admin]\<rparr>"
  have l: "toLowerCase ''A@b'' = ''a@b''"
    by code_simp
  have "verifyPassword (sample_node JNull) ''correct horse'' (ad_passwordHash sample_admin)"
    by (simp add: sample_admin_def password_roundtrip sample_node_ok)
  then obtain st' tok where r: "login (sample_node JNull) [''HARA_JWT_SECRET'' \<mapsto> ''k''] 0 0 ''ip'' ''A@b'' ''correct horse'' None ?st
      = (st', Inr (LoginToken tok ADMIN ''a@b'' JWT_TTL_SEC))"
    by (simp add: login_def checkRateLimit_def login_verify_def empty_auth_def find_email_def l jwtSecret_def
        Let_def sample_admin_def)
  from token_needs_every_factor [OF r] have "verifyPassword (sample_node JNull) ''correct horse'' (ad_passwordHash sample_admin)"
    by (auto simp: find_email_def l empty_auth_def sample_admin_def)
  with r show ?thesis by blast
qed

theorem accounts_invariant_witness:
  "\<exists>st'. accounts_ok st' \<and> length (as_users st') = 1"
proof -
  let ?nc = "sample_node JNull"
  obtain st' r where b: "bootstrapSuperadmin ?nc [1] ''u1'' 0 ''A@b'' ''correct horse'' empty_auth = Inr (st', r)"
    and l: "length (as_users st') = 1"
    by (simp add: bootstrapSuperadmin_def empty_auth_def MIN_PASSWORD_LEN_def Let_def)
  then have "(account_step ?nc)\<^sup>*\<^sup>* empty_auth st'" using account_step.intros(1) [OF b] by blast
  from accounts_invariant [OF this] l show ?thesis by (auto simp: empty_auth_def)
qed

theorem guarded_org_access_witness:
  "\<exists>u. canActivate (sample_node JNull) 0 [''HARA_CONTROL_ADMIN_KEY'' \<mapsto> ''k''] [] None [''x-admin-key'' \<mapsto> ''k''] = Inr u \<and>
     us_viaSharedKey u"
proof -
  obtain u where u: "canActivate (sample_node JNull) 0 [''HARA_CONTROL_ADMIN_KEY'' \<mapsto> ''k''] [] None [''x-admin-key'' \<mapsto> ''k''] = Inr u"
    and a: "assertAdminOrgAccess u ''org'' = Inr ()"
    by (simp add: canActivate_def Let_def assertAdminOrgAccess_def)
  from guarded_org_access [OF u a] u show ?thesis by auto
qed

end
