(* ===== verification/Gateway.thy ===== *)
theory Gateway
  imports KeyPolicy ModelPolicy HashChain
begin

section \<open>The gateway: contract, mock and LiteLLM adapter\<close>

text \<open>
  gateway/gateway-adapter.ts states the seam to the data plane; the locale \<^verbatim>\<open>gateway_adapter\<close> is its
  contract as the services rely on it. gateway/mock.adapter.ts satisfies it outright;
  gateway/litellm.adapter.ts satisfies it whenever the LiteLLM proxy does what its documentation
  says of \<^verbatim>\<open>/key/generate\<close> and \<^verbatim>\<open>/key/delete\<close>. gateway/usage.ts computes the report windows. The state of the
  data plane is a type variable; what the proxy answers is a parameter.
\<close>

record IssuedKey =
  ik_key :: string
  ik_keyId :: string
  ik_expiresAt :: "time option"

record IssueOpts =
  io_model :: string
  io_models :: "string list option"
  io_alias :: string
  io_expiresAt :: "time option"
  io_metadata :: jsval
  io_limits :: "GatewayKeyLimits option"

type_synonym SpendRecord = "string \<times> number option"

record GatewayUsageBucket =
  ub_keyId :: string
  ub_bucketAt :: time
  ub_model :: string
  ub_spend :: number
  ub_totalTokens :: number
  ub_requests :: number
  ub_lastRequestAt :: time

record GatewayRollingSpend =
  rs_keyId :: string
  rs_spend5h :: number
  rs_spend7d :: number
  rs_spend30d :: number

record GatewayNativeAllowanceMeter =
  nm_keyId :: string
  nm_id :: string
  nm_label :: string
  nm_unit :: string
  nm_availability :: string
  nm_used :: "jsval option"
  nm_remaining :: "jsval option"
  nm_limit :: "jsval option"
  nm_window :: "string option"
  nm_resetAt :: "time option"

datatype GatewayUsageReport =
    PaygLedger (pl_source: string) (pl_available: bool) (pl_buckets: "GatewayUsageBucket list")
      (pl_rolling: "GatewayRollingSpend list")
  | ProviderNative (pn_provider: string) (pn_available: bool) (pn_authoritative: bool)
      (pn_fetchedAt: time) (pn_validUntil: "time option") (pn_meters: "GatewayNativeAllowanceMeter list")

record 'g GatewayAdapter =
  ga_issueKey :: "IssueOpts \<Rightarrow> 'g \<Rightarrow> 'g \<times> IssuedKey res"
  ga_syncKeyModels :: "string \<Rightarrow> string list \<Rightarrow> 'g \<Rightarrow> 'g \<times> string list res"
  ga_revokeKey :: "string \<Rightarrow> 'g \<Rightarrow> 'g \<times> unit res"
  ga_listSpend :: "string list \<Rightarrow> 'g \<Rightarrow> SpendRecord list"

text \<open>\<^verbatim>\<open>models?.length ? [...new Set(models)] : model ? [model] : []\<close>\<close>

definition authorized_models :: "string list option \<Rightarrow> string \<Rightarrow> string list" where
  "authorized_models models model =
     (case nullish models [] of
        [] \<Rightarrow> if model \<noteq> [] then [model] else []
      | ms \<Rightarrow> nub ms)"

subsection \<open>The contract\<close>

text \<open>
  \<^verbatim>\<open>live g\<close> is the set of aliases under which a key exists. An issued key is live under the alias
  asked for; a failed issue touches no other alias; a completed revocation leaves the alias
  dead, a failed one revives nothing; reconciling models neither creates nor removes keys.
\<close>

locale gateway_adapter =
  fixes A :: "('g, 'x) GatewayAdapter_scheme" and live :: "'g \<Rightarrow> string set"
  assumes issue_ok: "ga_issueKey A opts g = (g', Inr k) \<Longrightarrow>
      ik_keyId k = io_alias opts \<and> live g' = insert (io_alias opts) (live g)"
    and issue_failed: "ga_issueKey A opts g = (g', Inl e) \<Longrightarrow>
      live g' - {io_alias opts} = live g - {io_alias opts}"
    and revoke_ok: "ga_revokeKey A i g = (g', Inr ()) \<Longrightarrow> live g' = live g - {i}"
    and revoke_failed: "ga_revokeKey A i g = (g', Inl e) \<Longrightarrow> live g - {i} \<subseteq> live g' \<and> live g' \<subseteq> live g"
    and sync_live: "ga_syncKeyModels A i ms g = (g', r) \<Longrightarrow> live g' = live g"
begin

text \<open>Issuing and then revoking a fresh alias leaves the set of live keys as it was.\<close>

lemma issue_revoke_fresh:
  assumes "ga_issueKey A opts g = (g1, Inr k)" "ga_revokeKey A (ik_keyId k) g1 = (g2, Inr ())"
    "io_alias opts \<notin> live g"
  shows "live g2 = live g"
  using issue_ok [OF assms(1)] revoke_ok [OF assms(2)] assms(3) by auto

lemma revoke_live_subset: "ga_revokeKey A i g = (g', r) \<Longrightarrow> live g' \<subseteq> live g"
  using revoke_ok revoke_failed by (cases r) fastforce+

end

subsection \<open>The mock adapter\<close>

record MockState =
  mk_spend :: "string \<Rightarrow> number option"
  mk_models :: "string \<Rightarrow> string list option"
  mk_random :: nat

text \<open>The random suffix of the key is a counter of the state.\<close>

definition mock_issueKey :: "IssueOpts \<Rightarrow> MockState \<Rightarrow> MockState \<times> IssuedKey res" where
  "mock_issueKey opts g =
     (g\<lparr>mk_spend := (mk_spend g)(io_alias opts \<mapsto> Fin 0),
        mk_models := (mk_models g)(io_alias opts \<mapsto> authorized_models (io_models opts) (io_model opts)),
        mk_random := mk_random g + 1\<rparr>,
      Inr \<lparr>ik_key = ''sk-hara-mock-'' @ show_nat (mk_random g), ik_keyId = io_alias opts,
           ik_expiresAt = io_expiresAt opts\<rparr>)"

definition mock_syncKeyModels :: "string \<Rightarrow> string list \<Rightarrow> MockState \<Rightarrow> MockState \<times> string list res" where
  "mock_syncKeyModels keyId models g =
     (g\<lparr>mk_models := (mk_models g)(keyId \<mapsto> nub models)\<rparr>, Inr (nub models))"

definition mock_revokeKey :: "string \<Rightarrow> MockState \<Rightarrow> MockState \<times> unit res" where
  "mock_revokeKey keyId g =
     (g\<lparr>mk_spend := (mk_spend g)(keyId := None), mk_models := (mk_models g)(keyId := None)\<rparr>, Inr ())"

definition mock_listSpend :: "string list \<Rightarrow> MockState \<Rightarrow> SpendRecord list" where
  "mock_listSpend keyIds g = map (\<lambda>k. (k, Some (nullish (mk_spend g k) (Fin 0)))) keyIds"

definition mock_usage :: GatewayUsageReport where
  "mock_usage = PaygLedger ''mock'' True [] []"

definition mock_readiness :: bool where
  "mock_readiness = True"

definition mock_adapter :: "MockState GatewayAdapter" where
  "mock_adapter =
     \<lparr>ga_issueKey = mock_issueKey, ga_syncKeyModels = mock_syncKeyModels,
      ga_revokeKey = mock_revokeKey, ga_listSpend = mock_listSpend\<rparr>"

text \<open>A key of the mock is live while its spend entry exists; model entries may outlive it.\<close>

definition mock_live :: "MockState \<Rightarrow> string set" where
  "mock_live g = dom (mk_spend g)"

interpretation mock: gateway_adapter mock_adapter mock_live
  by unfold_locales
    (auto simp: mock_adapter_def mock_live_def mock_issueKey_def mock_syncKeyModels_def mock_revokeKey_def)

subsection \<open>Report windows (gateway/usage.ts)\<close>

datatype UsageRange = R24h | R7d | R30d

record UsageWindow =
  uw_range :: UsageRange
  uw_from :: time
  uw_to :: time
  uw_bucketMs :: int
  uw_bucketCount :: nat
  uw_bucketUnit :: string

definition parseUsageRange :: "string option \<Rightarrow> UsageRange res" where
  "parseUsageRange value =
     (let rng = orStr (nullish value []) ''24h''
      in if rng = ''24h'' then Inr R24h else if rng = ''7d'' then Inr R7d
         else if rng = ''30d'' then Inr R30d
         else Inl (PlainError ''usage range must be one of: 24h, 7d, 30d''))"

abbreviation hourMs :: int where "hourMs \<equiv> 3600000"
abbreviation dayMs :: int where "dayMs \<equiv> 86400000"

text \<open>\<^verbatim>\<open>Date.UTC\<close> of the year, month, day and hour of \<^verbatim>\<open>now\<close> is \<^verbatim>\<open>now\<close> rounded down to the hour.\<close>

definition usageWindow :: "UsageRange \<Rightarrow> time \<Rightarrow> UsageWindow" where
  "usageWindow rng now =
     (if rng = R24h
      then let currentHour = now div hourMs * hourMs
           in \<lparr>uw_range = rng, uw_from = currentHour - 23 * hourMs, uw_to = currentHour + hourMs,
               uw_bucketMs = hourMs, uw_bucketCount = 24, uw_bucketUnit = ''hour''\<rparr>
      else let currentDay = now div dayMs * dayMs;
               bucketCount = (if rng = R7d then 7 else 30)
           in \<lparr>uw_range = rng, uw_from = currentDay - (int bucketCount - 1) * dayMs,
               uw_to = currentDay + dayMs, uw_bucketMs = dayMs, uw_bucketCount = bucketCount,
               uw_bucketUnit = ''day''\<rparr>)"

subsection \<open>LiteLLM requests and responses\<close>

datatype call_error = LiteLLMAdminHttpError string int | CallFailed string

definition liteLLMKeyDuration :: "time \<Rightarrow> time \<Rightarrow> string res" where
  "liteLLMKeyDuration expiresAt now =
     throwIf (expiresAt - now \<le> 0) (PlainError ''device-token expiry must be a future date'')
       (Inr (show_int (max 1 ((expiresAt - now) div 1000)) @ ''s''))"

definition budgetLimitJson :: "GatewayBudgetLimit \<Rightarrow> jsval" where
  "budgetLimitJson b =
     JObj [(''budget_duration'', JStr (duration_text (gl_budgetDuration b))),
           (''max_budget'', JNum (gl_maxBudgetUsd b))]"

definition liteLLMKeyIssuePayload :: "IssueOpts \<Rightarrow> time \<Rightarrow> jsval res" where
  "liteLLMKeyIssuePayload opts now =
     bindR (case io_expiresAt opts of
              None \<Rightarrow> Inr JNull
            | Some e \<Rightarrow> bindR (liteLLMKeyDuration e now) (\<lambda>d. Inr (JStr d))) (\<lambda>duration.
     Inr (JObj ([(''models'', JArr (map JStr (authorized_models (io_models opts) (io_model opts)))),
       (''key_alias'', JStr (io_alias opts)), (''duration'', duration), (''metadata'', io_metadata opts)] @
       (case io_limits opts of
          None \<Rightarrow> []
        | Some l \<Rightarrow>
            (if gk_budgetLimits l \<noteq> [] then [(''budget_limits'', JArr (map budgetLimitJson (gk_budgetLimits l)))] else []) @
            (case gk_rpmLimit l of None \<Rightarrow> [] | Some n \<Rightarrow> [(''rpm_limit'', JNum n)]) @
            (case gk_tpmLimit l of None \<Rightarrow> [] | Some n \<Rightarrow> [(''tpm_limit'', JNum n)])))))"

text \<open>A limit of the response, or of the request, as the text the two are compared by.\<close>

definition limit_text :: "string \<Rightarrow> number \<Rightarrow> string" where
  "limit_text duration maxBudget = duration @ '':'' @ show_number maxBudget"

definition response_limit_text :: "jsval \<Rightarrow> string option" where
  "response_limit_text entry =
     (let n = Number_js (prop_of entry ''max_budget'');
          d = (case prop_of entry ''budget_duration'' of JStr s \<Rightarrow> s | _ \<Rightarrow> [])
      in case entry of
           JObj _ \<Rightarrow> if isFinite n then Some (limit_text d n) else None
         | JArr _ \<Rightarrow> if isFinite n then Some (limit_text d n) else None
         | _ \<Rightarrow> None)"

definition liteLLMResponseConfirmsLimits :: "jsval \<Rightarrow> GatewayKeyLimits option \<Rightarrow> bool" where
  "liteLLMResponseConfirmsLimits response limits =
     (case limits of
        None \<Rightarrow> True
      | Some l \<Rightarrow>
          (case gk_rpmLimit l of None \<Rightarrow> True | Some n \<Rightarrow> num_eq (Number_js (prop_of response ''rpm_limit'')) n) \<and>
          (case gk_tpmLimit l of None \<Rightarrow> True | Some n \<Rightarrow> num_eq (Number_js (prop_of response ''tpm_limit'')) n) \<and>
          (gk_budgetLimits l = [] \<or>
           (case prop_of response ''budget_limits'' of
              JArr rows \<Rightarrow>
                length rows = length (gk_budgetLimits l) \<and>
                sort (List.map_filter response_limit_text rows) =
                sort (map (\<lambda>b. limit_text (duration_text (gl_budgetDuration b)) (gl_maxBudgetUsd b))
                       (gk_budgetLimits l))
            | _ \<Rightarrow> False)))"

definition isPositivePrice :: "jsval \<Rightarrow> bool" where
  "isPositivePrice v = (let price = Number_js v in isFinite price \<and> num_lt (Fin 0) price)"

definition is_object :: "jsval \<Rightarrow> bool" where
  "is_object v = (case v of JObj _ \<Rightarrow> True | JArr _ \<Rightarrow> True | _ \<Rightarrow> False)"

definition deployment_priced :: "jsval \<Rightarrow> bool" where
  "deployment_priced entry =
     (let info = prop_of entry ''model_info''
      in is_object info \<and> isPositivePrice (prop_of info ''input_cost_per_token'') \<and>
         isPositivePrice (prop_of info ''output_cost_per_token''))"

definition liteLLMModelsHavePositivePricing :: "jsval \<Rightarrow> string list \<Rightarrow> bool" where
  "liteLLMModelsHavePositivePricing response requiredModels =
     (case prop_of response ''data'' of
        JArr rows \<Rightarrow>
          requiredModels \<noteq> [] \<and>
          list_all (\<lambda>model.
            let deployments = filter (\<lambda>e. is_object e \<and> prop_of e ''model_name'' = JStr model) rows
            in deployments \<noteq> [] \<and> list_all deployment_priced deployments) (nub requiredModels)
      | _ \<Rightarrow> False)"

fun liteLLMModelPricingReady :: "(call_error + jsval) \<Rightarrow> string list \<Rightarrow> bool" where
  "liteLLMModelPricingReady (Inl _) requiredModels = False"
| "liteLLMModelPricingReady (Inr info) requiredModels = liteLLMModelsHavePositivePricing info requiredModels"

fun liteLLMKeyManagementReady :: "(call_error + jsval) \<Rightarrow> bool" where
  "liteLLMKeyManagementReady (Inl _) = False"
| "liteLLMKeyManagementReady (Inr _) = True"

definition normalizeLiteLLMSpendRows :: "string list \<Rightarrow> (jsval \<times> jsval) list \<Rightarrow> SpendRecord list" where
  "normalizeLiteLLMSpendRows keyIds rows =
     (let byAlias = foldl (\<lambda>m (k, s). case k of
             JStr key \<Rightarrow> if isFinite (Number_js s) then m(key \<mapsto> Number_js s) else m
           | _ \<Rightarrow> m) Map.empty rows
      in map (\<lambda>k. (k, byAlias k)) keyIds)"

text \<open>A row of the usage query: key, bucket time, model, spend, tokens, requests, last request.\<close>

type_synonym usage_row = "jsval \<times> time option \<times> jsval \<times> jsval \<times> jsval \<times> jsval \<times> time option"

definition normalizeLiteLLMUsageRows :: "usage_row list \<Rightarrow> GatewayUsageBucket list" where
  "normalizeLiteLLMUsageRows rows =
     List.map_filter (\<lambda>(k, bucketAt, model, spend, toks, reqs, lastAt).
       case (k, bucketAt, lastAt) of
         (JStr key, Some b, Some l) \<Rightarrow>
           if isFinite (Number_js spend) \<and> isFinite (Number_js toks) \<and> isFinite (Number_js reqs)
           then Some \<lparr>ub_keyId = key, ub_bucketAt = b,
                      ub_model = (case model of JStr m \<Rightarrow> m | _ \<Rightarrow> []), ub_spend = Number_js spend,
                      ub_totalTokens = Number_js toks, ub_requests = Number_js reqs, ub_lastRequestAt = l\<rparr>
           else None
       | _ \<Rightarrow> None) rows"

definition normalizeLiteLLMRollingRows :: "(jsval \<times> jsval \<times> jsval \<times> jsval) list \<Rightarrow> GatewayRollingSpend list" where
  "normalizeLiteLLMRollingRows rows =
     List.map_filter (\<lambda>(k, s5, s7, s30).
       case k of
         JStr key \<Rightarrow>
           if isFinite (Number_js s5) \<and> isFinite (Number_js s7) \<and> isFinite (Number_js s30)
           then Some \<lparr>rs_keyId = key, rs_spend5h = Number_js s5, rs_spend7d = Number_js s7,
                      rs_spend30d = Number_js s30\<rparr>
           else None
       | _ \<Rightarrow> None) rows"

subsection \<open>The LiteLLM adapter\<close>

text \<open>
  The proxy: \<^verbatim>\<open>ll_call\<close> posts to the admin API and may change its state, \<^verbatim>\<open>ll_get\<close> reads it,
  \<^verbatim>\<open>ll_tokens\<close> is the query of its verification-token table by alias (token and models of each row).
\<close>

record 'g LiteLLM =
  ll_call :: "string \<Rightarrow> jsval \<Rightarrow> 'g \<Rightarrow> 'g \<times> (call_error + jsval)"
  ll_get :: "string \<Rightarrow> 'g \<Rightarrow> call_error + jsval"
  ll_tokens :: "string \<Rightarrow> 'g \<Rightarrow> call_error + (jsval \<times> jsval) list"
  ll_spend :: "string list \<Rightarrow> 'g \<Rightarrow> call_error + (jsval \<times> jsval) list"
  ll_dateParse :: "string \<Rightarrow> time option"

definition call_error_text :: "call_error \<Rightarrow> string" where
  "call_error_text e =
     (case e of
        LiteLLMAdminHttpError endpoint st \<Rightarrow> ''LiteLLM '' @ endpoint @ '' -> HTTP '' @ show_int st
      | CallFailed m \<Rightarrow> m)"

abbreviation as_error :: "call_error \<Rightarrow> http_error" where
  "as_error e \<equiv> PlainError (call_error_text e)"

definition litellm_revokeKey :: "('g, 'x) LiteLLM_scheme \<Rightarrow> string \<Rightarrow> 'g \<Rightarrow> 'g \<times> unit res" where
  "litellm_revokeKey L keyId g =
     (case ll_call L ''/key/delete'' (JObj [(''key_aliases'', JArr [JStr keyId])]) g of
        (g', Inr _) \<Rightarrow> (g', Inr ())
      | (g', Inl e) \<Rightarrow>
          if e \<noteq> LiteLLMAdminHttpError ''/key/delete'' 404 then (g', Inl (as_error e))
          else (case ll_tokens L keyId g' of
                  Inl e' \<Rightarrow> (g', Inl (as_error e'))
                | Inr rows \<Rightarrow> (g', if rows \<noteq> [] then Inl (as_error e) else Inr ())))"

text \<open>Whether the expiry of the response is acceptable: null for a key that never expires, otherwise a
  date after the request and at most five seconds past the requested expiry.\<close>

definition expiryIsValid :: "(string \<Rightarrow> time option) \<Rightarrow> time \<Rightarrow> time option \<Rightarrow> jsval \<Rightarrow> bool" where
  "expiryIsValid dateParse startedAt expiresAt j =
     (case expiresAt of
        None \<Rightarrow> prop_of j ''expires'' = JNull
      | Some e \<Rightarrow>
          (case prop_of j ''expires'' of
             JStr s \<Rightarrow> (case dateParse s of Some t \<Rightarrow> startedAt < t \<and> t \<le> e + 5000 | None \<Rightarrow> False)
           | _ \<Rightarrow> False))"

definition gatewayExpiry :: "(string \<Rightarrow> time option) \<Rightarrow> jsval \<Rightarrow> time option" where
  "gatewayExpiry dateParse j = (case prop_of j ''expires'' of JStr s \<Rightarrow> dateParse s | _ \<Rightarrow> None)"

definition litellm_issueKey ::
  "('g, 'x) LiteLLM_scheme \<Rightarrow> time \<Rightarrow> IssueOpts \<Rightarrow> 'g \<Rightarrow> 'g \<times> IssuedKey res" where
  "litellm_issueKey L startedAt opts g =
     (let models = authorized_models (io_models opts) (io_model opts);
          budgeted = (case io_limits opts of None \<Rightarrow> False | Some l \<Rightarrow> gk_budgetLimits l \<noteq> [])
      in if budgeted \<and> \<not> liteLLMModelPricingReady (ll_get L ''/model/info'' g) models
         then (g, Inl (PlainError ''LiteLLM model pricing is unavailable; refusing to issue an unenforceable USD budget''))
         else (case liteLLMKeyIssuePayload (opts\<lparr>io_models := Some models\<rparr>) startedAt of
                 Inl e \<Rightarrow> (fst (litellm_revokeKey L (io_alias opts) g), Inl e)
               | Inr body \<Rightarrow>
                   (case ll_call L ''/key/generate'' body g of
                      (g1, Inl e) \<Rightarrow> (fst (litellm_revokeKey L (io_alias opts) g1), Inl (as_error e))
                    | (g1, Inr j) \<Rightarrow>
                        let key = (case prop_of j ''key'' of JStr s \<Rightarrow> s | _ \<Rightarrow> [])
                        in if j = JNull then (g1, Inl (PlainError ''Cannot read properties of null (reading 'key')''))
                           else if key = [] \<or> \<not> expiryIsValid (ll_dateParse L) startedAt (io_expiresAt opts) j \<or>
                              \<not> liteLLMResponseConfirmsLimits j (io_limits opts)
                           then (fst (litellm_revokeKey L (io_alias opts) g1),
                                 Inl (PlainError ''LiteLLM returned an invalid or unenforced key-policy response''))
                           else (g1, Inr \<lparr>ik_key = key, ik_keyId = io_alias opts,
                                  ik_expiresAt = gatewayExpiry (ll_dateParse L) j\<rparr>))))"

definition is_token_hash :: "string \<Rightarrow> bool" where
  "is_token_hash s \<longleftrightarrow> length s = 64 \<and> list_all (\<lambda>c. hex_digit c < 16) s"

text \<open>\<^verbatim>\<open>readKey\<close> of \<^verbatim>\<open>syncKeyModels\<close>.\<close>

definition readKey :: "('g, 'x) LiteLLM_scheme \<Rightarrow> string \<Rightarrow> 'g \<Rightarrow> (string \<times> string list) res" where
  "readKey L keyId g =
     (case ll_tokens L keyId g of
        Inl e \<Rightarrow> Inl (as_error e)
      | Inr [(tok, ms)] \<Rightarrow>
          (case tok of
             JStr t \<Rightarrow>
               throwIf (\<not> is_token_hash t) (PlainError ''LiteLLM device key identifier is invalid'')
                 (case ms of
                    JArr vs \<Rightarrow>
                      throwIf (\<not> list_all (\<lambda>v. case v of JStr _ \<Rightarrow> True | _ \<Rightarrow> False) vs)
                        (PlainError ''LiteLLM device key model policy is invalid'')
                        (Inr (t, nub (map (\<lambda>v. case v of JStr s \<Rightarrow> s | _ \<Rightarrow> []) vs)))
                  | _ \<Rightarrow> Inl (PlainError ''LiteLLM device key model policy is invalid''))
           | _ \<Rightarrow> Inl (PlainError ''LiteLLM device key identifier is invalid''))
      | Inr _ \<Rightarrow> Inl (PlainError ''LiteLLM device key was not found by its private alias''))"

definition same_models :: "string list \<Rightarrow> string list \<Rightarrow> bool" where
  "same_models current desired \<longleftrightarrow> length current = length desired \<and> list_all (\<lambda>m. m \<in> set current) desired"

definition litellm_syncKeyModels ::
  "('g, 'x) LiteLLM_scheme \<Rightarrow> string \<Rightarrow> string list \<Rightarrow> 'g \<Rightarrow> 'g \<times> string list res" where
  "litellm_syncKeyModels L keyId models g =
     (let desired = nub models
      in if desired = [] then (g, Inl (PlainError ''managed device key must authorize at least one model''))
         else (case readKey L keyId g of
                 Inl e \<Rightarrow> (g, Inl e)
               | Inr (token, current) \<Rightarrow>
                   if same_models current desired then (g, Inr desired)
                   else if \<not> liteLLMModelPricingReady (ll_get L ''/model/info'' g) desired
                   then (g, Inl (PlainError ''LiteLLM model pricing is unavailable; refusing to expand a budgeted device key''))
                   else (case ll_call L ''/key/update'' (JObj [(''key'', JStr token), (''models'', JArr (map JStr desired))]) g of
                           (g1, Inl e) \<Rightarrow> (g1, Inl (as_error e))
                         | (g1, Inr _) \<Rightarrow>
                             (case readKey L keyId g1 of
                                Inl e \<Rightarrow> (g1, Inl e)
                              | Inr (_, updated) \<Rightarrow>
                                  (g1, if same_models updated desired then Inr desired
                                       else Inl (PlainError ''LiteLLM did not apply the requested device key model policy''))))))"

definition litellm_listSpend :: "('g, 'x) LiteLLM_scheme \<Rightarrow> string list \<Rightarrow> 'g \<Rightarrow> SpendRecord list" where
  "litellm_listSpend L keyIds g =
     (if keyIds = [] then []
      else case ll_spend L keyIds g of
             Inl _ \<Rightarrow> map (\<lambda>k. (k, None)) keyIds
           | Inr rows \<Rightarrow> normalizeLiteLLMSpendRows keyIds rows)"

text \<open>
  The usage report. \<^verbatim>\<open>bucketQuery\<close> and \<^verbatim>\<open>rollingQuery\<close> are the two SQL queries as functions of what the code
  binds into them (key aliases, bucket unit, boundaries as ISO instants); either failing makes the
  ledger unavailable.
\<close>

definition liteLLMUtcTimestamp :: "time \<Rightarrow> string" where
  "liteLLMUtcTimestamp t = toISOString t"

definition litellm_usage ::
  "(string list \<Rightarrow> string \<Rightarrow> string \<Rightarrow> string \<Rightarrow> call_error + usage_row list) \<Rightarrow>
   (string list \<Rightarrow> string \<Rightarrow> string \<Rightarrow> string \<Rightarrow> string \<Rightarrow>
      call_error + (jsval \<times> jsval \<times> jsval \<times> jsval) list) \<Rightarrow>
   string list \<Rightarrow> UsageRange \<Rightarrow> time \<Rightarrow> GatewayUsageReport" where
  "litellm_usage bucketQuery rollingQuery keyIds rng now =
     (if keyIds = [] then PaygLedger ''litellm'' True [] []
      else let window = usageWindow rng now;
               fiveHoursAgo = now - 5 * hourMs; sevenDaysAgo = now - 7 * dayMs;
               thirtyDaysAgo = now - 30 * dayMs;
               fromUtc = liteLLMUtcTimestamp (uw_from window); toUtc = liteLLMUtcTimestamp (uw_to window)
           in case (bucketQuery keyIds (uw_bucketUnit window) fromUtc toUtc,
                    rollingQuery keyIds (liteLLMUtcTimestamp fiveHoursAgo) (liteLLMUtcTimestamp sevenDaysAgo)
                      (liteLLMUtcTimestamp thirtyDaysAgo) toUtc) of
                (Inr bs, Inr rs) \<Rightarrow>
                  PaygLedger ''litellm'' True (normalizeLiteLLMUsageRows bs) (normalizeLiteLLMRollingRows rs)
              | _ \<Rightarrow> PaygLedger ''litellm'' False [] [])"

text \<open>\<^verbatim>\<open>live\<close> and \<^verbatim>\<open>schema\<close> are the outcomes of the liveliness probe and of the spend-schema query.\<close>

definition litellm_readiness ::
  "('g, 'x) LiteLLM_scheme \<Rightarrow> env \<Rightarrow> call_error + bool \<Rightarrow> bool \<Rightarrow> 'g \<Rightarrow> bool" where
  "litellm_readiness L env alive schema g =
     (case alive of
        Inl _ \<Rightarrow> False
      | Inr ok \<Rightarrow>
          ok \<and>
          (case allowedManagedModels env of
             Inl _ \<Rightarrow> False
           | Inr models \<Rightarrow>
               liteLLMKeyManagementReady (ll_get L ''/key/list?page=1&size=1'' g) \<and> schema \<and>
               liteLLMModelPricingReady (ll_get L ''/model/info'' g) models))"

definition litellm_adapter :: "('g, 'x) LiteLLM_scheme \<Rightarrow> time \<Rightarrow> 'g GatewayAdapter" where
  "litellm_adapter L startedAt =
     \<lparr>ga_issueKey = litellm_issueKey L startedAt, ga_syncKeyModels = litellm_syncKeyModels L,
      ga_revokeKey = litellm_revokeKey L, ga_listSpend = litellm_listSpend L\<rparr>"

subsection \<open>Windows are aligned and cover the present\<close>

text \<open>
  For every range and instant the report window is a whole number of UTC-aligned buckets,
  as many as announced, and the present lies in the last one.
\<close>

theorem usage_window_aligned:
  "let w = usageWindow rng now in
     uw_to w = uw_from w + int (uw_bucketCount w) * uw_bucketMs w \<and>
     uw_bucketMs w dvd uw_from w \<and>
     uw_to w - uw_bucketMs w \<le> now \<and> now < uw_to w"
proof -
  have "now div m * m \<le> now \<and> now < now div m * m + m" if "0 < m" for m :: int
    using that pos_mod_bound [of m now] pos_mod_sign [of m now] div_mult_mod_eq [of now m] by linarith
  note below = this [of hourMs] this [of dayMs]
  show ?thesis
    using below by (cases rng) (simp_all add: usageWindow_def Let_def dvd_diff)
qed

subsection \<open>Spend is never invented\<close>

lemma spend_fold_finite:
  assumes "\<forall>v \<in> ran m0. isFinite v"
    "foldl (\<lambda>m (k, s). case k of
             JStr key \<Rightarrow> if isFinite (Number_js s) then m(key \<mapsto> Number_js s) else m
           | _ \<Rightarrow> m) m0 rows k = Some v"
  shows "m0 k = Some v \<or> (\<exists>s. (JStr k, s) \<in> set rows \<and> v = Number_js s \<and> isFinite v)"
  using assms
proof (induction rows arbitrary: m0)
  case (Cons r rows)
  obtain a s where r: "r = (a, s)" by fastforce
  let ?m = "case a of JStr key \<Rightarrow> if isFinite (Number_js s) then m0(key \<mapsto> Number_js s) else m0 | _ \<Rightarrow> m0"
  have "\<forall>v \<in> ran ?m. isFinite v"
    using Cons.prems(1) by (auto simp: ran_def split: jsval.splits if_splits)
  from Cons.IH [OF this] Cons.prems(2) have
    "?m k = Some v \<or> (\<exists>s. (JStr k, s) \<in> set rows \<and> v = Number_js s \<and> isFinite v)"
    by (simp add: r)
  then show ?case
    using r by (auto split: jsval.splits if_splits)
qed simp

text \<open>
  Spend look-ups answer every key asked for, in order; the answer is null for all when the
  ledger query fails, and any number given is a finite value of a row returned for that very key.
\<close>

theorem listed_spend_is_recorded:
  "map fst (litellm_listSpend L keyIds g) = keyIds \<and>
   ((\<exists>e. ll_spend L keyIds g = Inl e) \<longrightarrow> (\<forall>r \<in> set (litellm_listSpend L keyIds g). snd r = None)) \<and>
   (\<forall>k v. (k, Some v) \<in> set (litellm_listSpend L keyIds g) \<longrightarrow>
      (\<exists>rows s. ll_spend L keyIds g = Inr rows \<and> (JStr k, s) \<in> set rows \<and> v = Number_js s \<and> isFinite v))"
proof (cases "keyIds = [] \<or> (\<exists>e. ll_spend L keyIds g = Inl e)")
  case True
  then show ?thesis by (auto simp: litellm_listSpend_def o_def)
next
  case False
  then obtain rows where rows: "ll_spend L keyIds g = Inr rows" "keyIds \<noteq> []" by (meson sumE)
  then have eq: "litellm_listSpend L keyIds g = normalizeLiteLLMSpendRows keyIds rows"
    by (simp add: litellm_listSpend_def)
  have "map fst (normalizeLiteLLMSpendRows keyIds rows) = keyIds"
    by (simp add: normalizeLiteLLMSpendRows_def Let_def o_def)
  moreover have "\<exists>s. (JStr k, s) \<in> set rows \<and> v = Number_js s \<and> isFinite v"
    if "(k, Some v) \<in> set (normalizeLiteLLMSpendRows keyIds rows)" for k v
    using that spend_fold_finite [of Map.empty rows k v]
    by (auto simp: normalizeLiteLLMSpendRows_def Let_def)
  ultimately show ?thesis unfolding eq using rows by simp
qed

subsection \<open>An issued key carries the policy\<close>

text \<open>\<^verbatim>\<open>confirmed\<close> states what a confirming response says, limit by limit.\<close>

definition confirmed :: "jsval \<Rightarrow> GatewayKeyLimits \<Rightarrow> bool" where
  "confirmed j l \<longleftrightarrow>
     (\<forall>n. gk_rpmLimit l = Some n \<longrightarrow> Number_js (prop_of j ''rpm_limit'') = n) \<and>
     (\<forall>n. gk_tpmLimit l = Some n \<longrightarrow> Number_js (prop_of j ''tpm_limit'') = n) \<and>
     (gk_budgetLimits l \<noteq> [] \<longrightarrow>
       (\<exists>rows. prop_of j ''budget_limits'' = JArr rows \<and>
          mset (map response_limit_text rows) =
          mset (map (\<lambda>b. Some (limit_text (duration_text (gl_budgetDuration b)) (gl_maxBudgetUsd b)))
                  (gk_budgetLimits l))))"

lemma map_filter_full:
  assumes "length (List.map_filter f xs) = length xs"
  shows "map f xs = map Some (List.map_filter f xs)"
  using assms
proof (induction xs)
  case (Cons x xs)
  have "length (List.map_filter f xs) \<le> length xs" by (induction xs) (auto simp: map_filter_simps split: option.splits)
  with Cons show ?case by (auto simp: map_filter_simps split: option.splits)
qed simp

lemma confirms_confirmed:
  assumes "liteLLMResponseConfirmsLimits j (Some l)"
  shows "confirmed j l"
proof -
  let ?texts = "map (\<lambda>b. limit_text (duration_text (gl_budgetDuration b)) (gl_maxBudgetUsd b)) (gk_budgetLimits l)"
  have budgets: "\<exists>rows. prop_of j ''budget_limits'' = JArr rows \<and>
      mset (map response_limit_text rows) = mset (map Some ?texts)" if "gk_budgetLimits l \<noteq> []"
  proof -
    from assms that obtain rows where rows: "prop_of j ''budget_limits'' = JArr rows"
      "length rows = length ?texts" "sort (List.map_filter response_limit_text rows) = sort ?texts"
      by (auto simp: liteLLMResponseConfirmsLimits_def split: jsval.splits)
    have m: "mset (List.map_filter response_limit_text rows) = mset ?texts"
      using arg_cong [OF rows(3), of mset] by (simp only: mset_sort)
    have "length (List.map_filter response_limit_text rows) = length rows"
      using arg_cong [OF m, of size] rows(2) by (simp only: size_mset)
    from map_filter_full [OF this] have "mset (map response_limit_text rows) = mset (map Some ?texts)"
      using m by (simp only: mset_map)
    with rows(1) show ?thesis by blast
  qed
  have "\<forall>n. gk_rpmLimit l = Some n \<longrightarrow> Number_js (prop_of j ''rpm_limit'') = n"
    "\<forall>n. gk_tpmLimit l = Some n \<longrightarrow> Number_js (prop_of j ''tpm_limit'') = n"
    using assms by (simp_all add: liteLLMResponseConfirmsLimits_def num_eq_def split: option.splits)
  with budgets show ?thesis
    unfolding confirmed_def map_map o_def by blast
qed

text \<open>
  Property C16. When the LiteLLM adapter reports an issued key, the proxy was asked for exactly the
  authorised models under the device's alias, its answer holds a nonempty key, an expiry that is null
  exactly for a non-expiring request and otherwise lies after the request and at most five seconds past
  the requested instant, and confirms every requested limit; a budgeted key has only priced models.
\<close>

theorem issued_key_carries_policy:
  assumes "litellm_issueKey L startedAt opts g = (g', Inr k)"
  shows "\<exists>body j.
    liteLLMKeyIssuePayload (opts\<lparr>io_models := Some (authorized_models (io_models opts) (io_model opts))\<rparr>) startedAt = Inr body \<and>
    ll_call L ''/key/generate'' body g = (g', Inr j) \<and>
    prop_of body ''key_alias'' = JStr (io_alias opts) \<and>
    prop_of j ''key'' = JStr (ik_key k) \<and> ik_key k \<noteq> [] \<and> ik_keyId k = io_alias opts \<and>
    (case io_expiresAt opts of
       None \<Rightarrow> ik_expiresAt k = None
     | Some e \<Rightarrow> \<exists>t. ik_expiresAt k = Some t \<and> startedAt < t \<and> t \<le> e + 5000) \<and>
    (\<forall>l. io_limits opts = Some l \<longrightarrow> confirmed j l \<and>
       (gk_budgetLimits l \<noteq> [] \<longrightarrow> (\<exists>info. ll_get L ''/model/info'' g = Inr info \<and>
          liteLLMModelsHavePositivePricing info (authorized_models (io_models opts) (io_model opts)))))"
proof -
  let ?models = "authorized_models (io_models opts) (io_model opts)"
  let ?opts = "opts\<lparr>io_models := Some ?models\<rparr>"
  obtain body where body: "liteLLMKeyIssuePayload ?opts startedAt = Inr body"
    using assms by (auto simp: litellm_issueKey_def Let_def split: if_splits sum.splits)
  obtain g1 r where call: "ll_call L ''/key/generate'' body g = (g1, r)" by fastforce
  have named: "prop_of body ''key_alias'' = JStr (io_alias opts)"
    using body by (auto simp: liteLLMKeyIssuePayload_def prop_of_def bindR_eq_Inr split: option.splits)
  obtain j where j: "r = Inr j" "g1 = g'" "j \<noteq> JNull"
      "expiryIsValid (ll_dateParse L) startedAt (io_expiresAt opts) j"
      "liteLLMResponseConfirmsLimits j (io_limits opts)"
      "prop_of j ''key'' = JStr (ik_key k)" "ik_key k \<noteq> []" "ik_keyId k = io_alias opts"
      "ik_expiresAt k = gatewayExpiry (ll_dateParse L) j"
    using assms body call
    by (auto simp: litellm_issueKey_def Let_def split: if_splits sum.splits jsval.splits)
  have expiry: "case io_expiresAt opts of
       None \<Rightarrow> ik_expiresAt k = None
     | Some e \<Rightarrow> \<exists>t. ik_expiresAt k = Some t \<and> startedAt < t \<and> t \<le> e + 5000"
    using j(4,9) by (auto simp: expiryIsValid_def gatewayExpiry_def split: option.splits jsval.splits)
  have priced: "\<exists>info. ll_get L ''/model/info'' g = Inr info \<and> liteLLMModelsHavePositivePricing info ?models"
    if "io_limits opts = Some l" "gk_budgetLimits l \<noteq> []" for l
  proof -
    from assms that have "liteLLMModelPricingReady (ll_get L ''/model/info'' g) ?models"
      by (auto simp: litellm_issueKey_def Let_def split: if_splits)
    then show ?thesis by (cases "ll_get L ''/model/info'' g") auto
  qed
  show ?thesis
    using body call named j expiry priced confirms_confirmed by (auto intro!: exI [of _ body] exI [of _ j])
qed

subsection \<open>LiteLLM implements the contract\<close>

text \<open>
  What the adapter relies on of the proxy: generating a key makes its alias live and a failed
  generation touches no other alias; deleting by alias removes that alias (a failed delete may or may
  not have) and no other; updating a key creates and removes none; the verification-token table has a
  row for an alias exactly while it is live.
\<close>

definition litellm_documented :: "('g, 'x) LiteLLM_scheme \<Rightarrow> ('g \<Rightarrow> string set) \<Rightarrow> bool" where
  "litellm_documented L live \<longleftrightarrow>
     (\<forall>body a g g' j. prop_of body ''key_alias'' = JStr a \<longrightarrow> ll_call L ''/key/generate'' body g = (g', Inr j) \<longrightarrow>
        live g' = insert a (live g)) \<and>
     (\<forall>body a g g' e. prop_of body ''key_alias'' = JStr a \<longrightarrow> ll_call L ''/key/generate'' body g = (g', Inl e) \<longrightarrow>
        live g' - {a} = live g - {a}) \<and>
     (\<forall>a g g' j. ll_call L ''/key/delete'' (JObj [(''key_aliases'', JArr [JStr a])]) g = (g', Inr j) \<longrightarrow>
        live g' = live g - {a}) \<and>
     (\<forall>a g g' e. ll_call L ''/key/delete'' (JObj [(''key_aliases'', JArr [JStr a])]) g = (g', Inl e) \<longrightarrow>
        live g - {a} \<subseteq> live g' \<and> live g' \<subseteq> live g) \<and>
     (\<forall>body g g' r. ll_call L ''/key/update'' body g = (g', r) \<longrightarrow> live g' = live g) \<and>
     (\<forall>a g rows. ll_tokens L a g = Inr rows \<longrightarrow> (rows \<noteq> [] \<longleftrightarrow> a \<in> live g))"

lemma payload_alias: "liteLLMKeyIssuePayload opts now = Inr body \<Longrightarrow> prop_of body ''key_alias'' = JStr (io_alias opts)"
  by (auto simp: liteLLMKeyIssuePayload_def prop_of_def bindR_eq_Inr split: option.splits)

lemma litellm_revoke_live:
  assumes L: "litellm_documented L live" and r: "litellm_revokeKey L a g = (g', r)"
  shows "live g - {a} \<subseteq> live g' \<and> live g' \<subseteq> live g \<and> (r = Inr () \<longrightarrow> a \<notin> live g')"
proof -
  obtain g1 x where call: "ll_call L ''/key/delete'' (JObj [(''key_aliases'', JArr [JStr a])]) g = (g1, x)" by fastforce
  show ?thesis
  proof (cases x)
    case (Inr j)
    with L call have "live g1 = live g - {a}" unfolding litellm_documented_def by blast
    with r call Inr show ?thesis by (auto simp: litellm_revokeKey_def)
  next
    case (Inl e)
    with L call have sub: "live g - {a} \<subseteq> live g1 \<and> live g1 \<subseteq> live g"
      unfolding litellm_documented_def by blast
    have rows: "ll_tokens L a g1 = Inr rows \<Longrightarrow> (rows \<noteq> [] \<longleftrightarrow> a \<in> live g1)" for rows
      using L unfolding litellm_documented_def by blast
    from r call Inl sub rows show ?thesis
      by (auto simp: litellm_revokeKey_def split: if_splits sum.splits)
  qed
qed

lemma documented_generate:
  assumes "litellm_documented L live" "prop_of body ''key_alias'' = JStr a"
  shows "ll_call L ''/key/generate'' body g = (g', Inr j) \<Longrightarrow> live g' = insert a (live g)"
    "ll_call L ''/key/generate'' body g = (g', Inl e) \<Longrightarrow> live g' - {a} = live g - {a}"
  using assms unfolding litellm_documented_def by (elim conjE; metis)+

lemma litellm_issue_outcome:
  assumes "litellm_issueKey L t opts g = (g', r)"
  defines "opts' \<equiv> opts\<lparr>io_models := Some (authorized_models (io_models opts) (io_model opts))\<rparr>"
  shows "(\<exists>e. r = Inl e) \<and> (g' = g \<or> g' = fst (litellm_revokeKey L (io_alias opts) g)) \<or>
    (\<exists>body g1 x. liteLLMKeyIssuePayload opts' t = Inr body \<and> ll_call L ''/key/generate'' body g = (g1, x) \<and>
       ((\<exists>e. r = Inl e) \<and> (g' = g1 \<or> g' = fst (litellm_revokeKey L (io_alias opts) g1)) \<or>
        (\<exists>j k. x = Inr j \<and> r = Inr k \<and> g' = g1 \<and> ik_keyId k = io_alias opts)))"
proof (cases "liteLLMKeyIssuePayload opts' t")
  case (Inl e)
  with assms(1) show ?thesis by (auto simp: litellm_issueKey_def Let_def opts'_def split: if_splits)
next
  case (Inr body)
  obtain g1 x where "ll_call L ''/key/generate'' body g = (g1, x)" by fastforce
  with assms(1) Inr show ?thesis
    by (cases x) (auto simp: litellm_issueKey_def Let_def opts'_def split: if_splits)
qed

lemma litellm_issue_live:
  assumes L: "litellm_documented L live" and r: "litellm_issueKey L t opts g = (g', r)"
  shows "live g' - {io_alias opts} = live g - {io_alias opts}"
    "r = Inr k \<Longrightarrow> ik_keyId k = io_alias opts \<and> live g' = insert (io_alias opts) (live g)"
proof -
  let ?a = "io_alias opts"
  let ?opts = "opts\<lparr>io_models := Some (authorized_models (io_models opts) (io_model opts))\<rparr>"
  have revoked: "live (fst (litellm_revokeKey L ?a h)) - {?a} = live h - {?a}" for h
    using litellm_revoke_live [OF L, of ?a h "fst (litellm_revokeKey L ?a h)" "snd (litellm_revokeKey L ?a h)"] by auto
  have generated: "live g1 - {?a} = live g - {?a} \<and> (\<forall>j. x = Inr j \<longrightarrow> live g1 = insert ?a (live g))"
    if "liteLLMKeyIssuePayload ?opts t = Inr body" "ll_call L ''/key/generate'' body g = (g1, x)" for body g1 x
  proof -
    have "prop_of body ''key_alias'' = JStr ?a" using payload_alias [OF that(1)] by simp
    with documented_generate [OF L this] that(2) show ?thesis by (cases x) auto
  qed
  from litellm_issue_outcome [OF r] consider
      (early) "\<exists>e. r = Inl e" "g' = g \<or> g' = fst (litellm_revokeKey L ?a g)"
    | (late) body g1 x where "liteLLMKeyIssuePayload ?opts t = Inr body"
        "ll_call L ''/key/generate'' body g = (g1, x)" "\<exists>e. r = Inl e"
        "g' = g1 \<or> g' = fst (litellm_revokeKey L ?a g1)"
    | (issued) body j k where "liteLLMKeyIssuePayload ?opts t = Inr body"
        "ll_call L ''/key/generate'' body g = (g', Inr j)" "r = Inr k" "ik_keyId k = ?a"
    by blast
  note outcomes = this
  show "live g' - {?a} = live g - {?a}"
  proof (cases rule: outcomes)
    case early
    then show ?thesis using revoked [of g] by metis
  next
    case late
    then show ?thesis using revoked [of g1] generated [OF late(1,2)] by metis
  next
    case issued
    then show ?thesis using generated [OF issued(1,2)] by metis
  qed
  show "ik_keyId k = ?a \<and> live g' = insert ?a (live g)" if "r = Inr k"
    using that
  proof (cases rule: outcomes)
    case issued
    then show ?thesis using that generated [OF issued(1,2)] by simp
  qed auto
qed

lemma litellm_sync_live:
  assumes L: "litellm_documented L live" and r: "litellm_syncKeyModels L a ms g = (g', r)"
  shows "live g' = live g"
proof -
  have "ll_call L ''/key/update'' body g = (g1, x) \<Longrightarrow> live g1 = live g" for body g1 x
    using L unfolding litellm_documented_def by blast
  with r show ?thesis
    by (auto simp: litellm_syncKeyModels_def Let_def split: if_splits sum.splits prod.splits)
qed

text \<open>
  Over a proxy with the documented behaviour the LiteLLM adapter satisfies the adapter
  contract: after a reported issue the device's alias is live, after a reported revocation it is dead
  (also when the proxy answers 404 and the table decides), and neither touches another device's key.
\<close>

theorem litellm_implements_contract:
  assumes "litellm_documented L live"
  shows "gateway_adapter (litellm_adapter L startedAt) live"
proof unfold_locales
  fix opts g g' k e i ms r
  show "ga_issueKey (litellm_adapter L startedAt) opts g = (g', Inr k) \<Longrightarrow>
      ik_keyId k = io_alias opts \<and> live g' = insert (io_alias opts) (live g)"
    using litellm_issue_live(2) [OF assms] by (simp add: litellm_adapter_def)
  show "ga_issueKey (litellm_adapter L startedAt) opts g = (g', Inl e) \<Longrightarrow>
      live g' - {io_alias opts} = live g - {io_alias opts}"
    using litellm_issue_live(1) [OF assms] by (simp add: litellm_adapter_def)
  show "ga_revokeKey (litellm_adapter L startedAt) i g = (g', Inr ()) \<Longrightarrow> live g' = live g - {i}"
    using litellm_revoke_live [OF assms, of i g g' "Inr ()"] by (auto simp: litellm_adapter_def)
  show "ga_revokeKey (litellm_adapter L startedAt) i g = (g', Inl e) \<Longrightarrow> live g - {i} \<subseteq> live g' \<and> live g' \<subseteq> live g"
    using litellm_revoke_live [OF assms, of i g g' "Inl e"] by (auto simp: litellm_adapter_def)
  show "ga_syncKeyModels (litellm_adapter L startedAt) i ms g = (g', r) \<Longrightarrow> live g' = live g"
    using litellm_sync_live [OF assms] by (simp add: litellm_adapter_def)
qed

subsection \<open>Witnesses\<close>

text \<open>A proxy that keeps a set of aliases and answers as LiteLLM does for a key that never expires.\<close>

definition sample_call :: "string \<Rightarrow> jsval \<Rightarrow> string set \<Rightarrow> string set \<times> (call_error + jsval)" where
  "sample_call path body g =
     (if path = ''/key/generate''
      then (case prop_of body ''key_alias'' of
              JStr a \<Rightarrow> (insert a g, Inr (JObj [(''key'', JStr ''sk-1''), (''expires'', JNull)]))
            | _ \<Rightarrow> (g, Inl (LiteLLMAdminHttpError path 400)))
      else if path = ''/key/delete''
      then (case prop_of body ''key_aliases'' of
              JArr [JStr a] \<Rightarrow> if a \<in> g then (g - {a}, Inr (JObj [])) else (g, Inl (LiteLLMAdminHttpError path 404))
            | _ \<Rightarrow> (g, Inl (LiteLLMAdminHttpError path 400)))
      else (g, Inr (JObj [])))"

definition sample_proxy :: "string set LiteLLM" where
  "sample_proxy =
     \<lparr>ll_call = sample_call, ll_get = (\<lambda>_ _. Inr (JObj [])),
      ll_tokens = (\<lambda>a g. Inr (if a \<in> g then [(JStr ''t'', JArr [])] else [])),
      ll_spend = (\<lambda>ks _. Inr [(JStr (hd ks), JNum (Fin 2))]), ll_dateParse = (\<lambda>_. None)\<rparr>"

lemma sample_proxy_documented: "litellm_documented sample_proxy id"
  by (auto simp: litellm_documented_def sample_proxy_def sample_call_def prop_of_def
      split: if_splits jsval.splits option.splits list.splits)

definition sample_opts :: IssueOpts where
  "sample_opts =
     \<lparr>io_model = ''deepseek-v4-pro'', io_models = None, io_alias = ''dev-1'', io_expiresAt = None,
      io_metadata = JObj [], io_limits = None\<rparr>"

lemma sample_issue:
  "litellm_issueKey sample_proxy 0 sample_opts {} =
     ({''dev-1''}, Inr \<lparr>ik_key = ''sk-1'', ik_keyId = ''dev-1'', ik_expiresAt = None\<rparr>)"
  by (simp add: litellm_issueKey_def sample_opts_def sample_proxy_def liteLLMKeyIssuePayload_def bindR_def
      sample_call_def prop_of_def expiryIsValid_def gatewayExpiry_def liteLLMResponseConfirmsLimits_def)

theorem listed_spend_is_recorded_witness:
  "map fst (litellm_listSpend sample_proxy [''dev-1''] {}) = [''dev-1'']"
  using listed_spend_is_recorded [of sample_proxy "[''dev-1'']" "{}"] by blast

theorem issued_key_carries_policy_witness:
  "\<exists>body j. ll_call sample_proxy ''/key/generate'' body {} = ({''dev-1''}, Inr j) \<and>
     prop_of body ''key_alias'' = JStr ''dev-1''"
  using issued_key_carries_policy [OF sample_issue] by (auto simp: sample_opts_def)

theorem litellm_implements_contract_witness:
  "gateway_adapter (litellm_adapter sample_proxy 0) id"
  using litellm_implements_contract [OF sample_proxy_documented] .

end
