(* ===== verification/Store.thy ===== *)
theory Store
  imports Gateway AuditLog OrgTree TokenDiscipline
begin

section \<open>The database and the handlers' effects\<close>

text \<open>
  The tables the enrollment, administration and service-binding handlers read and write
  (prisma/schema.prisma) with the state of the two remote services, and the effect type of a handler: it
  maps a world to a world and a result or an exception, and an exception keeps the effects so far.
  Every awaited database statement can fail: \<^verbatim>\<open>w_script\<close> says what the database does with the next statements
  (an exception with its message, or success when the entry is None or the script is used up). A failed statement has no
  effect. The rules of \<^verbatim>\<open>hoare\<close> carry the handler proofs.
\<close>

subsection \<open>Rows\<close>

record Person =
  pe_id :: string
  pe_orgId :: string
  pe_name :: string
  pe_email :: string

record EnrollCode =
  ec_id :: string
  ec_orgId :: string
  ec_code :: string
  ec_model :: string
  ec_reasoningEffort :: string
  ec_baseUrl :: "string option"
  ec_expiresAt :: time
  ec_usedAt :: "time option"
  ec_policy :: StoredPolicyColumns
  ec_personId :: "string option"

record Device =
  dv_id :: string
  dv_orgId :: string
  dv_name :: string
  dv_os :: string
  dv_haraVersion :: string
  dv_enrolledAt :: time
  dv_lastSeenAt :: time
  dv_revocationRequestedAt :: "time option"
  dv_revocationCompletedAt :: "time option"
  dv_deskProvisionedAt :: "time option"
  dv_deskCleanupPendingAt :: "time option"
  dv_deskOwner :: "string option"
  dv_deskOrigin :: "string option"
  dv_enrollCodeId :: "string option"
  dv_personId :: "string option"

record DeviceToken =
  dt_id :: string
  dt_deviceId :: string
  dt_tokenHash :: string
  dt_gatewayKeyId :: string
  dt_model :: string
  dt_reasoningEffort :: string
  dt_createdAt :: time
  dt_expiresAt :: "time option"
  dt_revokedAt :: "time option"
  dt_budgetLimits :: jsval
  dt_rpmLimit :: "number option"
  dt_tpmLimit :: "number option"

datatype TenantServiceKind = MODEL_CONTROL | DESK_TASKS | COLLAB | EXTENSION_CATALOG
datatype TenantServiceMode = HARA_HOSTED | CUSTOMER_HOSTED
datatype TenantServiceRegion = CN | GLOBAL
datatype TenantServiceStatus = PENDING_VERIFICATION | ACTIVE | DEGRADED | DISABLED

record TenantServiceBinding =
  sb_id :: string
  sb_orgId :: string
  sb_service :: TenantServiceKind
  sb_mode :: TenantServiceMode
  sb_accountRegion :: TenantServiceRegion
  sb_apiOrigin :: string
  sb_issuer :: "string option"
  sb_jwksUri :: "string option"
  sb_audience :: "string option"
  sb_credentialRef :: "string option"
  sb_status :: TenantServiceStatus
  sb_capabilitiesVersion :: int
  sb_configVersion :: int
  sb_verifiedAt :: "time option"
  sb_createdAt :: time
  sb_updatedAt :: time

text \<open>The stored credentials appear as what \<^verbatim>\<open>SecretsService.get\<close> returns for an organisation and a name.\<close>

record ('g, 'd) World =
  w_orgs :: "Organization list"
  w_persons :: "Person list"
  w_codes :: "EnrollCode list"
  w_devices :: "Device list"
  w_tokens :: "DeviceToken list"
  w_bindings :: "TenantServiceBinding list"
  w_secrets :: "string \<times> string \<Rightarrow> string option"
  w_audits :: "AuditRow list"
  w_script :: "string option list"
  w_gateway :: 'g
  w_desk :: 'd

subsection \<open>Effects\<close>

type_synonym ('w, 'a) act = "'w \<Rightarrow> 'w \<times> 'a res"

definition retA :: "'a \<Rightarrow> ('w, 'a) act" where
  "retA x = (\<lambda>w. (w, Inr x))"

definition throwA :: "http_error \<Rightarrow> ('w, 'a) act" where
  "throwA e = (\<lambda>w. (w, Inl e))"

definition liftR :: "'a res \<Rightarrow> ('w, 'a) act" where
  "liftR r = (\<lambda>w. (w, r))"

definition bindA :: "('w, 'a) act \<Rightarrow> ('a \<Rightarrow> ('w, 'b) act) \<Rightarrow> ('w, 'b) act" where
  "bindA m f = (\<lambda>w. case m w of (w', Inl e) \<Rightarrow> (w', Inl e) | (w', Inr x) \<Rightarrow> f x w')"

definition thenA :: "('w, 'a) act \<Rightarrow> ('w, 'b) act \<Rightarrow> ('w, 'b) act" where
  "thenA m k = bindA m (\<lambda>_. k)"

definition getsA :: "('w \<Rightarrow> 'a) \<Rightarrow> ('w, 'a) act" where
  "getsA f = (\<lambda>w. (w, Inr (f w)))"

definition modifyA :: "('w \<Rightarrow> 'w) \<Rightarrow> ('w, unit) act" where
  "modifyA f = (\<lambda>w. (f w, Inr ()))"

definition throwUnless :: "bool \<Rightarrow> http_error \<Rightarrow> ('w, unit) act" where
  "throwUnless b e = (if b then retA () else throwA e)"

definition whenA :: "bool \<Rightarrow> ('w, unit) act \<Rightarrow> ('w, unit) act" where
  "whenA b m = (if b then m else retA ())"

text \<open>\<^verbatim>\<open>try { m } catch (e) { h(e) }\<close>\<close>

definition catchA :: "('w, 'a) act \<Rightarrow> (http_error \<Rightarrow> ('w, 'a) act) \<Rightarrow> ('w, 'a) act" where
  "catchA m h = (\<lambda>w. case m w of (w', Inl e) \<Rightarrow> h e w' | (w', Inr x) \<Rightarrow> (w', Inr x))"

text \<open>One database statement: it reads and changes the tables unless the script makes it fail.\<close>

definition stmt ::
  "(('g, 'd, 'x) World_scheme \<Rightarrow> ('g, 'd, 'x) World_scheme \<times> 'a) \<Rightarrow> (('g, 'd, 'x) World_scheme, 'a) act" where
  "stmt f w =
     (case w_script w of
        Some e # s \<Rightarrow> (w\<lparr>w_script := s\<rparr>, Inl (PlainError e))
      | None # s \<Rightarrow> (case f (w\<lparr>w_script := s\<rparr>) of (w', x) \<Rightarrow> (w', Inr x))
      | [] \<Rightarrow> (case f w of (w', x) \<Rightarrow> (w', Inr x)))"

definition readS ::
  "(('g, 'd, 'x) World_scheme \<Rightarrow> 'a) \<Rightarrow> (('g, 'd, 'x) World_scheme, 'a) act" where
  "readS f = stmt (\<lambda>w. (w, f w))"

definition writeS ::
  "(('g, 'd, 'x) World_scheme \<Rightarrow> ('g, 'd, 'x) World_scheme) \<Rightarrow> (('g, 'd, 'x) World_scheme, unit) act" where
  "writeS f = stmt (\<lambda>w. (f w, ()))"

text \<open>A transaction: the callback runs on one snapshot, and an exception in it rolls everything back.\<close>

definition txS ::
  "(('g, 'd, 'x) World_scheme \<Rightarrow> ('a \<times> ('g, 'd, 'x) World_scheme) res) \<Rightarrow> (('g, 'd, 'x) World_scheme, 'a) act" where
  "txS f = bindA (stmt (\<lambda>w. case f w of Inl e \<Rightarrow> (w, Inl e) | Inr (x, w') \<Rightarrow> (w', Inr x))) liftR"

text \<open>A call of the gateway adapter.\<close>

definition gatewayA ::
  "('g \<Rightarrow> 'g \<times> 'a res) \<Rightarrow> (('g, 'd, 'x) World_scheme, 'a) act" where
  "gatewayA f w = (case f (w_gateway w) of (g, r) \<Rightarrow> (w\<lparr>w_gateway := g\<rparr>, r))"

text \<open>
  \<^verbatim>\<open>audit.transact\<close> as the handlers see it: the mutation and one chained row are committed together or the
  call throws and nothing changed (the theory of the audit trail shows this of its retry loop).
\<close>

definition auditTx ::
  "(string \<Rightarrow> string) \<Rightarrow> string \<Rightarrow> time \<Rightarrow> string \<Rightarrow> string \<Rightarrow> string \<Rightarrow>
   (('g, 'd, 'x) World_scheme \<Rightarrow> (('a \<times> string \<times> jsval) \<times> ('g, 'd, 'x) World_scheme) res) \<Rightarrow>
   (('g, 'd, 'x) World_scheme, 'a) act" where
  "auditTx H newId now action actorType actorId mutation =
     txS (\<lambda>w. bindR (mutation w) (\<lambda>((result, orgId, payload), w').
       bindR (append_row H newId now orgId action actorType actorId payload (w_audits w')) (\<lambda>rows.
       Inr (result, w'\<lparr>w_audits := rows\<rparr>))))"

definition auditLogA ::
  "(string \<Rightarrow> string) \<Rightarrow> string \<Rightarrow> time \<Rightarrow> string \<Rightarrow> string \<Rightarrow> string \<Rightarrow> string \<Rightarrow> jsval \<Rightarrow>
   (('g, 'd, 'x) World_scheme, unit) act" where
  "auditLogA H newId now orgId action actorType actorId payload =
     auditTx H newId now action actorType actorId (\<lambda>w. Inr (((), orgId, payload), w))"

subsection \<open>Updates by key\<close>

definition update_where :: "('r \<Rightarrow> bool) \<Rightarrow> ('r \<Rightarrow> 'r) \<Rightarrow> 'r list \<Rightarrow> 'r list" where
  "update_where p f rs = map (\<lambda>r. if p r then f r else r) rs"

definition count_where :: "('r \<Rightarrow> bool) \<Rightarrow> 'r list \<Rightarrow> nat" where
  "count_where p rs = length (filter p rs)"

abbreviation update_device ::
  "string \<Rightarrow> (Device \<Rightarrow> Device) \<Rightarrow> ('g, 'd, 'x) World_scheme \<Rightarrow> ('g, 'd, 'x) World_scheme" where
  "update_device i f w \<equiv> w\<lparr>w_devices := update_where (\<lambda>d. dv_id d = i) f (w_devices w)\<rparr>"

text \<open>\<^verbatim>\<open>device.update\<close> throws when there is no such row.\<close>

definition updateDeviceS ::
  "string \<Rightarrow> (Device \<Rightarrow> Device) \<Rightarrow> (('g, 'd, 'x) World_scheme, unit) act" where
  "updateDeviceS i f =
     txS (\<lambda>w. if \<exists>d \<in> set (w_devices w). dv_id d = i then Inr ((), update_device i f w)
              else Inl (PlainError ''Record to update not found.''))"

definition find_device :: "string \<Rightarrow> Device list \<Rightarrow> Device option" where
  "find_device i ds = find (\<lambda>d. dv_id d = i) ds"

definition find_token :: "string \<Rightarrow> DeviceToken list \<Rightarrow> DeviceToken option" where
  "find_token h ts = find (\<lambda>t. dt_tokenHash t = h) ts"

definition find_person :: "string \<Rightarrow> Person list \<Rightarrow> Person option" where
  "find_person i ps = find (\<lambda>p. pe_id p = i) ps"

definition find_binding :: "string \<Rightarrow> TenantServiceKind \<Rightarrow> TenantServiceBinding list \<Rightarrow> TenantServiceBinding option" where
  "find_binding orgId service bs = find (\<lambda>b. sb_orgId b = orgId \<and> sb_service b = service) bs"

text \<open>The columns \<^verbatim>\<open>assertTokenUsable\<close> reads.\<close>

definition validatable :: "DeviceToken \<Rightarrow> ValidatableToken" where
  "validatable t =
     \<lparr>vt_revokedAt = dt_revokedAt t, vt_expiresAt = dt_expiresAt t,
      vt_deviceId = Some (dt_deviceId t), vt_gatewayKeyId = Some (dt_gatewayKeyId t)\<rparr>"

subsection \<open>What the handlers are given\<close>

text \<open>
  The runtime the services run on: WHATWG \<^verbatim>\<open>new URL\<close> (None when it throws), SHA-256, the environment, and
  \<^verbatim>\<open>safeFetch\<close> as a function of method, URL and JSON body over the state of the remote services, whose
  answer is a failure or a response with its declared length and body (None when reading it fails;
  otherwise its size in bytes and the parsed JSON, if it is JSON).
\<close>

record URL =
  u_protocol :: string
  u_hostname :: string
  u_username :: string
  u_password :: string
  u_pathname :: string
  u_search :: string
  u_hash :: string
  u_origin :: string
  u_href :: string

record HttpResponse =
  hr_ok :: bool
  hr_status :: int
  hr_contentLength :: number
  hr_body :: "(nat \<times> jsval option) option"

record DeskTarget =
  tg_url :: string
  tg_enrollKey :: string

record ('g, 'd) Sys =
  sy_env :: env
  sy_sha256 :: "string \<Rightarrow> string"
  sy_newURL :: "string \<Rightarrow> URL option"
  sy_gateway :: "'g GatewayAdapter"
  sy_fetch :: "string \<Rightarrow> string \<Rightarrow> jsval \<Rightarrow> 'd \<Rightarrow> 'd \<times> (string + HttpResponse)"
  sy_targets :: "string \<Rightarrow> DeskTarget option"
  sy_seatLimit :: number

definition fetchA ::
  "('g, 'd) Sys \<Rightarrow> string \<Rightarrow> string \<Rightarrow> jsval \<Rightarrow> (('g, 'd, 'x) World_scheme, string + HttpResponse) act" where
  "fetchA sy meth url body w =
     (case sy_fetch sy meth url body (w_desk w) of (d, r) \<Rightarrow> (w\<lparr>w_desk := d\<rparr>, Inr r))"

text \<open>\<^verbatim>\<open>Buffer.byteLength(s, "utf8")\<close>\<close>

definition utf8_length :: "string \<Rightarrow> nat" where
  "utf8_length s = sum_list (map (\<lambda>c. if code c < 128 then 1 else 2) s)"

definition has_control :: "string \<Rightarrow> bool" where
  "has_control s \<longleftrightarrow> list_ex is_control s"

definition plain_object :: "jsval \<Rightarrow> bool" where
  "plain_object v = (case v of JObj _ \<Rightarrow> True | _ \<Rightarrow> False)"

subsection \<open>Rules\<close>

named_theorems act_defs "definitions of the effect combinators"

lemmas [act_defs] = retA_def throwA_def liftR_def bindA_def thenA_def getsA_def modifyA_def
  throwUnless_def whenA_def catchA_def gatewayA_def fetchA_def

text \<open>\<^verbatim>\<open>hoare P m Q E\<close>: from a world with \<^verbatim>\<open>P\<close>, a normal end satisfies \<^verbatim>\<open>Q\<close> and an exception \<^verbatim>\<open>E\<close>.\<close>

definition hoare ::
  "('w \<Rightarrow> bool) \<Rightarrow> ('w, 'a) act \<Rightarrow> ('a \<Rightarrow> 'w \<Rightarrow> bool) \<Rightarrow> (http_error \<Rightarrow> 'w \<Rightarrow> bool) \<Rightarrow> bool" where
  "hoare P m Q E \<longleftrightarrow>
     (\<forall>w w' r. P w \<longrightarrow> m w = (w', r) \<longrightarrow> (case r of Inr x \<Rightarrow> Q x w' | Inl e \<Rightarrow> E e w'))"

lemma hoareI:
  assumes "\<And>w w' x. P w \<Longrightarrow> m w = (w', Inr x) \<Longrightarrow> Q x w'"
    "\<And>w w' e. P w \<Longrightarrow> m w = (w', Inl e) \<Longrightarrow> E e w'"
  shows "hoare P m Q E"
  unfolding hoare_def using assms by (auto split: sum.splits)

lemma hoareD_Inr: "hoare P m Q E \<Longrightarrow> P w \<Longrightarrow> m w = (w', Inr x) \<Longrightarrow> Q x w'"
  by (force simp: hoare_def)

lemma hoareD_Inl: "hoare P m Q E \<Longrightarrow> P w \<Longrightarrow> m w = (w', Inl e) \<Longrightarrow> E e w'"
  by (force simp: hoare_def)

lemma hoare_weaken:
  assumes "hoare P m Q E" "\<And>w. P' w \<Longrightarrow> P w" "\<And>x w. Q x w \<Longrightarrow> Q' x w" "\<And>e w. E e w \<Longrightarrow> E' e w"
  shows "hoare P' m Q' E'"
  using assms unfolding hoare_def by (fastforce split: sum.splits)

lemma hoare_retA: "(\<And>w. P w \<Longrightarrow> Q x w) \<Longrightarrow> hoare P (retA x) Q E"
  by (simp add: hoare_def retA_def)

lemma hoare_throwA: "(\<And>w. P w \<Longrightarrow> E e w) \<Longrightarrow> hoare P (throwA e) Q E"
  by (simp add: hoare_def throwA_def)

lemma hoare_liftR:
  "(\<And>w x. P w \<Longrightarrow> r = Inr x \<Longrightarrow> Q x w) \<Longrightarrow> (\<And>w e. P w \<Longrightarrow> r = Inl e \<Longrightarrow> E e w) \<Longrightarrow> hoare P (liftR r) Q E"
  by (rule hoareI) (auto simp: liftR_def)

lemma hoare_bindA:
  assumes "hoare P m R E" "\<And>x. hoare (R x) (f x) Q E"
  shows "hoare P (bindA m f) Q E"
proof (rule hoareI)
  fix w w' y
  assume w: "P w" "bindA m f w = (w', Inr y)"
  then obtain w1 x where "m w = (w1, Inr x)" "f x w1 = (w', Inr y)"
    by (auto simp: bindA_def split: prod.splits sum.splits)
  then show "Q y w'" using hoareD_Inr [OF assms(1) w(1)] hoareD_Inr [OF assms(2)] by blast
next
  fix w w' e
  assume w: "P w" "bindA m f w = (w', Inl e)"
  then consider "m w = (w', Inl e)" | w1 x where "m w = (w1, Inr x)" "f x w1 = (w', Inl e)"
    by (auto simp: bindA_def split: prod.splits sum.splits)
  then show "E e w'"
    using hoareD_Inl [OF assms(1) w(1)] hoareD_Inr [OF assms(1) w(1)] hoareD_Inl [OF assms(2)] by metis
qed

lemma hoare_thenA: "hoare P m (\<lambda>_. R) E \<Longrightarrow> hoare R k Q E \<Longrightarrow> hoare P (thenA m k) Q E"
  unfolding thenA_def by (rule hoare_bindA)

lemma hoare_liftR_bind:
  assumes "\<And>x. r = Inr x \<Longrightarrow> hoare P (k x) Q E" "\<And>e w. P w \<Longrightarrow> E e w"
  shows "hoare P (bindA (liftR r) k) Q E"
proof (cases r)
  case (Inl e)
  then show ?thesis using assms(2) by (auto simp: hoare_def bindA_def liftR_def)
next
  case (Inr x)
  then have "bindA (liftR r) k = k x" by (simp add: bindA_def liftR_def fun_eq_iff)
  then show ?thesis using assms(1) Inr by simp
qed

lemma hoare_getsA: "(\<And>w. P w \<Longrightarrow> Q (f w) w) \<Longrightarrow> hoare P (getsA f) Q E"
  by (simp add: hoare_def getsA_def)

lemma hoare_modifyA: "(\<And>w. P w \<Longrightarrow> Q () (f w)) \<Longrightarrow> hoare P (modifyA f) Q E"
  by (simp add: hoare_def modifyA_def)

lemma hoare_throwUnless:
  "(\<And>w. P w \<Longrightarrow> b \<Longrightarrow> Q () w) \<Longrightarrow> (\<And>w. P w \<Longrightarrow> \<not> b \<Longrightarrow> E e w) \<Longrightarrow> hoare P (throwUnless b e) Q E"
  by (auto simp: throwUnless_def hoare_def retA_def throwA_def)

lemma hoare_whenA:
  "(b \<Longrightarrow> hoare P m Q E) \<Longrightarrow> (\<And>w. P w \<Longrightarrow> \<not> b \<Longrightarrow> Q () w) \<Longrightarrow> hoare P (whenA b m) Q E"
  by (auto simp: whenA_def intro: hoare_retA)

lemma hoare_catchA:
  assumes "hoare P m Q R" "\<And>e. hoare (R e) (h e) Q E"
  shows "hoare P (catchA m h) Q E"
proof (rule hoareI)
  fix w w' y
  assume w: "P w" "catchA m h w = (w', Inr y)"
  then consider "m w = (w', Inr y)" | w1 e where "m w = (w1, Inl e)" "h e w1 = (w', Inr y)"
    by (auto simp: catchA_def split: prod.splits sum.splits)
  then show "Q y w'"
    using hoareD_Inr [OF assms(1) w(1)] hoareD_Inl [OF assms(1) w(1)] hoareD_Inr [OF assms(2)] by metis
next
  fix w w' e
  assume w: "P w" "catchA m h w = (w', Inl e)"
  then obtain w1 e1 where "m w = (w1, Inl e1)" "h e1 w1 = (w', Inl e)"
    by (auto simp: catchA_def split: prod.splits sum.splits)
  then show "E e w'"
    using hoareD_Inl [OF assms(1) w(1)] hoareD_Inl [OF assms(2)] by blast
qed

text \<open>Assertions that do not depend on the script are kept by a failing statement.\<close>

definition scriptless :: "(('g, 'd, 'x) World_scheme \<Rightarrow> bool) \<Rightarrow> bool" where
  "scriptless P \<longleftrightarrow> (\<forall>w s. P (w\<lparr>w_script := s\<rparr>) = P w)"

lemma scriptlessI: "(\<And>w s. P (w\<lparr>w_script := s\<rparr>) = P w) \<Longrightarrow> scriptless P"
  by (simp add: scriptless_def)

lemma scriptlessD [simp]: "scriptless P \<Longrightarrow> P (w\<lparr>w_script := s\<rparr>) = P w"
  by (simp add: scriptless_def)

lemma hoare_stmt:
  assumes "scriptless P" "\<And>w w' x. P w \<Longrightarrow> f w = (w', x) \<Longrightarrow> Q x w'" "\<And>e w. P w \<Longrightarrow> E e w"
  shows "hoare P (stmt f) Q E"
proof -
  have "P (w\<lparr>w_script := s\<rparr>)" if "P w" for w s using assms(1) that by simp
  with assms(2,3) show ?thesis
    by (intro hoareI; simp add: stmt_def split: list.splits option.splits prod.splits) blast+
qed

lemma hoare_readS:
  "scriptless P \<Longrightarrow> (\<And>w. P w \<Longrightarrow> Q (f w) w) \<Longrightarrow> (\<And>e w. P w \<Longrightarrow> E e w) \<Longrightarrow> hoare P (readS f) Q E"
  unfolding readS_def by (rule hoare_stmt) auto

lemma hoare_writeS:
  "scriptless P \<Longrightarrow> (\<And>w. P w \<Longrightarrow> Q () (f w)) \<Longrightarrow> (\<And>e w. P w \<Longrightarrow> E e w) \<Longrightarrow> hoare P (writeS f) Q E"
  unfolding writeS_def by (rule hoare_stmt) auto

lemma hoare_txS:
  assumes "scriptless P" "\<And>w w' x. P w \<Longrightarrow> f w = Inr (x, w') \<Longrightarrow> Q x w'" "\<And>e w. P w \<Longrightarrow> E e w"
  shows "hoare P (txS f) Q E"
  unfolding txS_def
proof (rule hoare_bindA)
  show "hoare P (stmt (\<lambda>w. case f w of Inl e \<Rightarrow> (w, Inl e) | Inr (x, w') \<Rightarrow> (w', Inr x)))
      (\<lambda>r w. case r of Inl e \<Rightarrow> P w | Inr x \<Rightarrow> Q x w) E"
    using assms by (intro hoare_stmt) (auto split: sum.splits prod.splits)
  show "hoare (\<lambda>w. case r of Inl e \<Rightarrow> P w | Inr x \<Rightarrow> Q x w) (liftR r) Q E" for r :: "'d res"
    using assms(3) by (cases r) (auto intro!: hoare_liftR)
qed

lemma hoare_gatewayA:
  assumes "\<And>w g x. P w \<Longrightarrow> f (w_gateway w) = (g, Inr x) \<Longrightarrow> Q x (w\<lparr>w_gateway := g\<rparr>)"
    "\<And>w g e. P w \<Longrightarrow> f (w_gateway w) = (g, Inl e) \<Longrightarrow> E e (w\<lparr>w_gateway := g\<rparr>)"
  shows "hoare P (gatewayA f) Q E"
  by (rule hoareI) (auto simp: gatewayA_def split: prod.splits intro: assms)

lemma hoare_fetchA:
  assumes "\<And>w d r. P w \<Longrightarrow> sy_fetch sy meth url body (w_desk w) = (d, r) \<Longrightarrow> Q r (w\<lparr>w_desk := d\<rparr>)"
  shows "hoare P (fetchA sy meth url body) Q E"
  by (rule hoareI) (auto simp: fetchA_def split: prod.splits intro: assms)

lemma hoare_auditTx:
  assumes "scriptless P"
    "\<And>w w' x orgId payload rows. P w \<Longrightarrow> mutation w = Inr ((x, orgId, payload), w') \<Longrightarrow>
       append_row H newId now orgId action actorType actorId payload (w_audits w') = Inr rows \<Longrightarrow>
       Q x (w'\<lparr>w_audits := rows\<rparr>)"
    "\<And>e w. P w \<Longrightarrow> E e w"
  shows "hoare P (auditTx H newId now action actorType actorId mutation) Q E"
  unfolding auditTx_def using assms
  by (intro hoare_txS) (auto simp: bindR_eq_Inr)

lemma hoare_auditLogA:
  assumes "scriptless P"
    "\<And>w rows. P w \<Longrightarrow>
       append_row H newId now orgId action actorType actorId payload (w_audits w) = Inr rows \<Longrightarrow>
       Q () (w\<lparr>w_audits := rows\<rparr>)"
    "\<And>e w. P w \<Longrightarrow> E e w"
  shows "hoare P (auditLogA H newId now orgId action actorType actorId payload) Q E"
  unfolding auditLogA_def using assms by (intro hoare_auditTx) auto

lemma hoare_updateDeviceS:
  assumes "scriptless P" "\<And>w. P w \<Longrightarrow> Q () (update_device i f w)" "\<And>e w. P w \<Longrightarrow> E e w"
  shows "hoare P (updateDeviceS i f) Q E"
  unfolding updateDeviceS_def using assms
  by (intro hoare_txS) (auto split: if_splits)

lemma hoare_split:
  "(b \<Longrightarrow> hoare P m Q E) \<Longrightarrow> (\<not> b \<Longrightarrow> hoare P n Q E) \<Longrightarrow> hoare P (if b then m else n) Q E"
  by simp

subsection \<open>Inverting a successful run\<close>

lemma stmt_Inr_iff:
  "stmt f w = (w', Inr x) \<longleftrightarrow>
     w_script w = [] \<and> f w = (w', x) \<or> (\<exists>s. w_script w = None # s \<and> f (w\<lparr>w_script := s\<rparr>) = (w', x))"
  by (auto simp: stmt_def split: list.splits option.splits prod.splits)

lemma bindA_Inr: "bindA m f w = (w', Inr y) \<longleftrightarrow> (\<exists>w1 x. m w = (w1, Inr x) \<and> f x w1 = (w', Inr y))"
  by (auto simp: bindA_def split: prod.splits sum.splits)

lemma thenA_Inr: "thenA m k w = (w', Inr y) \<longleftrightarrow> (\<exists>w1 x. m w = (w1, Inr x) \<and> k w1 = (w', Inr y))"
  by (simp add: thenA_def bindA_Inr)

lemma throwUnless_Inr [simp]: "throwUnless b e w = (w', Inr y) \<longleftrightarrow> b \<and> w' = w"
  by (auto simp: throwUnless_def retA_def throwA_def)

lemma retA_Inr [simp]: "retA x w = (w', Inr y) \<longleftrightarrow> w' = w \<and> y = x"
  by (auto simp: retA_def)

lemma liftR_Inr [simp]: "liftR r w = (w', Inr y) \<longleftrightarrow> w' = w \<and> r = Inr y"
  by (auto simp: liftR_def)

lemma throwA_Inr [simp]: "\<not> throwA e w = (w', Inr y)"
  by (simp add: throwA_def)

lemmas run_Inr = bindA_Inr thenA_Inr

subsection \<open>Keyed updates\<close>

lemma filter_update_other:
  assumes "\<And>r. p r \<Longrightarrow> \<not> q r" "\<And>r. p r \<Longrightarrow> \<not> q (f r)"
  shows "filter q (update_where p f rs) = filter q rs"
  using assms by (induction rs) (auto simp: update_where_def)

lemma update_where_none: "(\<And>r. r \<in> set rs \<Longrightarrow> \<not> p r) \<Longrightarrow> update_where p f rs = rs"
  by (induction rs) (auto simp: update_where_def)

lemma map_update_where [simp]: "(\<And>r. g (f r) = g r) \<Longrightarrow> map g (update_where p f rs) = map g rs"
  by (simp add: update_where_def)

lemma in_update_where: "r \<in> set (update_where p f rs) \<longleftrightarrow> (\<exists>r0 \<in> set rs. r = (if p r0 then f r0 else r0))"
  by (auto simp: update_where_def)

lemma transact_loop_Inr: "transact_loop 4 0 att = Inr y \<Longrightarrow> \<exists>n. att n = Inr y"
  using transact_loop_iff [of 0 4 att "Inr y"] by auto

text \<open>\<^verbatim>\<open>audit.transact\<close> of the audit theory, run on the current world, is \<^const>\<open>auditTx\<close> for some behaviour
  of the database: same final world up to the script, same result.\<close>

lemma transact_is_auditTx:
  fixes w :: "('g, 'd, 'x) World_scheme"
  assumes t: "transact w_audits (\<lambda>a v. v\<lparr>w_audits := a\<rparr>) H (\<lambda>_. newId) (\<lambda>_. now) (\<lambda>_. w) commitError
      action actorType actorId (\<lambda>v. rethrow AppError (bindR (mutation v) (\<lambda>((x, orgId, payload), v').
        Inr ((x, orgId, Some payload), v')))) = Inr (x, w')"
    and s: "w_script w = []"
  shows "auditTx H newId now action actorType actorId mutation w = (w', Inr x)"
proof -
  let ?mut = "\<lambda>v. rethrow AppError (bindR (mutation v) (\<lambda>((x, orgId, payload), v').
        Inr ((x, orgId, Some payload), v')))"
  have "\<exists>n. attempt_once w_audits (\<lambda>a v. v\<lparr>w_audits := a\<rparr>) H newId now action actorType actorId
      ?mut (commitError n) w = Inr (x, w')"
    using t unfolding transact_def by (rule transact_loop_Inr)
  then obtain n where n: "attempt_once w_audits (\<lambda>a v. v\<lparr>w_audits := a\<rparr>) H newId now action actorType actorId
      ?mut (commitError n) w = Inr (x, w')" ..
  then obtain y orgId payload w1 where m: "mutation w = Inr ((y, orgId, payload), w1)"
    by (cases "mutation w") (auto simp: attempt_once_def rethrow_def)
  with n obtain rows where
    "append_row H newId now orgId action actorType actorId payload (w_audits w1) = Inr rows"
    "y = x" "w' = w1\<lparr>w_audits := rows\<rparr>"
    by (cases "append_row H newId now orgId action actorType actorId payload (w_audits w1)")
      (auto simp: attempt_once_def rethrow_def nullish_def split: option.splits)
  with s m show ?thesis by (simp add: auditTx_def txS_def stmt_def bindA_def liftR_def)
qed

end
