(* ===== verification/ServiceBindings.thy ===== *)
theory ServiceBindings
  imports Store Auth
begin

section \<open>Organisation service bindings (service-bindings/service-bindings.service.ts)\<close>

text \<open>
  The connections of an organisation to its services: configured by administrators, activated only by a
  server-side probe, and, for Desk, frozen while any device holds an installation there. Every operation of
  the service is a definition here. The lemmas show that a probe result is committed only for the
  configuration that was probed, and that under any interleaving of the transactions a device's recorded
  Desk origin is the one of its organisation's binding.
\<close>

record PublicTenantServiceBinding =
  pb_id :: string
  pb_orgId :: string
  pb_service :: TenantServiceKind
  pb_mode :: TenantServiceMode
  pb_accountRegion :: TenantServiceRegion
  pb_apiOrigin :: string
  pb_issuer :: "string option"
  pb_jwksUri :: "string option"
  pb_audience :: "string option"
  pb_status :: TenantServiceStatus
  pb_capabilitiesVersion :: int
  pb_configVersion :: int
  pb_credentialConfigured :: bool
  pb_verifiedAt :: "time option"
  pb_createdAt :: time
  pb_updatedAt :: time

text \<open>The \<^verbatim>\<open>status\<close> of an enrollment descriptor is the literal ACTIVE.\<close>

record EnrollmentServiceBinding =
  eb_tenant_id :: string
  eb_service :: TenantServiceKind
  eb_mode :: TenantServiceMode
  eb_account_region :: TenantServiceRegion
  eb_api_origin :: string
  eb_issuer :: "string option"
  eb_jwks_uri :: "string option"
  eb_audience :: "string option"
  eb_capabilities_version :: int
  eb_config_version :: int

record DeskProvisioningResolution =
  rs_managedConfigured :: bool
  rs_target :: "DeskTarget option"

record DeskProvisioningReservation = DeskProvisioningResolution +
  rs_prepared :: bool

record UpsertTenantServiceBindingDto =
  up_mode :: TenantServiceMode
  up_accountRegion :: TenantServiceRegion
  up_apiOrigin :: string
  up_issuer :: "string option"
  up_jwksUri :: "string option"
  up_audience :: "string option"
  up_credential :: "string option"
  up_capabilitiesVersion :: "int option"

definition service_name :: "TenantServiceKind \<Rightarrow> string" where
  "service_name k =
     (case k of MODEL_CONTROL \<Rightarrow> ''MODEL_CONTROL'' | DESK_TASKS \<Rightarrow> ''DESK_TASKS'' | COLLAB \<Rightarrow> ''COLLAB''
      | EXTENSION_CATALOG \<Rightarrow> ''EXTENSION_CATALOG'')"

definition serviceKind :: "string \<Rightarrow> TenantServiceKind res" where
  "serviceKind value =
     (if value = ''MODEL_CONTROL'' then Inr MODEL_CONTROL
      else if value = ''DESK_TASKS'' then Inr DESK_TASKS
      else if value = ''COLLAB'' then Inr COLLAB
      else if value = ''EXTENSION_CATALOG'' then Inr EXTENSION_CATALOG
      else Inl (BadRequest ''unknown organization service''))"

definition isLoopback :: "string \<Rightarrow> bool" where
  "isLoopback hostname =
     (let n = toLowerCase hostname
      in n = ''localhost'' \<or> n = ''127.0.0.1'' \<or> n = ''[::1]'' \<or> n = ''::1'')"

text \<open>\<^verbatim>\<open>s.replace(/\/$/, "")\<close>\<close>

definition drop_slash :: "string \<Rightarrow> string" where
  "drop_slash s = (if s \<noteq> [] \<and> last s = CHR ''/'' then butlast s else s)"

definition normalizeUrl ::
  "(string \<Rightarrow> URL option) \<Rightarrow> string option \<Rightarrow> string \<Rightarrow> bool \<Rightarrow> string option res" where
  "normalizeUrl newURL value field originOnly =
     (case value of
        None \<Rightarrow> Inr None
      | Some v \<Rightarrow>
          if trim v = [] then Inr None
          else if 2048 < length v \<or> has_control v then Inl (BadRequest (field @ '' is invalid''))
          else (case newURL (trim v) of
                  None \<Rightarrow> Inl (BadRequest (field @ '' must be an absolute URL''))
                | Some u \<Rightarrow>
                    if (u_protocol u \<noteq> ''https:'' \<and> \<not> (u_protocol u = ''http:'' \<and> isLoopback (u_hostname u))) \<or>
                       u_username u \<noteq> [] \<or> u_password u \<noteq> [] \<or> u_search u \<noteq> [] \<or> u_hash u \<noteq> [] \<or>
                       (originOnly \<and> u_pathname u \<noteq> ''/'' \<and> u_pathname u \<noteq> [])
                    then Inl (BadRequest (field @
                           '' must use HTTPS and must not contain credentials, query, or fragment data''))
                    else Inr (Some (if originOnly then u_origin u else drop_slash (u_href u)))))"

definition audience_char :: "char \<Rightarrow> bool" where
  "audience_char c \<longleftrightarrow> is_upper_az c \<or> is_lower_az c \<or> is_digit c \<or> c \<in> set ''._:/-''"

definition normalizeAudience :: "string option \<Rightarrow> string option res" where
  "normalizeAudience value =
     (case value of
        None \<Rightarrow> Inr None
      | Some v \<Rightarrow>
          if trim v = [] then Inr None
          else if v \<noteq> trim v \<or> \<not> (v \<noteq> [] \<and> length v \<le> 160 \<and> list_all audience_char v)
          then Inl (BadRequest ''audience is invalid'') else Inr (Some v))"

definition actorType :: "AuthedUser \<Rightarrow> string" where
  "actorType actor = (if us_viaSharedKey actor then ''shared-admin-key'' else ''admin-user'')"

definition publicBinding :: "TenantServiceBinding \<Rightarrow> PublicTenantServiceBinding" where
  "publicBinding row =
     \<lparr>pb_id = sb_id row, pb_orgId = sb_orgId row, pb_service = sb_service row, pb_mode = sb_mode row,
      pb_accountRegion = sb_accountRegion row, pb_apiOrigin = sb_apiOrigin row, pb_issuer = sb_issuer row,
      pb_jwksUri = sb_jwksUri row, pb_audience = sb_audience row, pb_status = sb_status row,
      pb_capabilitiesVersion = sb_capabilitiesVersion row, pb_configVersion = sb_configVersion row,
      pb_credentialConfigured = (sb_credentialRef row \<noteq> None), pb_verifiedAt = sb_verifiedAt row,
      pb_createdAt = sb_createdAt row, pb_updatedAt = sb_updatedAt row\<rparr>"

definition healthPath :: "TenantServiceKind \<Rightarrow> string" where
  "healthPath service = (if service \<in> {DESK_TASKS, EXTENSION_CATALOG} then ''/health'' else ''/health/ready'')"

definition service_rank :: "TenantServiceKind \<Rightarrow> nat" where
  "service_rank k = (case k of MODEL_CONTROL \<Rightarrow> 0 | DESK_TASKS \<Rightarrow> 1 | COLLAB \<Rightarrow> 2 | EXTENSION_CATALOG \<Rightarrow> 3)"

definition requireOrganization :: "string \<Rightarrow> (('g, 'd, 'x) World_scheme, unit) act" where
  "requireOrganization orgId =
     bindA (readS (\<lambda>w. find_org (w_orgs w) orgId)) (\<lambda>o1.
     throwUnless (o1 \<noteq> None) (NotFound ''organization not found''))"

definition list_bindings :: "string \<Rightarrow> (('g, 'd, 'x) World_scheme, PublicTenantServiceBinding list) act" where
  "list_bindings orgId =
     thenA (requireOrganization orgId)
    (readS (\<lambda>w. map publicBinding
       (sort_key (\<lambda>b. service_rank (sb_service b)) (filter (\<lambda>b. sb_orgId b = orgId) (w_bindings w)))))"

definition hasProvisionedDeskDevices :: "string \<Rightarrow> ('g, 'd, 'x) World_scheme \<Rightarrow> bool" where
  "hasProvisionedDeskDevices orgId w \<longleftrightarrow>
     0 < count_where (\<lambda>d. dv_orgId d = orgId \<and> (dv_deskProvisionedAt d \<noteq> None \<or> dv_deskCleanupPendingAt d \<noteq> None))
           (w_devices w)"

abbreviation update_binding ::
  "string \<Rightarrow> (TenantServiceBinding \<Rightarrow> TenantServiceBinding) \<Rightarrow> ('g, 'd, 'x) World_scheme \<Rightarrow> ('g, 'd, 'x) World_scheme" where
  "update_binding i f w \<equiv> w\<lparr>w_bindings := update_where (\<lambda>b. sb_id b = i) f (w_bindings w)\<rparr>"

subsection \<open>Configuration\<close>

text \<open>The validated input of \<^verbatim>\<open>upsert\<close>: API origin, issuer, JWKS URI and audience.\<close>

definition validated_upsert ::
  "(string \<Rightarrow> URL option) \<Rightarrow> TenantServiceKind \<Rightarrow> UpsertTenantServiceBindingDto \<Rightarrow>
     (string \<times> string option \<times> string option \<times> string option) res" where
  "validated_upsert newURL service input =
     bindR (normalizeUrl newURL (Some (up_apiOrigin input)) ''apiOrigin'' True) (\<lambda>apiOrigin.
     bindR (case apiOrigin of None \<Rightarrow> Inl (BadRequest ''apiOrigin is required'') | Some a \<Rightarrow>
              if a = [] then Inl (BadRequest ''apiOrigin is required'') else Inr a) (\<lambda>origin.
     bindR (normalizeUrl newURL (up_issuer input) ''issuer'' False) (\<lambda>issuer.
     bindR (normalizeUrl newURL (up_jwksUri input) ''jwksUri'' False) (\<lambda>jwksUri.
     bindR (normalizeAudience (up_audience input)) (\<lambda>audience.
     throwIf (service = COLLAB \<and> (nullish issuer [] = [] \<or> nullish jwksUri [] = [] \<or> nullish audience [] = []))
       (BadRequest ''COLLAB requires issuer, jwksUri, and audience'')
    (throwIf (case up_credential input of None \<Rightarrow> False | Some c \<Rightarrow>
               c = [] \<or> 4096 < length c \<or> c \<noteq> trim c \<or> has_control c)
       (BadRequest ''credential must be 1 to 4096 printable non-padding characters'')
    (throwIf (up_credential input \<noteq> None \<and> service \<noteq> DESK_TASKS)
       (BadRequest ''only DESK_TASKS accepts an enrollment credential'')
       (Inr (origin, issuer, jwksUri, audience)))))))))"

text \<open>
  The locked transaction of \<^verbatim>\<open>upsert\<close>: the new row and the credential it retires. \<^verbatim>\<open>newId\<close> is the id of a created
  row, \<^verbatim>\<open>newRef\<close> the reference of a credential stored just before.
\<close>

definition upsert_tx ::
  "string \<Rightarrow> time \<Rightarrow> string \<Rightarrow> TenantServiceKind \<Rightarrow> UpsertTenantServiceBindingDto \<Rightarrow>
   string \<times> string option \<times> string option \<times> string option \<Rightarrow> string option \<Rightarrow>
   ('g, 'd, 'x) World_scheme \<Rightarrow>
     ((TenantServiceBinding \<times> string option) \<times> ('g, 'd, 'x) World_scheme) res" where
  "upsert_tx newId now orgId service input valid newRef w =
     (let (apiOrigin, issuer, jwksUri, audience) = valid;
          existing = find_binding orgId service (w_bindings w)
      in throwIf (service = DESK_TASKS \<and> hasProvisionedDeskDevices orgId w)
           (Conflict ''revoke every provisioned Desk device before changing this organization binding'')
          (let nextRef = (case newRef of Some r \<Rightarrow> Some r | None \<Rightarrow> Option.bind existing sb_credentialRef);
               retired = (if newRef \<noteq> None \<and> Option.bind existing sb_credentialRef \<noteq> newRef
                          then Option.bind existing sb_credentialRef else None)
           in case existing of
                None \<Rightarrow>
                  let row = \<lparr>sb_id = newId, sb_orgId = orgId, sb_service = service, sb_mode = up_mode input,
                             sb_accountRegion = up_accountRegion input, sb_apiOrigin = apiOrigin,
                             sb_issuer = issuer, sb_jwksUri = jwksUri, sb_audience = audience,
                             sb_credentialRef = nextRef, sb_status = PENDING_VERIFICATION,
                             sb_capabilitiesVersion = nullish (up_capabilitiesVersion input) 1,
                             sb_configVersion = 1, sb_verifiedAt = None, sb_createdAt = now,
                             sb_updatedAt = now\<rparr>
                  in Inr ((row, retired), w\<lparr>w_bindings := w_bindings w @ [row]\<rparr>)
              | Some old \<Rightarrow>
                  let row = old\<lparr>sb_mode := up_mode input, sb_accountRegion := up_accountRegion input,
                              sb_apiOrigin := apiOrigin, sb_issuer := issuer, sb_jwksUri := jwksUri,
                              sb_audience := audience, sb_credentialRef := nextRef,
                              sb_status := PENDING_VERIFICATION,
                              sb_capabilitiesVersion := nullish (up_capabilitiesVersion input) (sb_capabilitiesVersion old),
                              sb_configVersion := sb_configVersion old + 1, sb_verifiedAt := None,
                              sb_updatedAt := now\<rparr>
                  in Inr ((row, retired), update_binding (sb_id old) (\<lambda>_. row) w)))"

definition putSecret :: "string \<Rightarrow> string \<Rightarrow> string \<Rightarrow> (('g, 'd, 'x) World_scheme, unit) act" where
  "putSecret orgId name v = writeS (\<lambda>w. w\<lparr>w_secrets := (w_secrets w)((orgId, name) \<mapsto> v)\<rparr>)"

definition getSecret :: "string \<Rightarrow> string \<Rightarrow> (('g, 'd, 'x) World_scheme, string option) act" where
  "getSecret orgId name = readS (\<lambda>w. w_secrets w (orgId, name))"

definition removeSecret :: "string \<Rightarrow> string \<Rightarrow> (('g, 'd, 'x) World_scheme, unit) act" where
  "removeSecret orgId name = writeS (\<lambda>w. w\<lparr>w_secrets := (w_secrets w)((orgId, name) := None)\<rparr>)"

definition ignoreErrors :: "('w, unit) act \<Rightarrow> ('w, unit) act" where
  "ignoreErrors m = catchA m (\<lambda>_. retA ())"

definition binding_log ::
  "('g, 'd) Sys \<Rightarrow> string \<Rightarrow> time \<Rightarrow> string \<Rightarrow> string \<Rightarrow> AuthedUser \<Rightarrow> (string \<times> jsval) list \<Rightarrow>
     (('g, 'd, 'x) World_scheme, unit) act" where
  "binding_log sy auId now orgId action actor payload =
     auditLogA (sy_sha256 sy) auId now orgId action (actorType actor) (us_id actor) (JObj payload)"

definition status_name :: "TenantServiceStatus \<Rightarrow> string" where
  "status_name s =
     (case s of PENDING_VERIFICATION \<Rightarrow> ''PENDING_VERIFICATION'' | ACTIVE \<Rightarrow> ''ACTIVE''
      | DEGRADED \<Rightarrow> ''DEGRADED'' | DISABLED \<Rightarrow> ''DISABLED'')"

definition mode_name :: "TenantServiceMode \<Rightarrow> string" where
  "mode_name m = (case m of HARA_HOSTED \<Rightarrow> ''HARA_HOSTED'' | CUSTOMER_HOSTED \<Rightarrow> ''CUSTOMER_HOSTED'')"

definition region_name :: "TenantServiceRegion \<Rightarrow> string" where
  "region_name r = (case r of CN \<Rightarrow> ''CN'' | GLOBAL \<Rightarrow> ''GLOBAL'')"

text \<open>\<^verbatim>\<open>uuid\<close> is the random part of a new credential reference.\<close>

definition upsert ::
  "('g, 'd) Sys \<Rightarrow> string \<Rightarrow> string \<Rightarrow> string \<Rightarrow> time \<Rightarrow> string \<Rightarrow> string \<Rightarrow> UpsertTenantServiceBindingDto \<Rightarrow>
   AuthedUser \<Rightarrow> (('g, 'd, 'x) World_scheme, PublicTenantServiceBinding) act" where
  "upsert sy newId uuid auId now orgId rawService input actor =
     thenA (requireOrganization orgId)
    (bindA (liftR (serviceKind rawService)) (\<lambda>service.
     bindA (liftR (validated_upsert (sy_newURL sy) service input)) (\<lambda>valid.
     let newRef = (case up_credential input of
            None \<Rightarrow> None | Some _ \<Rightarrow> Some (''tenant-service.'' @ service_name service @ ''.'' @ uuid))
     in
     thenA (case (newRef, up_credential input) of
              (Some r, Some c) \<Rightarrow> putSecret orgId r c | _ \<Rightarrow> retA ())
    (bindA (catchA (txS (upsert_tx newId now orgId service input valid newRef))
              (\<lambda>e. thenA (case newRef of Some r \<Rightarrow> ignoreErrors (removeSecret orgId r) | None \<Rightarrow> retA ())
                     (throwA e))) (\<lambda>(row, retired).
     thenA (case (newRef, retired) of
              (Some _, Some r) \<Rightarrow> ignoreErrors (removeSecret orgId r) | _ \<Rightarrow> retA ())
    (thenA (binding_log sy auId now orgId ''tenant-service.configure'' actor
              [(''service'', JStr (service_name service)), (''mode'', JStr (mode_name (up_mode input))),
               (''accountRegion'', JStr (region_name (up_accountRegion input))),
               (''status'', JStr ''PENDING_VERIFICATION''), (''credentialReplaced'', JBool (newRef \<noteq> None)),
               (''configVersion'', JNum (num (sb_configVersion row)))])
           (retA (publicBinding row))))))))"

subsection \<open>Verification\<close>

definition probe ::
  "('g, 'd) Sys \<Rightarrow> string \<Rightarrow> nat \<Rightarrow> (('g, 'd, 'x) World_scheme, HttpResponse) act" where
  "probe sy url maximumBytes =
     (case sy_newURL sy url of
        None \<Rightarrow> throwA (BadRequest ''organization service URL is invalid'')
      | Some target \<Rightarrow>
          bindA (fetchA sy ''GET'' (u_href target) JUndef) (\<lambda>r.
          case r of
            Inl _ \<Rightarrow> throwA (BadGateway ''organization service readiness check failed'')
          | Inr response \<Rightarrow>
              thenA (throwUnless (\<not> (isFinite (hr_contentLength response) \<and>
                        num_lt (num (int maximumBytes)) (hr_contentLength response)))
                       (BadGateway ''organization service response is too large''))
                    (retA response)))"

definition readJson :: "HttpResponse \<Rightarrow> nat \<Rightarrow> string \<Rightarrow> jsval res" where
  "readJson response maximumBytes errorMessage =
     (case hr_body response of
        Some (bytes, Some v) \<Rightarrow>
          throwIf (maximumBytes < bytes \<or> \<not> plain_object v) (BadGateway errorMessage) (Inr v)
      | _ \<Rightarrow> Inl (BadGateway errorMessage))"

definition MAX_HEALTH_RESPONSE_BYTES :: nat where "MAX_HEALTH_RESPONSE_BYTES = 64 * 1024"
definition MAX_JWKS_RESPONSE_BYTES :: nat where "MAX_JWKS_RESPONSE_BYTES = 256 * 1024"

text \<open>Whether a health body proves the service ready (for Desk: self-hosted, for this one organisation).\<close>

definition health_valid :: "TenantServiceKind \<Rightarrow> string \<Rightarrow> jsval \<Rightarrow> bool" where
  "health_valid service orgId body =
     (let deployment = prop_of body ''deployment''
      in if service = DESK_TASKS
         then prop_of body ''ok'' = JBool True \<and> plain_object deployment \<and>
              prop_of deployment ''mode'' = JStr ''self-hosted'' \<and>
              prop_of deployment ''tenancy'' = JStr ''single-organization'' \<and>
              prop_of deployment ''realmId'' = JStr orgId
         else if service = COLLAB
         then prop_of body ''status'' = JStr ''ready'' \<and> prop_of body ''service'' = JStr ''hara-collab''
         else prop_of body ''status'' = JStr ''ok'' \<or> prop_of body ''status'' = JStr ''ready'' \<or>
              prop_of body ''ok'' = JBool True)"

definition verifyHealth ::
  "('g, 'd) Sys \<Rightarrow> TenantServiceBinding \<Rightarrow> (('g, 'd, 'x) World_scheme, unit) act" where
  "verifyHealth sy row =
     bindA (probe sy (sb_apiOrigin row @ healthPath (sb_service row)) MAX_HEALTH_RESPONSE_BYTES) (\<lambda>response.
     thenA (throwUnless (hr_ok response) (BadGateway ''organization service readiness check failed''))
    (bindA (liftR (readJson response MAX_HEALTH_RESPONSE_BYTES ''organization service readiness check failed'')) (\<lambda>body.
     throwUnless (health_valid (sb_service row) (sb_orgId row) body)
       (BadGateway ''organization service readiness check failed''))))"

definition jwks_key_ok :: "jsval \<Rightarrow> bool" where
  "jwks_key_ok key = (case key of JObj kvs \<Rightarrow> ''d'' \<notin> fst ` set kvs | _ \<Rightarrow> False)"

definition verifyJwks ::
  "('g, 'd) Sys \<Rightarrow> string \<Rightarrow> (('g, 'd, 'x) World_scheme, unit) act" where
  "verifyJwks sy url =
     bindA (probe sy url MAX_JWKS_RESPONSE_BYTES) (\<lambda>response.
     thenA (throwUnless (hr_ok response) (BadGateway ''organization service JWKS check failed''))
    (bindA (liftR (readJson response MAX_JWKS_RESPONSE_BYTES ''organization service JWKS check failed'')) (\<lambda>body.
     throwUnless (case prop_of body ''keys'' of
                    JArr ks \<Rightarrow> 1 \<le> length ks \<and> length ks \<le> 20 \<and> list_all jwks_key_ok ks
                  | _ \<Rightarrow> False)
       (BadGateway ''organization service JWKS check failed''))))"

definition find_bindingS ::
  "string \<Rightarrow> TenantServiceKind \<Rightarrow> (('g, 'd, 'x) World_scheme, TenantServiceBinding) act" where
  "find_bindingS orgId service =
     bindA (readS (\<lambda>w. find_binding orgId service (w_bindings w))) (\<lambda>row.
     case row of None \<Rightarrow> throwA (NotFound ''organization service not found'') | Some b \<Rightarrow> retA b)"

text \<open>The locked transaction that records a probe, only if the probed configuration is still in place.\<close>

definition commit_tx ::
  "TenantServiceBinding \<Rightarrow> TenantServiceStatus \<Rightarrow> time option \<Rightarrow> time \<Rightarrow> ('g, 'd, 'x) World_scheme \<Rightarrow>
     (TenantServiceBinding option \<times> ('g, 'd, 'x) World_scheme) res" where
  "commit_tx probed status verifiedAt now w =
     (case find_binding (sb_orgId probed) (sb_service probed) (w_bindings w) of
        None \<Rightarrow> Inr (None, w)
      | Some current \<Rightarrow>
          if sb_id current \<noteq> sb_id probed \<or> sb_configVersion current \<noteq> sb_configVersion probed
          then Inr (None, w)
          else let row = current\<lparr>sb_status := status, sb_verifiedAt := verifiedAt, sb_updatedAt := now\<rparr>
               in Inr (Some row, update_binding (sb_id current) (\<lambda>_. row) w))"

definition commitVerificationResult ::
  "TenantServiceBinding \<Rightarrow> TenantServiceStatus \<Rightarrow> time option \<Rightarrow> time \<Rightarrow>
     (('g, 'd, 'x) World_scheme, TenantServiceBinding option) act" where
  "commitVerificationResult probed status verifiedAt now = txS (commit_tx probed status verifiedAt now)"

definition verify_checks ::
  "('g, 'd) Sys \<Rightarrow> TenantServiceBinding \<Rightarrow> (('g, 'd, 'x) World_scheme, unit) act" where
  "verify_checks sy row =
     thenA (throwUnless (\<not> (sb_service row = DESK_TASKS \<and> nullish (sb_credentialRef row) [] = []))
              (BadRequest ''DESK_TASKS requires an encrypted enrollment credential''))
    (thenA (whenA (sb_service row = DESK_TASKS)
              (bindA (catchA (getSecret (sb_orgId row) (nullish (sb_credentialRef row) []))
                        (\<lambda>_. retA None)) (\<lambda>credential.
               throwUnless (case credential of None \<Rightarrow> False | Some c \<Rightarrow> 1 \<le> utf8_length c \<and> utf8_length c \<le> 4096)
                 (BadGateway ''Hara Desk enrollment credential is not readable''))))
    (thenA (verifyHealth sy row)
           (case sb_jwksUri row of None \<Rightarrow> retA () | Some u \<Rightarrow> if u = [] then retA () else verifyJwks sy u)))"

definition superseded :: http_error where
  "superseded = Conflict ''organization service changed while its previous configuration was being verified''"

definition verify_binding ::
  "('g, 'd) Sys \<Rightarrow> string \<Rightarrow> time \<Rightarrow> string \<Rightarrow> string \<Rightarrow> AuthedUser \<Rightarrow>
     (('g, 'd, 'x) World_scheme, PublicTenantServiceBinding) act" where
  "verify_binding sy auId now orgId rawService actor =
     bindA (liftR (serviceKind rawService)) (\<lambda>service.
     bindA (find_bindingS orgId service) (\<lambda>row.
     thenA (catchA (verify_checks sy row) (\<lambda>e.
              bindA (commitVerificationResult row DEGRADED None now) (\<lambda>degraded.
              case degraded of
                None \<Rightarrow> throwA superseded
              | Some d \<Rightarrow>
                  thenA (binding_log sy auId now orgId ''tenant-service.verify-failed'' actor
                           [(''service'', JStr (service_name service)), (''status'', JStr ''DEGRADED''),
                            (''configVersion'', JNum (num (sb_configVersion d)))])
                        (throwA e))))
    (bindA (commitVerificationResult row ACTIVE (Some now) now) (\<lambda>verified.
     case verified of
       None \<Rightarrow> throwA superseded
     | Some v \<Rightarrow>
         thenA (binding_log sy auId now orgId ''tenant-service.verify'' actor
                  [(''service'', JStr (service_name service)), (''status'', JStr ''ACTIVE''),
                   (''configVersion'', JNum (num (sb_configVersion v)))])
               (retA (publicBinding v))))))"

definition disable_tx ::
  "string \<Rightarrow> TenantServiceKind \<Rightarrow> time \<Rightarrow> ('g, 'd, 'x) World_scheme \<Rightarrow>
     (TenantServiceBinding \<times> ('g, 'd, 'x) World_scheme) res" where
  "disable_tx orgId service now w =
     (case find_binding orgId service (w_bindings w) of
        None \<Rightarrow> Inl (NotFound ''organization service not found'')
      | Some row \<Rightarrow>
          throwIf (service = DESK_TASKS \<and> hasProvisionedDeskDevices orgId w)
            (Conflict ''revoke every provisioned Desk device before disabling this organization binding'')
           (let row' = row\<lparr>sb_status := DISABLED, sb_configVersion := sb_configVersion row + 1,
                        sb_verifiedAt := None, sb_updatedAt := now\<rparr>
            in Inr (row', update_binding (sb_id row) (\<lambda>_. row') w)))"

definition disable_binding ::
  "('g, 'd) Sys \<Rightarrow> string \<Rightarrow> time \<Rightarrow> string \<Rightarrow> string \<Rightarrow> AuthedUser \<Rightarrow>
     (('g, 'd, 'x) World_scheme, PublicTenantServiceBinding) act" where
  "disable_binding sy auId now orgId rawService actor =
     bindA (liftR (serviceKind rawService)) (\<lambda>service.
     bindA (txS (disable_tx orgId service now)) (\<lambda>disabled.
     thenA (binding_log sy auId now orgId ''tenant-service.disable'' actor
              [(''service'', JStr (service_name service)), (''status'', JStr ''DISABLED''),
               (''configVersion'', JNum (num (sb_configVersion disabled)))])
           (retA (publicBinding disabled))))"

subsection \<open>What enrollment and revocation read\<close>

definition truthyStr :: "string option \<Rightarrow> string option" where
  "truthyStr s = (if s = Some [] then None else s)"

definition enrollmentBinding :: "TenantServiceBinding \<Rightarrow> EnrollmentServiceBinding" where
  "enrollmentBinding row =
     \<lparr>eb_tenant_id = sb_orgId row, eb_service = sb_service row, eb_mode = sb_mode row,
      eb_account_region = sb_accountRegion row, eb_api_origin = sb_apiOrigin row,
      eb_issuer = truthyStr (sb_issuer row), eb_jwks_uri = truthyStr (sb_jwksUri row),
      eb_audience = truthyStr (sb_audience row), eb_capabilities_version = sb_capabilitiesVersion row,
      eb_config_version = sb_configVersion row\<rparr>"

definition activeForEnrollment :: "string \<Rightarrow> (('g, 'd, 'x) World_scheme, EnrollmentServiceBinding list) act" where
  "activeForEnrollment orgId =
     readS (\<lambda>w. map enrollmentBinding (sort_key (\<lambda>b. service_rank (sb_service b))
       (filter (\<lambda>b. sb_orgId b = orgId \<and> sb_status b = ACTIVE) (w_bindings w))))"

definition readable_credential :: "string option \<Rightarrow> bool" where
  "readable_credential k = (case k of None \<Rightarrow> False | Some c \<Rightarrow> 1 \<le> utf8_length c \<and> utf8_length c \<le> 4096)"

definition resolve_target ::
  "string \<Rightarrow> TenantServiceBinding \<Rightarrow> string \<Rightarrow> string \<Rightarrow>
     (('g, 'd, 'x) World_scheme, DeskProvisioningResolution) act" where
  "resolve_target orgId row noRef unreadable =
     thenA (throwUnless (nullish (sb_credentialRef row) [] \<noteq> []) (PlainError noRef))
    (bindA (getSecret orgId (nullish (sb_credentialRef row) [])) (\<lambda>enrollKey.
     thenA (throwUnless (readable_credential enrollKey) (PlainError unreadable))
           (retA \<lparr>rs_managedConfigured = True,
                  rs_target = Some \<lparr>tg_url = sb_apiOrigin row, tg_enrollKey = the enrollKey\<rparr>\<rparr>)))"

definition deskProvisioningResolution ::
  "string \<Rightarrow> (('g, 'd, 'x) World_scheme, DeskProvisioningResolution) act" where
  "deskProvisioningResolution orgId =
     bindA (readS (\<lambda>w. find_binding orgId DESK_TASKS (w_bindings w))) (\<lambda>row.
     case row of
       None \<Rightarrow> retA \<lparr>rs_managedConfigured = False, rs_target = None\<rparr>
     | Some b \<Rightarrow>
         if sb_status b \<noteq> ACTIVE then retA \<lparr>rs_managedConfigured = True, rs_target = None\<rparr>
         else resolve_target orgId b ''active Hara Desk binding has no enrollment credential reference''
                ''active Hara Desk binding has no readable enrollment credential'')"

definition deskProvisioningTarget :: "string \<Rightarrow> (('g, 'd, 'x) World_scheme, DeskTarget option) act" where
  "deskProvisioningTarget orgId = bindA (deskProvisioningResolution orgId) (\<lambda>r. retA (rs_target r))"

definition deskRevocationResolution ::
  "('g, 'd) Sys \<Rightarrow> string \<Rightarrow> string \<Rightarrow> (('g, 'd, 'x) World_scheme, DeskProvisioningResolution) act" where
  "deskRevocationResolution sy orgId expectedOrigin =
     bindA (liftR (normalizeUrl (sy_newURL sy) (Some expectedOrigin) ''expected Desk origin'' True)) (\<lambda>expected.
     thenA (throwUnless (nullish expected [] \<noteq> []) (BadRequest ''expected Desk origin is required for revocation''))
    (bindA (readS (\<lambda>w. find_binding orgId DESK_TASKS (w_bindings w))) (\<lambda>row.
     case row of
       None \<Rightarrow> retA \<lparr>rs_managedConfigured = False, rs_target = None\<rparr>
     | Some b \<Rightarrow>
         thenA (throwUnless (sb_apiOrigin b = nullish expected [])
                  (Conflict ''managed Hara Desk binding does not match the enrolled installation origin''))
               (resolve_target orgId b ''managed Hara Desk binding has no enrollment credential reference''
                  ''managed Hara Desk binding has no readable enrollment credential''))))"

subsection \<open>Reserving a Desk installation\<close>

definition mark_pending :: "string \<Rightarrow> time \<Rightarrow> string \<Rightarrow> Device \<Rightarrow> Device" where
  "mark_pending owner preparedAt origin d =
     d\<lparr>dv_deskProvisionedAt := None, dv_deskCleanupPendingAt := Some preparedAt,
       dv_deskOwner := Some owner, dv_deskOrigin := Some origin\<rparr>"

text \<open>The locked transaction of \<^verbatim>\<open>reserveDeskProvisioning\<close>; the result is what the code calls \<^verbatim>\<open>captured\<close>.\<close>

datatype captured =
    Plain bool bool
  | WithCredential string string

definition reserve_tx ::
  "string \<Rightarrow> string \<Rightarrow> string \<Rightarrow> time \<Rightarrow> string option \<Rightarrow> ('g, 'd, 'x) World_scheme \<Rightarrow>
     (captured \<times> ('g, 'd, 'x) World_scheme) res" where
  "reserve_tx orgId deviceId owner preparedAt legacyOrigin w =
     (case find_binding orgId DESK_TASKS (w_bindings w) of
        Some row \<Rightarrow>
          if sb_status row \<noteq> ACTIVE then Inr (Plain True False, w)
          else if nullish (sb_credentialRef row) [] = []
          then Inl (PlainError ''active Hara Desk binding has no enrollment credential reference'')
          else if \<not> (\<exists>d \<in> set (w_devices w). dv_id d = deviceId)
          then Inl (PlainError ''Record to update not found.'')
          else Inr (WithCredential (sb_apiOrigin row) (the (sb_credentialRef row)),
                    update_device deviceId (mark_pending owner preparedAt (sb_apiOrigin row)) w)
      | None \<Rightarrow>
          if nullish legacyOrigin [] = [] then Inr (Plain False False, w)
          else if \<not> (\<exists>d \<in> set (w_devices w). dv_id d = deviceId)
          then Inl (PlainError ''Record to update not found.'')
          else Inr (Plain False True, update_device deviceId (mark_pending owner preparedAt (the legacyOrigin)) w))"

definition clear_tx ::
  "string \<Rightarrow> string \<Rightarrow> string \<Rightarrow> string \<Rightarrow> ('g, 'd, 'x) World_scheme \<Rightarrow>
     (unit \<times> ('g, 'd, 'x) World_scheme) res" where
  "clear_tx orgId deviceId owner origin w =
     Inr ((), w\<lparr>w_devices := update_where
       (\<lambda>d. dv_id d = deviceId \<and> dv_orgId d = orgId \<and> dv_deskProvisionedAt d = None \<and>
            dv_deskCleanupPendingAt d \<noteq> None \<and> dv_deskOwner d = Some owner \<and> dv_deskOrigin d = Some origin)
       (\<lambda>d. d\<lparr>dv_deskCleanupPendingAt := None, dv_deskOwner := None, dv_deskOrigin := None\<rparr>) (w_devices w)\<rparr>)"

definition clearDeskProvisioningReservation ::
  "string \<Rightarrow> string \<Rightarrow> string \<Rightarrow> string \<Rightarrow> (('g, 'd, 'x) World_scheme, unit) act" where
  "clearDeskProvisioningReservation orgId deviceId owner origin = txS (clear_tx orgId deviceId owner origin)"

definition reserveDeskProvisioning ::
  "string \<Rightarrow> string \<Rightarrow> string \<Rightarrow> time \<Rightarrow> string option \<Rightarrow>
     (('g, 'd, 'x) World_scheme, DeskProvisioningReservation) act" where
  "reserveDeskProvisioning orgId deviceId owner preparedAt legacyOrigin =
     bindA (txS (reserve_tx orgId deviceId owner preparedAt legacyOrigin)) (\<lambda>captured.
     case captured of
       Plain managed prepared \<Rightarrow> retA \<lparr>rs_managedConfigured = managed, rs_target = None, rs_prepared = prepared\<rparr>
     | WithCredential url ref \<Rightarrow>
         catchA
           (bindA (getSecret orgId ref) (\<lambda>enrollKey.
            thenA (throwUnless (readable_credential enrollKey)
                     (PlainError ''active Hara Desk binding has no readable enrollment credential''))
                  (retA \<lparr>rs_managedConfigured = True,
                         rs_target = Some \<lparr>tg_url = url, tg_enrollKey = the enrollKey\<rparr>, rs_prepared = True\<rparr>)))
           (\<lambda>e. thenA (ignoreErrors (clearDeskProvisioningReservation orgId deviceId owner url)) (throwA e)))"

subsection \<open>Interleaved transactions\<close>

text \<open>
  The transactions that touch bindings or the Desk columns of devices, in any order and by any number of
  concurrent requests: each holds the advisory lock of its organisation and service, so each is one step.
  A reservation names a device of the same organisation (enrollment creates it there); a registration is
  finalised only on a device that is still reserved for that origin; a revocation clears the columns.
\<close>

definition holds_desk :: "Device \<Rightarrow> bool" where
  "holds_desk d \<longleftrightarrow> dv_deskProvisionedAt d \<noteq> None \<or> dv_deskCleanupPendingAt d \<noteq> None"

definition finalize_desk :: "time \<Rightarrow> string \<Rightarrow> string \<Rightarrow> Device \<Rightarrow> Device" where
  "finalize_desk now owner origin d =
     d\<lparr>dv_deskProvisionedAt := Some now, dv_deskCleanupPendingAt := None, dv_deskOwner := Some owner,
       dv_deskOrigin := Some origin\<rparr>"

definition clear_desk :: "Device \<Rightarrow> Device" where
  "clear_desk d =
     d\<lparr>dv_deskProvisionedAt := None, dv_deskCleanupPendingAt := None, dv_deskOwner := None, dv_deskOrigin := None\<rparr>"

inductive binding_step :: "('g, 'd) World \<Rightarrow> ('g, 'd) World \<Rightarrow> bool" where
  upsert_step: "upsert_tx newId now orgId service input valid newRef w = Inr (x, w') \<Longrightarrow>
     newId \<notin> sb_id ` set (w_bindings w) \<Longrightarrow> binding_step w w'"
| commit_step: "commit_tx probed status verifiedAt now w = Inr (x, w') \<Longrightarrow> binding_step w w'"
| disable_step: "disable_tx orgId service now w = Inr (x, w') \<Longrightarrow> binding_step w w'"
| reserve_step: "reserve_tx orgId deviceId owner preparedAt legacyOrigin w = Inr (x, w') \<Longrightarrow>
     \<forall>d \<in> set (w_devices w). dv_id d = deviceId \<longrightarrow> dv_orgId d = orgId \<Longrightarrow> binding_step w w'"
| clear_step: "clear_tx orgId deviceId owner origin w = Inr (x, w') \<Longrightarrow> binding_step w w'"
| finalize_step: "\<forall>d \<in> set (w_devices w). dv_id d = deviceId \<longrightarrow> holds_desk d \<and> dv_deskOrigin d = Some origin \<Longrightarrow>
     w' = update_device deviceId (finalize_desk now owner origin) w \<Longrightarrow> binding_step w w'"
| revoke_step: "w' = update_device deviceId clear_desk w \<Longrightarrow> binding_step w w'"
| enroll_step: "\<not> holds_desk d \<Longrightarrow> w' = w\<lparr>w_devices := w_devices w @ [d]\<rparr> \<Longrightarrow> binding_step w w'"
| delete_step: "w' = w\<lparr>w_devices := filter (\<lambda>d. dv_id d \<noteq> deviceId) (w_devices w)\<rparr> \<Longrightarrow> binding_step w w'"

inductive_cases binding_stepE: "binding_step w w'"

definition unique_bindings :: "TenantServiceBinding list \<Rightarrow> bool" where
  "unique_bindings bs \<longleftrightarrow>
     distinct (map sb_id bs) \<and> distinct (map (\<lambda>b. (sb_orgId b, sb_service b)) bs)"

definition desk_provenance :: "('g, 'd, 'x) World_scheme \<Rightarrow> bool" where
  "desk_provenance w \<longleftrightarrow>
     (\<forall>d \<in> set (w_devices w). holds_desk d \<longrightarrow>
        (\<exists>origin. dv_deskOrigin d = Some origin \<and>
           (\<forall>b. find_binding (dv_orgId d) DESK_TASKS (w_bindings w) = Some b \<longrightarrow> sb_apiOrigin b = origin)))"

lemma find_binding_Some:
  "find_binding orgId service bs = Some b \<Longrightarrow> b \<in> set bs \<and> sb_orgId b = orgId \<and> sb_service b = service"
  by (auto simp: find_binding_def find_Some_iff)

lemma find_binding_replace:
  assumes "distinct (map sb_id bs)" "find_binding orgId service bs = Some old"
    "sb_orgId row = orgId" "sb_service row = service"
  shows "find_binding o2 s2 (update_where (\<lambda>b. sb_id b = sb_id old) (\<lambda>_. row) bs) =
    (if o2 = orgId \<and> s2 = service then Some row else find_binding o2 s2 bs)"
  using assms
proof (induction bs)
  case (Cons b bs)
  show ?case
  proof (cases "sb_orgId b = orgId \<and> sb_service b = service")
    case True
    then have "b = old" using Cons.prems(2) by (simp add: find_binding_def)
    moreover have "update_where (\<lambda>b'. sb_id b' = sb_id b) (\<lambda>_. row) bs = bs"
      using Cons.prems(1) by (intro update_where_none) (auto simp: image_iff)
    ultimately show ?thesis using True Cons.prems(3,4) by (auto simp: find_binding_def update_where_def)
  next
    case False
    then have f: "find_binding orgId service bs = Some old" using Cons.prems(2) by (auto simp: find_binding_def)
    then have "sb_id b \<noteq> sb_id old" using Cons.prems(1) find_binding_Some [OF f] by (auto simp: image_iff)
    with Cons.IH Cons.prems f show ?thesis by (auto simp: find_binding_def update_where_def)
  qed
qed (simp add: find_binding_def)

lemma find_binding_snoc:
  "find_binding o2 s2 (bs @ [row]) =
     (if find_binding o2 s2 bs = None \<and> sb_orgId row = o2 \<and> sb_service row = s2 then Some row
      else find_binding o2 s2 bs)"
  by (induction bs) (auto simp: find_binding_def)

lemma not_provisioned:
  "\<not> hasProvisionedDeskDevices orgId w \<longleftrightarrow> (\<forall>d \<in> set (w_devices w). dv_orgId d = orgId \<longrightarrow> \<not> holds_desk d)"
  by (auto simp: hasProvisionedDeskDevices_def count_where_def holds_desk_def filter_empty_conv)

text \<open>How a step changes the bindings: not at all, one row appended under a fresh id, or one row replaced.\<close>

definition config_of :: "TenantServiceBinding \<Rightarrow> TenantServiceBinding" where
  "config_of b = b\<lparr>sb_status := PENDING_VERIFICATION, sb_verifiedAt := None, sb_updatedAt := 0\<rparr>"

definition replaces :: "TenantServiceBinding \<Rightarrow> TenantServiceBinding \<Rightarrow> bool" where
  "replaces old row \<longleftrightarrow> sb_id row = sb_id old \<and> sb_orgId row = sb_orgId old \<and> sb_service row = sb_service old \<and>
     (config_of row = config_of old \<or> sb_configVersion old < sb_configVersion row)"

lemma binding_step_bindings:
  assumes "binding_step w w'"
  shows "w_bindings w' = w_bindings w \<or>
    (\<exists>row. w_bindings w' = w_bindings w @ [row] \<and> sb_id row \<notin> sb_id ` set (w_bindings w) \<and>
       find_binding (sb_orgId row) (sb_service row) (w_bindings w) = None \<and> w_devices w' = w_devices w \<and>
       (sb_service row = DESK_TASKS \<longrightarrow> \<not> hasProvisionedDeskDevices (sb_orgId row) w)) \<or>
    (\<exists>old row. find_binding (sb_orgId old) (sb_service old) (w_bindings w) = Some old \<and> replaces old row \<and>
       w_bindings w' = update_where (\<lambda>b. sb_id b = sb_id old) (\<lambda>_. row) (w_bindings w) \<and>
       w_devices w' = w_devices w \<and>
       (sb_apiOrigin row \<noteq> sb_apiOrigin old \<longrightarrow> sb_service row = DESK_TASKS \<longrightarrow>
          \<not> hasProvisionedDeskDevices (sb_orgId row) w))"
  using assms
proof cases
  case (upsert_step newId now orgId service input valid newRef x)
  show ?thesis
  proof (cases "find_binding orgId service (w_bindings w)")
    case None
    with upsert_step show ?thesis
      by (auto simp: upsert_tx_def Let_def throwIf_eq_Inr split: prod.splits)
  next
    case (Some old)
    note old = find_binding_Some [OF Some]
    have "\<exists>row. w_bindings w' = update_where (\<lambda>b. sb_id b = sb_id old) (\<lambda>_. row) (w_bindings w) \<and>
        w_devices w' = w_devices w \<and> sb_id row = sb_id old \<and> sb_orgId row = orgId \<and> sb_service row = service \<and>
        sb_configVersion row = sb_configVersion old + 1 \<and>
        (service = DESK_TASKS \<longrightarrow> \<not> hasProvisionedDeskDevices orgId w)"
      using upsert_step(1) Some old
      by (cases valid) (auto simp: upsert_tx_def Let_def throwIf_eq_Inr intro!: exI)
    then obtain row where "w_bindings w' = update_where (\<lambda>b. sb_id b = sb_id old) (\<lambda>_. row) (w_bindings w)"
        "w_devices w' = w_devices w" "replaces old row" "sb_service row = service" "sb_orgId row = orgId"
        "service = DESK_TASKS \<longrightarrow> \<not> hasProvisionedDeskDevices orgId w"
      using old by (auto simp: replaces_def)
    with Some old show ?thesis by (intro disjI2 exI [of _ old] exI [of _ row]) simp
  qed
next
  case (commit_step probed status verifiedAt now x)
  show ?thesis
  proof (cases "w_bindings w' = w_bindings w")
    case False
    with commit_step obtain current row where c:
      "find_binding (sb_orgId probed) (sb_service probed) (w_bindings w) = Some current"
      "row = current\<lparr>sb_status := status, sb_verifiedAt := verifiedAt, sb_updatedAt := now\<rparr>"
      "w' = update_binding (sb_id current) (\<lambda>_. row) w"
      by (auto simp: commit_tx_def Let_def split: option.splits if_splits)
    with find_binding_Some [OF c(1)] show ?thesis
      by (intro disjI2 exI [of _ current] exI [of _ row]) (simp add: replaces_def config_of_def)
  qed simp
next
  case (disable_step orgId service now x)
  then obtain old row where c: "find_binding orgId service (w_bindings w) = Some old"
      "row = old\<lparr>sb_status := DISABLED, sb_configVersion := sb_configVersion old + 1, sb_verifiedAt := None,
         sb_updatedAt := now\<rparr>" "w' = update_binding (sb_id old) (\<lambda>_. row) w"
    by (auto simp: disable_tx_def Let_def throwIf_eq_Inr split: option.splits)
  with find_binding_Some [OF c(1)] show ?thesis
    by (intro disjI2 exI [of _ old] exI [of _ row]) (simp add: replaces_def)
qed (auto simp: reserve_tx_def clear_tx_def split: option.splits if_splits)

lemma binding_step_bindings_cases [consumes 1, case_names same created replaced]:
  assumes "binding_step w w'"
    "w_bindings w' = w_bindings w \<Longrightarrow> P"
    "\<And>row. w_bindings w' = w_bindings w @ [row] \<Longrightarrow> sb_id row \<notin> sb_id ` set (w_bindings w) \<Longrightarrow>
       find_binding (sb_orgId row) (sb_service row) (w_bindings w) = None \<Longrightarrow> w_devices w' = w_devices w \<Longrightarrow>
       (sb_service row = DESK_TASKS \<Longrightarrow> \<not> hasProvisionedDeskDevices (sb_orgId row) w) \<Longrightarrow> P"
    "\<And>old row. find_binding (sb_orgId old) (sb_service old) (w_bindings w) = Some old \<Longrightarrow> replaces old row \<Longrightarrow>
       w_bindings w' = update_where (\<lambda>b. sb_id b = sb_id old) (\<lambda>_. row) (w_bindings w) \<Longrightarrow>
       w_devices w' = w_devices w \<Longrightarrow>
       (sb_apiOrigin row \<noteq> sb_apiOrigin old \<Longrightarrow> sb_service row = DESK_TASKS \<Longrightarrow>
          \<not> hasProvisionedDeskDevices (sb_orgId row) w) \<Longrightarrow> P"
  shows P
  using binding_step_bindings [OF assms(1)] assms(2-4) by (elim disjE exE conjE) simp_all

lemma unique_binding_id:
  "unique_bindings bs \<Longrightarrow> a \<in> set bs \<Longrightarrow> b \<in> set bs \<Longrightarrow> sb_id a = sb_id b \<Longrightarrow> a = b"
  unfolding unique_bindings_def distinct_map by (meson inj_onD)

lemma unique_bindings_replace:
  assumes "unique_bindings bs" "old \<in> set bs" "replaces old row"
  shows "unique_bindings (update_where (\<lambda>b. sb_id b = sb_id old) (\<lambda>_. row) bs)"
proof -
  have "map sb_id (update_where (\<lambda>b. sb_id b = sb_id old) (\<lambda>_. row) bs) = map sb_id bs"
    using assms(3) by (auto simp: update_where_def replaces_def)
  moreover have "b = old" if "b \<in> set bs" "sb_id b = sb_id old" for b
    using unique_binding_id [OF assms(1) that(1) assms(2) that(2)] .
  then have "map (\<lambda>b. (sb_orgId b, sb_service b)) (update_where (\<lambda>b. sb_id b = sb_id old) (\<lambda>_. row) bs) =
      map (\<lambda>b. (sb_orgId b, sb_service b)) bs"
    using assms(3) by (auto simp: update_where_def replaces_def)
  ultimately show ?thesis using assms(1) by (simp add: unique_bindings_def)
qed

lemma unique_bindings_snoc:
  assumes "unique_bindings bs" "sb_id row \<notin> sb_id ` set bs"
    "find_binding (sb_orgId row) (sb_service row) bs = None"
  shows "unique_bindings (bs @ [row])"
  using assms by (auto simp: unique_bindings_def find_binding_def find_None_iff)

lemma binding_step_unique:
  assumes "binding_step w w'" "unique_bindings (w_bindings w)"
  shows "unique_bindings (w_bindings w')"
  using assms(1)
proof (cases rule: binding_step_bindings_cases)
  case (created row)
  then show ?thesis using unique_bindings_snoc [OF assms(2)] by simp
next
  case (replaced old row)
  then show ?thesis using unique_bindings_replace [OF assms(2)] find_binding_Some [OF replaced(1)] by simp
qed (use assms(2) in simp)

text \<open>A device row keeps its provenance when only its Desk columns, or other rows, change.\<close>

definition provenance_of :: "TenantServiceBinding list \<Rightarrow> Device \<Rightarrow> bool" where
  "provenance_of bs d \<longleftrightarrow> (holds_desk d \<longrightarrow> (\<exists>origin. dv_deskOrigin d = Some origin \<and>
     (\<forall>b. find_binding (dv_orgId d) DESK_TASKS bs = Some b \<longrightarrow> sb_apiOrigin b = origin)))"

lemma desk_provenance_iff: "desk_provenance w \<longleftrightarrow> (\<forall>d \<in> set (w_devices w). provenance_of (w_bindings w) d)"
  by (auto simp: desk_provenance_def provenance_of_def)

lemma provenance_update:
  assumes "\<forall>d \<in> set ds. provenance_of bs d" "\<And>d. d \<in> set ds \<Longrightarrow> p d \<Longrightarrow> provenance_of bs (f d)"
  shows "\<forall>d \<in> set (update_where p f ds). provenance_of bs d"
  using assms by (auto simp: in_update_where)

lemma provenance_mark_pending:
  assumes "\<And>b. find_binding (dv_orgId d) DESK_TASKS bs = Some b \<Longrightarrow> sb_apiOrigin b = origin"
  shows "provenance_of bs (mark_pending owner t origin d)"
  using assms by (simp add: provenance_of_def mark_pending_def)

lemma provenance_bindings:
  assumes "unique_bindings (w_bindings w)" "\<forall>d \<in> set (w_devices w). provenance_of (w_bindings w) d"
    "find_binding (sb_orgId old) (sb_service old) (w_bindings w) = Some old" "replaces old row"
    "sb_apiOrigin row \<noteq> sb_apiOrigin old \<longrightarrow> sb_service row = DESK_TASKS \<longrightarrow> \<not> hasProvisionedDeskDevices (sb_orgId row) w"
  shows "\<forall>d \<in> set (w_devices w). provenance_of (update_where (\<lambda>b. sb_id b = sb_id old) (\<lambda>_. row) (w_bindings w)) d"
proof
  fix d assume d: "d \<in> set (w_devices w)"
  have f: "find_binding o2 s2 (update_where (\<lambda>b. sb_id b = sb_id old) (\<lambda>_. row) (w_bindings w)) =
      (if o2 = sb_orgId old \<and> s2 = sb_service old then Some row else find_binding o2 s2 (w_bindings w))" for o2 s2
    using find_binding_replace [OF _ assms(3)] assms(1,4) by (simp add: unique_bindings_def replaces_def)
  show "provenance_of (update_where (\<lambda>b. sb_id b = sb_id old) (\<lambda>_. row) (w_bindings w)) d"
  proof (cases "dv_orgId d = sb_orgId old \<and> sb_service old = DESK_TASKS")
    case False
    then have "find_binding (dv_orgId d) DESK_TASKS (update_where (\<lambda>b. sb_id b = sb_id old) (\<lambda>_. row) (w_bindings w)) =
        find_binding (dv_orgId d) DESK_TASKS (w_bindings w)" using f by auto
    then show ?thesis using assms(2) d by (simp add: provenance_of_def)
  next
    case True
    then have now: "find_binding (dv_orgId d) DESK_TASKS (update_where (\<lambda>b. sb_id b = sb_id old) (\<lambda>_. row) (w_bindings w)) = Some row"
      using f by simp
    have before: "find_binding (dv_orgId d) DESK_TASKS (w_bindings w) = Some old" using True assms(3) by simp
    show ?thesis
    proof (cases "holds_desk d")
      case held: True
      then have "hasProvisionedDeskDevices (sb_orgId row) w"
        using d True assms(4) not_provisioned [of "sb_orgId row" w] by (auto simp: replaces_def)
      then have "sb_apiOrigin row = sb_apiOrigin old"
        using assms(4,5) True by (auto simp: replaces_def)
      then show ?thesis using assms(2) d before now by (auto simp: provenance_of_def)
    qed (simp add: provenance_of_def)
  qed
qed

lemma provenance_finalize:
  "provenance_of bs d \<Longrightarrow> holds_desk d \<Longrightarrow> dv_deskOrigin d = Some origin \<Longrightarrow>
     provenance_of bs (finalize_desk now owner origin d)"
  by (simp add: provenance_of_def finalize_desk_def)

lemma binding_step_provenance:
  assumes step: "binding_step w w'" and u: "unique_bindings (w_bindings w)" and p: "desk_provenance w"
  shows "desk_provenance w'"
proof -
  from p have p: "\<forall>d \<in> set (w_devices w). provenance_of (w_bindings w) d" by (simp add: desk_provenance_iff)
  from step show ?thesis
  proof (cases rule: binding_step_bindings_cases)
    case (created row)
    with p show ?thesis
      by (auto simp: desk_provenance_iff provenance_of_def find_binding_snoc not_provisioned split: if_splits)
  next
    case (replaced old row)
    then show ?thesis using provenance_bindings [OF u p replaced(1,2)] by (simp add: desk_provenance_iff)
  next
    case same
    have "\<forall>d \<in> set (w_devices w'). provenance_of (w_bindings w) d"
      using step
    proof cases
      case (reserve_step orgId deviceId owner preparedAt legacyOrigin x)
      then show ?thesis
        using p by (auto simp: reserve_tx_def in_update_where split: option.splits if_splits
            intro!: provenance_mark_pending)
    next
      case (clear_step orgId deviceId owner origin x)
      then show ?thesis
        using p by (auto simp: clear_tx_def in_update_where provenance_of_def holds_desk_def)
    next
      case (finalize_step deviceId origin now owner)
      have "provenance_of (w_bindings w) (finalize_desk now owner origin d)"
        if "d \<in> set (w_devices w)" "dv_id d = deviceId" for d
        using provenance_finalize p finalize_step(1) that by blast
      from provenance_update [OF p this] show ?thesis unfolding finalize_step(2) by simp
    next
      case (revoke_step deviceId)
      then show ?thesis
        using p by (auto simp: in_update_where provenance_of_def holds_desk_def clear_desk_def)
    next
      case (enroll_step d)
      then show ?thesis using p by (auto simp: provenance_of_def)
    next
      case (upsert_step newId now orgId service input valid newRef x)
      then have "w_devices w' = w_devices w"
        by (cases valid) (auto simp: upsert_tx_def Let_def throwIf_eq_Inr split: option.splits)
      with p show ?thesis by simp
    next
      case (commit_step probed status verifiedAt now x)
      then have "w_devices w' = w_devices w"
        by (auto simp: commit_tx_def Let_def split: option.splits if_splits)
      with p show ?thesis by simp
    next
      case (disable_step orgId service now x)
      then have "w_devices w' = w_devices w"
        by (auto simp: disable_tx_def Let_def throwIf_eq_Inr split: option.splits)
      with p show ?thesis by simp
    next
      case (delete_step deviceId)
      with p show ?thesis by simp
    qed
    with same show ?thesis by (simp add: desk_provenance_iff)
  qed
qed


subsection \<open>The verification fence\<close>

definition still_or_newer :: "TenantServiceBinding \<Rightarrow> TenantServiceBinding list \<Rightarrow> bool" where
  "still_or_newer probed bs \<longleftrightarrow>
     (\<exists>b \<in> set bs. sb_id b = sb_id probed \<and>
        (config_of b = config_of probed \<or> sb_configVersion probed < sb_configVersion b))"

lemma config_version: "config_of a = config_of b \<Longrightarrow> sb_configVersion a = sb_configVersion b"
  unfolding config_of_def by (drule arg_cong [where f = sb_configVersion]) simp

lemma step_still_or_newer:
  assumes "binding_step w w'" "still_or_newer probed (w_bindings w)" "unique_bindings (w_bindings w)"
  shows "still_or_newer probed (w_bindings w')"
proof -
  from assms(2) obtain b where b: "b \<in> set (w_bindings w)" "sb_id b = sb_id probed"
      "config_of b = config_of probed \<or> sb_configVersion probed < sb_configVersion b"
    unfolding still_or_newer_def by blast
  from assms(1) show ?thesis
  proof (cases rule: binding_step_bindings_cases)
    case (replaced old row)
    show ?thesis
    proof (cases "sb_id b = sb_id old")
      case True
      have "b = old"
        using unique_binding_id [OF assms(3) b(1) _ True] find_binding_Some [OF replaced(1)] by simp
      then have "config_of row = config_of probed \<or> sb_configVersion probed < sb_configVersion row"
        using b(3) replaced(2) config_version [of row old] config_version [of old probed] by (auto simp: replaces_def)
      moreover have "row \<in> set (w_bindings w')" using replaced(3) b(1) True by (auto simp: in_update_where)
      ultimately show ?thesis using replaced(2) \<open>b = old\<close> b(2) by (auto simp: still_or_newer_def replaces_def)
    next
      case False
      then have "b \<in> set (w_bindings w')" using replaced(3) b(1) by (auto simp: in_update_where)
      with b show ?thesis unfolding still_or_newer_def by blast
    qed
  qed (use b in \<open>auto simp: still_or_newer_def\<close>)
qed

text \<open>
  Property C14. The probe fence: a verification reads a binding, probes the service it names for as long as
  it takes, and commits its verdict under the lock. Whatever other transactions ran in between, a verdict
  that is committed is about the configuration now stored: every field but the status columns is the one
  that was probed. So a binding is never activated by a probe of an earlier configuration.
\<close>

theorem verification_fence:
  assumes "probed \<in> set (w_bindings w)" "unique_bindings (w_bindings w)" "binding_step\<^sup>*\<^sup>* w w'"
    "commit_tx probed status verifiedAt now w' = Inr (Some row, w'')"
  shows "row = probed\<lparr>sb_status := status, sb_verifiedAt := verifiedAt, sb_updatedAt := now\<rparr> \<and>
    find_binding (sb_orgId probed) (sb_service probed) (w_bindings w'') = Some row"
proof -
  have inv: "still_or_newer probed (w_bindings w') \<and> unique_bindings (w_bindings w')"
    using assms(3)
  proof (induction rule: rtranclp_induct)
    case base
    show ?case using assms(1,2) by (auto simp: still_or_newer_def)
  next
    case (step y z)
    then show ?case using step_still_or_newer binding_step_unique by blast
  qed
  from assms(4) obtain current where c:
    "find_binding (sb_orgId probed) (sb_service probed) (w_bindings w') = Some current"
    "sb_id current = sb_id probed" "sb_configVersion current = sb_configVersion probed"
    "row = current\<lparr>sb_status := status, sb_verifiedAt := verifiedAt, sb_updatedAt := now\<rparr>"
    "w'' = update_binding (sb_id current) (\<lambda>_. row) w'"
    by (auto simp: commit_tx_def Let_def split: option.splits if_splits)
  from inv obtain b where b: "b \<in> set (w_bindings w')" "sb_id b = sb_id probed"
    "config_of b = config_of probed \<or> sb_configVersion probed < sb_configVersion b"
    unfolding still_or_newer_def by blast
  have "b = current"
    using unique_binding_id [of "w_bindings w'" b current] inv b(1,2) c(2) find_binding_Some [OF c(1)] by simp
  with b(3) c(3) have "config_of current = config_of probed" by simp
  then have "current\<lparr>sb_status := status, sb_verifiedAt := verifiedAt, sb_updatedAt := now\<rparr> =
      probed\<lparr>sb_status := status, sb_verifiedAt := verifiedAt, sb_updatedAt := now\<rparr>"
    unfolding config_of_def by (cases current, cases probed) simp
  moreover have "find_binding (sb_orgId probed) (sb_service probed) (w_bindings w'') = Some row"
    using find_binding_replace [OF _ c(1), of row] inv c(4,5) find_binding_Some [OF c(1)]
    by (simp add: unique_bindings_def)
  ultimately show ?thesis using c(4) by simp
qed

subsection \<open>Witnesses\<close>

definition sample_world :: "(unit, unit) World" where
  "sample_world =
     \<lparr>w_orgs = [\<lparr>org_id = ''c'', org_name = ''Acme'', org_type = COMPANY, org_parentId = None\<rparr>], w_persons = [],
      w_codes = [], w_devices = [], w_tokens = [], w_bindings = [], w_secrets = Map.empty, w_audits = [],
      w_script = [], w_gateway = (), w_desk = ()\<rparr>"

definition sample_input_dto :: UpsertTenantServiceBindingDto where
  "sample_input_dto =
     \<lparr>up_mode = CUSTOMER_HOSTED, up_accountRegion = GLOBAL, up_apiOrigin = ''https://desk.example'',
      up_issuer = None, up_jwksUri = None, up_audience = None, up_credential = Some ''k'',
      up_capabilitiesVersion = None\<rparr>"

definition sample_binding :: TenantServiceBinding where
  "sample_binding =
     \<lparr>sb_id = ''b1'', sb_orgId = ''c'', sb_service = DESK_TASKS, sb_mode = CUSTOMER_HOSTED,
      sb_accountRegion = GLOBAL, sb_apiOrigin = ''https://desk.example'', sb_issuer = None, sb_jwksUri = None,
      sb_audience = None, sb_credentialRef = Some ''ref'', sb_status = PENDING_VERIFICATION,
      sb_capabilitiesVersion = 1, sb_configVersion = 1, sb_verifiedAt = None, sb_createdAt = 5,
      sb_updatedAt = 5\<rparr>"

definition configured_world :: "(unit, unit) World" where
  "configured_world = sample_world\<lparr>w_bindings := [sample_binding]\<rparr>"

lemma sample_configured: "binding_step sample_world configured_world"
proof (rule upsert_step)
  show "upsert_tx ''b1'' 5 ''c'' DESK_TASKS sample_input_dto (''https://desk.example'', None, None, None)
      (Some ''ref'') sample_world = Inr ((sample_binding, None), configured_world)"
    by (simp add: upsert_tx_def sample_world_def configured_world_def sample_binding_def sample_input_dto_def find_binding_def
        hasProvisionedDeskDevices_def count_where_def throwIf_def nullish_def Let_def)
qed (simp add: sample_world_def)


theorem verification_fence_witness:
  "find_binding ''c'' DESK_TASKS
     (w_bindings (configured_world\<lparr>w_bindings := [sample_binding\<lparr>sb_status := ACTIVE, sb_verifiedAt := Some 9, sb_updatedAt := 9\<rparr>]\<rparr>)) =
   Some (sample_binding\<lparr>sb_status := ACTIVE, sb_verifiedAt := Some 9, sb_updatedAt := 9\<rparr>)"
  using verification_fence [of sample_binding configured_world configured_world ACTIVE "Some 9" 9
      "sample_binding\<lparr>sb_status := ACTIVE, sb_verifiedAt := Some 9, sb_updatedAt := 9\<rparr>"
      "configured_world\<lparr>w_bindings := [sample_binding\<lparr>sb_status := ACTIVE, sb_verifiedAt := Some 9, sb_updatedAt := 9\<rparr>]\<rparr>"]
  by (simp add: configured_world_def commit_tx_def sample_binding_def find_binding_def unique_bindings_def update_where_def Let_def)

end
