(* ===== verification/DeskProvisioner.thy ===== *)
theory DeskProvisioner
  imports ServiceBindings
begin

section \<open>Desk provisioning (enroll/desk-provisioner.ts)\<close>

text \<open>
  The client of the separately deployed Desk: the operator's legacy configuration, registration of an
  installation with its checks of the answer and its compensation, and revocation. The lemmas show what an
  accepted registration proves, that the enrollment secret of a managed binding goes to that binding's
  origin only, and what is known of the remote installation after each way of failing.
  Overwriting secrets in memory (\<^verbatim>\<open>fill(0)\<close>) is not modelled.
\<close>

record ProvisionedDeskBinding =
  pd_url :: string
  pd_agent_id :: string
  pd_owner :: string
  pd_token :: string
  pd_credential_generation :: number

text \<open>What a receipt's \<^verbatim>\<open>compensate\<close> closure captures.\<close>

record DeskProvisioningReceipt =
  rc_binding :: ProvisionedDeskBinding
  rc_url :: string
  rc_secret :: string
  rc_orgId :: string
  rc_owner :: string
  rc_installationId :: string

record DeskProvisioningInput =
  di_orgId :: string
  di_owner :: string
  di_deviceName :: string
  di_installationId :: string
  di_platform :: string
  di_version :: string
  di_clientKind :: string
  di_instanceId :: "string option"
  di_agentName :: "string option"
  di_expectedUrl :: "string option"

definition MAX_CONFIG_BYTES :: nat where "MAX_CONFIG_BYTES = 64 * 1024"
definition MAX_RESPONSE_BYTES :: nat where "MAX_RESPONSE_BYTES = 64 * 1024"
definition MAX_DESK_TOKEN_BYTES :: nat where "MAX_DESK_TOKEN_BYTES = 4096"

definition deskOrigin :: "(string \<Rightarrow> URL option) \<Rightarrow> jsval \<Rightarrow> string res" where
  "deskOrigin newURL value =
     (let invalid = PlainError ''HARA_DESK_PROVISIONING_JSON contains an invalid Desk URL''
      in case value of
           JStr v \<Rightarrow>
             if trim v = [] \<or> 2048 < length v then Inl invalid
             else (case newURL (trim v) of
                     None \<Rightarrow> Inl invalid
                   | Some parsed \<Rightarrow>
                       let loopback = u_hostname parsed \<in> {''localhost'', ''127.0.0.1'', ''[::1]''}
                       in if (u_protocol parsed \<noteq> ''https:'' \<and> \<not> (u_protocol parsed = ''http:'' \<and> loopback)) \<or>
                             u_username parsed \<noteq> [] \<or> u_password parsed \<noteq> [] \<or>
                             (u_pathname parsed \<noteq> ''/'' \<and> u_pathname parsed \<noteq> []) \<or>
                             u_search parsed \<noteq> [] \<or> u_hash parsed \<noteq> []
                          then Inl (PlainError ''HARA_DESK_PROVISIONING_JSON Desk URLs must be HTTPS origins'')
                          else Inr (u_origin parsed))
         | _ \<Rightarrow> Inl invalid)"

definition parseDeskEntry :: "(string \<Rightarrow> URL option) \<Rightarrow> string \<times> jsval \<Rightarrow> (string \<times> DeskTarget) res" where
  "parseDeskEntry newURL kv =
     (case kv of (orgId, value) \<Rightarrow>
        throwIf (orgId = [] \<or> 128 < length orgId \<or> has_control orgId \<or> \<not> plain_object value)
          (PlainError ''HARA_DESK_PROVISIONING_JSON contains an invalid organization entry'')
         (case prop_of value ''enrollKey'' of
            JStr key \<Rightarrow>
              throwIf (key = [] \<or> 4096 < length key \<or> has_control key)
                (PlainError ''HARA_DESK_PROVISIONING_JSON contains an invalid enrollment secret'')
               (bindR (deskOrigin newURL (prop_of value ''url'')) (\<lambda>url.
                Inr (orgId, \<lparr>tg_url = url, tg_enrollKey = key\<rparr>)))
          | _ \<Rightarrow> Inl (PlainError ''HARA_DESK_PROVISIONING_JSON contains an invalid enrollment secret'')))"

text \<open>\<^verbatim>\<open>jsonParse\<close> is \<^verbatim>\<open>JSON.parse\<close>, None when it throws; the members of its objects have distinct keys.\<close>

definition parseDeskProvisioning ::
  "(string \<Rightarrow> jsval option) \<Rightarrow> (string \<Rightarrow> URL option) \<Rightarrow> string option \<Rightarrow> (string \<Rightarrow> DeskTarget option) res" where
  "parseDeskProvisioning jsonParse newURL raw =
     (case raw of
        None \<Rightarrow> Inr Map.empty
      | Some r \<Rightarrow>
          if trim r = [] then Inr Map.empty
          else throwIf (MAX_CONFIG_BYTES < utf8_length r) (PlainError ''HARA_DESK_PROVISIONING_JSON is too large'')
                (case jsonParse r of
                   None \<Rightarrow> Inl (PlainError ''HARA_DESK_PROVISIONING_JSON must be valid JSON'')
                 | Some (JObj kvs) \<Rightarrow>
                     bindR (mapR (parseDeskEntry newURL) kvs) (\<lambda>entries. Inr (map_of (rev entries)))
                 | Some _ \<Rightarrow> Inl (PlainError ''HARA_DESK_PROVISIONING_JSON must be an organization map'')))"

definition boundedIdentity :: "jsval \<Rightarrow> string \<Rightarrow> nat \<Rightarrow> string res" where
  "boundedIdentity value field maxLength =
     (let normalized = (case value of JStr s \<Rightarrow> trim s | _ \<Rightarrow> [])
      in throwIf (normalized = [] \<or> maxLength < length normalized \<or> has_control normalized)
           (PlainError (''Hara Desk returned an invalid '' @ field)) (Inr normalized))"

definition desk_configured :: "('g, 'd) Sys \<Rightarrow> string \<Rightarrow> bool" where
  "desk_configured sy orgId \<longleftrightarrow> sy_targets sy orgId \<noteq> None"

subsection \<open>Revoking at a target\<close>

definition oversized :: "HttpResponse \<Rightarrow> bool" where
  "oversized response \<longleftrightarrow> isFinite (hr_contentLength response) \<and>
     num_lt (num (int MAX_RESPONSE_BYTES)) (hr_contentLength response)"

text \<open>The body of a bounded JSON response, as an object.\<close>

definition deskBody :: "HttpResponse \<Rightarrow> string \<Rightarrow> string \<Rightarrow> jsval res" where
  "deskBody response tooLarge invalid =
     throwIf (oversized response) (PlainError tooLarge)
      (case hr_body response of
         None \<Rightarrow> Inl (PlainError ''terminated'')
       | Some (bytes, json) \<Rightarrow>
           throwIf (MAX_RESPONSE_BYTES < bytes) (PlainError tooLarge)
            (case json of
               Some v \<Rightarrow> throwIf (\<not> plain_object v) (PlainError invalid) (Inr v)
             | None \<Rightarrow> Inl (PlainError invalid)))"

definition revoke_body :: "string \<Rightarrow> string \<Rightarrow> string \<Rightarrow> string \<Rightarrow> jsval" where
  "revoke_body secret orgId owner installationId =
     JObj [(''enrollKey'', JStr secret), (''owner'', JStr owner), (''realmId'', JStr orgId),
           (''installationId'', JStr installationId)]"

definition revoke_confirmed :: "bool \<Rightarrow> string + HttpResponse \<Rightarrow> unit res" where
  "revoke_confirmed allowMissing r =
     (case r of
        Inl m \<Rightarrow> Inl (PlainError m)
      | Inr response \<Rightarrow>
          throwIf (\<not> hr_ok response)
            (PlainError (''Hara Desk installation revocation failed with HTTP '' @ show_int (hr_status response)))
           (bindR (deskBody response ''Hara Desk revocation response is too large''
                     ''Hara Desk revocation response is invalid'') (\<lambda>body.
            case (prop_of body ''revoked'', prop_of body ''alreadyRevoked'') of
              (JBool revoked, JBool _) \<Rightarrow>
                throwIf (\<not> revoked \<and> \<not> allowMissing)
                  (PlainError ''Hara Desk did not find the installation to revoke'') (Inr ())
            | _ \<Rightarrow> Inl (PlainError ''Hara Desk revocation response is invalid''))))"

definition revokeAtTarget ::
  "('g, 'd) Sys \<Rightarrow> string \<Rightarrow> string \<Rightarrow> string \<Rightarrow> string \<Rightarrow> string \<Rightarrow> bool \<Rightarrow> (('g, 'd, 'x) World_scheme, unit) act" where
  "revokeAtTarget sy url secret orgId owner installationId allowMissing =
     bindA (fetchA sy ''POST'' (url @ ''/provisioning/installations/revoke'')
              (revoke_body secret orgId owner installationId)) (\<lambda>r.
     liftR (revoke_confirmed allowMissing r))"

definition compensate ::
  "('g, 'd) Sys \<Rightarrow> DeskProvisioningReceipt \<Rightarrow> (('g, 'd, 'x) World_scheme, unit) act" where
  "compensate sy rc = revokeAtTarget sy (rc_url rc) (rc_secret rc) (rc_orgId rc) (rc_owner rc) (rc_installationId rc) False"

subsection \<open>Registration\<close>

record RegisterRequest =
  rq_owner :: string
  rq_deviceName :: string
  rq_installationId :: string
  rq_platform :: string
  rq_version :: string
  rq_clientKind :: string
  rq_instanceId :: string
  rq_agentName :: string
  rq_expectedUrl :: "string option"

text \<open>The checks of the input, before anything is reserved or sent.\<close>

definition registerRequest ::
  "(string \<Rightarrow> URL option) \<Rightarrow> DeskProvisioningInput \<Rightarrow> RegisterRequest res" where
  "registerRequest newURL input =
     bindR (boundedIdentity (JStr (di_owner input)) ''Desk owner'' 256) (\<lambda>owner.
     bindR (boundedIdentity (JStr (di_deviceName input)) ''Desk device name'' 256) (\<lambda>deviceName.
     bindR (boundedIdentity (JStr (di_installationId input)) ''Desk installation identity'' 160) (\<lambda>installationId.
     bindR (boundedIdentity (JStr (orStr (di_platform input) ''unknown'')) ''Desk platform'' 40) (\<lambda>platform.
     bindR (boundedIdentity (JStr (orStr (di_version input) ''unknown'')) ''Desk client version'' 40) (\<lambda>version.
     bindR (boundedIdentity (JStr (di_clientKind input)) ''Desk client kind'' 80) (\<lambda>clientKind.
     bindR (boundedIdentity (JStr (orStr (nullish (di_instanceId input) []) ''default'')) ''Desk Agent instance'' 80) (\<lambda>instanceId.
     throwIf (instanceId \<noteq> toLowerCase instanceId)
       (PlainError ''Desk Agent instance must use a canonical lowercase identifier'')
    (bindR (boundedIdentity (JStr (orStr (nullish (di_agentName input) []) deviceName)) ''Desk Agent name'' 120) (\<lambda>agentName.
     bindR (case di_expectedUrl input of
              None \<Rightarrow> Inr None
            | Some u \<Rightarrow> if u = [] then Inr None else bindR (deskOrigin newURL (JStr u)) (\<lambda>url. Inr (Some url))) (\<lambda>expectedUrl.
     Inr \<lparr>rq_owner = owner, rq_deviceName = deviceName, rq_installationId = installationId,
          rq_platform = platform, rq_version = version, rq_clientKind = clientKind,
          rq_instanceId = instanceId, rq_agentName = agentName, rq_expectedUrl = expectedUrl\<rparr>))))))))))"

definition provisioningId :: "(string \<Rightarrow> string) \<Rightarrow> string \<Rightarrow> RegisterRequest \<Rightarrow> string" where
  "provisioningId H orgId rq =
     ''control_'' @ H (canonicalJson (JArr [JStr orgId, JStr (rq_installationId rq), JStr (rq_clientKind rq),
       JStr (rq_instanceId rq)]))"

definition register_body :: "(string \<Rightarrow> string) \<Rightarrow> string \<Rightarrow> string \<Rightarrow> RegisterRequest \<Rightarrow> jsval" where
  "register_body H secret orgId rq =
     JObj [(''enrollKey'', JStr secret), (''owner'', JStr (rq_owner rq)), (''realmId'', JStr orgId),
           (''name'', JStr (rq_agentName rq)), (''client'', JStr (rq_clientKind rq)),
           (''provisioningId'', JStr (provisioningId H orgId rq)),
           (''installationId'', JStr (rq_installationId rq)), (''deviceName'', JStr (rq_deviceName rq)),
           (''platform'', JStr (rq_platform rq)), (''version'', JStr (rq_version rq)),
           (''capabilities'', JArr [JStr ''tasks'', JStr ''comments'', JStr ''organization-workbench'',
              JStr ''session-lease''])]"

text \<open>The checks of Desk's answer.\<close>

definition registration_accepted ::
  "(string \<Rightarrow> string) \<Rightarrow> string \<Rightarrow> string \<Rightarrow> RegisterRequest \<Rightarrow> string + HttpResponse \<Rightarrow> ProvisionedDeskBinding res" where
  "registration_accepted H url orgId rq r =
     (case r of
        Inl m \<Rightarrow> Inl (PlainError m)
      | Inr response \<Rightarrow>
          throwIf (\<not> hr_ok response) (PlainError ''Desk rejected the registration request'')
         (bindR (deskBody response ''Desk returned an oversized registration response''
                   ''Desk returned an invalid registration response'') (\<lambda>rec.
          throwIf (prop_of rec ''realmId'' \<noteq> JStr orgId \<or>
                   prop_of rec ''provisioningId'' \<noteq> JStr (provisioningId H orgId rq) \<or>
                   prop_of rec ''protocolVersion'' \<noteq> JNum (num 1))
            (PlainError ''Desk did not prove the requested organization provisioning identity'')
         (bindR (boundedIdentity (prop_of rec ''owner'') ''Desk owner'' 256) (\<lambda>returnedOwner.
          throwIf (returnedOwner \<noteq> rq_owner rq)
            (PlainError ''Desk returned a different owner than Control authenticated'')
         (bindR (boundedIdentity (prop_of rec ''client'') ''Desk client kind'' 80) (\<lambda>returnedClient.
          throwIf (returnedClient \<noteq> rq_clientKind rq)
            (PlainError ''Desk returned a different client than Control requested'')
         (throwIf (\<not> plain_object (prop_of rec ''device''))
            (PlainError ''Desk did not bind the Agent to the Control installation'')
         (bindR (boundedIdentity (prop_of (prop_of rec ''device'') ''installationId'') ''Desk installation identity'' 160) (\<lambda>inst.
          throwIf (inst \<noteq> rq_installationId rq \<or> prop_of (prop_of rec ''device'') ''revoked'' \<noteq> JBool False)
            (PlainError ''Desk returned a different or revoked Control installation'')
         (bindR (boundedIdentity (prop_of rec ''token'') ''Desk token'' MAX_DESK_TOKEN_BYTES) (\<lambda>token.
          throwIf (MAX_DESK_TOKEN_BYTES < utf8_length token) (PlainError ''Hara Desk returned an invalid Desk token'')
         (case prop_of rec ''credentialGeneration'' of
            JNum generation \<Rightarrow>
              throwIf (\<not> isSafeInteger generation \<or> num_lt generation (num 1))
                (PlainError ''Hara Desk returned an invalid credential generation'')
               (bindR (boundedIdentity (prop_of rec ''agentId'') ''Desk agent identity'' 256) (\<lambda>agentId.
                Inr \<lparr>pd_url = url, pd_agent_id = agentId, pd_owner = returnedOwner, pd_token = token,
                     pd_credential_generation = generation\<rparr>))
          | _ \<Rightarrow> Inl (PlainError ''Hara Desk returned an invalid credential generation''))))))))))))))"

text \<open>
  Where the secret goes and which one it is: any managed row shadows the legacy mapping. The reservation is made
  first when the caller asks for one. The result is None when no Desk is configured.
\<close>

definition choose_target ::
  "('g, 'd) Sys \<Rightarrow> string \<Rightarrow> bool \<Rightarrow> DeskTarget option \<Rightarrow> DeskTarget option" where
  "choose_target sy orgId managedConfigured managedTarget =
     (if managedConfigured then managedTarget
      else case managedTarget of Some t \<Rightarrow> Some t | None \<Rightarrow> sy_targets sy orgId)"

definition resolve_for ::
  "('g, 'd) Sys \<Rightarrow> string \<Rightarrow> RegisterRequest \<Rightarrow> (string \<times> time) option \<Rightarrow>
     (('g, 'd, 'x) World_scheme, DeskProvisioningReservation) act" where
  "resolve_for sy orgId rq reservation =
     (case reservation of
        Some (deviceId, preparedAt) \<Rightarrow>
          reserveDeskProvisioning orgId deviceId (rq_owner rq) preparedAt
            (case sy_targets sy orgId of None \<Rightarrow> None | Some t \<Rightarrow> Some (tg_url t))
      | None \<Rightarrow>
          bindA (deskProvisioningResolution orgId) (\<lambda>r.
          retA \<lparr>rs_managedConfigured = rs_managedConfigured r, rs_target = rs_target r, rs_prepared = False\<rparr>))"

text \<open>The remote part: register, check, and on any failure compensate as the caller's options say.\<close>

definition registerRemote ::
  "('g, 'd) Sys \<Rightarrow> string \<Rightarrow> RegisterRequest \<Rightarrow> DeskTarget \<Rightarrow> bool \<Rightarrow>
     (('g, 'd, 'x) World_scheme, DeskProvisioningReceipt) act" where
  "registerRemote sy orgId rq target compensating =
     catchA
       (bindA (fetchA sy ''POST'' (tg_url target @ ''/register'')
                 (register_body (sy_sha256 sy) (tg_enrollKey target) orgId rq)) (\<lambda>r.
        bindA (liftR (registration_accepted (sy_sha256 sy) (tg_url target) orgId rq r)) (\<lambda>binding.
        retA \<lparr>rc_binding = binding, rc_url = tg_url target, rc_secret = tg_enrollKey target, rc_orgId = orgId,
              rc_owner = rq_owner rq, rc_installationId = rq_installationId rq\<rparr>)))
       (\<lambda>e. if \<not> compensating
            then throwA (PlainError ''Hara Desk Agent provisioning failed; retry the same client and instance'')
            else bindA (catchA (thenA (revokeAtTarget sy (tg_url target) (tg_enrollKey target) orgId (rq_owner rq)
                                         (rq_installationId rq) True) (retA True))
                          (\<lambda>_. retA False)) (\<lambda>confirmed.
                 throwA (DeskProvisioningFailure confirmed (tg_url target))))"

definition provisionForEnrollment ::
  "('g, 'd) Sys \<Rightarrow> DeskProvisioningInput \<Rightarrow> bool \<Rightarrow> (string \<times> time) option \<Rightarrow>
     (string \<Rightarrow> (('g, 'd, 'x) World_scheme, unit) act) \<Rightarrow>
     (('g, 'd, 'x) World_scheme, DeskProvisioningReceipt option) act" where
  "provisionForEnrollment sy input compensating reservation onPrepared =
     bindA (liftR (registerRequest (sy_newURL sy) input)) (\<lambda>rq.
     bindA (resolve_for sy (di_orgId input) rq reservation) (\<lambda>res.
     case choose_target sy (di_orgId input) (rs_managedConfigured res) (rs_target res) of
       None \<Rightarrow> retA None
     | Some target \<Rightarrow>
         thenA (throwUnless (\<not> (case rq_expectedUrl rq of None \<Rightarrow> False | Some u \<Rightarrow> u \<noteq> [] \<and> u \<noteq> tg_url target))
                  (PlainError ''Hara Desk provisioning target no longer matches the enrolled installation''))
        (thenA (throwUnless (\<not> (reservation \<noteq> None \<and> \<not> rs_prepared res))
                  (PlainError ''Hara Desk provisioning reservation was not prepared''))
        (thenA (onPrepared (tg_url target))
        (bindA (registerRemote sy (di_orgId input) rq target compensating) (\<lambda>receipt.
         retA (Some receipt)))))))"

definition provision ::
  "('g, 'd) Sys \<Rightarrow> DeskProvisioningInput \<Rightarrow> (('g, 'd, 'x) World_scheme, ProvisionedDeskBinding option) act" where
  "provision sy input =
     bindA (provisionForEnrollment sy input False None (\<lambda>_. retA ())) (\<lambda>receipt.
     retA (map_option rc_binding receipt))"

subsection \<open>Revoking an installation\<close>

definition revokeInstallation ::
  "('g, 'd) Sys \<Rightarrow> string \<Rightarrow> string \<Rightarrow> string \<Rightarrow> string option \<Rightarrow> bool \<Rightarrow> (('g, 'd, 'x) World_scheme, bool) act" where
  "revokeInstallation sy orgId owner installationId expectedUrl allowMissing =
     bindA (case expectedUrl of
              Some u \<Rightarrow> if u = [] then deskProvisioningResolution orgId else deskRevocationResolution sy orgId u
            | None \<Rightarrow> deskProvisioningResolution orgId) (\<lambda>resolution.
     case choose_target sy orgId (rs_managedConfigured resolution) (rs_target resolution) of
       None \<Rightarrow>
         if nullish expectedUrl [] \<noteq> []
         then throwA (PlainError ''Hara Desk revocation credential is unavailable for this enrolled installation'')
         else retA False
     | Some target \<Rightarrow>
         thenA (if nullish expectedUrl [] = [] then retA ()
                else bindA (liftR (deskOrigin (sy_newURL sy) (JStr (nullish expectedUrl [])))) (\<lambda>url.
                     throwUnless (url = tg_url target)
                       (PlainError ''Hara Desk revocation target no longer matches the enrolled installation'')))
        (bindA (liftR (boundedIdentity (JStr owner) ''Desk owner'' 256)) (\<lambda>owner'.
         bindA (liftR (boundedIdentity (JStr installationId) ''Desk installation identity'' 160)) (\<lambda>inst.
         thenA (revokeAtTarget sy (tg_url target) (tg_enrollKey target) orgId owner' inst allowMissing)
               (retA True)))))"

subsection \<open>What an accepted registration proves\<close>

lemma boundedIdentity_Inr:
  "boundedIdentity v f m = Inr s \<longleftrightarrow>
     (\<exists>t. v = JStr t \<and> s = trim t \<and> trim t \<noteq> [] \<and> length (trim t) \<le> m \<and> \<not> has_control (trim t))"
  by (auto simp: boundedIdentity_def Let_def throwIf_eq_Inr split: jsval.splits)

lemma accepted_url:
  assumes "registration_accepted H url orgId rq r = Inr b"
  shows "pd_url b = url"
proof -
  obtain response where r: "r = Inr response"
    using assms by (cases r) (auto simp: registration_accepted_def)
  obtain rec where body: "deskBody response ''Desk returned an oversized registration response''
      ''Desk returned an invalid registration response'' = Inr rec"
    using assms r by (auto simp: registration_accepted_def throwIf_eq_Inr bindR_eq_Inr)
  obtain g where "prop_of rec ''credentialGeneration'' = JNum g"
    using assms r body
    by (cases "prop_of rec ''credentialGeneration''")
      (simp_all add: registration_accepted_def throwIf_eq_Inr bindR_eq_Inr)
  with assms r body show ?thesis by (auto simp: registration_accepted_def throwIf_eq_Inr bindR_eq_Inr)
qed


subsection \<open>What the remote Desk is known to hold\<close>

text \<open>
  What Control relies on of Desk: \<^verbatim>\<open>/register\<close> creates at most the installation it names, whatever it answers;
  \<^verbatim>\<open>/provisioning/installations/revoke\<close> removes at most the installation it names, and after a successful answer that
  says whether it was revoked, the installation is gone. \<^verbatim>\<open>installed d\<close> is the set of installations (origin,
  realm, installation) that exist.
\<close>

definition desk_documented :: "('g, 'd) Sys \<Rightarrow> ('d \<Rightarrow> (string \<times> string \<times> string) set) \<Rightarrow> bool" where
  "desk_documented sy installed \<longleftrightarrow>
     (\<forall>u orgId i body d d' r. prop_of body ''realmId'' = JStr orgId \<longrightarrow> prop_of body ''installationId'' = JStr i \<longrightarrow>
        sy_fetch sy ''POST'' (u @ ''/register'') body d = (d', r) \<longrightarrow>
        installed d \<subseteq> installed d' \<and> installed d' \<subseteq> insert (u, orgId, i) (installed d)) \<and>
     (\<forall>u orgId i body d d' r. prop_of body ''realmId'' = JStr orgId \<longrightarrow> prop_of body ''installationId'' = JStr i \<longrightarrow>
        sy_fetch sy ''POST'' (u @ ''/provisioning/installations/revoke'') body d = (d', r) \<longrightarrow>
        installed d - {(u, orgId, i)} \<subseteq> installed d' \<and> installed d' \<subseteq> installed d \<and>
        (revoke_confirmed True r = Inr () \<longrightarrow> (u, orgId, i) \<notin> installed d'))"

lemma desk_register:
  assumes "desk_documented sy installed"
    "sy_fetch sy ''POST'' (u @ ''/register'') (register_body H secret orgId rq) d = (d', r)"
  shows "installed d \<subseteq> installed d' \<and> installed d' \<subseteq> insert (u, orgId, rq_installationId rq) (installed d)"
proof -
  have "prop_of (register_body H secret orgId rq) ''realmId'' = JStr orgId"
    "prop_of (register_body H secret orgId rq) ''installationId'' = JStr (rq_installationId rq)"
    by (simp_all add: register_body_def prop_of_def)
  with assms show ?thesis unfolding desk_documented_def by blast
qed

lemma revoke_confirmed_missing:
  assumes "revoke_confirmed b r = Inr ()"
  shows "revoke_confirmed True r = Inr ()"
proof -
  let ?body = "\<lambda>response. deskBody response ''Hara Desk revocation response is too large''
    ''Hara Desk revocation response is invalid''"
  obtain response v where r: "r = Inr response" "hr_ok response" "?body response = Inr v"
    using assms by (cases r) (auto simp: revoke_confirmed_def throwIf_eq_Inr bindR_eq_Inr)
  with assms show ?thesis
    by (cases "prop_of v ''revoked''"; cases "prop_of v ''alreadyRevoked''")
      (simp_all add: revoke_confirmed_def throwIf_def)
qed

lemma desk_revoke:
  assumes "desk_documented sy installed"
    "sy_fetch sy ''POST'' (u @ ''/provisioning/installations/revoke'') (revoke_body secret orgId owner i) d = (d', r)"
  shows "installed d - {(u, orgId, i)} \<subseteq> installed d' \<and> installed d' \<subseteq> installed d \<and>
    (revoke_confirmed b r = Inr () \<longrightarrow> (u, orgId, i) \<notin> installed d')"
proof -
  have "prop_of (revoke_body secret orgId owner i) ''realmId'' = JStr orgId"
    "prop_of (revoke_body secret orgId owner i) ''installationId'' = JStr i"
    by (simp_all add: revoke_body_def prop_of_def)
  with assms revoke_confirmed_missing [of b r] show ?thesis unfolding desk_documented_def by blast
qed

text \<open>Assertions about everything but the state of the remote services and the script.\<close>

definition deskless :: "(('g, 'd, 'x) World_scheme \<Rightarrow> bool) \<Rightarrow> bool" where
  "deskless P \<longleftrightarrow> (\<forall>w d. P (w\<lparr>w_desk := d\<rparr>) = P w)"

lemma desklessI: "(\<And>w d. P (w\<lparr>w_desk := d\<rparr>) = P w) \<Longrightarrow> deskless P"
  by (simp add: deskless_def)

lemma desklessD [simp]: "deskless P \<Longrightarrow> P (w\<lparr>w_desk := d\<rparr>) = P w"
  by (simp add: deskless_def)

text \<open>\<^verbatim>\<open>around I x\<close>: the installations are those of \<^verbatim>\<open>I\<close>, but for \<^verbatim>\<open>x\<close>, of which nothing is known.\<close>

definition around :: "'a set \<Rightarrow> 'a \<Rightarrow> 'a set \<Rightarrow> bool" where
  "around I x J \<longleftrightarrow> J - {x} = I - {x}"

lemma around_refl [simp]: "around I x I"
  by (simp add: around_def)

lemma around_fresh: "around I x J \<Longrightarrow> x \<notin> I \<Longrightarrow> x \<notin> J \<Longrightarrow> J = I"
  by (auto simp: around_def)

lemma hoare_revokeAtTarget:
  assumes D: "desk_documented sy installed" and P: "deskless P"
  shows "hoare (\<lambda>w. P w \<and> around I (u, orgId, i) (installed (w_desk w)))
     (revokeAtTarget sy u secret orgId owner i b)
     (\<lambda>_ w. P w \<and> around I (u, orgId, i) (installed (w_desk w)) \<and> (u, orgId, i) \<notin> installed (w_desk w))
     (\<lambda>_ w. P w \<and> around I (u, orgId, i) (installed (w_desk w)))"
  unfolding revokeAtTarget_def
proof (rule hoare_bindA)
  let ?x = "(u, orgId, i)"
  show "hoare (\<lambda>w. P w \<and> around I ?x (installed (w_desk w)))
     (fetchA sy ''POST'' (u @ ''/provisioning/installations/revoke'') (revoke_body secret orgId owner i))
     (\<lambda>r w. P w \<and> around I ?x (installed (w_desk w)) \<and> (revoke_confirmed b r = Inr () \<longrightarrow> ?x \<notin> installed (w_desk w)))
     (\<lambda>_ w. P w \<and> around I ?x (installed (w_desk w)))"
  proof (rule hoare_fetchA)
    fix w d r
    assume w: "P w \<and> around I ?x (installed (w_desk w))"
      and f: "sy_fetch sy ''POST'' (u @ ''/provisioning/installations/revoke'') (revoke_body secret orgId owner i) (w_desk w) = (d, r)"
    have "around I ?x (installed d)"
      using w desk_revoke [OF D f] unfolding around_def by blast
    then show "P (w\<lparr>w_desk := d\<rparr>) \<and> around I ?x (installed (w_desk (w\<lparr>w_desk := d\<rparr>))) \<and>
        (revoke_confirmed b r = Inr () \<longrightarrow> ?x \<notin> installed (w_desk (w\<lparr>w_desk := d\<rparr>)))"
      using w desk_revoke [OF D f] P by simp
  qed
  show "hoare (\<lambda>w. P w \<and> around I ?x (installed (w_desk w)) \<and> (revoke_confirmed b r = Inr () \<longrightarrow> ?x \<notin> installed (w_desk w)))
     (liftR (revoke_confirmed b r))
     (\<lambda>_ w. P w \<and> around I ?x (installed (w_desk w)) \<and> ?x \<notin> installed (w_desk w))
     (\<lambda>_ w. P w \<and> around I ?x (installed (w_desk w)))" for r
    by (rule hoare_liftR) auto
qed

text \<open>The outcome of the remote part, from a Desk without the installation.\<close>

lemma hoare_registerRemote:
  assumes D: "desk_documented sy installed" and P: "deskless P"
    and fresh: "(tg_url target, orgId, rq_installationId rq) \<notin> I"
  shows "hoare (\<lambda>w. P w \<and> installed (w_desk w) = I)
     (registerRemote sy orgId rq target True)
     (\<lambda>rc w. P w \<and> around I (tg_url target, orgId, rq_installationId rq) (installed (w_desk w)) \<and>
        rc_url rc = tg_url target \<and> rc_orgId rc = orgId \<and> rc_installationId rc = rq_installationId rq \<and>
        rc_owner rc = rq_owner rq \<and> pd_url (rc_binding rc) = tg_url target)
     (\<lambda>e w. \<exists>c. e = DeskProvisioningFailure c (tg_url target) \<and> P w \<and>
        around I (tg_url target, orgId, rq_installationId rq) (installed (w_desk w)) \<and>
        (c \<longrightarrow> installed (w_desk w) = I))"
proof -
  let ?x = "(tg_url target, orgId, rq_installationId rq)"
  let ?R = "\<lambda>w. P w \<and> around I ?x (installed (w_desk w))"
  note accepted = accepted_url
  have fetched: "hoare (\<lambda>w. P w \<and> installed (w_desk w) = I)
      (fetchA sy ''POST'' (tg_url target @ ''/register'') (register_body (sy_sha256 sy) (tg_enrollKey target) orgId rq))
      (\<lambda>_. ?R) (\<lambda>_. ?R)"
  proof (rule hoare_fetchA)
    fix w d r
    assume "P w \<and> installed (w_desk w) = I"
      "sy_fetch sy ''POST'' (tg_url target @ ''/register'') (register_body (sy_sha256 sy) (tg_enrollKey target) orgId rq) (w_desk w) = (d, r)"
    with desk_register [OF D this(2)] P show "P (w\<lparr>w_desk := d\<rparr>) \<and> around I ?x (installed (w_desk (w\<lparr>w_desk := d\<rparr>)))"
      by (auto simp: around_def)
  qed
  have revoked: "hoare ?R
      (catchA (thenA (revokeAtTarget sy (tg_url target) (tg_enrollKey target) orgId (rq_owner rq) (rq_installationId rq) True)
         (retA True)) (\<lambda>_. retA False))
      (\<lambda>c w. ?R w \<and> (c \<longrightarrow> ?x \<notin> installed (w_desk w))) (\<lambda>_ _. False)"
    by (rule hoare_catchA [where R = "\<lambda>_. ?R"], rule hoare_thenA [OF hoare_revokeAtTarget [OF D P]])
      (auto intro!: hoare_retA)
  show ?thesis
    unfolding registerRemote_def
  proof (rule hoare_catchA [where R = "\<lambda>_. ?R"])
    show "hoare (\<lambda>w. P w \<and> installed (w_desk w) = I)
     (bindA (fetchA sy ''POST'' (tg_url target @ ''/register'') (register_body (sy_sha256 sy) (tg_enrollKey target) orgId rq)) (\<lambda>r.
      bindA (liftR (registration_accepted (sy_sha256 sy) (tg_url target) orgId rq r)) (\<lambda>binding.
      retA \<lparr>rc_binding = binding, rc_url = tg_url target, rc_secret = tg_enrollKey target, rc_orgId = orgId,
            rc_owner = rq_owner rq, rc_installationId = rq_installationId rq\<rparr>)))
     (\<lambda>rc w. P w \<and> around I ?x (installed (w_desk w)) \<and> rc_url rc = tg_url target \<and> rc_orgId rc = orgId \<and>
        rc_installationId rc = rq_installationId rq \<and> rc_owner rc = rq_owner rq \<and>
        pd_url (rc_binding rc) = tg_url target) (\<lambda>_. ?R)"
      by (rule hoare_bindA [OF fetched], rule hoare_bindA [where R = "\<lambda>b w. ?R w \<and> pd_url b = tg_url target"])
        (auto intro!: hoare_liftR hoare_retA dest: accepted)
  next
    fix e
    show "hoare ?R (if \<not> True then throwA (PlainError ''Hara Desk Agent provisioning failed; retry the same client and instance'')
        else bindA (catchA (thenA (revokeAtTarget sy (tg_url target) (tg_enrollKey target) orgId (rq_owner rq)
               (rq_installationId rq) True) (retA True)) (\<lambda>_. retA False)) (\<lambda>confirmed.
             throwA (DeskProvisioningFailure confirmed (tg_url target))))
     (\<lambda>rc w. P w \<and> around I ?x (installed (w_desk w)) \<and> rc_url rc = tg_url target \<and> rc_orgId rc = orgId \<and>
        rc_installationId rc = rq_installationId rq \<and> rc_owner rc = rq_owner rq \<and>
        pd_url (rc_binding rc) = tg_url target)
     (\<lambda>e w. \<exists>c. e = DeskProvisioningFailure c (tg_url target) \<and> P w \<and>
        around I ?x (installed (w_desk w)) \<and> (c \<longrightarrow> installed (w_desk w) = I))"
      unfolding not_True_eq_False if_False
      using fresh by (intro hoare_bindA [OF hoare_weaken [OF revoked]] hoare_throwA) (auto dest: around_fresh)
  qed
qed

text \<open>Reserving touches only the Desk columns of the device it is for.\<close>

definition desk_columns_free :: "string \<Rightarrow> (('g, 'd, 'x) World_scheme \<Rightarrow> bool) \<Rightarrow> bool" where
  "desk_columns_free i P \<longleftrightarrow>
     (\<forall>w p f. P w \<longrightarrow> (\<forall>d. p d \<longrightarrow> dv_id d = i) \<longrightarrow> (\<forall>d. clear_desk (f d) = clear_desk d) \<longrightarrow>
        P (w\<lparr>w_devices := update_where p f (w_devices w)\<rparr>))"

lemma desk_columns_freeD:
  "desk_columns_free i P \<Longrightarrow> P w \<Longrightarrow> (\<And>d. p d \<Longrightarrow> dv_id d = i) \<Longrightarrow> (\<And>d. clear_desk (f d) = clear_desk d) \<Longrightarrow>
     P (w\<lparr>w_devices := update_where p f (w_devices w)\<rparr>)"
  by (simp add: desk_columns_free_def)

lemma hoare_ignoreErrors: "hoare P m (\<lambda>_. P) (\<lambda>_. P) \<Longrightarrow> hoare P (ignoreErrors m) (\<lambda>_. P) (\<lambda>_. P)"
  unfolding ignoreErrors_def by (rule hoare_catchA [where R = "\<lambda>_. P"]) (auto intro: hoare_retA)

lemma hoare_reserve:
  assumes P: "scriptless P" "desk_columns_free i P"
  shows "hoare P (reserveDeskProvisioning orgId i owner t legacy) (\<lambda>_. P) (\<lambda>_. P)"
  unfolding reserveDeskProvisioning_def
proof (rule hoare_bindA)
  have pending: "P (update_device i (mark_pending owner t u) w)" if "P w" for w u
    using that by (intro desk_columns_freeD [OF P(2)]) (auto simp: mark_pending_def clear_desk_def)
  have cleared: "P w'" if "P w" "clear_tx orgId i owner u w = Inr ((), w')" for w w' u
    using that by (auto simp: clear_tx_def intro!: desk_columns_freeD [OF P(2)] simp: clear_desk_def)
  show "hoare P (txS (reserve_tx orgId i owner t legacy)) (\<lambda>_. P) (\<lambda>_. P)"
    by (rule hoare_txS [OF P(1)])
      (use pending in \<open>auto simp: reserve_tx_def split: option.splits if_splits\<close>)
  have clear: "hoare P (ignoreErrors (clearDeskProvisioningReservation orgId i owner u)) (\<lambda>_. P) (\<lambda>_. P)" for u
    unfolding clearDeskProvisioningReservation_def
    by (rule hoare_ignoreErrors, rule hoare_txS [OF P(1)]) (auto intro: cleared)
  show "hoare P (case c of
       Plain managed prepared \<Rightarrow> retA \<lparr>rs_managedConfigured = managed, rs_target = None, rs_prepared = prepared\<rparr>
     | WithCredential url ref \<Rightarrow>
         catchA
           (bindA (getSecret orgId ref) (\<lambda>enrollKey.
            thenA (throwUnless (readable_credential enrollKey)
                     (PlainError ''active Hara Desk binding has no readable enrollment credential''))
                  (retA \<lparr>rs_managedConfigured = True,
                         rs_target = Some \<lparr>tg_url = url, tg_enrollKey = the enrollKey\<rparr>, rs_prepared = True\<rparr>)))
           (\<lambda>e. thenA (ignoreErrors (clearDeskProvisioningReservation orgId i owner url)) (throwA e)))
     (\<lambda>_. P) (\<lambda>_. P)" for c
  proof (cases c)
    case (WithCredential url ref)
    then show ?thesis
      by (simp add: getSecret_def)
        (rule hoare_catchA [where R = "\<lambda>_. P"],
         rule hoare_bindA [where R = "\<lambda>_. P"],
         auto intro!: hoare_readS P(1) hoare_thenA [where R = P] hoare_throwUnless hoare_retA clear hoare_throwA)
  qed (auto intro: hoare_retA)
qed

text \<open>
  Provisioning during enrollment, from a Desk without the installation: when it throws, either nothing is
  installed or the exception says that the rollback is unconfirmed; with a receipt, the receipt names
  the installation.
\<close>

lemma hoare_provisionForEnrollment:
  assumes D: "desk_documented sy installed" and P: "scriptless P" "deskless P" "desk_columns_free i P"
    and prepared: "\<And>u. hoare (\<lambda>w. P w \<and> installed (w_desk w) = I) (onPrepared u)
      (\<lambda>_ w. P w \<and> installed (w_desk w) = I) (\<lambda>_ w. P w \<and> installed (w_desk w) = I)"
    and fresh: "\<And>u. (u, di_orgId input, trim (di_installationId input)) \<notin> I"
  shows "hoare (\<lambda>w. P w \<and> installed (w_desk w) = I)
     (provisionForEnrollment sy input True (Some (i, t)) onPrepared)
     (\<lambda>rc w. P w \<and> (case rc of
          None \<Rightarrow> installed (w_desk w) = I
        | Some c \<Rightarrow> around I (rc_url c, di_orgId input, trim (di_installationId input)) (installed (w_desk w)) \<and>
            rc_orgId c = di_orgId input \<and> rc_installationId c = trim (di_installationId input) \<and>
            pd_url (rc_binding c) = rc_url c))
     (\<lambda>e w. P w \<and> (installed (w_desk w) = I \<or>
        (\<exists>u. e = DeskProvisioningFailure False u \<and>
             around I (u, di_orgId input, trim (di_installationId input)) (installed (w_desk w)))))"
    (is "hoare ?P _ ?Q ?E")
proof -
  have scr: "scriptless ?P" using P(1) by (intro scriptlessI) simp
  have des: "desk_columns_free i ?P" using P(3) by (auto simp: desk_columns_free_def)
  have request: "rq_installationId rq = trim (di_installationId input)" if "registerRequest newURL input = Inr rq" for newURL rq
    using that by (auto simp: registerRequest_def bindR_eq_Inr throwIf_eq_Inr boundedIdentity_Inr)
  have remote: "hoare ?P (registerRemote sy (di_orgId input) rq target True) (\<lambda>c. ?Q (Some c)) ?E"
    if "rq_installationId rq = trim (di_installationId input)" for rq target
  proof (rule hoare_weaken [OF hoare_registerRemote [OF D P(2)]])
    show "(tg_url target, di_orgId input, rq_installationId rq) \<notin> I" using fresh that by simp
  qed (use that in \<open>auto split: option.splits\<close>)
  have finish: "hoare ?P (case tgt of None \<Rightarrow> retA None
     | Some target \<Rightarrow>
         thenA (throwUnless (c1 target) e1) (thenA (throwUnless c2 e2) (thenA (onPrepared (tg_url target))
        (bindA (registerRemote sy (di_orgId input) rq target True) (\<lambda>receipt. retA (Some receipt)))))) ?Q ?E"
    if "rq_installationId rq = trim (di_installationId input)" for tgt c1 e1 c2 e2 rq
  proof (cases tgt)
    case (Some target)
    show ?thesis unfolding Some option.case(2)
      by (intro hoare_thenA [where R = ?P] hoare_throwUnless hoare_weaken [OF prepared]
          hoare_bindA [OF remote [OF that]] hoare_retA) auto
  qed (auto intro: hoare_retA)
  show ?thesis
    unfolding provisionForEnrollment_def
  proof (rule hoare_bindA [where R = "\<lambda>rq w. ?P w \<and> rq_installationId rq = trim (di_installationId input)"])
    show "hoare ?P (liftR (registerRequest (sy_newURL sy) input))
        (\<lambda>rq w. ?P w \<and> rq_installationId rq = trim (di_installationId input)) ?E"
      by (rule hoare_liftR) (auto dest: request)
  next
    fix rq
    show "hoare (\<lambda>w. ?P w \<and> rq_installationId rq = trim (di_installationId input))
      (bindA (resolve_for sy (di_orgId input) rq (Some (i, t))) (\<lambda>res.
       case choose_target sy (di_orgId input) (rs_managedConfigured res) (rs_target res) of None \<Rightarrow> retA None
       | Some target \<Rightarrow>
         thenA (throwUnless (\<not> (case rq_expectedUrl rq of None \<Rightarrow> False | Some u \<Rightarrow> u \<noteq> [] \<and> u \<noteq> tg_url target))
                  (PlainError ''Hara Desk provisioning target no longer matches the enrolled installation''))
        (thenA (throwUnless (\<not> (Some (i, t) \<noteq> None \<and> \<not> rs_prepared res))
                  (PlainError ''Hara Desk provisioning reservation was not prepared''))
        (thenA (onPrepared (tg_url target))
        (bindA (registerRemote sy (di_orgId input) rq target True) (\<lambda>receipt. retA (Some receipt))))))) ?Q ?E"
    proof (cases "rq_installationId rq = trim (di_installationId input)")
      case True
      show ?thesis
      proof (rule hoare_bindA [where R = "\<lambda>_. ?P"])
        show "hoare (\<lambda>w. ?P w \<and> rq_installationId rq = trim (di_installationId input))
            (resolve_for sy (di_orgId input) rq (Some (i, t))) (\<lambda>_. ?P) ?E"
          unfolding resolve_for_def option.case(2) prod.case
          by (rule hoare_weaken [OF hoare_reserve [OF scr des]]) auto
      qed (rule finish [OF True])
    qed (simp add: hoare_def)
  qed
qed

subsection \<open>Witness\<close>

definition sample_request :: RegisterRequest where
  "sample_request =
     \<lparr>rq_owner = ''ann'', rq_deviceName = ''mac'', rq_installationId = ''dev-1'', rq_platform = ''macos'',
      rq_version = ''1'', rq_clientKind = ''hara'', rq_instanceId = ''default'', rq_agentName = ''mac'',
      rq_expectedUrl = None\<rparr>"

definition sample_answer :: HttpResponse where
  "sample_answer =
     \<lparr>hr_ok = True, hr_status = 200, hr_contentLength = NaN,
      hr_body = Some (100, Some (JObj
        [(''realmId'', JStr ''c''), (''provisioningId'', JStr (provisioningId (\<lambda>_. ''h'') ''c'' sample_request)),
         (''protocolVersion'', JNum (num 1)), (''owner'', JStr ''ann''), (''client'', JStr ''hara''),
         (''device'', JObj [(''installationId'', JStr ''dev-1''), (''revoked'', JBool False)]),
         (''token'', JStr ''t''), (''credentialGeneration'', JNum (num 1)), (''agentId'', JStr ''a'')]))\<rparr>"

lemma sample_trims:
  "trim ''ann'' = ''ann''" "trim ''hara'' = ''hara''" "trim ''dev-1'' = ''dev-1''" "trim ''t'' = ''t''" "trim ''a'' = ''a''"
  "\<not> has_control ''ann''" "\<not> has_control ''hara''" "\<not> has_control ''dev-1''" "\<not> has_control ''t''" "\<not> has_control ''a''"
  by code_simp+

lemma sample_accepted:
  "registration_accepted (\<lambda>_. ''h'') ''https://desk.example'' ''c'' sample_request (Inr sample_answer) =
     Inr \<lparr>pd_url = ''https://desk.example'', pd_agent_id = ''a'', pd_owner = ''ann'', pd_token = ''t'',
          pd_credential_generation = num 1\<rparr>"
  by (simp add: registration_accepted_def sample_answer_def sample_request_def deskBody_def oversized_def
      MAX_RESPONSE_BYTES_def throwIf_def boundedIdentity_def sample_trims prop_of_def plain_object_def isFinite_def
      MAX_DESK_TOKEN_BYTES_def utf8_length_def isSafeInteger_def is_int_def)


end
