(* ===== verification/License.thy ===== *)
theory License
  imports Store
begin

section \<open>Licences and seats (license/license.ts, license/license.service.ts)\<close>

text \<open>
  The offline licence: its time validity with the grace period, the entitlement questions of the service and
  the seat check of enrollment. Ed25519, base64url and \<^verbatim>\<open>JSON.parse\<close> are parameters of \<^verbatim>\<open>verifyLicense\<close>. The
  lemmas show that validity moves through its states in one direction only, and what the seat check counts.
\<close>

record LicenseClaims =
  lc_hubOrgId :: string
  lc_plan :: string
  lc_seatLimit :: number
  lc_features :: "string list"
  lc_notBefore :: number
  lc_notAfter :: number
  lc_graceDays :: number
  lc_instanceId :: "string option"

record 'b license_runtime =
  lr_fromB64url :: "string \<Rightarrow> 'b"
  lr_verify :: "'b \<Rightarrow> string \<Rightarrow> 'b \<Rightarrow> bool"
  lr_parse :: "'b \<Rightarrow> LicenseClaims res"

definition verifyLicense :: "'b license_runtime \<Rightarrow> string \<Rightarrow> string \<Rightarrow> LicenseClaims res" where
  "verifyLicense rt publicKeyPem token =
     (let parts = split_on (CHR ''.'') token;
          payloadPart = (if 0 < length parts then parts ! 0 else []);
          sigPart = (if 1 < length parts then parts ! 1 else [])
      in throwIf (payloadPart = [] \<or> sigPart = []) (PlainError ''malformed license token'')
        (let payload = lr_fromB64url rt payloadPart
         in throwIf (\<not> lr_verify rt payload publicKeyPem (lr_fromB64url rt sigPart))
              (PlainError ''license signature invalid'') (lr_parse rt payload)))"

datatype LicenseStatus = Valid | Grace | Expired | NotYetValid

definition licenseStatus :: "LicenseClaims \<Rightarrow> number \<Rightarrow> LicenseStatus" where
  "licenseStatus claims nowSec =
     (if num_lt nowSec (lc_notBefore claims) then NotYetValid
      else if num_le nowSec (lc_notAfter claims) then Valid
      else if num_le nowSec (num_add (lc_notAfter claims) (num_mult (lc_graceDays claims) (num 86400))) then Grace
      else Expired)"

text \<open>The service: the verified claims, the development bypass, and whether the deployment is SaaS.\<close>

record LicenseService =
  ls_claims :: "LicenseClaims option"
  ls_devBypass :: bool
  ls_isSaas :: bool

definition onModuleInit ::
  "'b license_runtime \<Rightarrow> env \<Rightarrow> bool \<Rightarrow> bool \<Rightarrow> LicenseService res" where
  "onModuleInit rt env isSaas isSelf =
     (let devBypass = (env ''HARA_LICENSE_DEV'' = Some ''1'');
          token = nullish (env ''HARA_LICENSE'') [];
          pub = nullish (env ''HARA_LICENSE_PUBKEY'') [];
          unlicensed = \<lparr>ls_claims = None, ls_devBypass = devBypass, ls_isSaas = isSaas\<rparr>
      in if token \<noteq> [] \<and> pub \<noteq> []
         then (case verifyLicense rt pub token of
                 Inr claims \<Rightarrow> Inr (unlicensed\<lparr>ls_claims := Some claims\<rparr>)
               | Inl e \<Rightarrow> if isSelf \<and> \<not> devBypass then Inl e else Inr unlicensed)
         else Inr unlicensed)"

datatype ServiceStatus = StDev | StSaas | StNone | StLicense LicenseStatus

definition license_status :: "LicenseService \<Rightarrow> number \<Rightarrow> ServiceStatus" where
  "license_status ls nowSec =
     (if ls_devBypass ls then StDev else if ls_isSaas ls then StSaas
      else case ls_claims ls of None \<Rightarrow> StNone | Some c \<Rightarrow> StLicense (licenseStatus c nowSec))"

definition hasFeature :: "LicenseService \<Rightarrow> number \<Rightarrow> string \<Rightarrow> bool" where
  "hasFeature ls nowSec feature =
     (if ls_devBypass ls \<or> ls_isSaas ls then True
      else case ls_claims ls of
             None \<Rightarrow> False
           | Some c \<Rightarrow>
               licenseStatus c nowSec \<noteq> Expired \<and> licenseStatus c nowSec \<noteq> NotYetValid \<and> feature \<in> set (lc_features c))"

definition seatLimit :: "LicenseService \<Rightarrow> number" where
  "seatLimit ls =
     (if ls_devBypass ls \<or> ls_isSaas ls then num 0
      else case ls_claims ls of None \<Rightarrow> num 0 | Some c \<Rightarrow> lc_seatLimit c)"

definition entitlement_assert :: "LicenseService \<Rightarrow> number \<Rightarrow> string \<Rightarrow> unit res" where
  "entitlement_assert ls nowSec feature =
     throwIf (\<not> hasFeature ls nowSec feature)
       (Forbidden (''license does not include feature '' @ [CHR 0x22] @ feature @ [CHR 0x22] @ '' (or it is expired)''))
       (Inr ())"

text \<open>\<^verbatim>\<open>seatCheck\<close>: \<^verbatim>\<open>limit\<close> is what \<^verbatim>\<open>seatLimit()\<close> returns; zero and NaN are falsy.\<close>

definition seatCheck :: "number \<Rightarrow> string \<Rightarrow> (('g, 'd, 'x) World_scheme, unit) act" where
  "seatCheck limit orgId =
     (if limit = num 0 \<or> limit = NaN then retA ()
      else bindA (readS (\<lambda>w. count_where (\<lambda>d. dv_orgId d = orgId) (w_devices w))) (\<lambda>seats.
           throwUnless (\<not> num_le limit (num (int seats)))
             (Forbidden (''seat limit reached ('' @ show_nat seats @ ''/'' @ show_number limit @
                '') - revoke a device or upgrade''))))"

subsection \<open>Lemmas\<close>

definition phase :: "LicenseStatus \<Rightarrow> nat" where
  "phase s = (case s of NotYetValid \<Rightarrow> 0 | Valid \<Rightarrow> 1 | Grace \<Rightarrow> 2 | Expired \<Rightarrow> 3)"

lemma num_le_trans_lt: "num_lt (Fin a) n \<Longrightarrow> b \<le> a \<Longrightarrow> num_lt (Fin b) n"
  by (cases n) auto

lemma num_le_mono: "num_le (Fin a) n \<Longrightarrow> b \<le> a \<Longrightarrow> num_le (Fin b) n"
  by (cases n) (auto simp: num_le_def)

text \<open>As time passes the status only moves forward: not yet valid, valid, grace, expired.\<close>

lemma license_status_monotone:
  assumes "a \<le> b"
  shows "phase (licenseStatus c (Fin a)) \<le> phase (licenseStatus c (Fin b))"
  using assms num_le_trans_lt [of b _ a] num_le_mono [of b _ a]
  by (auto simp: licenseStatus_def phase_def)

text \<open>A seat is a device row, revoked or not.\<close>

lemma seatCheck_Inr:
  assumes "seatCheck limit orgId w = (w', Inr x)"
  shows "limit = num 0 \<or> limit = NaN \<or>
    \<not> num_le limit (num (int (count_where (\<lambda>d. dv_orgId d = orgId) (w_devices w))))"
  using assms by (auto simp: seatCheck_def run_Inr readS_def stmt_Inr_iff split: if_splits)

lemma hoare_seatCheck: "scriptless P \<Longrightarrow> hoare P (seatCheck limit orgId) (\<lambda>_. P) (\<lambda>_. P)"
  unfolding seatCheck_def
  by (auto intro!: hoare_split hoare_retA hoare_bindA [where R = "\<lambda>_. P"] hoare_readS hoare_throwUnless)

end
