(* ===== verification/Enroll.thy ===== *)
theory Enroll
  imports DeskProvisioner License
begin

section \<open>Enrollment, Desk agents and heartbeats (enroll/enroll.service.ts)\<close>

text \<open>
  A one-time code is exchanged for a device token: the code is claimed, a device row, a gateway key, a token
  row, an audit row and a Desk installation are created in turn, and a failure on the way undoes what was
  done and gives the code back only if everything is undone. The handler is composed of its statements in the
  order of the code; the local variables the compensation reads are fields of the running state. The lemmas
  show what a successful exchange leaves behind and that a failed one never leaves a usable code together
  with a trace of the device.
\<close>

record DeviceInfo =
  in_name :: string
  in_os :: "string option"
  in_hara_version :: "string option"
  in_client_kind :: "string option"

record EnrollResult =
  er_device_token :: string
  er_device_id :: string
  er_tenant_id :: string
  er_tenant_name :: string
  er_model :: string
  er_available_models :: "string list"
  er_model_capabilities :: "(string \<times> string list) list"
  er_thinking_efforts :: "string list"
  er_default_reasoning_effort :: "string option"
  er_base_url :: "string option"
  er_expires_at :: "string option"
  er_access_policy :: StoredAccessKeyPolicy
  er_service_bindings :: "EnrollmentServiceBinding list option"
  er_desk :: "ProvisionedDeskBinding option"

text \<open>The local variables \<^verbatim>\<open>dev\<close>, \<^verbatim>\<open>issued\<close>, \<^verbatim>\<open>enrollmentAuditRecorded\<close>, \<^verbatim>\<open>deskReceipt\<close>, \<^verbatim>\<open>deskCleanupPrepared\<close>.\<close>

record ('g, 'd) EnrollRun = "('g, 'd) World" +
  en_dev :: "string option"
  en_issued :: "IssuedKey option"
  en_auditRecorded :: bool
  en_receipt :: "DeskProvisioningReceipt option"
  en_prepared :: bool

subsection \<open>Before the code is claimed\<close>

record Checked =
  ck_code :: EnrollCode
  ck_org :: Organization
  ck_person :: Person
  ck_model :: string
  ck_models :: "string list"
  ck_policy :: StoredAccessKeyPolicy

definition bad_code :: http_error where
  "bad_code = Unauthorized ''bad or expired code''"

definition find_code :: "string \<Rightarrow> EnrollCode list \<Rightarrow> EnrollCode option" where
  "find_code theCode cs = find (\<lambda>c. ec_code c = theCode) cs"

text \<open>The person is accountable, a seat is free, and the model and the stored policy are acceptable.\<close>

definition check_policy ::
  "('g, 'd) Sys \<Rightarrow> EnrollCode \<Rightarrow> Organization \<Rightarrow> Person \<Rightarrow> (('g, 'd, 'x) World_scheme, Checked) act" where
  "check_policy sy ec org pe =
     thenA (throwUnless (pe_orgId pe = ec_orgId ec) bad_code)
    (thenA (seatCheck (sy_seatLimit sy) (ec_orgId ec))
    (bindA (liftR (resolveEnrollmentModel (Some (ec_model ec)) (sy_env sy))) (\<lambda>resolvedModel.
     bindA (liftR (enrollmentManagedModels resolvedModel (sy_env sy))) (\<lambda>availableModels.
     bindA (liftR (parseStoredAccessKeyPolicy (ec_policy ec) (deviceTokenTtlMinutes (sy_env sy)))) (\<lambda>accessPolicy.
     retA \<lparr>ck_code = ec, ck_org = org, ck_person = pe, ck_model = resolvedModel,
           ck_models = availableModels, ck_policy = accessPolicy\<rparr>)))))"

definition check_code ::
  "('g, 'd) Sys \<Rightarrow> time \<Rightarrow> EnrollCode \<Rightarrow> (('g, 'd, 'x) World_scheme, Checked) act" where
  "check_code sy now ec =
     thenA (throwUnless (ec_usedAt ec = None \<and> \<not> ec_expiresAt ec < now) bad_code)
    (bindA (readS (\<lambda>w. find_org (w_orgs w) (ec_orgId ec))) (\<lambda>organization.
     bindA (if nullish (ec_personId ec) [] \<noteq> []
            then readS (\<lambda>w. find_person (the (ec_personId ec)) (w_persons w)) else retA None) (\<lambda>person.
     case (organization, person) of
       (Some org, Some pe) \<Rightarrow> check_policy sy ec org pe
     | _ \<Rightarrow> throwA bad_code)))"

definition enroll_checks ::
  "('g, 'd) Sys \<Rightarrow> string \<Rightarrow> time \<Rightarrow> (('g, 'd, 'x) World_scheme, Checked) act" where
  "enroll_checks sy theCode now =
     bindA (readS (\<lambda>w. find_code theCode (w_codes w))) (\<lambda>found.
     case found of None \<Rightarrow> throwA bad_code | Some ec \<Rightarrow> check_code sy now ec)"

text \<open>The atomic claim: one conditional update, which tells how many rows it changed.\<close>

definition claimable :: "string \<Rightarrow> time \<Rightarrow> EnrollCode \<Rightarrow> bool" where
  "claimable i now c \<longleftrightarrow> ec_id c = i \<and> ec_usedAt c = None \<and> now \<le> ec_expiresAt c"

definition claim_code :: "string \<Rightarrow> time \<Rightarrow> (('g, 'd, 'x) World_scheme, nat) act" where
  "claim_code i now =
     stmt (\<lambda>w. (w\<lparr>w_codes := update_where (claimable i now) (\<lambda>c. c\<lparr>ec_usedAt := Some now\<rparr>) (w_codes w)\<rparr>,
                count_where (claimable i now) (w_codes w)))"

definition restore_code :: "string \<Rightarrow> time \<Rightarrow> (('g, 'd, 'x) World_scheme, nat) act" where
  "restore_code i now =
     stmt (\<lambda>w. (w\<lparr>w_codes := update_where (\<lambda>c. ec_id c = i \<and> ec_usedAt c = Some now) (\<lambda>c. c\<lparr>ec_usedAt := None\<rparr>) (w_codes w)\<rparr>,
                count_where (\<lambda>c. ec_id c = i \<and> ec_usedAt c = Some now) (w_codes w)))"

subsection \<open>The exchange\<close>

definition new_device :: "Checked \<Rightarrow> DeviceInfo \<Rightarrow> string \<Rightarrow> time \<Rightarrow> Device" where
  "new_device ck device devId now =
     \<lparr>dv_id = devId, dv_orgId = ec_orgId (ck_code ck), dv_name = in_name device, dv_os = nullish (in_os device) [],
      dv_haraVersion = nullish (in_hara_version device) [], dv_enrolledAt = now, dv_lastSeenAt = now,
      dv_revocationRequestedAt = None, dv_revocationCompletedAt = None, dv_deskProvisionedAt = None,
      dv_deskCleanupPendingAt = None, dv_deskOwner = None, dv_deskOrigin = None,
      dv_enrollCodeId = Some (ec_id (ck_code ck)), dv_personId = ec_personId (ck_code ck)\<rparr>"

text \<open>\<^verbatim>\<open>device.create\<close>: a code has at most one device (unique \<^verbatim>\<open>enrollCodeId\<close>).\<close>

definition create_device :: "Device \<Rightarrow> (('g, 'd) EnrollRun, unit) act" where
  "create_device d =
     thenA (txS (\<lambda>w. if \<exists>d' \<in> set (w_devices w). dv_enrollCodeId d' = dv_enrollCodeId d \<and> dv_enrollCodeId d \<noteq> None
                     then Inl (PlainError ''Unique constraint failed on the fields: (enrollCodeId)'')
                     else Inr ((), w\<lparr>w_devices := w_devices w @ [d]\<rparr>)))
           (modifyA (\<lambda>w. w\<lparr>en_dev := Some (dv_id d)\<rparr>))"

definition requested_expiry :: "('g, 'd) Sys \<Rightarrow> StoredAccessKeyPolicy \<Rightarrow> time \<Rightarrow> time option res" where
  "requested_expiry sy policy now =
     (if kp_tokenNeverExpires policy then Inr None
      else case deviceTokenExpiry now (nullish (kp_tokenTtlMinutes policy) (deviceTokenTtlMinutes (sy_env sy))) of
             Some e \<Rightarrow> Inr (Some e)
           | None \<Rightarrow> Inl (PlainError ''device-token expiry must be a future date''))"

definition issue_opts :: "Checked \<Rightarrow> string \<Rightarrow> time option \<Rightarrow> IssueOpts" where
  "issue_opts ck devId expiry =
     \<lparr>io_model = ck_model ck, io_models = Some (ck_models ck), io_alias = devId, io_expiresAt = expiry,
      io_metadata = JObj [(''orgId'', JStr (ec_orgId (ck_code ck)))], io_limits = Some (gatewayLimits (ck_policy ck))\<rparr>"

definition issue_key :: "('g, 'd) Sys \<Rightarrow> IssueOpts \<Rightarrow> (('g, 'd) EnrollRun, IssuedKey) act" where
  "issue_key sy opts =
     bindA (gatewayA (ga_issueKey (sy_gateway sy) opts)) (\<lambda>k.
     thenA (modifyA (\<lambda>w. w\<lparr>en_issued := Some k\<rparr>)) (retA k))"

definition new_token :: "('g, 'd) Sys \<Rightarrow> Checked \<Rightarrow> IssuedKey \<Rightarrow> string \<Rightarrow> string \<Rightarrow> time \<Rightarrow> DeviceToken" where
  "new_token sy ck k devId tokId now =
     \<lparr>dt_id = tokId, dt_deviceId = devId, dt_tokenHash = sy_sha256 sy (ik_key k), dt_gatewayKeyId = ik_keyId k,
      dt_model = ck_model ck, dt_reasoningEffort = ec_reasoningEffort (ck_code ck), dt_createdAt = now,
      dt_expiresAt = ik_expiresAt k, dt_revokedAt = None,
      dt_budgetLimits = JArr (map storedBudgetJson (kp_budgetLimits (ck_policy ck))),
      dt_rpmLimit = kp_rpmLimit (ck_policy ck), dt_tpmLimit = kp_tpmLimit (ck_policy ck)\<rparr>"

text \<open>\<^verbatim>\<open>deviceToken.create\<close>: the device exists (foreign key) and token hashes are unique.\<close>

definition create_token :: "DeviceToken \<Rightarrow> (('g, 'd, 'x) World_scheme, unit) act" where
  "create_token t =
     txS (\<lambda>w. if \<not> (\<exists>d \<in> set (w_devices w). dv_id d = dt_deviceId t)
              then Inl (PlainError ''Foreign key constraint violated on the fields: (deviceId)'')
              else if \<exists>t' \<in> set (w_tokens w). dt_tokenHash t' = dt_tokenHash t
              then Inl (PlainError ''Unique constraint failed on the fields: (tokenHash)'')
              else Inr ((), w\<lparr>w_tokens := w_tokens w @ [t]\<rparr>))"

definition policyJson :: "StoredAccessKeyPolicy \<Rightarrow> jsval" where
  "policyJson p =
     (let opt = (\<lambda>n. case n of None \<Rightarrow> JNull | Some x \<Rightarrow> JNum x)
      in JObj [(''tokenTtlMinutes'', opt (kp_tokenTtlMinutes p)), (''tokenNeverExpires'', JBool (kp_tokenNeverExpires p)),
           (''budgetLimits'', JArr (map storedBudgetJson (kp_budgetLimits p))),
           (''rpmLimit'', opt (kp_rpmLimit p)), (''tpmLimit'', opt (kp_tpmLimit p))])"

definition desk_input :: "Checked \<Rightarrow> DeviceInfo \<Rightarrow> string \<Rightarrow> DeskProvisioningInput" where
  "desk_input ck device devId =
     \<lparr>di_orgId = ec_orgId (ck_code ck), di_owner = pe_email (ck_person ck), di_deviceName = in_name device,
      di_installationId = devId, di_platform = orStr (nullish (in_os device) []) ''unknown'',
      di_version = orStr (nullish (in_hara_version device) []) ''unknown'',
      di_clientKind = orStr (nullish (in_client_kind device) []) ''nanhara.hara-desktop'',
      di_instanceId = None, di_agentName = None, di_expectedUrl = None\<rparr>"

text \<open>The tenant name shown to the device: control characters and runs of white space become one blank.\<close>

function collapse_ws :: "string \<Rightarrow> string" where
  "collapse_ws [] = []"
| "collapse_ws (c # cs) =
     (if is_ws c then CHR '' '' # collapse_ws (dropWhile is_ws cs) else c # collapse_ws cs)"
  by pat_completeness auto
termination by (relation "measure length") (auto simp: less_Suc_eq_le length_dropWhile_le)

definition tenant_name :: "Organization \<Rightarrow> string" where
  "tenant_name org1 =
     orStr (take 80 (trim (collapse_ws (map (\<lambda>c. if is_control c then CHR '' '' else c) (org_name org1))))) (org_id org1)"

definition enroll_result ::
  "Checked \<Rightarrow> IssuedKey \<Rightarrow> string \<Rightarrow> EnrollmentServiceBinding list \<Rightarrow> ProvisionedDeskBinding option \<Rightarrow> EnrollResult" where
  "enroll_result ck k devId bindings desk =
     \<lparr>er_device_token = ik_key k, er_device_id = devId, er_tenant_id = org_id (ck_org ck),
      er_tenant_name = tenant_name (ck_org ck), er_model = ck_model ck, er_available_models = ck_models ck,
      er_model_capabilities = managedModelCapabilities (ck_models ck),
      er_thinking_efforts = managedModelsThinkingEfforts (ck_models ck),
      er_default_reasoning_effort = truthyStr (Some (ec_reasoningEffort (ck_code ck))),
      er_base_url = ec_baseUrl (ck_code ck), er_expires_at = map_option toISOString (ik_expiresAt k),
      er_access_policy = ck_policy ck, er_service_bindings = (if bindings \<noteq> [] then Some bindings else None),
      er_desk = desk\<rparr>"

text \<open>The block the code runs under \<^verbatim>\<open>try\<close>.\<close>

definition enroll_body ::
  "('g, 'd) Sys \<Rightarrow> string \<Rightarrow> string \<Rightarrow> string \<Rightarrow> time \<Rightarrow> Checked \<Rightarrow> DeviceInfo \<Rightarrow> (('g, 'd) EnrollRun, EnrollResult) act" where
  "enroll_body sy devId tokId auId now ck device =
     thenA (create_device (new_device ck device devId now))
    (bindA (liftR (requested_expiry sy (ck_policy ck) now)) (\<lambda>expiry.
     bindA (issue_key sy (issue_opts ck devId expiry)) (\<lambda>k.
     thenA (create_token (new_token sy ck k devId tokId now))
    (thenA (auditLogA (sy_sha256 sy) auId now (ec_orgId (ck_code ck)) ''enroll'' ''device'' devId
              (JObj [(''name'', JStr (in_name device)), (''os'', case in_os device of None \<Rightarrow> JUndef | Some s \<Rightarrow> JStr s),
                     (''accessPolicy'', policyJson (ck_policy ck))]))
    (thenA (modifyA (\<lambda>w. w\<lparr>en_auditRecorded := True\<rparr>))
    (bindA (activeForEnrollment (ec_orgId (ck_code ck))) (\<lambda>bindings.
     bindA (provisionForEnrollment sy (desk_input ck device devId) True (Some (devId, now))
              (\<lambda>_. modifyA (\<lambda>w. w\<lparr>en_prepared := True\<rparr>))) (\<lambda>receipt.
     thenA (modifyA (\<lambda>w. w\<lparr>en_receipt := receipt\<rparr>))
    (thenA (case receipt of
              None \<Rightarrow> retA ()
            | Some rc \<Rightarrow> updateDeviceS devId (finalize_desk now (pe_email (ck_person ck)) (pd_url (rc_binding rc))))
    (thenA (modifyA (\<lambda>w. w\<lparr>en_receipt := None\<rparr>))
           (retA (enroll_result ck k devId bindings (map_option rc_binding receipt)))))))))))))"

subsection \<open>Compensation\<close>

definition attempted :: "('w, unit) act \<Rightarrow> ('w, bool) act" where
  "attempted m = catchA (thenA m (retA True)) (\<lambda>_. retA False)"

definition desk_failure :: "http_error \<Rightarrow> (bool \<times> string) option" where
  "desk_failure e = (case e of DeskProvisioningFailure c u \<Rightarrow> Some (c, u) | _ \<Rightarrow> None)"

definition delete_device :: "string \<Rightarrow> (('g, 'd, 'x) World_scheme, unit) act" where
  "delete_device i =
     txS (\<lambda>w. if \<exists>d \<in> set (w_devices w). dv_id d = i
              then Inr ((), w\<lparr>w_devices := filter (\<lambda>d. dv_id d \<noteq> i) (w_devices w),
                              w_tokens := filter (\<lambda>t. dt_deviceId t \<noteq> i) (w_tokens w)\<rparr>)
              else Inl (PlainError ''Record to delete does not exist.''))"

text \<open>
  The \<^verbatim>\<open>catch\<close> block: \<^verbatim>\<open>e\<close> is the exception, which is thrown again. Each remote or database step is attempted
  and its failure only logged.
\<close>

definition enroll_rollback ::
  "('g, 'd) Sys \<Rightarrow> string \<Rightarrow> time \<Rightarrow> Checked \<Rightarrow> http_error \<Rightarrow> (('g, 'd) EnrollRun, EnrollResult) act" where
  "enroll_rollback sy auId now ck e =
     bindA (getsA en_dev) (\<lambda>dev. bindA (getsA en_issued) (\<lambda>issued. bindA (getsA en_receipt) (\<lambda>receipt.
     bindA (getsA en_prepared) (\<lambda>prepared. bindA (getsA en_auditRecorded) (\<lambda>audited.
     let gatewayRevoked0 = (issued = None);
         unconfirmed = (case desk_failure e of Some (c, _) \<Rightarrow> \<not> c | None \<Rightarrow> False);
         deskRevoked0 = (receipt = None \<and> \<not> unconfirmed);
         deskCleanupPending0 = (prepared \<and> \<not> deskRevoked0)
     in
     bindA (case (dev, desk_failure e) of
              (Some i, Some (False, u)) \<Rightarrow>
                if prepared then retA deskCleanupPending0
                else bindA (attempted (updateDeviceS i (mark_pending (pe_email (ck_person ck)) now u))) (\<lambda>ok.
                     retA (ok \<or> deskCleanupPending0))
            | _ \<Rightarrow> retA deskCleanupPending0) (\<lambda>deskCleanupPending.
     bindA (case receipt of
              None \<Rightarrow> retA deskRevoked0
            | Some rc \<Rightarrow> bindA (attempted (compensate sy rc)) (\<lambda>ok. retA (ok \<or> deskRevoked0))) (\<lambda>deskRevoked.
     bindA (case issued of
              None \<Rightarrow> retA gatewayRevoked0
            | Some k \<Rightarrow> attempted (gatewayA (ga_revokeKey (sy_gateway sy) (ik_keyId k)))) (\<lambda>gatewayRevoked.
     bindA (case dev of
              None \<Rightarrow> retA True
            | Some i \<Rightarrow> if gatewayRevoked \<and> deskRevoked then attempted (delete_device i) else retA False) (\<lambda>deviceRemoved.
     bindA (if gatewayRevoked \<and> deskRevoked \<and> deviceRemoved
            then catchA (bindA (restore_code (ec_id (ck_code ck)) now) (\<lambda>n. retA (n = 1))) (\<lambda>_. retA False)
            else retA False) (\<lambda>codeRestored.
     thenA (whenA audited (ignoreErrors
              (auditLogA (sy_sha256 sy) auId now (ec_orgId (ck_code ck)) ''enroll.rollback'' ''system'' (nullish dev [])
                (JObj [(''gatewayRevoked'', JBool gatewayRevoked), (''deskRevoked'', JBool deskRevoked),
                       (''deskCleanupPending'', JBool deskCleanupPending), (''deviceRemoved'', JBool deviceRemoved),
                       (''codeRestored'', JBool codeRestored)]))))
           (throwA e)))))))))))"

text \<open>The request starts with fresh locals, and they end with it.\<close>

definition start_run :: "('g, 'd) World \<Rightarrow> ('g, 'd) EnrollRun" where
  "start_run w = World.extend w \<lparr>en_dev = None, en_issued = None, en_auditRecorded = False, en_receipt = None, en_prepared = False\<rparr>"

definition with_locals :: "(('g, 'd) EnrollRun, 'a) act \<Rightarrow> (('g, 'd) World, 'a) act" where
  "with_locals m w = (case m (start_run w) of (s, r) \<Rightarrow> (World.truncate s, r))"

text \<open>\<^verbatim>\<open>devId\<close>, \<^verbatim>\<open>tokId\<close>, \<^verbatim>\<open>auId\<close> and \<^verbatim>\<open>auId2\<close> are the ids of the rows the request creates.\<close>

definition enroll ::
  "('g, 'd) Sys \<Rightarrow> string \<Rightarrow> string \<Rightarrow> string \<Rightarrow> string \<Rightarrow> time \<Rightarrow> string \<Rightarrow> DeviceInfo \<Rightarrow> (('g, 'd) World, EnrollResult) act" where
  "enroll sy devId tokId auId auId2 now theCode device =
     bindA (enroll_checks sy theCode now) (\<lambda>ck.
     bindA (claim_code (ec_id (ck_code ck)) now) (\<lambda>claimed.
     thenA (throwUnless (claimed = 1) bad_code)
           (with_locals (catchA (enroll_body sy devId tokId auId now ck device)
                                (enroll_rollback sy auId2 now ck)))))"

subsection \<open>Further Desk agents and heartbeats\<close>

definition instance_char :: "char \<Rightarrow> bool" where
  "instance_char c \<longleftrightarrow> is_lower_az c \<or> is_digit c \<or> c \<in> set ''._-''"

definition instance_ok :: "string \<Rightarrow> bool" where
  "instance_ok s \<longleftrightarrow> s = toLowerCase s \<and> length s \<le> 80 \<and> s \<noteq> [] \<and> (is_lower_az (hd s) \<or> is_digit (hd s)) \<and>
     list_all instance_char s"

definition tokenDevice :: "string \<Rightarrow> ('g, 'd, 'x) World_scheme \<Rightarrow> (DeviceToken \<times> Device option) option" where
  "tokenDevice h w =
     (case find_token h (w_tokens w) of
        None \<Rightarrow> None
      | Some t \<Rightarrow> Some (t, find_device (dt_deviceId t) (w_devices w)))"

record DeskAgentResult =
  ar_desk :: ProvisionedDeskBinding
  ar_client_kind :: string
  ar_instance_id :: string

text \<open>\<^verbatim>\<open>nowA\<close> and \<^verbatim>\<open>nowB\<close> are the clock at the two token checks.\<close>

definition provisionDeskAgent ::
  "('g, 'd) Sys \<Rightarrow> time \<Rightarrow> time \<Rightarrow> string option \<Rightarrow> string \<Rightarrow> string option \<Rightarrow> string option \<Rightarrow>
     (('g, 'd, 'x) World_scheme, DeskAgentResult) act" where
  "provisionDeskAgent sy nowA nowB bearer clientKind inputInstance inputName =
     (let unavailable = ServiceUnavailable ''Hara Desk is not provisioned for this organization device''
      in case bearer of
           None \<Rightarrow> throwA (Unauthorized ''missing token'')
         | Some b \<Rightarrow>
             thenA (throwUnless (b \<noteq> []) (Unauthorized ''missing token''))
            (bindA (readS (tokenDevice (sy_sha256 sy b))) (\<lambda>found.
             thenA (liftR (assertTokenUsable nowA (sy_env sy) None (map_option (\<lambda>(t, _). validatable t) found)))
            (case Option.bind found snd of
               None \<Rightarrow> throwA (PlainError ''Cannot read properties of null'')
             | Some device \<Rightarrow>
                 thenA (throwUnless (dv_deskProvisionedAt device \<noteq> None \<and> nullish (dv_deskOwner device) [] \<noteq> [] \<and>
                                     nullish (dv_deskOrigin device) [] \<noteq> []) unavailable)
                (let instanceId = orStr (trim (nullish inputInstance [])) ''default''
                 in
                 thenA (throwUnless (instance_ok instanceId)
                   (BadRequest ''Desk Agent instance must use 1-80 lowercase letters, numbers, dots, underscores, or dashes''))
                (bindA (provision sy
                   \<lparr>di_orgId = dv_orgId device, di_owner = the (dv_deskOwner device), di_deviceName = dv_name device,
                    di_installationId = dv_id device, di_platform = orStr (dv_os device) ''unknown'',
                    di_version = orStr (dv_haraVersion device) ''unknown'', di_clientKind = clientKind,
                    di_instanceId = Some instanceId,
                    di_agentName = Some (orStr (trim (nullish inputName [])) (clientKind @ '' - '' @ dv_name device)),
                    di_expectedUrl = dv_deskOrigin device\<rparr>) (\<lambda>provisioned.
                 case provisioned of
                   None \<Rightarrow> throwA (ServiceUnavailable ''Hara Desk provisioning is unavailable for this organization'')
                 | Some desk \<Rightarrow>
                     bindA (readS (tokenDevice (sy_sha256 sy b))) (\<lambda>found'.
                     thenA (liftR (assertTokenUsable nowB (sy_env sy) None (map_option (\<lambda>(t, _). validatable t) found')))
                    (case Option.bind found' snd of
                       None \<Rightarrow> throwA (PlainError ''Cannot read properties of null'')
                     | Some current \<Rightarrow>
                         thenA (throwUnless (dv_id current = dv_id device \<and> dv_deskProvisionedAt current \<noteq> None \<and>
                                   dv_deskOwner current = dv_deskOwner device \<and> dv_deskOrigin current = dv_deskOrigin device)
                           (ServiceUnavailable ''Hara Desk installation changed while the Agent credential was being provisioned''))
                        (retA \<lparr>ar_desk = desk, ar_client_kind = clientKind, ar_instance_id = instanceId\<rparr>))))))))))"

record HeartbeatResult =
  hb_model :: string
  hb_available_models :: "string list"
  hb_model_capabilities :: "(string \<times> string list) list"
  hb_thinking_efforts :: "string list"
  hb_default_reasoning_effort :: "string option"
  hb_expires_at :: "string option"

definition heartbeat ::
  "('g, 'd) Sys \<Rightarrow> string option \<Rightarrow> string option \<Rightarrow> string option \<Rightarrow> time \<Rightarrow>
     (('g, 'd, 'x) World_scheme, HeartbeatResult) act" where
  "heartbeat sy bearer haraVersion os now =
     (case bearer of
        None \<Rightarrow> throwA (Unauthorized ''missing token'')
      | Some b \<Rightarrow>
          thenA (throwUnless (b \<noteq> []) (Unauthorized ''missing token''))
         (bindA (readS (\<lambda>w. find_token (sy_sha256 sy b) (w_tokens w))) (\<lambda>dt.
          thenA (liftR (assertTokenUsable now (sy_env sy) None (map_option validatable dt)))
         (case dt of
            None \<Rightarrow> throwA (Unauthorized ''revoked or unknown token'')
          | Some t \<Rightarrow>
              bindA (liftR (resolveEnrollmentModel (Some (dt_model t)) (sy_env sy))) (\<lambda>resolvedModel.
              bindA (liftR (enrollmentManagedModels resolvedModel (sy_env sy))) (\<lambda>availableModels.
              thenA (gatewayA (ga_syncKeyModels (sy_gateway sy) (dt_gatewayKeyId t)
                       (managedKeyAuthorizationModels (dt_model t) availableModels)))
             (thenA (updateDeviceS (dt_deviceId t) (\<lambda>d. d\<lparr>dv_lastSeenAt := now,
                        dv_haraVersion := orStr (nullish haraVersion []) (dv_haraVersion d),
                        dv_os := orStr (nullish os []) (dv_os d)\<rparr>))
             (retA \<lparr>hb_model = resolvedModel, hb_available_models = availableModels,
                    hb_model_capabilities = managedModelCapabilities availableModels,
                    hb_thinking_efforts = managedModelsThinkingEfforts availableModels,
                    hb_default_reasoning_effort = truthyStr (Some (dt_reasoningEffort t)),
                    hb_expires_at = map_option toISOString (dt_expiresAt t)\<rparr>))))))))"

subsection \<open>The running request\<close>

text \<open>
  \<^verbatim>\<open>run_frame w0 i s\<close>: since \<^verbatim>\<open>w0\<close>, the world when the code had just been claimed, the request has changed nothing
  but rows of device \<^verbatim>\<open>i\<close>, and nothing at all before it created the device.
\<close>

definition run_frame :: "('g, 'd) World \<Rightarrow> string \<Rightarrow> ('g, 'd) EnrollRun \<Rightarrow> bool" where
  "run_frame w0 i s \<longleftrightarrow>
     w_codes s = w_codes w0 \<and>
     filter (\<lambda>d. dv_id d \<noteq> i) (w_devices s) = w_devices w0 \<and>
     filter (\<lambda>t. dt_deviceId t \<noteq> i) (w_tokens s) = w_tokens w0 \<and>
     (en_dev s = None \<longrightarrow> w_devices s = w_devices w0 \<and> w_tokens s = w_tokens w0) \<and>
     (en_dev s \<noteq> None \<longrightarrow> en_dev s = Some i)"

definition gateway_known ::
  "'g GatewayAdapter \<Rightarrow> ('g \<Rightarrow> string set) \<Rightarrow> ('g, 'd) World \<Rightarrow> string \<Rightarrow> ('g, 'd) EnrollRun \<Rightarrow> bool" where
  "gateway_known A live w0 i s \<longleftrightarrow>
     (case en_issued s of
        Some k \<Rightarrow> ik_keyId k = i \<and> live (w_gateway s) = insert i (live (w_gateway w0))
      | None \<Rightarrow> live (w_gateway s) = live (w_gateway w0) \<or>
          (\<exists>opts e. io_alias opts = i \<and> ga_issueKey A opts (w_gateway w0) = (w_gateway s, Inl e) \<and>
             live (w_gateway s) - {i} = live (w_gateway w0) - {i}))"

definition desk_known ::
  "('d \<Rightarrow> (string \<times> string \<times> string) set) \<Rightarrow> ('g, 'd) World \<Rightarrow> string \<Rightarrow> string \<Rightarrow> http_error \<Rightarrow> ('g, 'd) EnrollRun \<Rightarrow> bool" where
  "desk_known installed w0 orgId i e s \<longleftrightarrow>
     (case en_receipt s of
        None \<Rightarrow> installed (w_desk s) = installed (w_desk w0) \<or>
          (\<exists>u. e = DeskProvisioningFailure False u \<and> around (installed (w_desk w0)) (u, orgId, i) (installed (w_desk s)))
      | Some rc \<Rightarrow> rc_orgId rc = orgId \<and> rc_installationId rc = i \<and>
          around (installed (w_desk w0)) (rc_url rc, orgId, i) (installed (w_desk s)))"

definition fresh_device ::
  "('g \<Rightarrow> string set) \<Rightarrow> ('d \<Rightarrow> (string \<times> string \<times> string) set) \<Rightarrow> string \<Rightarrow> ('g, 'd) World \<Rightarrow> bool" where
  "fresh_device live installed i w \<longleftrightarrow>
     i \<notin> dv_id ` set (w_devices w) \<and> i \<notin> dt_deviceId ` set (w_tokens w) \<and> i \<notin> live (w_gateway w) \<and>
     (\<forall>u orgId. (u, orgId, i) \<notin> installed (w_desk w)) \<and> trim i = i"

definition running ::
  "'g GatewayAdapter \<Rightarrow> ('g \<Rightarrow> string set) \<Rightarrow> ('d \<Rightarrow> (string \<times> string \<times> string) set) \<Rightarrow> ('g, 'd) World \<Rightarrow> string \<Rightarrow>
     ('g, 'd) EnrollRun \<Rightarrow> bool" where
  "running A live installed w0 i s \<longleftrightarrow>
     run_frame w0 i s \<and> gateway_known A live w0 i s \<and> en_receipt s = None \<and>
     installed (w_desk s) = installed (w_desk w0)"

definition failing ::
  "'g GatewayAdapter \<Rightarrow> ('g \<Rightarrow> string set) \<Rightarrow> ('d \<Rightarrow> (string \<times> string \<times> string) set) \<Rightarrow> ('g, 'd) World \<Rightarrow> string \<Rightarrow> string \<Rightarrow>
     http_error \<Rightarrow> ('g, 'd) EnrollRun \<Rightarrow> bool" where
  "failing A live installed w0 orgId i e s \<longleftrightarrow>
     run_frame w0 i s \<and> gateway_known A live w0 i s \<and> desk_known installed w0 orgId i e s"

lemmas run_defs = run_frame_def running_def failing_def

lemma gateway_known_frame [simp]:
  "gateway_known A live w0 i (s\<lparr>w_script := x1\<rparr>) = gateway_known A live w0 i s"
  "gateway_known A live w0 i (s\<lparr>w_desk := x2\<rparr>) = gateway_known A live w0 i s"
  "gateway_known A live w0 i (s\<lparr>w_devices := x3\<rparr>) = gateway_known A live w0 i s"
  "gateway_known A live w0 i (s\<lparr>w_tokens := x4\<rparr>) = gateway_known A live w0 i s"
  "gateway_known A live w0 i (s\<lparr>w_audits := x5\<rparr>) = gateway_known A live w0 i s"
  "gateway_known A live w0 i (s\<lparr>en_dev := x6\<rparr>) = gateway_known A live w0 i s"
  "gateway_known A live w0 i (s\<lparr>en_auditRecorded := x7\<rparr>) = gateway_known A live w0 i s"
  "gateway_known A live w0 i (s\<lparr>en_receipt := x8\<rparr>) = gateway_known A live w0 i s"
  "gateway_known A live w0 i (s\<lparr>en_prepared := x9\<rparr>) = gateway_known A live w0 i s"
  "gateway_known A live w0 i (s\<lparr>w_codes := x10\<rparr>) = gateway_known A live w0 i s"
  by (simp_all add: gateway_known_def split: option.split)

lemma desk_known_frame [simp]:
  "desk_known installed w0 orgId i e (s\<lparr>w_script := x1\<rparr>) = desk_known installed w0 orgId i e s"
  "desk_known installed w0 orgId i e (s\<lparr>w_gateway := x2\<rparr>) = desk_known installed w0 orgId i e s"
  "desk_known installed w0 orgId i e (s\<lparr>w_devices := x3\<rparr>) = desk_known installed w0 orgId i e s"
  "desk_known installed w0 orgId i e (s\<lparr>w_tokens := x4\<rparr>) = desk_known installed w0 orgId i e s"
  "desk_known installed w0 orgId i e (s\<lparr>w_audits := x5\<rparr>) = desk_known installed w0 orgId i e s"
  by (simp_all add: desk_known_def split: option.split)

lemma running_failing: "running A live installed w0 i s \<Longrightarrow> failing A live installed w0 orgId i e s"
  by (simp add: running_def failing_def desk_known_def)

lemma scriptless_running [simp, intro]: "scriptless (running A live installed w0 i)"
  by (rule scriptlessI) (simp add: run_defs)

lemma scriptless_run_gateway [simp, intro]:
  "scriptless (\<lambda>s. run_frame w0 i s \<and> gateway_known A live w0 i s \<and> en_receipt s = r)"
  by (rule scriptlessI) (simp add: run_defs)

lemma deskless_run_gateway [simp, intro]:
  "deskless (\<lambda>s. run_frame w0 i s \<and> gateway_known A live w0 i s \<and> en_receipt s = r)"
  by (rule desklessI) (simp add: run_defs)

lemma clear_desk_id: "clear_desk (f d) = clear_desk d \<Longrightarrow> dv_id (f d) = dv_id d"
  unfolding clear_desk_def by (drule arg_cong [where f = dv_id]) simp

lemma filter_update_device:
  fixes f :: "Device \<Rightarrow> Device"
  assumes "\<And>d. p d \<Longrightarrow> dv_id d = i" "\<And>d. clear_desk (f d) = clear_desk d"
  shows "filter (\<lambda>d. dv_id d \<noteq> i) (update_where p f ds) = filter (\<lambda>d. dv_id d \<noteq> i) ds"
  using assms clear_desk_id [of f] by (intro filter_update_other) auto

lemma desk_columns_run [simp, intro]:
  assumes "i \<notin> dv_id ` set (w_devices w0)"
  shows "desk_columns_free i (\<lambda>s. run_frame w0 i s \<and> gateway_known A live w0 i s \<and> en_receipt s = r)"
  unfolding desk_columns_free_def
proof (intro allI impI)
  fix w :: "('a, 'b) EnrollRun" and p :: "Device \<Rightarrow> bool" and f :: "Device \<Rightarrow> Device"
  assume *: "run_frame w0 i w \<and> gateway_known A live w0 i w \<and> en_receipt w = r"
    "\<forall>d. p d \<longrightarrow> dv_id d = i" "\<forall>d. clear_desk (f d) = clear_desk d"
  have "en_dev w = None \<longrightarrow> update_where p f (w_devices w) = w_devices w"
    using * assms by (auto simp: run_frame_def intro!: update_where_none)
  with * show "run_frame w0 i (w\<lparr>w_devices := update_where p f (w_devices w)\<rparr>) \<and>
      gateway_known A live w0 i (w\<lparr>w_devices := update_where p f (w_devices w)\<rparr>) \<and>
      en_receipt (w\<lparr>w_devices := update_where p f (w_devices w)\<rparr>) = r"
    by (simp add: run_frame_def filter_update_device)
qed

subsection \<open>The steps of the exchange\<close>

abbreviation not_issued ::
  "'g GatewayAdapter \<Rightarrow> ('g \<Rightarrow> string set) \<Rightarrow> ('d \<Rightarrow> (string \<times> string \<times> string) set) \<Rightarrow> ('g, 'd) World \<Rightarrow> string \<Rightarrow>
     ('g, 'd) EnrollRun \<Rightarrow> bool" where
  "not_issued A live installed w0 i s \<equiv>
     running A live installed w0 i s \<and> en_issued s = None \<and> w_gateway s = w_gateway w0"

lemma hoare_create_device:
  assumes "i \<notin> dv_id ` set (w_devices w0)" "dv_id d = i"
  shows "hoare (\<lambda>s. not_issued A live installed w0 i s \<and> en_dev s = None) (create_device d)
     (\<lambda>_. not_issued A live installed w0 i) (\<lambda>_. running A live installed w0 i)"
  unfolding create_device_def
proof (rule hoare_thenA)
  let ?R = "\<lambda>s. not_issued A live installed w0 i (s\<lparr>en_dev := Some i\<rparr>)"
  show "hoare (\<lambda>s. not_issued A live installed w0 i s \<and> en_dev s = None)
     (txS (\<lambda>w. if \<exists>d' \<in> set (w_devices w). dv_enrollCodeId d' = dv_enrollCodeId d \<and> dv_enrollCodeId d \<noteq> None
               then Inl (PlainError ''Unique constraint failed on the fields: (enrollCodeId)'')
               else Inr ((), w\<lparr>w_devices := w_devices w @ [d]\<rparr>)))
     (\<lambda>_. ?R) (\<lambda>_. running A live installed w0 i)"
  proof (rule hoare_txS)
    show "scriptless (\<lambda>s. not_issued A live installed w0 i s \<and> en_dev s = None)"
      by (rule scriptlessI) (simp add: run_defs)
  qed (use assms in \<open>auto simp: run_defs split: if_splits\<close>)
  show "hoare ?R (modifyA (\<lambda>w. w\<lparr>en_dev := Some (dv_id d)\<rparr>)) (\<lambda>_. not_issued A live installed w0 i)
      (\<lambda>_. running A live installed w0 i)"
    using assms(2) by (auto intro: hoare_modifyA)
qed

lemma start_not_issued:
  assumes "fresh_device live installed i w0"
  shows "not_issued A live installed w0 i (start_run w0) \<and> en_dev (start_run w0) = None"
proof -
  have "filter (\<lambda>d. dv_id d \<noteq> i) (w_devices w0) = w_devices w0" "filter (\<lambda>t. dt_deviceId t \<noteq> i) (w_tokens w0) = w_tokens w0"
    using assms by (auto simp: fresh_device_def filter_id_conv)
  then show ?thesis by (simp add: run_defs gateway_known_def start_run_def World.defs)
qed

lemma hoare_issue_key:
  assumes G: "gateway_adapter A live" and A: "sy_gateway sy = A" and i: "io_alias opts = i" "i \<notin> live (w_gateway w0)"
  shows "hoare (\<lambda>s. running A live installed w0 i s \<and> en_issued s = None \<and> w_gateway s = w_gateway w0) (issue_key sy opts)
     (\<lambda>k s. running A live installed w0 i s \<and> en_issued s = Some k) (\<lambda>_. running A live installed w0 i)"
  unfolding issue_key_def
proof (rule hoare_bindA)
  let ?Q = "\<lambda>k s. running A live installed w0 i (s\<lparr>en_issued := Some k\<rparr>)"
  show "hoare (\<lambda>s. running A live installed w0 i s \<and> en_issued s = None \<and> w_gateway s = w_gateway w0)
      (gatewayA (ga_issueKey (sy_gateway sy) opts)) ?Q (\<lambda>_. running A live installed w0 i)"
  proof (rule hoare_gatewayA)
    fix w g k
    assume w: "running A live installed w0 i w \<and> en_issued w = None \<and> w_gateway w = w_gateway w0"
      and "ga_issueKey (sy_gateway sy) opts (w_gateway w) = (g, Inr k)"
    with gateway_adapter.issue_ok [OF G] A i have "ik_keyId k = i \<and> live g = insert i (live (w_gateway w0))" by metis
    with w show "running A live installed w0 i (w\<lparr>w_gateway := g, en_issued := Some k\<rparr>)"
      by (simp add: run_defs gateway_known_def)
  next
    fix w g e
    assume w: "running A live installed w0 i w \<and> en_issued w = None \<and> w_gateway w = w_gateway w0"
      and f: "ga_issueKey (sy_gateway sy) opts (w_gateway w) = (g, Inl e)"
    with gateway_adapter.issue_failed [OF G] A i have "live g - {i} = live (w_gateway w0) - {i}" by metis
    with w f A i show "running A live installed w0 i (w\<lparr>w_gateway := g\<rparr>)"
      by (auto simp: run_defs gateway_known_def)
  qed
  show "hoare (?Q k) (thenA (modifyA (\<lambda>w. w\<lparr>en_issued := Some k\<rparr>)) (retA k))
      (\<lambda>k s. running A live installed w0 i s \<and> en_issued s = Some k) (\<lambda>_. running A live installed w0 i)" for k
    by (rule hoare_thenA [where R = "\<lambda>s. running A live installed w0 i s \<and> en_issued s = Some k"])
      (auto intro!: hoare_modifyA hoare_retA)
qed

lemma hoare_create_token:
  assumes "dt_deviceId t = i" "i \<notin> dv_id ` set (w_devices w0)"
  shows "hoare (running A live installed w0 i) (create_token t) (\<lambda>_. running A live installed w0 i) (\<lambda>_. running A live installed w0 i)"
  unfolding create_token_def
proof (rule hoare_txS)
  fix w w' :: "('a, 'b) EnrollRun" and x :: unit
  assume w: "running A live installed w0 i w" and
    f: "(if \<not> (\<exists>d \<in> set (w_devices w). dv_id d = dt_deviceId t)
         then Inl (PlainError ''Foreign key constraint violated on the fields: (deviceId)'')
         else if \<exists>t' \<in> set (w_tokens w). dt_tokenHash t' = dt_tokenHash t
         then Inl (PlainError ''Unique constraint failed on the fields: (tokenHash)'')
         else Inr ((), w\<lparr>w_tokens := w_tokens w @ [t]\<rparr>)) = Inr (x, w')"
  obtain d where "d \<in> set (w_devices w)" "dv_id d = i" using f assms(1) by (auto split: if_splits)
  then have "en_dev w \<noteq> None" using w assms(2) by (metis running_def run_frame_def imageI)
  with w f assms(1) show "running A live installed w0 i w'" by (auto simp: run_defs split: if_splits)
qed auto

lemma hoare_enroll_audit:
  "hoare (running A live installed w0 i) (auditLogA H auId now orgId act aty aid payload)
     (\<lambda>_. running A live installed w0 i) (\<lambda>_. running A live installed w0 i)"
  by (rule hoare_auditLogA) (auto simp: run_defs)

lemma failing_desk_update:
  fixes f :: "Device \<Rightarrow> Device"
  assumes "failing A live installed w0 orgId i e s" "i \<notin> dv_id ` set (w_devices w0)" "\<And>d. clear_desk (f d) = clear_desk d"
  shows "failing A live installed w0 orgId i e (update_device i f s)"
  using desk_columns_freeD [OF desk_columns_run [OF assms(2), of A live "en_receipt s"], of s "\<lambda>d. dv_id d = i" f] assms(1,3)
  by (simp add: failing_def)

lemma scriptless_failing [simp, intro]: "scriptless (failing A live installed w0 orgId i e)"
  by (rule scriptlessI) (simp add: run_defs)

lemma hoare_enroll_provision:
  assumes D: "desk_documented sy installed" and fresh: "fresh_device live installed i w0"
  shows "hoare (running A live installed w0 i)
     (provisionForEnrollment sy (desk_input ck device i) True (Some (i, now)) (\<lambda>_. modifyA (\<lambda>w. w\<lparr>en_prepared := True\<rparr>)))
     (\<lambda>rc s. \<forall>e. failing A live installed w0 (ec_orgId (ck_code ck)) i e (s\<lparr>en_receipt := rc\<rparr>))
     (failing A live installed w0 (ec_orgId (ck_code ck)) i)"
proof -
  let ?P = "\<lambda>s. run_frame w0 i s \<and> gateway_known A live w0 i s \<and> en_receipt s = None"
  let ?I = "installed (w_desk w0)"
  have i: "i \<notin> dv_id ` set (w_devices w0)" "trim i = i" using fresh by (simp_all add: fresh_device_def)
  have input: "di_orgId (desk_input ck device i) = ec_orgId (ck_code ck)" "di_installationId (desk_input ck device i) = i"
    by (simp_all add: desk_input_def)
  have onP: "hoare (\<lambda>s. ?P s \<and> installed (w_desk s) = ?I) (modifyA (\<lambda>w. w\<lparr>en_prepared := True\<rparr>))
      (\<lambda>_ s. ?P s \<and> installed (w_desk s) = ?I) (\<lambda>_ s. ?P s \<and> installed (w_desk s) = ?I)"
    by (rule hoare_modifyA) (simp add: run_frame_def)
  have fr: "(u, di_orgId (desk_input ck device i), trim (di_installationId (desk_input ck device i))) \<notin> ?I" for u
    using fresh i(2) by (simp add: input fresh_device_def)
  note triple = hoare_provisionForEnrollment [OF D scriptless_run_gateway deskless_run_gateway desk_columns_run [OF i(1)] onP fr,
      where t = now, unfolded input i(2)]
  show ?thesis
  proof (rule hoare_weaken [OF triple])
    fix rc :: "DeskProvisioningReceipt option" and s :: "('a, 'b) EnrollRun"
    assume s: "?P s \<and> (case rc of None \<Rightarrow> installed (w_desk s) = ?I
        | Some c \<Rightarrow> around ?I (rc_url c, ec_orgId (ck_code ck), i) (installed (w_desk s)) \<and>
            rc_orgId c = ec_orgId (ck_code ck) \<and> rc_installationId c = i \<and> pd_url (rc_binding c) = rc_url c)"
    then have "run_frame w0 i (s\<lparr>en_receipt := rc\<rparr>)" by (simp add: run_frame_def)
    with s show "\<forall>e. failing A live installed w0 (ec_orgId (ck_code ck)) i e (s\<lparr>en_receipt := rc\<rparr>)"
      by (auto simp: failing_def desk_known_def split: option.splits)
  qed (auto simp: running_def failing_def desk_known_def)
qed

lemma hoare_enroll_body:
  assumes G: "gateway_adapter (sy_gateway sy) live" and D: "desk_documented sy installed"
    and fresh: "fresh_device live installed i w0"
  shows "hoare (\<lambda>s. s = start_run w0) (enroll_body sy i tokId auId now ck device) (\<lambda>_ _. True)
     (failing (sy_gateway sy) live installed w0 (ec_orgId (ck_code ck)) i)"
proof -
  let ?A = "sy_gateway sy"
  let ?run = "running ?A live installed w0 i"
  let ?fail = "failing ?A live installed w0 (ec_orgId (ck_code ck)) i"
  have i: "i \<notin> dv_id ` set (w_devices w0)" "i \<notin> live (w_gateway w0)"
    using fresh by (simp_all add: fresh_device_def)
  have start: "hoare (\<lambda>s. s = start_run w0) (create_device (new_device ck device i now))
      (\<lambda>_. not_issued ?A live installed w0 i) ?fail"
    by (rule hoare_weaken [OF hoare_create_device [OF i(1)]])
      (use start_not_issued [OF fresh, of ?A] in \<open>auto simp: new_device_def intro: running_failing\<close>)
  have issued: "hoare (not_issued ?A live installed w0 i) (issue_key sy (issue_opts ck i x)) (\<lambda>k. ?run) ?fail" for x
    by (rule hoare_weaken [OF hoare_issue_key [OF G refl _ i(2)]]) (auto simp: issue_opts_def intro: running_failing)
  have token: "hoare ?run (create_token (new_token sy ck k i tokId now)) (\<lambda>_. ?run) ?fail" for k
    by (rule hoare_weaken [OF hoare_create_token [OF _ i(1)]]) (auto simp: new_token_def intro: running_failing)
  have audited: "hoare ?run (auditLogA H auId now orgId act aty aid payload) (\<lambda>_. ?run) ?fail" for H orgId act aty aid payload
    by (rule hoare_weaken [OF hoare_enroll_audit]) (auto intro: running_failing)
  have recorded: "hoare ?run (modifyA (\<lambda>w. w\<lparr>en_auditRecorded := True\<rparr>)) (\<lambda>_. ?run) ?fail"
    by (rule hoare_modifyA) (simp add: run_defs)
  have read: "hoare ?run (activeForEnrollment orgId) (\<lambda>_. ?run) ?fail" for orgId
    unfolding activeForEnrollment_def by (rule hoare_readS) (auto intro: running_failing)
  have keep: "hoare (\<lambda>s. \<forall>e. ?fail e (s\<lparr>en_receipt := rc\<rparr>)) (modifyA (\<lambda>w. w\<lparr>en_receipt := rc\<rparr>)) (\<lambda>_ s. \<forall>e. ?fail e s) ?fail" for rc
    by (rule hoare_modifyA) simp
  have update: "hoare (\<lambda>s. \<forall>e. ?fail e s) (updateDeviceS i (finalize_desk now x u)) (\<lambda>_ _. True) ?fail" for x u
    by (rule hoare_updateDeviceS) (auto intro!: scriptlessI simp: run_defs)
  show ?thesis
    unfolding enroll_body_def
    apply (rule hoare_thenA [OF start])
    apply (rule hoare_bindA [where R = "\<lambda>_. not_issued ?A live installed w0 i"])
     apply (rule hoare_liftR; auto intro: running_failing)
    apply (rule hoare_bindA [OF issued], rule hoare_thenA [OF token], rule hoare_thenA [OF audited])
    apply (rule hoare_thenA [OF recorded], rule hoare_bindA [OF read])
    apply (rule hoare_bindA [OF hoare_enroll_provision [OF D fresh]], rule hoare_thenA [OF keep])
    apply (rule hoare_thenA [where R = "\<lambda>_. True"])
    subgoal for x k bs rc by (cases rc) (auto intro: update hoare_retA)
    apply (rule hoare_thenA [where R = "\<lambda>_. True"])
    apply (auto intro: hoare_modifyA hoare_retA)
    done
qed

subsection \<open>The steps of the compensation\<close>

definition others_same :: "('g, 'd) World \<Rightarrow> string \<Rightarrow> ('g, 'd, 'x) World_scheme \<Rightarrow> bool" where
  "others_same w0 i s \<longleftrightarrow>
     filter (\<lambda>d. dv_id d \<noteq> i) (w_devices s) = w_devices w0 \<and>
     filter (\<lambda>t. dt_deviceId t \<noteq> i) (w_tokens s) = w_tokens w0"

text \<open>No key under the device's alias, unless issuing it failed at the gateway and left one behind there.\<close>

definition gateway_clean :: "'g GatewayAdapter \<Rightarrow> ('g \<Rightarrow> string set) \<Rightarrow> 'g \<Rightarrow> string \<Rightarrow> 'g \<Rightarrow> bool" where
  "gateway_clean A live g0 i g \<longleftrightarrow>
     live g = live g0 \<or>
     (\<exists>opts e. io_alias opts = i \<and> ga_issueKey A opts g0 = (g, Inl e) \<and> live g - {i} = live g0 - {i})"

definition no_trace ::
  "'g GatewayAdapter \<Rightarrow> ('g \<Rightarrow> string set) \<Rightarrow> ('d \<Rightarrow> (string \<times> string \<times> string) set) \<Rightarrow> ('g, 'd) World \<Rightarrow> string \<Rightarrow>
     ('g, 'd, 'x) World_scheme \<Rightarrow> bool" where
  "no_trace A live installed w0 i s \<longleftrightarrow>
     w_devices s = w_devices w0 \<and> w_tokens s = w_tokens w0 \<and> installed (w_desk s) = installed (w_desk w0) \<and>
     gateway_clean A live (w_gateway w0) i (w_gateway s)"

definition rolled_back ::
  "'g GatewayAdapter \<Rightarrow> ('g \<Rightarrow> string set) \<Rightarrow> ('d \<Rightarrow> (string \<times> string \<times> string) set) \<Rightarrow> ('g, 'd) World \<Rightarrow> string \<Rightarrow> string \<Rightarrow> time \<Rightarrow>
     ('g, 'd, 'x) World_scheme \<Rightarrow> bool" where
  "rolled_back A live installed w0 i cid now s \<longleftrightarrow>
     w_codes s = w_codes w0 \<and> others_same w0 i s \<or>
     w_codes s = update_where (\<lambda>c. ec_id c = cid \<and> ec_usedAt c = Some now) (\<lambda>c. c\<lparr>ec_usedAt := None\<rparr>) (w_codes w0) \<and>
     no_trace A live installed w0 i s"

lemma hoare_attempted:
  "hoare P m (\<lambda>_. Q True) (\<lambda>_. Q False) \<Longrightarrow> hoare P (attempted m) Q E"
  unfolding attempted_def
  by (rule hoare_catchA [where R = "\<lambda>_. Q False"])
    (auto intro!: hoare_thenA [where R = "Q True"] hoare_retA)

text \<open>After the Desk step (\<^verbatim>\<open>dr\<close>), the gateway step (\<^verbatim>\<open>gr\<close>) and the removal (\<^verbatim>\<open>rm\<close>).\<close>

definition after_desk ::
  "'g GatewayAdapter \<Rightarrow> ('g \<Rightarrow> string set) \<Rightarrow> ('d \<Rightarrow> (string \<times> string \<times> string) set) \<Rightarrow> ('g, 'd) World \<Rightarrow> string \<Rightarrow>
     string option \<Rightarrow> IssuedKey option \<Rightarrow> bool \<Rightarrow> ('g, 'd) EnrollRun \<Rightarrow> bool" where
  "after_desk A live installed w0 i dev issued dr s \<longleftrightarrow>
     run_frame w0 i s \<and> gateway_known A live w0 i s \<and> en_dev s = dev \<and> en_issued s = issued \<and>
     (dr \<longrightarrow> installed (w_desk s) = installed (w_desk w0))"

definition after_gateway ::
  "'g GatewayAdapter \<Rightarrow> ('g \<Rightarrow> string set) \<Rightarrow> ('d \<Rightarrow> (string \<times> string \<times> string) set) \<Rightarrow> ('g, 'd) World \<Rightarrow> string \<Rightarrow>
     string option \<Rightarrow> bool \<Rightarrow> bool \<Rightarrow> ('g, 'd) EnrollRun \<Rightarrow> bool" where
  "after_gateway A live installed w0 i dev dr gr s \<longleftrightarrow>
     run_frame w0 i s \<and> en_dev s = dev \<and> (dr \<longrightarrow> installed (w_desk s) = installed (w_desk w0)) \<and>
     (gr \<longrightarrow> gateway_clean A live (w_gateway w0) i (w_gateway s))"

definition after_removal ::
  "'g GatewayAdapter \<Rightarrow> ('g \<Rightarrow> string set) \<Rightarrow> ('d \<Rightarrow> (string \<times> string \<times> string) set) \<Rightarrow> ('g, 'd) World \<Rightarrow> string \<Rightarrow>
     bool \<Rightarrow> bool \<Rightarrow> bool \<Rightarrow> ('g, 'd) EnrollRun \<Rightarrow> bool" where
  "after_removal A live installed w0 i dr gr rm s \<longleftrightarrow>
     w_codes s = w_codes w0 \<and> others_same w0 i s \<and> (gr \<and> dr \<and> rm \<longrightarrow> no_trace A live installed w0 i s)"

lemma run_frame_others: "run_frame w0 i s \<Longrightarrow> w_codes s = w_codes w0 \<and> others_same w0 i s"
  by (simp add: run_frame_def others_same_def)

lemma hoare_rollback_desk:
  assumes D: "desk_documented sy installed" and fresh: "fresh_device live installed i w0"
  shows "hoare (\<lambda>s. failing A live installed w0 orgId i e s \<and> en_dev s = dev \<and> en_issued s = issued \<and> en_receipt s = receipt)
     (case receipt of
        None \<Rightarrow> retA (receipt = None \<and> \<not> (case desk_failure e of Some (c, _) \<Rightarrow> \<not> c | None \<Rightarrow> False))
      | Some rc \<Rightarrow> bindA (attempted (compensate sy rc)) (\<lambda>ok.
          retA (ok \<or> (receipt = None \<and> \<not> (case desk_failure e of Some (c, _) \<Rightarrow> \<not> c | None \<Rightarrow> False)))))
     (after_desk A live installed w0 i dev issued) E"
proof (cases receipt)
  case None
  then show ?thesis
    by (auto intro!: hoare_retA simp: failing_def after_desk_def desk_known_def desk_failure_def)
next
  case (Some rc)
  let ?P = "\<lambda>s. run_frame w0 i s \<and> gateway_known A live w0 i s \<and> en_dev s = dev \<and> en_issued s = issued"
  let ?I = "installed (w_desk w0)"
  let ?x = "(rc_url rc, orgId, i)"
  have P: "deskless ?P" by (rule desklessI) (simp add: run_frame_def)
  have x: "?x \<notin> ?I" using fresh by (simp add: fresh_device_def)
  have "hoare (\<lambda>s. failing A live installed w0 orgId i e s \<and> en_dev s = dev \<and> en_issued s = issued \<and> en_receipt s = receipt)
      (attempted (compensate sy rc)) (\<lambda>ok s. after_desk A live installed w0 i dev issued ok s) E"
  proof (cases "rc_orgId rc = orgId \<and> rc_installationId rc = i")
    case True
    show ?thesis
      unfolding compensate_def using True x
      by (intro hoare_attempted hoare_weaken [OF hoare_revokeAtTarget [OF D P, where I = ?I]])
        (auto simp: after_desk_def failing_def desk_known_def Some dest: around_fresh)
  next
    case False
    then show ?thesis by (auto simp: hoare_def failing_def desk_known_def Some)
  qed
  then show ?thesis unfolding Some option.case(2)
    by (rule hoare_bindA) (auto intro!: hoare_retA)
qed

lemma hoare_rollback_gateway:
  assumes G: "gateway_adapter A live" and fresh: "fresh_device live installed i w0"
  shows "hoare (after_desk A live installed w0 i dev issued dr)
     (case issued of None \<Rightarrow> retA (issued = None) | Some k \<Rightarrow> attempted (gatewayA (ga_revokeKey A (ik_keyId k))))
     (after_gateway A live installed w0 i dev dr) E"
proof (cases issued)
  case None
  then show ?thesis
    by (auto intro!: hoare_retA simp: after_desk_def after_gateway_def gateway_known_def gateway_clean_def)
next
  case (Some k)
  have i: "i \<notin> live (w_gateway w0)" using fresh by (simp add: fresh_device_def)
  show ?thesis unfolding Some option.case(2)
  proof (rule hoare_attempted, rule hoare_gatewayA)
    fix w g x
    assume w: "after_desk A live installed w0 i dev (Some k) dr w" "ga_revokeKey A (ik_keyId k) (w_gateway w) = (g, Inr x)"
    then have "live g = live (w_gateway w) - {ik_keyId k}"
      using gateway_adapter.revoke_ok [OF G, of "ik_keyId k" "w_gateway w" g] by simp
    with w i show "after_gateway A live installed w0 i dev dr True (w\<lparr>w_gateway := g\<rparr>)"
      by (auto simp: after_desk_def after_gateway_def gateway_known_def gateway_clean_def run_frame_def)
  qed (auto simp: after_desk_def after_gateway_def run_frame_def)
qed

lemma hoare_delete_device:
  "hoare (\<lambda>s. after_gateway A live installed w0 i (Some i) dr gr s \<and> gr \<and> dr) (delete_device i)
     (\<lambda>_. after_removal A live installed w0 i dr gr True) (\<lambda>_. after_removal A live installed w0 i dr gr False)"
  unfolding delete_device_def
proof (rule hoare_txS)
  show "scriptless (\<lambda>s. after_gateway A live installed w0 i (Some i) dr gr s \<and> gr \<and> dr)"
    by (rule scriptlessI) (simp add: after_gateway_def run_frame_def)
next
  fix w w' :: "('a, 'b) EnrollRun" and x :: unit
  assume w: "after_gateway A live installed w0 i (Some i) dr gr w \<and> gr \<and> dr"
    "(if \<exists>d \<in> set (w_devices w). dv_id d = i
      then Inr ((), w\<lparr>w_devices := filter (\<lambda>d. dv_id d \<noteq> i) (w_devices w), w_tokens := filter (\<lambda>t. dt_deviceId t \<noteq> i) (w_tokens w)\<rparr>)
      else Inl (PlainError ''Record to delete does not exist.'')) = Inr (x, w')"
  from w(2) have w': "w' = w\<lparr>w_devices := filter (\<lambda>d. dv_id d \<noteq> i) (w_devices w), w_tokens := filter (\<lambda>t. dt_deviceId t \<noteq> i) (w_tokens w)\<rparr>"
    by (simp split: if_splits)
  have frame: "w_codes w = w_codes w0" "filter (\<lambda>d. dv_id d \<noteq> i) (w_devices w) = w_devices w0"
    "filter (\<lambda>t. dt_deviceId t \<noteq> i) (w_tokens w) = w_tokens w0"
    using w(1) unfolding after_gateway_def run_frame_def by blast+
  have "filter (\<lambda>d. dv_id d \<noteq> i) (w_devices w0) = w_devices w0" "filter (\<lambda>t. dt_deviceId t \<noteq> i) (w_tokens w0) = w_tokens w0"
    unfolding frame(2,3) [symmetric] by simp_all
  then have "w_devices w' = w_devices w0" "w_tokens w' = w_tokens w0" "w_codes w' = w_codes w0"
    "w_desk w' = w_desk w" "w_gateway w' = w_gateway w" "others_same w0 i w'"
    by (simp_all add: w' frame others_same_def)
  with w(1) show "after_removal A live installed w0 i dr gr True w'"
    by (simp add: after_removal_def after_gateway_def no_trace_def)
next
  fix e w
  assume "after_gateway A live installed w0 i (Some i) dr gr w \<and> gr \<and> dr"
  then show "after_removal A live installed w0 i dr gr False w"
    using run_frame_others [of w0 i w] by (simp add: after_gateway_def after_removal_def)
qed

lemma hoare_rollback_removal:
  "hoare (after_gateway A live installed w0 i dev dr gr)
     (case dev of None \<Rightarrow> retA True | Some j \<Rightarrow> if gr \<and> dr then attempted (delete_device j) else retA False)
     (after_removal A live installed w0 i dr gr) E"
proof (cases dev)
  case None
  then show ?thesis
    by (auto intro!: hoare_retA simp: after_gateway_def after_removal_def run_frame_def others_same_def no_trace_def)
next
  case (Some j)
  show ?thesis
  proof (cases "j = i")
    case True
    show ?thesis unfolding Some option.case(2) True
      by (rule hoare_split, rule hoare_attempted, rule hoare_weaken [OF hoare_delete_device [of A live installed w0 i dr gr]])
        (auto intro!: hoare_retA simp: after_gateway_def after_removal_def dest!: run_frame_others)
  next
    case False
    then show ?thesis by (auto simp: hoare_def after_gateway_def run_frame_def Some)
  qed
qed

lemma hoare_rollback_restore:
  "hoare (after_removal A live installed w0 i dr gr rm)
     (if gr \<and> dr \<and> rm then catchA (bindA (restore_code cid now) (\<lambda>n. retA (n = 1))) (\<lambda>_. retA False) else retA False)
     (\<lambda>_. rolled_back A live installed w0 i cid now) E"
proof (rule hoare_split)
  let ?post = "rolled_back A live installed w0 i cid now"
  assume ok: "gr \<and> dr \<and> rm"
  have "hoare (after_removal A live installed w0 i dr gr rm) (restore_code cid now) (\<lambda>_. ?post) (\<lambda>_. ?post)"
    unfolding restore_code_def
  proof (rule hoare_stmt)
    show "scriptless (after_removal A live installed w0 i dr gr rm)"
      by (rule scriptlessI) (simp add: after_removal_def others_same_def no_trace_def)
  next
    fix w w' :: "('a, 'b) EnrollRun" and n
    assume w: "after_removal A live installed w0 i dr gr rm w"
      "(w\<lparr>w_codes := update_where (\<lambda>c. ec_id c = cid \<and> ec_usedAt c = Some now) (\<lambda>c. c\<lparr>ec_usedAt := None\<rparr>) (w_codes w)\<rparr>,
        count_where (\<lambda>c. ec_id c = cid \<and> ec_usedAt c = Some now) (w_codes w)) = (w', n)"
    then have w': "w' = w\<lparr>w_codes := update_where (\<lambda>c. ec_id c = cid \<and> ec_usedAt c = Some now) (\<lambda>c. c\<lparr>ec_usedAt := None\<rparr>) (w_codes w)\<rparr>"
      by simp
    show "?post w'"
      unfolding rolled_back_def using w(1) ok by (intro disjI2) (simp add: w' after_removal_def no_trace_def)
  qed (simp add: after_removal_def rolled_back_def)
  then show "hoare (after_removal A live installed w0 i dr gr rm)
     (catchA (bindA (restore_code cid now) (\<lambda>n. retA (n = 1))) (\<lambda>_. retA False)) (\<lambda>_. ?post) E"
    by (intro hoare_catchA [where R = "\<lambda>_. ?post"] hoare_bindA) (auto intro: hoare_retA)
qed (auto intro!: hoare_retA simp: after_removal_def rolled_back_def)

lemma hoare_rollback_audit:
  "hoare (rolled_back A live installed w0 i cid now) (whenA b (ignoreErrors (auditLogA H auId t orgId act aty aid payload)))
     (\<lambda>_. rolled_back A live installed w0 i cid now) (\<lambda>_. rolled_back A live installed w0 i cid now)"
  by (rule hoare_whenA, rule hoare_ignoreErrors, rule hoare_auditLogA)
    (auto intro!: scriptlessI simp: rolled_back_def others_same_def no_trace_def)

lemma hoare_enroll_rollback:
  assumes G: "gateway_adapter (sy_gateway sy) live" and D: "desk_documented sy installed"
    and fresh: "fresh_device live installed i w0"
  shows "hoare (failing (sy_gateway sy) live installed w0 (ec_orgId (ck_code ck)) i e)
     (enroll_rollback sy auId now ck e) (\<lambda>_ _. False)
     (\<lambda>_. rolled_back (sy_gateway sy) live installed w0 i (ec_id (ck_code ck)) now)"
proof -
  let ?A = "sy_gateway sy"
  let ?org = "ec_orgId (ck_code ck)"
  let ?post = "rolled_back ?A live installed w0 i (ec_id (ck_code ck)) now"
  let ?F = "\<lambda>dev issued receipt s. failing ?A live installed w0 ?org i e s \<and> en_dev s = dev \<and> en_issued s = issued \<and> en_receipt s = receipt"
  have i: "i \<notin> dv_id ` set (w_devices w0)" using fresh by (simp add: fresh_device_def)
  have mark: "hoare (?F dev issued receipt)
     (case (dev, desk_failure e) of
        (Some j, Some (False, u)) \<Rightarrow>
          if prepared then retA x
          else bindA (attempted (updateDeviceS j (mark_pending owner now u))) (\<lambda>ok. retA (ok \<or> x))
      | _ \<Rightarrow> retA x) (\<lambda>_. ?F dev issued receipt) (\<lambda>_. ?post)" for dev issued receipt prepared owner x
  proof -
    have upd: "hoare (?F dev issued receipt) (updateDeviceS j (mark_pending owner now u)) (\<lambda>_. ?F dev issued receipt) (\<lambda>_. ?F dev issued receipt)"
      if "dev = Some j" for j u
    proof (cases "j = i")
      case True
      have "clear_desk (mark_pending owner now u d) = clear_desk d" for d by (simp add: mark_pending_def clear_desk_def)
      moreover have "scriptless (?F dev issued receipt)" by (intro scriptlessI) (simp add: run_defs)
      ultimately show ?thesis unfolding True
        by (intro hoare_updateDeviceS) (auto intro!: failing_desk_update [OF _ i])
    next
      case False
      then show ?thesis using that by (auto simp: hoare_def run_defs)
    qed
    have "hoare (?F dev issued receipt) (bindA (attempted (updateDeviceS j (mark_pending owner now u))) (\<lambda>ok. retA (ok \<or> x)))
        (\<lambda>_. ?F dev issued receipt) (\<lambda>_. ?post)" if "dev = Some j" for j u
      by (rule hoare_bindA [where R = "\<lambda>_. ?F dev issued receipt", OF hoare_attempted [OF upd [OF that]]])
        (auto intro: hoare_retA)
    moreover have "hoare (?F dev issued receipt) (retA y) (\<lambda>_. ?F dev issued receipt) (\<lambda>_. ?post)" for y :: bool
      by (rule hoare_retA)
    ultimately show ?thesis
      by (cases dev; cases "desk_failure e") (simp_all split: prod.split bool.split)
  qed
  have getsR: "hoare P (bindA (getsA f) k) Q E" if "\<And>v. hoare (\<lambda>s. P s \<and> f s = v) (k v) Q E" for P f k Q E
    using that by (auto simp: hoare_def bindA_def getsA_def)
  show ?thesis
    unfolding enroll_rollback_def Let_def
    apply (rule getsR, rule getsR, rule getsR, rule getsR, rule getsR)
    subgoal for dev issued receipt prepared audited
      apply (rule hoare_bindA [OF hoare_weaken [OF mark [of dev issued receipt]]])
         apply (blast, assumption, assumption)
      apply (rule hoare_bindA [OF hoare_rollback_desk [OF D fresh]])
      apply (rule hoare_bindA [OF hoare_rollback_gateway [OF G fresh]])
      apply (rule hoare_bindA [OF hoare_rollback_removal])
      apply (rule hoare_bindA [OF hoare_rollback_restore])
      apply (rule hoare_thenA [OF hoare_rollback_audit])
      by (rule hoare_throwA)
    done
qed

subsection \<open>Checks and claim\<close>

text \<open>Statements that only read leave the world as it is, but for the script.\<close>

definition only_script :: "('g, 'd, 'x) World_scheme \<Rightarrow> ('g, 'd, 'x) World_scheme \<Rightarrow> bool" where
  "only_script w v \<longleftrightarrow> (\<exists>s. v = w\<lparr>w_script := s\<rparr>)"

lemma only_script_refl [simp]: "only_script w w"
  unfolding only_script_def by (rule exI [of _ "w_script w"]) simp

lemma scriptless_only_script [simp, intro]:
  fixes w :: "('g, 'd, 'x) World_scheme"
  shows "scriptless (only_script w)"
proof (rule scriptlessI)
  fix v :: "('g, 'd, 'x) World_scheme" and s
  have "v = w\<lparr>w_script := w_script v\<rparr>" if "v\<lparr>w_script := s\<rparr> = w\<lparr>w_script := t\<rparr>" for t
    using arg_cong [OF that, of "\<lambda>u. u\<lparr>w_script := w_script v\<rparr>"] by simp
  then show "only_script w (v\<lparr>w_script := s\<rparr>) = only_script w v"
    unfolding only_script_def by (auto intro: exI)
qed

lemma hoare_read_only:
  assumes "\<And>s. f (w\<lparr>w_script := s\<rparr>) = f w"
  shows "hoare (only_script w) (readS f) (\<lambda>r v. only_script w v \<and> r = f w) (\<lambda>_. only_script w)"
  by (rule hoare_readS) (use assms in \<open>auto simp: only_script_def\<close>)

lemma find_person_Some: "find_person i ps = Some p \<Longrightarrow> pe_id p = i"
  by (simp add: find_person_def find_Some_iff) blast

definition checked_ok :: "('g, 'd, 'x) World_scheme \<Rightarrow> time \<Rightarrow> EnrollCode \<Rightarrow> Checked \<Rightarrow> bool" where
  "checked_ok w now ec ck \<longleftrightarrow>
     ck_code ck = ec \<and> ec_usedAt ec = None \<and> now \<le> ec_expiresAt ec \<and>
     find_org (w_orgs w) (ec_orgId ec) = Some (ck_org ck) \<and>
     ec_personId ec = Some (pe_id (ck_person ck)) \<and> pe_orgId (ck_person ck) = ec_orgId ec"

lemma check_policy_frame:
  "hoare (only_script w) (check_policy sy ec org1 pe)
     (\<lambda>ck v. only_script w v \<and> ck_code ck = ec \<and> ck_org ck = org1 \<and> ck_person ck = pe \<and> pe_orgId pe = ec_orgId ec)
     (\<lambda>_. only_script w)"
proof (cases "pe_orgId pe = ec_orgId ec")
  case True
  have pure: "hoare (only_script w) (bindA (liftR r) f) Q (\<lambda>_. only_script w)"
    if "\<And>x. hoare (only_script w) (f x) Q (\<lambda>_. only_script w)" for r and f :: "_ \<Rightarrow> (_, 'e) act" and Q
    by (rule hoare_bindA [where R = "\<lambda>_. only_script w"]) (auto intro: hoare_liftR that)
  show ?thesis
    unfolding check_policy_def
    by (intro hoare_thenA [where R = "only_script w"] hoare_throwUnless hoare_seatCheck pure hoare_retA)
      (use True in auto)
next
  case False
  then show ?thesis by (auto simp: check_policy_def hoare_def thenA_def bindA_def throwUnless_def throwA_def)
qed

lemma check_code_frame:
  "hoare (only_script w) (check_code sy now ec) (\<lambda>ck v. only_script w v \<and> checked_ok w now ec ck) (\<lambda>_. only_script w)"
  unfolding check_code_def
proof (rule hoare_thenA [where R = "\<lambda>v. only_script w v \<and> ec_usedAt ec = None \<and> now \<le> ec_expiresAt ec"])
  let ?now = "ec_usedAt ec = None \<and> now \<le> ec_expiresAt ec"
  let ?E = "\<lambda>_::http_error. only_script w"
  have person: "hoare (only_script w)
      (if nullish (ec_personId ec) [] \<noteq> [] then readS (\<lambda>w. find_person (the (ec_personId ec)) (w_persons w)) else retA None)
      (\<lambda>p v. only_script w v \<and> (\<forall>pe. p = Some pe \<longrightarrow> ec_personId ec = Some (pe_id pe))) ?E"
  proof (rule hoare_split)
    assume "nullish (ec_personId ec) [] \<noteq> []"
    then obtain i where "ec_personId ec = Some i" by (auto simp: nullish_def split: option.splits)
    then show "hoare (only_script w) (readS (\<lambda>w. find_person (the (ec_personId ec)) (w_persons w)))
        (\<lambda>p v. only_script w v \<and> (\<forall>pe. p = Some pe \<longrightarrow> ec_personId ec = Some (pe_id pe))) ?E"
      by (intro hoare_weaken [OF hoare_read_only]) (auto simp: find_person_Some)
  qed (auto intro: hoare_retA)
  show "hoare (only_script w) (throwUnless (ec_usedAt ec = None \<and> \<not> ec_expiresAt ec < now) bad_code)
      (\<lambda>_ v. only_script w v \<and> ?now) ?E"
    by (rule hoare_throwUnless) auto
  have last: "hoare (\<lambda>v. only_script w v \<and> (\<forall>pe. p = Some pe \<longrightarrow> ec_personId ec = Some (pe_id pe)))
      (case (o1, p) of (Some org, Some pe) \<Rightarrow> check_policy sy ec org pe | _ \<Rightarrow> throwA bad_code)
      (\<lambda>ck v. only_script w v \<and> checked_ok w now ec ck) ?E"
    if "?now" "o1 = find_org (w_orgs w) (ec_orgId ec)" for o1 p
  proof (cases o1; cases p)
    fix org1 pe
    assume *: "o1 = Some org1" "p = Some pe"
    show ?thesis
    proof (cases "ec_personId ec = Some (pe_id pe)")
      case True
      show ?thesis unfolding * prod.case option.case(2)
        by (rule hoare_weaken [OF check_policy_frame]) (use that * True in \<open>auto simp: checked_ok_def\<close>)
    qed (use * in \<open>auto simp: hoare_def\<close>)
  qed (auto intro: hoare_throwA)
  show "hoare (\<lambda>v. only_script w v \<and> ?now)
     (bindA (readS (\<lambda>w. find_org (w_orgs w) (ec_orgId ec))) (\<lambda>organization.
      bindA (if nullish (ec_personId ec) [] \<noteq> [] then readS (\<lambda>w. find_person (the (ec_personId ec)) (w_persons w)) else retA None) (\<lambda>person.
      case (organization, person) of (Some org, Some pe) \<Rightarrow> check_policy sy ec org pe | _ \<Rightarrow> throwA bad_code)))
     (\<lambda>ck v. only_script w v \<and> checked_ok w now ec ck) ?E"
  proof (cases "?now")
    case True
    show ?thesis
    proof (rule hoare_bindA [where R = "\<lambda>r v. only_script w v \<and> r = find_org (w_orgs w) (ec_orgId ec)"])
      show "hoare (\<lambda>v. only_script w v \<and> ?now) (readS (\<lambda>w. find_org (w_orgs w) (ec_orgId ec)))
          (\<lambda>r v. only_script w v \<and> r = find_org (w_orgs w) (ec_orgId ec)) ?E"
        by (rule hoare_weaken [OF hoare_read_only]) auto
      show "hoare (\<lambda>v. only_script w v \<and> o1 = find_org (w_orgs w) (ec_orgId ec))
         (bindA (if nullish (ec_personId ec) [] \<noteq> [] then readS (\<lambda>w. find_person (the (ec_personId ec)) (w_persons w)) else retA None) (\<lambda>person.
          case (o1, person) of (Some org, Some pe) \<Rightarrow> check_policy sy ec org pe | _ \<Rightarrow> throwA bad_code))
         (\<lambda>ck v. only_script w v \<and> checked_ok w now ec ck) ?E" for o1
      proof (cases "o1 = find_org (w_orgs w) (ec_orgId ec)")
        case o1: True
        show ?thesis by (rule hoare_bindA [OF hoare_weaken [OF person] last [OF True o1]]) auto
      qed (simp add: hoare_def)
    qed
  qed (auto simp: hoare_def)
qed

lemma enroll_checks_frame:
  "hoare (\<lambda>v. v = w) (enroll_checks sy theCode now)
     (\<lambda>ck v. only_script w v \<and> (\<exists>ec. find_code theCode (w_codes w) = Some ec \<and> checked_ok w now ec ck))
     (\<lambda>_. only_script w)"
  unfolding enroll_checks_def
proof (rule hoare_bindA [where R = "\<lambda>r v. only_script w v \<and> r = find_code theCode (w_codes w)"])
  show "hoare (\<lambda>v. v = w) (readS (\<lambda>w. find_code theCode (w_codes w)))
      (\<lambda>r v. only_script w v \<and> r = find_code theCode (w_codes w)) (\<lambda>_. only_script w)"
    by (rule hoare_weaken [OF hoare_read_only]) auto
  show "hoare (\<lambda>v. only_script w v \<and> found = find_code theCode (w_codes w))
     (case found of None \<Rightarrow> throwA bad_code | Some ec \<Rightarrow> check_code sy now ec)
     (\<lambda>ck v. only_script w v \<and> (\<exists>ec. find_code theCode (w_codes w) = Some ec \<and> checked_ok w now ec ck))
     (\<lambda>_. only_script w)" for found
  proof (cases found)
    case (Some ec)
    show ?thesis
    proof (cases "find_code theCode (w_codes w) = Some ec")
      case True
      show ?thesis unfolding Some option.case(2)
        by (rule hoare_weaken [OF check_code_frame]) (use True in auto)
    qed (use Some in \<open>auto simp: hoare_def\<close>)
  qed (auto intro: hoare_throwA)
qed

end
