(* ===== verification/EnrollSafety.thy ===== *)
theory EnrollSafety
  imports Enroll
begin

section \<open>What enrollment guarantees\<close>

text \<open>
  The properties of the exchange as a whole: a race for a code has one winner, a successful exchange leaves
  exactly one usable token bound to the code's organisation and person, and a failed one leaves either no
  trace and a usable code, or a consumed code and nothing of anybody else touched.
\<close>

subsection \<open>Racing for a code\<close>

text \<open>The claim statements of requests that have passed their checks, in the order the database runs them.\<close>

fun race :: "string \<Rightarrow> time list \<Rightarrow> EnrollCode list \<Rightarrow> EnrollCode list \<times> nat list" where
  "race i [] cs = (cs, [])"
| "race i (t # ts) cs =
     (let n = count_where (claimable i t) cs;
          (cs', ns) = race i ts (update_where (claimable i t) (\<lambda>c. c\<lparr>ec_usedAt := Some t\<rparr>) cs)
      in (cs', n # ns))"

lemma claim_code_race:
  assumes "w_script w = []"
  shows "claim_code i t w = (w\<lparr>w_codes := fst (race i [t] (w_codes w))\<rparr>, Inr (hd (snd (race i [t] (w_codes w)))))"
  using assms by (simp add: claim_code_def stmt_def)

lemma claimable_unique:
  assumes "distinct (map ec_id cs)"
  shows "count_where (claimable i t) cs \<le> 1"
proof -
  have "length (filter (claimable i t) cs) = length (map ec_id (filter (claimable i t) cs))" by simp
  also have "\<dots> = card (set (map ec_id (filter (claimable i t) cs)))"
    by (rule distinct_card [OF distinct_map_filter [OF assms], symmetric])
  also have "\<dots> \<le> card {i}" by (intro card_mono) (auto simp: claimable_def)
  finally show ?thesis by (simp add: count_where_def)
qed

lemma claimed_not_claimable:
  assumes "distinct (map ec_id cs)" "c \<in> set cs" "claimable i t c"
  shows "count_where (claimable i t') (update_where (claimable i t) (\<lambda>c. c\<lparr>ec_usedAt := Some t\<rparr>) cs) = 0"
proof -
  have "\<not> claimable i t' d" if "d \<in> set (update_where (claimable i t) (\<lambda>c. c\<lparr>ec_usedAt := Some t\<rparr>) cs)" for d
  proof -
    from that obtain d0 where d0: "d0 \<in> set cs" "d = (if claimable i t d0 then d0\<lparr>ec_usedAt := Some t\<rparr> else d0)"
      by (auto simp: in_update_where)
    show ?thesis
    proof (cases "ec_id d0 = i")
      case True
      then have "d0 = c" using assms d0(1) by (auto simp: claimable_def distinct_map dest: inj_onD)
      then show ?thesis using assms(3) d0(2) by (simp add: claimable_def)
    qed (use d0 in \<open>auto simp: claimable_def\<close>)
  qed
  then show ?thesis by (simp add: count_where_def filter_empty_conv)
qed

lemma race_lost:
  assumes "distinct (map ec_id cs)" "\<And>t. t \<in> set ts \<Longrightarrow> count_where (claimable i t) cs = 0"
  shows "snd (race i ts cs) = replicate (length ts) 0"
  using assms
proof (induction ts arbitrary: cs)
  case (Cons t ts)
  have "update_where (claimable i t) (\<lambda>c. c\<lparr>ec_usedAt := Some t\<rparr>) cs = cs"
    using Cons.prems(2) [of t] by (intro update_where_none) (auto simp: count_where_def filter_empty_conv)
  with Cons show ?case by (simp add: split_beta)
qed simp


subsection \<open>Failing closed\<close>

lemma find_code_Some: "find_code k cs = Some c \<Longrightarrow> c \<in> set cs \<and> ec_code c = k"
  by (auto simp: find_code_def find_Some_iff)

lemma claimed_is_update:
  assumes "distinct (map ec_id cs)" "c \<in> set cs" "claimable (ec_id c) t c"
  shows "update_where (claimable (ec_id c) t) f cs = update_where (\<lambda>c'. ec_id c' = ec_id c) f cs"
    "update_where (\<lambda>c'. ec_id c' = ec_id c \<and> ec_usedAt c' = Some t) (\<lambda>c. c\<lparr>ec_usedAt := None\<rparr>)
       (update_where (claimable (ec_id c) t) (\<lambda>c. c\<lparr>ec_usedAt := Some t\<rparr>) cs) = cs"
proof -
  have same: "c' = c" if "c' \<in> set cs" "ec_id c' = ec_id c" for c'
    using assms that by (auto simp: distinct_map dest: inj_onD)
  show "update_where (claimable (ec_id c) t) f cs = update_where (\<lambda>c'. ec_id c' = ec_id c) f cs"
    unfolding update_where_def
  proof (intro map_cong refl)
    fix x assume "x \<in> set cs"
    then show "(if claimable (ec_id c) t x then f x else x) = (if ec_id x = ec_id c then f x else x)"
      using same [of x] assms(3) by (cases "ec_id x = ec_id c") (auto simp: claimable_def)
  qed
  have "c\<lparr>ec_usedAt := None\<rparr> = c" using assms(3) by (simp add: claimable_def)
  then show "update_where (\<lambda>c'. ec_id c' = ec_id c \<and> ec_usedAt c' = Some t) (\<lambda>c. c\<lparr>ec_usedAt := None\<rparr>)
       (update_where (claimable (ec_id c) t) (\<lambda>c. c\<lparr>ec_usedAt := Some t\<rparr>) cs) = cs"
    unfolding update_where_def map_map
  proof (intro map_idI)
    fix x assume "x \<in> set cs"
    then show "((\<lambda>x. if ec_id x = ec_id c \<and> ec_usedAt x = Some t then x\<lparr>ec_usedAt := None\<rparr> else x) \<circ>
        (\<lambda>x. if claimable (ec_id c) t x then x\<lparr>ec_usedAt := Some t\<rparr> else x)) x = x"
      using same [of x] assms(3) by (cases "ec_id x = ec_id c") (auto simp: claimable_def)
  qed
qed

lemma truncate_fields [simp]:
  "w_codes (World.truncate s) = w_codes s" "w_devices (World.truncate s) = w_devices s"
  "w_tokens (World.truncate s) = w_tokens s" "w_desk (World.truncate s) = w_desk s"
  "w_gateway (World.truncate s) = w_gateway s"
  by (simp_all add: World.defs)

lemma hoare_enroll_run:
  assumes G: "gateway_adapter (sy_gateway sy) live" and D: "desk_documented sy installed"
    and fresh: "fresh_device live installed i w0"
  shows "hoare (\<lambda>v. v = w0)
     (with_locals (catchA (enroll_body sy i tokId auId now ck device) (enroll_rollback sy auId2 now ck)))
     (\<lambda>_ _. True) (\<lambda>_. rolled_back (sy_gateway sy) live installed w0 i (ec_id (ck_code ck)) now)"
proof (rule hoareI)
  fix w w' e
  assume "w = w0"
  moreover assume "with_locals (catchA (enroll_body sy i tokId auId now ck device) (enroll_rollback sy auId2 now ck)) w = (w', Inl e)"
  ultimately obtain s where s: "catchA (enroll_body sy i tokId auId now ck device) (enroll_rollback sy auId2 now ck) (start_run w0) = (s, Inl e)"
    "w' = World.truncate s"
    by (auto simp: with_locals_def split: prod.splits)
  have "hoare (\<lambda>s. s = start_run w0) (catchA (enroll_body sy i tokId auId now ck device) (enroll_rollback sy auId2 now ck))
      (\<lambda>_ _. True) (\<lambda>_. rolled_back (sy_gateway sy) live installed w0 i (ec_id (ck_code ck)) now)"
    by (rule hoare_catchA [OF hoare_enroll_body [OF G D fresh] hoare_weaken [OF hoare_enroll_rollback [OF G D fresh]]]) auto
  from hoareD_Inl [OF this refl s(1)] show "rolled_back (sy_gateway sy) live installed w0 i (ec_id (ck_code ck)) now w'"
    by (simp add: s(2) rolled_back_def others_same_def no_trace_def)
qed simp

text \<open>The world right after the code with id \<^verbatim>\<open>cid\<close> was claimed.\<close>

definition claimed_world :: "('g, 'd) World \<Rightarrow> string \<Rightarrow> time \<Rightarrow> string option list \<Rightarrow> ('g, 'd) World" where
  "claimed_world w cid now s =
     w\<lparr>w_script := s, w_codes := update_where (claimable cid now) (\<lambda>c. c\<lparr>ec_usedAt := Some now\<rparr>) (w_codes w)\<rparr>"

lemma hoare_claim_code:
  "hoare (only_script w) (claim_code cid now)
     (\<lambda>n v. n = count_where (claimable cid now) (w_codes w) \<and> (\<exists>s. v = claimed_world w cid now s)) (\<lambda>_. only_script w)"
  unfolding claim_code_def by (rule hoare_stmt) (auto simp: only_script_def claimed_world_def)

lemma checked_claimable:
  assumes "find_code k (w_codes w) = Some ec" "checked_ok w now ec ck" "distinct (map ec_id (w_codes w))"
  shows "ck_code ck = ec" "ec \<in> set (w_codes w)" "ec_code ec = k" "claimable (ec_id ec) now ec"
    "count_where (claimable (ec_id ec) now) (w_codes w) = 1"
proof -
  show c: "ck_code ck = ec" "ec \<in> set (w_codes w)" "ec_code ec = k" "claimable (ec_id ec) now ec"
    using assms(1,2) find_code_Some [OF assms(1)] by (auto simp: checked_ok_def claimable_def)
  then have "0 < count_where (claimable (ec_id ec) now) (w_codes w)" by (auto simp: count_where_def filter_empty_conv)
  then show "count_where (claimable (ec_id ec) now) (w_codes w) = 1"
    using claimable_unique [OF assms(3), of "ec_id ec" now] by simp
qed

lemma fresh_claimed [simp]: "fresh_device live installed i (claimed_world w cid now s) = fresh_device live installed i w"
  by (simp add: fresh_device_def claimed_world_def)

text \<open>
  How a request from \<^verbatim>\<open>w\<close> that fails may leave the world: either the codes are as before and there is no trace of
  the device, or the code stays consumed and no row of any other device was touched.
\<close>

definition failed_closed ::
  "'g GatewayAdapter \<Rightarrow> ('g \<Rightarrow> string set) \<Rightarrow> ('d \<Rightarrow> (string \<times> string \<times> string) set) \<Rightarrow> ('g, 'd) World \<Rightarrow> string \<Rightarrow> string \<Rightarrow> time \<Rightarrow>
     ('g, 'd) World \<Rightarrow> bool" where
  "failed_closed A live installed w devId theCode now v \<longleftrightarrow>
     w_codes v = w_codes w \<and> no_trace A live installed w devId v \<or>
     (\<exists>c \<in> set (w_codes w). ec_code c = theCode \<and> ec_usedAt c = None \<and>
        w_codes v = update_where (\<lambda>c'. ec_id c' = ec_id c) (\<lambda>c'. c'\<lparr>ec_usedAt := Some now\<rparr>) (w_codes w) \<and>
        others_same w devId v)"

lemma failed_closed_same: "only_script w v \<Longrightarrow> failed_closed A live installed w i k now v"
  by (auto simp: failed_closed_def only_script_def no_trace_def gateway_clean_def)

lemma failed_closed_rolled_back:
  assumes ids: "distinct (map ec_id (w_codes w))" and c: "c \<in> set (w_codes w)" "ec_code c = k" "claimable (ec_id c) now c"
    and v: "rolled_back A live installed (claimed_world w (ec_id c) now s) i (ec_id c) now v"
  shows "failed_closed A live installed w i k now v"
proof -
  note upd = claimed_is_update [OF ids c(1,3)]
  show ?thesis using v unfolding rolled_back_def
  proof (elim disjE conjE)
    assume "w_codes v = w_codes (claimed_world w (ec_id c) now s)" "others_same (claimed_world w (ec_id c) now s) i v"
    then have "w_codes v = update_where (\<lambda>c'. ec_id c' = ec_id c) (\<lambda>c'. c'\<lparr>ec_usedAt := Some now\<rparr>) (w_codes w)" "others_same w i v"
      by (simp_all add: claimed_world_def upd(1) others_same_def)
    with c show ?thesis by (auto simp: failed_closed_def claimable_def)
  next
    assume "w_codes v = update_where (\<lambda>c'. ec_id c' = ec_id c \<and> ec_usedAt c' = Some now) (\<lambda>c. c\<lparr>ec_usedAt := None\<rparr>)
        (w_codes (claimed_world w (ec_id c) now s))" "no_trace A live installed (claimed_world w (ec_id c) now s) i v"
    then show ?thesis by (simp add: failed_closed_def claimed_world_def upd(2) no_trace_def)
  qed
qed

text \<open>What follows the checks, whatever holds of the run with the claimed code.\<close>

lemma hoare_enroll:
  assumes ids: "distinct (map ec_id (w_codes w))"
    and run: "\<And>ec ck s. find_code theCode (w_codes w) = Some ec \<Longrightarrow> checked_ok w now ec ck \<Longrightarrow>
       hoare (\<lambda>v. v = claimed_world w (ec_id ec) now s)
         (with_locals (catchA (enroll_body sy devId tokId auId now ck device) (enroll_rollback sy auId2 now ck))) Q (\<lambda>_. E)"
    and same: "\<And>v. only_script w v \<Longrightarrow> E v"
  shows "hoare (\<lambda>v. v = w) (enroll sy devId tokId auId auId2 now theCode device) Q (\<lambda>_. E)"
proof -
  let ?run = "\<lambda>ck. with_locals (catchA (enroll_body sy devId tokId auId now ck device) (enroll_rollback sy auId2 now ck))"
  have tail: "hoare (\<lambda>v. only_script w v \<and> (\<exists>ec. find_code theCode (w_codes w) = Some ec \<and> checked_ok w now ec ck))
     (bindA (claim_code (ec_id (ck_code ck)) now) (\<lambda>claimed. thenA (throwUnless (claimed = 1) bad_code) (?run ck))) Q (\<lambda>_. E)" for ck
  proof (cases "\<exists>ec. find_code theCode (w_codes w) = Some ec \<and> checked_ok w now ec ck")
    case True
    then obtain ec where ec: "find_code theCode (w_codes w) = Some ec" "checked_ok w now ec ck" by blast
    note ck = checked_claimable [OF ec ids]
    have claim: "hoare (only_script w) (claim_code (ec_id ec) now)
        (\<lambda>n v. n = 1 \<and> (\<exists>s. v = claimed_world w (ec_id ec) now s)) (\<lambda>_. E)"
      by (rule hoare_weaken [OF hoare_claim_code]; (erule same | simp add: ck(5)))
    have "hoare (\<lambda>v. \<exists>s. v = claimed_world w (ec_id ec) now s) (?run ck) Q (\<lambda>_. E)"
      by (rule hoareI; elim exE) (blast intro: hoareD_Inr [OF run [OF ec]] hoareD_Inl [OF run [OF ec]])+
    then show ?thesis unfolding ck(1)
      by (intro hoare_weaken [where P = "only_script w", OF hoare_bindA [OF claim]] hoare_thenA)
        (auto intro!: hoare_throwUnless)
  qed (rule hoareI; blast)
  show ?thesis
    unfolding enroll_def
    by (rule hoare_bindA [OF hoare_weaken [OF enroll_checks_frame] tail]; (assumption | erule same))
qed

text \<open>
  Property C10. Enrollment fails closed. Whatever fails (a check, a database statement, the gateway, the
  Desk, or one of the compensating steps), a request that ends in an exception leaves the system in one of
  two states. Either the codes are as before, so the code can be used again, and then there is no trace of the
  device: the device and token tables and the Desk's installations are as before and no gateway key exists under
  the device's alias, unless the gateway itself failed to issue the key and left one. Or the code stays
  consumed, and no row of any other device was touched.
\<close>

theorem failed_enrollment_fails_closed:
  assumes G: "gateway_adapter (sy_gateway sy) live" and D: "desk_documented sy installed"
    and fresh: "fresh_device live installed devId w" and ids: "distinct (map ec_id (w_codes w))"
    and run: "enroll sy devId tokId auId auId2 now theCode device w = (w', Inl e)"
  shows "failed_closed (sy_gateway sy) live installed w devId theCode now w'"
proof -
  have "hoare (\<lambda>v. v = w) (enroll sy devId tokId auId auId2 now theCode device) (\<lambda>_ _. True)
      (\<lambda>_. failed_closed (sy_gateway sy) live installed w devId theCode now)"
  proof (rule hoare_enroll [OF ids _ failed_closed_same])
    fix ec ck s
    assume ec: "find_code theCode (w_codes w) = Some ec" "checked_ok w now ec ck"
    note ck = checked_claimable [OF ec ids]
    show "hoare (\<lambda>v. v = claimed_world w (ec_id ec) now s)
       (with_locals (catchA (enroll_body sy devId tokId auId now ck device) (enroll_rollback sy auId2 now ck)))
       (\<lambda>_ _. True) (\<lambda>_. failed_closed (sy_gateway sy) live installed w devId theCode now)"
      by (rule hoare_weaken [OF hoare_enroll_run [OF G D]])
        (auto simp: fresh ck(1) intro: failed_closed_rolled_back [OF ids ck(2-4)])
  qed
  from hoareD_Inl [OF this refl run] show ?thesis .
qed

subsection \<open>Succeeding\<close>

text \<open>Up to the columns of the Desk binding, the run has added the device \<^verbatim>\<open>d\<close> and the tokens \<^verbatim>\<open>ts\<close> to \<^verbatim>\<open>w0\<close>.\<close>

definition added :: "('g, 'd) World \<Rightarrow> Device \<Rightarrow> DeviceToken list \<Rightarrow> ('g, 'd, 'x) World_scheme \<Rightarrow> bool" where
  "added w0 d ts s \<longleftrightarrow>
     w_codes s = w_codes w0 \<and> map clear_desk (w_devices s) = map clear_desk (w_devices w0 @ [d]) \<and> w_tokens s = w_tokens w0 @ ts"

abbreviation granted ::
  "('g \<Rightarrow> string set) \<Rightarrow> ('g, 'd) World \<Rightarrow> Device \<Rightarrow> DeviceToken \<Rightarrow> ('g, 'd, 'x) World_scheme \<Rightarrow> bool" where
  "granted live w0 d t s \<equiv> added w0 d [t] s \<and> dt_tokenHash t \<notin> dt_tokenHash ` set (w_tokens w0) \<and> dv_id d \<in> live (w_gateway s)"

lemma hoare_any: "hoare P m (\<lambda>_ _. True) (\<lambda>_ _. True)"
  by (rule hoareI) simp_all

lemma map_clear_update [simp]:
  fixes f :: "Device \<Rightarrow> Device"
  shows "(\<And>d. clear_desk (f d) = clear_desk d) \<Longrightarrow> map clear_desk (update_where p f ds) = map clear_desk ds"
  by (simp add: update_where_def)

lemma clear_finalize [simp]: "clear_desk (finalize_desk now owner origin d) = clear_desk d"
  by (simp add: clear_desk_def finalize_desk_def)

lemma added_frame [simp]:
  "added w0 d ts (s\<lparr>w_script := x1\<rparr>) = added w0 d ts s" "added w0 d ts (s\<lparr>w_audits := x2\<rparr>) = added w0 d ts s"
  "added w0 d ts (s\<lparr>w_gateway := x3\<rparr>) = added w0 d ts s" "added w0 d ts (s\<lparr>w_desk := x4\<rparr>) = added w0 d ts s"
  by (simp_all add: added_def)

lemma added_locals [simp]:
  "added w0 d ts (s\<lparr>en_dev := x1\<rparr>) = added w0 d ts s" "added w0 d ts (s\<lparr>en_issued := x2\<rparr>) = added w0 d ts s"
  "added w0 d ts (s\<lparr>en_auditRecorded := x3\<rparr>) = added w0 d ts s" "added w0 d ts (s\<lparr>en_receipt := x4\<rparr>) = added w0 d ts s"
  "added w0 d ts (s\<lparr>en_prepared := x5\<rparr>) = added w0 d ts s"
  by (simp_all add: added_def)

lemma added_desk [simp]:
  "(\<And>d. clear_desk (f d) = clear_desk d) \<Longrightarrow> added w0 d0 ts (s\<lparr>w_devices := update_where p f (w_devices s)\<rparr>) = added w0 d0 ts s"
  by (simp add: added_def)

lemma free_granted [simp, intro]:
  "scriptless (granted live w0 d t)" "deskless (granted live w0 d t)" "desk_columns_free i (granted live w0 d t)"
  by (auto intro!: scriptlessI desklessI simp: desk_columns_free_def)

lemma hoare_added_device:
  "hoare (\<lambda>s. s = start_run w0) (create_device d) (\<lambda>_. added w0 d []) (\<lambda>_ _. True)"
  unfolding create_device_def
  by (rule hoare_thenA [where R = "added w0 d []"], rule hoare_weaken [OF hoare_txS [where P = "\<lambda>s. w_codes s = w_codes w0 \<and>
      w_devices s = w_devices w0 \<and> w_tokens s = w_tokens w0" and E = "\<lambda>_ _. True"]])
    (auto intro!: scriptlessI hoare_modifyA simp: added_def start_run_def World.defs split: if_splits)

lemma hoare_added_key:
  assumes G: "gateway_adapter (sy_gateway sy) live"
  shows "hoare (added w0 d []) (issue_key sy opts)
     (\<lambda>k s. added w0 d [] s \<and> ik_keyId k = io_alias opts \<and> io_alias opts \<in> live (w_gateway s)) (\<lambda>_ _. True)"
  unfolding issue_key_def
proof (rule hoare_bindA)
  let ?Q = "\<lambda>k s. added w0 d [] s \<and> ik_keyId k = io_alias opts \<and> io_alias opts \<in> live (w_gateway s)"
  show "hoare (added w0 d []) (gatewayA (ga_issueKey (sy_gateway sy) opts)) ?Q (\<lambda>_ _. True)"
    by (rule hoare_gatewayA) (auto dest: gateway_adapter.issue_ok [OF G])
  show "hoare (?Q k) (thenA (modifyA (\<lambda>w. w\<lparr>en_issued := Some k\<rparr>)) (retA k)) ?Q (\<lambda>_ _. True)" for k
    by (rule hoare_thenA [where R = "?Q k"]) (auto intro!: hoare_modifyA hoare_retA)
qed

lemma hoare_added_token:
  "hoare (\<lambda>s. added w0 d [] s \<and> dv_id d \<in> live (w_gateway s)) (create_token t) (\<lambda>_. granted live w0 d t) (\<lambda>_ _. True)"
  unfolding create_token_def
  by (rule hoare_txS) (auto intro!: scriptlessI simp: added_def split: if_splits)

lemma nowhere_documented: "desk_documented sy (\<lambda>_. {})"
  by (simp add: desk_documented_def)

lemma hoare_granted_provision:
  "hoare (granted live w0 d t)
     (provisionForEnrollment sy input True (Some (i, now)) (\<lambda>_. modifyA (\<lambda>w. w\<lparr>en_prepared := True\<rparr>)))
     (\<lambda>_. granted live w0 d t) (\<lambda>_ _. True)"
  by (rule hoare_weaken [OF hoare_provisionForEnrollment [OF nowhere_documented free_granted, where I = "{}"]])
    (auto intro: hoare_modifyA)

lemma hoare_granted_body:
  assumes G: "gateway_adapter (sy_gateway sy) live"
  shows "hoare (\<lambda>s. s = start_run w0) (enroll_body sy i tokId auId now ck device)
     (\<lambda>res s. \<exists>k bindings desk. res = enroll_result ck k i bindings desk \<and> ik_keyId k = i \<and>
        granted live w0 (new_device ck device i now) (new_token sy ck k i tokId now) s) (\<lambda>_ _. True)"
    (is "hoare _ _ ?Q _")
proof -
  let ?d = "new_device ck device i now"
  let ?G = "\<lambda>k. granted live w0 ?d (new_token sy ck k i tokId now)"
  have token: "hoare (\<lambda>s. added w0 ?d [] s \<and> ik_keyId k = io_alias (issue_opts ck i x) \<and> io_alias (issue_opts ck i x) \<in> live (w_gateway s))
      (create_token (new_token sy ck k i tokId now)) (\<lambda>_ s. ?G k s \<and> ik_keyId k = i) (\<lambda>_ _. True)" for k x
  proof (cases "ik_keyId k = i")
    case True
    show ?thesis by (rule hoare_weaken [OF hoare_added_token [where d = ?d and live = live]]) (auto simp: issue_opts_def new_device_def True)
  qed (rule hoareI; simp add: issue_opts_def)
  show ?thesis
    unfolding enroll_body_def
    apply (rule hoare_thenA [OF hoare_added_device])
    apply (rule hoare_bindA [where R = "\<lambda>_. added w0 ?d []"])
     apply (rule hoare_liftR; simp)
    apply (rule hoare_bindA [OF hoare_added_key [OF G]], rule hoare_thenA [OF token])
    subgoal for x k
      apply (cases "ik_keyId k = i")
       apply (rule hoare_thenA [where R = "?G k"], rule hoare_weaken [OF hoare_auditLogA [where P = "?G k"]]; simp)
       apply (rule hoare_thenA [where R = "?G k"], rule hoare_modifyA; simp)
       apply (rule hoare_bindA [where R = "\<lambda>_. ?G k"], unfold activeForEnrollment_def, rule hoare_readS; simp)
       apply (rule hoare_bindA [OF hoare_granted_provision], rule hoare_thenA [where R = "?G k"], rule hoare_modifyA; simp)
       apply (rule hoare_thenA [where R = "?G k"])
      subgoal for bs rc by (cases rc) (auto intro!: hoare_retA hoare_updateDeviceS)
       apply (rule hoare_thenA [where R = "?G k"], rule hoare_modifyA; simp)
       apply (rule hoare_retA, blast)
      apply (rule hoareI; simp)
      done
    done
qed

lemma rollback_throws: "hoare P (enroll_rollback sy auId now ck e) (\<lambda>_ _. False) (\<lambda>_ _. True)"
  unfolding enroll_rollback_def Let_def
  by (intro hoare_bindA [OF hoare_any] hoare_thenA [OF hoare_any] hoare_throwA) simp

text \<open>
  Property C11. A successful exchange used a code that was unused and unexpired, and consumed it. It added exactly
  one device, of the code's organisation and person and tied to the code, and exactly one token, of this
  device and not revoked; only the hash of the secret that is handed out is stored, and the secret is found by it. The
  gateway has a live key under the device's id, by which a revocation finds it. The answer names the code's organisation.
\<close>

theorem enrolled_device_is_bound:
  assumes G: "gateway_adapter (sy_gateway sy) live" and ids: "distinct (map ec_id (w_codes w))"
    and run: "enroll sy devId tokId auId auId2 now theCode device w = (w', Inr res)"
  shows "\<exists>c d t. find_code theCode (w_codes w) = Some c \<and> ec_usedAt c = None \<and> now \<le> ec_expiresAt c \<and>
    w_codes w' = update_where (\<lambda>c'. ec_id c' = ec_id c) (\<lambda>c'. c'\<lparr>ec_usedAt := Some now\<rparr>) (w_codes w) \<and>
    map clear_desk (w_devices w') = map clear_desk (w_devices w) @ [d] \<and>
    dv_id d = devId \<and> dv_orgId d = ec_orgId c \<and> dv_personId d = ec_personId c \<and> dv_enrollCodeId d = Some (ec_id c) \<and>
    w_tokens w' = w_tokens w @ [t] \<and> dt_deviceId t = devId \<and> dt_revokedAt t = None \<and> dt_gatewayKeyId t = devId \<and>
    dt_tokenHash t = sy_sha256 sy (er_device_token res) \<and>
    find_token (sy_sha256 sy (er_device_token res)) (w_tokens w') = Some t \<and>
    devId \<in> live (w_gateway w') \<and> er_device_id res = devId \<and> er_tenant_id res = ec_orgId c"
proof -
  let ?Q = "\<lambda>res v. \<exists>c ck k bindings desk. find_code theCode (w_codes w) = Some c \<and> checked_ok w now c ck \<and>
     res = enroll_result ck k devId bindings desk \<and> ik_keyId k = devId \<and>
     granted live (claimed_world w (ec_id c) now []) (new_device ck device devId now) (new_token sy ck k devId tokId now) v"
  have "hoare (\<lambda>v. v = w) (enroll sy devId tokId auId auId2 now theCode device) ?Q (\<lambda>_ _. True)"
  proof (rule hoare_enroll [OF ids])
    fix ec ck s
    assume ec: "find_code theCode (w_codes w) = Some ec" "checked_ok w now ec ck"
    let ?w0 = "claimed_world w (ec_id ec) now s"
    have "hoare (\<lambda>s. s = start_run ?w0) (catchA (enroll_body sy devId tokId auId now ck device) (enroll_rollback sy auId2 now ck))
        (\<lambda>res v. \<exists>k bindings desk. res = enroll_result ck k devId bindings desk \<and> ik_keyId k = devId \<and>
           granted live ?w0 (new_device ck device devId now) (new_token sy ck k devId tokId now) v) (\<lambda>_ _. True)"
      by (rule hoare_catchA [OF hoare_granted_body [OF G] hoare_weaken [OF rollback_throws]]) auto
    from hoareD_Inr [OF this refl] ec
    show "hoare (\<lambda>v. v = ?w0)
        (with_locals (catchA (enroll_body sy devId tokId auId now ck device) (enroll_rollback sy auId2 now ck))) ?Q (\<lambda>_ _. True)"
      by (intro hoareI) (fastforce simp: with_locals_def added_def claimed_world_def split: prod.splits)+
  qed simp
  from hoareD_Inr [OF this refl run] obtain c ck k bindings desk where c: "find_code theCode (w_codes w) = Some c" "checked_ok w now c ck"
      "res = enroll_result ck k devId bindings desk" "ik_keyId k = devId"
      "granted live (claimed_world w (ec_id c) now []) (new_device ck device devId now) (new_token sy ck k devId tokId now) w'"
    by blast
  note ck = checked_claimable [OF c(1,2) ids]
  have "find_token (sy_sha256 sy (ik_key k)) (w_tokens w @ [new_token sy ck k devId tokId now]) = Some (new_token sy ck k devId tokId now)"
    unfolding find_token_def using c(5)
    by (intro find_snoc) (auto simp: find_None_iff claimed_world_def new_token_def image_iff)
  then show ?thesis
    using c ck by (intro exI [of _ c] exI [of _ "clear_desk (new_device ck device devId now)"] exI [of _ "new_token sy ck k devId tokId now"])
      (auto simp: checked_ok_def enroll_result_def new_token_def new_device_def clear_desk_def added_def claimed_world_def
        claimed_is_update(1) [OF ids ck(2,4)] dest: find_org_Some)
qed

subsection \<open>Witnesses\<close>

definition sample_code :: EnrollCode where
  "sample_code =
     \<lparr>ec_id = ''e1'', ec_orgId = ''c'', ec_code = ''hara-1'', ec_model = ''deepseek-v4-pro'', ec_reasoningEffort = [],
      ec_baseUrl = None, ec_expiresAt = 100, ec_usedAt = None,
      ec_policy = \<lparr>pc_tokenTtlMinutes = None, pc_tokenNeverExpires = Some True, pc_budgetLimits = JArr [],
        pc_rpmLimit = None, pc_tpmLimit = None\<rparr>, ec_personId = Some ''p''\<rparr>"

definition enroll_world :: "string option list \<Rightarrow> (MockState, unit) World" where
  "enroll_world script =
     \<lparr>w_orgs = [\<lparr>org_id = ''c'', org_name = ''Acme'', org_type = COMPANY, org_parentId = None\<rparr>],
      w_persons = [\<lparr>pe_id = ''p'', pe_orgId = ''c'', pe_name = ''P'', pe_email = ''p@c.example''\<rparr>],
      w_codes = [sample_code], w_devices = [], w_tokens = [], w_bindings = [], w_secrets = Map.empty, w_audits = [],
      w_script = script, w_gateway = \<lparr>mk_spend = Map.empty, mk_models = Map.empty, mk_random = 0\<rparr>, w_desk = ()\<rparr>"

definition sample_sys :: "(MockState, unit) Sys" where
  "sample_sys =
     \<lparr>sy_env = Map.empty, sy_sha256 = (\<lambda>_. ''h''), sy_newURL = (\<lambda>_. None), sy_gateway = mock_adapter,
      sy_fetch = (\<lambda>_ _ _ d. (d, Inl ''offline'')), sy_targets = (\<lambda>_. None), sy_seatLimit = num 0\<rparr>"

definition sample_enroll :: "string option list \<Rightarrow> (MockState, unit) World \<times> EnrollResult res" where
  "sample_enroll script =
     enroll sample_sys ''d'' ''t'' ''a1'' ''a2'' 5 ''hara-1''
       \<lparr>in_name = ''laptop'', in_os = None, in_hara_version = None, in_client_kind = None\<rparr> (enroll_world script)"

lemma sample_enrolled: "case snd (sample_enroll []) of Inl e \<Rightarrow> False | Inr r \<Rightarrow> er_device_id r = ''d''"
  by code_simp

lemma sample_failed:
  "case snd (sample_enroll [None, None, None, None, None, Some ''down'']) of Inl e \<Rightarrow> e = PlainError ''down'' | Inr r \<Rightarrow> False"
  by code_simp

lemma sample_desk: "desk_documented sample_sys (\<lambda>_. {})"
  by (simp add: desk_documented_def)

lemma sample_fresh: "fresh_device mock_live (\<lambda>_. {}) ''d'' (enroll_world script)"
  by (simp add: fresh_device_def enroll_world_def mock_live_def) code_simp


theorem failed_enrollment_fails_closed_witness:
  "failed_closed mock_adapter mock_live (\<lambda>_. {}) (enroll_world [None, None, None, None, None, Some ''down'']) ''d'' ''hara-1'' 5
     (fst (sample_enroll [None, None, None, None, None, Some ''down'']))"
proof -
  obtain w' r where run: "sample_enroll [None, None, None, None, None, Some ''down''] = (w', r)" by fastforce
  with sample_failed obtain e where "r = Inl e" by (auto split: sum.splits)
  with run failed_enrollment_fails_closed [of sample_sys mock_live "\<lambda>_. {}" "''d''", OF _ sample_desk sample_fresh _ run [unfolded sample_enroll_def \<open>r = Inl e\<close>]]
  show ?thesis using mock.gateway_adapter_axioms by (simp add: sample_sys_def enroll_world_def)
qed

theorem enrolled_device_is_bound_witness:
  "\<exists>t. w_tokens (fst (sample_enroll [])) = [t] \<and> dt_deviceId t = ''d'' \<and> dt_revokedAt t = None"
proof -
  obtain w' r where run: "sample_enroll [] = (w', r)" by fastforce
  with sample_enrolled obtain res where res: "r = Inr res" by (auto split: sum.splits)
  have "gateway_adapter (sy_gateway sample_sys) mock_live" "distinct (map ec_id (w_codes (enroll_world [])))" "w_tokens (enroll_world []) = []"
    using mock.gateway_adapter_axioms by (simp_all add: sample_sys_def enroll_world_def)
  with enrolled_device_is_bound [of sample_sys mock_live "enroll_world []", OF _ _ run [unfolded sample_enroll_def res]] run
  show ?thesis by auto
qed

end
