(* ===== verification/Admin.thy ===== *)
theory Admin
  imports Enroll
begin

section \<open>The administration service\<close>

text \<open>
  \<^verbatim>\<open>src/src/admin/admin.service.ts\<close> without the two reports (fleet and usage): organisations, enrollment codes, the
  one-time binding of a device to a person, and the two-phase revocation of a device. The handlers run on the
  world of the store; ids, codes and times a handler takes from its runtime are arguments.
\<close>

subsection \<open>Organisations\<close>

text \<open>\<^verbatim>\<open>orderBy name, createdAt\<close>: the rows are kept in the order of their creation, \<^verbatim>\<open>collate\<close> is the order of the database.\<close>

definition listOrgs ::
  "(string \<Rightarrow> 'k::linorder) \<Rightarrow> string option \<Rightarrow> bool \<Rightarrow> (('g, 'd, 'x) World_scheme, Organization list) act" where
  "listOrgs collate orgId global =
     thenA (throwUnless (global \<or> nullish orgId [] \<noteq> []) (Forbidden ''organization access denied''))
           (readS (\<lambda>w. sort_key (\<lambda>r. collate (org_name r))
              (if global then w_orgs w else filter (\<lambda>r. Some (org_id r) = orgId) (w_orgs w))))"

definition isGlobalOperator :: "AuthedUser \<Rightarrow> bool" where
  "isGlobalOperator actor \<longleftrightarrow> us_viaSharedKey actor \<or> us_role actor = SUPERADMIN"

definition ancestorsA :: "string \<Rightarrow> (('g, 'd, 'x) World_scheme, Organization list) act" where
  "ancestorsA orgId = bindA (readS (\<lambda>w. ancestors (w_orgs w) orgId)) liftR"

definition assertOrgTreeAccess :: "AuthedUser \<Rightarrow> string \<Rightarrow> (('g, 'd, 'x) World_scheme, unit) act" where
  "assertOrgTreeAccess actor targetOrgId =
     (if isGlobalOperator actor then retA ()
      else thenA (throwUnless (nullish (us_orgId actor) [] \<noteq> []) (Forbidden ''organization access denied''))
          (bindA (ancestorsA targetOrgId) (\<lambda>chain.
           throwUnless (\<exists>r \<in> set chain. Some (org_id r) = us_orgId actor) (Forbidden ''organization access denied''))))"

definition admin_actor :: "AuthedUser \<Rightarrow> string" where
  "admin_actor actor = (if us_viaSharedKey actor then ''shared-key'' else ''admin'')"

definition org_type_name :: "OrgType \<Rightarrow> string" where
  "org_type_name t = (case t of GROUP \<Rightarrow> ''GROUP'' | COMPANY \<Rightarrow> ''COMPANY'' | DEPARTMENT \<Rightarrow> ''DEPARTMENT'' | TEAM \<Rightarrow> ''TEAM'')"

definition optStr :: "string option \<Rightarrow> jsval" where
  "optStr s = (case s of None \<Rightarrow> JNull | Some t \<Rightarrow> JStr t)"

text \<open>The callback of the transaction; an empty parent id passes the check of the code and fails the foreign key.\<close>

definition createOrg_tx ::
  "string \<Rightarrow> string \<Rightarrow> OrgType \<Rightarrow> string option \<Rightarrow> ('g, 'd, 'x) World_scheme \<Rightarrow>
     ((Organization \<times> string \<times> jsval) \<times> ('g, 'd, 'x) World_scheme) res" where
  "createOrg_tx newId name type parentId w =
     (let new = \<lparr>org_id = newId, org_name = name, org_type = type, org_parentId = parentId\<rparr>
      in throwIf (nullish parentId [] \<noteq> [] \<and> find_org (w_orgs w) (nullish parentId []) = None)
           (BadRequest (''parent org \"'' @ nullish parentId [] @ ''\" not found''))
        (throwIf (parentId = Some []) (PlainError ''Foreign key constraint violated on the fields: (parentId)'')
        (Inr ((new, newId, JObj [(''name'', JStr name), (''type'', JStr (org_type_name type)), (''parentId'', optStr parentId)]),
              w\<lparr>w_orgs := w_orgs w @ [new]\<rparr>))))"

definition createOrg ::
  "('g, 'd) Sys \<Rightarrow> string \<Rightarrow> string \<Rightarrow> time \<Rightarrow> string \<Rightarrow> AuthedUser \<Rightarrow> OrgType \<Rightarrow> string option \<Rightarrow>
     (('g, 'd, 'x) World_scheme, Organization) act" where
  "createOrg sy newId auId now name actor type parentId =
     (let normalizedName = trim name; nested = (nullish parentId [] \<noteq> [])
      in thenA (throwUnless (normalizedName \<noteq> [] \<and> length normalizedName \<le> 80 \<and> \<not> has_control normalizedName)
                  (BadRequest ''organization name must be 1-80 printable characters''))
        (thenA (throwUnless (nested \<or> isGlobalOperator actor)
                  (Forbidden ''creating a root company requires SUPERADMIN''))
        (thenA (whenA nested (assertOrgTreeAccess actor (nullish parentId [])))
               (auditTx (sy_sha256 sy) auId now ''org.create'' (admin_actor actor) (us_id actor)
                  (createOrg_tx newId normalizedName type parentId)))))"

definition orgAncestors :: "string \<Rightarrow> AuthedUser \<Rightarrow> (('g, 'd, 'x) World_scheme, Organization list) act" where
  "orgAncestors orgId actor = thenA (assertOrgTreeAccess actor orgId) (ancestorsA orgId)"

definition orgSubtree :: "string \<Rightarrow> AuthedUser \<Rightarrow> (('g, 'd, 'x) World_scheme, string list) act" where
  "orgSubtree orgId actor =
     thenA (assertOrgTreeAccess actor orgId) (bindA (readS (\<lambda>w. descendants (w_orgs w) orgId)) liftR)"

subsection \<open>Enrollment codes\<close>

record EnrollCodeResult =
  cr_code :: string
  cr_model :: string
  cr_reasoningEffort :: string
  cr_models :: "string list"
  cr_expiresAt :: time
  cr_accessPolicy :: StoredAccessKeyPolicy

text \<open>The largest time value of a \<^verbatim>\<open>Date\<close>; a larger one makes an invalid date, which the database client refuses.\<close>

definition MAX_DATE :: int where
  "MAX_DATE = 8640000000000000"

text \<open>The checks of the \<^verbatim>\<open>try\<close> block, whose exceptions become \<^verbatim>\<open>BadRequestException\<close>.\<close>

definition code_policy ::
  "env \<Rightarrow> string \<Rightarrow> string option \<Rightarrow> AccessKeyPolicyInput \<Rightarrow> (string \<times> string \<times> StoredAccessKeyPolicy) res" where
  "code_policy env model effort options =
     (case bindR (resolveEnrollmentModel (Some model) env) (\<lambda>resolvedModel.
           bindR (resolveEnrollmentReasoningEffort effort resolvedModel) (\<lambda>reasoningEffort.
           bindR (normalizeAccessKeyPolicy options (deviceTokenTtlMinutes env)) (\<lambda>accessPolicy.
           Inr (resolvedModel, reasoningEffort, accessPolicy)))) of
        Inl e \<Rightarrow> Inl (BadRequest (error_message e))
      | Inr r \<Rightarrow> Inr r)"

definition createEnrollCode_tx ::
  "string \<Rightarrow> string \<Rightarrow> time \<Rightarrow> string \<Rightarrow> string \<Rightarrow> string \<Rightarrow> StoredAccessKeyPolicy \<Rightarrow> string list \<Rightarrow> string option \<Rightarrow> int \<Rightarrow> string \<Rightarrow>
     ('g, 'd, 'x) World_scheme \<Rightarrow> ((EnrollCodeResult \<times> string \<times> jsval) \<times> ('g, 'd, 'x) World_scheme) res" where
  "createEnrollCode_tx newId newCode now orgId model effort policy models baseUrl ttlMinutes personId w =
     (let expiresAt = now + ttlMinutes * 60000
      in throwIf (personId = []) (BadRequest ''personId is required for company key accountability'')
        (case find_person personId (w_persons w) of
           None \<Rightarrow> Inl (BadRequest ''person not found'')
         | Some person \<Rightarrow>
             throwIf (pe_orgId person \<noteq> orgId) (BadRequest ''enrollment person must belong to the same organization'')
            (throwIf (MAX_DATE < \<bar>expiresAt\<bar>) (PlainError ''Invalid value for argument `expiresAt`: Provided Date object is invalid.'')
            (throwIf (newCode \<in> ec_code ` set (w_codes w)) (PlainError ''Unique constraint failed on the fields: (code)'')
            (Inr ((\<lparr>cr_code = newCode, cr_model = model, cr_reasoningEffort = effort, cr_models = models,
                    cr_expiresAt = expiresAt, cr_accessPolicy = policy\<rparr>, orgId,
                   JObj [(''model'', JStr model), (''reasoningEffort'', JStr effort), (''models'', JArr (map JStr models)),
                         (''ttlMinutes'', JNum (num ttlMinutes)), (''personId'', JStr personId), (''accessPolicy'', policyJson policy)]),
                  w\<lparr>w_codes := w_codes w @
                     [\<lparr>ec_id = newId, ec_orgId = orgId, ec_code = newCode, ec_model = model, ec_reasoningEffort = effort,
                       ec_baseUrl = baseUrl, ec_expiresAt = expiresAt, ec_usedAt = None, ec_policy = storePolicy policy,
                       ec_personId = Some personId\<rparr>]\<rparr>))))))"

definition createEnrollCode ::
  "('g, 'd) Sys \<Rightarrow> string \<Rightarrow> string \<Rightarrow> string \<Rightarrow> time \<Rightarrow> string \<Rightarrow> string \<Rightarrow> string option \<Rightarrow> int \<Rightarrow> string \<Rightarrow> AuthedUser \<Rightarrow>
     AccessKeyPolicyInput \<Rightarrow> string option \<Rightarrow> (('g, 'd, 'x) World_scheme, EnrollCodeResult) act" where
  "createEnrollCode sy newId newCode auId now orgId model baseUrl ttlMinutes personId actor options effort =
     thenA (throwUnless (us_id actor \<noteq> []) (BadRequest ''authenticated audit actor is required''))
    (bindA (liftR (code_policy (sy_env sy) model effort options)) (\<lambda>(resolvedModel, reasoningEffort, accessPolicy).
     bindA (liftR (enrollmentManagedModels resolvedModel (sy_env sy))) (\<lambda>models.
     auditTx (sy_sha256 sy) auId now ''enroll_code.create'' (admin_actor actor) (us_id actor)
       (createEnrollCode_tx newId newCode now orgId resolvedModel reasoningEffort accessPolicy models baseUrl ttlMinutes personId))))"

subsection \<open>Binding a device to a person\<close>

definition bind_tx ::
  "Device \<Rightarrow> Person \<Rightarrow> ('g, 'd, 'x) World_scheme \<Rightarrow> (((string \<times> Person) \<times> string \<times> jsval) \<times> ('g, 'd, 'x) World_scheme) res" where
  "bind_tx device person w =
     (let unbound = (\<lambda>d. dv_id d = dv_id device \<and> dv_orgId d = dv_orgId device \<and> dv_personId d = None);
          theirs = (\<lambda>c. Some (ec_id c) = dv_enrollCodeId device \<and> ec_orgId c = dv_orgId device \<and> ec_personId c = None)
      in throwIf (count_where unbound (w_devices w) \<noteq> 1)
           (BadRequest ''device identity was bound concurrently; refresh and retry'')
        (Inr (((dv_id device, person), dv_orgId device,
               JObj [(''deviceId'', JStr (dv_id device)), (''personId'', JStr (pe_id person))]),
              w\<lparr>w_devices := update_where unbound (\<lambda>d. d\<lparr>dv_personId := Some (pe_id person)\<rparr>) (w_devices w),
                w_codes := (if nullish (dv_enrollCodeId device) [] \<noteq> []
                            then update_where theirs (\<lambda>c. c\<lparr>ec_personId := Some (pe_id person)\<rparr>) (w_codes w)
                            else w_codes w)\<rparr>)))"

definition bindDevicePerson ::
  "('g, 'd) Sys \<Rightarrow> string \<Rightarrow> time \<Rightarrow> string \<Rightarrow> string \<Rightarrow> AuthedUser \<Rightarrow> (('g, 'd, 'x) World_scheme, string \<times> Person) act" where
  "bindDevicePerson sy auId now deviceId personId actor =
     bindA (readS (\<lambda>w. find_device deviceId (w_devices w))) (\<lambda>found.
     bindA (readS (\<lambda>w. find_person personId (w_persons w))) (\<lambda>owner.
     case found of
       None \<Rightarrow> throwA (NotFound ''device not found'')
     | Some device \<Rightarrow>
         thenA (liftR (assertAdminOrgAccess actor (dv_orgId device)))
        (case owner of
           None \<Rightarrow> throwA (NotFound ''person not found'')
         | Some person \<Rightarrow>
             thenA (throwUnless (pe_orgId person = dv_orgId device)
                      (BadRequest ''person and device must belong to the same organization''))
            (thenA (throwUnless (nullish (dv_personId device) [] = [] \<or> dv_personId device = Some personId)
                      (BadRequest ''device identity is already bound; revoke and re-enroll to change people''))
            (if dv_personId device = Some personId then retA (deviceId, person)
             else auditTx (sy_sha256 sy) auId now ''device.person.bind'' (admin_actor actor) (us_id actor) (bind_tx device person))))))"

subsection \<open>Revoking a device\<close>

record RevokeResult =
  rv_revoked :: nat
  rv_deskRevoked :: "bool option"

text \<open>The first transaction: the intent and the local revocation of every token.\<close>

definition request_tx ::
  "string \<Rightarrow> string \<Rightarrow> time \<Rightarrow> ('g, 'd, 'x) World_scheme \<Rightarrow> (((bool \<times> nat) \<times> string \<times> jsval) \<times> ('g, 'd, 'x) World_scheme) res" where
  "request_tx deviceId orgId now w =
     (let open_device = (\<lambda>d. dv_id d = deviceId \<and> dv_revocationRequestedAt d = None);
          open_token = (\<lambda>t. dt_deviceId t = deviceId \<and> dt_revokedAt t = None);
          claimed = (count_where open_device (w_devices w) = 1);
          revoked = count_where open_token (w_tokens w)
      in Inr (((claimed, revoked), orgId,
               JObj [(''deviceId'', JStr deviceId), (''claimed'', JBool claimed), (''tokens'', JNum (num (int revoked)))]),
              w\<lparr>w_devices := update_where open_device (\<lambda>d. d\<lparr>dv_revocationRequestedAt := Some now\<rparr>) (w_devices w),
                w_tokens := update_where open_token (\<lambda>t. t\<lparr>dt_revokedAt := Some now\<rparr>) (w_tokens w)\<rparr>))"

fun revokeKeys :: "('g, 'd) Sys \<Rightarrow> string list \<Rightarrow> (('g, 'd, 'x) World_scheme, unit) act" where
  "revokeKeys sy [] = retA ()"
| "revokeKeys sy (k # ks) = thenA (gatewayA (ga_revokeKey (sy_gateway sy) k)) (revokeKeys sy ks)"

definition revokeDesk :: "('g, 'd) Sys \<Rightarrow> Device \<Rightarrow> (('g, 'd, 'x) World_scheme, bool) act" where
  "revokeDesk sy dev =
     (if dv_deskProvisionedAt dev = None \<and> dv_deskCleanupPendingAt dev = None then retA False
      else thenA (throwUnless (nullish (dv_deskOwner dev) [] \<noteq> [] \<and> nullish (dv_deskOrigin dev) [] \<noteq> [])
                    (PlainError ''Hara Desk revocation is unavailable for this provisioned device''))
          (thenA (revokeInstallation sy (dv_orgId dev) (nullish (dv_deskOwner dev) []) (dv_id dev) (dv_deskOrigin dev)
                    (dv_deskCleanupPendingAt dev \<noteq> None \<and> dv_deskProvisionedAt dev = None))
                 (retA True)))"

definition complete_device :: "time \<Rightarrow> bool \<Rightarrow> Device \<Rightarrow> Device" where
  "complete_device completedAt deskRevoked d =
     (if deskRevoked then clear_desk d else d)\<lparr>dv_revocationCompletedAt := Some completedAt\<rparr>"

text \<open>The second transaction, once every remote revocation has succeeded.\<close>

definition complete_tx ::
  "string \<Rightarrow> time \<Rightarrow> Device \<Rightarrow> nat \<Rightarrow> bool \<Rightarrow> ('g, 'd, 'x) World_scheme \<Rightarrow>
     ((RevokeResult \<times> string \<times> jsval) \<times> ('g, 'd, 'x) World_scheme) res" where
  "complete_tx deviceId now dev tokens deskRevoked w =
     (let completedAt = (case dv_revocationRequestedAt dev of Some t \<Rightarrow> if now < t then t else now | None \<Rightarrow> now)
      in throwIf (\<not> (\<exists>d \<in> set (w_devices w). dv_id d = deviceId)) (PlainError ''Record to update not found.'')
        (Inr ((\<lparr>rv_revoked = tokens, rv_deskRevoked = Some deskRevoked\<rparr>, dv_orgId dev,
               JObj [(''deviceId'', JStr deviceId), (''tokens'', JNum (num (int tokens))), (''deskRevoked'', JBool deskRevoked)]),
              update_device deviceId (complete_device completedAt deskRevoked) w)))"

definition revokeDevice ::
  "('g, 'd) Sys \<Rightarrow> string \<Rightarrow> string \<Rightarrow> time \<Rightarrow> string \<Rightarrow> AuthedUser \<Rightarrow> (('g, 'd, 'x) World_scheme, RevokeResult) act" where
  "revokeDevice sy auId1 auId2 now deviceId user =
     bindA (readS (\<lambda>w. find_device deviceId (w_devices w))) (\<lambda>found.
     case found of
       None \<Rightarrow> retA \<lparr>rv_revoked = 0, rv_deskRevoked = None\<rparr>
     | Some dev0 \<Rightarrow>
         thenA (liftR (assertAdminOrgAccess user (dv_orgId dev0)))
        (thenA (whenA (dv_revocationRequestedAt dev0 = None)
                  (thenA (auditTx (sy_sha256 sy) auId1 now ''device.revocation_requested'' (admin_actor user) (us_id user)
                            (request_tx deviceId (dv_orgId dev0) now)) (retA ())))
        (bindA (readS (\<lambda>w. find_device deviceId (w_devices w))) (\<lambda>again.
         case again of
           None \<Rightarrow> retA \<lparr>rv_revoked = 0, rv_deskRevoked = None\<rparr>
         | Some dev \<Rightarrow>
             bindA (readS (\<lambda>w. filter (\<lambda>t. dt_deviceId t = deviceId) (w_tokens w))) (\<lambda>tokens.
             if dv_revocationCompletedAt dev \<noteq> None
             then retA \<lparr>rv_revoked = length tokens, rv_deskRevoked = Some False\<rparr>
             else thenA (revokeKeys sy (map dt_gatewayKeyId tokens))
                 (bindA (revokeDesk sy dev) (\<lambda>deskRevoked.
                  auditTx (sy_sha256 sy) auId2 now ''device.revocation_completed'' (admin_actor user) (us_id user)
                    (complete_tx deviceId now dev (length tokens) deskRevoked))))))))"

definition verifyAudit :: "(string \<Rightarrow> string) \<Rightarrow> string \<Rightarrow> (('g, 'd, 'x) World_scheme, VerifyResult) act" where
  "verifyAudit H orgId = readS (\<lambda>w. verify H orgId (w_audits w))"

end
