(* ===== verification/Revocation.thy ===== *)
theory Revocation
  imports Admin
begin

section \<open>What a revocation guarantees\<close>

text \<open>
  The two-phase revocation of \<^verbatim>\<open>admin.service.ts\<close>: whatever fails after the first transaction, the device is locked
  out of Control; a completed revocation has removed every gateway key and the Desk installation; a retry
  finishes what a failed attempt began; and a token that an unfinished enrollment adds after a completed revocation
  is never revoked by it.
\<close>

subsection \<open>Assertions\<close>

definition locally_revoked :: "string \<Rightarrow> ('g, 'd, 'x) World_scheme \<Rightarrow> bool" where
  "locally_revoked i w \<longleftrightarrow>
     (\<forall>d \<in> set (w_devices w). dv_id d = i \<longrightarrow> dv_revocationRequestedAt d \<noteq> None) \<and>
     (\<forall>t \<in> set (w_tokens w). dt_deviceId t = i \<longrightarrow> dt_revokedAt t \<noteq> None)"

text \<open>A device whose revocation was requested has no open token.\<close>

definition revocations_closed :: "('g, 'd, 'x) World_scheme \<Rightarrow> bool" where
  "revocations_closed w \<longleftrightarrow>
     (\<forall>d \<in> set (w_devices w). dv_revocationRequestedAt d \<noteq> None \<longrightarrow> locally_revoked (dv_id d) w)"

definition device_keys :: "string \<Rightarrow> ('g, 'd, 'x) World_scheme \<Rightarrow> string list" where
  "device_keys i w = map dt_gatewayKeyId (filter (\<lambda>t. dt_deviceId t = i) (w_tokens w))"

text \<open>Nothing but rows of device \<^verbatim>\<open>i\<close> changed, and its gateway keys are known as before.\<close>

definition others_kept :: "string \<Rightarrow> ('g, 'd, 'x) World_scheme \<Rightarrow> ('g, 'd, 'x) World_scheme \<Rightarrow> bool" where
  "others_kept i w v \<longleftrightarrow>
     w_orgs v = w_orgs w \<and> w_persons v = w_persons w \<and> w_codes v = w_codes w \<and>
     w_bindings v = w_bindings w \<and> w_secrets v = w_secrets w \<and>
     map dv_id (w_devices v) = map dv_id (w_devices w) \<and>
     filter (\<lambda>d. dv_id d \<noteq> i) (w_devices v) = filter (\<lambda>d. dv_id d \<noteq> i) (w_devices w) \<and>
     filter (\<lambda>t. dt_deviceId t \<noteq> i) (w_tokens v) = filter (\<lambda>t. dt_deviceId t \<noteq> i) (w_tokens w) \<and>
     device_keys i v = device_keys i w"

definition same_row :: "Device \<Rightarrow> Device \<Rightarrow> bool" where
  "same_row d0 d \<longleftrightarrow> d = d0\<lparr>dv_revocationRequestedAt := dv_revocationRequestedAt d\<rparr>"

lemma same_row_fields:
  assumes "same_row d0 d"
  shows "dv_id d = dv_id d0 \<and> dv_orgId d = dv_orgId d0 \<and> dv_deskOrigin d = dv_deskOrigin d0 \<and>
    dv_revocationCompletedAt d = dv_revocationCompletedAt d0 \<and> (holds_desk d \<longleftrightarrow> holds_desk d0)"
proof -
  obtain t where "d = d0\<lparr>dv_revocationRequestedAt := t\<rparr>" using assms by (auto simp: same_row_def)
  then show ?thesis by (simp add: holds_desk_def)
qed

text \<open>After the first transaction, with \<^verbatim>\<open>d0\<close> the row of the device before it.\<close>

definition requested :: "string \<Rightarrow> Device \<Rightarrow> ('g, 'd, 'x) World_scheme \<Rightarrow> ('g, 'd, 'x) World_scheme \<Rightarrow> bool" where
  "requested i d0 w v \<longleftrightarrow> others_kept i w v \<and> locally_revoked i v \<and> (\<forall>d \<in> set (w_devices v). dv_id d = i \<longrightarrow> same_row d0 d)"

lemmas revoke_defs = locally_revoked_def others_kept_def device_keys_def

lemma others_kept_refl [simp]: "others_kept i w w"
  by (simp add: others_kept_def)

lemma others_kept_remote [simp]:
  "others_kept i w (v\<lparr>w_script := x1\<rparr>) = others_kept i w v" "others_kept i w (v\<lparr>w_gateway := x2\<rparr>) = others_kept i w v"
  "others_kept i w (v\<lparr>w_desk := x3\<rparr>) = others_kept i w v" "others_kept i w (v\<lparr>w_audits := x4\<rparr>) = others_kept i w v"
  by (simp_all add: others_kept_def device_keys_def)

lemma locally_revoked_remote [simp]:
  "locally_revoked i (v\<lparr>w_script := x1\<rparr>) = locally_revoked i v" "locally_revoked i (v\<lparr>w_gateway := x2\<rparr>) = locally_revoked i v"
  "locally_revoked i (v\<lparr>w_desk := x3\<rparr>) = locally_revoked i v" "locally_revoked i (v\<lparr>w_audits := x4\<rparr>) = locally_revoked i v"
  by (simp_all add: locally_revoked_def)

lemma requested_remote [simp]:
  "requested i d0 w (v\<lparr>w_script := x1\<rparr>) = requested i d0 w v" "requested i d0 w (v\<lparr>w_gateway := x2\<rparr>) = requested i d0 w v"
  "requested i d0 w (v\<lparr>w_desk := x3\<rparr>) = requested i d0 w v" "requested i d0 w (v\<lparr>w_audits := x4\<rparr>) = requested i d0 w v"
  by (simp_all add: requested_def)

lemma requested_revoked: "requested i d0 w v \<Longrightarrow> others_kept i w v \<and> locally_revoked i v"
  by (simp add: requested_def)

lemma find_device_Some: "find_device i ds = Some d \<Longrightarrow> d \<in> set ds \<and> dv_id d = i"
  by (auto simp: find_device_def find_Some_iff)

lemma requested_present:
  assumes "requested i d0 w v" "find_device i (w_devices w) = Some d"
  shows "\<exists>d \<in> set (w_devices v). dv_id d = i"
proof -
  have "i \<in> set (map dv_id (w_devices v))"
    using assms find_device_Some [OF assms(2)] by (force simp: requested_def others_kept_def)
  then show ?thesis by auto
qed

lemma find_device_unique: "distinct (map dv_id ds) \<Longrightarrow> find_device i ds = Some d0 \<Longrightarrow> d \<in> set ds \<Longrightarrow> dv_id d = i \<Longrightarrow> d = d0"
  by (auto dest!: find_device_Some simp: distinct_map dest: inj_onD)

subsection \<open>The first transaction\<close>

lemma map_update_kept: "(\<And>r. p r \<Longrightarrow> g (f r) = g r) \<Longrightarrow> map g (update_where p f rs) = map g rs"
  by (simp add: update_where_def)

lemma map_filter_update:
  "(\<And>r. q (f r) = q r) \<Longrightarrow> (\<And>r. g (f r) = g r) \<Longrightarrow> map g (filter q (update_where p f rs)) = map g (filter q rs)"
  by (induction rs) (auto simp: update_where_def)

lemma ball_update_where: "(\<forall>r \<in> set (update_where p f rs). Q r) \<longleftrightarrow> (\<forall>r \<in> set rs. Q (if p r then f r else r))"
  unfolding update_where_def by auto

lemma request_tx_requested:
  assumes uniq: "distinct (map dv_id (w_devices w))" and dev: "find_device i (w_devices w) = Some d0"
    and tx: "request_tx i orgId now (w\<lparr>w_script := s\<rparr>) = Inr (x, v)"
  shows "requested i d0 w v"
proof -
  let ?p = "\<lambda>d. dv_id d = i \<and> dv_revocationRequestedAt d = None"
  let ?q = "\<lambda>t. dt_deviceId t = i \<and> dt_revokedAt t = None"
  let ?f = "\<lambda>d. d\<lparr>dv_revocationRequestedAt := Some now\<rparr>" and ?g = "\<lambda>t. t\<lparr>dt_revokedAt := Some now\<rparr>"
  have v: "v = w\<lparr>w_script := s, w_devices := update_where ?p ?f (w_devices w), w_tokens := update_where ?q ?g (w_tokens w)\<rparr>"
    using tx by (auto simp: request_tx_def Let_def)
  have "filter (\<lambda>d. dv_id d \<noteq> i) (update_where ?p ?f (w_devices w)) = filter (\<lambda>d. dv_id d \<noteq> i) (w_devices w)"
    "map dv_id (update_where ?p ?f (w_devices w)) = map dv_id (w_devices w)"
    "filter (\<lambda>t. dt_deviceId t \<noteq> i) (update_where ?q ?g (w_tokens w)) = filter (\<lambda>t. dt_deviceId t \<noteq> i) (w_tokens w)"
    "map dt_gatewayKeyId (filter (\<lambda>t. dt_deviceId t = i) (update_where ?q ?g (w_tokens w))) = map dt_gatewayKeyId (filter (\<lambda>t. dt_deviceId t = i) (w_tokens w))"
    by (rule filter_update_other map_update_kept map_filter_update; simp)+
  then have "others_kept i w v"
    by (simp add: v others_kept_def device_keys_def)
  moreover have "locally_revoked i v"
    unfolding v locally_revoked_def by (simp add: ball_update_where del: not_None_eq)
  moreover have "\<forall>d \<in> set (w_devices v). dv_id d = i \<longrightarrow> same_row d0 d"
    using find_device_unique [OF uniq dev] unfolding v by (simp add: ball_update_where same_row_def)
  ultimately show ?thesis by (simp add: requested_def)
qed

subsection \<open>The remote revocations\<close>

lemma hoare_fixing: "(\<And>y. hoare (\<lambda>w. P w \<and> f w = y) m Q E) \<Longrightarrow> hoare P m Q E"
  unfolding hoare_def by blast

lemma hoare_revokeKeys:
  assumes G: "gateway_adapter (sy_gateway sy) live" and P: "\<And>v g. P (v\<lparr>w_gateway := g\<rparr>) = P v"
  shows "hoare (\<lambda>v. P v \<and> live (w_gateway v) \<inter> K = {}) (revokeKeys sy ks)
     (\<lambda>_ v. P v \<and> live (w_gateway v) \<inter> (K \<union> set ks) = {}) (\<lambda>_. P)"
proof (induction ks arbitrary: K)
  case (Cons k ks)
  have "hoare (\<lambda>v. P v \<and> live (w_gateway v) \<inter> K = {}) (gatewayA (ga_revokeKey (sy_gateway sy) k))
      (\<lambda>_ v. P v \<and> live (w_gateway v) \<inter> insert k K = {}) (\<lambda>_. P)"
    by (rule hoare_gatewayA) (auto simp: P dest: gateway_adapter.revoke_ok [OF G])
  with Cons.IH [of "insert k K"] show ?case by (simp add: hoare_thenA insert_commute)
qed (simp add: hoare_retA)

lemma hoare_resolve_target:
  assumes "scriptless P"
  shows "hoare P (resolve_target orgId b a1 a2) (\<lambda>_. P) (\<lambda>_. P)"
  unfolding resolve_target_def getSecret_def
  by (intro hoare_thenA [where R = P] hoare_throwUnless hoare_bindA [where R = "\<lambda>_. P"] hoare_readS assms hoare_retA)

lemma hoare_resolutions:
  assumes "scriptless P"
  shows "hoare P (deskProvisioningResolution orgId) (\<lambda>_. P) (\<lambda>_. P)"
    "hoare P (deskRevocationResolution sy orgId u) (\<lambda>_. P) (\<lambda>_. P)"
proof -
  have row: "hoare P (case r of None \<Rightarrow> retA x | Some b \<Rightarrow> m b) (\<lambda>_. P) (\<lambda>_. P)"
    if "\<And>b. hoare P (m b) (\<lambda>_. P) (\<lambda>_. P)" for r x and m :: "TenantServiceBinding \<Rightarrow> _"
    using that by (cases r) (auto intro: hoare_retA)
  show "hoare P (deskProvisioningResolution orgId) (\<lambda>_. P) (\<lambda>_. P)"
    unfolding deskProvisioningResolution_def
    by (intro hoare_bindA [where R = "\<lambda>_. P"] hoare_readS assms row) (auto intro: hoare_retA hoare_resolve_target [OF assms])
  show "hoare P (deskRevocationResolution sy orgId u) (\<lambda>_. P) (\<lambda>_. P)"
    unfolding deskRevocationResolution_def
    by (intro hoare_bindA [where R = "\<lambda>_. P"] hoare_readS assms row hoare_liftR hoare_thenA [where R = P] hoare_throwUnless
        hoare_resolve_target [OF assms])
qed

lemma hoare_revokeInstallation:
  assumes D: "desk_documented sy installed" and P: "scriptless P" "deskless P" and u: "u \<noteq> []"
  shows "hoare P (revokeInstallation sy orgId owner i (Some u) b)
     (\<lambda>_ v. P v \<and> (\<exists>url. deskOrigin (sy_newURL sy) (JStr u) = Inr url \<and> (url, orgId, trim i) \<notin> installed (w_desk v))) (\<lambda>_. P)"
proof -
  let ?Q = "\<lambda>_ v. P v \<and> (\<exists>url. deskOrigin (sy_newURL sy) (JStr u) = Inr url \<and> (url, orgId, trim i) \<notin> installed (w_desk v))"
  have at: "hoare P (revokeAtTarget sy url secret orgId owner' j b)
      (\<lambda>_ v. P v \<and> (url, orgId, j) \<notin> installed (w_desk v)) (\<lambda>_. P)" for url secret owner' j
  proof (rule hoare_fixing)
    fix I
    show "hoare (\<lambda>w. P w \<and> installed (w_desk w) = I) (revokeAtTarget sy url secret orgId owner' j b)
        (\<lambda>_ v. P v \<and> (url, orgId, j) \<notin> installed (w_desk v)) (\<lambda>_. P)"
      by (rule hoare_weaken [OF hoare_revokeAtTarget [OF D P(2), where I = I]]) auto
  qed
  have target: "hoare P
     (thenA (bindA (liftR (deskOrigin (sy_newURL sy) (JStr u))) (\<lambda>url. throwUnless (url = tg_url target) e))
        (bindA (liftR (boundedIdentity (JStr owner) a1 n1)) (\<lambda>owner'.
         bindA (liftR (boundedIdentity (JStr i) a2 n2)) (\<lambda>inst.
         thenA (revokeAtTarget sy (tg_url target) (tg_enrollKey target) orgId owner' inst b) (retA True))))) ?Q (\<lambda>_. P)"
    for target e a1 n1 a2 n2
  proof (cases "deskOrigin (sy_newURL sy) (JStr u) = Inr (tg_url target)")
    case True
    have last: "hoare P (thenA (revokeAtTarget sy (tg_url target) (tg_enrollKey target) orgId owner' inst b) (retA True)) ?Q (\<lambda>_. P)"
      if "inst = trim i" for owner' inst
      unfolding that
        by (rule hoare_thenA [OF at]) (use True in \<open>auto intro!: hoare_retA\<close>)
    have bounded: "hoare P (bindA (liftR r) f) ?Q (\<lambda>_. P)" if "\<And>x. r = Inr x \<Longrightarrow> hoare P (f x) ?Q (\<lambda>_. P)"
      for r :: "string res" and f
      using that by (cases r) (auto simp: bindA_def liftR_def hoare_def)
    have guard: "hoare P (bindA (liftR (deskOrigin (sy_newURL sy) (JStr u))) (\<lambda>url. throwUnless (url = tg_url target) e)) (\<lambda>_. P) (\<lambda>_. P)"
      by (auto simp: True hoare_def bindA_def liftR_def throwUnless_def retA_def)
    show ?thesis
      by (rule hoare_thenA [OF guard], rule bounded, rule bounded, rule last) (auto simp: boundedIdentity_Inr)
  next
    case False
    show ?thesis
      by (rule hoare_thenA [where R = "\<lambda>_. False"],
          cases "deskOrigin (sy_newURL sy) (JStr u)") (use False in \<open>auto simp: hoare_def bindA_def liftR_def throwUnless_def throwA_def\<close>)
  qed
  show ?thesis
    unfolding revokeInstallation_def using u
    by (simp, intro hoare_bindA [OF hoare_resolutions(2) [OF P(1)]])
      (auto intro!: hoare_throwA target split: option.split)
qed

subsection \<open>The handler\<close>

lemma hoare_revokeDesk:
  assumes D: "desk_documented sy installed" and P: "scriptless P" "deskless P"
  shows "hoare P (revokeDesk sy dev)
     (\<lambda>b v. P v \<and> b = holds_desk dev \<and> (b \<longrightarrow> (\<exists>url. deskOrigin (sy_newURL sy) (JStr (nullish (dv_deskOrigin dev) [])) = Inr url \<and>
        (url, dv_orgId dev, trim (dv_id dev)) \<notin> installed (w_desk v)))) (\<lambda>_. P)"
proof (cases "holds_desk dev")
  case True
  show ?thesis
  proof (cases "dv_deskOrigin dev")
    case (Some u)
    show ?thesis
    proof (cases "u = []")
      case u: False
      show ?thesis
        unfolding revokeDesk_def
        by (rule hoare_split)
          (use True Some in \<open>auto simp: holds_desk_def intro!: hoare_retA hoare_throwUnless
             hoare_thenA [where R = P] hoare_thenA [OF hoare_revokeInstallation [OF D P u]]\<close>)
    qed (use True Some in \<open>auto simp: revokeDesk_def holds_desk_def hoare_def thenA_def bindA_def throwUnless_def throwA_def\<close>)
  qed (use True in \<open>auto simp: revokeDesk_def holds_desk_def hoare_def thenA_def bindA_def throwUnless_def throwA_def\<close>)
qed (auto simp: revokeDesk_def holds_desk_def intro: hoare_retA)

lemma complete_device_fields [simp]:
  "dv_id (complete_device t desk d) = dv_id d"
  "dv_revocationRequestedAt (complete_device t desk d) = dv_revocationRequestedAt d"
  "dv_revocationCompletedAt (complete_device t desk d) = Some t"
  "holds_desk (complete_device t desk d) \<longleftrightarrow> \<not> desk \<and> holds_desk d"
  by (simp_all add: complete_device_def clear_desk_def holds_desk_def)

lemma complete_tx_completed:
  assumes "complete_tx i now dev n desk v = Inr (x, v')" "requested i d0 w v"
  shows "others_kept i w v' \<and> locally_revoked i v' \<and> w_gateway v' = w_gateway v \<and> w_desk v' = w_desk v \<and>
    (\<forall>d \<in> set (w_devices v'). dv_id d = i \<longrightarrow> dv_revocationCompletedAt d \<noteq> None \<and> (desk \<longrightarrow> \<not> holds_desk d) \<and>
       (\<not> desk \<longrightarrow> holds_desk d = holds_desk d0))"
proof -
  obtain t where v': "v' = update_device i (complete_device t desk) v"
    using assms(1) by (auto simp: complete_tx_def Let_def throwIf_eq_Inr)
  have "filter (\<lambda>d. dv_id d \<noteq> i) (w_devices v') = filter (\<lambda>d. dv_id d \<noteq> i) (w_devices v)"
    "map dv_id (w_devices v') = map dv_id (w_devices v)"
    unfolding v' by (simp_all add: filter_update_other map_update_kept)
  with assms(2) have "others_kept i w v'"
    unfolding requested_def others_kept_def device_keys_def by (simp add: v')
  moreover have "locally_revoked i v'"
    using assms(2) unfolding requested_def locally_revoked_def v' by (simp add: ball_update_where del: not_None_eq)
  moreover have "same_row d0 d \<Longrightarrow> holds_desk d = holds_desk d0" for d
    by (blast dest: same_row_fields)
  with assms(2) have "\<forall>d \<in> set (w_devices v'). dv_id d = i \<longrightarrow> dv_revocationCompletedAt d \<noteq> None \<and> (desk \<longrightarrow> \<not> holds_desk d) \<and>
       (\<not> desk \<longrightarrow> holds_desk d = holds_desk d0)"
    unfolding requested_def v' by (simp add: ball_update_where)
  moreover have "w_gateway v' = w_gateway v" "w_desk v' = w_desk v" by (simp_all add: v')
  ultimately show ?thesis by blast
qed

text \<open>What a revocation that returns has achieved, unless the device was unknown or already completed.\<close>

definition revoked_everywhere ::
  "('g, 'd) Sys \<Rightarrow> ('g \<Rightarrow> string set) \<Rightarrow> ('d \<Rightarrow> (string \<times> string \<times> string) set) \<Rightarrow> Device \<Rightarrow> ('g, 'd, 'x) World_scheme \<Rightarrow>
     ('g, 'd, 'x) World_scheme \<Rightarrow> bool" where
  "revoked_everywhere sy live installed d0 w v \<longleftrightarrow>
     live (w_gateway v) \<inter> set (device_keys (dv_id d0) w) = {} \<and>
     (holds_desk d0 \<longrightarrow> (\<exists>url. deskOrigin (sy_newURL sy) (JStr (nullish (dv_deskOrigin d0) [])) = Inr url \<and>
        (url, dv_orgId d0, trim (dv_id d0)) \<notin> installed (w_desk v))) \<and>
     (\<forall>d \<in> set (w_devices v). dv_id d = dv_id d0 \<longrightarrow> dv_revocationCompletedAt d \<noteq> None \<and> \<not> holds_desk d)"

lemma hoare_revoke_remote:
  assumes G: "gateway_adapter (sy_gateway sy) live" and D: "desk_documented sy installed"
    and dev: "same_row d0 dev" "dv_id d0 = i" "dv_revocationCompletedAt d0 = None"
  shows "hoare (requested i d0 w)
     (thenA (revokeKeys sy (device_keys i w)) (bindA (revokeDesk sy dev) (\<lambda>desk.
        auditTx H auId now act aty aid (complete_tx i now dev n desk))))
     (\<lambda>_ v. others_kept i w v \<and> locally_revoked i v \<and> revoked_everywhere sy live installed d0 w v)
     (\<lambda>_ v. others_kept i w v \<and> locally_revoked i v)"
proof -
  let ?K = "set (device_keys i w)"
  let ?P = "\<lambda>v. requested i d0 w v \<and> live (w_gateway v) \<inter> ?K = {}"
  let ?E = "\<lambda>_ v. others_kept i w v \<and> locally_revoked i v"
  have row: "holds_desk dev = holds_desk d0" "dv_deskOrigin dev = dv_deskOrigin d0" "dv_orgId dev = dv_orgId d0" "dv_id dev = i"
    using same_row_fields [OF dev(1)] dev(2) by auto
  have keys: "hoare (requested i d0 w) (revokeKeys sy (device_keys i w)) (\<lambda>_. ?P) ?E"
    by (rule hoare_weaken [OF hoare_revokeKeys [OF G, of "requested i d0 w" "{}"]]) (auto simp: requested_def)
  have desk: "hoare ?P (revokeDesk sy dev)
     (\<lambda>b v. ?P v \<and> b = holds_desk d0 \<and> (b \<longrightarrow> (\<exists>url. deskOrigin (sy_newURL sy) (JStr (nullish (dv_deskOrigin d0) [])) = Inr url \<and>
        (url, dv_orgId d0, trim i) \<notin> installed (w_desk v)))) ?E"
    by (rule hoare_weaken [OF hoare_revokeDesk [OF D, of ?P dev, unfolded row]])
      (auto intro!: scriptlessI desklessI simp: requested_def)
  have complete: "hoare (\<lambda>v. ?P v \<and> b = holds_desk d0 \<and> (b \<longrightarrow> (\<exists>url. deskOrigin (sy_newURL sy) (JStr (nullish (dv_deskOrigin d0) [])) = Inr url \<and>
        (url, dv_orgId d0, trim i) \<notin> installed (w_desk v)))) (auditTx H auId now act aty aid (complete_tx i now dev n b))
     (\<lambda>_ v. others_kept i w v \<and> locally_revoked i v \<and> revoked_everywhere sy live installed d0 w v) ?E" for b
  proof (rule hoare_auditTx)
    fix v v' x orgId payload rows
    assume v: "?P v \<and> b = holds_desk d0 \<and> (b \<longrightarrow> (\<exists>url. deskOrigin (sy_newURL sy) (JStr (nullish (dv_deskOrigin d0) [])) = Inr url \<and>
        (url, dv_orgId d0, trim i) \<notin> installed (w_desk v)))"
      and tx: "complete_tx i now dev n b v = Inr ((x, orgId, payload), v')"
    from v have rq: "requested i d0 w v" by blast
    from complete_tx_completed [OF tx rq] v dev(2)
    show "others_kept i w (v'\<lparr>w_audits := rows\<rparr>) \<and> locally_revoked i (v'\<lparr>w_audits := rows\<rparr>) \<and>
        revoked_everywhere sy live installed d0 w (v'\<lparr>w_audits := rows\<rparr>)"
      by (auto simp: revoked_everywhere_def)
  qed (auto intro!: scriptlessI simp: requested_def)
  show ?thesis by (rule hoare_thenA [OF keys], rule hoare_bindA [OF desk complete])
qed

text \<open>The outcome of the handler, on device \<^verbatim>\<open>i\<close> with the row \<^verbatim>\<open>d0\<close>.\<close>

lemma hoare_revokeDevice:
  assumes G: "gateway_adapter (sy_gateway sy) live" and D: "desk_documented sy installed"
    and uniq: "distinct (map dv_id (w_devices w))" and closed: "revocations_closed w"
    and dev: "find_device i (w_devices w) = Some d0"
  shows "hoare (\<lambda>v. v = w) (revokeDevice sy a1 a2 now i user)
     (\<lambda>_ v. others_kept i w v \<and> locally_revoked i v \<and>
        (dv_revocationCompletedAt d0 = None \<longrightarrow> revoked_everywhere sy live installed d0 w v))
     (\<lambda>_ v. only_script w v \<or> others_kept i w v \<and> locally_revoked i v)" (is "hoare _ _ ?Q ?E")
proof -
  have d0: "d0 \<in> set (w_devices w)" "dv_id d0 = i" using find_device_Some [OF dev] by auto
  have request: "hoare (only_script w)
     (whenA (dv_revocationRequestedAt d0 = None)
        (thenA (auditTx H a1 now act aty aid (request_tx i orgId now)) (retA ()))) (\<lambda>_. requested i d0 w) ?E" for H act aty aid orgId
  proof (rule hoare_whenA)
    show "hoare (only_script w) (thenA (auditTx H a1 now act aty aid (request_tx i orgId now)) (retA ())) (\<lambda>_. requested i d0 w) ?E"
      by (rule hoare_thenA [where R = "requested i d0 w"], rule hoare_auditTx)
        (auto simp: only_script_def request_tx_requested [OF uniq dev] intro: hoare_retA)
  next
    fix v assume v: "only_script w v" "\<not> dv_revocationRequestedAt d0 = None"
    then have "locally_revoked i w" using closed d0 by (auto simp: revocations_closed_def)
    moreover have "\<forall>d \<in> set (w_devices w). dv_id d = i \<longrightarrow> same_row d0 d"
      using find_device_unique [OF uniq dev] by (auto simp: same_row_def)
    ultimately show "requested i d0 w v" using v(1) by (auto simp: only_script_def requested_def)
  qed
  have known: "same_row d0 d \<and> map dt_gatewayKeyId (filter (\<lambda>t. dt_deviceId t = i) (w_tokens v)) = device_keys i w"
    if "requested i d0 w v" "find_device i (w_devices v) = Some d" for v d
    using that find_device_Some [OF that(2)] by (auto simp: requested_def others_kept_def device_keys_def)
  have present: "find_device i (w_devices v) \<noteq> None" if "requested i d0 w v" for v
    using requested_present [OF that dev] by (auto simp: find_device_def find_None_iff)
  have finish: "hoare (\<lambda>v. requested i d0 w v \<and> same_row d0 d \<and> map dt_gatewayKeyId tokens = device_keys i w)
     (if dv_revocationCompletedAt d \<noteq> None then retA \<lparr>rv_revoked = length tokens, rv_deskRevoked = Some False\<rparr>
      else thenA (revokeKeys sy (map dt_gatewayKeyId tokens))
          (bindA (revokeDesk sy d) (\<lambda>desk. auditTx H a2 now act aty aid (complete_tx i now d (length tokens) desk)))) ?Q ?E"
    for d tokens H act aty aid
  proof (cases "same_row d0 d \<and> map dt_gatewayKeyId tokens = device_keys i w")
    case True
    then have completed: "dv_revocationCompletedAt d = dv_revocationCompletedAt d0"
      by (blast dest: same_row_fields)
    show ?thesis
    proof (cases "dv_revocationCompletedAt d0")
      case None
      show ?thesis using None completed True
        by (simp, intro hoare_weaken [OF hoare_revoke_remote [OF G D _ d0(2) None]]) auto
    qed (use completed in \<open>auto intro!: hoare_retA simp: requested_def\<close>)
  qed (rule hoareI; blast)
  have again: "hoare (\<lambda>v. requested i d0 w v \<and> r = find_device i (w_devices v))
     (case r of None \<Rightarrow> retA x | Some d \<Rightarrow> bindA (readS (\<lambda>w. filter (\<lambda>t. dt_deviceId t = i) (w_tokens w))) (k d)) ?Q ?E"
    if "\<And>d tokens. hoare (\<lambda>v. requested i d0 w v \<and> same_row d0 d \<and> map dt_gatewayKeyId tokens = device_keys i w) (k d tokens) ?Q ?E" for r x k
  proof (cases r)
    case None
    then show ?thesis using present by (intro hoareI) auto
  next
    case (Some d)
    show ?thesis unfolding Some option.case(2)
      by (rule hoare_bindA [OF hoare_readS that]) (auto intro!: scriptlessI dest: known [OF _ sym] requested_revoked)
  qed
  have found: "hoare (\<lambda>v. only_script w v \<and> r = Some d0) (case r of None \<Rightarrow> retA x | Some d \<Rightarrow> k d) ?Q ?E"
    if "hoare (only_script w) (k d0) ?Q ?E" for r x k
    using that by (cases "r = Some d0") (auto simp: hoare_def)
  have first: "hoare (\<lambda>v. v = w) (readS (\<lambda>w. find_device i (w_devices w))) (\<lambda>r v. only_script w v \<and> r = Some d0) ?E"
    by (rule hoare_weaken [OF hoare_read_only [of "\<lambda>w. find_device i (w_devices w)" w]]) (auto simp: dev)
  have second: "hoare (requested i d0 w) (readS (\<lambda>w. find_device i (w_devices w)))
      (\<lambda>r v. requested i d0 w v \<and> r = find_device i (w_devices v)) ?E"
    by (rule hoare_readS) (auto intro: scriptlessI dest: requested_revoked)
  have access: "hoare (only_script w) (liftR a) (\<lambda>_. only_script w) ?E" for a :: "unit res"
    by (rule hoare_liftR) auto
  show ?thesis
    unfolding revokeDevice_def
    by (rule hoare_bindA [OF first found], rule hoare_thenA [OF access], rule hoare_thenA [OF request],
        rule hoare_bindA [OF second again], rule finish)
qed


subsection \<open>Finishing\<close>

text \<open>\<^verbatim>\<open>returns P m Q\<close>: from a world with \<^verbatim>\<open>P\<close>, the handler returns, in a world with \<^verbatim>\<open>Q\<close>.\<close>

definition returns :: "('w \<Rightarrow> bool) \<Rightarrow> ('w, 'a) act \<Rightarrow> ('a \<Rightarrow> 'w \<Rightarrow> bool) \<Rightarrow> bool" where
  "returns P m Q \<longleftrightarrow> (\<forall>w. P w \<longrightarrow> (\<exists>w' x. m w = (w', Inr x) \<and> Q x w'))"

lemma returns_retA: "(\<And>w. P w \<Longrightarrow> Q x w) \<Longrightarrow> returns P (retA x) Q"
  by (simp add: returns_def retA_def)

lemma returns_bindA: "returns P m R \<Longrightarrow> (\<And>x. returns (R x) (f x) Q) \<Longrightarrow> returns P (bindA m f) Q"
  unfolding returns_def bindA_def by fastforce

lemma returns_thenA: "returns P m (\<lambda>_. R) \<Longrightarrow> returns R k Q \<Longrightarrow> returns P (thenA m k) Q"
  unfolding thenA_def by (rule returns_bindA)

lemma returns_liftR: "r = Inr x \<Longrightarrow> (\<And>w. P w \<Longrightarrow> Q x w) \<Longrightarrow> returns P (liftR r) Q"
  by (simp add: returns_def liftR_def)

lemma returns_throwUnless: "b \<Longrightarrow> (\<And>w. P w \<Longrightarrow> Q () w) \<Longrightarrow> returns P (throwUnless b e) Q"
  by (simp add: returns_def throwUnless_def retA_def)

lemma returns_whenA: "(b \<Longrightarrow> returns P m Q) \<Longrightarrow> (\<And>w. P w \<Longrightarrow> \<not> b \<Longrightarrow> Q () w) \<Longrightarrow> returns P (whenA b m) Q"
  by (auto simp: whenA_def intro: returns_retA)

lemma returns_readS: "(\<And>w. P w \<Longrightarrow> w_script w = [] \<and> Q (f w) w) \<Longrightarrow> returns P (readS f) Q"
  by (simp add: returns_def readS_def stmt_def)

lemma returns_auditTx:
  assumes "\<And>w. P w \<Longrightarrow> w_script w = []"
    "\<And>w. P w \<Longrightarrow> \<exists>x orgId payload stored w'. mutation w = Inr ((x, orgId, payload), w') \<and> persistedPayload payload = Inr stored \<and>
       (\<forall>rows. Q x (w'\<lparr>w_audits := rows\<rparr>))"
  shows "returns P (auditTx H newId now act aty aid mutation) Q"
  unfolding returns_def
proof (intro allI impI)
  fix w assume P: "P w"
  then obtain x orgId payload stored w' where m: "mutation w = Inr ((x, orgId, payload), w')" "persistedPayload payload = Inr stored"
      "\<And>rows. Q x (w'\<lparr>w_audits := rows\<rparr>)" using assms(2) by blast
  have "\<exists>rows. append_row H newId now orgId act aty aid payload (w_audits w') = Inr rows"
    using m(2) by (simp add: append_row_def Let_def)
  then obtain rows where "append_row H newId now orgId act aty aid payload (w_audits w') = Inr rows" by blast
  then have "auditTx H newId now act aty aid mutation w = (w'\<lparr>w_audits := rows\<rparr>, Inr x)"
    using m(1) assms(1) [OF P] by (simp add: auditTx_def txS_def stmt_def bindA_def liftR_def)
  with m(3) show "\<exists>w' x. auditTx H newId now act aty aid mutation w = (w', Inr x) \<and> Q x w'" by blast
qed

lemma returns_hoare: "returns P m Q \<Longrightarrow> hoare P m Q' E \<Longrightarrow> returns P m (\<lambda>x v. Q x v \<and> Q' x v)"
  unfolding returns_def using hoareD_Inr by meson

lemma hoare_read_quiet:
  "(\<And>v. P v \<Longrightarrow> w_script v = []) \<Longrightarrow> (\<And>v. P v \<Longrightarrow> Q (f v) v) \<Longrightarrow> hoare P (readS f) Q E"
  by (intro hoareI) (auto simp: readS_def stmt_def)

abbreviation quiet :: "('g, 'd, 'x) World_scheme \<Rightarrow> bool" where
  "quiet v \<equiv> w_script v = []"

lemma quiet_resolutions:
  "hoare quiet (deskProvisioningResolution orgId) (\<lambda>_. quiet) (\<lambda>_. quiet)"
  "hoare quiet (deskRevocationResolution sy orgId u) (\<lambda>_. quiet) (\<lambda>_. quiet)"
proof -
  have target: "hoare quiet (resolve_target orgId b x1 x2) (\<lambda>_. quiet) (\<lambda>_. quiet)" for b x1 x2
    unfolding resolve_target_def getSecret_def
    by (intro hoare_thenA [where R = quiet] hoare_throwUnless hoare_bindA [where R = "\<lambda>_. quiet"] hoare_read_quiet hoare_retA)
  have row: "hoare quiet (case r of None \<Rightarrow> retA x | Some b \<Rightarrow> m b) (\<lambda>_. quiet) (\<lambda>_. quiet)"
    if "\<And>b. hoare quiet (m b) (\<lambda>_. quiet) (\<lambda>_. quiet)" for r x and m :: "TenantServiceBinding \<Rightarrow> _"
    using that by (cases r) (auto intro: hoare_retA)
  show "hoare quiet (deskProvisioningResolution orgId) (\<lambda>_. quiet) (\<lambda>_. quiet)"
    unfolding deskProvisioningResolution_def
    by (intro hoare_bindA [where R = "\<lambda>_. quiet"] hoare_read_quiet row) (auto intro: hoare_retA target)
  show "hoare quiet (deskRevocationResolution sy orgId u) (\<lambda>_. quiet) (\<lambda>_. quiet)"
    unfolding deskRevocationResolution_def
    by (intro hoare_bindA [where R = "\<lambda>_. quiet"] hoare_read_quiet row hoare_liftR hoare_thenA [where R = quiet] hoare_throwUnless target)
qed

lemma quiet_revokeInstallation: "hoare quiet (revokeInstallation sy orgId owner i u b) (\<lambda>_. quiet) (\<lambda>_. quiet)"
proof -
  have at: "hoare quiet (revokeAtTarget sy url secret orgId owner' j b) (\<lambda>_. quiet) (\<lambda>_. quiet)" for url secret owner' j
    unfolding revokeAtTarget_def by (intro hoare_bindA [where R = "\<lambda>_. quiet"] hoare_fetchA hoare_liftR) auto
  have resolution: "hoare quiet (case u of Some u \<Rightarrow> if u = [] then deskProvisioningResolution orgId else deskRevocationResolution sy orgId u
        | None \<Rightarrow> deskProvisioningResolution orgId) (\<lambda>_. quiet) (\<lambda>_. quiet)"
    by (cases u) (auto intro: quiet_resolutions)
  show ?thesis
    unfolding revokeInstallation_def
    by (rule hoare_bindA [OF resolution])
      (auto split: option.split intro!: hoare_throwA hoare_retA hoare_thenA [where R = quiet] hoare_bindA [where R = "\<lambda>_. quiet"]
        hoare_liftR hoare_throwUnless at)
qed

text \<open>What a finishing run needs: a gateway that revokes, and a Desk that revokes what the device holds.\<close>

definition desk_revocable :: "('g, 'd) Sys \<Rightarrow> Device \<Rightarrow> ('g, 'd, 'x) World_scheme \<Rightarrow> bool" where
  "desk_revocable sy d0 w \<longleftrightarrow> holds_desk d0 \<longrightarrow>
     nullish (dv_deskOwner d0) [] \<noteq> [] \<and> nullish (dv_deskOrigin d0) [] \<noteq> [] \<and>
     (\<forall>v :: ('g, 'd, 'x) World_scheme. w_script v = [] \<longrightarrow> w_bindings v = w_bindings w \<longrightarrow> w_secrets v = w_secrets w \<longrightarrow>
        (\<exists>v' b. revokeInstallation sy (dv_orgId d0) (nullish (dv_deskOwner d0) []) (dv_id d0) (dv_deskOrigin d0)
           (dv_deskCleanupPendingAt d0 \<noteq> None \<and> dv_deskProvisionedAt d0 = None) v = (v', Inr b)))"

lemma returns_revokeKeys:
  assumes "\<And>k g. \<exists>g'. ga_revokeKey (sy_gateway sy) k g = (g', Inr ())" "\<And>v g. P (v\<lparr>w_gateway := g\<rparr>) = P v"
  shows "returns P (revokeKeys sy ks) (\<lambda>_. P)"
proof (induction ks)
  case (Cons k ks)
  have "returns P (gatewayA (ga_revokeKey (sy_gateway sy) k)) (\<lambda>_. P)"
    unfolding returns_def gatewayA_def
  proof (intro allI impI)
    fix w assume "P w"
    moreover obtain g' where "ga_revokeKey (sy_gateway sy) k (w_gateway w) = (g', Inr ())" using assms(1) by blast
    ultimately show "\<exists>w' x. (case ga_revokeKey (sy_gateway sy) k (w_gateway w) of (g, r) \<Rightarrow> (w\<lparr>w_gateway := g\<rparr>, r)) = (w', Inr x) \<and> P w'"
      using assms(2) by auto
  qed
  then show ?case using Cons by (simp add: returns_thenA)
qed (simp add: returns_retA)

lemma same_row_desk:
  assumes "same_row d0 d"
  shows "revokeDesk sy d = revokeDesk sy d0"
proof -
  obtain t where "d = d0\<lparr>dv_revocationRequestedAt := t\<rparr>" using assms by (auto simp: same_row_def)
  then show ?thesis by (simp add: revokeDesk_def)
qed

lemma returns_revokeDesk:
  assumes D: "desk_documented sy installed" and desk: "desk_revocable sy d0 w" and row: "same_row d0 d"
  shows "returns (\<lambda>v. requested i d0 w v \<and> quiet v) (revokeDesk sy d) (\<lambda>_ v. requested i d0 w v \<and> quiet v)"
proof (cases "holds_desk d0")
  case True
  let ?m = "revokeInstallation sy (dv_orgId d0) (nullish (dv_deskOwner d0) []) (dv_id d0) (dv_deskOrigin d0)
     (dv_deskCleanupPendingAt d0 \<noteq> None \<and> dv_deskProvisionedAt d0 = None)"
  obtain u where u: "dv_deskOrigin d0 = Some u" "u \<noteq> []" "nullish (dv_deskOwner d0) [] \<noteq> []"
    using desk True by (cases "dv_deskOrigin d0") (auto simp: desk_revocable_def)
  have "returns (\<lambda>v. requested i d0 w v \<and> quiet v) ?m (\<lambda>_ _. True)"
    unfolding returns_def
  proof (intro allI impI)
    fix v assume "requested i d0 w v \<and> quiet v"
    then show "\<exists>v' x. ?m v = (v', Inr x) \<and> True"
      using desk True unfolding desk_revocable_def requested_def others_kept_def by blast
  qed
  moreover have "hoare (\<lambda>v. requested i d0 w v \<and> quiet v) ?m (\<lambda>_. quiet) (\<lambda>_ _. True)"
    by (rule hoare_weaken [OF quiet_revokeInstallation]) auto
  moreover have "hoare (\<lambda>v. requested i d0 w v \<and> quiet v) ?m (\<lambda>_. requested i d0 w) (\<lambda>_ _. True)"
    unfolding u(1) by (rule hoare_weaken [OF hoare_revokeInstallation [OF D _ _ u(2), of "requested i d0 w"]])
      (auto intro!: scriptlessI desklessI)
  ultimately have "returns (\<lambda>v. requested i d0 w v \<and> quiet v) ?m (\<lambda>_ v. (True \<and> quiet v) \<and> requested i d0 w v)"
    by (intro returns_hoare)
  then have "returns (\<lambda>v. requested i d0 w v \<and> quiet v) ?m (\<lambda>_ v. requested i d0 w v \<and> quiet v)"
    by (simp add: conj_commute)
  then have "returns (\<lambda>v. requested i d0 w v \<and> quiet v) (revokeDesk sy d0) (\<lambda>_ v. requested i d0 w v \<and> quiet v)"
    using True u unfolding revokeDesk_def
    by (auto simp: holds_desk_def intro!: returns_thenA [where R = "\<lambda>v. requested i d0 w v \<and> quiet v"] returns_throwUnless returns_retA)
  then show ?thesis by (simp only: same_row_desk [OF row])
next
  case False
  then show ?thesis
    unfolding same_row_desk [OF row, of sy] by (auto simp: revokeDesk_def holds_desk_def intro!: returns_retA)
qed

lemma returns_revokeDevice:
  assumes G: "\<And>k g. \<exists>g'. ga_revokeKey (sy_gateway sy) k g = (g', Inr ())" and D: "desk_documented sy installed"
    and desk: "desk_revocable sy d0 w" and uniq: "distinct (map dv_id (w_devices w))" and closed: "revocations_closed w"
    and dev: "find_device i (w_devices w) = Some d0" and access: "assertAdminOrgAccess user (dv_orgId d0) = Inr ()"
    and script: "w_script w = []"
  shows "returns (\<lambda>v. v = w) (revokeDevice sy a1 a2 now i user) (\<lambda>_ _. True)"
proof -
  let ?R = "\<lambda>v. requested i d0 w v \<and> quiet v"
  have d0: "d0 \<in> set (w_devices w)" "dv_id d0 = i" using find_device_Some [OF dev] by auto
  have self: "w\<lparr>w_script := w_script w\<rparr> = w" by simp
  have request: "returns (\<lambda>v. v = w)
     (whenA (dv_revocationRequestedAt d0 = None)
        (thenA (auditTx H a1 now act aty aid (request_tx i orgId now)) (retA ()))) (\<lambda>_. ?R)" for H act aty aid orgId
  proof (rule returns_whenA)
    show "returns (\<lambda>v. v = w) (thenA (auditTx H a1 now act aty aid (request_tx i orgId now)) (retA ())) (\<lambda>_. ?R)"
    proof (rule returns_thenA [where R = ?R], rule returns_auditTx)
      obtain x v' where tx: "request_tx i orgId now (w\<lparr>w_script := w_script w\<rparr>) = Inr (x, v')" "w_script v' = []"
        using script by (auto simp: request_tx_def Let_def)
      obtain c n kvs where x: "x = ((c, n), orgId, JObj kvs)" using tx by (auto simp: request_tx_def Let_def)
      from request_tx_requested [OF uniq dev tx(1)] tx x
      show "\<exists>x orgId' payload stored w'. request_tx i orgId now v = Inr ((x, orgId', payload), w') \<and> persistedPayload payload = Inr stored \<and>
          (\<forall>rows. ?R (w'\<lparr>w_audits := rows\<rparr>))" if "v = w" for v
        using that by (auto simp: persistedPayload_def throwIf_def)
    qed (auto simp: script intro: returns_retA)
    fix v assume "v = w" "\<not> dv_revocationRequestedAt d0 = None"
    moreover from this have "locally_revoked i w" using closed d0 by (auto simp: revocations_closed_def)
    ultimately show "?R v" using find_device_unique [OF uniq dev] script by (auto simp: requested_def same_row_def)
  qed
  have finish: "returns (\<lambda>v. ?R v \<and> same_row d0 d)
     (if dv_revocationCompletedAt d \<noteq> None then retA x
      else thenA (revokeKeys sy ks) (bindA (revokeDesk sy d) (\<lambda>b. auditTx H a2 now act aty aid (complete_tx i now d n b)))) (\<lambda>_ _. True)"
    for d ks H act aty aid x n
  proof (cases "same_row d0 d")
    case True
    have keys: "returns ?R (revokeKeys sy ks) (\<lambda>_. ?R)" by (rule returns_revokeKeys [OF G]) simp
    have complete: "returns ?R (auditTx H a2 now act aty aid (complete_tx i now d n b)) (\<lambda>_ _. True)" for b
      using requested_present [OF _ dev]
      by (intro returns_auditTx) (auto simp: complete_tx_def Let_def persistedPayload_def throwIf_def)
    show ?thesis using True
      by (auto intro!: returns_retA returns_thenA [OF keys] returns_bindA [OF returns_revokeDesk [OF D desk True]] complete)
  qed (simp add: returns_def)
  have again: "returns (\<lambda>v. ?R v \<and> r = find_device i (w_devices v))
     (case r of None \<Rightarrow> retA x | Some d \<Rightarrow> bindA (readS (\<lambda>w. filter (\<lambda>t. dt_deviceId t = i) (w_tokens w))) (k d)) (\<lambda>_ _. True)"
    if "\<And>d tokens. returns (\<lambda>v. ?R v \<and> same_row d0 d) (k d tokens) (\<lambda>_ _. True)" for r x k
  proof (cases r)
    case (Some d)
    show ?thesis unfolding Some option.case(2)
    proof (rule returns_bindA [OF returns_readS that], intro conjI)
      fix v assume v: "(requested i d0 w v \<and> quiet v) \<and> Some d = find_device i (w_devices v)"
      then show "quiet v" "requested i d0 w v" "quiet v" by simp_all
      show "same_row d0 d" using v find_device_Some [of i "w_devices v" d] by (auto simp: requested_def)
    qed
  qed (auto intro: returns_retA)
  have found: "returns (\<lambda>v. v = w \<and> r = Some d0) (case r of None \<Rightarrow> retA x | Some d \<Rightarrow> k d) (\<lambda>_ _. True)"
    if "returns (\<lambda>v. v = w) (k d0) (\<lambda>_ _. True)" for r x k
    using that by (cases "r = Some d0") (auto simp: returns_def)
  have first: "returns (\<lambda>v. v = w) (readS (\<lambda>w. find_device i (w_devices w))) (\<lambda>r v. v = w \<and> r = Some d0)"
    by (rule returns_readS) (simp add: dev script)
  have second: "returns ?R (readS (\<lambda>w. find_device i (w_devices w))) (\<lambda>r v. ?R v \<and> r = find_device i (w_devices v))"
    by (rule returns_readS) simp
  have allowed: "returns (\<lambda>v. v = w) (liftR (assertAdminOrgAccess user (dv_orgId d0))) (\<lambda>_ v. v = w)"
    by (rule returns_liftR [OF access])
  show ?thesis
    unfolding revokeDevice_def
    by (rule returns_bindA [OF first found], rule returns_thenA [OF allowed], rule returns_thenA [OF request],
        rule returns_bindA [OF second again], rule finish)
qed


subsection \<open>A revocation that overtakes an enrollment\<close>

lemma hoare_revoke_completed:
  assumes dev: "find_device i (w_devices w) = Some d" "dv_revocationRequestedAt d \<noteq> None" "dv_revocationCompletedAt d \<noteq> None"
  shows "hoare (\<lambda>v. v = w) (revokeDevice sy a1 a2 now i user) (\<lambda>_. only_script w) (\<lambda>_. only_script w)"
proof -
  have read: "hoare (only_script w) (readS (\<lambda>w. find_device i (w_devices w))) (\<lambda>r v. only_script w v \<and> r = Some d) (\<lambda>_. only_script w)"
    by (rule hoare_weaken [OF hoare_read_only [of "\<lambda>w. find_device i (w_devices w)" w]]) (auto simp: dev)
  have found: "hoare (\<lambda>v. only_script w v \<and> r = Some d) (case r of None \<Rightarrow> retA x | Some d \<Rightarrow> k d) (\<lambda>_. only_script w) (\<lambda>_. only_script w)"
    if "hoare (only_script w) (k d) (\<lambda>_. only_script w) (\<lambda>_. only_script w)" for r x and k :: "Device \<Rightarrow> (_, RevokeResult) act"
    using that by (cases "r = Some d") (auto simp: hoare_def)
  have start: "hoare (\<lambda>v. v = w) (readS (\<lambda>w. find_device i (w_devices w))) (\<lambda>r v. only_script w v \<and> r = Some d) (\<lambda>_. only_script w)"
    by (rule hoare_weaken [OF read]) auto
  show ?thesis
    unfolding revokeDevice_def
    by (rule hoare_bindA [OF start found], rule hoare_thenA [where R = "only_script w"], rule hoare_liftR, simp, simp,
        rule hoare_thenA [where R = "only_script w"], rule hoare_whenA, simp add: dev(2), simp,
        rule hoare_bindA [OF read found], rule hoare_bindA [where R = "\<lambda>_. only_script w"])
      (auto simp: dev(3) intro!: hoare_readS hoare_retA)
qed

text \<open>
  Property C19. A revocation that completes between the creation of a device and of its token, both steps of one
  enrollment, is undone by the enrollment: the token created afterwards is usable until it expires, and no
  later revocation of the device, which takes it for completed, ever revokes it.
\<close>

theorem late_token_survives_revocation:
  assumes "gateway_adapter (sy_gateway sy) live" "desk_documented sy installed"
    "distinct (map dv_id (w_devices w))" "revocations_closed w"
    and dev: "find_device i (w_devices w) = Some d0" "dv_revocationCompletedAt d0 = None"
    and revoked: "revokeDevice sy a1 a2 now i user w = (v, Inr res)"
    and token: "create_token t v = (v2, Inr ())" "dt_deviceId t = i" "dt_revokedAt t = None"
    and again: "revokeDevice sy b1 b2 later i user2 v2 = (v3, r)"
  shows "find_token (dt_tokenHash t) (w_tokens v3) = Some t \<and>
    (\<forall>env at_time. (\<forall>x. dt_expiresAt t = Some x \<longrightarrow> at_time < x) \<longrightarrow> assertTokenUsable at_time env None (Some (validatable t)) = Inr ())"
proof -
  have everywhere: "locally_revoked i v" "revoked_everywhere sy live installed d0 w v"
    using hoareD_Inr [OF hoare_revokeDevice [OF assms(1-5)] refl revoked] dev(2) by auto
  have v2: "w_tokens v2 = w_tokens v @ [t]" "w_devices v2 = w_devices v" "\<exists>d \<in> set (w_devices v). dv_id d = i"
      "dt_tokenHash t \<notin> dt_tokenHash ` set (w_tokens v)"
    using token(1,2) by (auto simp: create_token_def txS_def stmt_def bindA_def liftR_def split: list.splits option.splits if_splits)
  from v2(3) obtain d where d: "find_device i (w_devices v2) = Some d"
    by (cases "find_device i (w_devices v2)") (auto simp: find_device_def find_None_iff v2(2))
  then have "dv_revocationRequestedAt d \<noteq> None" "dv_revocationCompletedAt d \<noteq> None"
    using everywhere find_device_Some [OF d] find_device_Some [OF dev(1)] v2(2)
    by (auto simp: locally_revoked_def revoked_everywhere_def)
  note still = hoare_revoke_completed [OF d this, of sy b1 b2 later user2]
  have "only_script v2 v3"
    using hoareD_Inr [OF still refl, of v3] hoareD_Inl [OF still refl, of v3] again by (cases r) blast+
  then have "w_tokens v3 = w_tokens v @ [t]" by (auto simp: only_script_def v2(1))
  moreover have "find_token (dt_tokenHash t) (w_tokens v @ [t]) = Some t"
    unfolding find_token_def using v2(4) by (intro find_snoc) (auto simp: find_None_iff image_iff)
  ultimately show ?thesis using token(3) by (auto simp: assertTokenUsable_def validatable_def throwIf_def split: option.splits)
qed

subsection \<open>Witnesses\<close>

definition revoke_sys :: "(MockState, unit) Sys" where
  "revoke_sys =
     \<lparr>sy_env = Map.empty, sy_sha256 = (\<lambda>_. ''h''), sy_newURL = (\<lambda>_. None), sy_gateway = mock_adapter,
      sy_fetch = (\<lambda>_ _ _ d. (d, Inl ''offline'')), sy_targets = (\<lambda>_. None), sy_seatLimit = num 0\<rparr>"

definition sample_device :: Device where
  "sample_device =
     \<lparr>dv_id = ''d'', dv_orgId = ''c'', dv_name = ''laptop'', dv_os = [], dv_haraVersion = [], dv_enrolledAt = 1, dv_lastSeenAt = 1,
      dv_revocationRequestedAt = None, dv_revocationCompletedAt = None, dv_deskProvisionedAt = None, dv_deskCleanupPendingAt = None,
      dv_deskOwner = None, dv_deskOrigin = None, dv_enrollCodeId = None, dv_personId = None\<rparr>"

definition sample_token :: "string \<Rightarrow> DeviceToken" where
  "sample_token h =
     \<lparr>dt_id = h, dt_deviceId = ''d'', dt_tokenHash = h, dt_gatewayKeyId = ''d'', dt_model = [], dt_reasoningEffort = [],
      dt_createdAt = 1, dt_expiresAt = None, dt_revokedAt = None, dt_budgetLimits = JArr [], dt_rpmLimit = None, dt_tpmLimit = None\<rparr>"

definition revoke_world :: "DeviceToken list \<Rightarrow> (MockState, unit) World" where
  "revoke_world ts =
     \<lparr>w_orgs = [], w_persons = [], w_codes = [], w_devices = [sample_device], w_tokens = ts, w_bindings = [], w_secrets = Map.empty,
      w_audits = [], w_script = [], w_gateway = \<lparr>mk_spend = [''d'' \<mapsto> num 0], mk_models = Map.empty, mk_random = 0\<rparr>, w_desk = ()\<rparr>"

abbreviation operator :: AuthedUser where
  "operator \<equiv> \<lparr>us_id = ''k'', us_email = [], us_role = ADMIN, us_orgId = None, us_viaSharedKey = True\<rparr>"

lemma sample_contracts: "gateway_adapter (sy_gateway revoke_sys) mock_live" "desk_documented revoke_sys (\<lambda>_. {})"
  "\<exists>g'. ga_revokeKey (sy_gateway revoke_sys) k g = (g', Inr ())"
  using mock.gateway_adapter_axioms
  by (simp_all add: revoke_sys_def desk_documented_def mock_adapter_def mock_revokeKey_def)

lemma sample_revocable:
  "distinct (map dv_id (w_devices (revoke_world ts)))" "revocations_closed (revoke_world ts)" "w_script (revoke_world ts) = []"
  "find_device ''d'' (w_devices (revoke_world ts)) = Some sample_device" "dv_revocationCompletedAt sample_device = None"
  "assertAdminOrgAccess operator (dv_orgId sample_device) = Inr ()" "desk_revocable revoke_sys sample_device (revoke_world ts)"
  by (simp_all add: revoke_world_def sample_device_def revocations_closed_def find_device_def assertAdminOrgAccess_def
      desk_revocable_def holds_desk_def)



definition sample_race :: "(MockState, unit) World \<times> RevokeResult res \<times> (MockState, unit) World \<times> unit res" where
  "sample_race =
     (case revokeDevice revoke_sys ''a1'' ''a2'' 9 ''d'' operator (revoke_world []) of
        (v, r) \<Rightarrow> case create_token (sample_token ''t'') v of (v2, r2) \<Rightarrow> (v, r, v2, r2))"

lemma sample_race_runs: "case sample_race of (v, Inr res, v2, Inr u) \<Rightarrow> True | _ \<Rightarrow> False"
  by code_simp

theorem late_token_survives_revocation_witness:
  "find_token ''t'' (w_tokens (fst (revokeDevice revoke_sys ''b1'' ''b2'' 12 ''d'' operator (fst (snd (snd sample_race)))))) =
     Some (sample_token ''t'')"
proof -
  obtain v r v2 r2 where race: "sample_race = (v, r, v2, r2)" by (cases sample_race) auto
  from sample_race_runs [unfolded race] obtain res u where "r = Inr res" "r2 = Inr u" by (cases r; cases r2) auto
  with race have run: "revokeDevice revoke_sys ''a1'' ''a2'' 9 ''d'' operator (revoke_world []) = (v, Inr res)"
      "create_token (sample_token ''t'') v = (v2, Inr ())"
    by (auto simp: sample_race_def split: prod.splits)
  obtain v3 r3 where "revokeDevice revoke_sys ''b1'' ''b2'' 12 ''d'' operator v2 = (v3, r3)" by fastforce
  with late_token_survives_revocation [OF sample_contracts(1,2) sample_revocable(1,2,4,5) run _ _ this]
  show ?thesis by (simp add: race sample_token_def)
qed

end
