(* ===== verification/Tenancy.thy ===== *)
theory Tenancy
  imports Admin
begin

section \<open>What administration guarantees\<close>

text \<open>
  Organisations form a forest and a tenant administrator adds to the own tree only; a code that was created
  can be redeemed until it expires; a device is bound to a person once.
\<close>

subsection \<open>The forest of organisations\<close>

definition org_forest :: "Organization list \<Rightarrow> bool" where
  "org_forest db \<longleftrightarrow> wf_orgs db \<and> (\<forall>g \<in> set db. \<forall>p. org_parentId g = Some p \<longrightarrow> p \<in> org_id ` set db) \<and> acyclic (parent_rel db)"

lemma parent_rel_snoc:
  "parent_rel (db @ [g]) = parent_rel db \<union> {(org_id g, p) | p. org_parentId g = Some p}"
  by (auto simp: parent_rel_def)

lemma org_forest_snoc:
  assumes "org_forest db" "org_id g \<notin> org_id ` set db" "org_id g \<noteq> []" "\<And>p. org_parentId g = Some p \<Longrightarrow> p \<in> org_id ` set db"
  shows "org_forest (db @ [g])"
proof -
  have range: "Field (parent_rel db) \<subseteq> org_id ` set db" using assms(1) by (auto simp: org_forest_def parent_rel_def Field_def)
  have "acyclic (parent_rel (db @ [g]))"
  proof (cases "org_parentId g")
    case (Some p)
    then have "p \<noteq> org_id g" using assms(2,4) by metis
    moreover have "(p, org_id g) \<notin> (parent_rel db)\<^sup>*"
    proof
      assume "(p, org_id g) \<in> (parent_rel db)\<^sup>*"
      with \<open>p \<noteq> org_id g\<close> have "org_id g \<in> Field (parent_rel db)" by (metis FieldI2 rtranclE)
      then show False using range assms(2) by blast
    qed
    ultimately show ?thesis using assms(1) Some by (simp add: parent_rel_snoc org_forest_def acyclic_insert)
  qed (use assms(1) in \<open>simp add: parent_rel_snoc org_forest_def\<close>)
  then show ?thesis using assms by (auto simp: org_forest_def wf_orgs_def)
qed

lemma createOrg_tx_Inr:
  assumes "createOrg_tx newId name type parentId w = Inr ((g, orgId, payload), w')"
  shows "g = \<lparr>org_id = newId, org_name = name, org_type = type, org_parentId = parentId\<rparr> \<and>
    w' = w\<lparr>w_orgs := w_orgs w @ [g]\<rparr> \<and> (\<forall>p. parentId = Some p \<longrightarrow> p \<in> org_id ` set (w_orgs w))"
proof (cases parentId)
  case None
  then show ?thesis using assms by (simp add: createOrg_tx_def Let_def throwIf_eq_Inr nullish_def) blast
next
  case (Some p)
  then show ?thesis using assms by (simp add: createOrg_tx_def Let_def throwIf_eq_Inr nullish_def find_org_None) blast
qed

lemma hoare_const: "(C \<Longrightarrow> hoare P m Q E) \<Longrightarrow> hoare (\<lambda>v. P v \<and> C) m Q E"
  by (cases C) (simp_all add: hoare_def)

lemma hoare_auditTx_only:
  assumes "\<And>s x orgId payload w' rows. mutation (w\<lparr>w_script := s\<rparr>) = Inr ((x, orgId, payload), w') \<Longrightarrow> Q x (w'\<lparr>w_audits := rows\<rparr>)"
    "\<And>e v. only_script w v \<Longrightarrow> E e v"
  shows "hoare (only_script w) (auditTx H newId now act aty aid mutation) Q E"
  by (rule hoare_auditTx) (use assms in \<open>auto simp: only_script_def\<close>)

text \<open>An administrator with access to a unit manages an organisation above it.\<close>

lemma hoare_assertOrgTreeAccess:
  fixes w :: "('g, 'd, 'x) World_scheme"
  assumes "wf_orgs (w_orgs w)"
  shows "hoare (only_script w) (assertOrgTreeAccess actor p)
     (\<lambda>_ v. only_script w v \<and> (isGlobalOperator actor \<or> (\<exists>a. us_orgId actor = Some a \<and> a \<in> org_id ` set (w_orgs w) \<and> (p, a) \<in> (parent_rel (w_orgs w))\<^sup>*)))
     (\<lambda>_. only_script w)"
proof (cases "isGlobalOperator actor")
  case False
  have above: "\<exists>a. us_orgId actor = Some a \<and> a \<in> org_id ` set (w_orgs w) \<and> (p, a) \<in> (parent_rel (w_orgs w))\<^sup>*"
    if found: "ancestors (w_orgs w) p = Inr chain" "\<exists>r \<in> set chain. Some (org_id r) = us_orgId actor" for chain
  proof -
    have "upward (w_orgs w) (Some p) chain"
      using ancestors_loop_upward [of "w_orgs w" p "{}" "[]" "Some p" chain] found(1) by (simp add: ancestors_def)
    note up = upward_set [OF assms this]
    obtain r where "r \<in> set chain" "us_orgId actor = Some (org_id r)" using found(2) by auto
    moreover from this(1) have "org_id r \<in> org_id ` set chain" by (rule imageI)
    ultimately show ?thesis unfolding up by blast
  qed
  have walk: "hoare (only_script w) (ancestorsA p) (\<lambda>chain v. only_script w v \<and> ancestors (w_orgs w) p = Inr chain) (\<lambda>_. only_script w)"
    unfolding ancestorsA_def
    by (rule hoare_bindA [OF hoare_read_only [of "\<lambda>w. ancestors (w_orgs w) p" w]]) (auto intro: hoare_liftR)
  show ?thesis
    unfolding assertOrgTreeAccess_def using False above
    by (simp, intro hoare_thenA [where R = "only_script w"] hoare_bindA [OF walk] hoare_throwUnless) auto
qed (simp add: assertOrgTreeAccess_def hoare_retA)

text \<open>
  Property C20. Creating organisations keeps them a forest of well-formed rows: ids are unique and not empty, every parent
  exists and no organisation is above itself. Whoever is not a global operator creates units only below the
  organisation the account belongs to, and nothing but the new row and its audit entry changes.
\<close>

theorem organisations_stay_a_forest:
  assumes forest: "org_forest (w_orgs w)" and new: "newId \<noteq> []" "newId \<notin> org_id ` set (w_orgs w)"
    and run: "createOrg sy newId auId now name actor type parentId w = (w', Inr g)"
  shows "org_forest (w_orgs w') \<and> w_orgs w' = w_orgs w @ [g] \<and> org_id g = newId \<and>
    w_devices w' = w_devices w \<and> w_tokens w' = w_tokens w \<and> w_codes w' = w_codes w \<and>
    (isGlobalOperator actor \<or> (\<exists>a. us_orgId actor = Some a \<and> a \<in> org_id ` set (w_orgs w) \<and> (newId, a) \<in> (parent_rel (w_orgs w'))\<^sup>+))"
proof -
  let ?above = "\<lambda>p. \<exists>a. us_orgId actor = Some a \<and> a \<in> org_id ` set (w_orgs w) \<and> (p, a) \<in> (parent_rel (w_orgs w))\<^sup>*"
  let ?ok = "isGlobalOperator actor \<or> (\<exists>p. parentId = Some p \<and> ?above p)"
  let ?Q = "\<lambda>g v. ?ok \<and> w_orgs v = w_orgs w @ [g] \<and> org_id g = newId \<and> org_parentId g = parentId \<and>
     (\<forall>p. parentId = Some p \<longrightarrow> p \<in> org_id ` set (w_orgs w)) \<and>
     w_devices v = w_devices w \<and> w_tokens v = w_tokens w \<and> w_codes v = w_codes w"
  let ?E = "\<lambda>(_ :: http_error) (_ :: ('a, 'b, 'c) World_scheme). True"
  have wf: "wf_orgs (w_orgs w)" using forest by (simp add: org_forest_def)
  have access: "hoare (only_script w) (whenA (nullish parentId [] \<noteq> []) (assertOrgTreeAccess actor (nullish parentId [])))
      (\<lambda>_ v. only_script w v \<and> ?ok) ?E" if guard: "nullish parentId [] \<noteq> [] \<or> isGlobalOperator actor"
  proof (rule hoare_whenA)
    assume "nullish parentId [] \<noteq> []"
    then obtain p where p: "parentId = Some p" by (cases parentId) (auto simp: nullish_def)
    show "hoare (only_script w) (assertOrgTreeAccess actor (nullish parentId [])) (\<lambda>_ v. only_script w v \<and> ?ok) ?E"
      by (rule hoare_weaken [OF hoare_assertOrgTreeAccess [OF wf]]) (simp_all add: p nullish_def)
  qed (use guard in simp)
  have create: "hoare (only_script w) (auditTx H auId now act aty aid (createOrg_tx newId (trim name) type parentId)) ?Q ?E"
    if ?ok for H act aty aid
  proof (rule hoare_auditTx_only)
    fix s x orgId payload w' rows
    assume "createOrg_tx newId (trim name) type parentId (w\<lparr>w_script := s\<rparr>) = Inr ((x, orgId, payload), w')"
    from createOrg_tx_Inr [OF this] that show "?Q x (w'\<lparr>w_audits := rows\<rparr>)" by simp
  qed simp
  have "hoare (only_script w) (createOrg sy newId auId now name actor type parentId) ?Q ?E"
    unfolding createOrg_def Let_def
    apply (rule hoare_thenA [where R = "only_script w"], rule hoare_throwUnless, assumption, simp)
    apply (rule hoare_thenA [where R = "\<lambda>v. only_script w v \<and> (nullish parentId [] \<noteq> [] \<or> isGlobalOperator actor)"], rule hoare_throwUnless, blast, simp)
    by (rule hoare_const, rule hoare_thenA [OF access], assumption, rule hoare_const, rule create)
  note Q = hoareD_Inr [OF this only_script_refl run]
  have "org_forest (w_orgs w @ [g])" using Q new by (intro org_forest_snoc [OF forest]) auto
  moreover have "(newId, a) \<in> (parent_rel (w_orgs w @ [g]))\<^sup>+" if "parentId = Some p" "(p, a) \<in> (parent_rel (w_orgs w))\<^sup>*" for p a
  proof -
    have "(newId, p) \<in> parent_rel (w_orgs w @ [g])" "(p, a) \<in> (parent_rel (w_orgs w @ [g]))\<^sup>*"
      using Q that by (auto simp: parent_rel_snoc intro: rtrancl_mono [THEN subsetD, rotated])
    then show ?thesis by (rule rtrancl_into_trancl2)
  qed
  ultimately show ?thesis using Q by auto
qed

subsection \<open>Codes that were created can be redeemed\<close>

text \<open>Resolving a resolved model changes nothing, whatever the gateway.\<close>

lemma resolved_again:
  assumes "resolveEnrollmentModel req env = Inr m"
  shows "resolveEnrollmentModel (Some m) env = Inr m"
proof (cases "is_litellm env")
  case True
  obtain ms where "allowedManagedModels env = Inr ms" "m \<in> set ms" "canonicalManagedModelId m = m"
    using resolve_litellm [OF True assms] .
  then show ?thesis using True resolve_allowed [of env ms m] by simp
qed (use assms in \<open>auto simp: resolveEnrollmentModel_def Let_def nullish_def\<close>)

lemma code_policy_Inr:
  assumes "code_policy env model effort options = Inr (m, re, p)"
  shows "resolveEnrollmentModel (Some m) env = Inr m" "parseStoredAccessKeyPolicy (storePolicy p) d = Inr p"
proof -
  have "resolveEnrollmentModel (Some model) env = Inr m" "normalizeAccessKeyPolicy options (deviceTokenTtlMinutes env) = Inr p"
    using assms by (auto simp: code_policy_def bindR_eq_Inr split: sum.splits)
  then show "resolveEnrollmentModel (Some m) env = Inr m" "parseStoredAccessKeyPolicy (storePolicy p) d = Inr p"
    using resolved_again normalizeAccessKeyPolicy_ok by (blast intro: parse_store_fix)+
qed

lemma auditTx_Inr:
  assumes "auditTx H newId now act aty aid mutation w = (w', Inr x)" "w_script w = []"
  obtains orgId payload w1 rows where "mutation w = Inr ((x, orgId, payload), w1)" "w' = w1\<lparr>w_audits := rows\<rparr>"
proof (cases "mutation w")
  case (Inr y)
  obtain x1 orgId payload w1 where y: "y = ((x1, orgId, payload), w1)" by (metis prod_cases3 surj_pair)
  with Inr assms obtain rows where "append_row H newId now orgId act aty aid payload (w_audits w1) = Inr rows"
    by (cases "append_row H newId now orgId act aty aid payload (w_audits w1)")
      (auto simp: auditTx_def txS_def stmt_def bindA_def liftR_def)
  with Inr y assms that show ?thesis by (auto simp: auditTx_def txS_def stmt_def bindA_def liftR_def)
qed (use assms in \<open>auto simp: auditTx_def txS_def stmt_def bindA_def liftR_def\<close>)

text \<open>
  What an administrator issues, the enrollment accepts: a code created by \<^verbatim>\<open>createEnrollCode\<close> for a person of an
  existing organisation passes every check of \<^verbatim>\<open>enroll\<close> at any time up to its expiry, as long as a seat is free, and
  the enrollment then works with the same organisation, person, model, catalog and policy that the administrator
  was shown; the policy survives its way through the columns of the table.
\<close>

theorem created_code_passes_enrollment_checks:
  assumes run: "createEnrollCode sy newId newCode auId now orgId model baseUrl ttlMinutes personId actor options effort w = (w', Inr res)"
    and w: "w_script w = []" "find_org (w_orgs w) orgId = Some org1"
    and time: "later \<le> now + ttlMinutes * 60000"
    and seat: "sy_seatLimit sy = num 0 \<or> num_lt (num (int (count_where (\<lambda>d. dv_orgId d = orgId) (w_devices w)))) (sy_seatLimit sy)"
  shows "\<exists>ck. enroll_checks sy newCode later w' = (w', Inr ck) \<and> ec_id (ck_code ck) = newId \<and> ck_org ck = org1 \<and>
    pe_id (ck_person ck) = personId \<and> pe_orgId (ck_person ck) = orgId \<and>
    ck_model ck = cr_model res \<and> ck_models ck = cr_models res \<and> ck_policy ck = cr_accessPolicy res \<and> cr_code res = newCode"
proof -
  obtain m re p models where c: "code_policy (sy_env sy) model effort options = Inr (m, re, p)"
      "enrollmentManagedModels m (sy_env sy) = Inr models"
      and tx: "auditTx (sy_sha256 sy) auId now ''enroll_code.create'' (admin_actor actor) (us_id actor)
        (createEnrollCode_tx newId newCode now orgId m re p models baseUrl ttlMinutes personId) w = (w', Inr res)"
    using run by (auto simp: createEnrollCode_def run_Inr)
  obtain oid payload v rows where
      "createEnrollCode_tx newId newCode now orgId m re p models baseUrl ttlMinutes personId w = Inr ((res, oid, payload), v)"
      "w' = v\<lparr>w_audits := rows\<rparr>"
    using auditTx_Inr [OF tx w(1)] .
  moreover from this obtain pe where pe: "find_person personId (w_persons w) = Some pe"
    by (cases "find_person personId (w_persons w)") (auto simp: createEnrollCode_tx_def Let_def throwIf_eq_Inr)
  ultimately have new: "personId \<noteq> []" "pe_orgId pe = orgId" "newCode \<notin> ec_code ` set (w_codes w)"
    and res: "cr_model res = m" "cr_models res = models" "cr_accessPolicy res = p" "cr_code res = newCode"
    and w': "w' = w\<lparr>w_codes := w_codes w @ [\<lparr>ec_id = newId, ec_orgId = orgId, ec_code = newCode, ec_model = m, ec_reasoningEffort = re,
       ec_baseUrl = baseUrl, ec_expiresAt = now + ttlMinutes * 60000, ec_usedAt = None, ec_policy = storePolicy p, ec_personId = Some personId\<rparr>],
       w_audits := rows\<rparr>" (is "_ = w\<lparr>w_codes := w_codes w @ [?ec], w_audits := rows\<rparr>")
    by (auto simp: createEnrollCode_tx_def Let_def throwIf_eq_Inr)
  have "find_code newCode (w_codes w @ [?ec]) = Some ?ec"
    unfolding find_code_def using new(3) by (intro find_snoc) (auto simp: find_None_iff)
  moreover have "seatCheck (sy_seatLimit sy) orgId w' = (w', Inr ())"
    using seat w(1) unfolding seatCheck_def
    by (cases "sy_seatLimit sy") (auto simp: w' bindA_def readS_def stmt_def throwUnless_def retA_def num_le_def)
  ultimately have "enroll_checks sy newCode later w' = (w', Inr \<lparr>ck_code = ?ec, ck_org = org1, ck_person = pe, ck_model = m, ck_models = models, ck_policy = p\<rparr>)"
    using w time new pe code_policy_Inr [OF c(1)] c(2)
    by (simp add: enroll_checks_def check_code_def check_policy_def bindA_def thenA_def readS_def stmt_def throwUnless_def retA_def liftR_def nullish_def w')
  then show ?thesis using res new(2) find_person_Some [OF pe] by simp
qed

subsection \<open>Witnesses\<close>

definition tenant_sys :: "(MockState, unit) Sys" where
  "tenant_sys =
     \<lparr>sy_env = Map.empty, sy_sha256 = (\<lambda>_. ''h''), sy_newURL = (\<lambda>_. None), sy_gateway = mock_adapter,
      sy_fetch = (\<lambda>_ _ _ d. (d, Inl ''offline'')), sy_targets = (\<lambda>_. None), sy_seatLimit = num 0\<rparr>"

definition tenant_world :: "(MockState, unit) World" where
  "tenant_world =
     \<lparr>w_orgs = [\<lparr>org_id = ''c'', org_name = ''Acme'', org_type = COMPANY, org_parentId = None\<rparr>],
      w_persons = [\<lparr>pe_id = ''p'', pe_orgId = ''c'', pe_name = ''P'', pe_email = ''p@c.example''\<rparr>],
      w_codes = [], w_devices = [], w_tokens = [], w_bindings = [], w_secrets = Map.empty, w_audits = [],
      w_script = [], w_gateway = \<lparr>mk_spend = Map.empty, mk_models = Map.empty, mk_random = 0\<rparr>, w_desk = ()\<rparr>"

definition tenant_admin :: AuthedUser where
  "tenant_admin = \<lparr>us_id = ''u'', us_email = ''u@c.example'', us_role = ADMIN, us_orgId = Some ''c'', us_viaSharedKey = False\<rparr>"

definition sample_createOrg :: "(MockState, unit) World \<times> Organization res" where
  "sample_createOrg = createOrg tenant_sys ''d'' ''a'' 5 '' R&D '' tenant_admin DEPARTMENT (Some ''c'') tenant_world"

definition sample_createCode :: "(MockState, unit) World \<times> EnrollCodeResult res" where
  "sample_createCode =
     createEnrollCode tenant_sys ''e'' ''hara-1'' ''a'' 5 ''c'' ''m'' None 10 ''p'' tenant_admin
       \<lparr>ki_tokenTtlMinutes = None, ki_tokenNeverExpires = Some True, ki_budgetLimits = None, ki_rpmLimit = None, ki_tpmLimit = None\<rparr>
       None tenant_world"

lemma sample_created: "case snd sample_createOrg of Inl e \<Rightarrow> False | Inr g \<Rightarrow> True" "case snd sample_createCode of Inl e \<Rightarrow> False | Inr r \<Rightarrow> True"
  by code_simp+

lemma ran: "case snd p of Inl e \<Rightarrow> False | Inr x \<Rightarrow> True \<Longrightarrow> \<exists>w x. p = (w, Inr x)"
  by (cases p) (auto split: sum.splits)

theorem organisations_stay_a_forest_witness:
  "\<exists>g. w_orgs (fst sample_createOrg) = w_orgs tenant_world @ [g] \<and> org_id g = ''d'' \<and> org_forest (w_orgs (fst sample_createOrg))"
proof -
  obtain w' g where run: "sample_createOrg = (w', Inr g)"
    using ran [OF sample_created(1)] by blast
  have "org_forest (w_orgs tenant_world)" by (simp add: tenant_world_def org_forest_def wf_orgs_def parent_rel_def acyclic_def)
  moreover have "''d'' \<notin> org_id ` set (w_orgs tenant_world)" by (simp add: tenant_world_def)
  ultimately have "w_orgs w' = w_orgs tenant_world @ [g] \<and> org_id g = ''d'' \<and> org_forest (w_orgs w')"
    using organisations_stay_a_forest [OF _ _ _ run [unfolded sample_createOrg_def]] by auto
  then show ?thesis unfolding run fst_conv by blast
qed

theorem created_code_passes_enrollment_checks_witness:
  "\<exists>ck. enroll_checks tenant_sys ''hara-1'' 600005 (fst sample_createCode) = (fst sample_createCode, Inr ck) \<and> ec_id (ck_code ck) = ''e''"
proof -
  obtain w' res where run: "sample_createCode = (w', Inr res)"
    using ran [OF sample_created(2)] by blast
  have "w_script tenant_world = []" "find_org (w_orgs tenant_world) ''c'' = Some (hd (w_orgs tenant_world))" "sy_seatLimit tenant_sys = num 0"
    by (simp_all add: tenant_world_def find_org_def tenant_sys_def)
  with created_code_passes_enrollment_checks [OF run [unfolded sample_createCode_def], of _ 600005]
  have "\<exists>ck. enroll_checks tenant_sys ''hara-1'' 600005 w' = (w', Inr ck) \<and> ec_id (ck_code ck) = ''e''" by auto
  then show ?thesis unfolding run by simp
qed

end
