(* ===== verification/Fleet.thy ===== *)
theory Fleet
  imports Admin
begin

section \<open>The reports of the administration service\<close>

text \<open>
  \<^verbatim>\<open>fleet\<close> and \<^verbatim>\<open>usage\<close> of \<^verbatim>\<open>src/src/admin/admin.service.ts\<close>: read-only views that join the rows of an organisation with
  what the gateway reports. Sums are taken in double arithmetic and in the order of the code; a JavaScript
  \<^verbatim>\<open>Map\<close> is a list of entries in the order of their first insertion. The lemmas show that no request of the
  ledger is lost or counted twice.
\<close>

subsection \<open>Maps in insertion order\<close>

fun assoc_put :: "'k \<Rightarrow> 'v \<Rightarrow> ('k \<times> 'v) list \<Rightarrow> ('k \<times> 'v) list" where
  "assoc_put k v [] = [(k, v)]"
| "assoc_put k v ((k', v') # kvs) = (if k' = k then (k', v) # kvs else (k', v') # assoc_put k v kvs)"

text \<open>\<^verbatim>\<open>Array.prototype.sort\<close>, which is stable; \<^verbatim>\<open>before x y\<close> when the comparator puts \<^verbatim>\<open>x\<close> in front of \<^verbatim>\<open>y\<close>.\<close>

fun insert_by :: "('a \<Rightarrow> 'a \<Rightarrow> bool) \<Rightarrow> 'a \<Rightarrow> 'a list \<Rightarrow> 'a list" where
  "insert_by before x [] = [x]"
| "insert_by before x (y # ys) = (if before y x then y # insert_by before x ys else x # y # ys)"

definition sort_by :: "('a \<Rightarrow> 'a \<Rightarrow> bool) \<Rightarrow> 'a list \<Rightarrow> 'a list" where
  "sort_by before xs = foldr (insert_by before) xs []"

subsection \<open>Fleet\<close>

record FleetKey =
  fk_key_id :: string
  fk_model :: string
  fk_reasoning_effort :: "string option"
  fk_status :: string
  fk_created_at :: time
  fk_expires_at :: "time option"
  fk_revoked_at :: "time option"
  fk_spend :: "number option"
  fk_spend_available :: bool
  fk_budget_limits :: jsval
  fk_rpm_limit :: "number option"
  fk_tpm_limit :: "number option"

record FleetDevice =
  fd_device_id :: string
  fd_name :: string
  fd_person_id :: "string option"
  fd_person_name :: "string option"
  fd_person_email :: "string option"
  fd_os :: string
  fd_hara_version :: string
  fd_last_seen_at :: time
  fd_online :: bool
  fd_revocation_state :: string
  fd_revocation_requested_at :: "time option"
  fd_revocation_completed_at :: "time option"
  fd_token_active :: bool
  fd_model :: string
  fd_model_policy_status :: string
  fd_reasoning_effort :: "string option"
  fd_available_models :: "string list"
  fd_spend :: "number option"
  fd_spend_available :: bool
  fd_expires_at :: "time option"
  fd_budget_limits :: jsval
  fd_rpm_limit :: "number option"
  fd_tpm_limit :: "number option"
  fd_keys :: "FleetKey list"

definition ONLINE_WINDOW_MS :: int where
  "ONLINE_WINDOW_MS = 5 * 60 * 1000"

definition tokenIsActive :: "time \<Rightarrow> Device \<Rightarrow> DeviceToken \<Rightarrow> bool" where
  "tokenIsActive now device token \<longleftrightarrow>
     dv_revocationRequestedAt device = None \<and> dt_revokedAt token = None \<and>
     (case dt_expiresAt token of None \<Rightarrow> True | Some e \<Rightarrow> now < e)"

text \<open>The tokens of a device, newest first, and the devices of an organisation, last seen first.\<close>

definition device_tokens :: "('g, 'd, 'x) World_scheme \<Rightarrow> Device \<Rightarrow> DeviceToken list" where
  "device_tokens w d = sort_key (\<lambda>t. - dt_createdAt t) (filter (\<lambda>t. dt_deviceId t = dv_id d) (w_tokens w))"

definition org_devices :: "('g, 'd, 'x) World_scheme \<Rightarrow> string \<Rightarrow> Device list" where
  "org_devices w orgId = sort_key (\<lambda>d. - dv_lastSeenAt d) (filter (\<lambda>d. dv_orgId d = orgId) (w_devices w))"

definition device_person :: "('g, 'd, 'x) World_scheme \<Rightarrow> Device \<Rightarrow> Person option" where
  "device_person w d = (case dv_personId d of None \<Rightarrow> None | Some i \<Rightarrow> find_person i (w_persons w))"

definition spend_of :: "SpendRecord list \<Rightarrow> string \<Rightarrow> number option" where
  "spend_of recs k = (case map_of (rev recs) k of Some s \<Rightarrow> s | None \<Rightarrow> None)"

definition key_status :: "time \<Rightarrow> Device \<Rightarrow> DeviceToken \<Rightarrow> string" where
  "key_status now d token =
     (if dv_revocationRequestedAt d \<noteq> None \<and> dv_revocationCompletedAt d = None then ''revocation_pending''
      else if dt_revokedAt token \<noteq> None then ''revoked''
      else case dt_expiresAt token of Some e \<Rightarrow> if e \<le> now then ''expired'' else ''active'' | None \<Rightarrow> ''active'')"

definition fleet_key :: "time \<Rightarrow> SpendRecord list \<Rightarrow> Device \<Rightarrow> DeviceToken \<Rightarrow> FleetKey" where
  "fleet_key now spend d token =
     \<lparr>fk_key_id = dt_gatewayKeyId token, fk_model = dt_model token, fk_reasoning_effort = truthyStr (Some (dt_reasoningEffort token)),
      fk_status = key_status now d token, fk_created_at = dt_createdAt token, fk_expires_at = dt_expiresAt token,
      fk_revoked_at = dt_revokedAt token, fk_spend = spend_of spend (dt_gatewayKeyId token),
      fk_spend_available = (spend_of spend (dt_gatewayKeyId token) \<noteq> None), fk_budget_limits = dt_budgetLimits token,
      fk_rpm_limit = dt_rpmLimit token, fk_tpm_limit = dt_tpmLimit token\<rparr>"

definition fleet_device ::
  "env \<Rightarrow> time \<Rightarrow> SpendRecord list \<Rightarrow> Device \<Rightarrow> Person option \<Rightarrow> DeviceToken list \<Rightarrow> FleetDevice res" where
  "fleet_device env now spend d person tokens =
     (let active = find (tokenIsActive now d) tokens;
          current = (case active of Some t \<Rightarrow> Some t | None \<Rightarrow> (case tokens of [] \<Rightarrow> None | t # _ \<Rightarrow> Some t));
          keySpend = map (\<lambda>t. spend_of spend (dt_gatewayKeyId t)) tokens;
          spendAvailable = (keySpend \<noteq> [] \<and> list_all (\<lambda>v. v \<noteq> None) keySpend)
      in bindR (case active of Some t \<Rightarrow> managedModelsForRecordedToken (dt_model t) env | None \<Rightarrow> Inr []) (\<lambda>availableModels.
         Inr \<lparr>fd_device_id = dv_id d, fd_name = dv_name d, fd_person_id = map_option pe_id person,
              fd_person_name = (case person of None \<Rightarrow> None | Some p \<Rightarrow> truthyStr (Some (orStr (pe_name p) (pe_email p)))),
              fd_person_email = map_option pe_email person, fd_os = dv_os d, fd_hara_version = dv_haraVersion d,
              fd_last_seen_at = dv_lastSeenAt d, fd_online = (now - dv_lastSeenAt d < ONLINE_WINDOW_MS),
              fd_revocation_state = (if dv_revocationCompletedAt d \<noteq> None then ''completed''
                 else if dv_revocationRequestedAt d \<noteq> None then ''pending'' else ''active''),
              fd_revocation_requested_at = dv_revocationRequestedAt d, fd_revocation_completed_at = dv_revocationCompletedAt d,
              fd_token_active = (active \<noteq> None), fd_model = (case current of None \<Rightarrow> [] | Some t \<Rightarrow> dt_model t),
              fd_model_policy_status = (if active \<noteq> None then (if availableModels \<noteq> [] then ''active'' else ''retired'') else ''historical''),
              fd_reasoning_effort = (case current of None \<Rightarrow> None | Some t \<Rightarrow> truthyStr (Some (dt_reasoningEffort t))),
              fd_available_models = availableModels,
              fd_spend = (if spendAvailable then Some (foldl (\<lambda>sum v. num_add sum (nullish v (num 0))) (num 0) keySpend) else None),
              fd_spend_available = spendAvailable,
              fd_expires_at = (case current of None \<Rightarrow> None | Some t \<Rightarrow> dt_expiresAt t),
              fd_budget_limits = (case current of None \<Rightarrow> JArr [] | Some t \<Rightarrow> dt_budgetLimits t),
              fd_rpm_limit = (case current of None \<Rightarrow> None | Some t \<Rightarrow> dt_rpmLimit t),
              fd_tpm_limit = (case current of None \<Rightarrow> None | Some t \<Rightarrow> dt_tpmLimit t),
              fd_keys = map (fleet_key now spend d) tokens\<rparr>))"

definition fleet :: "('g, 'd) Sys \<Rightarrow> time \<Rightarrow> string \<Rightarrow> (('g, 'd, 'x) World_scheme, FleetDevice list) act" where
  "fleet sy now orgId =
     bindA (readS (\<lambda>w. map (\<lambda>d. (d, device_person w d, device_tokens w d)) (org_devices w orgId))) (\<lambda>devices.
     bindA (getsA (\<lambda>w. ga_listSpend (sy_gateway sy)
              (concat (map (\<lambda>(d, p, ts). map dt_gatewayKeyId ts) devices)) (w_gateway w))) (\<lambda>spend.
     liftR (mapR (\<lambda>(d, p, ts). fleet_device (sy_env sy) now spend d p ts) devices)))"

subsection \<open>Usage\<close>

record KeyMeta =
  km_deviceId :: string
  km_deviceName :: string
  km_principal :: string
  km_model :: string

record UsagePoint =
  up_at :: time
  up_spend :: number
  up_totalTokens :: number
  up_requests :: number

record UsageLine =
  ul_meta :: KeyMeta
  ul_spend :: number
  ul_totalTokens :: number
  ul_requests :: number
  ul_lastRequestAt :: time

text \<open>The variables the loop over the ledger updates.\<close>

record UsageSums =
  us_series :: "UsagePoint list"
  us_breakdown :: "(string \<times> UsageLine) list"
  us_totalSpend :: number
  us_totalTokens :: number
  us_requests :: number
  us_latest :: "time option"

definition principal :: "Device \<Rightarrow> Person option \<Rightarrow> string" where
  "principal d person =
     orStr (case person of None \<Rightarrow> [] | Some p \<Rightarrow> orStr (pe_name p) (pe_email p)) (dv_name d)"

definition key_meta :: "(Device \<times> Person option \<times> DeviceToken list) list \<Rightarrow> (string \<times> KeyMeta) list" where
  "key_meta devices =
     foldl (\<lambda>m (d, p, t). assoc_put (dt_gatewayKeyId t)
              \<lparr>km_deviceId = dv_id d, km_deviceName = dv_name d, km_principal = principal d p, km_model = dt_model t\<rparr> m) []
       (concat (map (\<lambda>(d, p, ts). map (\<lambda>t. (d, p, t)) ts) devices))"

definition bucketIndex :: "UsageWindow \<Rightarrow> time \<Rightarrow> int" where
  "bucketIndex window atTime =
     (case round_js (num_div (num (atTime - uw_from window)) (of_int (uw_bucketMs window))) of Fin r \<Rightarrow> \<lfloor>r\<rfloor> | _ \<Rightarrow> - 1)"

definition add_point :: "GatewayUsageBucket \<Rightarrow> UsagePoint \<Rightarrow> UsagePoint" where
  "add_point entry p =
     p\<lparr>up_spend := num_add (up_spend p) (ub_spend entry), up_totalTokens := num_add (up_totalTokens p) (ub_totalTokens entry),
       up_requests := num_add (up_requests p) (ub_requests entry)\<rparr>"

definition add_line :: "GatewayUsageBucket \<Rightarrow> UsageLine \<Rightarrow> UsageLine" where
  "add_line entry l =
     l\<lparr>ul_spend := num_add (ul_spend l) (ub_spend entry), ul_totalTokens := num_add (ul_totalTokens l) (ub_totalTokens entry),
       ul_requests := num_add (ul_requests l) (ub_requests entry), ul_lastRequestAt := max (ul_lastRequestAt l) (ub_lastRequestAt entry)\<rparr>"

definition breakdown_key :: "KeyMeta \<Rightarrow> GatewayUsageBucket \<Rightarrow> string" where
  "breakdown_key meta entry = km_deviceId meta @ [CHR 0x00] @ orStr (ub_model entry) (km_model meta)"

definition fresh_line :: "KeyMeta \<Rightarrow> GatewayUsageBucket \<Rightarrow> UsageLine" where
  "fresh_line meta entry =
     \<lparr>ul_meta = meta\<lparr>km_model := orStr (ub_model entry) (km_model meta)\<rparr>, ul_spend = num 0, ul_totalTokens = num 0,
      ul_requests = num 0, ul_lastRequestAt = ub_lastRequestAt entry\<rparr>"

definition usage_step :: "UsageWindow \<Rightarrow> (string \<times> KeyMeta) list \<Rightarrow> UsageSums \<Rightarrow> GatewayUsageBucket \<Rightarrow> UsageSums" where
  "usage_step window metas s entry =
     (case map_of metas (ub_keyId entry) of
        None \<Rightarrow> s
      | Some meta \<Rightarrow>
          let i = bucketIndex window (ub_bucketAt entry);
              k = breakdown_key meta entry
          in \<lparr>us_series = (if 0 \<le> i \<and> i < int (length (us_series s))
                           then (us_series s)[nat i := add_point entry (us_series s ! nat i)] else us_series s),
              us_breakdown = assoc_put k (add_line entry (nullish (map_of (us_breakdown s) k) (fresh_line meta entry))) (us_breakdown s),
              us_totalSpend = num_add (us_totalSpend s) (ub_spend entry),
              us_totalTokens = num_add (us_totalTokens s) (ub_totalTokens entry),
              us_requests = num_add (us_requests s) (ub_requests entry),
              us_latest = (case us_latest s of
                             None \<Rightarrow> Some (ub_lastRequestAt entry) | Some t \<Rightarrow> Some (max t (ub_lastRequestAt entry)))\<rparr>)"

definition empty_sums :: "UsageWindow \<Rightarrow> UsageSums" where
  "empty_sums window =
     \<lparr>us_series = map (\<lambda>i. \<lparr>up_at = uw_from window + int i * uw_bucketMs window, up_spend = num 0, up_totalTokens = num 0, up_requests = num 0\<rparr>)
        [0..<uw_bucketCount window],
      us_breakdown = [], us_totalSpend = num 0, us_totalTokens = num 0, us_requests = num 0, us_latest = None\<rparr>"

definition line_before :: "UsageLine \<Rightarrow> UsageLine \<Rightarrow> bool" where
  "line_before a b \<longleftrightarrow> num_lt (ul_spend b) (ul_spend a) \<or>
     \<not> num_lt (ul_spend a) (ul_spend b) \<and> num_lt (ul_totalTokens b) (ul_totalTokens a)"

subsubsection \<open>Quotas\<close>

record QuotaLimit =
  ql_window :: string
  ql_maxUsd :: number
  ql_usedUsd :: "number option"
  ql_remainingUsd :: "number option"
  ql_percent :: "number option"

record Quota =
  qu_deviceId :: string
  qu_deviceName :: string
  qu_principal :: string
  qu_model :: string
  qu_availableModels :: "string list"
  qu_expiresAt :: "time option"
  qu_rpmLimit :: "number option"
  qu_tpmLimit :: "number option"
  qu_limits :: "QuotaLimit list"

definition rollingField :: "string \<Rightarrow> GatewayRollingSpend \<Rightarrow> number" where
  "rollingField window r = (if window = ''5h'' then rs_spend5h r else if window = ''week'' then rs_spend7d r else rs_spend30d r)"

definition num_neg :: "number \<Rightarrow> number" where
  "num_neg n = num_mult (num (- 1)) n"

definition num_max0 :: "number \<Rightarrow> number" where
  "num_max0 n = (if n = NaN then NaN else if num_lt (num 0) n then n else num 0)"

definition quota_limit :: "bool \<Rightarrow> GatewayRollingSpend option \<Rightarrow> jsval \<Rightarrow> QuotaLimit list" where
  "quota_limit spendAvailable rolling entry =
     (case prop_of entry ''window'' of
        JStr window \<Rightarrow>
          (case Number_js (prop_of entry ''maxUsd'') of
             Fin m \<Rightarrow>
               if \<not> is_object entry \<or> window \<notin> set ACCESS_BUDGET_WINDOWS \<or> m \<le> 0 then []
               else let usedUsd = (if spendAvailable then Some (case rolling of None \<Rightarrow> num 0 | Some r \<Rightarrow> rollingField window r) else None)
                    in [\<lparr>ql_window = window, ql_maxUsd = Fin m, ql_usedUsd = usedUsd,
                         ql_remainingUsd = map_option (\<lambda>u. num_max0 (num_add (Fin m) (num_neg u))) usedUsd,
                         ql_percent = map_option (\<lambda>u. num_mult (num_div u m) (num 100)) usedUsd\<rparr>]
           | _ \<Rightarrow> [])
      | _ \<Rightarrow> [])"

definition token_quota ::
  "env \<Rightarrow> time \<Rightarrow> bool \<Rightarrow> GatewayRollingSpend list \<Rightarrow> Device \<times> Person option \<times> DeviceToken \<Rightarrow> Quota list res" where
  "token_quota env now spendAvailable rolling dpt =
     (case dpt of (d, p, t) \<Rightarrow>
        let active = (dt_revokedAt t = None \<and> (case dt_expiresAt t of None \<Rightarrow> True | Some e \<Rightarrow> now < e));
            used = map_of (rev (map (\<lambda>r. (rs_keyId r, r)) rolling)) (dt_gatewayKeyId t);
            limits = concat (map (quota_limit spendAvailable used) (case dt_budgetLimits t of JArr es \<Rightarrow> es | _ \<Rightarrow> []))
        in if \<not> active \<or> limits = [] \<and> dt_rpmLimit t = None \<and> dt_tpmLimit t = None then Inr []
           else bindR (managedModelsForRecordedToken (dt_model t) env) (\<lambda>models.
                Inr [\<lparr>qu_deviceId = dv_id d, qu_deviceName = dv_name d, qu_principal = principal d p, qu_model = dt_model t,
                      qu_availableModels = models, qu_expiresAt = dt_expiresAt t, qu_rpmLimit = dt_rpmLimit t,
                      qu_tpmLimit = dt_tpmLimit t, qu_limits = limits\<rparr>]))"

subsubsection \<open>The report\<close>

datatype Accounting =
    PaygAccounting (ac_source: string)
  | NativeAccounting (ac_provider: string) (ac_authoritative: bool) (ac_fetchedAt: time) (ac_validUntil: "time option")

record UsageReport =
  ur_orgId :: string
  ur_range :: UsageRange
  ur_from :: time
  ur_to :: time
  ur_available :: bool
  ur_accounting :: Accounting
  ur_native :: "(bool \<times> (KeyMeta \<times> GatewayNativeAllowanceMeter) list) option"
  ur_totals :: "(number \<times> number \<times> number \<times> time option) option"
  ur_series :: "UsagePoint list"
  ur_breakdown :: "UsageLine list"
  ur_quotas :: "Quota list"

definition usage_report ::
  "env \<Rightarrow> (string list \<Rightarrow> UsageRange \<Rightarrow> time \<Rightarrow> GatewayUsageReport) \<Rightarrow> string \<Rightarrow> UsageRange \<Rightarrow> time \<Rightarrow>
     (Device \<times> Person option \<times> DeviceToken list) list \<Rightarrow> UsageReport res" where
  "usage_report env gatewayUsage orgId range1 now devices =
     (let window = usageWindow range1 now;
          metas = key_meta devices;
          report = gatewayUsage (map fst metas) range1 now;
          available = (case report of PaygLedger _ a _ _ \<Rightarrow> a | _ \<Rightarrow> False);
          buckets = (case report of PaygLedger _ _ bs _ \<Rightarrow> bs | _ \<Rightarrow> []);
          rolling = (case report of PaygLedger _ _ _ rs \<Rightarrow> rs | _ \<Rightarrow> []);
          acc = (if available then foldl (usage_step window metas) (empty_sums window) buckets else empty_sums window)
      in bindR (mapR (token_quota env now available rolling)
                  (concat (map (\<lambda>(d, p, ts). map (\<lambda>t. (d, p, t)) ts) devices))) (\<lambda>quotas.
         Inr \<lparr>ur_orgId = orgId, ur_range = range1, ur_from = uw_from window, ur_to = uw_to window, ur_available = available,
              ur_accounting = (case report of
                  PaygLedger src _ _ _ \<Rightarrow> PaygAccounting src
                | ProviderNative pr _ au fetched valid _ \<Rightarrow> NativeAccounting pr au fetched valid),
              ur_native = (case report of
                  ProviderNative _ av _ _ _ meters \<Rightarrow>
                    Some (av, if av then concat (map (\<lambda>m. case map_of metas (nm_keyId m) of None \<Rightarrow> [] | Some meta \<Rightarrow> [(meta, m)]) meters) else [])
                | _ \<Rightarrow> None),
              ur_totals = (if available then Some (us_totalSpend acc, us_totalTokens acc, us_requests acc, us_latest acc) else None),
              ur_series = (if available then us_series acc else []),
              ur_breakdown = (if available then sort_by line_before (map snd (us_breakdown acc)) else []),
              ur_quotas = concat quotas\<rparr>))"

definition usage ::
  "('g, 'd) Sys \<Rightarrow> ('g \<Rightarrow> string list \<Rightarrow> UsageRange \<Rightarrow> time \<Rightarrow> GatewayUsageReport) \<Rightarrow> string \<Rightarrow> string option \<Rightarrow> time \<Rightarrow>
     (('g, 'd, 'x) World_scheme, UsageReport) act" where
  "usage sy gatewayUsage orgId requestedRange now =
     thenA (throwUnless (orgId \<noteq> []) (BadRequest ''orgId is required''))
    (bindA (liftR (case parseUsageRange requestedRange of Inl e \<Rightarrow> Inl (BadRequest (error_message e)) | Inr r \<Rightarrow> Inr r)) (\<lambda>range1.
     bindA (readS (\<lambda>w. map (\<lambda>d. (d, device_person w d, filter (\<lambda>t. dt_deviceId t = dv_id d) (w_tokens w))) (org_devices w orgId))) (\<lambda>devices.
     bindA (getsA (\<lambda>w. gatewayUsage (w_gateway w))) (\<lambda>report.
     liftR (usage_report (sy_env sy) report orgId range1 now devices)))))"

subsection \<open>No request is lost or counted twice\<close>

text \<open>The requests of a ledger entry, which the gateway counts.\<close>

definition known_requests :: "(string \<times> KeyMeta) list \<Rightarrow> (GatewayUsageBucket \<Rightarrow> nat) \<Rightarrow> GatewayUsageBucket list \<Rightarrow> nat" where
  "known_requests metas cnt es = sum_list (map cnt (filter (\<lambda>e. map_of metas (ub_keyId e) \<noteq> None) es))"

lemma known_requests_le: "known_requests metas cnt es \<le> sum_list (map cnt es)"
  unfolding known_requests_def by (induction es) auto

lemma known_requests_snoc:
  "known_requests metas cnt (es @ [e]) = known_requests metas cnt es + (if map_of metas (ub_keyId e) = None then 0 else cnt e)"
  by (simp add: known_requests_def)

lemma num_add_nat: "a + b < 2 ^ 53 \<Longrightarrow> num_add (num (int a)) (num (int b)) = num (int (a + b))"
  using toNumber_int [of "int a + int b"] by (simp flip: of_nat_add)

text \<open>Lines with whole request counts: \<^verbatim>\<open>lines_total ls n\<close> when they add up to \<^verbatim>\<open>n\<close>.\<close>

definition lines_total :: "UsageLine list \<Rightarrow> nat \<Rightarrow> bool" where
  "lines_total ls n \<longleftrightarrow> (\<exists>ns. map ul_requests ls = map (\<lambda>k. num (int k)) ns \<and> sum_list ns = n)"

lemma lines_total_Nil [simp]: "lines_total [] n \<longleftrightarrow> n = 0"
  by (simp add: lines_total_def)

lemma lines_total_Cons: "lines_total (l # ls) n \<longleftrightarrow> (\<exists>k m. ul_requests l = num (int k) \<and> lines_total ls m \<and> n = k + m)"
proof
  assume "lines_total (l # ls) n"
  then obtain ns where ns: "map ul_requests (l # ls) = map (\<lambda>k. num (int k)) ns" "sum_list ns = n" unfolding lines_total_def by blast
  then obtain k ks where "ns = k # ks" by (cases ns) auto
  with ns show "\<exists>k m. ul_requests l = num (int k) \<and> lines_total ls m \<and> n = k + m" by (auto simp: lines_total_def)
next
  assume "\<exists>k m. ul_requests l = num (int k) \<and> lines_total ls m \<and> n = k + m"
  then obtain k ks where "ul_requests l = num (int k)" "map ul_requests ls = map (\<lambda>k. num (int k)) ks" "n = k + sum_list ks"
    by (auto simp: lines_total_def)
  then show "lines_total (l # ls) n" by (auto simp: lines_total_def intro!: exI [of _ "k # ks"])
qed

lemma lines_total_put:
  assumes "lines_total (map snd kvs) n" "ub_requests e = num (int c)" "n + c < 2 ^ 53" "ul_requests fresh = num 0"
  shows "lines_total (map snd (assoc_put k (add_line e (nullish (map_of kvs k) fresh)) kvs)) (n + c)"
  using assms(1,3)
proof (induction kvs arbitrary: n)
  case Nil
  then show ?case using assms(2,4) num_add_nat [of 0 c] by (simp add: lines_total_Cons nullish_def add_line_def)
next
  case (Cons kv kvs)
  obtain k' l where kv: "kv = (k', l)" by fastforce
  obtain a m where a: "ul_requests l = num (int a)" "lines_total (map snd kvs) m" "n = a + m"
    using Cons.prems(1) by (auto simp: kv lines_total_Cons)
  show ?case
  proof (cases "k' = k")
    case True
    have "ul_requests (add_line e l) = num (int (a + c))"
      using a(1,3) assms(2) Cons.prems(2) num_add_nat [of a c] by (simp add: add_line_def)
    then have "lines_total (add_line e l # map snd kvs) (n + c)"
      unfolding lines_total_Cons using a by (intro exI [of _ "a + c"] exI [of _ m]) simp
    then show ?thesis using True by (simp add: kv nullish_def)
  next
    case False
    have "lines_total (map snd (assoc_put k (add_line e (nullish (map_of kvs k) fresh)) kvs)) (m + c)"
      using Cons.IH [OF a(2)] Cons.prems(2) a(3) by simp
    then have "lines_total (l # map snd (assoc_put k (add_line e (nullish (map_of kvs k) fresh)) kvs)) (n + c)"
      unfolding lines_total_Cons using a by (intro exI [of _ a] exI [of _ "m + c"]) simp
    then show ?thesis using False by (simp add: kv)
  qed
qed

lemma lines_total_insert: "lines_total (insert_by b l ls) n = lines_total (l # ls) n"
  by (induction ls arbitrary: n) (auto simp: lines_total_Cons; metis add.left_commute)+

lemma lines_total_sort: "lines_total (sort_by b ls) n = lines_total ls n"
  unfolding sort_by_def by (induction ls arbitrary: n) (simp_all add: lines_total_insert lines_total_Cons)

lemma usage_step_known:
  assumes "map_of metas (ub_keyId e) = Some meta"
  shows "us_requests (usage_step window metas s e) = num_add (us_requests s) (ub_requests e)"
    "us_breakdown (usage_step window metas s e) = assoc_put (breakdown_key meta e)
       (add_line e (nullish (map_of (us_breakdown s) (breakdown_key meta e)) (fresh_line meta e))) (us_breakdown s)"
    "ul_requests (fresh_line meta e) = num 0"
  using assms by (simp_all add: usage_step_def Let_def fresh_line_def)

lemma usage_step_unknown: "map_of metas (ub_keyId e) = None \<Longrightarrow> usage_step window metas s e = s"
  by (simp add: usage_step_def)

lemma usage_sums:
  assumes "\<And>e. e \<in> set es \<Longrightarrow> ub_requests e = num (int (cnt e))" "sum_list (map cnt es) < 2 ^ 53"
  shows "us_requests (foldl (usage_step window metas) (empty_sums window) es) = num (int (known_requests metas cnt es)) \<and>
    lines_total (map snd (us_breakdown (foldl (usage_step window metas) (empty_sums window) es))) (known_requests metas cnt es)"
  using assms
proof (induction es rule: rev_induct)
  case Nil
  then show ?case by (simp add: empty_sums_def known_requests_def)
next
  case (snoc e es)
  let ?s = "foldl (usage_step window metas) (empty_sums window) es"
  have IH: "us_requests ?s = num (int (known_requests metas cnt es))" "lines_total (map snd (us_breakdown ?s)) (known_requests metas cnt es)"
    using snoc by auto
  have e: "ub_requests e = num (int (cnt e))" "known_requests metas cnt es + cnt e < 2 ^ 53"
    using snoc.prems known_requests_le [of metas cnt es] by auto
  show ?case
  proof (cases "map_of metas (ub_keyId e)")
    case (Some meta)
    then show ?thesis
      using IH(1) e num_add_nat [OF e(2)] lines_total_put [OF IH(2) e usage_step_known(3) [OF Some]]
      by (simp add: usage_step_known(1,2) [OF Some] known_requests_snoc)
  qed (use IH in \<open>simp add: usage_step_unknown known_requests_snoc\<close>)
qed

text \<open>
  Property C21. The usage report counts every request of the ledger exactly once: for whole request counts that stay
  below 2 to the power of 53, so that double arithmetic is exact, the total is the sum over all ledger entries whose key
  belongs to a device of the organisation, and the lines of the breakdown by device and model add up to the same
  total. Without a ledger the report says so and shows no totals, no series and no breakdown.
\<close>

theorem usage_counts_every_request_once:
  assumes run: "usage_report env gatewayUsage orgId range1 now devices = Inr r"
    and ledger: "gatewayUsage (map fst (key_meta devices)) range1 now = PaygLedger src available es rolling"
    and counts: "\<And>e. e \<in> set es \<Longrightarrow> ub_requests e = num (int (cnt e))" "sum_list (map cnt es) < 2 ^ 53"
  shows "ur_available r = available \<and>
    (available \<longrightarrow> (\<exists>spend tokens latest. ur_totals r = Some (spend, tokens, num (int (known_requests (key_meta devices) cnt es)), latest)) \<and>
       lines_total (ur_breakdown r) (known_requests (key_meta devices) cnt es)) \<and>
    (\<not> available \<longrightarrow> ur_totals r = None \<and> ur_series r = [] \<and> ur_breakdown r = [])"
  using run ledger usage_sums [OF counts, of "usageWindow range1 now" "key_meta devices"]
  by (auto simp: usage_report_def Let_def bindR_eq_Inr lines_total_sort)

subsection \<open>Witness\<close>

definition fleet_sample :: "(Device \<times> Person option \<times> DeviceToken list) list" where
  "fleet_sample =
     [(\<lparr>dv_id = ''d'', dv_orgId = ''c'', dv_name = ''laptop'', dv_os = [], dv_haraVersion = [], dv_enrolledAt = 1, dv_lastSeenAt = 1,
        dv_revocationRequestedAt = None, dv_revocationCompletedAt = None, dv_deskProvisionedAt = None, dv_deskCleanupPendingAt = None,
        dv_deskOwner = None, dv_deskOrigin = None, dv_enrollCodeId = None, dv_personId = None\<rparr>, None,
       [\<lparr>dt_id = ''t'', dt_deviceId = ''d'', dt_tokenHash = ''h'', dt_gatewayKeyId = ''k'', dt_model = ''m'', dt_reasoningEffort = [],
         dt_createdAt = 1, dt_expiresAt = None, dt_revokedAt = None, dt_budgetLimits = JArr [], dt_rpmLimit = None, dt_tpmLimit = None\<rparr>])]"

definition sample_ledger :: "GatewayUsageBucket list" where
  "sample_ledger =
     map (\<lambda>k. \<lparr>ub_keyId = k, ub_bucketAt = 0, ub_model = [], ub_spend = num 0, ub_totalTokens = num 7, ub_requests = num 3, ub_lastRequestAt = 2\<rparr>)
       [''k'', ''other'', ''k'']"

lemma sample_report:
  "\<exists>r. usage_report Map.empty (\<lambda>_ _ _. PaygLedger ''mock'' True sample_ledger []) ''c'' R24h 5 fleet_sample = Inr r"
  by (simp add: usage_report_def Let_def fleet_sample_def token_quota_def)

theorem usage_counts_every_request_once_witness:
  "\<exists>r. usage_report Map.empty (\<lambda>_ _ _. PaygLedger ''mock'' True sample_ledger []) ''c'' R24h 5 fleet_sample = Inr r \<and>
     lines_total (ur_breakdown r) 6"
proof -
  obtain r where r: "usage_report Map.empty (\<lambda>_ _ _. PaygLedger ''mock'' True sample_ledger []) ''c'' R24h 5 fleet_sample = Inr r"
    using sample_report by blast
  have counts: "e \<in> set sample_ledger \<Longrightarrow> ub_requests e = num (int 3)" "sum_list (map (\<lambda>_. 3) sample_ledger) < (2 ^ 53 :: nat)" for e
    by (auto simp: sample_ledger_def)
  have "known_requests (key_meta fleet_sample) (\<lambda>_. 3) sample_ledger = 6"
    by (simp add: known_requests_def key_meta_def fleet_sample_def sample_ledger_def)
  with usage_counts_every_request_once [OF r refl counts] r show ?thesis by auto
qed

end
