(* ===== verification/GovernancePolicy.thy ===== *)
theory GovernancePolicy
  imports ModelPolicy
begin

section \<open>Governance policies (roles/roles.service.ts)\<close>

text \<open>
  The policy an organisation, a team or an assignment carries, and how the layers are merged for a device. A stored policy is
  untrusted JSON: \<^verbatim>\<open>normalizePolicy\<close> accepts it or throws. A budget is a number or an object of budgets; \<^verbatim>\<open>BUndef\<close>
  is a missing one and \<^verbatim>\<open>BFunction\<close> what reading a missing key gives when \<^verbatim>\<open>Object.prototype\<close> has a member
  of that name. The properties show that merging is exact on models, tools and consents and only narrows budgets.
\<close>

datatype Budget = BUndef | BNum number | BObj "(string \<times> Budget) list" | BFunction

record Policy =
  po_modelAllow :: "string list option"
  po_modelDeny :: "string list option"
  po_toolDeny :: "string list option"
  po_requireApprovalForWrites :: bool
  po_allowPersonalModelConnections :: "bool option"
  po_budget :: Budget

subsection \<open>Normalisation\<close>

definition valid_entry :: "string \<Rightarrow> bool" where
  "valid_entry s \<longleftrightarrow> trim s \<noteq> [] \<and> length s \<le> 256 \<and> \<not> list_ex is_control s"

definition list_entry :: "string \<Rightarrow> jsval \<Rightarrow> string res" where
  "list_entry key entry =
     (case entry of
        JStr s \<Rightarrow> throwIf (\<not> valid_entry s) (BadRequest (key @ '' contains an invalid value'')) (Inr (trim s))
      | _ \<Rightarrow> Inl (BadRequest (key @ '' contains an invalid value'')))"

definition normalizedStringList :: "jsval \<Rightarrow> string \<Rightarrow> string list option res" where
  "normalizedStringList value key =
     (case value of
        JUndef \<Rightarrow> Inr None
      | JArr vs \<Rightarrow>
          throwIf (128 < length vs) (BadRequest (key @ '' must be an array of at most 128 strings''))
            (bindR (mapR (list_entry key) vs) (\<lambda>values. Inr (Some (sort (nub values)))))
      | _ \<Rightarrow> Inl (BadRequest (key @ '' must be an array of at most 128 strings'')))"

text \<open>\<^verbatim>\<open>/^[A-Za-z0-9][A-Za-z0-9._-]{0,63}$/\<close>\<close>

definition budget_key :: "string \<Rightarrow> bool" where
  "budget_key s \<longleftrightarrow>
     (case s of
        [] \<Rightarrow> False
      | c # t \<Rightarrow> is_alnum c \<and> length t \<le> 63 \<and> list_all (\<lambda>x. is_alnum x \<or> x \<in> set ''._-'') t)"

lemma mapR_cong [fundef_cong]:
  "xs = ys \<Longrightarrow> (\<And>x. x \<in> set ys \<Longrightarrow> f x = g x) \<Longrightarrow> mapR f xs = mapR g ys"
proof (induction ys arbitrary: xs)
  case (Cons y ys)
  then show ?case by (auto intro: bindR_cong)
qed auto

fun normalizedBudget :: "nat \<Rightarrow> jsval \<Rightarrow> Budget res" where
  "normalizedBudget depth JUndef = Inr BUndef"
| "normalizedBudget depth (JNum n) =
     throwIf (\<not> isFinite n \<or> num_lt n (num 0)) (BadRequest ''budget values must be finite non-negative numbers'') (Inr (BNum n))"
| "normalizedBudget depth (JObj entries) =
     throwIf (4 \<le> depth) (BadRequest ''budget must contain bounded numeric limits'')
    (throwIf (32 < length entries) (BadRequest ''budget has too many dimensions'')
    (bindR (mapR (\<lambda>(key, child).
        throwIf (\<not> budget_key key) (BadRequest ''budget contains an invalid key'')
       (bindR (normalizedBudget (Suc depth) child) (\<lambda>b. Inr (key, b)))) entries) (\<lambda>members.
     Inr (BObj members))))"
| "normalizedBudget depth v = Inl (BadRequest ''budget must contain bounded numeric limits'')"

definition supported_fields :: "string list" where
  "supported_fields =
     [''modelAllow'', ''modelDeny'', ''toolDeny'', ''requireApprovalForWrites'', ''allowPersonalModelConnections'', ''budget'']"

definition is_boolean :: "jsval \<Rightarrow> bool" where
  "is_boolean v = (case v of JBool _ \<Rightarrow> True | _ \<Rightarrow> False)"

definition normalizePolicy :: "jsval \<Rightarrow> Policy res" where
  "normalizePolicy value =
     (case value of
        JObj members \<Rightarrow>
          (let unknown = filter (\<lambda>k. k \<notin> set supported_fields) (map fst members);
               approval = prop_of value ''requireApprovalForWrites'';
               personal = prop_of value ''allowPersonalModelConnections''
           in throwIf (unknown \<noteq> []) (BadRequest (''policy contains unsupported field '' @ [CHR 0x27] @ hd unknown @ [CHR 0x27]))
             (throwIf (approval \<noteq> JUndef \<and> \<not> is_boolean approval) (BadRequest ''requireApprovalForWrites must be a boolean'')
             (throwIf (personal \<noteq> JUndef \<and> \<not> is_boolean personal) (BadRequest ''allowPersonalModelConnections must be a boolean'')
             (bindR (normalizedStringList (prop_of value ''modelDeny'') ''modelDeny'') (\<lambda>modelDeny.
              bindR (normalizedStringList (prop_of value ''modelAllow'') ''modelAllow'') (\<lambda>modelAllow.
              bindR (normalizedStringList (prop_of value ''toolDeny'') ''toolDeny'') (\<lambda>toolDeny.
              bindR (normalizedBudget 0 (prop_of value ''budget'')) (\<lambda>budget.
              Inr \<lparr>po_modelAllow = modelAllow, po_modelDeny = modelDeny, po_toolDeny = toolDeny,
                   po_requireApprovalForWrites = (approval = JBool True),
                   po_allowPersonalModelConnections = (case personal of JBool b \<Rightarrow> Some b | _ \<Rightarrow> None),
                   po_budget = budget\<rparr>))))))))
      | _ \<Rightarrow> Inl (BadRequest ''policy must be an object''))"

subsection \<open>Merging\<close>

text \<open>The members of \<^verbatim>\<open>Object.prototype\<close> whose names are budget keys; all of them are functions.\<close>

definition inherited_members :: "string list" where
  "inherited_members =
     [''constructor'', ''hasOwnProperty'', ''isPrototypeOf'', ''propertyIsEnumerable'', ''toLocaleString'', ''toString'', ''valueOf'']"

definition member :: "(string \<times> Budget) list \<Rightarrow> string \<Rightarrow> Budget" where
  "member kvs k = (case map_of kvs k of Some b \<Rightarrow> b | None \<Rightarrow> if k \<in> set inherited_members then BFunction else BUndef)"

text \<open>Assigning a member: array indices come first in ascending order, other new keys last.\<close>

definition array_index :: "string \<Rightarrow> bool" where
  "array_index k \<longleftrightarrow>
     list_all is_digit k \<and> k \<noteq> [] \<and> (hd k \<noteq> CHR ''0'' \<or> length k = 1) \<and> digits_val 10 (\<lambda>c. code c - 48) k \<le> 4294967294"

definition goes_before :: "string \<Rightarrow> string \<Rightarrow> bool" where
  "goes_before k k' \<longleftrightarrow> array_index k \<and>
     (\<not> array_index k' \<or> digits_val 10 (\<lambda>c. code c - 48) k < digits_val 10 (\<lambda>c. code c - 48) k')"

fun put_new :: "string \<Rightarrow> 'v \<Rightarrow> (string \<times> 'v) list \<Rightarrow> (string \<times> 'v) list" where
  "put_new k v [] = [(k, v)]"
| "put_new k v ((k', v') # kvs) = (if goes_before k k' then (k, v) # (k', v') # kvs else (k', v') # put_new k v kvs)"

definition put_member :: "string \<Rightarrow> 'v \<Rightarrow> (string \<times> 'v) list \<Rightarrow> (string \<times> 'v) list" where
  "put_member k v kvs =
     (if k \<in> set (map fst kvs) then map (\<lambda>(k', v'). (k', if k' = k then v else v')) kvs else put_new k v kvs)"

definition num_min :: "number \<Rightarrow> number \<Rightarrow> number" where
  "num_min a b = (if num_lt b a then b else a)"

fun restrictiveBudget :: "Budget \<Rightarrow> Budget \<Rightarrow> Budget"
  and merge_entries :: "(string \<times> Budget) list \<Rightarrow> (string \<times> Budget) list \<Rightarrow> (string \<times> Budget) list" where
  "restrictiveBudget current BUndef = current"
| "restrictiveBudget BUndef next = next"
| "restrictiveBudget (BNum a) (BNum b) = BNum (num_min a b)"
| "restrictiveBudget (BObj merged) (BObj entries) = BObj (merge_entries merged entries)"
| "restrictiveBudget current next = current"
| "merge_entries merged [] = merged"
| "merge_entries merged ((key, value) # entries) =
     merge_entries (put_member key (restrictiveBudget (member merged key) value) merged) entries"

record MergeState =
  ms_modelDeny :: "string list"
  ms_toolDeny :: "string list"
  ms_modelAllow :: "string list option"
  ms_requireApprovalForWrites :: bool
  ms_allowPersonalModelConnections :: "bool option"
  ms_budget :: Budget

definition add_all :: "string list \<Rightarrow> string list \<Rightarrow> string list" where
  "add_all s xs = nub (s @ xs)"

definition merge_layer :: "MergeState \<Rightarrow> Policy \<Rightarrow> MergeState" where
  "merge_layer s p =
     \<lparr>ms_modelDeny = add_all (ms_modelDeny s) (nullish (po_modelDeny p) []),
      ms_toolDeny = add_all (ms_toolDeny s) (nullish (po_toolDeny p) []),
      ms_modelAllow = (case po_modelAllow p of
          None \<Rightarrow> ms_modelAllow s
        | Some layerAllow \<Rightarrow> (case ms_modelAllow s of
              None \<Rightarrow> Some (nub layerAllow)
            | Some a \<Rightarrow> Some (filter (\<lambda>m. m \<in> set layerAllow) a))),
      ms_requireApprovalForWrites = (ms_requireApprovalForWrites s \<or> po_requireApprovalForWrites p),
      ms_allowPersonalModelConnections = (case po_allowPersonalModelConnections p of
          None \<Rightarrow> ms_allowPersonalModelConnections s
        | Some b \<Rightarrow> (case ms_allowPersonalModelConnections s of None \<Rightarrow> Some b | Some a \<Rightarrow> Some (a \<and> b))),
      ms_budget = restrictiveBudget (ms_budget s) (po_budget p)\<rparr>"

definition falsy :: "jsval \<Rightarrow> bool" where
  "falsy v \<longleftrightarrow> v \<in> {JUndef, JNull, JBool False, JNum NaN, JNum (num 0), JStr []}"

fun merge_layers :: "MergeState \<Rightarrow> jsval list \<Rightarrow> MergeState res" where
  "merge_layers s [] = Inr s"
| "merge_layers s (raw # layers) =
     (if falsy raw then merge_layers s layers
      else bindR (normalizePolicy raw) (\<lambda>p. merge_layers (merge_layer s p) layers))"

definition some_unless_empty :: "string list \<Rightarrow> string list option" where
  "some_unless_empty s = (if s = [] then None else Some (sort s))"

definition merge_out :: "MergeState \<Rightarrow> Policy" where
  "merge_out s =
     \<lparr>po_modelAllow = map_option sort (ms_modelAllow s), po_modelDeny = some_unless_empty (ms_modelDeny s),
      po_toolDeny = some_unless_empty (ms_toolDeny s),
      po_requireApprovalForWrites = ms_requireApprovalForWrites s,
      po_allowPersonalModelConnections = ms_allowPersonalModelConnections s,
      po_budget = ms_budget s\<rparr>"

definition merge_start :: MergeState where
  "merge_start =
     \<lparr>ms_modelDeny = [], ms_toolDeny = [], ms_modelAllow = None, ms_requireApprovalForWrites = False,
      ms_allowPersonalModelConnections = None, ms_budget = BUndef\<rparr>"

definition mergePolicy :: "jsval list \<Rightarrow> Policy res" where
  "mergePolicy layers = bindR (merge_layers merge_start layers) (\<lambda>s. Inr (merge_out s))"

subsection \<open>The stored form\<close>

text \<open>The JSON value that is stored for a normalised policy.\<close>

fun budget_json :: "Budget \<Rightarrow> jsval" where
  "budget_json (BNum n) = JNum n"
| "budget_json (BObj kvs) = JObj (map (\<lambda>(k, b). (k, budget_json b)) kvs)"
| "budget_json b = JUndef"

definition opt_member :: "string \<Rightarrow> jsval \<Rightarrow> (string \<times> jsval) list" where
  "opt_member k v = (if v = JUndef then [] else [(k, v)])"

definition strings_json :: "string list option \<Rightarrow> jsval" where
  "strings_json xs = (case xs of None \<Rightarrow> JUndef | Some ys \<Rightarrow> JArr (map JStr ys))"

definition approval_json :: "bool \<Rightarrow> jsval" where
  "approval_json b = (if b then JBool True else JUndef)"

definition consent_json :: "bool option \<Rightarrow> jsval" where
  "consent_json c = (case c of None \<Rightarrow> JUndef | Some b \<Rightarrow> JBool b)"

definition policy_json :: "Policy \<Rightarrow> jsval" where
  "policy_json p = JObj
     (opt_member ''modelDeny'' (strings_json (po_modelDeny p)) @ opt_member ''modelAllow'' (strings_json (po_modelAllow p)) @
      opt_member ''toolDeny'' (strings_json (po_toolDeny p)) @
      opt_member ''requireApprovalForWrites'' (approval_json (po_requireApprovalForWrites p)) @
      opt_member ''allowPersonalModelConnections'' (consent_json (po_allowPersonalModelConnections p)) @
      opt_member ''budget'' (budget_json (po_budget p)))"

subsection \<open>What a policy permits\<close>

definition permits_model :: "Policy \<Rightarrow> string \<Rightarrow> bool" where
  "permits_model p m \<longleftrightarrow>
     m \<notin> set (nullish (po_modelDeny p) []) \<and> (case po_modelAllow p of None \<Rightarrow> True | Some a \<Rightarrow> m \<in> set a)"

definition permits_tool :: "Policy \<Rightarrow> string \<Rightarrow> bool" where
  "permits_tool p t \<longleftrightarrow> t \<notin> set (nullish (po_toolDeny p) [])"

definition consents :: "Policy \<Rightarrow> bool" where
  "consents p \<longleftrightarrow> po_allowPersonalModelConnections p = Some True"

definition refuses :: "Policy \<Rightarrow> bool" where
  "refuses p \<longleftrightarrow> po_allowPersonalModelConnections p = Some False"

text \<open>The limit of a budget along a path of dimensions.\<close>

fun limit_at :: "Budget \<Rightarrow> string list \<Rightarrow> number option" where
  "limit_at (BNum n) [] = Some n"
| "limit_at (BObj kvs) (k # path) = (case map_of kvs k of None \<Rightarrow> None | Some b \<Rightarrow> limit_at b path)"
| "limit_at b path = None"

text \<open>The path leaves the budget at a key that is neither present nor inherited.\<close>

fun open_at :: "Budget \<Rightarrow> string list \<Rightarrow> bool" where
  "open_at BUndef path = True"
| "open_at (BObj kvs) (k # path) =
     (case map_of kvs k of None \<Rightarrow> k \<notin> set inherited_members | Some b \<Rightarrow> open_at b path)"
| "open_at b path = False"

text \<open>What \<^verbatim>\<open>JSON.parse\<close> returns: no undefined members and one member per key.\<close>

fun parsed_json :: "jsval \<Rightarrow> bool" where
  "parsed_json JUndef = False"
| "parsed_json (JArr vs) = list_all parsed_json vs"
| "parsed_json (JObj kvs) = (distinct (map fst kvs) \<and> list_all (\<lambda>(k, v). parsed_json v) kvs)"
| "parsed_json v = True"

fun own_budget :: "Budget \<Rightarrow> bool" where
  "own_budget (BObj kvs) = (distinct (map fst kvs) \<and> list_all (\<lambda>(k, b). own_budget b \<and> b \<noteq> BUndef) kvs)"
| "own_budget BFunction = False"
| "own_budget b = True"

subsection \<open>Merging models, tools and consents is exact\<close>

definition layer_policies :: "jsval list \<Rightarrow> Policy list res" where
  "layer_policies layers = mapR normalizePolicy (filter (\<lambda>v. \<not> falsy v) layers)"

lemma merge_layers_foldl:
  "merge_layers s layers = bindR (layer_policies layers) (\<lambda>ps. Inr (foldl merge_layer s ps))"
proof (induction layers arbitrary: s)
  case (Cons raw layers)
  then show ?case by (cases "normalizePolicy raw"; cases "layer_policies layers") (auto simp: layer_policies_def)
qed (simp add: layer_policies_def)

lemma mergePolicy_Inr:
  "mergePolicy layers = Inr m \<longleftrightarrow> (\<exists>ps. layer_policies layers = Inr ps \<and> m = merge_out (foldl merge_layer merge_start ps))"
  by (cases "layer_policies layers") (auto simp: mergePolicy_def merge_layers_foldl)

lemma mergePolicy_Inl: "mergePolicy layers = Inl e \<longleftrightarrow> layer_policies layers = Inl e"
  by (cases "layer_policies layers") (auto simp: mergePolicy_def merge_layers_foldl)

definition state_permits :: "MergeState \<Rightarrow> string \<Rightarrow> bool" where
  "state_permits s m \<longleftrightarrow> m \<notin> set (ms_modelDeny s) \<and> (case ms_modelAllow s of None \<Rightarrow> True | Some a \<Rightarrow> m \<in> set a)"

lemma merge_layer_sets:
  "state_permits (merge_layer s p) m \<longleftrightarrow> state_permits s m \<and> permits_model p m"
  "t \<in> set (ms_toolDeny (merge_layer s p)) \<longleftrightarrow> t \<in> set (ms_toolDeny s) \<or> \<not> permits_tool p t"
  "ms_requireApprovalForWrites (merge_layer s p) \<longleftrightarrow> ms_requireApprovalForWrites s \<or> po_requireApprovalForWrites p"
  by (auto simp: merge_layer_def state_permits_def permits_model_def permits_tool_def add_all_def split: option.splits)

lemma merge_layer_consent:
  "ms_allowPersonalModelConnections (merge_layer s p) = Some False \<longleftrightarrow> ms_allowPersonalModelConnections s = Some False \<or> refuses p"
  "ms_allowPersonalModelConnections (merge_layer s p) = None \<longleftrightarrow>
     ms_allowPersonalModelConnections s = None \<and> \<not> consents p \<and> \<not> refuses p"
  by (auto simp: merge_layer_def consents_def refuses_def split: option.splits)

lemma foldl_merge_sets:
  "state_permits (foldl merge_layer s ps) m \<longleftrightarrow> state_permits s m \<and> (\<forall>p \<in> set ps. permits_model p m)"
  "t \<in> set (ms_toolDeny (foldl merge_layer s ps)) \<longleftrightarrow> t \<in> set (ms_toolDeny s) \<or> (\<exists>p \<in> set ps. \<not> permits_tool p t)"
  "ms_requireApprovalForWrites (foldl merge_layer s ps) \<longleftrightarrow>
     ms_requireApprovalForWrites s \<or> (\<exists>p \<in> set ps. po_requireApprovalForWrites p)"
  by (induction ps arbitrary: s) (auto simp: merge_layer_sets)

lemma foldl_merge_consent:
  "ms_allowPersonalModelConnections (foldl merge_layer s ps) = Some False \<longleftrightarrow>
     ms_allowPersonalModelConnections s = Some False \<or> (\<exists>p \<in> set ps. refuses p)"
  "ms_allowPersonalModelConnections (foldl merge_layer s ps) = None \<longleftrightarrow>
     ms_allowPersonalModelConnections s = None \<and> (\<forall>p \<in> set ps. \<not> consents p \<and> \<not> refuses p)"
  by (induction ps arbitrary: s) (auto simp: merge_layer_consent)

lemma merge_out_simps:
  "permits_model (merge_out s) m \<longleftrightarrow> state_permits s m"
  "permits_tool (merge_out s) t \<longleftrightarrow> t \<notin> set (ms_toolDeny s)"
  "po_requireApprovalForWrites (merge_out s) = ms_requireApprovalForWrites s"
  "po_allowPersonalModelConnections (merge_out s) = ms_allowPersonalModelConnections s"
  "po_budget (merge_out s) = ms_budget s"
  by (auto simp: merge_out_def permits_model_def permits_tool_def state_permits_def some_unless_empty_def
      split: option.splits)

lemma merge_start_simps [simp]:
  "state_permits merge_start m" "ms_toolDeny merge_start = []" "\<not> ms_requireApprovalForWrites merge_start"
  "ms_allowPersonalModelConnections merge_start = None" "ms_budget merge_start = BUndef"
  by (simp_all add: merge_start_def state_permits_def)

text \<open>
  Property C22. Merging the layers of a device's policy is exact. It throws exactly when the first layer that normalisation
  rejects does; otherwise a model is permitted by the result if and only if every layer permits it, the same for a tool,
  writes need approval if and only if some layer asks for it, and personal model connections are allowed if and
  only if some layer allows them and none refuses them: a lower layer can only narrow what an upper one grants.
\<close>

theorem merged_policy_is_conjunction:
  "(case layer_policies layers of
      Inl e \<Rightarrow> mergePolicy layers = Inl e
    | Inr ps \<Rightarrow> \<exists>m. mergePolicy layers = Inr m \<and>
        (\<forall>x. permits_model m x = list_all (\<lambda>p. permits_model p x) ps) \<and>
        (\<forall>t. permits_tool m t = list_all (\<lambda>p. permits_tool p t) ps) \<and>
        (po_requireApprovalForWrites m = list_ex po_requireApprovalForWrites ps) \<and>
        (consents m = (list_ex consents ps \<and> \<not> list_ex refuses ps)) \<and> (refuses m = list_ex refuses ps))"
proof (cases "layer_policies layers")
  case (Inl e)
  then show ?thesis by (simp add: mergePolicy_Inl)
next
  case (Inr ps)
  let ?s = "foldl merge_layer merge_start ps"
  have m: "mergePolicy layers = Inr (merge_out ?s)" using Inr by (simp add: mergePolicy_Inr)
  have c: "consents (merge_out ?s) \<longleftrightarrow> ms_allowPersonalModelConnections ?s \<noteq> None \<and> ms_allowPersonalModelConnections ?s \<noteq> Some False"
    by (auto simp: consents_def merge_out_simps)
  have "permits_model (merge_out ?s) x = list_all (\<lambda>p. permits_model p x) ps"
    "permits_tool (merge_out ?s) t = list_all (\<lambda>p. permits_tool p t) ps"
    "po_requireApprovalForWrites (merge_out ?s) = list_ex po_requireApprovalForWrites ps"
    "refuses (merge_out ?s) = list_ex refuses ps" for x t
    by (auto simp: merge_out_simps foldl_merge_sets foldl_merge_consent refuses_def list_all_iff list_ex_iff)
  moreover have "consents (merge_out ?s) = (list_ex consents ps \<and> \<not> list_ex refuses ps)"
    unfolding c foldl_merge_consent by (auto simp: list_ex_iff)
  ultimately show ?thesis using Inr m by simp
qed

subsection \<open>Budgets only narrow\<close>

lemma map_of_put_new: "k \<notin> set (map fst kvs) \<Longrightarrow> map_of (put_new k v kvs) = (map_of kvs)(k \<mapsto> v)"
  by (induction k v kvs rule: put_new.induct) auto

lemma map_of_replace:
  "map_of (map (\<lambda>(k', v'). (k', if k' = k then v else v')) kvs) x =
     (if x = k then map_option (\<lambda>_. v) (map_of kvs k) else map_of kvs x)"
  by (induction kvs) auto

lemma map_of_put_member [simp]: "map_of (put_member k v kvs) = (map_of kvs)(k \<mapsto> v)"
  by (cases "map_of kvs k")
    (auto simp: put_member_def map_of_replace fun_eq_iff map_of_put_new map_of_eq_None_iff dest: map_of_SomeD)

lemma map_of_merge_entries:
  "distinct (map fst entries) \<Longrightarrow> map_of (merge_entries merged entries) k =
     (case map_of entries k of None \<Rightarrow> map_of merged k | Some v \<Rightarrow> Some (restrictiveBudget (member merged k) v))"
proof (induction entries arbitrary: merged)
  case (Cons kv entries)
  obtain k' v where kv: "kv = (k', v)" by fastforce
  then have d: "distinct (map fst entries)" "map_of entries k' = None"
    using Cons.prems by (auto simp: map_of_eq_None_iff)
  have m: "member (put_member k' b merged) k = (if k = k' then b else member merged k)" for b
    by (simp add: member_def)
  show ?case
    using Cons.IH [OF d(1)] d(2) by (auto simp: kv m split: option.splits)
qed simp

lemma map_of_own: "own_budget (BObj kvs) \<Longrightarrow> map_of kvs k = Some b \<Longrightarrow> own_budget b \<and> b \<noteq> BUndef"
  by (auto simp: list_all_iff dest: map_of_SomeD)

lemma merged_member:
  "own_budget (BObj entries) \<Longrightarrow> limit_at (restrictiveBudget (BObj merged) (BObj entries)) (k # path) =
     (case map_of entries k of
        None \<Rightarrow> limit_at (BObj merged) (k # path)
      | Some v \<Rightarrow> limit_at (restrictiveBudget (member merged k) v) path)"
  by (auto simp: map_of_merge_entries split: option.splits)

lemma upper_limit_kept:
  assumes "limit_at upper path = Some a" "own_budget lower"
  shows "limit_at (restrictiveBudget upper lower) path =
    Some (case limit_at lower path of None \<Rightarrow> a | Some b \<Rightarrow> num_min a b)"
  using assms
proof (induction path arbitrary: upper lower)
  case Nil
  then show ?case by (cases upper; cases lower) auto
next
  case (Cons k path)
  then obtain merged b where u: "upper = BObj merged" "map_of merged k = Some b" "limit_at b path = Some a"
    by (cases upper) (auto split: option.splits)
  show ?case
  proof (cases lower)
    case (BObj entries)
    have "limit_at (restrictiveBudget b v) path = Some (case limit_at v path of None \<Rightarrow> a | Some c \<Rightarrow> num_min a c)"
      if "map_of entries k = Some v" for v
      using Cons.IH [OF u(3)] map_of_own [of entries k v] Cons.prems(2) BObj that by blast
    moreover have "member merged k = b" using u(2) by (simp add: member_def)
    ultimately show ?thesis
      using Cons.prems unfolding u(1) BObj by (subst merged_member) (auto split: option.splits)
  qed (use u Cons.prems in auto)
qed

lemma open_limit_taken:
  assumes "open_at upper path" "limit_at lower path = Some b" "own_budget lower"
  shows "limit_at (restrictiveBudget upper lower) path = Some b"
  using assms
proof (induction path arbitrary: upper lower)
  case Nil
  then show ?case by (cases upper; cases lower) auto
next
  case (Cons k path)
  then obtain entries v where l: "lower = BObj entries" "map_of entries k = Some v" "limit_at v path = Some b"
    by (cases lower) (auto split: option.splits)
  have v: "own_budget v" "v \<noteq> BUndef" using map_of_own [of entries k v] Cons.prems(3) l by auto
  show ?case
  proof (cases upper)
    case (BObj merged)
    have "limit_at (restrictiveBudget (member merged k) v) path = Some b"
    proof (cases "map_of merged k")
      case None
      then show ?thesis using Cons.prems(1) BObj l(3) v(2) by (cases v) (auto simp: member_def)
    next
      case (Some c)
      then have "open_at c path" "member merged k = c" using Cons.prems(1) BObj by (auto simp: member_def)
      then show ?thesis using Cons.IH [OF _ l(3) v(1)] by simp
    qed
    then show ?thesis
      using Cons.prems(3) l(2) unfolding l(1) BObj by (subst merged_member) auto
  qed (use Cons.prems l in auto)
qed

lemma prop_of_parsed: "parsed_json v \<Longrightarrow> prop_of v k = JUndef \<or> parsed_json (prop_of v k)"
  by (cases v) (auto simp: prop_of_def list_all_iff split: option.splits dest: map_of_SomeD)

lemma normalizedBudget_own:
  "normalizedBudget depth v = Inr b \<Longrightarrow> parsed_json v \<Longrightarrow> own_budget b \<and> b \<noteq> BUndef"
proof (induction depth v arbitrary: b rule: normalizedBudget.induct)
  case (3 depth entries)
  let ?one = "\<lambda>(key, child). throwIf (\<not> budget_key key) (BadRequest ''budget contains an invalid key'')
       (bindR (normalizedBudget (Suc depth) child) (\<lambda>b. Inr (key, b)))"
  from "3.prems"(1) obtain members where
    b: "b = BObj members" "\<not> 4 \<le> depth" "\<not> 32 < length entries" and
    m: "list_all2 (\<lambda>x y. ?one x = Inr y) entries members"
    by (auto simp: bindR_eq_Inr throwIf_eq_Inr mapR_eq_Inr)
  have keys: "map fst members = map fst entries"
    using m by (induction rule: list_all2_induct) (auto simp: bindR_eq_Inr throwIf_eq_Inr)
  have "own_budget c \<and> c \<noteq> BUndef" if mem: "(k, c) \<in> set members" for k c
  proof -
    obtain i where i: "i < length members" "members ! i = (k, c)" using mem by (meson in_set_conv_nth)
    obtain key child where e: "entries ! i = (key, child)" by fastforce
    have mem: "(key, child) \<in> set entries" using i(1) e nth_mem [of i entries] list_all2_lengthD [OF m] by simp
    have one: "\<not> \<not> budget_key key" "normalizedBudget (Suc depth) child = Inr c"
      using list_all2_nthD2 [OF m i(1)] e i(2) by (auto simp: bindR_eq_Inr throwIf_eq_Inr)
    have "parsed_json child" using "3.prems"(2) mem by (auto simp: list_all_iff)
    then show ?thesis by (rule "3.IH" [OF b(2,3) mem refl one])
  qed
  then show ?case using keys "3.prems"(2) b(1) by (auto simp: list_all_iff)
qed (auto simp: throwIf_eq_Inr)

lemma normalizePolicy_budget:
  assumes "normalizePolicy v = Inr p" "parsed_json v"
  shows "own_budget (po_budget p)"
proof -
  have "\<exists>kvs. v = JObj kvs" using assms(1) by (cases v) (auto simp: normalizePolicy_def)
  then have "normalizedBudget 0 (prop_of v ''budget'') = Inr (po_budget p)"
    using assms(1) by (auto simp: normalizePolicy_def Let_def bindR_eq_Inr throwIf_eq_Inr)
  then show ?thesis
    using prop_of_parsed [OF assms(2), of "''budget''"] normalizedBudget_own [of 0 "prop_of v ''budget''"] by auto
qed

lemma layer_policies_own:
  assumes "layer_policies layers = Inr ps" "list_all parsed_json layers" "p \<in> set ps"
  shows "own_budget (po_budget p)"
  using mapR_in_set [OF assms(1) [unfolded layer_policies_def] assms(3)] assms(2) normalizePolicy_budget
  by (auto simp: list_all_iff)

lemma mapR_append: "mapR f (xs @ ys) = bindR (mapR f xs) (\<lambda>a. bindR (mapR f ys) (\<lambda>b. Inr (a @ b)))"
proof (induction xs)
  case Nil
  then show ?case by (cases "mapR f ys") simp_all
next
  case (Cons x xs)
  then show ?case by (cases "f x"; cases "mapR f xs"; cases "mapR f ys") simp_all
qed

lemma layer_policies_append:
  "layer_policies (upper @ lower) = Inr rs \<longleftrightarrow> (\<exists>ps qs. layer_policies upper = Inr ps \<and> layer_policies lower = Inr qs \<and> rs = ps @ qs)"
  by (auto simp: layer_policies_def mapR_append bindR_eq_Inr)

lemma num_lt_trans: "num_lt a b \<Longrightarrow> num_lt b c \<Longrightarrow> num_lt a c"
  by (cases a; cases b; cases c) auto

lemma not_above_num_min: "\<not> num_lt a (num_min a b)" "\<not> num_lt b (num_min a b)"
  using num_lt_trans [of a b a] by (auto simp: num_min_def)

lemma not_above_min_trans: "\<not> num_lt c a \<Longrightarrow> \<not> num_lt c (num_min a b)"
  using num_lt_trans [of c b a] by (auto simp: num_min_def)

lemma ms_budget_foldl: "ms_budget (foldl merge_layer s ps) = foldl restrictiveBudget (ms_budget s) (map po_budget ps)"
  by (induction ps arbitrary: s) (simp_all add: merge_layer_def)

lemma foldl_tightens:
  assumes "limit_at B path = Some a" "\<And>c. c \<in> set bs \<Longrightarrow> own_budget c"
  shows "\<exists>b. limit_at (foldl restrictiveBudget B bs) path = Some b \<and>
    (\<forall>d. \<not> num_lt d a \<longrightarrow> \<not> num_lt d b) \<and> (\<forall>c \<in> set bs. \<forall>n. limit_at c path = Some n \<longrightarrow> \<not> num_lt n b)"
  using assms
proof (induction bs arbitrary: B a)
  case (Cons c bs)
  define a' where "a' = (case limit_at c path of None \<Rightarrow> a | Some n \<Rightarrow> num_min a n)"
  have "limit_at (restrictiveBudget B c) path = Some a'"
    unfolding a'_def using Cons.prems by (intro upper_limit_kept) auto
  then obtain b where b: "limit_at (foldl restrictiveBudget (restrictiveBudget B c) bs) path = Some b"
    "\<forall>d. \<not> num_lt d a' \<longrightarrow> \<not> num_lt d b" "\<forall>c \<in> set bs. \<forall>n. limit_at c path = Some n \<longrightarrow> \<not> num_lt n b"
    using Cons.IH [of "restrictiveBudget B c" a'] Cons.prems(2) by auto
  have "\<not> num_lt d a'" if "\<not> num_lt d a" for d
    using that not_above_min_trans [of d a] by (auto simp: a'_def split: option.splits)
  moreover have "\<not> num_lt n a'" if "limit_at c path = Some n" for n
    using that not_above_num_min(2) [of n a] by (auto simp: a'_def)
  ultimately show ?case using b by auto
qed auto

text \<open>
  Lower layers only tighten a budget: where the merged upper layers limit a dimension, every further layer keeps
  a limit there, it is never above the one of the upper layers nor above what any of the further layers asks for; and
  where the upper layers leave a dimension open, the limit of the next layer is taken as it is. Layers are values parsed from
  JSON; a dimension is a path of keys into nested budget objects.
\<close>

theorem lower_layers_only_tighten_budgets:
  assumes "list_all parsed_json lower" "layer_policies lower = Inr qs"
    "mergePolicy upper = Inr m" "mergePolicy (upper @ lower) = Inr m'"
  shows "(\<forall>path a. limit_at (po_budget m) path = Some a \<longrightarrow> (\<exists>b. limit_at (po_budget m') path = Some b \<and>
      \<not> num_lt a b \<and> (\<forall>q \<in> set qs. \<forall>n. limit_at (po_budget q) path = Some n \<longrightarrow> \<not> num_lt n b))) \<and>
    (\<forall>path q n. open_at (po_budget m) path \<longrightarrow> qs = [q] \<longrightarrow> limit_at (po_budget q) path = Some n \<longrightarrow>
      limit_at (po_budget m') path = Some n)"
proof -
  obtain ps where ps: "layer_policies upper = Inr ps" "m = merge_out (foldl merge_layer merge_start ps)"
    using assms(3) by (auto simp: mergePolicy_Inr)
  with assms(2,4) have m': "m' = merge_out (foldl merge_layer merge_start (ps @ qs))"
    by (auto simp: mergePolicy_Inr layer_policies_append)
  have own: "own_budget c" if "c \<in> set (map po_budget qs)" for c
    using that layer_policies_own [OF assms(2,1)] by auto
  have b: "po_budget m' = foldl restrictiveBudget (po_budget m) (map po_budget qs)"
    by (simp add: m' ps(2) merge_out_simps ms_budget_foldl)
  have "\<exists>b. limit_at (po_budget m') path = Some b \<and> \<not> num_lt a b \<and>
      (\<forall>q \<in> set qs. \<forall>n. limit_at (po_budget q) path = Some n \<longrightarrow> \<not> num_lt n b)"
    if "limit_at (po_budget m) path = Some a" for path a
    using foldl_tightens [OF that, of "map po_budget qs"] own unfolding b by fastforce
  moreover have "limit_at (po_budget m') path = Some n"
    if "open_at (po_budget m) path" "qs = [q]" "limit_at (po_budget q) path = Some n" for path q n
    using open_limit_taken [OF that(1,3)] own that(2) unfolding b by simp
  ultimately show ?thesis by blast
qed

definition sample_upper :: jsval where
  "sample_upper = JObj [(''budget'', JObj [(''usd'', JObj [(''day'', JNum (num 10))])])]"

definition sample_lower :: jsval where
  "sample_lower = JObj [(''toolDeny'', JArr [JStr ''shell'']), (''budget'', JObj [(''usd'', JObj [(''day'', JNum (num 20))]), (''tokens'', JNum (num 5))])]"

definition sample_lower_policy :: Policy where
  "sample_lower_policy = \<lparr>po_modelAllow = None, po_modelDeny = None, po_toolDeny = Some [''shell''], po_requireApprovalForWrites = False,
     po_allowPersonalModelConnections = None, po_budget = BObj [(''usd'', BObj [(''day'', BNum (num 20))]), (''tokens'', BNum (num 5))]\<rparr>"

lemma sample_layers:
  "list_all parsed_json [sample_lower]" "layer_policies [sample_lower] = Inr [sample_lower_policy]"
  "case mergePolicy [sample_upper] of Inl e \<Rightarrow> False
   | Inr m \<Rightarrow> limit_at (po_budget m) [''usd'', ''day''] = Some (num 10) \<and> open_at (po_budget m) [''tokens'']"
  "case mergePolicy ([sample_upper] @ [sample_lower]) of Inl e \<Rightarrow> False | Inr m \<Rightarrow> True"
  by code_simp+

theorem lower_layers_only_tighten_budgets_witness:
  "\<exists>m' b. mergePolicy ([sample_upper] @ [sample_lower]) = Inr m' \<and> limit_at (po_budget m') [''usd'', ''day''] = Some b \<and>
     \<not> num_lt (num 10) b \<and> limit_at (po_budget m') [''tokens''] = Some (num 5)"
proof -
  obtain m m' where m: "mergePolicy [sample_upper] = Inr m" "mergePolicy ([sample_upper] @ [sample_lower]) = Inr m'"
    and l: "limit_at (po_budget m) [''usd'', ''day''] = Some (num 10)" "open_at (po_budget m) [''tokens'']"
    using sample_layers(3,4) by (auto split: sum.splits)
  have "limit_at (po_budget sample_lower_policy) [''tokens''] = Some (num 5)" by (simp add: sample_lower_policy_def)
  then show ?thesis
    using lower_layers_only_tighten_budgets [OF sample_layers(1,2) m] l m(2) by blast
qed

text \<open>A limit whose name is a member of \<^verbatim>\<open>Object.prototype\<close> is lost when the upper budget does not have that key: the look-up
  finds the inherited function, which is kept instead of the limit and has no JSON form.\<close>

theorem inherited_budget_name_is_lost:
  assumes "k \<in> set inherited_members" "map_of merged k = None"
  shows "limit_at (restrictiveBudget (BObj merged) (BObj [(k, BNum n)])) [k] = None \<and>
    prop_of (budget_json (restrictiveBudget (BObj merged) (BObj [(k, BNum n)]))) k = JUndef"
proof
  have r: "restrictiveBudget (BObj merged) (BObj [(k, BNum n)]) = BObj (put_member k BFunction merged)"
    using assms by (simp add: member_def)
  show "limit_at (restrictiveBudget (BObj merged) (BObj [(k, BNum n)])) [k] = None"
    unfolding r by simp
  show "prop_of (budget_json (restrictiveBudget (BObj merged) (BObj [(k, BNum n)]))) k = JUndef"
    unfolding r by (simp add: prop_of_def map_of_map [of budget_json, unfolded comp_def] split: option.splits)
qed

subsection \<open>A stored policy reads back\<close>

lemma valid_entry_trim: "valid_entry s \<Longrightarrow> valid_entry (trim s)"
  using set_trim [of s] length_trim [of s] by (auto simp: valid_entry_def list_ex_iff)

lemma normalizedStringList_again:
  assumes "normalizedStringList v key = Inr r"
  shows "normalizedStringList (strings_json r) key = Inr r"
proof (cases r)
  case None
  then show ?thesis by (simp add: strings_json_def normalizedStringList_def)
next
  case (Some ys)
  obtain vs where v: "v = JArr vs" using assms Some by (cases v) (auto simp: normalizedStringList_def)
  obtain vals where m: "mapR (list_entry key) vs = Inr vals" "ys = sort (nub vals)" "length vs \<le> 128"
    using assms Some v by (auto simp: normalizedStringList_def throwIf_eq_Inr bindR_eq_Inr)
  have "list_entry key (JStr y) = Inr y" if "y \<in> set ys" for y
  proof -
    have "y \<in> set vals" using that m(2) by simp
    then obtain e where "list_entry key e = Inr y" using mapR_in_set [OF m(1)] by blast
    then obtain s where "y = trim s" "valid_entry s"
      by (cases e) (auto simp: list_entry_def throwIf_eq_Inr)
    then show ?thesis using valid_entry_trim by (simp add: list_entry_def)
  qed
  then have "mapR (list_entry key) (map JStr ys) = Inr ys"
    by (induction ys) auto
  moreover have "length ys \<le> 128" using m length_nub [of vals] mapR_length [OF m(1)] by simp
  moreover have "sort (nub ys) = ys" using m(2) by (simp add: nub_distinct sorted_sort_id)
  ultimately show ?thesis by (simp add: Some strings_json_def normalizedStringList_def)
qed

lemma mapR_pairs_again:
  assumes "mapR (\<lambda>(k, v). throwIf (\<not> P k) e (bindR (f v) (\<lambda>b. Inr (k, b)))) entries = Inr members"
    "\<And>k v b. (k, v) \<in> set entries \<Longrightarrow> P k \<Longrightarrow> f v = Inr b \<Longrightarrow> f (g b) = Inr b"
  shows "mapR (\<lambda>(k, v). throwIf (\<not> P k) e (bindR (f v) (\<lambda>b. Inr (k, b)))) (map (\<lambda>(k, b). (k, g b)) members) = Inr members"
  using assms
proof (induction entries arbitrary: members)
  case (Cons e es)
  then show ?case by (cases e) (fastforce simp: bindR_eq_Inr throwIf_eq_Inr)
qed auto

lemma normalizedBudget_again: "normalizedBudget depth v = Inr b \<Longrightarrow> normalizedBudget depth (budget_json b) = Inr b"
proof (induction depth v arbitrary: b rule: normalizedBudget.induct)
  case (3 depth entries)
  let ?one = "\<lambda>(key, child). throwIf (\<not> budget_key key) (BadRequest ''budget contains an invalid key'')
       (bindR (normalizedBudget (Suc depth) child) (\<lambda>b. Inr (key, b)))"
  from "3.prems" obtain members where
    b: "b = BObj members" "\<not> 4 \<le> depth" "\<not> 32 < length entries" and m: "mapR ?one entries = Inr members"
    by (auto simp: bindR_eq_Inr throwIf_eq_Inr)
  have "mapR ?one (map (\<lambda>(k, b). (k, budget_json b)) members) = Inr members"
  proof (rule mapR_pairs_again [OF m])
    fix k v b
    assume "(k, v) \<in> set entries" "budget_key k" "normalizedBudget (Suc depth) v = Inr b"
    then show "normalizedBudget (Suc depth) (budget_json b) = Inr b"
      using "3.IH" [OF b(2,3) _ refl] by blast
  qed
  then show ?case using b mapR_length [OF m] by simp
qed (auto simp: throwIf_eq_Inr)

lemma prop_opt_member:
  "prop_of (JObj (opt_member k v @ rest)) k' = (if k' = k \<and> v \<noteq> JUndef then v else prop_of (JObj rest) k')"
  "prop_of (JObj (opt_member k v)) k' = (if k' = k then v else JUndef)"
  "prop_of (JObj []) k' = JUndef"
  by (auto simp: prop_of_def opt_member_def)

lemma prop_policy_json:
  "prop_of (policy_json p) ''modelDeny'' = strings_json (po_modelDeny p)"
  "prop_of (policy_json p) ''modelAllow'' = strings_json (po_modelAllow p)"
  "prop_of (policy_json p) ''toolDeny'' = strings_json (po_toolDeny p)"
  "prop_of (policy_json p) ''requireApprovalForWrites'' = approval_json (po_requireApprovalForWrites p)"
  "prop_of (policy_json p) ''allowPersonalModelConnections'' = consent_json (po_allowPersonalModelConnections p)"
  "prop_of (policy_json p) ''budget'' = budget_json (po_budget p)"
  by (simp_all add: policy_json_def prop_opt_member)

lemma policy_json_known:
  "\<exists>members. policy_json p = JObj members \<and> filter (\<lambda>k. k \<notin> set supported_fields) (map fst members) = []"
  by (auto simp: policy_json_def opt_member_def supported_fields_def)

lemma normalizePolicy_stable:
  assumes "normalizePolicy v = Inr p"
  shows "normalizePolicy (policy_json p) = Inr p"
proof -
  obtain members where kvs: "v = JObj members" using assms by (cases v) (auto simp: normalizePolicy_def)
  have parts: "normalizedStringList (prop_of v ''modelDeny'') ''modelDeny'' = Inr (po_modelDeny p)"
    "normalizedStringList (prop_of v ''modelAllow'') ''modelAllow'' = Inr (po_modelAllow p)"
    "normalizedStringList (prop_of v ''toolDeny'') ''toolDeny'' = Inr (po_toolDeny p)"
    "normalizedBudget 0 (prop_of v ''budget'') = Inr (po_budget p)"
    using assms kvs by (auto simp: normalizePolicy_def Let_def bindR_eq_Inr throwIf_eq_Inr)
  obtain kws where w: "policy_json p = JObj kws" "filter (\<lambda>k. k \<notin> set supported_fields) (map fst kws) = []"
    using policy_json_known by blast
  have a: "(approval_json b \<noteq> JUndef \<and> \<not> is_boolean (approval_json b)) = False" "(approval_json b = JBool True) = b" for b
    by (simp_all add: approval_json_def is_boolean_def)
  have c: "(consent_json d \<noteq> JUndef \<and> \<not> is_boolean (consent_json d)) = False"
    "(case consent_json d of JBool b \<Rightarrow> Some b | _ \<Rightarrow> None) = d" for d
    by (cases d; simp add: consent_json_def is_boolean_def)+
  show ?thesis
    unfolding normalizePolicy_def w(1) jsval.case Let_def w(2)
    unfolding w(1) [symmetric] prop_policy_json a c throwIf_False simp_thms
    using parts(1-3) [THEN normalizedStringList_again] parts(4) [THEN normalizedBudget_again] by simp
qed

text \<open>
  Normalising is stable: the JSON value stored for a policy that normalisation accepted is accepted again and gives
  the same policy, so a policy written once is read unchanged by every later bundle resolution.
\<close>

theorem normalized_policy_reads_back:
  assumes "normalizePolicy v = Inr p"
  shows "normalizePolicy (policy_json p) = Inr p"
  using assms by (rule normalizePolicy_stable)

theorem normalized_policy_reads_back_witness:
  "normalizePolicy sample_lower = Inr sample_lower_policy \<and> normalizePolicy (policy_json sample_lower_policy) = Inr sample_lower_policy"
proof -
  have "normalizePolicy sample_lower = Inr sample_lower_policy" by code_simp
  with normalized_policy_reads_back [OF this] show ?thesis by simp
qed

end
