(* ===== verification/Roles.thy ===== *)
theory Roles
  imports Admin GovernancePolicy
begin

section \<open>Agent roles, teams, assignments and the bundle of a device (roles/roles.service.ts)\<close>

text \<open>
  The tables of the agent organisation extend the world of the store; each table keeps its rows in the order of their creation.
  Every mutation is one audited transaction, the unique and foreign keys of prisma/schema.prisma are tested
  where a statement could violate them. \<^verbatim>\<open>resolveBundleForDevice\<close> computes what a device runs. The endpoints of
  roles.controller.ts are the requests of \<^verbatim>\<open>handle\<close>, each with its access check in front of the service call.
\<close>

subsection \<open>Rows\<close>

record Role =
  ro_id :: string
  ro_orgId :: string
  ro_key :: string
  ro_description :: string
  ro_owns :: "string list"
  ro_rejects :: "string list"
  ro_model :: "string option"
  ro_reasoningEffort :: "string option"
  ro_allowTools :: "string list"
  ro_denyTools :: "string list"
  ro_system :: string
  ro_version :: int
  ro_archivedAt :: "time option"

record Team =
  te_id :: string
  te_orgId :: string
  te_name :: string
  te_policy :: jsval

record PersonTeam =
  mb_orgId :: string
  mb_personId :: string
  mb_teamId :: string

record DigitalEmployee =
  de_id :: string
  de_orgId :: string
  de_roleId :: string
  de_personId :: "string option"
  de_teamId :: "string option"
  de_name :: string
  de_status :: string
  de_policy :: jsval

text \<open>\<^verbatim>\<open>w_orgPolicy\<close> is the policy column of the organisations.\<close>

record ('g, 'd) RolesWorld = "('g, 'd) World" +
  w_roles :: "Role list"
  w_teams :: "Team list"
  w_members :: "PersonTeam list"
  w_assignments :: "DigitalEmployee list"
  w_orgPolicy :: "string \<Rightarrow> jsval"

type_synonym ('g, 'd, 'x, 'a) roles_tx =
  "('g, 'd, 'x) RolesWorld_scheme \<Rightarrow> (('a \<times> string \<times> jsval) \<times> ('g, 'd, 'x) RolesWorld_scheme) res"

definition find_role :: "string \<Rightarrow> Role list \<Rightarrow> Role option" where
  "find_role i rs = find (\<lambda>r. ro_id r = i) rs"

definition find_team :: "string \<Rightarrow> Team list \<Rightarrow> Team option" where
  "find_team i ts = find (\<lambda>t. te_id t = i) ts"

definition find_assignment :: "string \<Rightarrow> DigitalEmployee list \<Rightarrow> DigitalEmployee option" where
  "find_assignment i ds = find (\<lambda>d. de_id d = i) ds"

definition uniqueViolation :: http_error where
  "uniqueViolation = PlainError ''Unique constraint failed''"

definition foreignKeyViolation :: http_error where
  "foreignKeyViolation = PlainError ''Foreign key constraint violated''"

definition recordNotFound :: http_error where
  "recordNotFound = PlainError ''Record to update not found.''"

definition org_exists :: "string \<Rightarrow> ('g, 'd, 'x) World_scheme \<Rightarrow> bool" where
  "org_exists orgId w \<longleftrightarrow> find_org (w_orgs w) orgId \<noteq> None"

subsection \<open>The model and effort of a role\<close>

record RoleInput =
  ri_key :: string
  ri_description :: "string option"
  ri_owns :: "string list option"
  ri_rejects :: "string list option"
  ri_model :: "string option"
  ri_reasoningEffort :: "string option"
  ri_allowTools :: "string list option"
  ri_denyTools :: "string list option"
  ri_system :: "string option"

definition normalizedRoleModel :: "env \<Rightarrow> string option \<Rightarrow> string option res" where
  "normalizedRoleModel env value =
     (let model = trim (nullish value [])
      in if model = [] then Inr None
         else bindR (rethrow (\<lambda>e. BadRequest (error_message e)) (resolveEnrollmentModel (Some model) env)) (\<lambda>m. Inr (Some m)))"

definition normalizedRoleReasoningEffort :: "string option \<Rightarrow> string option \<Rightarrow> string option res" where
  "normalizedRoleReasoningEffort value model =
     (let effort = trim (nullish value [])
      in if effort = [] then Inr None
         else case truthyStr model of
           None \<Rightarrow> Inl (BadRequest ''an Agent reasoning effort requires an explicit Agent model'')
         | Some m \<Rightarrow>
             throwIf (effort \<notin> set (managedModelThinkingEfforts m))
               (BadRequest (''model '' @ [CHR 0x27] @ m @ [CHR 0x27] @ '' does not support Agent reasoning effort '' @
                  [CHR 0x27] @ effort @ [CHR 0x27]))
               (Inr (Some effort)))"

subsection \<open>Roles\<close>

definition resource :: "string \<Rightarrow> (string \<times> jsval) list \<Rightarrow> jsval" where
  "resource i rest = JObj ((''resourceId'', JStr i) # rest)"

definition createRole_tx ::
  "string \<Rightarrow> string \<Rightarrow> RoleInput \<Rightarrow> string option \<Rightarrow> string option \<Rightarrow> ('g, 'd, 'x, Role) roles_tx" where
  "createRole_tx newId orgId input model effort w =
     (let role = \<lparr>ro_id = newId, ro_orgId = orgId, ro_key = ri_key input, ro_description = nullish (ri_description input) [],
                  ro_owns = nullish (ri_owns input) [], ro_rejects = nullish (ri_rejects input) [], ro_model = model,
                  ro_reasoningEffort = effort, ro_allowTools = nullish (ri_allowTools input) [],
                  ro_denyTools = nullish (ri_denyTools input) [], ro_system = nullish (ri_system input) [],
                  ro_version = 1, ro_archivedAt = None\<rparr>
      in throwIf (\<exists>r \<in> set (w_roles w). ro_orgId r = orgId \<and> ro_key r = ri_key input) uniqueViolation
        (throwIf (\<not> org_exists orgId w) foreignKeyViolation
        (Inr ((role, orgId, resource newId [(''key'', JStr (ri_key input))]), w\<lparr>w_roles := w_roles w @ [role]\<rparr>))))"

definition createRole ::
  "('g, 'd) Sys \<Rightarrow> LicenseService \<Rightarrow> string \<Rightarrow> string \<Rightarrow> time \<Rightarrow> string \<Rightarrow> RoleInput \<Rightarrow> AuthedUser \<Rightarrow>
     (('g, 'd, 'x) RolesWorld_scheme, Role) act" where
  "createRole sy ls auId newId now orgId input actor =
     thenA (liftR (entitlement_assert ls (num (now div 1000)) ''agent-org''))
    (bindA (liftR (normalizedRoleModel (sy_env sy) (ri_model input))) (\<lambda>model.
     bindA (liftR (normalizedRoleReasoningEffort (ri_reasoningEffort input) model)) (\<lambda>effort.
     auditTx (sy_sha256 sy) auId now ''role.create'' (admin_actor actor) (us_id actor)
       (createRole_tx newId orgId input model effort))))"

definition listRoles ::
  "(string \<Rightarrow> 'k::linorder) \<Rightarrow> string \<Rightarrow> (('g, 'd, 'x) RolesWorld_scheme, Role list) act" where
  "listRoles collate orgId =
     readS (\<lambda>w. sort_key (\<lambda>r. collate (ro_key r)) (filter (\<lambda>r. ro_orgId r = orgId \<and> ro_archivedAt r = None) (w_roles w)))"

text \<open>The body of an update: a missing member is None, \<^verbatim>\<open>null\<close> is \<^term>\<open>Some None\<close>.\<close>

record RoleUpdate =
  ru_description :: "string option"
  ru_owns :: "string list option"
  ru_rejects :: "string list option"
  ru_model :: "string option option"
  ru_reasoningEffort :: "string option option"
  ru_allowTools :: "string list option"
  ru_denyTools :: "string list option"
  ru_system :: "string option"

definition updated_role :: "RoleUpdate \<Rightarrow> string option \<Rightarrow> string option \<Rightarrow> Role \<Rightarrow> Role" where
  "updated_role input model effort r =
     r\<lparr>ro_version := ro_version r + 1,
       ro_description := nullish (ru_description input) (ro_description r),
       ro_owns := nullish (ru_owns input) (ro_owns r),
       ro_rejects := nullish (ru_rejects input) (ro_rejects r),
       ro_model := (if ru_model input \<noteq> None then model else ro_model r),
       ro_reasoningEffort := (if ru_model input \<noteq> None \<or> ru_reasoningEffort input \<noteq> None then effort else ro_reasoningEffort r),
       ro_allowTools := nullish (ru_allowTools input) (ro_allowTools r),
       ro_denyTools := nullish (ru_denyTools input) (ro_denyTools r),
       ro_system := nullish (ru_system input) (ro_system r)\<rparr>"

definition updateRole_tx :: "env \<Rightarrow> string \<Rightarrow> RoleUpdate \<Rightarrow> ('g, 'd, 'x, Role) roles_tx" where
  "updateRole_tx env i input w =
     (case find_role i (w_roles w) of
        None \<Rightarrow> Inl (NotFound ''role not found'')
      | Some current \<Rightarrow>
          bindR (case ru_model input of None \<Rightarrow> Inr (ro_model current) | Some m \<Rightarrow> normalizedRoleModel env m) (\<lambda>model.
          bindR (normalizedRoleReasoningEffort (nullish (ru_reasoningEffort input) (ro_reasoningEffort current)) model) (\<lambda>effort.
          let role = updated_role input model effort current
          in Inr ((role, ro_orgId role, resource (ro_id role) [(''version'', JNum (num (ro_version role)))]),
                  w\<lparr>w_roles := update_where (\<lambda>r. ro_id r = i) (\<lambda>_. role) (w_roles w)\<rparr>))))"

definition updateRole ::
  "('g, 'd) Sys \<Rightarrow> string \<Rightarrow> time \<Rightarrow> string \<Rightarrow> RoleUpdate \<Rightarrow> AuthedUser \<Rightarrow> (('g, 'd, 'x) RolesWorld_scheme, Role) act" where
  "updateRole sy auId now i input actor =
     auditTx (sy_sha256 sy) auId now ''role.update'' (admin_actor actor) (us_id actor) (updateRole_tx (sy_env sy) i input)"

definition archiveRole_tx :: "string \<Rightarrow> time \<Rightarrow> ('g, 'd, 'x, unit) roles_tx" where
  "archiveRole_tx i now w =
     (case find_role i (w_roles w) of
        None \<Rightarrow> Inl recordNotFound
      | Some role \<Rightarrow>
          Inr (((), ro_orgId role, resource (ro_id role) []),
               w\<lparr>w_roles := update_where (\<lambda>r. ro_id r = i) (\<lambda>r. r\<lparr>ro_archivedAt := Some now\<rparr>) (w_roles w)\<rparr>))"

definition archiveRole ::
  "('g, 'd) Sys \<Rightarrow> string \<Rightarrow> time \<Rightarrow> string \<Rightarrow> AuthedUser \<Rightarrow> (('g, 'd, 'x) RolesWorld_scheme, unit) act" where
  "archiveRole sy auId now i actor =
     auditTx (sy_sha256 sy) auId now ''role.archive'' (admin_actor actor) (us_id actor) (archiveRole_tx i now)"

subsection \<open>Persons and teams\<close>

definition createPerson_tx :: "string \<Rightarrow> string \<Rightarrow> string \<Rightarrow> string option \<Rightarrow> ('g, 'd, 'x, Person) roles_tx" where
  "createPerson_tx newId orgId email name w =
     (let person = \<lparr>pe_id = newId, pe_orgId = orgId, pe_name = nullish name [], pe_email = email\<rparr>
      in throwIf (\<exists>p \<in> set (w_persons w). pe_orgId p = orgId \<and> pe_email p = email) uniqueViolation
        (throwIf (\<not> org_exists orgId w) foreignKeyViolation
        (Inr ((person, orgId, resource newId []), w\<lparr>w_persons := w_persons w @ [person]\<rparr>))))"

definition createPerson ::
  "('g, 'd) Sys \<Rightarrow> string \<Rightarrow> string \<Rightarrow> time \<Rightarrow> string \<Rightarrow> string \<Rightarrow> string option \<Rightarrow> AuthedUser \<Rightarrow>
     (('g, 'd, 'x) RolesWorld_scheme, Person) act" where
  "createPerson sy auId newId now orgId email name actor =
     auditTx (sy_sha256 sy) auId now ''person.create'' (admin_actor actor) (us_id actor) (createPerson_tx newId orgId email name)"

text \<open>\<^verbatim>\<open>orderBy name, email\<close>: two stable sorts; each person comes with the number of their devices.\<close>

definition listPersons ::
  "(string \<Rightarrow> 'k::linorder) \<Rightarrow> string \<Rightarrow> (('g, 'd, 'x) RolesWorld_scheme, (Person \<times> nat) list) act" where
  "listPersons collate orgId =
     readS (\<lambda>w. map (\<lambda>p. (p, count_where (\<lambda>d. dv_personId d = Some (pe_id p)) (w_devices w)))
       (sort_key (\<lambda>p. collate (pe_name p)) (sort_key (\<lambda>p. collate (pe_email p))
          (filter (\<lambda>p. pe_orgId p = orgId) (w_persons w)))))"

definition createTeam_tx :: "string \<Rightarrow> string \<Rightarrow> string \<Rightarrow> ('g, 'd, 'x, Team) roles_tx" where
  "createTeam_tx newId orgId name w =
     (let team = \<lparr>te_id = newId, te_orgId = orgId, te_name = name, te_policy = JObj []\<rparr>
      in throwIf (\<exists>t \<in> set (w_teams w). te_orgId t = orgId \<and> te_name t = name) uniqueViolation
        (throwIf (\<not> org_exists orgId w) foreignKeyViolation
        (Inr ((team, orgId, resource newId []), w\<lparr>w_teams := w_teams w @ [team]\<rparr>))))"

definition createTeam ::
  "('g, 'd) Sys \<Rightarrow> string \<Rightarrow> string \<Rightarrow> time \<Rightarrow> string \<Rightarrow> string \<Rightarrow> AuthedUser \<Rightarrow> (('g, 'd, 'x) RolesWorld_scheme, Team) act" where
  "createTeam sy auId newId now orgId name actor =
     auditTx (sy_sha256 sy) auId now ''team.create'' (admin_actor actor) (us_id actor) (createTeam_tx newId orgId name)"

definition addTeamMember_tx :: "string \<Rightarrow> string \<Rightarrow> ('g, 'd, 'x, unit) roles_tx" where
  "addTeamMember_tx teamId personId w =
     (case find_team teamId (w_teams w) of
        None \<Rightarrow> Inl (NotFound ''team not found'')
      | Some team \<Rightarrow>
          (case find_person personId (w_persons w) of
             None \<Rightarrow> Inl (NotFound ''person not found'')
           | Some person \<Rightarrow>
               throwIf (te_orgId team \<noteq> pe_orgId person) (BadRequest ''person and team must belong to the same organization'')
              (Inr (((), te_orgId team, resource teamId [(''personId'', JStr personId)]),
                 (if \<exists>m \<in> set (w_members w). mb_personId m = personId \<and> mb_teamId m = teamId then w
                  else w\<lparr>w_members := w_members w @ [\<lparr>mb_orgId = te_orgId team, mb_personId = personId, mb_teamId = teamId\<rparr>]\<rparr>)))))"

definition addTeamMember ::
  "('g, 'd) Sys \<Rightarrow> string \<Rightarrow> time \<Rightarrow> string \<Rightarrow> string \<Rightarrow> AuthedUser \<Rightarrow> (('g, 'd, 'x) RolesWorld_scheme, unit) act" where
  "addTeamMember sy auId now teamId personId actor =
     auditTx (sy_sha256 sy) auId now ''team.member.add'' (admin_actor actor) (us_id actor) (addTeamMember_tx teamId personId)"

definition setTeamPolicy_tx :: "string \<Rightarrow> Policy \<Rightarrow> ('g, 'd, 'x, Team) roles_tx" where
  "setTeamPolicy_tx teamId normalized w =
     (case find_team teamId (w_teams w) of
        None \<Rightarrow> Inl recordNotFound
      | Some t \<Rightarrow>
          let team = t\<lparr>te_policy := policy_json normalized\<rparr>
          in Inr ((team, te_orgId team, resource teamId []),
                  w\<lparr>w_teams := update_where (\<lambda>t. te_id t = teamId) (\<lambda>t. t\<lparr>te_policy := policy_json normalized\<rparr>) (w_teams w)\<rparr>))"

definition setTeamPolicy ::
  "('g, 'd) Sys \<Rightarrow> string \<Rightarrow> time \<Rightarrow> string \<Rightarrow> jsval \<Rightarrow> AuthedUser \<Rightarrow> (('g, 'd, 'x) RolesWorld_scheme, Team) act" where
  "setTeamPolicy sy auId now teamId policy actor =
     bindA (liftR (normalizePolicy policy)) (\<lambda>normalized.
     auditTx (sy_sha256 sy) auId now ''team.policy'' (admin_actor actor) (us_id actor) (setTeamPolicy_tx teamId normalized))"

subsection \<open>Assignments\<close>

record AssignmentInput =
  ai_personId :: "string option"
  ai_teamId :: "string option"
  ai_name :: "string option"

definition createAssignment_tx :: "string \<Rightarrow> string \<Rightarrow> string \<Rightarrow> AssignmentInput \<Rightarrow> ('g, 'd, 'x, DigitalEmployee) roles_tx" where
  "createAssignment_tx newId orgId roleId opts w =
     (let person = Option.bind (truthyStr (ai_personId opts)) (\<lambda>i. find_person i (w_persons w));
          team = Option.bind (truthyStr (ai_teamId opts)) (\<lambda>i. find_team i (w_teams w));
          de = \<lparr>de_id = newId, de_orgId = orgId, de_roleId = roleId, de_personId = ai_personId opts, de_teamId = ai_teamId opts,
                de_name = nullish (ai_name opts) [], de_status = ''active'', de_policy = JObj []\<rparr>
      in case find_role roleId (w_roles w) of
           None \<Rightarrow> Inl (NotFound ''role not found'')
         | Some role \<Rightarrow>
             throwIf (truthyStr (ai_personId opts) \<noteq> None \<and> person = None) (NotFound ''person not found'')
            (throwIf (truthyStr (ai_teamId opts) \<noteq> None \<and> team = None) (NotFound ''team not found'')
            (throwIf (ro_orgId role \<noteq> orgId \<or> (\<exists>p \<in> set_option person. pe_orgId p \<noteq> orgId) \<or>
                      (\<exists>t \<in> set_option team. te_orgId t \<noteq> orgId))
               (BadRequest ''role, person, team, and assignment must belong to the same organization'')
            (throwIf (ai_personId opts = Some [] \<or> ai_teamId opts = Some []) foreignKeyViolation
            (Inr ((de, orgId, resource newId [(''roleId'', JStr roleId),
                    (''personId'', (case ai_personId opts of None \<Rightarrow> JUndef | Some i \<Rightarrow> JStr i)),
                    (''teamId'', (case ai_teamId opts of None \<Rightarrow> JUndef | Some i \<Rightarrow> JStr i))]),
                  w\<lparr>w_assignments := w_assignments w @ [de]\<rparr>))))))"

definition createAssignment ::
  "('g, 'd) Sys \<Rightarrow> string \<Rightarrow> string \<Rightarrow> time \<Rightarrow> string \<Rightarrow> string \<Rightarrow> AssignmentInput \<Rightarrow> AuthedUser \<Rightarrow>
     (('g, 'd, 'x) RolesWorld_scheme, DigitalEmployee) act" where
  "createAssignment sy auId newId now orgId roleId opts actor =
     thenA (throwUnless (truthyStr (ai_personId opts) \<noteq> None \<or> truthyStr (ai_teamId opts) \<noteq> None)
              (BadRequest ''assignment requires a personId or teamId''))
    (auditTx (sy_sha256 sy) auId now ''assignment.create'' (admin_actor actor) (us_id actor)
       (createAssignment_tx newId orgId roleId opts))"

definition deleteAssignment_tx :: "string \<Rightarrow> ('g, 'd, 'x, unit) roles_tx" where
  "deleteAssignment_tx i w =
     (case find_assignment i (w_assignments w) of
        None \<Rightarrow> Inl (PlainError ''Record to delete does not exist.'')
      | Some de \<Rightarrow>
          Inr (((), de_orgId de, resource i []), w\<lparr>w_assignments := filter (\<lambda>d. de_id d \<noteq> i) (w_assignments w)\<rparr>))"

definition deleteAssignment ::
  "('g, 'd) Sys \<Rightarrow> string \<Rightarrow> time \<Rightarrow> string \<Rightarrow> AuthedUser \<Rightarrow> (('g, 'd, 'x) RolesWorld_scheme, unit) act" where
  "deleteAssignment sy auId now i actor =
     auditTx (sy_sha256 sy) auId now ''assignment.delete'' (admin_actor actor) (us_id actor) (deleteAssignment_tx i)"

definition updated_assignment :: "string option \<Rightarrow> Policy option \<Rightarrow> DigitalEmployee \<Rightarrow> DigitalEmployee" where
  "updated_assignment status policy d =
     d\<lparr>de_status := nullish (truthyStr status) (de_status d),
       de_policy := (case policy of None \<Rightarrow> de_policy d | Some p \<Rightarrow> policy_json p)\<rparr>"

definition updateAssignment_tx :: "string \<Rightarrow> string option \<Rightarrow> Policy option \<Rightarrow> ('g, 'd, 'x, DigitalEmployee) roles_tx" where
  "updateAssignment_tx i status policy w =
     (case find_assignment i (w_assignments w) of
        None \<Rightarrow> Inl recordNotFound
      | Some d \<Rightarrow>
          let de = updated_assignment status policy d
          in Inr ((de, de_orgId de, resource i [(''status'', JStr (de_status de))]),
                  w\<lparr>w_assignments := update_where (\<lambda>d. de_id d = i) (updated_assignment status policy) (w_assignments w)\<rparr>))"

definition updateAssignment ::
  "('g, 'd) Sys \<Rightarrow> string \<Rightarrow> time \<Rightarrow> string \<Rightarrow> string option \<Rightarrow> jsval \<Rightarrow> AuthedUser \<Rightarrow>
     (('g, 'd, 'x) RolesWorld_scheme, DigitalEmployee) act" where
  "updateAssignment sy auId now i status policy actor =
     bindA (liftR (if policy = JUndef then Inr None else bindR (normalizePolicy policy) (\<lambda>p. Inr (Some p)))) (\<lambda>normalized.
     auditTx (sy_sha256 sy) auId now ''assignment.update'' (admin_actor actor) (us_id actor) (updateAssignment_tx i status normalized))"

definition setOrgPolicy_tx :: "string \<Rightarrow> Policy \<Rightarrow> ('g, 'd, 'x, jsval) roles_tx" where
  "setOrgPolicy_tx orgId normalized w =
     throwIf (\<not> org_exists orgId w) recordNotFound
    (Inr ((policy_json normalized, orgId, resource orgId []), w\<lparr>w_orgPolicy := (w_orgPolicy w)(orgId := policy_json normalized)\<rparr>))"

definition setOrgPolicy ::
  "('g, 'd) Sys \<Rightarrow> string \<Rightarrow> time \<Rightarrow> string \<Rightarrow> jsval \<Rightarrow> AuthedUser \<Rightarrow> (('g, 'd, 'x) RolesWorld_scheme, jsval) act" where
  "setOrgPolicy sy auId now orgId policy actor =
     bindA (liftR (normalizePolicy policy)) (\<lambda>normalized.
     auditTx (sy_sha256 sy) auId now ''org.policy'' (admin_actor actor) (us_id actor) (setOrgPolicy_tx orgId normalized))"

subsection \<open>Views\<close>

text \<open>The relations of the schema join on the id and the organisation.\<close>

definition join_role :: "DigitalEmployee \<Rightarrow> ('g, 'd, 'x) RolesWorld_scheme \<Rightarrow> Role option" where
  "join_role d w = find (\<lambda>r. ro_id r = de_roleId d \<and> ro_orgId r = de_orgId d) (w_roles w)"

definition join_person :: "string option \<Rightarrow> string \<Rightarrow> ('g, 'd, 'x) World_scheme \<Rightarrow> Person option" where
  "join_person personId orgId w = find (\<lambda>p. Some (pe_id p) = personId \<and> pe_orgId p = orgId) (w_persons w)"

definition join_team :: "DigitalEmployee \<Rightarrow> ('g, 'd, 'x) RolesWorld_scheme \<Rightarrow> Team option" where
  "join_team d w = find (\<lambda>t. Some (te_id t) = de_teamId d \<and> te_orgId t = de_orgId d) (w_teams w)"

definition missingRelation :: http_error where
  "missingRelation = PlainError ''Inconsistent query result: Field role is required to return data, got `null` instead.''"

definition with_role :: "('g, 'd, 'x) RolesWorld_scheme \<Rightarrow> DigitalEmployee \<Rightarrow> (DigitalEmployee \<times> Role) res" where
  "with_role w d = (case join_role d w of None \<Rightarrow> Inl missingRelation | Some r \<Rightarrow> Inr (d, r))"

record DigitalEmployeeView =
  dw_id :: string
  dw_name :: string
  dw_status :: string
  dw_role :: string
  dw_person :: "string option"
  dw_team :: "string option"

definition listDigitalEmployees :: "string \<Rightarrow> (('g, 'd, 'x) RolesWorld_scheme, DigitalEmployeeView list) act" where
  "listDigitalEmployees orgId =
     bindA (readS (\<lambda>w. bindR (mapR (with_role w) (rev (filter (\<lambda>d. de_orgId d = orgId) (w_assignments w)))) (\<lambda>rows.
       Inr (map (\<lambda>(d, r). \<lparr>dw_id = de_id d, dw_name = de_name d, dw_status = de_status d, dw_role = ro_key r,
          dw_person = map_option pe_email (join_person (de_personId d) (de_orgId d) w),
          dw_team = map_option te_name (join_team d w)\<rparr>) rows)))) liftR"

subsection \<open>The bundle of a device\<close>

record BundleRole =
  br_name :: string
  br_description :: string
  br_owns :: "string list"
  br_rejects :: "string list"
  br_model :: "string option"
  br_reasoning_effort :: "string option"
  br_allow_tools :: "string list"
  br_deny_tools :: "string list"
  br_system :: string

definition bundle_role :: "Role \<Rightarrow> BundleRole" where
  "bundle_role r =
     \<lparr>br_name = ro_key r, br_description = ro_description r, br_owns = ro_owns r, br_rejects = ro_rejects r,
      br_model = ro_model r, br_reasoning_effort = ro_reasoningEffort r, br_allow_tools = ro_allowTools r,
      br_deny_tools = ro_denyTools r, br_system = ro_system r\<rparr>"

record Bundle =
  bu_version :: number
  bu_org_policy :: Policy
  bu_roles :: "BundleRole list"

text \<open>The merged policy as an object, in the order \<^verbatim>\<open>mergePolicy\<close> adds its members.\<close>

definition merged_json :: "Policy \<Rightarrow> jsval" where
  "merged_json p = JObj
     [(''modelDeny'', strings_json (po_modelDeny p)), (''toolDeny'', strings_json (po_toolDeny p)),
      (''modelAllow'', strings_json (po_modelAllow p)),
      (''requireApprovalForWrites'', approval_json (po_requireApprovalForWrites p)),
      (''allowPersonalModelConnections'', consent_json (po_allowPersonalModelConnections p)),
      (''budget'', budget_json (po_budget p))]"

definition is_hex :: "char \<Rightarrow> bool" where
  "is_hex c \<longleftrightarrow> is_digit c \<or> (97 \<le> code c \<and> code c \<le> 102) \<or> (65 \<le> code c \<and> code c \<le> 70)"

text \<open>\<^verbatim>\<open>Number.parseInt(s, 16)\<close> of a digest prefix\<close>

definition parseHex :: "string \<Rightarrow> number" where
  "parseHex s = (let ds = takeWhile is_hex s in if ds = [] then NaN else num (int (digits_val 16 hex_digit ds)))"

definition bundle_version :: "(string \<Rightarrow> string) \<Rightarrow> Policy \<Rightarrow> Role list \<Rightarrow> number" where
  "bundle_version H policy roles =
     parseHex (take 8 (H (json_text (JObj
       [(''policy'', merged_json policy),
        (''roles'', JArr (map (\<lambda>r. JObj [(''id'', JStr (ro_id r)), (''version'', JNum (num (ro_version r)))]) roles))]))))"

text \<open>\<^verbatim>\<open>policy ?? {}\<close>\<close>

definition policy_or_empty :: "jsval \<Rightarrow> jsval" where
  "policy_or_empty v = (if v = JNull \<or> v = JUndef then JObj [] else v)"

definition team_ids :: "Person \<Rightarrow> ('g, 'd, 'x) RolesWorld_scheme \<Rightarrow> string list" where
  "team_ids person w = map mb_teamId (filter (\<lambda>m. mb_personId m = pe_id person \<and> mb_orgId m = pe_orgId person) (w_members w))"

definition device_assignments :: "Device \<Rightarrow> string list \<Rightarrow> ('g, 'd, 'x) RolesWorld_scheme \<Rightarrow> DigitalEmployee list" where
  "device_assignments device teamIds w =
     filter (\<lambda>d. de_orgId d = dv_orgId device \<and> de_status d = ''active'' \<and>
       (de_personId d = dv_personId device \<or> (\<exists>t \<in> set teamIds. de_teamId d = Some t))) (w_assignments w)"

definition bound_elsewhere :: "('g, 'd, 'x) RolesWorld_scheme \<Rightarrow> Device \<Rightarrow> DigitalEmployee \<times> Role \<Rightarrow> bool" where
  "bound_elsewhere w device = (\<lambda>(d, r). ro_orgId r \<noteq> dv_orgId device \<or>
     (\<exists>p \<in> set_option (join_person (de_personId d) (de_orgId d) w). pe_orgId p \<noteq> dv_orgId device) \<or>
     (\<exists>t \<in> set_option (join_team d w). te_orgId t \<noteq> dv_orgId device))"

definition bundle_of ::
  "(string \<Rightarrow> string) \<Rightarrow> (string \<Rightarrow> 'k::linorder) \<Rightarrow> jsval \<Rightarrow> Team list \<Rightarrow> (DigitalEmployee \<times> Role) list \<Rightarrow> Bundle res" where
  "bundle_of H collate orgPolicy teams assignments =
     (let applicable = filter (\<lambda>(d, r). ro_archivedAt r = None) assignments;
          roles = sort_key (\<lambda>r. collate (ro_id r)) (nub (map snd applicable))
      in bindR (mergePolicy (orgPolicy # map (\<lambda>t. policy_or_empty (te_policy t)) teams @
                             map (\<lambda>(d, r). policy_or_empty (de_policy d)) applicable)) (\<lambda>mergedPolicy.
         Inr \<lparr>bu_version = bundle_version H mergedPolicy roles, bu_org_policy = mergedPolicy, bu_roles = map bundle_role roles\<rparr>))"

definition resolveBundleForDevice ::
  "(string \<Rightarrow> string) \<Rightarrow> (string \<Rightarrow> 'k::linorder) \<Rightarrow> string \<Rightarrow> (('g, 'd, 'x) RolesWorld_scheme, Bundle) act" where
  "resolveBundleForDevice H collate deviceId =
     bindA (readS (\<lambda>w. map_option (\<lambda>device.
         let person = join_person (dv_personId device) (dv_orgId device) w
         in (device, person, (case person of None \<Rightarrow> [] | Some p \<Rightarrow> team_ids p w),
             policy_or_empty (w_orgPolicy w (dv_orgId device)))) (find_device deviceId (w_devices w)))) (\<lambda>found.
     case found of
       None \<Rightarrow> throwA (NotFound ''device not found'')
     | Some (device, person, teamIds, orgPolicy) \<Rightarrow>
         (case (truthyStr (dv_personId device), person) of
            (Some _, Some p) \<Rightarrow>
              thenA (throwUnless (pe_orgId p = dv_orgId device) (Unauthorized ''device organization binding is invalid''))
             (bindA (readS (\<lambda>w. bindR (mapR (with_role w) (device_assignments device teamIds w)) (\<lambda>as.
                       Inr (as, list_ex (bound_elsewhere w device) as)))) (\<lambda>read. bindA (liftR read) (\<lambda>(assignments, elsewhere).
              bindA (if teamIds = [] then retA []
                     else readS (\<lambda>w. filter (\<lambda>t. te_id t \<in> set teamIds \<and> te_orgId t = dv_orgId device) (w_teams w))) (\<lambda>teams.
              thenA (throwUnless (length teams = length (nub teamIds)) (Unauthorized ''team organization binding is invalid''))
             (thenA (throwUnless (\<not> elsewhere) (Unauthorized ''Agent assignment organization binding is invalid''))
             (liftR (bundle_of H collate orgPolicy teams assignments)))))))
          | _ \<Rightarrow>
              liftR (bindR (mergePolicy [orgPolicy]) (\<lambda>p.
                Inr \<lparr>bu_version = num 0, bu_org_policy = p, bu_roles = []\<rparr>))))"

definition bundleForBearer ::
  "('g, 'd) Sys \<Rightarrow> (string \<Rightarrow> 'k::linorder) \<Rightarrow> time \<Rightarrow> string option \<Rightarrow> (('g, 'd, 'x) RolesWorld_scheme, Bundle) act" where
  "bundleForBearer sy collate now bearer =
     (case truthyStr bearer of
        None \<Rightarrow> throwA (Unauthorized ''missing token'')
      | Some b \<Rightarrow>
          bindA (readS (\<lambda>w. find_token (sy_sha256 sy b) (w_tokens w))) (\<lambda>dt.
          thenA (liftR (assertTokenUsable now (sy_env sy) None (map_option validatable dt)))
         (case dt of
            None \<Rightarrow> throwA (Unauthorized ''revoked or unknown token'')
          | Some t \<Rightarrow> resolveBundleForDevice (sy_sha256 sy) collate (dt_deviceId t))))"

subsection \<open>The endpoints\<close>

definition orgOf :: "http_error \<Rightarrow> (('g, 'd, 'x) World_scheme \<Rightarrow> string option) \<Rightarrow> (('g, 'd, 'x) World_scheme, string) act" where
  "orgOf missing f = bindA (readS f) (\<lambda>r. case r of None \<Rightarrow> throwA missing | Some orgId \<Rightarrow> retA orgId)"

definition roleOrgId :: "string \<Rightarrow> (('g, 'd, 'x) RolesWorld_scheme, string) act" where
  "roleOrgId i = orgOf (NotFound ''role not found'') (\<lambda>w. map_option ro_orgId (find_role i (w_roles w)))"

definition teamOrgId :: "string \<Rightarrow> (('g, 'd, 'x) RolesWorld_scheme, string) act" where
  "teamOrgId i = orgOf (NotFound ''team not found'') (\<lambda>w. map_option te_orgId (find_team i (w_teams w)))"

definition assignmentOrgId :: "string \<Rightarrow> (('g, 'd, 'x) RolesWorld_scheme, string) act" where
  "assignmentOrgId i = orgOf (NotFound ''assignment not found'') (\<lambda>w. map_option de_orgId (find_assignment i (w_assignments w)))"

definition deviceOrgId :: "string \<Rightarrow> (('g, 'd, 'x) World_scheme, string) act" where
  "deviceOrgId i = orgOf (NotFound ''device not found'') (\<lambda>w. map_option dv_orgId (find_device i (w_devices w)))"

datatype RolesRequest =
    PostRole string RoleInput
  | PatchRole string RoleUpdate
  | DeleteRole string
  | PostPerson string string "string option"
  | PostTeam string string
  | PostMember string string
  | PatchTeamPolicy string jsval
  | PostAssignment string string AssignmentInput
  | DeleteAssignment string
  | PatchAssignment string "string option" jsval
  | PatchOrgPolicy string jsval

definition voidA :: "('w, 'a) act \<Rightarrow> ('w, unit) act" where
  "voidA m = thenA m (retA ())"

definition onlyFor :: "AuthedUser \<Rightarrow> ('w, string) act \<Rightarrow> ('w, 'a) act \<Rightarrow> ('w, unit) act" where
  "onlyFor user orgA m = bindA orgA (\<lambda>orgId. thenA (liftR (assertAdminOrgAccess user orgId)) (voidA m))"

fun handle ::
  "('g, 'd) Sys \<Rightarrow> LicenseService \<Rightarrow> string \<Rightarrow> string \<Rightarrow> time \<Rightarrow> AuthedUser \<Rightarrow> RolesRequest \<Rightarrow>
     (('g, 'd, 'x) RolesWorld_scheme, unit) act" where
  "handle sy ls auId newId now user (PostRole orgId d) = onlyFor user (retA orgId) (createRole sy ls auId newId now orgId d user)"
| "handle sy ls auId newId now user (PatchRole i d) = onlyFor user (roleOrgId i) (updateRole sy auId now i d user)"
| "handle sy ls auId newId now user (DeleteRole i) = onlyFor user (roleOrgId i) (archiveRole sy auId now i user)"
| "handle sy ls auId newId now user (PostPerson orgId email name) =
     onlyFor user (retA orgId) (createPerson sy auId newId now orgId email name user)"
| "handle sy ls auId newId now user (PostTeam orgId name) = onlyFor user (retA orgId) (createTeam sy auId newId now orgId name user)"
| "handle sy ls auId newId now user (PostMember i personId) = onlyFor user (teamOrgId i) (addTeamMember sy auId now i personId user)"
| "handle sy ls auId newId now user (PatchTeamPolicy i policy) = onlyFor user (teamOrgId i) (setTeamPolicy sy auId now i policy user)"
| "handle sy ls auId newId now user (PostAssignment orgId roleId d) =
     onlyFor user (retA orgId) (createAssignment sy auId newId now orgId roleId d user)"
| "handle sy ls auId newId now user (DeleteAssignment i) = onlyFor user (assignmentOrgId i) (deleteAssignment sy auId now i user)"
| "handle sy ls auId newId now user (PatchAssignment i status policy) =
     onlyFor user (assignmentOrgId i) (updateAssignment sy auId now i status policy user)"
| "handle sy ls auId newId now user (PatchOrgPolicy orgId policy) =
     onlyFor user (retA orgId) (setOrgPolicy sy auId now orgId policy user)"

end
