(* ===== verification/AgentOrg.thy ===== *)
theory AgentOrg
  imports Roles
begin

section \<open>What the agent organisation guarantees\<close>

text \<open>
  The properties of roles, teams, assignments and bundles: every request of a tenant administrator leaves the rows of the other
  organisations alone, the references between the tables and the stored policies stay sound, so a bundle can always be
  resolved, and a bundle holds the granted roles only and a policy no wider than the organisation's.
\<close>

subsection \<open>The invariant\<close>

definition readable :: "jsval \<Rightarrow> bool" where
  "readable v \<longleftrightarrow> (\<exists>p. normalizePolicy v = Inr p)"

definition member_ok :: "('g, 'd, 'x) RolesWorld_scheme \<Rightarrow> PersonTeam \<Rightarrow> bool" where
  "member_ok w m \<longleftrightarrow>
     (\<exists>p \<in> set (w_persons w). pe_id p = mb_personId m \<and> pe_orgId p = mb_orgId m) \<and>
     (\<exists>t \<in> set (w_teams w). te_id t = mb_teamId m \<and> te_orgId t = mb_orgId m)"

definition assignment_ok :: "('g, 'd, 'x) RolesWorld_scheme \<Rightarrow> DigitalEmployee \<Rightarrow> bool" where
  "assignment_ok w d \<longleftrightarrow>
     (\<exists>r \<in> set (w_roles w). ro_id r = de_roleId d \<and> ro_orgId r = de_orgId d) \<and>
     (\<forall>i. de_personId d = Some i \<longrightarrow> (\<exists>p \<in> set (w_persons w). pe_id p = i \<and> pe_orgId p = de_orgId d)) \<and>
     (\<forall>i. de_teamId d = Some i \<longrightarrow> (\<exists>t \<in> set (w_teams w). te_id t = i \<and> te_orgId t = de_orgId d)) \<and>
     readable (de_policy d)"

definition agent_org :: "('g, 'd, 'x) RolesWorld_scheme \<Rightarrow> bool" where
  "agent_org w \<longleftrightarrow>
     (\<forall>m \<in> set (w_members w). member_ok w m) \<and> (\<forall>d \<in> set (w_assignments w). assignment_ok w d) \<and>
     (\<forall>t \<in> set (w_teams w). readable (te_policy t)) \<and> (\<forall>i. readable (w_orgPolicy w i)) \<and>
     distinct (map ro_id (w_roles w)) \<and> distinct (map te_id (w_teams w)) \<and> distinct (map de_id (w_assignments w))"

definition fresh_id :: "string \<Rightarrow> ('g, 'd, 'x) RolesWorld_scheme \<Rightarrow> bool" where
  "fresh_id i w \<longleftrightarrow> i \<notin> ro_id ` set (w_roles w) \<and> i \<notin> te_id ` set (w_teams w) \<and> i \<notin> de_id ` set (w_assignments w)"

text \<open>Everything but the rows of organisation \<^verbatim>\<open>o'\<close>, and the tables these handlers never write.\<close>

definition elsewhere where
  "elsewhere o' w =
     ((filter (\<lambda>r. ro_orgId r \<noteq> o') (w_roles w), filter (\<lambda>t. te_orgId t \<noteq> o') (w_teams w),
       filter (\<lambda>m. mb_orgId m \<noteq> o') (w_members w), filter (\<lambda>d. de_orgId d \<noteq> o') (w_assignments w)),
      (filter (\<lambda>p. pe_orgId p \<noteq> o') (w_persons w), (w_orgPolicy w)(o' := JUndef), filter (\<lambda>r. au_orgId r \<noteq> o') (w_audits w)),
      w_orgs w, w_codes w, w_devices w, w_tokens w, w_bindings w, w_secrets w)"

lemma readable_policy_json: "normalizePolicy v = Inr p \<Longrightarrow> readable (policy_json p)"
  unfolding readable_def by (meson normalizePolicy_stable)


subsection \<open>Each transaction touches the organisation it is audited under\<close>

definition confined where
  "confined o' w w' \<longleftrightarrow> agent_org w' \<and> elsewhere o' w' = elsewhere o' w"

text \<open>The references depend on the keys of the referenced rows only.\<close>

definition keys_of where
  "keys_of w = (map (\<lambda>r. (ro_id r, ro_orgId r)) (w_roles w), map (\<lambda>p. (pe_id p, pe_orgId p)) (w_persons w),
     map (\<lambda>t. (te_id t, te_orgId t)) (w_teams w))"

lemma in_pairs: "(a, b) \<in> set (map (\<lambda>r. (f r, g r)) rs) \<longleftrightarrow> (\<exists>r \<in> set rs. f r = a \<and> g r = b)"
  by (auto simp: image_iff)

lemma member_ok_keys:
  "member_ok w m \<longleftrightarrow> (case keys_of w of (rs, ps, ts) \<Rightarrow>
     (mb_personId m, mb_orgId m) \<in> set ps \<and> (mb_teamId m, mb_orgId m) \<in> set ts)"
  unfolding member_ok_def keys_of_def prod.case in_pairs ..

lemma assignment_ok_keys:
  "assignment_ok w d \<longleftrightarrow> (case keys_of w of (rs, ps, ts) \<Rightarrow>
     (de_roleId d, de_orgId d) \<in> set rs \<and> (\<forall>i. de_personId d = Some i \<longrightarrow> (i, de_orgId d) \<in> set ps) \<and>
     (\<forall>i. de_teamId d = Some i \<longrightarrow> (i, de_orgId d) \<in> set ts) \<and> readable (de_policy d))"
  unfolding assignment_ok_def keys_of_def prod.case in_pairs ..

lemma member_ok_mono:
  "set (w_persons w) \<subseteq> set (w_persons w') \<Longrightarrow> set (w_teams w) \<subseteq> set (w_teams w') \<Longrightarrow> member_ok w m \<Longrightarrow> member_ok w' m"
  by (auto simp: member_ok_def)

lemma assignment_ok_mono:
  "set (w_persons w) \<subseteq> set (w_persons w') \<Longrightarrow> set (w_teams w) \<subseteq> set (w_teams w') \<Longrightarrow>
   set (w_roles w) \<subseteq> set (w_roles w') \<Longrightarrow> assignment_ok w d \<Longrightarrow> assignment_ok w' d"
  by (auto simp: assignment_ok_def) blast+

lemma same_keys_ok:
  "keys_of w' = keys_of w \<Longrightarrow> member_ok w' = member_ok w \<and> assignment_ok w' = assignment_ok w"
  by (auto simp: member_ok_keys assignment_ok_keys fun_eq_iff)

lemma map_update_in: "(\<And>r. r \<in> set rs \<Longrightarrow> p r \<Longrightarrow> g (f r) = g r) \<Longrightarrow> map g (update_where p f rs) = map g rs"
  by (induction rs) (auto simp: update_where_def)

lemma filter_update_in:
  "(\<And>r. r \<in> set rs \<Longrightarrow> p r \<Longrightarrow> \<not> q r \<and> \<not> q (f r)) \<Longrightarrow> filter q (update_where p f rs) = filter q rs"
  by (induction rs) (auto simp: update_where_def)

lemma find_unique:
  assumes "find (\<lambda>r. k r = i) rs = Some c" "distinct (map k rs)" "r \<in> set rs" "k r = i"
  shows "r = c"
proof -
  have "c \<in> set rs" "k c = i" using assms(1) by (auto simp: find_Some_iff)
  then show ?thesis using assms(2-4) by (metis distinct_map inj_onD)
qed

lemma readable_empty [simp]: "readable (JObj [])"
  by (simp add: readable_def normalizePolicy_def prop_of_def normalizedStringList_def)

lemma createRole_tx_confined:
  assumes "createRole_tx newId orgId input model effort w = Inr ((x, org, pl), w')" "agent_org w" "fresh_id newId w"
  shows "org = orgId \<and> confined orgId w w'"
proof -
  have w': "w' = w\<lparr>w_roles := w_roles w @ [x]\<rparr>" "ro_id x = newId" "ro_orgId x = orgId" "org = orgId"
    using assms(1) by (clarsimp simp: createRole_tx_def Let_def throwIf_eq_Inr)+
  have "assignment_ok w' d" if "assignment_ok w d" for d using that by (rule assignment_ok_mono [rotated 3]) (auto simp: w')
  moreover have "member_ok w' m" if "member_ok w m" for m using that by (rule member_ok_mono [rotated 2]) (auto simp: w')
  ultimately have "agent_org w'"
    using assms(2,3) by (auto simp: agent_org_def fresh_id_def w')
  then show ?thesis by (simp add: confined_def elsewhere_def w')
qed

lemma createTeam_tx_confined:
  assumes "createTeam_tx newId orgId name w = Inr ((x, org, pl), w')" "agent_org w" "fresh_id newId w"
  shows "org = orgId \<and> confined orgId w w'"
proof -
  have w': "w' = w\<lparr>w_teams := w_teams w @ [x]\<rparr>" "te_id x = newId" "te_orgId x = orgId" "org = orgId"
    "te_policy x = JObj []"
    using assms(1) by (clarsimp simp: createTeam_tx_def Let_def throwIf_eq_Inr)+
  have "assignment_ok w' d" if "assignment_ok w d" for d using that by (rule assignment_ok_mono [rotated 3]) (auto simp: w')
  moreover have "member_ok w' m" if "member_ok w m" for m using that by (rule member_ok_mono [rotated 2]) (auto simp: w')
  ultimately have "agent_org w'"
    using assms(2,3) by (auto simp: agent_org_def fresh_id_def w')
  then show ?thesis by (simp add: confined_def elsewhere_def w')
qed

lemma createPerson_tx_confined:
  assumes "createPerson_tx newId orgId email name w = Inr ((x, org, pl), w')" "agent_org w"
  shows "org = orgId \<and> confined orgId w w'"
proof -
  have w': "w' = w\<lparr>w_persons := w_persons w @ [x]\<rparr>" "pe_orgId x = orgId" "org = orgId"
    using assms(1) by (clarsimp simp: createPerson_tx_def Let_def throwIf_eq_Inr)+
  have "assignment_ok w' d" if "assignment_ok w d" for d using that by (rule assignment_ok_mono [rotated 3]) (auto simp: w')
  moreover have "member_ok w' m" if "member_ok w m" for m using that by (rule member_ok_mono [rotated 2]) (auto simp: w')
  ultimately have "agent_org w'"
    using assms(2) by (auto simp: agent_org_def w')
  then show ?thesis by (simp add: confined_def elsewhere_def w')
qed

text \<open>An update of rows that keeps their keys, in a table of one organisation.\<close>

lemma update_roles_confined:
  assumes "agent_org w" "find_role i (w_roles w) = Some c" "ro_id (f c) = ro_id c" "ro_orgId (f c) = ro_orgId c"
    "w' = w\<lparr>w_roles := update_where (\<lambda>r. ro_id r = i) f (w_roles w)\<rparr>"
  shows "confined (ro_orgId c) w w'"
proof -
  have u: "r = c" if "r \<in> set (w_roles w)" "ro_id r = i" for r
    using that assms(1,2) find_unique [of ro_id i "w_roles w" c] by (simp add: agent_org_def find_role_def)
  have ids: "map ro_id (w_roles w') = map ro_id (w_roles w)"
    by (simp add: assms(5), rule map_update_in) (metis u assms(3))
  have "map (\<lambda>r. (ro_id r, ro_orgId r)) (w_roles w') = map (\<lambda>r. (ro_id r, ro_orgId r)) (w_roles w)"
    by (simp add: assms(5), rule map_update_in) (metis u assms(3,4))
  then have "keys_of w' = keys_of w" by (simp add: keys_of_def assms(5))
  then have "agent_org w'" using assms(1) ids same_keys_ok [of w' w] by (simp add: agent_org_def assms(5))
  moreover have "filter (\<lambda>r. ro_orgId r \<noteq> ro_orgId c) (w_roles w') = filter (\<lambda>r. ro_orgId r \<noteq> ro_orgId c) (w_roles w)"
    by (simp add: assms(5), rule filter_update_in) (metis u assms(4))
  ultimately show ?thesis by (simp add: confined_def elsewhere_def assms(5))
qed

lemma updateRole_tx_confined:
  assumes "updateRole_tx env i input w = Inr ((x, org, pl), w')" "agent_org w"
  shows "map_option ro_orgId (find_role i (w_roles w)) = Some org \<and> confined org w w'"
proof -
  obtain c m e where c: "find_role i (w_roles w) = Some c" "org = ro_orgId (updated_role input m e c)"
    "w' = w\<lparr>w_roles := update_where (\<lambda>r. ro_id r = i) (\<lambda>_. updated_role input m e c) (w_roles w)\<rparr>"
    using assms(1) by (clarsimp simp: updateRole_tx_def Let_def bindR_eq_Inr split: option.splits)
  have "ro_id (updated_role input m e c) = ro_id c" "ro_orgId (updated_role input m e c) = ro_orgId c"
    by (simp_all add: updated_role_def)
  then show ?thesis using update_roles_confined [OF assms(2) c(1) _ _ c(3)] c(1,2) by simp
qed

lemma archiveRole_tx_confined:
  assumes "archiveRole_tx i now w = Inr ((x, org, pl), w')" "agent_org w"
  shows "map_option ro_orgId (find_role i (w_roles w)) = Some org \<and> confined org w w'"
proof -
  obtain c where c: "find_role i (w_roles w) = Some c" "org = ro_orgId c"
    "w' = w\<lparr>w_roles := update_where (\<lambda>r. ro_id r = i) (\<lambda>r. r\<lparr>ro_archivedAt := Some now\<rparr>) (w_roles w)\<rparr>"
    using assms(1) by (clarsimp simp: archiveRole_tx_def split: option.splits)
  then show ?thesis using update_roles_confined [OF assms(2) c(1) _ _ c(3)] by simp
qed

lemma setTeamPolicy_tx_confined:
  assumes "setTeamPolicy_tx i p w = Inr ((x, org, pl), w')" "agent_org w" "readable (policy_json p)"
  shows "map_option te_orgId (find_team i (w_teams w)) = Some org \<and> confined org w w'"
proof -
  let ?f = "\<lambda>t. t\<lparr>te_policy := policy_json p\<rparr>"
  obtain c where c: "find_team i (w_teams w) = Some c" "org = te_orgId c"
    "w' = w\<lparr>w_teams := update_where (\<lambda>t. te_id t = i) ?f (w_teams w)\<rparr>"
    using assms(1) by (clarsimp simp: setTeamPolicy_tx_def Let_def split: option.splits)
  have u: "t = c" if "t \<in> set (w_teams w)" "te_id t = i" for t
    using that assms(2) c(1) find_unique [of te_id i "w_teams w" c] by (simp add: agent_org_def find_team_def)
  have k: "keys_of w' = keys_of w" "map te_id (w_teams w') = map te_id (w_teams w)"
    unfolding c(3) by (simp_all add: keys_of_def)
  have "readable (te_policy t)" if "t \<in> set (w_teams w')" for t
    using that assms(2,3) unfolding c(3) by (auto simp: in_update_where agent_org_def)
  then have "agent_org w'" using assms(2) k same_keys_ok [of w' w] by (simp add: agent_org_def c(3))
  moreover have "filter (\<lambda>t. te_orgId t \<noteq> org) (w_teams w') = filter (\<lambda>t. te_orgId t \<noteq> org) (w_teams w)"
    by (simp add: c(2,3), rule filter_update_in) (auto dest: u)
  ultimately show ?thesis using c by (simp add: confined_def elsewhere_def)
qed

lemma addTeamMember_tx_confined:
  assumes "addTeamMember_tx i personId w = Inr ((x, org, pl), w')" "agent_org w"
  shows "map_option te_orgId (find_team i (w_teams w)) = Some org \<and> confined org w w'"
proof -
  obtain t p where tp: "find_team i (w_teams w) = Some t" "find_person personId (w_persons w) = Some p" "te_orgId t = pe_orgId p"
    "org = te_orgId t" and
    w': "w' = w \<or> w' = w\<lparr>w_members := w_members w @ [\<lparr>mb_orgId = te_orgId t, mb_personId = personId, mb_teamId = i\<rparr>]\<rparr>"
    using assms(1) by (clarsimp simp: addTeamMember_tx_def throwIf_eq_Inr split: option.splits if_splits)
  let ?m = "\<lparr>mb_orgId = te_orgId t, mb_personId = personId, mb_teamId = i\<rparr>"
  have "t \<in> set (w_teams w)" "te_id t = i" "p \<in> set (w_persons w)" "pe_id p = personId"
    using tp by (auto simp: find_team_def find_person_def find_Some_iff)
  then have ok: "member_ok w ?m" using tp(3) by (auto simp: member_ok_def)
  have "keys_of w' = keys_of w" using w' by (auto simp: keys_of_def)
  then have "agent_org w'" using assms(2) ok same_keys_ok [of w' w] w' by (auto simp: agent_org_def)
  moreover have "elsewhere org w' = elsewhere org w" using w' tp(4) by (auto simp: elsewhere_def)
  ultimately show ?thesis using tp by (simp add: confined_def)
qed

lemma createAssignment_tx_confined:
  assumes "createAssignment_tx newId orgId roleId opts w = Inr ((x, org, pl), w')" "agent_org w" "fresh_id newId w"
  shows "org = orgId \<and> confined orgId w w'"
proof -
  let ?person = "Option.bind (truthyStr (ai_personId opts)) (\<lambda>i. find_person i (w_persons w))"
  let ?team = "Option.bind (truthyStr (ai_teamId opts)) (\<lambda>i. find_team i (w_teams w))"
  obtain role where role: "find_role roleId (w_roles w) = Some role"
    using assms(1) by (cases "find_role roleId (w_roles w)") (simp_all add: createAssignment_tx_def Let_def)
  have run: "\<not> (truthyStr (ai_personId opts) \<noteq> None \<and> ?person = None)" "\<not> (truthyStr (ai_teamId opts) \<noteq> None \<and> ?team = None)"
    "ro_orgId role = orgId" "\<forall>p \<in> set_option ?person. pe_orgId p = orgId" "\<forall>t \<in> set_option ?team. te_orgId t = orgId"
    "ai_personId opts \<noteq> Some []" "ai_teamId opts \<noteq> Some []" "org = orgId"
    and x: "de_id x = newId" "de_orgId x = orgId" "de_roleId x = roleId" "de_personId x = ai_personId opts"
      "de_teamId x = ai_teamId opts" "de_policy x = JObj []"
    and w': "w' = w\<lparr>w_assignments := w_assignments w @ [x]\<rparr>"
    using assms(1) unfolding createAssignment_tx_def Let_def role option.case throwIf_eq_Inr by force+
  have "\<exists>p \<in> set (w_persons w). pe_id p = i \<and> pe_orgId p = orgId" if i: "ai_personId opts = Some i" for i
    using run(1,4,6) i by (force simp: truthyStr_def find_person_def find_Some_iff split: if_splits)
  moreover have "\<exists>t \<in> set (w_teams w). te_id t = i \<and> te_orgId t = orgId" if i: "ai_teamId opts = Some i" for i
    using run(2,5,7) i by (force simp: truthyStr_def find_team_def find_Some_iff split: if_splits)
  moreover have "role \<in> set (w_roles w)" "ro_id role = roleId" using role by (auto simp: find_role_def find_Some_iff)
  ultimately have ok: "assignment_ok w x" using run(3) x by (auto simp: assignment_ok_def)
  have "keys_of w' = keys_of w" by (simp add: keys_of_def w')
  then have "agent_org w'" using assms(2,3) ok same_keys_ok [of w' w] x by (auto simp: agent_org_def w' fresh_id_def)
  then show ?thesis using run(8) x by (simp add: confined_def elsewhere_def w')
qed

lemma deleteAssignment_tx_confined:
  assumes "deleteAssignment_tx i w = Inr ((x, org, pl), w')" "agent_org w"
  shows "map_option de_orgId (find_assignment i (w_assignments w)) = Some org \<and> confined org w w'"
proof -
  obtain c where c: "find_assignment i (w_assignments w) = Some c" "org = de_orgId c"
    "w' = w\<lparr>w_assignments := filter (\<lambda>d. de_id d \<noteq> i) (w_assignments w)\<rparr>"
    using assms(1) by (clarsimp simp: deleteAssignment_tx_def split: option.splits)
  have u: "d = c" if "d \<in> set (w_assignments w)" "de_id d = i" for d
    using that assms(2) c(1) find_unique [of de_id i "w_assignments w" c] by (simp add: agent_org_def find_assignment_def)
  have "keys_of w' = keys_of w" by (simp add: keys_of_def c(3))
  then have "agent_org w'"
    using assms(2) same_keys_ok [of w' w] by (auto simp: agent_org_def c(3) distinct_map_filter)
  moreover have "filter (\<lambda>d. de_orgId d \<noteq> org) (w_assignments w') = filter (\<lambda>d. de_orgId d \<noteq> org) (w_assignments w)"
    unfolding c(2,3) using u by (auto simp: filter_filter intro: filter_cong)
  ultimately show ?thesis using c by (simp add: confined_def elsewhere_def)
qed

lemma updateAssignment_tx_confined:
  assumes "updateAssignment_tx i status policy w = Inr ((x, org, pl), w')" "agent_org w"
    "\<And>p. policy = Some p \<Longrightarrow> readable (policy_json p)"
  shows "map_option de_orgId (find_assignment i (w_assignments w)) = Some org \<and> confined org w w'"
proof -
  let ?f = "updated_assignment status policy"
  have f: "de_id (?f d) = de_id d" "de_orgId (?f d) = de_orgId d" "de_roleId (?f d) = de_roleId d"
    "de_personId (?f d) = de_personId d" "de_teamId (?f d) = de_teamId d" for d
    by (simp_all add: updated_assignment_def)
  obtain c where c: "find_assignment i (w_assignments w) = Some c" "org = de_orgId c"
    "w' = w\<lparr>w_assignments := update_where (\<lambda>d. de_id d = i) ?f (w_assignments w)\<rparr>"
    using assms(1) by (clarsimp simp: updateAssignment_tx_def Let_def f split: option.splits)
  have u: "d = c" if "d \<in> set (w_assignments w)" "de_id d = i" for d
    using that assms(2) c(1) find_unique [of de_id i "w_assignments w" c] by (simp add: agent_org_def find_assignment_def)
  have ok: "assignment_ok w (?f d)" if "assignment_ok w d" for d
    using that assms(3) by (auto simp: assignment_ok_def updated_assignment_def split: option.splits)
  have "\<forall>d \<in> set (w_assignments w'). assignment_ok w d"
    using assms(2) ok by (auto simp: c(3) in_update_where agent_org_def)
  moreover have "keys_of w' = keys_of w" "map de_id (w_assignments w') = map de_id (w_assignments w)"
    by (simp_all add: keys_of_def c(3) f)
  ultimately have "agent_org w'" using assms(2) same_keys_ok [of w' w] by (simp add: agent_org_def c(3))
  moreover have "filter (\<lambda>d. de_orgId d \<noteq> org) (w_assignments w') = filter (\<lambda>d. de_orgId d \<noteq> org) (w_assignments w)"
    by (simp add: c(2,3), rule filter_update_in) (auto dest: u simp: f)
  ultimately show ?thesis using c by (simp add: confined_def elsewhere_def)
qed

lemma setOrgPolicy_tx_confined:
  assumes "setOrgPolicy_tx orgId p w = Inr ((x, org, pl), w')" "agent_org w" "readable (policy_json p)"
  shows "org = orgId \<and> confined orgId w w'"
proof -
  have w': "org = orgId" "w' = w\<lparr>w_orgPolicy := (w_orgPolicy w)(orgId := policy_json p)\<rparr>"
    using assms(1) by (clarsimp simp: setOrgPolicy_tx_def throwIf_eq_Inr)+
  have "keys_of w' = keys_of w" by (simp add: keys_of_def w'(2))
  then have "agent_org w'" using assms(2,3) same_keys_ok [of w' w] by (auto simp: agent_org_def w'(2))
  then show ?thesis by (simp add: confined_def elsewhere_def w')
qed

subsection \<open>Requests\<close>

definition same :: "('g, 'd, 'x) World_scheme \<Rightarrow> ('g, 'd, 'x) World_scheme \<Rightarrow> bool" where
  "same w0 v \<longleftrightarrow> (\<exists>s. v = w0\<lparr>w_script := s\<rparr>)"

lemma same_refl [simp]: "same w w"
  unfolding same_def by (rule exI [of _ "w_script w"]) simp

lemma scriptless_same [simp]: "scriptless (same w0)"
proof (rule scriptlessI)
  fix w :: "('a, 'b, 'c) World_scheme" and s
  show "same w0 (w\<lparr>w_script := s\<rparr>) = same w0 w"
  proof
    assume "same w0 (w\<lparr>w_script := s\<rparr>)"
    then obtain t where t: "w\<lparr>w_script := s\<rparr> = w0\<lparr>w_script := t\<rparr>" by (auto simp: same_def)
    have "w = (w\<lparr>w_script := s\<rparr>)\<lparr>w_script := w_script w\<rparr>" by simp
    then have "w = w0\<lparr>w_script := w_script w\<rparr>" unfolding t by simp
    then show "same w0 w" unfolding same_def by blast
  qed (auto simp: same_def)
qed

lemma agent_org_frame [simp]:
  "agent_org (w\<lparr>w_script := s\<rparr>) = agent_org w" "agent_org (w\<lparr>w_audits := a\<rparr>) = agent_org w"
  by (simp_all add: agent_org_def member_ok_def assignment_ok_def)

lemma elsewhere_script [simp]: "elsewhere o' (w\<lparr>w_script := s\<rparr>) = elsewhere o' w"
  by (simp add: elsewhere_def)

lemma fresh_id_script [simp]: "fresh_id i (w\<lparr>w_script := s\<rparr>) = fresh_id i w"
  by (simp add: fresh_id_def)

lemma confined_audited:
  assumes "same w0 w" "confined o' w w'" "append_row H n t o' act ty ac pl (w_audits w') = Inr rows"
  shows "confined o' w0 (w'\<lparr>w_audits := rows\<rparr>)"
proof -
  have "filter (\<lambda>r. au_orgId r \<noteq> o') rows = filter (\<lambda>r. au_orgId r \<noteq> o') (w_audits w')"
    using assms(3) by (auto simp: append_row_def Let_def bindR_eq_Inr)
  then have "elsewhere o' (w'\<lparr>w_audits := rows\<rparr>) = elsewhere o' w'" by (simp add: elsewhere_def)
  moreover have "elsewhere o' w = elsewhere o' w0" using assms(1) by (auto simp: same_def)
  ultimately show ?thesis using assms(2) by (simp add: confined_def)
qed

lemma hoare_tx_confined:
  assumes "\<And>w x org pl w'. same w0 w \<Longrightarrow> f w = Inr ((x, org, pl), w') \<Longrightarrow> org = o' \<and> confined o' w w'"
  shows "hoare (same w0) (auditTx H n t act ty ac f) (\<lambda>_ v. confined o' w0 v) (\<lambda>_. same w0)"
proof (rule hoare_auditTx)
  fix w w' x org pl rows
  assume "same w0 w" "f w = Inr ((x, org, pl), w')" "append_row H n t org act ty ac pl (w_audits w') = Inr rows"
  then show "confined o' w0 (w'\<lparr>w_audits := rows\<rparr>)" using assms confined_audited by metis
qed simp_all

definition allowed :: "AuthedUser \<Rightarrow> string \<Rightarrow> bool" where
  "allowed user o' \<longleftrightarrow> us_viaSharedKey user \<or> us_role user = SUPERADMIN \<or> us_orgId user = Some o'"

lemma hoare_onlyFor:
  assumes "hoare (same w0) orgA (\<lambda>o' v. same w0 v \<and> T o') (\<lambda>_. same w0)"
    "\<And>o'. T o' \<Longrightarrow> hoare (same w0) m (\<lambda>_ v. confined o' w0 v) (\<lambda>_. same w0)"
  shows "hoare (same w0) (onlyFor user orgA m) (\<lambda>_ v. \<exists>o'. allowed user o' \<and> confined o' w0 v) (\<lambda>_. same w0)"
  unfolding onlyFor_def
proof (rule hoare_bindA [OF assms(1)], rule hoare_thenA)
  fix o'
  show "hoare (\<lambda>v. same w0 v \<and> T o') (liftR (assertAdminOrgAccess user o')) (\<lambda>_ v. same w0 v \<and> T o' \<and> allowed user o') (\<lambda>_. same w0)"
    by (rule hoare_liftR) (auto simp: assertAdminOrgAccess_def allowed_def throwIf_eq_Inr split: if_splits)
  have "hoare (same w0) (voidA m) (\<lambda>_ v. \<exists>o'. allowed user o' \<and> confined o' w0 v) (\<lambda>_. same w0)" if "T o'" "allowed user o'"
    unfolding voidA_def by (rule hoare_thenA, rule assms(2) [OF that(1)]) (use that in \<open>auto intro!: hoare_retA\<close>)
  then show "hoare (\<lambda>v. same w0 v \<and> T o' \<and> allowed user o') (voidA m) (\<lambda>_ v. \<exists>o'. allowed user o' \<and> confined o' w0 v) (\<lambda>_. same w0)"
    by (auto simp: hoare_def)
qed

lemma hoare_orgOf:
  assumes "\<And>s. f (w0\<lparr>w_script := s\<rparr>) = f w0"
  shows "hoare (same w0) (orgOf e f) (\<lambda>o' v. same w0 v \<and> f w0 = Some o') (\<lambda>_. same w0)"
  unfolding orgOf_def
proof (rule hoare_bindA)
  show "hoare (same w0) (readS f) (\<lambda>x v. same w0 v \<and> x = f w0) (\<lambda>_. same w0)"
    using assms by (intro hoare_readS) (auto simp: same_def)
  show "hoare (\<lambda>v. same w0 v \<and> x = f w0) (case x of None \<Rightarrow> throwA e | Some orgId \<Rightarrow> retA orgId)
      (\<lambda>o' v. same w0 v \<and> f w0 = Some o') (\<lambda>_. same w0)" for x
    by (cases x) (auto intro!: hoare_throwA hoare_retA)
qed

lemma hoare_given: "hoare (same w0) (retA o1) (\<lambda>o' v. same w0 v \<and> o' = o1) (\<lambda>_. same w0)"
  by (rule hoare_retA) simp

lemma same_fields:
  fixes w0 :: "('g, 'd, 'x) RolesWorld_scheme"
  shows "same w0 w \<Longrightarrow> w_roles w = w_roles w0 \<and> w_teams w = w_teams w0 \<and> w_assignments w = w_assignments w0 \<and>
    agent_org w = agent_org w0 \<and> fresh_id i w = fresh_id i w0"
  by (auto simp: same_def)

lemma hoare_pass:
  assumes "\<And>x. r = Inr x \<Longrightarrow> hoare (same w0) (k x) Q (\<lambda>_. same w0)"
  shows "hoare (same w0) (bindA (liftR r) k) Q (\<lambda>_. same w0)"
  by (rule hoare_liftR_bind) (use assms in auto)

text \<open>Each service call, in a sound world, with the organisation it is checked for.\<close>

abbreviation confines :: "('g, 'd, 'x) RolesWorld_scheme \<Rightarrow> string \<Rightarrow> (('g, 'd, 'x) RolesWorld_scheme, 'a) act \<Rightarrow> bool" where
  "confines w0 o' m \<equiv> hoare (same w0) m (\<lambda>_ v. confined o' w0 v) (\<lambda>_. same w0)"

lemma confines_createRole:
  assumes "agent_org w0" "fresh_id newId w0"
  shows "confines w0 orgId (createRole sy ls auId newId now orgId d user)"
  unfolding createRole_def thenA_def
  by (intro hoare_pass hoare_tx_confined) (use same_fields [of w0 _ newId] assms createRole_tx_confined in blast)

lemma confines_updateRole:
  assumes "agent_org w0" "fresh_id newId w0" "map_option ro_orgId (find_role i (w_roles w0)) = Some o'"
  shows "confines w0 o' (updateRole sy auId now i d user)"
  unfolding updateRole_def
  by (rule hoare_tx_confined) (metis same_fields [of w0 _ newId] assms(1) assms(3) updateRole_tx_confined option.inject)

lemma confines_archiveRole:
  assumes "agent_org w0" "fresh_id newId w0" "map_option ro_orgId (find_role i (w_roles w0)) = Some o'"
  shows "confines w0 o' (archiveRole sy auId now i user)"
  unfolding archiveRole_def
  by (rule hoare_tx_confined) (metis same_fields [of w0 _ newId] assms(1) assms(3) archiveRole_tx_confined option.inject)

lemma confines_createPerson:
  assumes "agent_org w0" "fresh_id newId w0"
  shows "confines w0 orgId (createPerson sy auId newId now orgId email name user)"
  unfolding createPerson_def
  by (intro hoare_tx_confined) (use same_fields [of w0 _ newId] assms createPerson_tx_confined in blast)

lemma confines_createTeam:
  assumes "agent_org w0" "fresh_id newId w0"
  shows "confines w0 orgId (createTeam sy auId newId now orgId name user)"
  unfolding createTeam_def
  by (intro hoare_tx_confined) (use same_fields [of w0 _ newId] assms createTeam_tx_confined in blast)

lemma confines_addTeamMember:
  assumes "agent_org w0" "fresh_id newId w0" "map_option te_orgId (find_team i (w_teams w0)) = Some o'"
  shows "confines w0 o' (addTeamMember sy auId now i personId user)"
  unfolding addTeamMember_def
  by (rule hoare_tx_confined) (metis same_fields [of w0 _ newId] assms(1) assms(3) addTeamMember_tx_confined option.inject)

lemma confines_setTeamPolicy:
  assumes "agent_org w0" "fresh_id newId w0" "map_option te_orgId (find_team i (w_teams w0)) = Some o'"
  shows "confines w0 o' (setTeamPolicy sy auId now i policy user)"
  unfolding setTeamPolicy_def
  by (intro hoare_pass hoare_tx_confined) (metis same_fields [of w0 _ newId] assms(1) assms(3) setTeamPolicy_tx_confined option.inject readable_policy_json)

lemma confines_createAssignment:
  assumes "agent_org w0" "fresh_id newId w0"
  shows "confines w0 orgId (createAssignment sy auId newId now orgId roleId d user)"
  unfolding createAssignment_def
    by (rule hoare_thenA [where R = "same w0"], rule hoare_throwUnless, simp_all)
      (intro hoare_tx_confined, use same_fields [of w0 _ newId] assms createAssignment_tx_confined in blast)

lemma confines_deleteAssignment:
  assumes "agent_org w0" "fresh_id newId w0" "map_option de_orgId (find_assignment i (w_assignments w0)) = Some o'"
  shows "confines w0 o' (deleteAssignment sy auId now i user)"
  unfolding deleteAssignment_def
  by (rule hoare_tx_confined) (metis same_fields [of w0 _ newId] assms(1) assms(3) deleteAssignment_tx_confined option.inject)

lemma normalized_readable:
  "(if policy = JUndef then Inr None else bindR (normalizePolicy policy) (\<lambda>p. Inr (Some p))) = Inr (Some p) \<Longrightarrow> readable (policy_json p)"
  using readable_policy_json by (auto simp: bindR_eq_Inr split: if_splits)

lemma confines_updateAssignment:
  assumes "agent_org w0" "fresh_id newId w0" "map_option de_orgId (find_assignment i (w_assignments w0)) = Some o'"
  shows "confines w0 o' (updateAssignment sy auId now i status policy user)"
  unfolding updateAssignment_def
  by (intro hoare_pass hoare_tx_confined) (metis same_fields [of w0 _ newId] assms(1) assms(3) normalized_readable updateAssignment_tx_confined option.inject)

lemma confines_setOrgPolicy:
  assumes "agent_org w0" "fresh_id newId w0"
  shows "confines w0 orgId (setOrgPolicy sy auId now orgId policy user)"
  unfolding setOrgPolicy_def
  by (intro hoare_pass hoare_tx_confined) (use same_fields [of w0 _ newId] assms setOrgPolicy_tx_confined readable_policy_json in blast)

lemma hoare_handle:
  assumes "agent_org w0" "fresh_id newId w0"
  shows "hoare (same w0) (handle sy ls auId newId now user rq) (\<lambda>_ v. \<exists>o'. allowed user o' \<and> confined o' w0 v) (\<lambda>_. same w0)"
proof -
  note calls = confines_createRole [OF assms]
    confines_updateRole [OF assms]
    confines_archiveRole [OF assms]
    confines_createPerson [OF assms]
    confines_createTeam [OF assms]
    confines_addTeamMember [OF assms]
    confines_setTeamPolicy [OF assms]
    confines_createAssignment [OF assms]
    confines_deleteAssignment [OF assms]
    confines_updateAssignment [OF assms]
    confines_setOrgPolicy [OF assms]
  show ?thesis
    by (cases rq; simp only: handle.simps roleOrgId_def teamOrgId_def assignmentOrgId_def;
        (rule hoare_onlyFor [OF hoare_given] | rule hoare_onlyFor [OF hoare_orgOf]); (simp add: calls)?)
qed

lemma handle_outcome:
  assumes "agent_org w" "fresh_id newId w" "handle sy ls auId newId now user rq w = (w', r)"
  shows "case r of Inl e \<Rightarrow> same w w' | Inr _ \<Rightarrow> \<exists>o'. allowed user o' \<and> confined o' w w'"
  using hoare_handle [OF assms(1,2), of sy ls auId now user rq] assms(3) same_refl [of w] unfolding hoare_def by blast

lemma handle_sound:
  assumes "agent_org w" "fresh_id newId w" "handle sy ls auId newId now user rq w = (w', r)"
  shows "agent_org w'"
  using handle_outcome [OF assms] assms(1) by (cases r) (auto simp: same_def confined_def)

text \<open>
  Property C23. Tenant isolation of the agent organisation. Whatever a request to the roles controller does, the tables stay
  sound: references stay inside one organisation, ids stay unique, every stored policy can be read. A request that fails changes nothing.
  A request that succeeds changes rows of a single organisation, the one its audit row is filed under, and a
  tenant administrator's request only rows of the administrator's own organisation.
\<close>

theorem agent_requests_are_confined:
  assumes "agent_org w" "fresh_id newId w" "handle sy ls auId newId now user rq w = (w', r)"
  shows "agent_org w' \<and>
    (case r of
       Inl e \<Rightarrow> \<exists>s. w' = w\<lparr>w_script := s\<rparr>
     | Inr _ \<Rightarrow> \<exists>o'. allowed user o' \<and> elsewhere o' w' = elsewhere o' w)"
  using handle_outcome [OF assms] handle_sound [OF assms] by (cases r) (auto simp: same_def confined_def)

subsection \<open>Bundles\<close>

definition granted_via :: "Device \<Rightarrow> ('g, 'd, 'x) RolesWorld_scheme \<Rightarrow> DigitalEmployee \<Rightarrow> bool" where
  "granted_via device w d \<longleftrightarrow> d \<in> set (w_assignments w) \<and> de_orgId d = dv_orgId device \<and> de_status d = ''active'' \<and>
     (de_personId d = dv_personId device \<or>
      (\<exists>m \<in> set (w_members w). Some (mb_personId m) = dv_personId device \<and> mb_orgId m = dv_orgId device \<and>
         de_teamId d = Some (mb_teamId m)))"

definition granted :: "Device \<Rightarrow> ('g, 'd, 'x) RolesWorld_scheme \<Rightarrow> Role set" where
  "granted device w = {r \<in> set (w_roles w). ro_archivedAt r = None \<and> ro_orgId r = dv_orgId device \<and>
     (\<exists>d. granted_via device w d \<and> de_roleId d = ro_id r)}"

lemma join_role_total:
  assumes "agent_org w" "d \<in> set (w_assignments w)"
  shows "\<exists>r. join_role d w = Some r"
proof -
  obtain r where "r \<in> set (w_roles w)" "ro_id r = de_roleId d \<and> ro_orgId r = de_orgId d"
    using assms by (auto simp: agent_org_def assignment_ok_def)
  then have "join_role d w \<noteq> None" by (auto simp: join_role_def find_None_iff)
  then show ?thesis by auto
qed

lemma join_role_Some:
  assumes "join_role d w = Some r"
  shows "r \<in> set (w_roles w)" "ro_id r = de_roleId d" "ro_orgId r = de_orgId d"
  using assms by (auto simp: join_role_def find_Some_iff)

lemma join_person_Some:
  assumes "join_person i o' w = Some p"
  shows "p \<in> set (w_persons w)" "Some (pe_id p) = i" "pe_orgId p = o'"
  using assms by (auto simp: join_person_def find_Some_iff)

lemma join_team_Some: "join_team d w = Some t \<Longrightarrow> te_orgId t = de_orgId d"
  by (auto simp: join_team_def find_Some_iff)

lemma with_role_total:
  assumes "agent_org w" "set ds \<subseteq> set (w_assignments w)"
  shows "mapR (with_role w) ds = Inr (map (\<lambda>d. (d, the (join_role d w))) ds)"
  using assms(2) join_role_total [OF assms(1)] by (intro mapR_all) (force simp: with_role_def)

lemma not_bound_elsewhere:
  assumes "agent_org w" "d \<in> set (device_assignments device teamIds w)"
  shows "\<not> bound_elsewhere w device (d, the (join_role d w))"
proof -
  have d: "d \<in> set (w_assignments w)" "de_orgId d = dv_orgId device" using assms(2) by (auto simp: device_assignments_def)
  obtain r where r: "join_role d w = Some r" using join_role_total [OF assms(1) d(1)] by blast
  then show ?thesis
    using d(2) join_role_Some [OF r] by (auto simp: bound_elsewhere_def dest: join_person_Some(3) join_team_Some)
qed

lemma all_teams_found:
  assumes "agent_org w" "join_person i o' w = Some p"
  shows "length (filter (\<lambda>t. te_id t \<in> set (team_ids p w) \<and> te_orgId t = o') (w_teams w)) = length (nub (team_ids p w))"
proof -
  let ?ts = "filter (\<lambda>t. te_id t \<in> set (team_ids p w) \<and> te_orgId t = o') (w_teams w)"
  have "\<exists>t \<in> set ?ts. te_id t = i" if i: "i \<in> set (team_ids p w)" for i
  proof -
    obtain m where m: "m \<in> set (w_members w)" "mb_orgId m = pe_orgId p" "i = mb_teamId m" using i by (auto simp: team_ids_def)
    then obtain t where "t \<in> set (w_teams w)" "te_id t = mb_teamId m" "te_orgId t = mb_orgId m"
      using assms(1) by (auto simp: agent_org_def member_ok_def)
    then show ?thesis using i m join_person_Some [OF assms(2)] by auto
  qed
  then have set_eq: "set (map te_id ?ts) = set (team_ids p w)" by force
  have "distinct (map te_id ?ts)" using assms(1) by (simp add: agent_org_def distinct_map_filter)
  then have "length (map te_id ?ts) = card (set (team_ids p w))" using set_eq distinct_card by metis
  moreover have "length (nub (team_ids p w)) = card (set (team_ids p w))"
    using distinct_card [OF distinct_nub [of "team_ids p w"]] by simp
  ultimately show ?thesis by simp
qed

lemma readable_object: "readable v \<Longrightarrow> policy_or_empty v = v \<and> \<not> falsy v"
  by (cases v) (auto simp: readable_def normalizePolicy_def policy_or_empty_def falsy_def)

lemma merge_total:
  assumes "\<And>v. v \<in> set layers \<Longrightarrow> readable v"
  shows "\<exists>m. mergePolicy layers = Inr m"
proof -
  have "mapR normalizePolicy (filter (\<lambda>v. \<not> falsy v) layers) =
      Inr (map (\<lambda>v. projr (normalizePolicy v)) (filter (\<lambda>v. \<not> falsy v) layers))"
    using assms by (intro mapR_all) (force simp: readable_def)
  then show ?thesis by (simp add: mergePolicy_Inr layer_policies_def)
qed

lemma bundle_of_total:
  assumes "readable orgPolicy" "\<forall>t \<in> set teams. readable (te_policy t)" "\<forall>(d, r) \<in> set as. readable (de_policy d)"
  shows "\<exists>b. bundle_of H collate orgPolicy teams as = Inr b"
proof -
  let ?layers = "orgPolicy # map (\<lambda>t. policy_or_empty (te_policy t)) teams @
    map (\<lambda>(d, r). policy_or_empty (de_policy d)) (filter (\<lambda>(d, r). ro_archivedAt r = None) as)"
  have "readable v" if "v \<in> set ?layers" for v
    using that assms readable_object by fastforce
  then obtain m where "mergePolicy ?layers = Inr m" using merge_total by blast
  then show ?thesis by (simp add: bundle_of_def Let_def)
qed

lemma readS_unscripted: "w_script w = [] \<Longrightarrow> readS f w = (w, Inr (f w))"
  by (simp add: readS_def stmt_def)

definition device_teams :: "Device \<Rightarrow> Person \<Rightarrow> ('g, 'd, 'x) RolesWorld_scheme \<Rightarrow> Team list" where
  "device_teams device p w = filter (\<lambda>t. te_id t \<in> set (team_ids p w) \<and> te_orgId t = dv_orgId device) (w_teams w)"

definition device_grants :: "Device \<Rightarrow> Person \<Rightarrow> ('g, 'd, 'x) RolesWorld_scheme \<Rightarrow> (DigitalEmployee \<times> Role) list" where
  "device_grants device p w = map (\<lambda>d. (d, the (join_role d w))) (device_assignments device (team_ids p w) w)"

lemma resolve_bound:
  assumes w: "agent_org w" "w_script w = []" and dev: "find_device i (w_devices w) = Some device"
    and p: "truthyStr (dv_personId device) = Some q" "join_person (dv_personId device) (dv_orgId device) w = Some p"
  shows "resolveBundleForDevice H collate i w =
    (w, bundle_of H collate (policy_or_empty (w_orgPolicy w (dv_orgId device))) (device_teams device p w) (device_grants device p w))"
proof -
  have read: "mapR (with_role w) (device_assignments device (team_ids p w) w) = Inr (device_grants device p w)"
    unfolding device_grants_def by (rule with_role_total [OF w(1)]) (auto simp: device_assignments_def)
  have here: "\<not> list_ex (bound_elsewhere w device) (device_grants device p w)"
    using not_bound_elsewhere [OF w(1)] by (auto simp: list_ex_iff device_grants_def)
  have teams: "(if team_ids p w = [] then retA [] else readS (\<lambda>w'. filter (\<lambda>t. te_id t \<in> set (team_ids p w) \<and> te_orgId t = dv_orgId device) (w_teams w'))) w
      = (w, Inr (device_teams device p w))"
    using w(2) by (simp add: retA_def readS_unscripted device_teams_def)
  have len: "length (device_teams device p w) = length (nub (team_ids p w))"
    unfolding device_teams_def by (rule all_teams_found [OF w(1) p(2)])
  have org: "pe_orgId p = dv_orgId device" using join_person_Some(3) [OF p(2)] .
  show ?thesis
    unfolding resolveBundleForDevice_def bindA_def
    by (simp add: readS_unscripted [OF w(2)] dev p Let_def thenA_def bindA_def throwUnless_def retA_def [of "()"] org read here liftR_def
        teams len)
qed

lemma resolve_unbound:
  assumes w: "w_script w = []" and dev: "find_device i (w_devices w) = Some device"
    and p: "truthyStr (dv_personId device) = None \<or> join_person (dv_personId device) (dv_orgId device) w = None"
  shows "resolveBundleForDevice H collate i w =
    (w, bindR (mergePolicy [policy_or_empty (w_orgPolicy w (dv_orgId device))]) (\<lambda>p.
      Inr \<lparr>bu_version = num 0, bu_org_policy = p, bu_roles = []\<rparr>))"
  using p by (auto simp: resolveBundleForDevice_def bindA_def readS_unscripted [OF w] dev Let_def liftR_def split: option.splits)

text \<open>The bundle of a device without a person has version 0 under every policy, so a change of the organisation's policy does not
  change its version.\<close>

theorem unbound_bundle_keeps_version:
  assumes "w_script w = []" "find_device i (w_devices w) = Some device" "dv_personId device = None"
    "resolveBundleForDevice H collate i w = (w', Inr b)"
  shows "bu_version b = num 0"
  using assms(4) unfolding resolve_unbound [OF assms(1,2), of H collate, simplified assms(3) truthyStr_def, simplified]
  by (auto simp: bindR_eq_Inr)

text \<open>The states the agent organisation can be in: requests in any order, with changes of other services in between.\<close>

inductive agent_reachable :: "('g, 'd, 'x) RolesWorld_scheme \<Rightarrow> bool" where
  agent_start: "\<lbrakk>w_roles w = []; w_teams w = []; w_members w = []; w_assignments w = []; \<forall>i. w_orgPolicy w i = JObj []\<rbrakk> \<Longrightarrow> agent_reachable w"
| agent_request: "\<lbrakk>agent_reachable w; fresh_id newId w; handle sy ls auId newId now user rq w = (w', r)\<rbrakk> \<Longrightarrow> agent_reachable w'"
| agent_other: "\<lbrakk>agent_reachable w; w_roles w' = w_roles w; w_teams w' = w_teams w; w_members w' = w_members w;
    w_assignments w' = w_assignments w; w_orgPolicy w' = w_orgPolicy w; set (w_persons w) \<subseteq> set (w_persons w')\<rbrakk> \<Longrightarrow> agent_reachable w'"

lemma agent_reachable_sound: "agent_reachable w \<Longrightarrow> agent_org w"
proof (induction rule: agent_reachable.induct)
  case (agent_request w newId sy ls auId now user rq w' r)
  show ?case by (rule handle_sound [OF agent_request.IH agent_request.hyps(2,3)])
next
  case (agent_other w w')
  then have "member_ok w' m" if "member_ok w m" for m using that by (intro member_ok_mono [of w w']) auto
  moreover have "assignment_ok w' d" if "assignment_ok w d" for d using that agent_other by (intro assignment_ok_mono [of w w']) auto
  ultimately show ?case using agent_other by (simp add: agent_org_def)
qed (simp add: agent_org_def)

text \<open>
  A device can always fetch its bundle: in every state the agent organisation can reach, in whatever order requests,
  failed requests and changes of the other services come, resolving the bundle of a registered device returns one. None of
  the integrity checks of the resolver fires and no stored policy is malformed.
\<close>

theorem bundle_always_resolves:
  assumes "agent_reachable w" "w_script w = []" "find_device i (w_devices w) \<noteq> None"
  shows "\<exists>b. resolveBundleForDevice H collate i w = (w, Inr b)"
proof -
  obtain device where dev: "find_device i (w_devices w) = Some device" using assms(3) by blast
  have ok: "agent_org w" by (rule agent_reachable_sound [OF assms(1)])
  have read: "readable (w_orgPolicy w o')" for o' using ok by (simp add: agent_org_def)
  then have pe: "policy_or_empty (w_orgPolicy w o') = w_orgPolicy w o'" for o' using readable_object by blast
  show ?thesis
  proof (cases "truthyStr (dv_personId device) = None \<or> join_person (dv_personId device) (dv_orgId device) w = None")
    case True
    obtain m where "mergePolicy [w_orgPolicy w (dv_orgId device)] = Inr m" using merge_total [of "[w_orgPolicy w (dv_orgId device)]"] read by auto
    then show ?thesis using resolve_unbound [OF assms(2) dev True, of H collate] by (simp add: pe)
  next
    case False
    then obtain q p where p: "truthyStr (dv_personId device) = Some q" "join_person (dv_personId device) (dv_orgId device) w = Some p"
      by auto
    have "\<forall>t \<in> set (device_teams device p w). readable (te_policy t)" "\<forall>(d, r) \<in> set (device_grants device p w). readable (de_policy d)"
      using ok by (auto simp: agent_org_def assignment_ok_def device_teams_def device_grants_def device_assignments_def)
    then obtain b where "bundle_of H collate (w_orgPolicy w (dv_orgId device)) (device_teams device p w) (device_grants device p w) = Inr b"
      using bundle_of_total read by blast
    then show ?thesis using resolve_bound [OF ok assms(2) dev p, of H collate] by (simp add: pe)
  qed
qed

lemma mapR_out: "mapR f xs = Inr ys \<Longrightarrow> x \<in> set xs \<Longrightarrow> \<exists>y \<in> set ys. f x = Inr y"
  by (induction xs arbitrary: ys) (auto simp: bindR_eq_Inr)

lemma merged_below:
  assumes "mergePolicy layers = Inr m" "v \<in> set layers" "readable v"
  shows "\<exists>l. normalizePolicy v = Inr l \<and> (\<forall>x. permits_model m x \<longrightarrow> permits_model l x) \<and>
    (\<forall>t. permits_tool m t \<longrightarrow> permits_tool l t) \<and> (po_requireApprovalForWrites l \<longrightarrow> po_requireApprovalForWrites m) \<and>
    (consents m \<longrightarrow> \<not> refuses l)"
proof -
  obtain ps where ps: "layer_policies layers = Inr ps" "m = merge_out (foldl merge_layer merge_start ps)"
    using assms(1) by (auto simp: mergePolicy_Inr)
  have "v \<in> set (filter (\<lambda>v. \<not> falsy v) layers)" using assms(2,3) readable_object by simp
  then obtain l where l: "l \<in> set ps" "normalizePolicy v = Inr l"
    using mapR_out [OF ps(1) [unfolded layer_policies_def]] by blast
  have "ms_allowPersonalModelConnections (foldl merge_layer merge_start ps) = Some False" if "refuses l"
    using that l(1) by (auto simp: foldl_merge_consent)
  then have "\<not> refuses l" if "consents m" using that by (auto simp: consents_def ps(2) merge_out_simps)
  then show ?thesis
    using l unfolding ps(2) by (auto simp: merge_out_simps foldl_merge_sets)
qed

lemma granted_roles:
  assumes "agent_org w" "join_person (dv_personId device) (dv_orgId device) w = Some p"
  shows "snd ` {(d, r) \<in> set (device_grants device p w). ro_archivedAt r = None} = granted device w"
proof -
  have p: "Some (pe_id p) = dv_personId device" "pe_orgId p = dv_orgId device" using join_person_Some [OF assms(2)] by auto
  have via: "d \<in> set (device_assignments device (team_ids p w) w) \<longleftrightarrow> granted_via device w d" for d
    by (auto simp: device_assignments_def granted_via_def team_ids_def p(1) [symmetric] p(2))
  have role: "the (join_role d w) = r \<longleftrightarrow> r \<in> set (w_roles w) \<and> de_roleId d = ro_id r \<and> ro_orgId r = de_orgId d"
    if d: "d \<in> set (w_assignments w)" for d r
  proof -
    obtain c where c: "join_role d w = Some c" using join_role_total [OF assms(1) d] by blast
    moreover have "inj_on ro_id (set (w_roles w))" using assms(1) by (simp add: agent_org_def distinct_map)
    ultimately show ?thesis using join_role_Some [OF c] by (auto dest: inj_onD [of ro_id "set (w_roles w)" c r])
  qed
  have mem: "r \<in> snd ` {(d, r) \<in> set (device_grants device p w). ro_archivedAt r = None} \<longleftrightarrow>
      ro_archivedAt r = None \<and> (\<exists>d. granted_via device w d \<and> the (join_role d w) = r)" for r
    by (auto simp: device_grants_def via image_iff)
  have eq: "granted_via device w d \<and> the (join_role d w) = r \<longleftrightarrow>
      granted_via device w d \<and> r \<in> set (w_roles w) \<and> de_roleId d = ro_id r \<and> ro_orgId r = dv_orgId device" for d r
    using role [of d r] by (cases "d \<in> set (w_assignments w) \<and> de_orgId d = dv_orgId device") (auto simp: granted_via_def)
  show ?thesis unfolding set_eq_iff mem eq granted_def by blast
qed

lemma bundle_of_Inr:
  assumes "bundle_of H collate orgPolicy teams as = Inr b"
  shows "set (bu_roles b) = bundle_role ` snd ` {(d, r) \<in> set as. ro_archivedAt r = None}"
    "\<exists>layers. mergePolicy layers = Inr (bu_org_policy b) \<and> orgPolicy \<in> set layers \<and> (\<forall>t \<in> set teams. policy_or_empty (te_policy t) \<in> set layers)"
proof -
  let ?applicable = "filter (\<lambda>(d, r). ro_archivedAt r = None) as"
  let ?layers = "orgPolicy # map (\<lambda>t. policy_or_empty (te_policy t)) teams @ map (\<lambda>(d, r). policy_or_empty (de_policy d)) ?applicable"
  obtain m where m: "mergePolicy ?layers = Inr m" "b = \<lparr>bu_version = bundle_version H m (sort_key (\<lambda>r. collate (ro_id r)) (nub (map snd ?applicable))),
      bu_org_policy = m, bu_roles = map bundle_role (sort_key (\<lambda>r. collate (ro_id r)) (nub (map snd ?applicable)))\<rparr>"
    using assms unfolding bundle_of_def Let_def bindR_eq_Inr by blast
  show "set (bu_roles b) = bundle_role ` snd ` {(d, r) \<in> set as. ro_archivedAt r = None}"
    unfolding m(2) by (auto simp: image_image)
  have "mergePolicy ?layers = Inr (bu_org_policy b)" using m(1) unfolding m(2) by simp
  moreover have "\<forall>t \<in> set teams. policy_or_empty (te_policy t) \<in> set ?layers" by simp
  ultimately show "\<exists>layers. mergePolicy layers = Inr (bu_org_policy b) \<and> orgPolicy \<in> set layers \<and>
      (\<forall>t \<in> set teams. policy_or_empty (te_policy t) \<in> set layers)"
    by (intro exI [of _ ?layers]) simp
qed

text \<open>
  Property C24. What a device runs. For a device bound to a person, the bundle lists exactly the roles that are not archived and
  are granted, in the device's organisation, by an active assignment to the person or to a team of the person; and its policy
  permits no model and no tool, and grants no consent, that the policy of the organisation or of one of the person's teams
  refuses, and asks for approval of writes whenever one of them does.
\<close>

theorem bundle_is_what_was_granted:
  assumes "agent_org w" "w_script w = []" "find_device i (w_devices w) = Some device"
    "dv_personId device = Some q" "q \<noteq> []" "join_person (Some q) (dv_orgId device) w = Some p"
  shows "\<exists>b. resolveBundleForDevice H collate i w = (w, Inr b) \<and>
    set (bu_roles b) = bundle_role ` granted device w \<and>
    (\<forall>v \<in> insert (w_orgPolicy w (dv_orgId device)) (te_policy ` set (device_teams device p w)).
       \<exists>l. normalizePolicy v = Inr l \<and> (\<forall>x. permits_model (bu_org_policy b) x \<longrightarrow> permits_model l x) \<and>
         (\<forall>t. permits_tool (bu_org_policy b) t \<longrightarrow> permits_tool l t) \<and>
         (po_requireApprovalForWrites l \<longrightarrow> po_requireApprovalForWrites (bu_org_policy b)) \<and>
         (consents (bu_org_policy b) \<longrightarrow> \<not> refuses l))"
proof -
  have jp: "join_person (dv_personId device) (dv_orgId device) w = Some p" using assms(4,6) by simp
  have tq: "truthyStr (dv_personId device) = Some q" using assms(4,5) by (simp add: truthyStr_def)
  have pol: "readable (w_orgPolicy w o')" "\<forall>t \<in> set (w_teams w). readable (te_policy t)" for o'
    using assms(1) by (auto simp: agent_org_def)
  then have id: "policy_or_empty (w_orgPolicy w o') = w_orgPolicy w o'" "t \<in> set (w_teams w) \<Longrightarrow> policy_or_empty (te_policy t) = te_policy t" for o' t
    using readable_object by blast+
  let ?run = "bundle_of H collate (w_orgPolicy w (dv_orgId device)) (device_teams device p w) (device_grants device p w)"
  have run: "resolveBundleForDevice H collate i w = (w, ?run)"
    using resolve_bound [OF assms(1-3) tq jp, of H collate] by (simp add: id)
  have "\<forall>(d, r) \<in> set (device_grants device p w). readable (de_policy d)" "\<forall>t \<in> set (device_teams device p w). readable (te_policy t)"
    using assms(1) by (auto simp: agent_org_def assignment_ok_def device_grants_def device_assignments_def device_teams_def)
  then obtain b where b: "?run = Inr b" using bundle_of_total pol(1) by blast
  obtain layers where m: "mergePolicy layers = Inr (bu_org_policy b)" "w_orgPolicy w (dv_orgId device) \<in> set layers"
    "\<forall>t \<in> set (device_teams device p w). policy_or_empty (te_policy t) \<in> set layers"
    using bundle_of_Inr(2) [OF b] by blast
  have "v \<in> set layers \<and> readable v" if "v \<in> insert (w_orgPolicy w (dv_orgId device)) (te_policy ` set (device_teams device p w))" for v
    using that pol m(2,3) id(2) by (auto simp: device_teams_def)
  then have "\<forall>v \<in> insert (w_orgPolicy w (dv_orgId device)) (te_policy ` set (device_teams device p w)).
       \<exists>l. normalizePolicy v = Inr l \<and> (\<forall>x. permits_model (bu_org_policy b) x \<longrightarrow> permits_model l x) \<and>
         (\<forall>t. permits_tool (bu_org_policy b) t \<longrightarrow> permits_tool l t) \<and>
         (po_requireApprovalForWrites l \<longrightarrow> po_requireApprovalForWrites (bu_org_policy b)) \<and>
         (consents (bu_org_policy b) \<longrightarrow> \<not> refuses l)"
    using merged_below [OF m(1)] by blast
  moreover have "set (bu_roles b) = bundle_role ` granted device w"
    using bundle_of_Inr(1) [OF b] unfolding granted_roles [OF assms(1) jp] .
  ultimately show ?thesis unfolding run b by blast
qed

subsection \<open>Witnesses\<close>

abbreviation agent_admin :: AuthedUser where
  "agent_admin \<equiv> \<lparr>us_id = ''u'', us_email = ''u@c'', us_role = ADMIN, us_orgId = Some ''c'', us_viaSharedKey = False\<rparr>"

definition agent_device :: Device where
  "agent_device =
     \<lparr>dv_id = ''d'', dv_orgId = ''c'', dv_name = ''laptop'', dv_os = [], dv_haraVersion = [], dv_enrolledAt = 1, dv_lastSeenAt = 1,
      dv_revocationRequestedAt = None, dv_revocationCompletedAt = None, dv_deskProvisionedAt = None, dv_deskCleanupPendingAt = None,
      dv_deskOwner = None, dv_deskOrigin = None, dv_enrollCodeId = None, dv_personId = Some ''p''\<rparr>"

abbreviation agent_person :: Person where
  "agent_person \<equiv> \<lparr>pe_id = ''p'', pe_orgId = ''c'', pe_name = ''P'', pe_email = ''p@c''\<rparr>"

definition sample_role :: Role where
  "sample_role =
     \<lparr>ro_id = ''r'', ro_orgId = ''c'', ro_key = ''reviewer'', ro_description = [], ro_owns = [], ro_rejects = [], ro_model = None,
      ro_reasoningEffort = None, ro_allowTools = [], ro_denyTools = [], ro_system = [], ro_version = 1, ro_archivedAt = None\<rparr>"

definition agent_world :: "Role list \<Rightarrow> DigitalEmployee list \<Rightarrow> (MockState, unit) RolesWorld" where
  "agent_world roles assignments =
     \<lparr>w_orgs = [\<lparr>org_id = ''c'', org_name = ''C'', org_type = COMPANY, org_parentId = None\<rparr>], w_persons = [agent_person], w_codes = [],
      w_devices = [agent_device], w_tokens = [], w_bindings = [], w_secrets = Map.empty, w_audits = [], w_script = [],
      w_gateway = \<lparr>mk_spend = Map.empty, mk_models = Map.empty, mk_random = 0\<rparr>, w_desk = (),
      w_roles = roles, w_teams = [], w_members = [], w_assignments = assignments, w_orgPolicy = (\<lambda>_. JObj [])\<rparr>"

definition sample_assignment :: DigitalEmployee where
  "sample_assignment =
     \<lparr>de_id = ''e'', de_orgId = ''c'', de_roleId = ''r'', de_personId = Some ''p'', de_teamId = None, de_name = [], de_status = ''active'',
      de_policy = JObj []\<rparr>"

definition agent_sys :: "(MockState, unit) Sys" where
  "agent_sys =
     \<lparr>sy_env = Map.empty, sy_sha256 = (\<lambda>s. s), sy_newURL = (\<lambda>_. None), sy_gateway = mock_adapter,
      sy_fetch = (\<lambda>_ _ _ d. (d, Inl [])), sy_targets = (\<lambda>_. None), sy_seatLimit = num 0\<rparr>"

definition sample_assign :: "(MockState, unit) RolesWorld \<times> unit res" where
  "sample_assign = handle agent_sys \<lparr>ls_claims = None, ls_devBypass = True, ls_isSaas = False\<rparr> ''a'' ''e'' 5 agent_admin
     (PostAssignment ''c'' ''r'' \<lparr>ai_personId = Some ''p'', ai_teamId = None, ai_name = None\<rparr>) (agent_world [sample_role] [])"

lemma sample_assign_runs: "snd sample_assign = Inr ()"
  by code_simp

lemma sample_agent_org:
  "agent_org (agent_world [sample_role] [])" "fresh_id ''e'' (agent_world [sample_role] [])"
  "agent_org (agent_world [sample_role] [sample_assignment])"
  by (simp_all add: agent_org_def fresh_id_def agent_world_def assignment_ok_def sample_role_def sample_assignment_def)

theorem agent_requests_are_confined_witness:
  "agent_org (fst sample_assign) \<and>
   (\<exists>o'. allowed agent_admin o' \<and> elsewhere o' (fst sample_assign) = elsewhere o' (agent_world [sample_role] []))"
proof -
  have "sample_assign = (fst sample_assign, Inr ())" using sample_assign_runs by (metis prod.collapse)
  from agent_requests_are_confined [OF sample_agent_org(1,2) this [unfolded sample_assign_def]]
  show ?thesis by (simp add: sample_assign_def)
qed

theorem bundle_always_resolves_witness:
  "\<exists>b. resolveBundleForDevice (\<lambda>s. s) (\<lambda>s. s) ''d'' (agent_world [] []) = (agent_world [] [], Inr b)"
proof (rule bundle_always_resolves)
  show "agent_reachable (agent_world [] [])" by (rule agent_start) (simp_all add: agent_world_def)
qed (simp_all add: agent_world_def find_device_def agent_device_def)

theorem bundle_is_what_was_granted_witness:
  "\<exists>b. resolveBundleForDevice (\<lambda>s. s) (\<lambda>s. s) ''d'' (agent_world [sample_role] [sample_assignment]) =
       (agent_world [sample_role] [sample_assignment], Inr b) \<and>
     set (bu_roles b) = bundle_role ` granted agent_device (agent_world [sample_role] [sample_assignment])"
proof -
  let ?w = "agent_world [sample_role] [sample_assignment]"
  have "w_script ?w = []" "find_device ''d'' (w_devices ?w) = Some agent_device"
    "dv_personId agent_device = Some ''p''" "''p'' \<noteq> []" "join_person (Some ''p'') (dv_orgId agent_device) ?w = Some agent_person"
    by (simp_all add: agent_world_def find_device_def agent_device_def join_person_def)
  from bundle_is_what_was_granted [OF sample_agent_org(3) this, of "\<lambda>s. s" "\<lambda>s. s"] show ?thesis by blast
qed

end
