(* ===== verification/Ssrf.thy ===== *)
theory Ssrf
  imports TokenDiscipline
begin

unbundle bit_operations_syntax

section \<open>Outbound requests (security/ssrf.ts)\<close>

text \<open>
  The guard in front of every outbound request: the policy of the environment, the classification of addresses, and
  \<^verbatim>\<open>safeFetch\<close>, which follows redirects itself and validates every hop. The URL parser, the resolver and the network
  are parameters over the state of the outside world. The properties: the dotted-decimal tests are the CIDR blocks they
  name, no request leaves for a URL that was not allowed, and the redirect loop ends.
\<close>

subsection \<open>Policy\<close>

record SsrfPolicy =
  sp_allowHosts :: "string list"
  sp_blockPrivateWhenOpen :: bool
  sp_maxRedirects :: number

definition loadSsrfPolicy :: "env \<Rightarrow> SsrfPolicy" where
  "loadSsrfPolicy env =
     \<lparr>sp_allowHosts = nub (filter (\<lambda>h. h \<noteq> []) (map (\<lambda>h. toLowerCase (trim h))
        (split_on CHR '','' (nullish (env ''HARA_SSRF_ALLOW_HOSTS'') [])))),
      sp_blockPrivateWhenOpen = (env ''HARA_SSRF_BLOCK_PRIVATE'' = Some ''1''),
      sp_maxRedirects = (let n = envNumber env ''HARA_SSRF_MAX_REDIRECTS'' in if n = NaN \<or> n = num 0 then num 5 else n)\<rparr>"

definition ssrfBlocked :: "string \<Rightarrow> http_error" where
  "ssrfBlocked reason = PlainError (''SSRF guard blocked request: '' @ reason)"

subsection \<open>Addresses\<close>

text \<open>\<^verbatim>\<open>isIP\<close> of node:net: four decimal octets without leading zeros, or the colon form with at most one \<^verbatim>\<open>::\<close>, an optional
  dotted tail that stands for two groups, and an optional zone.\<close>

definition octet :: "string \<Rightarrow> bool" where
  "octet s \<longleftrightarrow> s \<noteq> [] \<and> list_all is_digit s \<and> (hd s \<noteq> CHR ''0'' \<or> length s = 1) \<and> length s \<le> 3 \<and> digits_val 10 hex_digit s \<le> 255"

definition isIPv4 :: "string \<Rightarrow> bool" where
  "isIPv4 ip = (case split_on CHR ''.'' ip of [a, b, c, d] \<Rightarrow> octet a \<and> octet b \<and> octet c \<and> octet d | _ \<Rightarrow> False)"

definition hextet :: "string \<Rightarrow> bool" where
  "hextet s \<longleftrightarrow> s \<noteq> [] \<and> length s \<le> 4 \<and> list_all (\<lambda>c. hex_digit c < 16) s"

text \<open>The number of groups of one side of an address, or None.\<close>

definition groups :: "bool \<Rightarrow> string \<Rightarrow> nat option" where
  "groups tail s =
     (if s = [] then Some 0
      else let ps = split_on CHR '':'' s
           in if list_all hextet ps then Some (length ps)
              else if tail \<and> list_all hextet (butlast ps) \<and> isIPv4 (last ps) then Some (length ps + 1) else None)"

fun split_double :: "string \<Rightarrow> (string \<times> string) option" where
  "split_double (a # b # s) =
     (if a = CHR '':'' \<and> b = CHR '':'' then Some ([], s)
      else map_option (\<lambda>(l, r). (a # l, r)) (split_double (b # s)))"
| "split_double s = None"

definition zone_char :: "char \<Rightarrow> bool" where
  "zone_char c \<longleftrightarrow> is_digit c \<or> is_lower_az c \<or> is_upper_az c \<or> c \<in> set ''-.:''"

definition isIPv6 :: "string \<Rightarrow> bool" where
  "isIPv6 ip =
     (let body = takeWhile (\<lambda>c. c \<noteq> CHR ''%'') ip; zone = dropWhile (\<lambda>c. c \<noteq> CHR ''%'') ip
      in (zone = [] \<or> (tl zone \<noteq> [] \<and> list_all zone_char (tl zone))) \<and>
         (case split_double body of
            None \<Rightarrow> body \<noteq> [] \<and> groups True body = Some 8
          | Some (l, r) \<Rightarrow> (case (groups False l, groups True r) of (Some m, Some n) \<Rightarrow> m + n \<le> 7 | _ \<Rightarrow> False)))"

definition isIP :: "string \<Rightarrow> nat" where
  "isIP ip = (if isIPv4 ip then 4 else if isIPv6 ip then 6 else 0)"

definition isPrivateIPv4 :: "string \<Rightarrow> bool" where
  "isPrivateIPv4 ip =
     (case map stringToNumber (split_on CHR ''.'' ip) of
        [a, b, c, d] \<Rightarrow>
          \<not> list_ex (\<lambda>n. n = NaN \<or> num_lt n (num 0) \<or> num_lt (num 255) n) [a, b, c, d] \<and>
          (a = num 0 \<or> a = num 10 \<or> a = num 127 \<or> (a = num 169 \<and> b = num 254) \<or>
           (a = num 172 \<and> num_le (num 16) b \<and> num_le b (num 31)) \<or> (a = num 192 \<and> b = num 168) \<or>
           (a = num 100 \<and> num_le (num 64) b \<and> num_le b (num 127)))
      | _ \<Rightarrow> False)"

text \<open>\<^verbatim>\<open>ip.toLowerCase().replace(/^\[|\]$/g, "")\<close>\<close>

definition bare :: "string \<Rightarrow> string" where
  "bare ip =
     (let v = toLowerCase ip; u = (if v \<noteq> [] \<and> hd v = CHR ''['' then tl v else v)
      in if u \<noteq> [] \<and> last u = CHR '']'' then butlast u else u)"

text \<open>\<^verbatim>\<open>Number.parseInt(s, 16)\<close>; None is NaN.\<close>

definition parseInt16 :: "string \<Rightarrow> int option" where
  "parseInt16 s =
     (let t = dropWhile is_ws s; neg = (t \<noteq> [] \<and> hd t = CHR ''-'');
          u = (if t \<noteq> [] \<and> hd t \<in> {CHR ''-'', CHR ''+''} then tl t else t);
          x = (if take 2 u \<in> {''0x'', ''0X''} then drop 2 u else u);
          ds = takeWhile (\<lambda>c. hex_digit c < 16) x
      in if ds = [] then None else Some ((if neg then - 1 else 1) * int (digits_val 16 hex_digit ds)))"

definition isIPv6LinkLocal :: "string \<Rightarrow> bool" where
  "isIPv6LinkLocal ip =
     (case parseInt16 (hd (split_on CHR '':'' (bare ip))) of
        None \<Rightarrow> False
      | Some first \<Rightarrow> (first mod 2 ^ 32) AND 0xffc0 = 0xfe80)"

text \<open>The capture of \<^verbatim>\<open>/(?:::ffff:)?(\d+\.\d+\.\d+\.\d+)$/\<close>: the longest dotted quadruple at the end.\<close>

definition mapped_ipv4 :: "string \<Rightarrow> string option" where
  "mapped_ipv4 v =
     (case rev (split_on CHR ''.'' v) of
        d # c # b # a # _ \<Rightarrow>
          let first = rev (takeWhile is_digit (rev a))
          in if first \<noteq> [] \<and> list_all (\<lambda>p. p \<noteq> [] \<and> list_all is_digit p) [b, c, d] then Some (join ''.'' [first, b, c, d]) else None
      | _ \<Rightarrow> None)"

definition isPrivateIPv6 :: "string \<Rightarrow> bool" where
  "isPrivateIPv6 ip =
     (let v = bare ip
      in if v = ''::1'' \<or> v = ''::'' then True
         else if isIPv6LinkLocal v then True
         else if startsWith v ''fc'' \<or> startsWith v ''fd'' then True
         else case mapped_ipv4 v of Some q \<Rightarrow> isPrivateIPv4 q | None \<Rightarrow> False)"

definition crown_jewel :: "string \<Rightarrow> bool" where
  "crown_jewel quad =
     (case map stringToNumber (split_on CHR ''.'' quad) of
        a # b # _ \<Rightarrow> (a = num 169 \<and> b = num 254) \<or> a = num 0
      | _ \<Rightarrow> False)"

definition isAlwaysBlockedIP :: "string \<Rightarrow> bool" where
  "isAlwaysBlockedIP ip =
     (if isIP ip = 4 then crown_jewel ip
      else if isIP ip = 6
      then (let v = bare ip
            in v = ''::'' \<or> isIPv6LinkLocal v \<or> (case mapped_ipv4 v of Some q \<Rightarrow> crown_jewel q | None \<Rightarrow> False))
      else False)"

definition isPrivateIP :: "string \<Rightarrow> bool" where
  "isPrivateIP ip = (if isIP ip = 4 then isPrivateIPv4 ip else if isIP ip = 6 then isPrivateIPv6 ip else False)"

subsection \<open>Requests\<close>

record FetchResponse =
  fr_status :: int
  fr_location :: "string option"

text \<open>
  The outside world: \<^verbatim>\<open>new URL(s)\<close> as protocol and host name, \<^verbatim>\<open>new URL(loc, base).toString()\<close>, the resolver (a failure with its
  message or the addresses), and one request without redirects.
\<close>

record 'n Net =
  nt_url :: "string \<Rightarrow> (string \<times> string) option"
  nt_resolve :: "string \<Rightarrow> string \<Rightarrow> string option"
  nt_lookup :: "'n \<Rightarrow> string \<Rightarrow> string + string list"
  nt_fetch :: "string \<Rightarrow> 'n \<Rightarrow> 'n \<times> (string + FetchResponse)"

fun check_addresses :: "SsrfPolicy \<Rightarrow> string list \<Rightarrow> unit res" where
  "check_addresses policy [] = Inr ()"
| "check_addresses policy (ip # ips) =
     throwIf (isAlwaysBlockedIP ip) (ssrfBlocked (''resolves to blocked address '' @ ip @ '' (loopback/link-local/metadata)''))
    (throwIf (sp_allowHosts policy = [] \<and> sp_blockPrivateWhenOpen policy \<and> isPrivateIP ip)
       (ssrfBlocked (''resolves to private address '' @ ip @ '' (set HARA_SSRF_ALLOW_HOSTS to permit)''))
    (check_addresses policy ips))"

definition addresses :: "'n Net \<Rightarrow> 'n \<Rightarrow> string \<Rightarrow> string list res" where
  "addresses net n host =
     (if isIP host \<noteq> 0 then Inr [host]
      else case nt_lookup net n host of
        Inl m \<Rightarrow> Inl (ssrfBlocked (''dns lookup failed for '' @ [CHR 0x22] @ host @ [CHR 0x22] @ '': '' @ m))
      | Inr records \<Rightarrow> throwIf (records = []) (ssrfBlocked (''no addresses for '' @ [CHR 0x22] @ host @ [CHR 0x22])) (Inr records))"

definition assertUrlAllowed :: "'n Net \<Rightarrow> SsrfPolicy \<Rightarrow> 'n \<Rightarrow> string \<Rightarrow> unit res" where
  "assertUrlAllowed net policy n rawUrl =
     (case nt_url net rawUrl of
        None \<Rightarrow> Inl (ssrfBlocked (''unparseable url: '' @ take 80 rawUrl))
      | Some (protocol, hostname) \<Rightarrow>
          throwIf (protocol \<noteq> ''http:'' \<and> protocol \<noteq> ''https:'') (ssrfBlocked (''scheme not allowed: '' @ protocol))
         (let host = toLowerCase hostname
          in throwIf (sp_allowHosts policy \<noteq> [] \<and> host \<notin> set (sp_allowHosts policy))
               (ssrfBlocked (''host '' @ [CHR 0x22] @ host @ [CHR 0x22] @ '' not on HARA_SSRF_ALLOW_HOSTS''))
            (bindR (addresses net n host) (check_addresses policy))))"

text \<open>The loop of \<^verbatim>\<open>safeFetch\<close>; \<^verbatim>\<open>maxRedirects\<close> may be Infinity, and then the loop need not end.\<close>

partial_function (option) follow ::
  "'n Net \<Rightarrow> SsrfPolicy \<Rightarrow> nat \<Rightarrow> string \<Rightarrow> 'n \<Rightarrow> ('n \<times> FetchResponse res) option" where
  "follow net policy hop url n =
     (if \<not> num_le (num (int hop)) (sp_maxRedirects policy)
      then Some (n, Inl (ssrfBlocked (''too many redirects (> '' @ show_number (sp_maxRedirects policy) @ '')'')))
      else case assertUrlAllowed net policy n url of
        Inl e \<Rightarrow> Some (n, Inl e)
      | Inr _ \<Rightarrow>
          (case nt_fetch net url n of
             (n', Inl m) \<Rightarrow> Some (n', Inl (PlainError m))
           | (n', Inr r) \<Rightarrow>
               (case fr_location r of
                  Some loc \<Rightarrow>
                    if 300 \<le> fr_status r \<and> fr_status r < 400
                    then (case nt_resolve net loc url of
                            None \<Rightarrow> Some (n', Inl (PlainError ''Invalid URL''))
                          | Some url' \<Rightarrow> follow net policy (Suc hop) url' n')
                    else Some (n', Inr r)
                | None \<Rightarrow> Some (n', Inr r))))"

definition safeFetch :: "'n Net \<Rightarrow> SsrfPolicy \<Rightarrow> string \<Rightarrow> 'n \<Rightarrow> ('n \<times> FetchResponse res) option" where
  "safeFetch net policy url = follow net policy 0 url"

subsection \<open>The address tests are CIDR blocks\<close>

definition ipv4_value :: "string \<Rightarrow> nat" where
  "ipv4_value ip =
     (case map (digits_val 10 hex_digit) (split_on CHR ''.'' ip) of [a, b, c, d] \<Rightarrow> ((a * 256 + b) * 256 + c) * 256 + d | _ \<Rightarrow> 0)"

definition quad :: "nat \<Rightarrow> nat \<Rightarrow> nat \<Rightarrow> nat \<Rightarrow> nat" where
  "quad a b c d = ((a * 256 + b) * 256 + c) * 256 + d"

definition in_block :: "nat \<Rightarrow> nat \<times> nat \<Rightarrow> bool" where
  "in_block addr = (\<lambda>(base, len). addr div 2 ^ (32 - len) = base div 2 ^ (32 - len))"

definition private_blocks :: "(nat \<times> nat) list" where
  "private_blocks = [(quad 0 0 0 0, 8), (quad 10 0 0 0, 8), (quad 127 0 0 0, 8), (quad 169 254 0 0, 16), (quad 172 16 0 0, 12),
     (quad 192 168 0 0, 16), (quad 100 64 0 0, 10)]"

definition always_blocked_blocks :: "(nat \<times> nat) list" where
  "always_blocked_blocks = [(quad 169 254 0 0, 16), (quad 0 0 0 0, 8)]"

lemma digits_no_ws:
  assumes "list_all is_digit s"
  shows "trim s = s"
proof -
  have no: "\<not> is_ws c" if "is_digit c" for c
    using that by (auto simp: is_digit_def is_ws_def)
  then have "dropWhile is_ws t = t" if "list_all is_digit t" for t
    using that by (cases t) auto
  moreover have "list_all is_digit (rev s)" using assms by (simp add: list_all_iff)
  ultimately show ?thesis using assms by (simp add: trim_def)
qed

lemma takeWhile_all: "list_all P s \<Longrightarrow> takeWhile P s = s \<and> dropWhile P s = []"
  by (induction s) auto

lemma stringToNumber_digits:
  assumes "list_all is_digit s" "s \<noteq> []"
  shows "stringToNumber s = toNumber (of_nat (digits_val 10 hex_digit s))"
proof -
  obtain c t where s: "s = c # t" using assms(2) by (cases s) auto
  have c: "is_digit c" "list_all is_digit t" using assms(1) s by auto
  have second: "take 2 s \<noteq> [CHR ''0'', x]" if "\<not> is_digit x" for x
    using c that unfolding s by (cases t) auto
  have radix: "(take 2 s \<in> {''0x'', ''0X''}) = False" "(take 2 s \<in> {''0o'', ''0O''}) = False" "(take 2 s \<in> {''0b'', ''0B''}) = False"
    using second by (auto simp: is_digit_def)
  have sign: "(s \<noteq> [] \<and> hd s \<in> {CHR ''-'', CHR ''+''}) = False" "(s = ''Infinity'') = False" "(s \<noteq> [] \<and> hd s = CHR ''-'') = False"
    using c s by (auto simp: is_digit_def)
  have "parse_unsigned_decimal s = Some (of_nat (digits_val 10 hex_digit s))"
    unfolding parse_unsigned_decimal_def Let_def conjunct1 [OF takeWhile_all [OF assms(1)]] conjunct2 [OF takeWhile_all [OF assms(1)]]
    using assms(2) by (simp add: parse_exponent_def pow10_def)
  then show ?thesis
    unfolding stringToNumber_def digits_no_ws [OF assms(1)] Let_def radix sign if_False using assms(2) by simp
qed

lemma octet_number:
  assumes "octet s"
  shows "stringToNumber s = num (int (digits_val 10 hex_digit s))" "digits_val 10 hex_digit s \<le> 255"
proof -
  show le: "digits_val 10 hex_digit s \<le> 255" using assms by (simp add: octet_def)
  have "stringToNumber s = toNumber (of_int (int (digits_val 10 hex_digit s)))"
    using assms stringToNumber_digits [of s] by (simp add: octet_def)
  then show "stringToNumber s = num (int (digits_val 10 hex_digit s))"
    using toNumber_int [of "int (digits_val 10 hex_digit s)"] le by simp
qed

lemma quad_div:
  assumes "b \<le> 255" "c \<le> 255" "d \<le> 255"
  shows "quad a b c d div 16777216 = a" "quad a b c d div 65536 = a * 256 + b"
    "quad a b c d div 1048576 = a * 16 + b div 16" "quad a b c d div 4194304 = a * 4 + b div 64"
  using assms unfolding quad_def by simp_all

lemma block_tests:
  assumes "b \<le> 255" "c \<le> 255" "d \<le> 255"
  shows "list_ex (in_block (quad a b c d)) private_blocks \<longleftrightarrow>
      a = 0 \<or> a = 10 \<or> a = 127 \<or> (a = 169 \<and> b = 254) \<or> (a = 172 \<and> 16 \<le> b \<and> b \<le> 31) \<or> (a = 192 \<and> b = 168) \<or>
      (a = 100 \<and> 64 \<le> b \<and> b \<le> 127)"
    and "list_ex (in_block (quad a b c d)) always_blocked_blocks \<longleftrightarrow> (a = 169 \<and> b = 254) \<or> a = 0"
proof -
  have digits: "a * k + q = x * k + y \<longleftrightarrow> a = x \<and> q = y" if "q < k" "y < k" for k q x y :: nat
    using that by (metis add.commute add_left_cancel div_mult_self3 div_less add.left_neutral mult.commute less_nat_zero_code)
  have sixteen: "b div 16 = 1 \<longleftrightarrow> 16 \<le> b \<and> b \<le> 31" "b div 16 < 16" using assms(1) by auto
  have sixtyfour: "b div 64 = 1 \<longleftrightarrow> 64 \<le> b \<and> b \<le> 127" "b div 64 < 4" using assms(1) by auto
  have two: "a * 256 + b = 43518 \<longleftrightarrow> a = 169 \<and> b = 254" "a * 256 + b = 49320 \<longleftrightarrow> a = 192 \<and> b = 168"
    using digits [of b 256 254 169] digits [of b 256 168 192] assms(1) by simp_all
  have twelve: "a * 16 + b div 16 = 2753 \<longleftrightarrow> a = 172 \<and> 16 \<le> b \<and> b \<le> 31"
    using digits [of "b div 16" 16 1 172] sixteen by simp
  have ten: "a * 4 + b div 64 = 401 \<longleftrightarrow> a = 100 \<and> 64 \<le> b \<and> b \<le> 127"
    using digits [of "b div 64" 4 1 100] sixtyfour by simp
  note div = quad_div [OF assms] quad_div [of 0 0 0, simplified] quad_div [of 254 0 0, simplified] quad_div [of 16 0 0, simplified]
    quad_div [of 168 0 0, simplified] quad_div [of 64 0 0, simplified]
  show "list_ex (in_block (quad a b c d)) private_blocks \<longleftrightarrow>
      a = 0 \<or> a = 10 \<or> a = 127 \<or> (a = 169 \<and> b = 254) \<or> (a = 172 \<and> 16 \<le> b \<and> b \<le> 31) \<or> (a = 192 \<and> b = 168) \<or>
      (a = 100 \<and> 64 \<le> b \<and> b \<le> 127)"
    using two twelve ten by (simp add: private_blocks_def in_block_def div)
  show "list_ex (in_block (quad a b c d)) always_blocked_blocks \<longleftrightarrow> (a = 169 \<and> b = 254) \<or> a = 0"
    using two by (simp add: always_blocked_blocks_def in_block_def div)
qed

lemma isIPv4_parts:
  assumes "isIPv4 ip"
  obtains a b c d where "split_on CHR ''.'' ip = [a, b, c, d]" "octet a" "octet b" "octet c" "octet d"
  using assms by (auto simp: isIPv4_def split: list.splits)

text \<open>
  On every dotted-decimal address the private test is membership in 0.0.0.0/8, 10.0.0.0/8, 127.0.0.0/8, 169.254.0.0/16,
  172.16.0.0/12, 192.168.0.0/16 and 100.64.0.0/10, and the test that no configuration can switch off is membership in
  169.254.0.0/16 and 0.0.0.0/8, read as 32-bit numbers.
\<close>

theorem ipv4_tests_are_cidr_blocks:
  assumes "isIPv4 ip"
  shows "isPrivateIP ip = list_ex (in_block (ipv4_value ip)) private_blocks \<and>
    isAlwaysBlockedIP ip = list_ex (in_block (ipv4_value ip)) always_blocked_blocks"
proof -
  let ?v = "digits_val 10 hex_digit"
  obtain a b c d where p: "split_on CHR ''.'' ip = [a, b, c, d]" and o4: "octet a" "octet b" "octet c" "octet d"
    using assms by (rule isIPv4_parts)
  have le: "?v a \<le> 255" "?v b \<le> 255" "?v c \<le> 255" "?v d \<le> 255" using o4 octet_number(2) by auto
  have n: "map stringToNumber (split_on CHR ''.'' ip) = [num (int (?v a)), num (int (?v b)), num (int (?v c)), num (int (?v d))]"
    using o4 by (simp add: p octet_number(1))
  have v: "ipv4_value ip = quad (?v a) (?v b) (?v c) (?v d)" by (simp add: ipv4_value_def p quad_def)
  have four: "isIP ip = 4" using assms by (simp add: isIP_def)
  have "isPrivateIPv4 ip = list_ex (in_block (ipv4_value ip)) private_blocks"
    unfolding isPrivateIPv4_def n v block_tests(1) [OF le(2-4)] using le by simp
  moreover have "crown_jewel ip = list_ex (in_block (ipv4_value ip)) always_blocked_blocks"
    unfolding crown_jewel_def n v block_tests(2) [OF le(2-4)] by simp
  ultimately show ?thesis using four by (simp add: isPrivateIP_def isAlwaysBlockedIP_def)
qed

lemma sample_ipv4: "isIPv4 ''172.20.1.9''" "list_ex (in_block (ipv4_value ''172.20.1.9'')) private_blocks"
  by (simp_all add: isIPv4_def octet_def digits_val_def hex_digit_def is_digit_def ipv4_value_def private_blocks_def in_block_def quad_def)

theorem ipv4_tests_are_cidr_blocks_witness: "isPrivateIP ''172.20.1.9''"
  using ipv4_tests_are_cidr_blocks [OF sample_ipv4(1)] sample_ipv4(2) by blast

text \<open>The hexadecimal spelling of a mapped IPv4 address is not unwrapped.\<close>

lemma hex_mapped_metadata_passes: "isIP ''::ffff:a9fe:a9fe'' = 6 \<and> \<not> isAlwaysBlockedIP ''::ffff:a9fe:a9fe'' \<and> \<not> isPrivateIP ''::ffff:a9fe:a9fe''"
  by code_simp

subsection \<open>Every hop is validated and the loop ends\<close>

definition kept_by_allowed :: "'n Net \<Rightarrow> SsrfPolicy \<Rightarrow> ('n \<Rightarrow> bool) \<Rightarrow> bool" where
  "kept_by_allowed net policy I \<longleftrightarrow>
     (\<forall>u n. I n \<longrightarrow> assertUrlAllowed net policy n u = Inr () \<longrightarrow> I (fst (nt_fetch net u n)))"

lemma follow_keeps:
  assumes "follow net policy hop url n = Some x" "kept_by_allowed net policy I" "I n"
  shows "I (fst x)"
proof -
  have "kept_by_allowed net policy I \<longrightarrow> I n \<longrightarrow> I (fst x)"
  proof (rule follow.raw_induct [where P = "\<lambda>net policy hop url n x. kept_by_allowed net policy I \<longrightarrow> I n \<longrightarrow> I (fst x)", OF _ assms(1)],
      intro impI, goal_cases)
    case (1 rec net policy hop url n x)
    have next_ok: "I n'" if "assertUrlAllowed net policy n url = Inr ()" "nt_fetch net url n = (n', r)" for n' r
      using 1(3,4) that unfolding kept_by_allowed_def by (metis fst_conv)
    show "I (fst x)"
      using 1 by (cases x) (auto split: if_splits sum.splits prod.splits option.splits dest: next_ok)
  qed
  then show ?thesis using assms(2,3) by blast
qed

lemma follow_ends:
  assumes "sp_maxRedirects policy = Fin m" "\<And>u n. cnt (fst (nt_fetch net u n)) = Suc (cnt n)"
  shows "\<exists>n' r. follow net policy hop url n = Some (n', r) \<and> cnt n' \<le> cnt n + nat (\<lfloor>m\<rfloor> + 1 - int hop)"
proof (induction "nat (\<lfloor>m\<rfloor> + 1 - int hop)" arbitrary: hop url n)
  case 0
  then have "\<not> num_le (num (int hop)) (Fin m)" by (simp add: not_le) linarith
  then show ?case by (subst follow.simps) (simp add: assms(1))
next
  case (Suc k)
  have k: "k = nat (\<lfloor>m\<rfloor> + 1 - int (Suc hop))" using Suc.hyps(2) by linarith
  show ?case
  proof (cases "assertUrlAllowed net policy n url")
    case (Inl e)
    then show ?thesis by (subst follow.simps) simp
  next
    case (Inr u)
    obtain n1 r1 where f: "nt_fetch net url n = (n1, r1)" by fastforce
    have c: "cnt n1 = Suc (cnt n)" using assms(2) [of url n] f by simp
    have rest: "\<exists>n' r. follow net policy (Suc hop) url' n1 = Some (n', r) \<and> cnt n' \<le> cnt n + Suc k" for url'
      using Suc.hyps(1) [OF k, of url' n1] c k by auto
    have "cnt n1 \<le> cnt n + Suc k" using c by simp
    then show ?thesis
      unfolding Suc.hyps(2) [symmetric] using Inr f rest
      by (subst follow.simps) (auto split: sum.splits option.splits)
  qed
qed

text \<open>
  Property C25. No request leaves the box unchecked: whatever property of the outside world requests to allowed URLs keep, a call of
  \<^verbatim>\<open>safeFetch\<close> keeps, for every chain of redirects and every answer of the network; with the log of contacted URLs as
  the world, every URL in it passed the guard when it was contacted.
\<close>

theorem only_allowed_urls_are_contacted:
  assumes "safeFetch net policy url n = Some (n', r)"
    "\<And>u n. I n \<Longrightarrow> assertUrlAllowed net policy n u = Inr () \<Longrightarrow> I (fst (nt_fetch net u n))" "I n"
  shows "I n'"
  using follow_keeps [of net policy 0 url n "(n', r)" I] assms by (simp add: safeFetch_def kept_by_allowed_def)

text \<open>
  Property C26. The redirect loop ends: with a finite limit a call of \<^verbatim>\<open>safeFetch\<close> returns, with a response or an exception, after at
  most one request more than the limit, whatever the network answers; without the variable the limit is five.
\<close>

theorem redirects_are_bounded:
  assumes "sp_maxRedirects policy = Fin m" "\<And>u n. cnt (fst (nt_fetch net u n)) = Suc (cnt n)"
  shows "\<exists>n' r. safeFetch net policy url n = Some (n', r) \<and> cnt n' \<le> cnt n + nat (\<lfloor>m\<rfloor> + 1)"
  using follow_ends [of policy m cnt net 0 url n] assms by (simp add: safeFetch_def)

text \<open>A network whose host always redirects to itself and logs what it was asked for.\<close>

definition sample_net :: "string list Net" where
  "sample_net =
     \<lparr>nt_url = (\<lambda>u. if u = ''http://8.8.8.8'' then Some (''http:'', ''8.8.8.8'') else None), nt_resolve = (\<lambda>loc base. Some loc),
      nt_lookup = (\<lambda>n host. Inl ''ENOTFOUND''), nt_fetch = (\<lambda>u n. (n @ [u], Inr \<lparr>fr_status = 302, fr_location = Some ''http://8.8.8.8''\<rparr>))\<rparr>"

lemma sample_policy: "sp_maxRedirects (loadSsrfPolicy Map.empty) = Fin 5"
  by (simp add: loadSsrfPolicy_def envNumber_def)

theorem redirects_are_bounded_witness:
  "\<exists>n' r. safeFetch sample_net (loadSsrfPolicy Map.empty) ''http://8.8.8.8'' [] = Some (n', r) \<and> length n' \<le> 6"
  using redirects_are_bounded [OF sample_policy, of length sample_net "''http://8.8.8.8''" "[]"] by (simp add: sample_net_def)

theorem only_allowed_urls_are_contacted_witness:
  "\<exists>n' r. safeFetch sample_net (loadSsrfPolicy Map.empty) ''http://8.8.8.8'' [] = Some (n', r) \<and> set n' \<subseteq> {''http://8.8.8.8''}"
proof -
  obtain n' r where run: "safeFetch sample_net (loadSsrfPolicy Map.empty) ''http://8.8.8.8'' [] = Some (n', r)"
    using follow_ends [OF sample_policy, of length sample_net 0 "''http://8.8.8.8''" "[]"] by (auto simp: safeFetch_def sample_net_def)
  have "set n' \<subseteq> {''http://8.8.8.8''}"
    by (rule only_allowed_urls_are_contacted [where I = "\<lambda>n. set n \<subseteq> {''http://8.8.8.8''}", OF run])
      (auto simp: sample_net_def assertUrlAllowed_def split: if_splits)
  with run show ?thesis by blast
qed

end
