(* ===== verification/Secrets.thy ===== *)
theory Secrets
  imports Store Auth
begin

section \<open>Secrets at rest (security/secrets.service.ts, security/kms)\<close>

text \<open>
  Envelope encryption: a fresh data key encrypts the secret with the organisation as additional data, the master key wraps the
  data key, and only the envelope is stored. The cipher, the digest, the decoders and the file system are parameters;
  random bytes are arguments. The locale \<^verbatim>\<open>kms_contract\<close> is the seam of kms-adapter.ts: what the secret store relies on. The store
  is proved once against it, and the local keyfile adapter is shown to implement it over any cipher that decrypts what it encrypted.
\<close>

subsection \<open>Adapters\<close>

record Envelope =
  ev_ciphertext :: "byte list"
  ev_wrappedDek :: "byte list"
  ev_keyRef :: string

text \<open>AES-256-GCM as key, nonce, additional data and text to encrypted bytes and tag, and back (None when the tag does not verify).\<close>

record KmsRuntime =
  kr_seal :: "byte list \<Rightarrow> byte list \<Rightarrow> byte list \<Rightarrow> byte list \<Rightarrow> byte list \<times> byte list"
  kr_open :: "byte list \<Rightarrow> byte list \<Rightarrow> byte list \<Rightarrow> byte list \<Rightarrow> byte list \<Rightarrow> byte list option"
  kr_sha256hex :: "byte list \<Rightarrow> string"
  kr_base64 :: "string \<Rightarrow> byte list"
  kr_base64url :: "string \<Rightarrow> byte list"
  kr_readFile :: "string \<Rightarrow> string + string"

definition KEY_BYTES :: nat where "KEY_BYTES = 32"
definition IV_BYTES :: nat where "IV_BYTES = 12"
definition TAG_BYTES :: nat where "TAG_BYTES = 16"
definition DEK_BYTES :: nat where "DEK_BYTES = 32"

text \<open>\<^verbatim>\<open>Buffer.from(s, "utf8")\<close>\<close>

definition utf8 :: "string \<Rightarrow> byte list" where
  "utf8 s = concat (map (\<lambda>c. if code c < 128 then [of_nat (code c)] else [of_nat (192 + code c div 64), of_nat (128 + code c mod 64)]) s)"

definition aadFor :: "string option \<Rightarrow> byte list" where
  "aadFor orgId = utf8 (''org:'' @ nullish orgId [])"

fun hex_bytes :: "string \<Rightarrow> byte list" where
  "hex_bytes (a # b # s) = of_nat (hex_digit a * 16 + hex_digit b) # hex_bytes s"
| "hex_bytes s = []"

definition decodeKey :: "KmsRuntime \<Rightarrow> string \<Rightarrow> byte list option" where
  "decodeKey rt raw =
     (let s = trim raw
      in if s = [] then None
         else if length s = 64 \<and> list_all (\<lambda>c. hex_digit c < 16) s then Some (hex_bytes s)
         else if length (kr_base64 rt s) = KEY_BYTES then Some (kr_base64 rt s)
         else if length (kr_base64url rt s) = KEY_BYTES then Some (kr_base64url rt s)
         else None)"

definition seal :: "KmsRuntime \<Rightarrow> byte list \<Rightarrow> byte list \<Rightarrow> byte list \<Rightarrow> byte list \<Rightarrow> byte list" where
  "seal rt iv key plaintext aad = (case kr_seal rt key iv aad plaintext of (enc, tag) \<Rightarrow> iv @ tag @ enc)"

definition open_blob :: "KmsRuntime \<Rightarrow> byte list \<Rightarrow> byte list \<Rightarrow> byte list \<Rightarrow> byte list res" where
  "open_blob rt key blob aad =
     throwIf (length blob < IV_BYTES + TAG_BYTES) (PlainError ''ciphertext too short / corrupt'')
    (let iv = take IV_BYTES blob; tag = take TAG_BYTES (drop IV_BYTES blob); enc = drop (IV_BYTES + TAG_BYTES) blob
     in case kr_open rt key iv aad tag enc of
          None \<Rightarrow> Inl (PlainError ''Unsupported state or unable to authenticate data'')
        | Some plaintext \<Rightarrow> Inr plaintext)"

record LocalKeyfileKms =
  lk_cek :: "byte list"
  lk_keyRef :: string

definition env_text :: "env \<Rightarrow> string \<Rightarrow> string" where
  "env_text env k = nullish (env k) []"

definition loadMasterKey :: "KmsRuntime \<Rightarrow> env \<Rightarrow> byte list res" where
  "loadMasterKey rt env =
     (let inline = env_text env ''HARA_KMS_MASTER_KEY''; path = trim (env_text env ''HARA_KMS_KEYFILE'')
      in if trim inline \<noteq> []
         then (case decodeKey rt inline of
                 None \<Rightarrow> Inl (PlainError ''HARA_KMS_MASTER_KEY must decode to exactly 32 bytes (base64, base64url, or 64-char hex)'')
               | Some k \<Rightarrow> Inr k)
         else if path \<noteq> []
         then (case kr_readFile rt path of
                 Inl m \<Rightarrow> Inl (PlainError (''HARA_KMS_KEYFILE not readable ('' @ path @ ''): '' @ m))
               | Inr contents \<Rightarrow>
                   (case decodeKey rt contents of
                      None \<Rightarrow> Inl (PlainError (''HARA_KMS_KEYFILE ('' @ path @
                        '') must contain exactly 32 bytes encoded as base64, base64url, or 64-char hex''))
                    | Some k \<Rightarrow> Inr k))
         else Inl (PlainError ''no KMS master key configured - set HARA_KMS_MASTER_KEY (32 bytes base64/hex) or HARA_KMS_KEYFILE (path) for the local KMS provider''))"

definition newLocalKeyfileKms :: "KmsRuntime \<Rightarrow> env \<Rightarrow> LocalKeyfileKms res" where
  "newLocalKeyfileKms rt env =
     bindR (loadMasterKey rt env) (\<lambda>cek. Inr \<lparr>lk_cek = cek, lk_keyRef = ''local:'' @ take 16 (kr_sha256hex rt cek)\<rparr>)"

text \<open>The random bytes of one encryption: the data key and the two nonces.\<close>

record Entropy =
  rn_dek :: "byte list"
  rn_iv :: "byte list"
  rn_wrapIv :: "byte list"

definition random_lengths :: "Entropy \<Rightarrow> bool" where
  "random_lengths r \<longleftrightarrow> length (rn_dek r) = DEK_BYTES \<and> length (rn_iv r) = IV_BYTES \<and> length (rn_wrapIv r) = IV_BYTES"

definition local_encrypt :: "KmsRuntime \<Rightarrow> LocalKeyfileKms \<Rightarrow> Entropy \<Rightarrow> byte list \<Rightarrow> string option \<Rightarrow> Envelope res" where
  "local_encrypt rt k r plaintext orgId =
     Inr \<lparr>ev_ciphertext = seal rt (rn_iv r) (rn_dek r) plaintext (aadFor orgId),
          ev_wrappedDek = seal rt (rn_wrapIv r) (lk_cek k) (rn_dek r) [], ev_keyRef = lk_keyRef k\<rparr>"

definition local_decrypt ::
  "KmsRuntime \<Rightarrow> LocalKeyfileKms \<Rightarrow> byte list \<Rightarrow> byte list \<Rightarrow> string \<Rightarrow> string option \<Rightarrow> byte list res" where
  "local_decrypt rt k ciphertext wrappedDek keyRef orgId =
     throwIf (keyRef \<noteq> lk_keyRef k)
       (PlainError (''secret was wrapped under key '' @ [CHR 0x22] @ keyRef @ [CHR 0x22] @ '' but the active local CEK is '' @ [CHR 0x22] @
          lk_keyRef k @ [CHR 0x22] @ '' - configure the matching master key''))
    (bindR (open_blob rt (lk_cek k) wrappedDek []) (\<lambda>dek. open_blob rt dek ciphertext (aadFor orgId)))"

datatype KmsAdapter = LocalKms LocalKeyfileKms | NotImplementedKms string string

definition kmsProvider :: "env \<Rightarrow> string" where
  "kmsProvider env = toLowerCase (trim (orStr (env_text env ''HARA_KMS_PROVIDER'') ''local''))"

definition createKms :: "KmsRuntime \<Rightarrow> env \<Rightarrow> KmsAdapter res" where
  "createKms rt env =
     (let provider = kmsProvider env
      in if provider = ''local'' then bindR (newLocalKeyfileKms rt env) (\<lambda>k. Inr (LocalKms k))
         else if provider = ''aws'' then Inr (NotImplementedKms ''aws'' ''configure an AWS KMS CMK (HARA_KMS_AWS_KEY_ID + AWS creds) and implement AwsKmsAdapter'')
         else if provider = ''gcp'' then Inr (NotImplementedKms ''gcp'' ''configure a GCP KMS key (HARA_KMS_GCP_KEY_NAME + ADC) and implement GcpKmsAdapter'')
         else if provider = ''vault'' then Inr (NotImplementedKms ''vault'' ''configure HashiCorp Vault Transit (HARA_KMS_VAULT_ADDR/HARA_KMS_VAULT_KEY/token) and implement VaultTransitAdapter'')
         else Inl (PlainError (''unknown HARA_KMS_PROVIDER '' @ [CHR 0x22] @ provider @ [CHR 0x22] @ '' (expected: local | aws | gcp | vault)'')))"

definition notImplemented :: "string \<Rightarrow> string \<Rightarrow> http_error" where
  "notImplemented provider hint = PlainError (''KMS provider '' @ [CHR 0x22] @ provider @ [CHR 0x22] @ '' is not implemented yet - '' @ hint @
     '', or set HARA_KMS_PROVIDER=local with HARA_KMS_MASTER_KEY/HARA_KMS_KEYFILE'')"

fun kms_encrypt :: "KmsRuntime \<Rightarrow> KmsAdapter \<Rightarrow> Entropy \<Rightarrow> byte list \<Rightarrow> string option \<Rightarrow> Envelope res" where
  "kms_encrypt rt (LocalKms k) r plaintext orgId = local_encrypt rt k r plaintext orgId"
| "kms_encrypt rt (NotImplementedKms p h) r plaintext orgId = Inl (notImplemented p h)"

fun kms_decrypt :: "KmsRuntime \<Rightarrow> KmsAdapter \<Rightarrow> byte list \<Rightarrow> byte list \<Rightarrow> string \<Rightarrow> string option \<Rightarrow> byte list res" where
  "kms_decrypt rt (LocalKms k) ciphertext wrappedDek keyRef orgId = local_decrypt rt k ciphertext wrappedDek keyRef orgId"
| "kms_decrypt rt (NotImplementedKms p h) ciphertext wrappedDek keyRef orgId = Inl (notImplemented p h)"

subsection \<open>The secret store\<close>

record Secret =
  se_id :: string
  se_orgId :: "string option"
  se_name :: string
  se_envelope :: Envelope
  se_version :: int
  se_createdAt :: time
  se_updatedAt :: time

record SystemAudit =
  sa_action :: string
  sa_actorType :: string
  sa_actorId :: string
  sa_payload :: jsval

record ProviderActivation =
  pv_provider :: string
  pv_secretName :: string
  pv_secretVersion :: int
  pv_runtimeId :: string
  pv_activatedAt :: time

record ('g, 'd) SecretsWorld = "('g, 'd) World" +
  w_secretRows :: "Secret list"
  w_systemAudits :: "SystemAudit list"
  w_activations :: "ProviderActivation list"

type_synonym encrypter = "byte list \<Rightarrow> string option \<Rightarrow> Envelope res"
type_synonym decrypter = "byte list \<Rightarrow> byte list \<Rightarrow> string \<Rightarrow> string option \<Rightarrow> byte list res"

definition secret_key :: "string option \<Rightarrow> string \<Rightarrow> Secret \<Rightarrow> bool" where
  "secret_key orgId name r \<longleftrightarrow> se_orgId r = orgId \<and> se_name r = name"

definition find_secret :: "string option \<Rightarrow> string \<Rightarrow> Secret list \<Rightarrow> Secret option" where
  "find_secret orgId name rs = find (secret_key orgId name) rs"

definition update_secret :: "string \<Rightarrow> Envelope \<Rightarrow> time \<Rightarrow> Secret list \<Rightarrow> Secret list" where
  "update_secret i env now rs = update_where (\<lambda>r. se_id r = i)
     (\<lambda>r. r\<lparr>se_envelope := env, se_version := se_version r + 1, se_updatedAt := now\<rparr>) rs"

definition new_secret :: "string \<Rightarrow> string option \<Rightarrow> string \<Rightarrow> Envelope \<Rightarrow> time \<Rightarrow> Secret" where
  "new_secret newId orgId name env now =
     \<lparr>se_id = newId, se_orgId = orgId, se_name = name, se_envelope = env, se_version = 1, se_createdAt = now, se_updatedAt = now\<rparr>"

text \<open>\<^verbatim>\<open>secret.update\<close> and \<^verbatim>\<open>secret.create\<close>, with the unique indexes of the migration.\<close>

definition updateSecretS :: "string \<Rightarrow> Envelope \<Rightarrow> time \<Rightarrow> (('g, 'd, 'x) SecretsWorld_scheme, unit) act" where
  "updateSecretS i env now = txS (\<lambda>w.
     if \<exists>r \<in> set (w_secretRows w). se_id r = i then Inr ((), w\<lparr>w_secretRows := update_secret i env now (w_secretRows w)\<rparr>)
     else Inl (PlainError ''Record to update not found.''))"

definition createSecretS :: "Secret \<Rightarrow> (('g, 'd, 'x) SecretsWorld_scheme, unit) act" where
  "createSecretS row = txS (\<lambda>w.
     if \<exists>r \<in> set (w_secretRows w). secret_key (se_orgId row) (se_name row) r then Inl (PlainError ''Unique constraint failed'')
     else Inr ((), w\<lparr>w_secretRows := w_secretRows w @ [row]\<rparr>))"

definition put :: "encrypter \<Rightarrow> string \<Rightarrow> time \<Rightarrow> string option \<Rightarrow> string \<Rightarrow> byte list \<Rightarrow> (('g, 'd, 'x) SecretsWorld_scheme, unit) act" where
  "put encrypt newId now orgId name plaintext =
     bindA (liftR (encrypt plaintext orgId)) (\<lambda>env.
     bindA (readS (\<lambda>w. find_secret orgId name (w_secretRows w))) (\<lambda>existing.
     case existing of
       Some r \<Rightarrow> updateSecretS (se_id r) env now
     | None \<Rightarrow> createSecretS (new_secret newId orgId name env now)))"

definition put_rows :: "string \<Rightarrow> time \<Rightarrow> string option \<Rightarrow> string \<Rightarrow> Envelope \<Rightarrow> Secret list \<Rightarrow> Secret list" where
  "put_rows newId now orgId name env rs =
     (case find_secret orgId name rs of
        Some r \<Rightarrow> update_secret (se_id r) env now rs
      | None \<Rightarrow> rs @ [new_secret newId orgId name env now])"

definition putWithSystemAudit ::
  "encrypter \<Rightarrow> string \<Rightarrow> time \<Rightarrow> string option \<Rightarrow> string \<Rightarrow> byte list \<Rightarrow> SystemAudit \<Rightarrow> (('g, 'd, 'x) SecretsWorld_scheme, unit) act" where
  "putWithSystemAudit encrypt newId now orgId name plaintext audit =
     bindA (liftR (encrypt plaintext orgId)) (\<lambda>env.
     txS (\<lambda>w. Inr ((), w\<lparr>w_secretRows := put_rows newId now orgId name env (w_secretRows w),
                         w_systemAudits := w_systemAudits w @ [audit]\<rparr>)))"

record VersionedSecret =
  vs_value :: "byte list"
  vs_version :: int
  vs_updatedAt :: time

definition open_row :: "decrypter \<Rightarrow> string option \<Rightarrow> Secret \<Rightarrow> VersionedSecret res" where
  "open_row decrypt orgId r =
     bindR (decrypt (ev_ciphertext (se_envelope r)) (ev_wrappedDek (se_envelope r)) (ev_keyRef (se_envelope r)) orgId) (\<lambda>msg.
     Inr \<lparr>vs_value = msg, vs_version = se_version r, vs_updatedAt = se_updatedAt r\<rparr>)"

definition getVersioned :: "decrypter \<Rightarrow> string option \<Rightarrow> string \<Rightarrow> (('g, 'd, 'x) SecretsWorld_scheme, VersionedSecret option) act" where
  "getVersioned decrypt orgId name =
     bindA (readS (\<lambda>w. find_secret orgId name (w_secretRows w))) (\<lambda>row.
     case row of None \<Rightarrow> retA None | Some r \<Rightarrow> bindA (liftR (open_row decrypt orgId r)) (\<lambda>v. retA (Some v)))"

definition get_secret :: "decrypter \<Rightarrow> string option \<Rightarrow> string \<Rightarrow> (('g, 'd, 'x) SecretsWorld_scheme, byte list option) act" where
  "get_secret decrypt orgId name = bindA (getVersioned decrypt orgId name) (\<lambda>v. retA (map_option vs_value v))"

definition getString ::
  "(byte list \<Rightarrow> string) \<Rightarrow> decrypter \<Rightarrow> string option \<Rightarrow> string \<Rightarrow> (('g, 'd, 'x) SecretsWorld_scheme, string option) act" where
  "getString unutf8 decrypt orgId name = bindA (get_secret decrypt orgId name) (\<lambda>b. retA (map_option unutf8 b))"

record SecretDescription =
  sd_exists :: bool
  sd_version :: "int option"
  sd_createdAt :: "time option"
  sd_updatedAt :: "time option"

definition describe :: "string option \<Rightarrow> string \<Rightarrow> (('g, 'd, 'x) SecretsWorld_scheme, SecretDescription) act" where
  "describe orgId name =
     bindA (readS (\<lambda>w. find_secret orgId name (w_secretRows w))) (\<lambda>row. retA
       (case row of
          Some r \<Rightarrow> \<lparr>sd_exists = True, sd_version = Some (se_version r), sd_createdAt = Some (se_createdAt r), sd_updatedAt = Some (se_updatedAt r)\<rparr>
        | None \<Rightarrow> \<lparr>sd_exists = False, sd_version = None, sd_createdAt = None, sd_updatedAt = None\<rparr>))"

definition remove_secret :: "string option \<Rightarrow> string \<Rightarrow> (('g, 'd, 'x) SecretsWorld_scheme, unit) act" where
  "remove_secret orgId name = writeS (\<lambda>w. w\<lparr>w_secretRows := filter (\<lambda>r. \<not> secret_key orgId name r) (w_secretRows w)\<rparr>)"

subsection \<open>What the store relies on\<close>

text \<open>The store as a map from organisation and name to what decryption gives.\<close>

definition secret_map :: "decrypter \<Rightarrow> Secret list \<Rightarrow> string option \<times> string \<Rightarrow> byte list res option" where
  "secret_map decrypt rs = (\<lambda>(orgId, name). map_option (\<lambda>r.
     decrypt (ev_ciphertext (se_envelope r)) (ev_wrappedDek (se_envelope r)) (ev_keyRef (se_envelope r)) orgId) (find_secret orgId name rs))"

definition secrets_wf :: "Secret list \<Rightarrow> bool" where
  "secrets_wf rs \<longleftrightarrow> distinct (map se_id rs) \<and> distinct (map (\<lambda>r. (se_orgId r, se_name r)) rs)"

locale kms_contract =
  fixes encrypt :: encrypter and decrypt :: decrypter
  assumes opens: "encrypt plaintext orgId = Inr e \<Longrightarrow>
    decrypt (ev_ciphertext e) (ev_wrappedDek e) (ev_keyRef e) orgId = Inr plaintext"

lemma find_secret_Some:
  "find_secret orgId name rs = Some r \<Longrightarrow> r \<in> set rs \<and> se_orgId r = orgId \<and> se_name r = name"
  by (auto simp: find_secret_def secret_key_def find_Some_iff)

lemma secrets_unique:
  assumes "secrets_wf rs" "find_secret orgId name rs = Some r" "x \<in> set rs"
  shows "se_id x = se_id r \<longleftrightarrow> secret_key orgId name x"
proof -
  have r: "r \<in> set rs" "se_orgId r = orgId" "se_name r = name" using find_secret_Some [OF assms(2)] by auto
  have "inj_on se_id (set rs)" "inj_on (\<lambda>r. (se_orgId r, se_name r)) (set rs)"
    using assms(1) by (simp_all add: secrets_wf_def distinct_map)
  then show ?thesis using r assms(3) by (auto simp: secret_key_def dest: inj_onD)
qed

lemma find_update_where:
  assumes "\<And>x. x \<in> set rs \<Longrightarrow> p x \<longleftrightarrow> q x" "\<And>x. q (f x) = q x"
  shows "find q (update_where p f rs) = map_option f (find q rs)"
  using assms(1) by (induction rs) (auto simp: update_where_def assms(2))

lemma find_update_apart:
  assumes "\<And>x. x \<in> set rs \<Longrightarrow> p x \<Longrightarrow> \<not> q x" "\<And>x. q (f x) = q x"
  shows "find q (update_where p f rs) = find q rs"
  using assms(1) by (induction rs) (auto simp: update_where_def assms(2))

lemma find_secret_update:
  assumes "secrets_wf rs" "find_secret orgId name rs = Some r"
  shows "find_secret o' n' (update_secret (se_id r) env now rs) =
    (if o' = orgId \<and> n' = name then Some (r\<lparr>se_envelope := env, se_version := se_version r + 1, se_updatedAt := now\<rparr>)
     else find_secret o' n' rs)"
proof (cases "o' = orgId \<and> n' = name")
  case True
  then show ?thesis
    using assms(2) secrets_unique [OF assms] unfolding find_secret_def update_secret_def
    by (subst find_update_where) (auto simp: secret_key_def)
next
  case False
  then show ?thesis
    using secrets_unique [OF assms] unfolding find_secret_def update_secret_def
    by (subst find_update_apart) (auto simp: secret_key_def)
qed

lemma find_secret_snoc:
  assumes "find_secret (se_orgId row) (se_name row) rs = None"
  shows "find_secret o' n' (rs @ [row]) = (if o' = se_orgId row \<and> n' = se_name row then Some row else find_secret o' n' rs)"
proof -
  have "find p (rs @ [row]) = (case find p rs of Some x \<Rightarrow> Some x | None \<Rightarrow> if p row then Some row else None)" for p
    by (induction rs) auto
  then show ?thesis using assms by (auto simp: find_secret_def secret_key_def split: option.splits)
qed

definition put_version :: "string option \<Rightarrow> string \<Rightarrow> Secret list \<Rightarrow> int" where
  "put_version orgId name rs = (case find_secret orgId name rs of Some r \<Rightarrow> se_version r + 1 | None \<Rightarrow> 1)"

lemma find_put_rows:
  assumes "secrets_wf rs"
  shows "\<exists>row. se_envelope row = env \<and> se_version row = put_version orgId name rs \<and> se_updatedAt row = now \<and>
    (\<forall>o' n'. find_secret o' n' (put_rows newId now orgId name env rs) =
       (if o' = orgId \<and> n' = name then Some row else find_secret o' n' rs))"
proof (cases "find_secret orgId name rs")
  case None
  then show ?thesis
    using find_secret_snoc [of "new_secret newId orgId name env now" rs]
    by (intro exI [of _ "new_secret newId orgId name env now"]) (simp add: put_rows_def put_version_def new_secret_def)
next
  case (Some r)
  show ?thesis
    using find_secret_update [OF assms Some]
    by (intro exI [of _ "r\<lparr>se_envelope := env, se_version := se_version r + 1, se_updatedAt := now\<rparr>"])
      (simp add: put_rows_def put_version_def Some)
qed

lemma secrets_wf_put:
  assumes "secrets_wf rs" "newId \<notin> se_id ` set rs"
  shows "secrets_wf (put_rows newId now orgId name env rs)"
proof (cases "find_secret orgId name rs")
  case None
  then have "(orgId, name) \<notin> (\<lambda>r. (se_orgId r, se_name r)) ` set rs"
    by (auto simp: find_secret_def secret_key_def find_None_iff)
  then show ?thesis using None assms by (auto simp: put_rows_def secrets_wf_def new_secret_def)
qed (use assms in \<open>simp add: put_rows_def secrets_wf_def update_secret_def\<close>)

context kms_contract
begin

lemma map_after_put:
  assumes "secrets_wf rs" "encrypt plaintext orgId = Inr env"
  shows "secret_map decrypt (put_rows newId now orgId name env rs) = (secret_map decrypt rs)((orgId, name) \<mapsto> Inr plaintext)"
proof -
  obtain row where row: "se_envelope row = env" "\<And>o' n'. find_secret o' n' (put_rows newId now orgId name env rs) =
      (if o' = orgId \<and> n' = name then Some row else find_secret o' n' rs)"
    using find_put_rows [OF assms(1)] by metis
  show ?thesis using opens [OF assms(2)] by (auto simp: fun_eq_iff secret_map_def row)
qed

end

lemma map_after_remove:
  "secret_map decrypt (filter (\<lambda>r. \<not> secret_key orgId name r) rs) = (secret_map decrypt rs)((orgId, name) := None)"
proof -
  have "find_secret o' n' (filter (\<lambda>r. \<not> secret_key orgId name r) rs) =
      (if o' = orgId \<and> n' = name then None else find_secret o' n' rs)" for o' n'
    by (induction rs) (auto simp: find_secret_def secret_key_def)
  then show ?thesis by (auto simp: fun_eq_iff secret_map_def)
qed

subsection \<open>The adapters keep the contract\<close>

definition gcm_inverse :: "KmsRuntime \<Rightarrow> bool" where
  "gcm_inverse rt \<longleftrightarrow> (\<forall>key iv aad msg. length key = KEY_BYTES \<longrightarrow> length iv = IV_BYTES \<longrightarrow>
     (case kr_seal rt key iv aad msg of (enc, tag) \<Rightarrow> length tag = TAG_BYTES \<and> kr_open rt key iv aad tag enc = Some msg))"

lemma open_seal:
  assumes "gcm_inverse rt" "length key = KEY_BYTES" "length iv = IV_BYTES"
  shows "open_blob rt key (seal rt iv key msg aad) aad = Inr msg"
proof -
  obtain enc tag where e: "kr_seal rt key iv aad msg = (enc, tag)" by fastforce
  have "case kr_seal rt key iv aad msg of (enc, tag) \<Rightarrow> length tag = TAG_BYTES \<and> kr_open rt key iv aad tag enc = Some msg"
    using assms(1) [unfolded gcm_inverse_def, rule_format, OF assms(2,3)] .
  then have t: "length tag = TAG_BYTES" "kr_open rt key iv aad tag enc = Some msg" by (simp_all add: e)
  then show ?thesis using assms(3) by (simp add: open_blob_def seal_def e throwIf_def)
qed

lemma length_hex_bytes: "length (hex_bytes s) = length s div 2"
  by (induction s rule: hex_bytes.induct) auto

lemma decodeKey_length: "decodeKey rt raw = Some k \<Longrightarrow> length k = KEY_BYTES"
  by (auto simp: decodeKey_def Let_def length_hex_bytes KEY_BYTES_def split: if_splits)

lemma loadMasterKey_length: "loadMasterKey rt env = Inr k \<Longrightarrow> length k = KEY_BYTES"
  by (auto simp: loadMasterKey_def Let_def split: if_splits option.splits sum.splits dest: decodeKey_length)

lemma local_opens:
  assumes "gcm_inverse rt" "length (lk_cek k) = KEY_BYTES" "random_lengths r" "local_encrypt rt k r msg orgId = Inr e"
  shows "local_decrypt rt k (ev_ciphertext e) (ev_wrappedDek e) (ev_keyRef e) orgId = Inr msg"
proof -
  have l: "length (rn_dek r) = KEY_BYTES" "length (rn_iv r) = IV_BYTES" "length (rn_wrapIv r) = IV_BYTES"
    using assms(3) by (simp_all add: random_lengths_def KEY_BYTES_def DEK_BYTES_def)
  show ?thesis
    using assms(4) open_seal [OF assms(1,2) l(3)] open_seal [OF assms(1) l(1,2)]
    by (auto simp: local_encrypt_def local_decrypt_def)
qed

lemma created_kms_contract:
  assumes "gcm_inverse rt" "random_lengths r" "createKms rt env = Inr kms"
  shows "kms_contract (kms_encrypt rt kms r) (kms_decrypt rt kms)"
proof
  fix msg orgId e
  assume e: "kms_encrypt rt kms r msg orgId = Inr e"
  show "kms_decrypt rt kms (ev_ciphertext e) (ev_wrappedDek e) (ev_keyRef e) orgId = Inr msg"
  proof (cases kms)
    case (LocalKms k)
    then have "\<exists>cek. loadMasterKey rt env = Inr cek \<and> lk_cek k = cek"
      using assms(3) by (auto simp: createKms_def newLocalKeyfileKms_def Let_def bindR_eq_Inr split: if_splits)
    then have "length (lk_cek k) = KEY_BYTES" using loadMasterKey_length by blast
    then show ?thesis using local_opens [OF assms(1) _ assms(2)] e LocalKms by simp
  qed (use e in simp)
qed

text \<open>What the environment configures implements the seam.\<close>

locale configured_kms =
  fixes rt :: KmsRuntime and r :: Entropy and env :: env and kms :: KmsAdapter
  assumes cipher: "gcm_inverse rt" and random: "random_lengths r" and created: "createKms rt env = Inr kms"

sublocale configured_kms \<subseteq> kms_contract "kms_encrypt rt kms r" "kms_decrypt rt kms"
  by (rule created_kms_contract [OF cipher random created])

subsection \<open>The store is a map\<close>

definition rows_like :: "('g, 'd, 'x) SecretsWorld_scheme \<Rightarrow> ('g, 'd, 'x) SecretsWorld_scheme \<Rightarrow> bool" where
  "rows_like w v \<longleftrightarrow> w_secretRows v = w_secretRows w \<and> w_systemAudits v = w_systemAudits w \<and> w_activations v = w_activations w"

lemma scriptless_rows_like [simp]: "scriptless (rows_like w)"
  by (rule scriptlessI) (simp add: rows_like_def)

lemma hoare_put:
  assumes "secrets_wf (w_secretRows w0)"
  shows "hoare (rows_like w0) (put encrypt newId now orgId name plaintext)
    (\<lambda>_ v. \<exists>env. encrypt plaintext orgId = Inr env \<and> w_secretRows v = put_rows newId now orgId name env (w_secretRows w0) \<and>
       w_systemAudits v = w_systemAudits w0)
    (\<lambda>_. rows_like w0)"
  unfolding put_def
proof (rule hoare_liftR_bind)
  fix env
  assume env: "encrypt plaintext orgId = Inr env"
  show "hoare (rows_like w0) (bindA (readS (\<lambda>w. find_secret orgId name (w_secretRows w)))
      (\<lambda>existing. case existing of Some r \<Rightarrow> updateSecretS (se_id r) env now | None \<Rightarrow> createSecretS (new_secret newId orgId name env now)))
    (\<lambda>_ v. \<exists>env. encrypt plaintext orgId = Inr env \<and> w_secretRows v = put_rows newId now orgId name env (w_secretRows w0) \<and>
       w_systemAudits v = w_systemAudits w0)
    (\<lambda>_. rows_like w0)"
  proof (rule hoare_bindA)
    show "hoare (rows_like w0) (readS (\<lambda>w. find_secret orgId name (w_secretRows w)))
        (\<lambda>x v. rows_like w0 v \<and> find_secret orgId name (w_secretRows w0) = x) (\<lambda>_. rows_like w0)"
      by (rule hoare_readS) (auto simp: rows_like_def)
    show "hoare (\<lambda>v. rows_like w0 v \<and> find_secret orgId name (w_secretRows w0) = x)
        (case x of Some r \<Rightarrow> updateSecretS (se_id r) env now | None \<Rightarrow> createSecretS (new_secret newId orgId name env now))
        (\<lambda>_ v. \<exists>env. encrypt plaintext orgId = Inr env \<and> w_secretRows v = put_rows newId now orgId name env (w_secretRows w0) \<and>
          w_systemAudits v = w_systemAudits w0) (\<lambda>_. rows_like w0)" for x
      using env unfolding updateSecretS_def createSecretS_def
      by (cases x)
        (auto intro!: hoare_txS scriptlessI split: if_splits simp: rows_like_def put_rows_def)
  qed
qed simp

lemma hoare_putWithSystemAudit:
  "hoare (rows_like w0) (putWithSystemAudit encrypt newId now orgId name plaintext audit)
    (\<lambda>_ v. \<exists>env. encrypt plaintext orgId = Inr env \<and> w_secretRows v = put_rows newId now orgId name env (w_secretRows w0) \<and>
       w_systemAudits v = w_systemAudits w0 @ [audit] \<and> w_activations v = w_activations w0)
    (\<lambda>_. rows_like w0)"
  unfolding putWithSystemAudit_def
  by (rule hoare_liftR_bind) (auto intro!: hoare_txS simp: rows_like_def)

text \<open>
  Property C27. Over every adapter that \<^verbatim>\<open>createKms\<close> builds, the secret store is a map from organisation and name to secrets: a put that
  returns binds exactly that name to the plaintext, which \<^verbatim>\<open>get\<close> decrypts, with the next version, and leaves every other secret alone; a
  put that throws changes nothing; removing unbinds exactly that name. The cipher is any one that opens what it sealed.
\<close>

theorem secret_store_is_a_map:
  assumes "gcm_inverse rt" "random_lengths r" "createKms rt env = Inr kms" "secrets_wf (w_secretRows w)" "newId \<notin> se_id ` set (w_secretRows w)"
    "put (kms_encrypt rt kms r) newId now orgId name plaintext w = (w1, res1)"
    "remove_secret orgId name w = (w2, Inr ())"
  shows "(case res1 of
      Inl e \<Rightarrow> w_secretRows w1 = w_secretRows w
    | Inr _ \<Rightarrow> secrets_wf (w_secretRows w1) \<and>
        secret_map (kms_decrypt rt kms) (w_secretRows w1) =
          (secret_map (kms_decrypt rt kms) (w_secretRows w))((orgId, name) \<mapsto> Inr plaintext) \<and>
        map_option se_version (find_secret orgId name (w_secretRows w1)) = Some (put_version orgId name (w_secretRows w))) \<and>
    secret_map (kms_decrypt rt kms) (w_secretRows w2) = (secret_map (kms_decrypt rt kms) (w_secretRows w))((orgId, name) := None)"
proof
  have c: "kms_contract (kms_encrypt rt kms r) (kms_decrypt rt kms)" by (rule created_kms_contract [OF assms(1-3)])
  have start: "rows_like w w" by (simp add: rows_like_def)
  note put = hoare_put [OF assms(4), of "kms_encrypt rt kms r" newId now orgId name plaintext]
  show "case res1 of
      Inl e \<Rightarrow> w_secretRows w1 = w_secretRows w
    | Inr _ \<Rightarrow> secrets_wf (w_secretRows w1) \<and>
        secret_map (kms_decrypt rt kms) (w_secretRows w1) =
          (secret_map (kms_decrypt rt kms) (w_secretRows w))((orgId, name) \<mapsto> Inr plaintext) \<and>
        map_option se_version (find_secret orgId name (w_secretRows w1)) = Some (put_version orgId name (w_secretRows w))"
  proof (cases res1)
    case (Inl e)
    then show ?thesis using hoareD_Inl [OF put start] assms(6) by (simp add: rows_like_def)
  next
    case (Inr u)
    then obtain env where e: "kms_encrypt rt kms r plaintext orgId = Inr env"
      "w_secretRows w1 = put_rows newId now orgId name env (w_secretRows w)"
      using hoareD_Inr [OF put start] assms(6) by blast
    obtain row where "se_version row = put_version orgId name (w_secretRows w)" "find_secret orgId name (w_secretRows w1) = Some row"
      using find_put_rows [OF assms(4)] unfolding e(2) by metis
    then show ?thesis
      using Inr kms_contract.map_after_put [OF c assms(4) e(1)] secrets_wf_put [OF assms(4,5)] by (simp add: e(2))
  qed
  show "secret_map (kms_decrypt rt kms) (w_secretRows w2) = (secret_map (kms_decrypt rt kms) (w_secretRows w))((orgId, name) := None)"
    using assms(7) map_after_remove
    by (auto simp: remove_secret_def writeS_def stmt_def split: list.splits option.splits)
qed

text \<open>A cipher that keeps the text and tags it with sixteen zero bytes, which is enough to run the adapter.\<close>

definition sample_runtime :: KmsRuntime where
  "sample_runtime =
     \<lparr>kr_seal = (\<lambda>key iv aad msg. (msg, replicate 16 0)), kr_open = (\<lambda>key iv aad tag enc. Some enc), kr_sha256hex = (\<lambda>_. ''00''),
      kr_base64 = (\<lambda>s. replicate 32 0), kr_base64url = (\<lambda>s. []), kr_readFile = (\<lambda>_. Inl ''ENOENT'')\<rparr>"

definition sample_kms :: LocalKeyfileKms where
  "sample_kms = \<lparr>lk_cek = replicate 32 0, lk_keyRef = ''local:00''\<rparr>"

definition sample_entropy :: Entropy where
  "sample_entropy = \<lparr>rn_dek = replicate 32 1, rn_iv = replicate 12 2, rn_wrapIv = replicate 12 3\<rparr>"

lemma sample_contract:
  "gcm_inverse sample_runtime" "random_lengths sample_entropy"
  "createKms sample_runtime [''HARA_KMS_MASTER_KEY'' \<mapsto> ''AA''] = Inr (LocalKms sample_kms)"
  by (simp_all add: gcm_inverse_def sample_runtime_def TAG_BYTES_def random_lengths_def sample_entropy_def DEK_BYTES_def IV_BYTES_def
      createKms_def kmsProvider_def env_text_def newLocalKeyfileKms_def loadMasterKey_def decodeKey_def KEY_BYTES_def sample_kms_def
      trim_def is_ws_def toLowerCase_def lower_char_def is_upper_az_def Let_def)

interpretation local_kms: configured_kms sample_runtime sample_entropy "[''HARA_KMS_MASTER_KEY'' \<mapsto> ''AA'']" "LocalKms sample_kms"
  by unfold_locales (rule sample_contract)+

definition secrets_world :: "Secret list \<Rightarrow> (MockState, unit) SecretsWorld" where
  "secrets_world rs =
     \<lparr>w_orgs = [], w_persons = [], w_codes = [], w_devices = [], w_tokens = [], w_bindings = [], w_secrets = Map.empty, w_audits = [],
      w_script = [], w_gateway = \<lparr>mk_spend = Map.empty, mk_models = Map.empty, mk_random = 0\<rparr>, w_desk = (),
      w_secretRows = rs, w_systemAudits = [], w_activations = []\<rparr>"

definition sample_put :: "(MockState, unit) SecretsWorld \<times> unit res" where
  "sample_put = put (kms_encrypt sample_runtime (LocalKms sample_kms) sample_entropy) ''s'' 5 (Some ''c'') ''k'' [7] (secrets_world [])"

theorem secret_store_is_a_map_witness:
  "secret_map (kms_decrypt sample_runtime (LocalKms sample_kms)) (w_secretRows (fst sample_put)) = [(Some ''c'', ''k'') \<mapsto> Inr [7]]"
proof -
  let ?enc = "kms_encrypt sample_runtime (LocalKms sample_kms) sample_entropy"
  have put: "put ?enc ''s'' 5 (Some ''c'') ''k'' [7] (secrets_world []) = (fst sample_put, Inr ())"
    by (simp add: sample_put_def put_def secrets_world_def bindA_def liftR_def readS_def stmt_def find_secret_def createSecretS_def txS_def local_encrypt_def)
  have rem: "remove_secret (Some ''c'') ''k'' (secrets_world []) = (secrets_world [], Inr ())"
    by (simp add: remove_secret_def writeS_def stmt_def secrets_world_def)
  have init: "secrets_wf (w_secretRows (secrets_world []))" "''s'' \<notin> se_id ` set (w_secretRows (secrets_world []))"
    "secret_map (kms_decrypt sample_runtime (LocalKms sample_kms)) (w_secretRows (secrets_world [])) = Map.empty"
    by (auto simp: secrets_wf_def secrets_world_def secret_map_def find_secret_def fun_eq_iff)
  show ?thesis
    using secret_store_is_a_map [OF sample_contract init(1,2) put rem] init(3) by simp
qed

end
