(* ===== verification/Redact.thy ===== *)
theory Redact
  imports Prelude
begin

section \<open>Text at the boundary (common/redact.ts, assets/guard.ts)\<close>

text \<open>
  The filters in front of the tables that keep text from outside: \<^verbatim>\<open>sanitizeControlText\<close>, and the guard of the asset store. Both
  are lists of regular expressions, so the theory starts with the part of the language they are written in: patterns over strings of
  8-bit code units with the backtracking order of ECMAScript.
\<close>

subsection \<open>Regular expressions\<close>

datatype re =
    One "char \<Rightarrow> bool"
  | Lit string
  | LitI string
  | Reps nat "char \<Rightarrow> bool"
  | Lazy "char \<Rightarrow> bool"
  | Star re
  | Opt re
  | Seq re re
  | Alt re re
  | Bnd
  | NotAhead re

text \<open>
  A position is the character before it and the rest of the text. The matcher lists the positions where a match can end, in the order
  a backtracking matcher tries them; \<^verbatim>\<open>LitI\<close> ignores case, \<^verbatim>\<open>Reps n\<close> is \<^verbatim>\<open>{n,}\<close> and greedy, \<^verbatim>\<open>Lazy\<close> is \<^verbatim>\<open>*?\<close>.
\<close>

type_synonym position = "char option \<times> string"

definition word_char :: "char \<Rightarrow> bool" where
  "word_char c \<longleftrightarrow> is_digit c \<or> is_lower_az c \<or> is_upper_az c \<or> c = CHR ''_''"

definition at_boundary :: "position \<Rightarrow> bool" where
  "at_boundary p \<longleftrightarrow>
     (case fst p of None \<Rightarrow> False | Some c \<Rightarrow> word_char c) \<noteq> (case snd p of [] \<Rightarrow> False | c # _ \<Rightarrow> word_char c)"

definition skip :: "nat \<Rightarrow> position \<Rightarrow> position" where
  "skip n p = (if n = 0 then p else (Some (snd p ! (n - 1)), drop n (snd p)))"

definition run_length :: "(char \<Rightarrow> bool) \<Rightarrow> string \<Rightarrow> nat" where
  "run_length q s = length (takeWhile q s)"

function (sequential) matches :: "re \<Rightarrow> position \<Rightarrow> position list" where
  "matches (One q) p = (case snd p of [] \<Rightarrow> [] | c # s \<Rightarrow> if q c then [(Some c, s)] else [])"
| "matches (Lit l) p = (if startsWith (snd p) l then [skip (length l) p] else [])"
| "matches (LitI l) p = (if startsWith (toLowerCase (snd p)) (toLowerCase l) then [skip (length l) p] else [])"
| "matches (Reps n q) p = map (\<lambda>k. skip k p) (rev [n ..< Suc (run_length q (snd p))])"
| "matches (Lazy q) p = map (\<lambda>k. skip k p) [0 ..< Suc (run_length q (snd p))]"
| "matches (Star r) p = concat (map (\<lambda>p'. if length (snd p') < length (snd p) then matches (Star r) p' else []) (matches r p)) @ [p]"
| "matches (Opt r) p = matches r p @ [p]"
| "matches (Seq a b) p = concat (map (matches b) (matches a p))"
| "matches (Alt a b) p = matches a p @ matches b p"
| "matches Bnd p = (if at_boundary p then [p] else [])"
| "matches (NotAhead r) p = (if matches r p = [] then [p] else [])"
  by pat_completeness auto
termination by (relation "measures [\<lambda>(r, p). size r, \<lambda>(r, p). length (snd p)]") auto

declare matches.simps(6) [simp del]

fun seqs :: "re list \<Rightarrow> re" where
  "seqs [] = Lit []"
| "seqs [r] = r"
| "seqs (r # rs) = Seq r (seqs rs)"

fun alts :: "re list \<Rightarrow> re" where
  "alts [] = NotAhead (Lit [])"
| "alts [r] = r"
| "alts (r # rs) = Alt r (alts rs)"

text \<open>\<^verbatim>\<open>/r/.test(s)\<close>, \<^verbatim>\<open>/^r$/.test(s)\<close>, and \<^verbatim>\<open>s.replace(/r/g, f)\<close> with \<^verbatim>\<open>f\<close> applied to the matched text.\<close>

fun test_from :: "re \<Rightarrow> char option \<Rightarrow> string \<Rightarrow> bool" where
  "test_from r prev [] = (matches r (prev, []) \<noteq> [])"
| "test_from r prev (c # s) = (matches r (prev, c # s) \<noteq> [] \<or> test_from r (Some c) s)"

definition test :: "re \<Rightarrow> string \<Rightarrow> bool" where
  "test r s = test_from r None s"

definition test_all :: "re \<Rightarrow> string \<Rightarrow> bool" where
  "test_all r s = list_ex (\<lambda>p. snd p = []) (matches r (None, s))"

function replace_from :: "re \<Rightarrow> (string \<Rightarrow> string) \<Rightarrow> position \<Rightarrow> string" where
  "replace_from r f p =
     (case snd p of
        [] \<Rightarrow> []
      | c # s \<Rightarrow>
          (case matches r p of
             (prev, s') # _ \<Rightarrow>
               if length s' < length (c # s)
               then f (take (length (c # s) - length s') (c # s)) @ replace_from r f (prev, s')
               else c # replace_from r f (Some c, s)
           | [] \<Rightarrow> c # replace_from r f (Some c, s)))"
  by pat_completeness auto
termination by (relation "measure (\<lambda>(r, f, p). length (snd p))") auto

declare replace_from.simps [simp del]

definition replace_all :: "re \<Rightarrow> (string \<Rightarrow> string) \<Rightarrow> string \<Rightarrow> string" where
  "replace_all r f s = replace_from r f (None, s)"

subsection \<open>The shared filter (common/redact.ts)\<close>

definition any_of :: "string \<Rightarrow> char \<Rightarrow> bool" where
  "any_of cs c \<longleftrightarrow> c \<in> set cs"

definition alnum :: "char \<Rightarrow> bool" where
  "alnum c \<longleftrightarrow> is_digit c \<or> is_lower_az c \<or> is_upper_az c"

definition alnum_or :: "string \<Rightarrow> char \<Rightarrow> bool" where
  "alnum_or cs c \<longleftrightarrow> alnum c \<or> c \<in> set cs"

definition free_of :: "string \<Rightarrow> char \<Rightarrow> bool" where
  "free_of cs c \<longleftrightarrow> \<not> is_ws c \<and> c \<notin> set cs"

definition unsafe_control :: "char \<Rightarrow> bool" where
  "unsafe_control c \<longleftrightarrow> code c \<le> 8 \<or> code c = 11 \<or> code c = 12 \<or> (14 \<le> code c \<and> code c \<le> 31) \<or> code c = 127"

definition quotes :: string where
  "quotes = [CHR 0x22, CHR 0x27]"

definition CONTROL_CHARACTERS :: re where
  "CONTROL_CHARACTERS = One unsafe_control"

definition CREDENTIAL_ASSIGNMENT :: re where
  "CREDENTIAL_ASSIGNMENT = seqs
     [Bnd, alts [seqs [LitI ''api'', Opt (One (any_of ''_-'')), LitI ''key''], LitI ''token'', LitI ''secret'', LitI ''password'', LitI ''authorization'', LitI ''cookie''],
      Reps 0 is_ws, One (any_of '':=''), Reps 0 is_ws, Reps 1 (free_of '',;'')]"

definition BEARER_CREDENTIAL :: re where
  "BEARER_CREDENTIAL = seqs [Bnd, LitI ''Bearer'', Reps 1 is_ws, Reps 8 (alnum_or ''._~+/=-'')]"

definition COMMON_SECRET :: re where
  "COMMON_SECRET = seqs
     [Bnd, alts (map LitI [''sk'', ''ak'', ''rk'', ''pk'', ''ghp'', ''gho'', ''ghu'', ''ghs'', ''github_pat'', ''xoxb'', ''xoxp'', ''xoxa'', ''xoxr'']),
      One (any_of ''-_''), Reps 8 (alnum_or ''._-''), Bnd]"

definition WINDOWS_HOME_PATH :: re where
  "WINDOWS_HOME_PATH = seqs
     [Bnd, One (\<lambda>c. is_lower_az c \<or> is_upper_az c), Lit [CHR '':'', CHR 0x5C], alts [Lit ''Users'', Lit ''Documents and Settings''], Lit [CHR 0x5C],
      Reps 1 (free_of ('',;'' @ quotes))]"

definition POSIX_HOME_PATH :: re where
  "POSIX_HOME_PATH = seqs [Lit ''/'', alts [Lit ''Users'', Lit ''home''], Lit ''/'', Reps 1 (free_of ('',;'' @ quotes))]"

definition URL_SECRET :: re where
  "URL_SECRET = seqs
     [One (any_of ''?&''), alts [seqs [LitI ''api'', Opt (One (any_of ''_-'')), LitI ''key''], LitI ''token'', LitI ''secret'', LitI ''password'', LitI ''authorization''],
      Lit ''='', Reps 1 (free_of ''&#'')]"

text \<open>The group of \<^verbatim>\<open>URL_SECRET\<close> is the matched text up to its first equals sign.\<close>

definition url_masked :: "string \<Rightarrow> string" where
  "url_masked u = takeWhile (\<lambda>c. c \<noteq> CHR ''='') u @ ''=***''"

definition SPACES :: re where
  "SPACES = Reps 1 is_ws"

definition sanitizeControlText :: "string \<Rightarrow> nat \<Rightarrow> string" where
  "sanitizeControlText value limit =
     take limit (trim (replace_all SPACES (\<lambda>_. '' '')
    (replace_all URL_SECRET url_masked
    (replace_all POSIX_HOME_PATH (\<lambda>_. ''<local-path>'')
    (replace_all WINDOWS_HOME_PATH (\<lambda>_. ''<local-path>'')
    (replace_all COMMON_SECRET (\<lambda>_. ''<secret>'')
    (replace_all BEARER_CREDENTIAL (\<lambda>_. ''Bearer ***'')
    (replace_all CREDENTIAL_ASSIGNMENT (\<lambda>_. ''credential=***'')
    (replace_all CONTROL_CHARACTERS (\<lambda>_. '' '') value)))))))))"

subsection \<open>The guard of the asset store (assets/guard.ts)\<close>

definition upper_or_space :: "char \<Rightarrow> bool" where
  "upper_or_space c \<longleftrightarrow> is_upper_az c \<or> c = CHR '' ''"

definition PRIVATE_KEY :: "string \<Rightarrow> re" where
  "PRIVATE_KEY edge = seqs [Lit (''-----'' @ edge @ '' ''), Reps 0 upper_or_space, Lit ''PRIVATE KEY-----'']"

text \<open>\<^verbatim>\<open>[0-9A-Z]{16}\<close> followed by a boundary.\<close>

definition SECRETS :: "(re \<times> string) list" where
  "SECRETS =
     [(seqs [Bnd, Lit ''sk-'', Reps 16 (alnum_or ''_-''), Bnd], ''sk-key''),
      (seqs ([Bnd, Lit ''AKIA''] @ replicate 16 (One (\<lambda>c. is_digit c \<or> is_upper_az c)) @ [Bnd]), ''aws-key''),
      (seqs [Bnd, Lit ''ghp_'', Reps 20 alnum, Bnd], ''github-token''),
      (seqs [PRIVATE_KEY ''BEGIN'', Lazy (\<lambda>_. True), PRIVATE_KEY ''END''], ''private-key'')]"

definition INJECTION :: "(re \<times> string) list" where
  "INJECTION =
     [(seqs [LitI ''ignore '', Opt (alts [LitI ''all '', LitI ''your '']), alts [LitI ''previous'', LitI ''prior'', LitI ''above''], LitI '' '',
             alts [LitI ''instructions'', seqs [LitI ''prompt'', Opt (LitI ''s'')]]], ''prompt-injection phrase''),
      (seqs [LitI ''disregard '', Opt (alts [LitI ''your '', LitI ''the '']), alts (map LitI [''system prompt'', ''instructions'', ''rules'', ''guidelines''])],
       ''prompt-injection phrase''),
      (seqs [Bnd, LitI ''file://'', Opt (Lit ''/''), Reps 1 (\<lambda>c. \<not> is_ws c)], ''file:// URL'')]"

text \<open>How often a pattern is replaced in a text: one label is pushed for each.\<close>

function count_from :: "re \<Rightarrow> position \<Rightarrow> nat" where
  "count_from r p =
     (case snd p of
        [] \<Rightarrow> 0
      | c # s \<Rightarrow>
          (case matches r p of
             (prev, s') # _ \<Rightarrow> if length s' < length (c # s) then Suc (count_from r (prev, s')) else count_from r (Some c, s)
           | [] \<Rightarrow> count_from r (Some c, s)))"
  by pat_completeness auto
termination by (relation "measure (\<lambda>(r, p). length (snd p))") auto

declare count_from.simps [simp del]

fun redact_loop :: "(re \<times> string) list \<Rightarrow> string \<Rightarrow> string list \<Rightarrow> string \<times> string list" where
  "redact_loop [] out labels = (out, labels)"
| "redact_loop ((r, label) # rest) out labels =
     redact_loop rest (replace_all r (\<lambda>_. ''<REDACTED:'' @ label @ ''>'') out) (labels @ replicate (count_from r (None, out)) label)"

definition redactSecrets :: "string \<Rightarrow> string \<times> string list" where
  "redactSecrets text = redact_loop SECRETS text []"

definition scanForInjection :: "string \<Rightarrow> bool \<times> string list" where
  "scanForInjection text = (let hits = nub (map snd (filter (\<lambda>(r, _). test r text) INJECTION)) in (hits = [], hits))"

subsection \<open>Matching\<close>

lemma skip_suffix: "n \<le> length (snd p) \<Longrightarrow> snd p = take n (snd p) @ snd (skip n p)"
  by (simp add: skip_def)

lemma startsWith_length: "startsWith s l \<Longrightarrow> length l \<le> length s"
  unfolding startsWith_def by (metis length_take min.cobounded1)

lemma startsWith_take: "startsWith s l \<Longrightarrow> take (length l) s = l"
  by (simp add: startsWith_def)

lemma run_length_le: "run_length q s \<le> length s"
  by (simp add: run_length_def length_takeWhile_le)

lemma length_toLowerCase [simp]: "length (toLowerCase s) = length s"
  by (simp add: toLowerCase_def)

lemma run_match:
  "p' \<in> set (matches (Reps n q) p) \<Longrightarrow> \<exists>k \<ge> n. k \<le> run_length q (snd p) \<and> p' = skip k p \<and> snd p = take k (snd p) @ snd p'"
  "p' \<in> set (matches (Lazy q) p) \<Longrightarrow> \<exists>k. snd p = take k (snd p) @ snd p'"
  using run_length_le [of q "snd p"] skip_suffix [of _ p]
  by (auto simp: less_Suc_eq_le simp del: upt_Suc) (meson order.trans)

lemma matches_suffix: "p' \<in> set (matches r p) \<Longrightarrow> \<exists>u. snd p = u @ snd p'"
proof (induction r p arbitrary: p' rule: matches.induct)
  case (2 l p)
  then show ?case using skip_suffix [of "length l" p] startsWith_length by (auto split: if_splits)
next
  case (3 l p)
  then have "startsWith (toLowerCase (snd p)) (toLowerCase l)" "p' = skip (length l) p" by (auto split: if_splits)
  then show ?case using skip_suffix [of "length l" p] startsWith_length [of "toLowerCase (snd p)" "toLowerCase l"] by auto
next
  case (4 n q p)
  then show ?case using run_match(1) by blast
next
  case (5 q p)
  then show ?case using run_match(2) by blast
next
  case (6 r p)
  from "6.prems" consider "p' = p" | p1 where "p1 \<in> set (matches r p)" "length (snd p1) < length (snd p)" "p' \<in> set (matches (Star r) p1)"
    unfolding matches.simps(6) [of r p] by (auto split: if_splits)
  then show ?case
  proof cases
    case 2
    then show ?thesis using "6.IH"(1) [OF 2(1)] "6.IH"(2) [OF 2(1,2,3)] by fastforce
  qed simp
next
  case (8 a b p)
  then obtain p1 where p1: "p1 \<in> set (matches a p)" "p' \<in> set (matches b p1)" by auto
  then obtain u v where "snd p = u @ snd p1" "snd p1 = v @ snd p'" using 8 by blast
  then show ?case by simp
qed (auto split: list.splits if_splits)

text \<open>\<^verbatim>\<open>needs q r\<close>: every match of the pattern contains a character of the class.\<close>

primrec needs :: "(char \<Rightarrow> bool) \<Rightarrow> re \<Rightarrow> bool" where
  "needs q (One p) \<longleftrightarrow> (\<forall>c. p c \<longrightarrow> q c)"
| "needs q (Lit l) \<longleftrightarrow> (\<exists>c \<in> set l. q c)"
| "needs q (LitI l) \<longleftrightarrow> False"
| "needs q (Reps n p) \<longleftrightarrow> 0 < n \<and> (\<forall>c. p c \<longrightarrow> q c)"
| "needs q (Lazy p) \<longleftrightarrow> False"
| "needs q (Star r) \<longleftrightarrow> False"
| "needs q (Opt r) \<longleftrightarrow> False"
| "needs q (Seq a b) \<longleftrightarrow> needs q a \<or> needs q b"
| "needs q (Alt a b) \<longleftrightarrow> needs q a \<and> needs q b"
| "needs q Bnd \<longleftrightarrow> False"
| "needs q (NotAhead r) \<longleftrightarrow> False"

lemma needs_consumed: "needs q r \<Longrightarrow> p' \<in> set (matches r p) \<Longrightarrow> snd p = u @ snd p' \<Longrightarrow> \<exists>c \<in> set u. q c"
proof (induction r p arbitrary: p' u rule: matches.induct)
  case (2 l p)
  then have s: "startsWith (snd p) l" "p' = skip (length l) p" by (auto split: if_splits)
  have "snd p = l @ snd p'"
    using skip_suffix [of "length l" p] startsWith_length [OF s(1)] startsWith_take [OF s(1)] s(2) by simp
  then show ?case using 2 by auto
next
  case (4 n q' p)
  obtain k where k: "n \<le> k" "k \<le> run_length q' (snd p)" "snd p = take k (snd p) @ snd p'" using run_match(1) [OF 4(2)] by blast
  then have u: "u = take k (snd p)" using 4(3) by (metis append_same_eq)
  have "take k (snd p) = take k (takeWhile q' (snd p))"
    using k(2) by (metis append_Nil2 diff_is_0_eq' run_length_def take0 take_append takeWhile_dropWhile_id)
  moreover have "take k (snd p) \<noteq> []" using k(1,2) 4(1) run_length_le [of q' "snd p"] by (cases "snd p") auto
  ultimately have "hd u \<in> set u" "q' (hd u)" unfolding u by (metis hd_in_set in_set_takeD set_takeWhileD)+
  then show ?case using 4(1) by auto
next
  case (8 a b p)
  then obtain p1 where p1: "p1 \<in> set (matches a p)" "p' \<in> set (matches b p1)" by auto
  obtain v w where v: "snd p = v @ snd p1" "snd p1 = w @ snd p'" using matches_suffix p1 by blast
  then have "u = v @ w" using 8(5) by simp
  then show ?case using "8.IH"(1) [OF _ p1(1) v(1)] "8.IH"(2) [OF p1(1) _ p1(2) v(2)] 8(3) by auto
qed (auto split: list.splits if_splits)

lemma replace_none:
  assumes "needs q r" "\<forall>c \<in> set s. \<not> q c"
  shows "replace_from r f (prev, s) = s"
  using assms(2)
proof (induction s arbitrary: prev)
  case (Cons c s)
  have "matches r (prev, c # s) = []"
  proof (rule ccontr)
    assume "matches r (prev, c # s) \<noteq> []"
    then obtain p' where p': "p' \<in> set (matches r (prev, c # s))" by (meson last_in_set)
    then obtain u where "c # s = u @ snd p'" using matches_suffix by fastforce
    then show False using needs_consumed [OF assms(1) p', of u] Cons.prems by auto
  qed
  then show ?case using Cons by (simp add: replace_from.simps [of r f "(prev, c # s)"])
qed (simp add: replace_from.simps)

lemma replace_step:
  "matches r (prev, c # s) = [] \<Longrightarrow> replace_from r f (prev, c # s) = c # replace_from r f (Some c, s)"
  by (simp add: replace_from.simps [of r f "(prev, c # s)"])

lemma replace_hit:
  "matches r (prev, s) = (q, s') # ps \<Longrightarrow> length s' < length s \<Longrightarrow>
     replace_from r f (prev, s) = f (take (length s - length s') s) @ replace_from r f (q, s')"
  by (cases s) (simp_all add: replace_from.simps [of r f "(prev, x # y)" for x y])

text \<open>A replacement brings in no character that neither the text nor the inserted strings have.\<close>

lemma set_replace_from:
  assumes "\<And>u. set (f u) \<subseteq> set u \<union> K"
  shows "set (replace_from r f p) \<subseteq> set (snd p) \<union> K"
proof (induction "length (snd p)" arbitrary: p rule: less_induct)
  case less
  obtain prev s where p: "p = (prev, s)" by fastforce
  show ?case
  proof (cases s)
    case (Cons c t)
    have kept: "set (replace_from r f (Some c, t)) \<subseteq> set t \<union> K" using less [of "(Some c, t)"] by (simp add: p Cons)
    show ?thesis
    proof (cases "matches r p")
      case Nil
      then show ?thesis using kept by (auto simp: p Cons replace_step)
    next
      case (Cons p' ps)
      obtain q s' where p': "p' = (q, s')" by fastforce
      then obtain u where u: "s = u @ s'" using matches_suffix [of p' r p] Cons p by auto
      show ?thesis
      proof (cases "length s' < length s")
        case True
        then have "set (replace_from r f (q, s')) \<subseteq> set s' \<union> K" using less [of "(q, s')"] by (simp add: p)
        then show ?thesis using replace_hit [of r prev s q s' ps f] True Cons assms [of u] by (auto simp: p p' u)
      next
        case False
        then have "replace_from r f p = c # replace_from r f (Some c, t)"
          using Cons \<open>s = c # t\<close> by (simp add: replace_from.simps [of r f "(prev, c # t)"] p p')
        then show ?thesis using kept \<open>s = c # t\<close> by (auto simp: p)
      qed
    qed
  qed (simp add: p replace_from.simps)
qed

lemma set_replace_all: "(\<And>u. set (f u) \<subseteq> set u \<union> K) \<Longrightarrow> set (replace_all r f s) \<subseteq> set s \<union> K"
  using set_replace_from [of f K r "(None, s)"] by (simp add: replace_all_def)

subsection \<open>What the filter guarantees\<close>

definition one_space :: "string \<Rightarrow> bool" where
  "one_space s \<longleftrightarrow> (\<forall>i. Suc i < length s \<longrightarrow> \<not> (s ! i = CHR '' '' \<and> s ! Suc i = CHR '' ''))"

definition clean_line :: "nat \<Rightarrow> string \<Rightarrow> bool" where
  "clean_line limit s \<longleftrightarrow> length s \<le> limit \<and> one_space s \<and> list_all (\<lambda>c. \<not> unsafe_control c \<and> (is_ws c \<longrightarrow> c = CHR '' '')) s"

lemma one_space_Cons: "one_space (c # s) \<longleftrightarrow> (s \<noteq> [] \<longrightarrow> c = CHR '' '' \<longrightarrow> hd s \<noteq> CHR '' '') \<and> one_space s"
  unfolding one_space_def by (auto simp: nth_Cons hd_conv_nth split: nat.splits)

lemma one_space_slice: "one_space s \<Longrightarrow> one_space (take m (drop n s))"
  unfolding one_space_def by (auto simp: algebra_simps)

lemma trim_slice: "\<exists>m n. trim s = take m (drop n s)"
proof -
  have "rev (dropWhile is_ws (rev t)) = take (length t - length (takeWhile is_ws (rev t))) t" for t
    by (simp add: dropWhile_eq_drop rev_drop)
  then show ?thesis unfolding trim_def dropWhile_eq_drop [of is_ws s] by metis
qed

lemma matches_SPACES:
  "\<not> is_ws c \<Longrightarrow> matches SPACES (prev, c # s) = []"
  "is_ws c \<Longrightarrow> \<exists>q ps. matches SPACES (prev, c # s) = (q, dropWhile is_ws s) # ps"
proof -
  show "is_ws c \<Longrightarrow> \<exists>q ps. matches SPACES (prev, c # s) = (q, dropWhile is_ws s) # ps"
    by (simp add: SPACES_def run_length_def skip_def dropWhile_eq_drop)
qed (simp add: SPACES_def run_length_def)

lemma spaces_collapsed:
  "one_space (replace_from SPACES (\<lambda>_. '' '') (prev, s)) \<and> (\<forall>c \<in> set (replace_from SPACES (\<lambda>_. '' '') (prev, s)). is_ws c \<longrightarrow> c = CHR '' '') \<and>
     (s = [] \<or> \<not> is_ws (hd s) \<longrightarrow> replace_from SPACES (\<lambda>_. '' '') (prev, s) = [] \<or> \<not> is_ws (hd (replace_from SPACES (\<lambda>_. '' '') (prev, s))))"
proof (induction "length s" arbitrary: prev s rule: less_induct)
  case less
  show ?case
  proof (cases s)
    case Nil
    then show ?thesis by (simp add: replace_from.simps one_space_def)
  next
    case (Cons c t)
    show ?thesis
    proof (cases "is_ws c")
      case True
      then obtain q ps where m: "matches SPACES (prev, c # t) = (q, dropWhile is_ws t) # ps" using matches_SPACES(2) by blast
      let ?out = "replace_from SPACES (\<lambda>_. '' '') (q, dropWhile is_ws t)"
      have l: "length (dropWhile is_ws t) < length s" using length_dropWhile_le [of is_ws t] Cons by simp
      have "dropWhile is_ws t = [] \<or> \<not> is_ws (hd (dropWhile is_ws t))" using hd_dropWhile by blast
      then have "?out = [] \<or> \<not> is_ws (hd ?out)" "one_space ?out" "\<forall>c \<in> set ?out. is_ws c \<longrightarrow> c = CHR '' ''"
        using less [OF l, of q] by blast+
      moreover have "is_ws CHR '' ''" by (simp add: is_ws_def)
      ultimately show ?thesis
        using replace_hit [OF m] l True Cons by (auto simp: one_space_Cons)
    next
      case False
      then show ?thesis
        using less [of t "Some c"] replace_step [OF matches_SPACES(1) [OF False], of _ prev t] Cons by (auto simp: one_space_Cons is_ws_def)
    qed
  qed
qed

lemma replace_class: "replace_from (One q) (\<lambda>_. x) (prev, s) = concat (map (\<lambda>c. if q c then x else [c]) s)"
proof (induction s arbitrary: prev)
  case (Cons c s)
  then show ?case by (cases "q c") (simp_all add: replace_step replace_hit [of "One q" prev "c # s" "Some c" s "[]"])
qed (simp add: replace_from.simps)

abbreviation no_control :: "string \<Rightarrow> bool" where
  "no_control s \<equiv> \<forall>c \<in> set s. \<not> unsafe_control c"

lemma no_control_replace:
  assumes "no_control s" "\<And>u. set (f u) \<subseteq> set u \<union> set x" "no_control x"
  shows "no_control (replace_all r f s)"
  using set_replace_all [of f "set x" r s] assms by blast

lemma no_control_consts [simp]:
  "no_control ''<local-path>''" "no_control ''<secret>''" "no_control ''Bearer ***''" "no_control ''credential=***''" "no_control ''=***''" "no_control '' ''"
  by (simp_all add: unsafe_control_def)

lemma one_line_trimmed:
  assumes "no_control g" "one_space g" "\<forall>c \<in> set g. is_ws c \<longrightarrow> c = CHR '' ''"
  shows "clean_line n (take n (trim g))"
proof -
  have "set (take n (trim g)) \<subseteq> set g" using set_trim set_take_subset by (rule order.trans [rotated])
  moreover have "one_space (take n (trim g))" using trim_slice [of g] one_space_slice [OF assms(2)] by (metis take_take)
  ultimately show ?thesis using assms(1,3) by (auto simp: clean_line_def list_all_iff)
qed

text \<open>
  What \<^verbatim>\<open>sanitizeControlText\<close> returns is a single line of at most the given length without control characters: every white
  space character in it is a space, and no two spaces are adjacent.
\<close>

theorem sanitized_text_is_one_line: "clean_line limit (sanitizeControlText value limit)"
proof -
  have "no_control (replace_all CONTROL_CHARACTERS (\<lambda>_. '' '') value)"
    by (auto simp: replace_all_def CONTROL_CHARACTERS_def replace_class unsafe_control_def)
  then have "no_control (replace_all CREDENTIAL_ASSIGNMENT (\<lambda>_. ''credential=***'') (replace_all CONTROL_CHARACTERS (\<lambda>_. '' '') value))" (is "no_control ?a")
    by (rule no_control_replace [where x = "''credential=***''"]) simp_all
  then have "no_control (replace_all BEARER_CREDENTIAL (\<lambda>_. ''Bearer ***'') ?a)" (is "no_control ?b")
    by (rule no_control_replace [where x = "''Bearer ***''"]) simp_all
  then have "no_control (replace_all COMMON_SECRET (\<lambda>_. ''<secret>'') ?b)" (is "no_control ?c")
    by (rule no_control_replace [where x = "''<secret>''"]) simp_all
  then have "no_control (replace_all WINDOWS_HOME_PATH (\<lambda>_. ''<local-path>'') ?c)" (is "no_control ?d")
    by (rule no_control_replace [where x = "''<local-path>''"]) simp_all
  then have "no_control (replace_all POSIX_HOME_PATH (\<lambda>_. ''<local-path>'') ?d)" (is "no_control ?e")
    by (rule no_control_replace [where x = "''<local-path>''"]) simp_all
  then have "no_control (replace_all URL_SECRET url_masked ?e)" (is "no_control ?f")
    by (rule no_control_replace [where x = "''=***''"]) (auto simp: url_masked_def dest: set_takeWhileD)
  then have g: "no_control (replace_all SPACES (\<lambda>_. '' '') ?f)" (is "no_control ?g")
    by (rule no_control_replace [where x = "'' ''"]) simp_all
  have out: "sanitizeControlText value limit = take limit (trim ?g)" by (simp add: sanitizeControlText_def)
  have g': "one_space ?g" "\<forall>c \<in> set ?g. is_ws c \<longrightarrow> c = CHR '' ''" using spaces_collapsed by (simp_all add: replace_all_def)
  show ?thesis unfolding out by (rule one_line_trimmed [OF g g'])
qed

definition token_char :: "char \<Rightarrow> bool" where
  "token_char c \<longleftrightarrow> alnum c \<or> c = CHR ''.''"

lemma token_char_not:
  "token_char c \<Longrightarrow> \<not> is_ws c \<and> \<not> unsafe_control c \<and> c \<notin> set '':=?&/-_'' \<and> c \<noteq> CHR 0x5C"
  by (auto simp: token_char_def alnum_def is_digit_def is_lower_az_def is_upper_az_def is_ws_def unsafe_control_def)

lemma replace_all_none: "needs q r \<Longrightarrow> \<forall>c \<in> set s. \<not> q c \<Longrightarrow> replace_all r f s = s"
  unfolding replace_all_def by (rule replace_none)

lemma char_of_97: "char_of (97 :: nat) = CHR ''a''"
  by code_simp

lemma authorization_value_matched:
  "matches CREDENTIAL_ASSIGNMENT (None, ''Authorization: Bearer '' @ t) \<noteq> [] \<and>
   snd (hd (matches CREDENTIAL_ASSIGNMENT (None, ''Authorization: Bearer '' @ t))) = '' '' @ t"
  by (simp add: CREDENTIAL_ASSIGNMENT_def at_boundary_def word_char_def is_digit_def is_lower_az_def is_upper_az_def startsWith_def toLowerCase_def
      lower_char_def char_of_97 any_of_def skip_def run_length_def is_ws_def free_of_def)

lemma bearer_not_matched:
  assumes "list_all token_char t"
  shows "replace_from BEARER_CREDENTIAL f (None, ''credential=*** '' @ t) = ''credential=*** '' @ t"
proof -
  have "replace_from BEARER_CREDENTIAL f (Some CHR '' '', t) = t"
    by (rule replace_none [of is_ws]) (use assms in \<open>auto simp: BEARER_CREDENTIAL_def list_all_iff dest: token_char_not\<close>)
  then show ?thesis
    by (simp add: replace_step BEARER_CREDENTIAL_def at_boundary_def word_char_def is_digit_def is_lower_az_def is_upper_az_def startsWith_def
        toLowerCase_def lower_char_def)
qed

lemma spaces_kept:
  assumes "list_all token_char t"
  shows "replace_from SPACES (\<lambda>_. '' '') (None, ''credential=*** '' @ t) = ''credential=*** '' @ t"
proof -
  have t: "replace_from SPACES (\<lambda>_. '' '') (p, t) = t" for p
    by (rule replace_none [of is_ws]) (use assms in \<open>auto simp: SPACES_def list_all_iff dest: token_char_not\<close>)
  have d: "dropWhile is_ws t = t" using assms by (cases t) (auto dest: token_char_not)
  obtain q ps where "matches SPACES (Some CHR ''*'', '' '' @ t) = (q, t) # ps"
    using matches_SPACES(2) [of "CHR '' ''" "Some CHR ''*''" t] by (auto simp: is_ws_def d)
  then have "replace_from SPACES (\<lambda>_. '' '') (Some CHR ''*'', '' '' @ t) = '' '' @ t"
    using replace_hit [of SPACES "Some CHR ''*''" "'' '' @ t" q t ps] t by simp
  then show ?thesis by (simp add: replace_step matches_SPACES(1) is_ws_def)
qed

lemma trim_kept: "\<not> is_ws c \<Longrightarrow> \<not> is_ws d \<Longrightarrow> trim (c # s @ [d]) = c # s @ [d]"
  by (simp add: trim_def)

text \<open>
  The commonest form of a credential passes the filter: in an \<^verbatim>\<open>Authorization: Bearer\<close> header the assignment rule takes the word
  \<^verbatim>\<open>Bearer\<close> for the value, so the rule for bearer credentials no longer finds it and the token itself stays in the text, for every token of
  letters, digits and dots.
\<close>

theorem bearer_header_passes_filter:
  assumes "t \<noteq> []" "list_all token_char t"
  shows "sanitizeControlText (''Authorization: Bearer '' @ t) limit = take limit (''credential=*** '' @ t)"
proof -
  let ?in = "''Authorization: Bearer '' @ t" and ?out = "''credential=*** '' @ t"
  have t: "\<forall>c \<in> set t. \<not> is_ws c \<and> \<not> unsafe_control c \<and> c \<notin> set '':=?&/-_'' \<and> c \<noteq> CHR 0x5C"
    using assms(2) token_char_not by (auto simp: list_all_iff)
  have control: "replace_all CONTROL_CHARACTERS (\<lambda>_. '' '') ?in = ?in"
    by (rule replace_all_none [of unsafe_control]) (use t in \<open>auto simp: CONTROL_CHARACTERS_def unsafe_control_def\<close>)
  obtain q ps where "matches CREDENTIAL_ASSIGNMENT (None, ?in) = (q, '' '' @ t) # ps"
    using authorization_value_matched [of t] by (cases "matches CREDENTIAL_ASSIGNMENT (None, ?in)") auto
  moreover have "replace_from CREDENTIAL_ASSIGNMENT (\<lambda>_. ''credential=***'') (q, '' '' @ t) = '' '' @ t"
    by (rule replace_none [of "any_of '':=''"]) (use t in \<open>auto simp: CREDENTIAL_ASSIGNMENT_def any_of_def\<close>)
  ultimately have assignment: "replace_all CREDENTIAL_ASSIGNMENT (\<lambda>_. ''credential=***'') ?in = ?out"
    using replace_hit [of CREDENTIAL_ASSIGNMENT None ?in q "'' '' @ t" ps] by (simp add: replace_all_def)
  have common: "replace_all COMMON_SECRET (\<lambda>_. ''<secret>'') ?out = ?out"
    by (rule replace_all_none [of "any_of ''-_''"]) (use t in \<open>auto simp: COMMON_SECRET_def any_of_def\<close>)
  have windows: "replace_all WINDOWS_HOME_PATH (\<lambda>_. ''<local-path>'') ?out = ?out"
    by (rule replace_all_none [of "\<lambda>c. c = CHR 0x5C"]) (use t in \<open>auto simp: WINDOWS_HOME_PATH_def\<close>)
  have posix: "replace_all POSIX_HOME_PATH (\<lambda>_. ''<local-path>'') ?out = ?out"
    by (rule replace_all_none [of "\<lambda>c. c = CHR ''/''"]) (use t in \<open>auto simp: POSIX_HOME_PATH_def\<close>)
  have url: "replace_all URL_SECRET url_masked ?out = ?out"
    by (rule replace_all_none [of "any_of ''?&''"]) (use t in \<open>auto simp: URL_SECRET_def any_of_def\<close>)
  have bearer: "replace_all BEARER_CREDENTIAL (\<lambda>_. ''Bearer ***'') ?out = ?out"
    unfolding replace_all_def by (rule bearer_not_matched [OF assms(2)])
  have spaces: "replace_all SPACES (\<lambda>_. '' '') ?out = ?out" unfolding replace_all_def by (rule spaces_kept [OF assms(2)])
  obtain u d where "t = u @ [d]" using assms(1) by (metis rev_exhaust)
  then have "trim ?out = ?out" using trim_kept [of "CHR ''c''" d "''redential=*** '' @ u"] t by (simp add: is_ws_def)
  then show ?thesis unfolding sanitizeControlText_def control assignment bearer common windows posix url spaces by simp
qed

theorem bearer_header_passes_filter_witness:
  "sanitizeControlText (''Authorization: Bearer '' @ ''eyJhbGciOiJIUzI1NiJ9.e30.abc'') 500 = ''credential=*** eyJhbGciOiJIUzI1NiJ9.e30.abc''"
  using bearer_header_passes_filter [of "''eyJhbGciOiJIUzI1NiJ9.e30.abc''" 500]
  by (simp add: token_char_def alnum_def is_digit_def is_lower_az_def is_upper_az_def)

end
