(* ===== verification/CrashReports.thy ===== *)
theory CrashReports
  imports Redact Store Auth
begin

section \<open>Crash reports (crash-reports/crash-reports.service.ts)\<close>

text \<open>
  The public intake of desktop crash reports with its in-memory rate limits, the administrator's operations, and the rows they share
  with the alert worker (theory CrashAlerts). The clock readings of a call are arguments, the parsed \<^verbatim>\<open>occurredAt\<close> is a time
  or None (an invalid date).
\<close>

datatype DesktopCrashReportStatus = NEW | REVIEWING | RESOLVED | IGNORED
datatype DesktopCrashAlertState = PENDING | SENDING | SENT | FAILED

record DesktopCrashReport =
  cr_id :: string
  cr_status :: DesktopCrashReportStatus
  cr_alertState :: DesktopCrashAlertState
  cr_alertGeneration :: int
  cr_alertAttempts :: int
  cr_alertNextAttemptAt :: time
  cr_alertClaimedAt :: "time option"
  cr_alertDeliveredAt :: "time option"
  cr_alertLastError :: string
  cr_reportVersion :: int
  cr_consentVersion :: int
  cr_appVersion :: string
  cr_engineVersion :: string
  cr_platform :: string
  cr_arch :: string
  cr_kind :: string
  cr_fingerprint :: string
  cr_summary :: string
  cr_userDescription :: string
  cr_context :: "string list"
  cr_occurrenceCount :: int
  cr_lastOccurredAt :: time
  cr_reviewNote :: string
  cr_reviewedBy :: string
  cr_reviewedAt :: "time option"

record SubmitDesktopCrashReportDto =
  sc_reportVersion :: int
  sc_consentVersion :: int
  sc_appVersion :: string
  sc_engineVersion :: "string option"
  sc_platform :: string
  sc_arch :: string
  sc_kind :: string
  sc_fingerprint :: string
  sc_occurredAt :: "time option"
  sc_summary :: string
  sc_userDescription :: "string option"
  sc_context :: "string list"

record UpdateDesktopCrashReportDto =
  uc_status :: DesktopCrashReportStatus
  uc_note :: "string option"

text \<open>The table and the fields of the service object.\<close>

record ('g, 'd) CrashWorld = "('g, 'd) World" +
  w_crashes :: "DesktopCrashReport list"
  w_globalSubmissions :: "time list"
  w_fingerprintSubmissions :: "string \<rightharpoonup> time list"
  w_lastRateLimitCleanup :: time
  w_lastRetentionCleanup :: time

definition RETENTION_MS :: int where "RETENTION_MS = 90 * 24 * 60 * 60 * 1000"
definition MAX_CLOCK_SKEW_MS :: int where "MAX_CLOCK_SKEW_MS = 5 * 60 * 1000"
definition GLOBAL_WINDOW_MS :: int where "GLOBAL_WINDOW_MS = 60 * 60 * 1000"
definition FINGERPRINT_WINDOW_MS :: int where "FINGERPRINT_WINDOW_MS = 24 * 60 * 60 * 1000"
definition MAX_GLOBAL_PER_HOUR :: nat where "MAX_GLOBAL_PER_HOUR = 1000"
definition MAX_PER_FINGERPRINT_PER_DAY :: nat where "MAX_PER_FINGERPRINT_PER_DAY = 12"

definition sanitizeCrashText :: "string \<Rightarrow> nat \<Rightarrow> string" where
  "sanitizeCrashText value limit = sanitizeControlText value limit"

definition in_window :: "time \<Rightarrow> int \<Rightarrow> time list \<Rightarrow> time list" where
  "in_window now window ts = filter (\<lambda>t. now - t < window) ts"

definition dropExpired :: "time \<Rightarrow> (string \<rightharpoonup> time list) \<Rightarrow> string \<rightharpoonup> time list" where
  "dropExpired now m k =
     (case m k of
        None \<Rightarrow> None
      | Some entries \<Rightarrow> (let active = in_window now FINGERPRINT_WINDOW_MS entries in if active = [] then None else Some active))"

definition enforceRateLimit :: "string \<Rightarrow> time \<Rightarrow> (('g, 'd, 'x) CrashWorld_scheme, unit) act" where
  "enforceRateLimit fingerprint now w =
     (let global = in_window now GLOBAL_WINDOW_MS (w_globalSubmissions w);
          w1 = w\<lparr>w_globalSubmissions := global\<rparr>;
          recent = in_window now FINGERPRINT_WINDOW_MS (nullish (w_fingerprintSubmissions w fingerprint) [])
      in if MAX_GLOBAL_PER_HOUR \<le> length global then (w1, Inl (TooManyRequests ''crash report intake is temporarily busy''))
         else if MAX_PER_FINGERPRINT_PER_DAY \<le> length recent then (w1, Inl (TooManyRequests ''this crash was already reported''))
         else let submissions = (w_fingerprintSubmissions w)(fingerprint \<mapsto> recent @ [now]);
                  w2 = w1\<lparr>w_globalSubmissions := global @ [now], w_fingerprintSubmissions := submissions\<rparr>
              in if GLOBAL_WINDOW_MS \<le> now - w_lastRateLimitCleanup w
                 then (w2\<lparr>w_fingerprintSubmissions := dropExpired now submissions, w_lastRateLimitCleanup := now\<rparr>, Inr ())
                 else (w2, Inr ()))"

definition same_crash :: "SubmitDesktopCrashReportDto \<Rightarrow> DesktopCrashReport \<Rightarrow> bool" where
  "same_crash dto r \<longleftrightarrow> cr_fingerprint r = sc_fingerprint dto \<and> cr_appVersion r = sc_appVersion dto \<and> cr_platform r = sc_platform dto \<and>
     cr_arch r = sc_arch dto \<and> cr_kind r = sc_kind dto"

record CrashText =
  ct_summary :: string
  ct_userDescription :: string
  ct_context :: "string list"

definition crash_text :: "SubmitDesktopCrashReportDto \<Rightarrow> CrashText" where
  "crash_text dto =
     \<lparr>ct_summary = orStr (sanitizeCrashText (sc_summary dto) 500) ''Hara Desktop did not close normally'',
      ct_userDescription = sanitizeCrashText (nullish (sc_userDescription dto) []) 1200,
      ct_context = filter (\<lambda>e. e \<noteq> []) (map (\<lambda>entry. sanitizeCrashText entry 80) (sc_context dto))\<rparr>"

definition new_crash :: "string \<Rightarrow> time \<Rightarrow> SubmitDesktopCrashReportDto \<Rightarrow> time \<Rightarrow> DesktopCrashReport" where
  "new_crash newId now dto occurredAt =
     \<lparr>cr_id = newId, cr_status = NEW, cr_alertState = PENDING, cr_alertGeneration = 1, cr_alertAttempts = 0, cr_alertNextAttemptAt = now,
      cr_alertClaimedAt = None, cr_alertDeliveredAt = None, cr_alertLastError = [],
      cr_reportVersion = sc_reportVersion dto, cr_consentVersion = sc_consentVersion dto, cr_appVersion = sc_appVersion dto,
      cr_engineVersion = nullish (sc_engineVersion dto) [], cr_platform = sc_platform dto, cr_arch = sc_arch dto, cr_kind = sc_kind dto,
      cr_fingerprint = sc_fingerprint dto, cr_summary = ct_summary (crash_text dto), cr_userDescription = ct_userDescription (crash_text dto),
      cr_context = ct_context (crash_text dto), cr_occurrenceCount = 1, cr_lastOccurredAt = occurredAt,
      cr_reviewNote = [], cr_reviewedBy = [], cr_reviewedAt = None\<rparr>"

definition repeated_crash :: "SubmitDesktopCrashReportDto \<Rightarrow> time \<Rightarrow> DesktopCrashReport \<Rightarrow> DesktopCrashReport" where
  "repeated_crash dto occurredAt r =
     r\<lparr>cr_occurrenceCount := cr_occurrenceCount r + 1, cr_engineVersion := nullish (sc_engineVersion dto) [],
       cr_summary := ct_summary (crash_text dto), cr_userDescription := orStr (ct_userDescription (crash_text dto)) (cr_userDescription r),
       cr_context := ct_context (crash_text dto), cr_lastOccurredAt := occurredAt\<rparr>"

definition upsert_crash :: "string \<Rightarrow> time \<Rightarrow> SubmitDesktopCrashReportDto \<Rightarrow> time \<Rightarrow> DesktopCrashReport list \<Rightarrow> DesktopCrashReport list" where
  "upsert_crash newId now dto occurredAt rs =
     (if list_ex (same_crash dto) rs then update_where (same_crash dto) (repeated_crash dto occurredAt) rs
      else rs @ [new_crash newId now dto occurredAt])"

definition find_crash :: "string \<Rightarrow> DesktopCrashReport list \<Rightarrow> DesktopCrashReport option" where
  "find_crash i rs = find (\<lambda>r. cr_id r = i) rs"

text \<open>A resolved report that occurs again is opened again, with a new generation of its alert.\<close>

definition reopened :: "time \<Rightarrow> DesktopCrashReport \<Rightarrow> DesktopCrashReport" where
  "reopened now r =
     r\<lparr>cr_status := NEW, cr_alertState := PENDING, cr_alertGeneration := cr_alertGeneration r + 1, cr_alertAttempts := 0,
       cr_alertNextAttemptAt := now, cr_alertClaimedAt := None, cr_alertDeliveredAt := None, cr_alertLastError := [],
       cr_reviewNote := [], cr_reviewedBy := [], cr_reviewedAt := None\<rparr>"

definition reopen_crash :: "string \<Rightarrow> time \<Rightarrow> DesktopCrashReport list \<Rightarrow> DesktopCrashReport list" where
  "reopen_crash i now rs = update_where (\<lambda>r. cr_id r = i \<and> cr_status r = RESOLVED) (reopened now) rs"

definition purge_crashes :: "time \<Rightarrow> DesktopCrashReport list \<Rightarrow> DesktopCrashReport list" where
  "purge_crashes now rs = filter (\<lambda>r. \<not> cr_lastOccurredAt r < now - RETENTION_MS) rs"

record CrashReceipt =
  rc_reportId :: string
  rc_occurrenceCount :: int

definition submit_crash :: "string \<Rightarrow> time \<Rightarrow> time \<Rightarrow> SubmitDesktopCrashReportDto \<Rightarrow> (('g, 'd, 'x) CrashWorld_scheme, CrashReceipt) act" where
  "submit_crash newId now later dto =
     (let outside = BadRequest ''crash occurrence time is outside the accepted window''
      in case sc_occurredAt dto of
           None \<Rightarrow> throwA outside
         | Some occurredAt \<Rightarrow>
             thenA (throwUnless (now - RETENTION_MS \<le> occurredAt \<and> occurredAt \<le> now + MAX_CLOCK_SKEW_MS) outside)
            (thenA (enforceRateLimit (sc_fingerprint dto) now)
            (bindA (stmt (\<lambda>w. let rs = upsert_crash newId later dto occurredAt (w_crashes w)
                              in (w\<lparr>w_crashes := rs\<rparr>, find (same_crash dto) rs))) (\<lambda>row.
             case row of
               None \<Rightarrow> throwA (PlainError ''upsert returned no row'')
             | Some report \<Rightarrow>
                 thenA (whenA (cr_status report = RESOLVED)
                          (writeS (\<lambda>w. w\<lparr>w_crashes := reopen_crash (cr_id report) later (w_crashes w)\<rparr>)))
                (bindA (getsA w_lastRetentionCleanup) (\<lambda>cleaned.
                 thenA (whenA (GLOBAL_WINDOW_MS \<le> now - cleaned)
                          (thenA (modifyA (\<lambda>w. w\<lparr>w_lastRetentionCleanup := now\<rparr>))
                            (catchA (writeS (\<lambda>w. w\<lparr>w_crashes := purge_crashes now (w_crashes w)\<rparr>)) (\<lambda>_. retA ()))))
                 (retA \<lparr>rc_reportId = cr_id report, rc_occurrenceCount = cr_occurrenceCount report\<rparr>)))))))"

definition parseCrashStatus :: "string \<Rightarrow> DesktopCrashReportStatus option" where
  "parseCrashStatus s =
     (if s = ''NEW'' then Some NEW else if s = ''REVIEWING'' then Some REVIEWING else if s = ''RESOLVED'' then Some RESOLVED
      else if s = ''IGNORED'' then Some IGNORED else None)"

text \<open>\<^verbatim>\<open>Number.isFinite(limit) ? Math.max(1, Math.min(200, Math.trunc(limit))) : 100\<close>\<close>

definition boundedLimit :: "number \<Rightarrow> nat" where
  "boundedLimit limit = (case limit of Fin q \<Rightarrow> nat (max 1 (min 200 (if 0 \<le> q then \<lfloor>q\<rfloor> else \<lceil>q\<rceil>))) | _ \<Rightarrow> 100)"

definition list_crashes :: "string option \<Rightarrow> number \<Rightarrow> (('g, 'd, 'x) CrashWorld_scheme, DesktopCrashReport list) act" where
  "list_crashes status limit =
     (let s = nullish status []
      in thenA (throwUnless (s = [] \<or> parseCrashStatus s \<noteq> None) (BadRequest ''invalid crash report status''))
        (readS (\<lambda>w. take (boundedLimit limit)
           (sort_key (\<lambda>r. - cr_lastOccurredAt r) (filter (\<lambda>r. s = [] \<or> parseCrashStatus s = Some (cr_status r)) (w_crashes w))))))"

definition get_crash :: "string \<Rightarrow> (('g, 'd, 'x) CrashWorld_scheme, DesktopCrashReport) act" where
  "get_crash i =
     bindA (readS (\<lambda>w. find_crash i (w_crashes w))) (\<lambda>r. case r of None \<Rightarrow> throwA (NotFound ''crash report not found'') | Some r \<Rightarrow> retA r)"

text \<open>\<^verbatim>\<open>desktopCrashReport.update\<close>, which throws when there is no such row.\<close>

definition updateCrashS ::
  "string \<Rightarrow> (DesktopCrashReport \<Rightarrow> DesktopCrashReport) \<Rightarrow> (('g, 'd, 'x) CrashWorld_scheme, DesktopCrashReport) act" where
  "updateCrashS i f = txS (\<lambda>w.
     case find_crash i (w_crashes w) of
       None \<Rightarrow> Inl (PlainError ''Record to update not found.'')
     | Some r \<Rightarrow> Inr (f r, w\<lparr>w_crashes := update_where (\<lambda>r. cr_id r = i) f (w_crashes w)\<rparr>))"

definition retried :: "time \<Rightarrow> DesktopCrashReport \<Rightarrow> DesktopCrashReport" where
  "retried now r =
     r\<lparr>cr_alertState := PENDING, cr_alertAttempts := 0, cr_alertNextAttemptAt := now, cr_alertClaimedAt := None, cr_alertLastError := []\<rparr>"

definition retryAlert :: "string \<Rightarrow> time \<Rightarrow> (('g, 'd, 'x) CrashWorld_scheme, DesktopCrashReport) act" where
  "retryAlert i now =
     bindA (get_crash i) (\<lambda>existing.
     thenA (throwUnless (cr_alertState existing = FAILED) (BadRequest ''only a failed crash alert can be retried manually''))
     (updateCrashS i (retried now)))"

definition reviewed_crash :: "UpdateDesktopCrashReportDto \<Rightarrow> AuthedUser \<Rightarrow> time \<Rightarrow> DesktopCrashReport \<Rightarrow> DesktopCrashReport" where
  "reviewed_crash dto actor now r =
     r\<lparr>cr_status := uc_status dto, cr_reviewNote := sanitizeCrashText (nullish (uc_note dto) []) 1000,
       cr_reviewedBy := orStr (us_email actor) (us_id actor), cr_reviewedAt := Some now\<rparr>"

definition update_crash ::
  "string \<Rightarrow> UpdateDesktopCrashReportDto \<Rightarrow> AuthedUser \<Rightarrow> time \<Rightarrow> (('g, 'd, 'x) CrashWorld_scheme, DesktopCrashReport) act" where
  "update_crash i dto actor now = thenA (get_crash i) (updateCrashS i (reviewed_crash dto actor now))"

text \<open>What is known of earlier results may be assumed.\<close>

lemma hoare_fact: "(b \<Longrightarrow> hoare P m Q E) \<Longrightarrow> hoare (\<lambda>v. P v \<and> b) m Q E"
  by (auto simp: hoare_def)

end
