(* ===== verification/CrashAlerts.thy ===== *)
theory CrashAlerts
  imports CrashReports
begin

section \<open>Crash alerts (crash-reports/crash-alerts.service.ts)\<close>

text \<open>
  The outbox: every report row carries the delivery state of its alert, a worker claims a due row, sends the alert and records the
  outcome under a fence on the claim. The sender is a function over the state of the outside world, so that it may fail in any way.
  The theory has the worker as it runs (\<^verbatim>\<open>processOne\<close>, \<^verbatim>\<open>tick\<close>) and, for several processes on one table, the interleavings of its
  statements with the other operations as a step relation.
\<close>

subsection \<open>Configuration and message\<close>

definition POLL_INTERVAL_MS :: int where "POLL_INTERVAL_MS = 15000"
definition CLAIM_TIMEOUT_MS :: int where "CLAIM_TIMEOUT_MS = 5 * 60000"
definition MAX_ATTEMPTS :: int where "MAX_ATTEMPTS = 8"
definition MAX_BACKOFF_MS :: int where "MAX_BACKOFF_MS = 60 * 60000"
definition FEISHU_ORIGIN :: string where "FEISHU_ORIGIN = ''https://open.feishu.cn''"

definition APP_ID_PATTERN :: re where "APP_ID_PATTERN = seqs [Lit ''cli_'', Reps 1 alnum]"
definition CHAT_ID_PATTERN :: re where "CHAT_ID_PATTERN = seqs [Lit ''oc_'', Reps 1 alnum]"
definition OPEN_ID_PATTERN :: re where "OPEN_ID_PATTERN = seqs [Lit ''ou_'', Reps 1 alnum]"

record CrashAlertView =
  av_id :: string
  av_appVersion :: string
  av_engineVersion :: string
  av_platform :: string
  av_arch :: string
  av_kind :: string
  av_occurrenceCount :: int
  av_alertGeneration :: int

record FeishuCrashAlertConfig =
  fc_appId :: string
  fc_appSecret :: string
  fc_chatId :: string
  fc_mentionOpenId :: string

definition configuredValue :: "env \<Rightarrow> string \<Rightarrow> string" where
  "configuredValue env name = trim (nullish (env name) [])"

definition loadCrashAlertConfig :: "env \<Rightarrow> FeishuCrashAlertConfig option res" where
  "loadCrashAlertConfig env =
     (let c = \<lparr>fc_appId = configuredValue env ''HARA_CRASH_FEISHU_APP_ID'', fc_appSecret = configuredValue env ''HARA_CRASH_FEISHU_APP_SECRET'',
               fc_chatId = configuredValue env ''HARA_CRASH_FEISHU_CHAT_ID'', fc_mentionOpenId = configuredValue env ''HARA_CRASH_FEISHU_MENTION_OPEN_ID''\<rparr>;
          settings = [fc_appId c, fc_appSecret c, fc_chatId c, fc_mentionOpenId c]
      in if list_all (\<lambda>v. v = []) settings then Inr None
         else throwIf (list_ex (\<lambda>v. v = []) settings) (PlainError ''Hara crash alerts require all four HARA_CRASH_FEISHU_* settings'')
             (throwIf (\<not> test_all APP_ID_PATTERN (fc_appId c)) (PlainError ''HARA_CRASH_FEISHU_APP_ID is invalid'')
             (throwIf (length (fc_appSecret c) < 20) (PlainError ''HARA_CRASH_FEISHU_APP_SECRET is invalid'')
             (throwIf (\<not> test_all CHAT_ID_PATTERN (fc_chatId c)) (PlainError ''HARA_CRASH_FEISHU_CHAT_ID is invalid'')
             (throwIf (\<not> test_all OPEN_ID_PATTERN (fc_mentionOpenId c)) (PlainError ''HARA_CRASH_FEISHU_MENTION_OPEN_ID is invalid'')
             (Inr (Some c)))))))"

definition safeField :: "string \<Rightarrow> string \<Rightarrow> string" where
  "safeField value fallback = orStr (take 64 (filter (alnum_or ''._/-'') value)) fallback"

text \<open>The fixed Chinese texts of the message as their UTF-8 bytes.\<close>

definition bytes :: "nat list \<Rightarrow> string" where
  "bytes ns = map char_of ns"

definition buildCrashAlertText :: "CrashAlertView \<Rightarrow> string \<Rightarrow> string res" where
  "buildCrashAlertText report mentionOpenId =
     throwIf (\<not> test_all OPEN_ID_PATTERN mentionOpenId) (PlainError ''invalid Feishu mention target'')
    (let engine = (if av_engineVersion report \<noteq> [] then safeField (av_engineVersion report) ''unknown'' else ''unknown'')
     in Inr (join [CHR 0x0A]
       [''<at user_id='' @ [CHR 0x22] @ mentionOpenId @ [CHR 0x22] @ ''>'' @ bytes [0xE5, 0x8D, 0x97, 0xE8, 0x8D, 0x92] @ ''bot</at>'',
        bytes [0xE3, 0x80, 0x90] @ ''Hara Crash Intake '' @ bytes [0xC2, 0xB7] @ '' '' @ bytes [0xE8, 0x87, 0xAA, 0xE5, 0x8A, 0xA8, 0xE5, 0x91, 0x8A, 0xE8, 0xAD, 0xA6, 0xE3, 0x80, 0x91],
        bytes [0xE6, 0x8A, 0xA5, 0xE5, 0x91, 0x8A] @ '' ID'' @ bytes [0xEF, 0xBC, 0x9A] @ safeField (av_id report) ''unknown'',
        bytes [0xE7, 0x89, 0x88, 0xE6, 0x9C, 0xAC, 0xEF, 0xBC, 0x9A] @ ''Desktop '' @ safeField (av_appVersion report) ''unknown'' @ '' '' @ bytes [0xC2, 0xB7] @ '' Engine '' @ engine,
        bytes [0xE7, 0x8E, 0xAF, 0xE5, 0xA2, 0x83, 0xEF, 0xBC, 0x9A] @ safeField (av_platform report) ''unknown'' @ ''/'' @ safeField (av_arch report) ''unknown'',
        bytes [0xE7, 0xB1, 0xBB, 0xE5, 0x9E, 0x8B, 0xEF, 0xBC, 0x9A] @ safeField (av_kind report) ''unknown'',
        bytes [0xE5, 0x8F, 0x91, 0xE7, 0x94, 0x9F, 0xE6, 0xAC, 0xA1, 0xE6, 0x95, 0xB0, 0xEF, 0xBC, 0x9A] @ show_int (max 1 (av_occurrenceCount report)),
        bytes [0xE5, 0xAE, 0x8C, 0xE6, 0x95, 0xB4, 0xE8, 0xAF, 0x8A, 0xE6, 0x96, 0xAD, 0xE4, 0xBF, 0xA1, 0xE6, 0x81, 0xAF, 0xE5, 0xB7, 0xB2, 0xE8, 0x84, 0xB1, 0xE6, 0x95, 0x8F, 0xE4, 0xBF, 0x9D, 0xE5, 0xAD, 0x98, 0xE5, 0x9C, 0xA8] @ '' Hara Control'' @ bytes [0xEF, 0xBC, 0x9B, 0xE6, 0x9C, 0xAC, 0xE6, 0xB6, 0x88, 0xE6, 0x81, 0xAF, 0xE4, 0xB8, 0x8D, 0xE5, 0x90, 0xAB, 0xE7, 0x94, 0xA8, 0xE6, 0x88, 0xB7, 0xE6, 0x8F, 0x8F, 0xE8, 0xBF, 0xB0, 0xE3, 0x80, 0x81, 0xE4, 0xBC, 0x9A, 0xE8, 0xAF, 0x9D, 0xE3, 0x80, 0x81, 0xE6, 0x96, 0x87, 0xE4, 0xBB, 0xB6, 0xE5, 0x86, 0x85, 0xE5, 0xAE, 0xB9, 0xE3, 0x80, 0x81, 0xE8, 0xB7, 0xAF, 0xE5, 0xBE, 0x84, 0xE6, 0x88, 0x96, 0xE5, 0x87, 0xAD, 0xE6, 0x8D, 0xAE, 0xE3, 0x80, 0x82],
        bytes [0xE8, 0xAF, 0xB7, 0xE6, 0x8C, 0x89, 0xE6, 0x8A, 0xA5, 0xE5, 0x91, 0x8A] @ '' ID '' @ bytes [0xE4, 0xBB, 0x8E, 0xE5, 0x8F, 0x97, 0xE4, 0xBF, 0x9D, 0xE6, 0x8A, 0xA4, 0xE7, 0x9A, 0x84, 0xE7, 0xAE, 0xA1, 0xE7, 0x90, 0x86, 0xE5, 0x91, 0x98, 0xE6, 0x8E, 0xA5, 0xE5, 0x8F, 0xA3, 0xE8, 0xAF, 0xBB, 0xE5, 0x8F, 0x96, 0xE8, 0xAF, 0xA6, 0xE6, 0x83, 0x85, 0xEF, 0xBC, 0x8C, 0xE5, 0xB9, 0xB6, 0xE5, 0x85, 0x88, 0xE5, 0x9B, 0x9E, 0xE5, 0xA4, 0x8D, 0xE7, 0xA1, 0xAE, 0xE8, 0xAE, 0xA4, 0xE5, 0x90, 0x8E, 0xE5, 0x86, 0x8D, 0xE5, 0xA4, 0x84, 0xE7, 0x90, 0x86, 0xE3, 0x80, 0x82]]))"

text \<open>A name-based UUID of the report and its generation, over the 64 hexadecimal digits of SHA-256.\<close>

definition crashAlertUuid :: "(string \<Rightarrow> string) \<Rightarrow> string \<Rightarrow> int \<Rightarrow> string" where
  "crashAlertUuid H reportId generation =
     (let hex = take 32 (H (reportId @ '':'' @ show_int (max 1 generation)));
          compact = hex[12 := CHR ''5'', 16 := hex_nibble (8 + hex_digit (hex ! 16) mod 4)]
      in take 8 compact @ ''-'' @ take 4 (drop 8 compact) @ ''-'' @ take 4 (drop 12 compact) @ ''-'' @ take 4 (drop 16 compact) @ ''-'' @ drop 20 compact)"

subsection \<open>The Feishu sender\<close>

record FeishuResponse =
  fh_ok :: bool
  fh_status :: int
  fh_body :: "jsval option"

text \<open>The sender's cached tenant token, and the network behind it.\<close>

record 'n FeishuState =
  fs_token :: string
  fs_tokenExpiresAt :: number
  fs_net :: 'n

type_synonym 'n feishu_request = "string \<Rightarrow> jsval \<Rightarrow> string option \<Rightarrow> 'n \<Rightarrow> 'n \<times> (string + FeishuResponse)"

text \<open>\<^verbatim>\<open>String(v ?? d)\<close>\<close>

definition string_or :: "jsval \<Rightarrow> string \<Rightarrow> string" where
  "string_or v d = (if v = JUndef \<or> v = JNull then d else String_js v)"

definition requestJson :: "'n feishu_request \<Rightarrow> string \<Rightarrow> jsval \<Rightarrow> string option \<Rightarrow> ('n FeishuState, jsval) act" where
  "requestJson request path body token s =
     (case request (FEISHU_ORIGIN @ path) body token (fs_net s) of (n, r) \<Rightarrow>
        (s\<lparr>fs_net := n\<rparr>,
         case r of
           Inl m \<Rightarrow> Inl (PlainError m)
         | Inr response \<Rightarrow>
             (case fh_body response of
                None \<Rightarrow> Inl (PlainError (''Feishu request failed (HTTP '' @ show_int (fh_status response) @ '', invalid JSON)''))
              | Some result \<Rightarrow>
                  throwIf (fh_ok response \<and> result = JNull) (PlainError ''Cannot read properties of null'')
                 (throwIf (\<not> fh_ok response \<or> prop_of result ''code'' \<noteq> JNum (num 0))
                    (PlainError (''Feishu request failed (HTTP '' @ show_int (fh_status response) @ '', code '' @ string_or (prop_of result ''code'') ''unknown'' @ '')''))
                 (Inr result)))))"

definition expiry_seconds :: "jsval \<Rightarrow> number" where
  "expiry_seconds v =
     (let n = Number_js v; m = (if n = NaN \<or> n = num 0 then num 7200 else n) in if num_lt m (num 60) then num 60 else m)"

definition accessToken :: "'n feishu_request \<Rightarrow> FeishuCrashAlertConfig \<Rightarrow> time \<Rightarrow> time \<Rightarrow> ('n FeishuState, string) act" where
  "accessToken request config now later =
     bindA (getsA (\<lambda>s. (fs_token s, fs_tokenExpiresAt s))) (\<lambda>(cached, expiresAt).
     if cached \<noteq> [] \<and> num_lt (num (now + 60000)) expiresAt then retA cached
     else bindA (requestJson request ''/open-apis/auth/v3/tenant_access_token/internal''
                   (JObj [(''app_id'', JStr (fc_appId config)), (''app_secret'', JStr (fc_appSecret config))]) None) (\<lambda>result.
          let token = string_or (prop_of result ''tenant_access_token'') []
          in thenA (throwUnless (token \<noteq> []) (PlainError ''Feishu authentication succeeded without a tenant token''))
            (thenA (modifyA (\<lambda>s. s\<lparr>fs_token := token,
                       fs_tokenExpiresAt := num_add (num later) (num_mult (expiry_seconds (prop_of result ''expire'')) (num 1000))\<rparr>))
            (retA token))))"

definition feishu_send ::
  "'n feishu_request \<Rightarrow> (string \<Rightarrow> string) \<Rightarrow> FeishuCrashAlertConfig \<Rightarrow> time \<Rightarrow> time \<Rightarrow> CrashAlertView \<Rightarrow> ('n FeishuState, unit) act" where
  "feishu_send request H config now later report =
     bindA (liftR (buildCrashAlertText report (fc_mentionOpenId config))) (\<lambda>text.
     bindA (accessToken request config now later) (\<lambda>token.
     thenA (requestJson request ''/open-apis/im/v1/messages?receive_id_type=chat_id''
              (JObj [(''receive_id'', JStr (fc_chatId config)), (''msg_type'', JStr ''text''),
                     (''content'', JStr (''{'' @ json_string ''text'' @ '':'' @ json_string text @ ''}'')),
                     (''uuid'', JStr (crashAlertUuid H (av_id report) (av_alertGeneration report)))]) (Some token))
           (retA ())))"

subsection \<open>The worker\<close>

definition DELIVERY_BEARER :: re where
  "DELIVERY_BEARER = seqs [LitI ''Bearer'', Reps 1 is_ws, Reps 1 (\<lambda>c. \<not> is_ws c)]"

definition DELIVERY_CREDENTIAL :: re where
  "DELIVERY_CREDENTIAL = seqs
     [alts [seqs [LitI ''app'', Opt (One (any_of ''_-'')), LitI ''secret''], LitI ''token'', LitI ''authorization''],
      Reps 0 is_ws, One (any_of '':=''), Reps 0 is_ws, Reps 1 (\<lambda>c. \<not> is_ws c)]"

definition safeDeliveryError :: "http_error \<Rightarrow> string" where
  "safeDeliveryError e =
     orStr (take 300 (trim (replace_all SPACES (\<lambda>_. '' '')
       (replace_all DELIVERY_CREDENTIAL (\<lambda>_. ''credential=***'') (replace_all DELIVERY_BEARER (\<lambda>_. ''Bearer ***'') (error_message e))))))
     ''unknown delivery failure''"

definition alert_ready :: "time \<Rightarrow> DesktopCrashReport \<Rightarrow> bool" where
  "alert_ready now r \<longleftrightarrow> cr_alertAttempts r < MAX_ATTEMPTS \<and>
     ((cr_alertState r = PENDING \<and> cr_alertNextAttemptAt r \<le> now) \<or>
      (cr_alertState r = SENDING \<and> (case cr_alertClaimedAt r of None \<Rightarrow> False | Some c \<Rightarrow> c \<le> now - CLAIM_TIMEOUT_MS)))"

definition candidate :: "time \<Rightarrow> DesktopCrashReport list \<Rightarrow> DesktopCrashReport option" where
  "candidate now rs = (case sort_key cr_alertNextAttemptAt (filter (alert_ready now) rs) of [] \<Rightarrow> None | r # _ \<Rightarrow> Some r)"

definition claim_alert :: "string \<Rightarrow> time \<Rightarrow> DesktopCrashReport list \<Rightarrow> DesktopCrashReport list" where
  "claim_alert i now rs = update_where (\<lambda>r. cr_id r = i \<and> alert_ready now r)
     (\<lambda>r. r\<lparr>cr_alertState := SENDING, cr_alertAttempts := cr_alertAttempts r + 1, cr_alertClaimedAt := Some now\<rparr>) rs"

definition claimable_alerts :: "string \<Rightarrow> time \<Rightarrow> DesktopCrashReport list \<Rightarrow> nat" where
  "claimable_alerts i now rs = count_where (\<lambda>r. cr_id r = i \<and> alert_ready now r) rs"

text \<open>The fence: the row is still being sent under the claim of this worker.\<close>

definition owns_alert :: "string \<Rightarrow> time \<Rightarrow> DesktopCrashReport \<Rightarrow> bool" where
  "owns_alert i now r \<longleftrightarrow> cr_id r = i \<and> cr_alertState r = SENDING \<and> cr_alertClaimedAt r = Some now"

definition alert_delivered :: "string \<Rightarrow> time \<Rightarrow> time \<Rightarrow> DesktopCrashReport list \<Rightarrow> DesktopCrashReport list" where
  "alert_delivered i now later rs = update_where (owns_alert i now)
     (\<lambda>r. r\<lparr>cr_alertState := SENT, cr_alertDeliveredAt := Some later, cr_alertClaimedAt := None, cr_alertLastError := []\<rparr>) rs"

definition backoff :: "int \<Rightarrow> int" where
  "backoff attempts = min MAX_BACKOFF_MS (30000 * 2 ^ nat (max 0 (attempts - 1)))"

definition alert_failed :: "string \<Rightarrow> time \<Rightarrow> int \<Rightarrow> string \<Rightarrow> DesktopCrashReport list \<Rightarrow> DesktopCrashReport list" where
  "alert_failed i now attempts message rs = update_where (owns_alert i now)
     (\<lambda>r. r\<lparr>cr_alertState := (if MAX_ATTEMPTS \<le> attempts then FAILED else PENDING), cr_alertNextAttemptAt := now + backoff attempts,
            cr_alertClaimedAt := None, cr_alertLastError := message\<rparr>) rs"

definition alert_view :: "DesktopCrashReport \<Rightarrow> CrashAlertView" where
  "alert_view r =
     \<lparr>av_id = cr_id r, av_appVersion = cr_appVersion r, av_engineVersion = cr_engineVersion r, av_platform = cr_platform r,
      av_arch = cr_arch r, av_kind = cr_kind r, av_occurrenceCount = cr_occurrenceCount r, av_alertGeneration = cr_alertGeneration r\<rparr>"

definition sendA :: "(CrashAlertView \<Rightarrow> ('d, unit) act) \<Rightarrow> CrashAlertView \<Rightarrow> (('g, 'd, 'x) CrashWorld_scheme, unit) act" where
  "sendA sender view w = (case sender view (w_desk w) of (d, r) \<Rightarrow> (w\<lparr>w_desk := d\<rparr>, r))"

definition deliver ::
  "(CrashAlertView \<Rightarrow> ('d, unit) act) \<Rightarrow> time \<Rightarrow> time \<Rightarrow> DesktopCrashReport \<Rightarrow> (('g, 'd, 'x) CrashWorld_scheme, unit) act" where
  "deliver sender now later report =
     catchA
       (thenA (sendA sender (alert_view report))
              (writeS (\<lambda>w. w\<lparr>w_crashes := alert_delivered (cr_id report) now later (w_crashes w)\<rparr>)))
       (\<lambda>e. writeS (\<lambda>w. w\<lparr>w_crashes := alert_failed (cr_id report) now (cr_alertAttempts report) (safeDeliveryError e) (w_crashes w)\<rparr>))"

definition claimS :: "string \<Rightarrow> time \<Rightarrow> (('g, 'd, 'x) CrashWorld_scheme, nat) act" where
  "claimS i now = stmt (\<lambda>w. (w\<lparr>w_crashes := claim_alert i now (w_crashes w)\<rparr>, claimable_alerts i now (w_crashes w)))"

definition processOne ::
  "(CrashAlertView \<Rightarrow> ('d, unit) act) \<Rightarrow> time \<Rightarrow> time \<Rightarrow> (('g, 'd, 'x) CrashWorld_scheme, bool) act" where
  "processOne sender now later =
     bindA (readS (\<lambda>w. candidate now (w_crashes w))) (\<lambda>found.
     case found of
       None \<Rightarrow> retA False
     | Some c \<Rightarrow>
         bindA (claimS (cr_id c) now) (\<lambda>claimed.
         if claimed \<noteq> 1 then retA True
         else bindA (readS (\<lambda>w. find_crash (cr_id c) (w_crashes w))) (\<lambda>row.
              case row of None \<Rightarrow> retA True | Some report \<Rightarrow> thenA (deliver sender now later report) (retA True))))"

text \<open>The loop of \<^verbatim>\<open>tick\<close>: round \<^verbatim>\<open>k\<close> reads the clock twice. An exception pauses the worker until the next poll.\<close>

partial_function (option) drain ::
  "(CrashAlertView \<Rightarrow> ('d, unit) act) \<Rightarrow> (nat \<Rightarrow> time) \<Rightarrow> nat \<Rightarrow> ('g, 'd, 'x) CrashWorld_scheme \<Rightarrow>
   (('g, 'd, 'x) CrashWorld_scheme \<times> nat \<times> unit res) option" where
  "drain sender clock k w =
     (case processOne sender (clock (2 * k)) (clock (2 * k + 1)) w of
        (w', Inl e) \<Rightarrow> Some (w', k, Inl e)
      | (w', Inr again) \<Rightarrow> if again then drain sender clock (Suc k) w' else Some (w', k, Inr ()))"

definition tick ::
  "bool \<Rightarrow> (CrashAlertView \<Rightarrow> ('d, unit) act) option \<Rightarrow> (nat \<Rightarrow> time) \<Rightarrow> ('g, 'd, 'x) CrashWorld_scheme \<Rightarrow> ('g, 'd, 'x) CrashWorld_scheme option" where
  "tick running sender clock w =
     (case sender of
        None \<Rightarrow> Some w
      | Some send \<Rightarrow> if running then Some w else map_option fst (drain send clock 0 w))"

subsection \<open>A poll ends\<close>

text \<open>The attempts a table has left; every claim takes one, and nothing a worker does gives one back.\<close>

definition remaining :: "DesktopCrashReport list \<Rightarrow> nat" where
  "remaining rs = sum_list (map (\<lambda>r. nat (MAX_ATTEMPTS - cr_alertAttempts r)) rs)"

lemma remaining_update: "(\<And>r. cr_alertAttempts (f r) = cr_alertAttempts r) \<Longrightarrow> remaining (update_where p f rs) = remaining rs"
  unfolding remaining_def update_where_def map_map by (rule arg_cong [of _ _ sum_list], rule map_cong) auto

lemma remaining_finish [simp]:
  "remaining (alert_delivered i now later rs) = remaining rs" "remaining (alert_failed i now n m rs) = remaining rs"
  unfolding alert_delivered_def alert_failed_def by (simp_all add: remaining_update)

lemma remaining_claim_le: "remaining (claim_alert i now rs) \<le> remaining rs"
  unfolding remaining_def claim_alert_def update_where_def map_map by (rule sum_list_mono) auto

lemma remaining_claim:
  "r \<in> set rs \<Longrightarrow> cr_id r = i \<Longrightarrow> alert_ready now r \<Longrightarrow> remaining (claim_alert i now rs) < remaining rs"
proof (induction rs)
  case (Cons x rs)
  have "cr_alertAttempts x < MAX_ATTEMPTS" if "alert_ready now x" using that by (simp add: alert_ready_def)
  then show ?case
    using Cons remaining_claim_le [of i now rs]
    by (auto simp: remaining_def claim_alert_def update_where_def)
qed simp

lemma candidate_Some: "candidate now rs = Some r \<Longrightarrow> r \<in> set rs \<and> alert_ready now r"
  using set_sort [of cr_alertNextAttemptAt "filter (alert_ready now) rs"] by (auto simp: candidate_def split: list.splits simp del: set_sort)

lemma candidate_None: "candidate now rs = None \<Longrightarrow> r \<in> set rs \<Longrightarrow> \<not> alert_ready now r"
  using set_sort [of cr_alertNextAttemptAt "filter (alert_ready now) rs"] by (auto simp: candidate_def split: list.splits simp del: set_sort)

lemma scriptless_crashes [simp]:
  "scriptless (\<lambda>v. w_crashes v = rs)" "scriptless (\<lambda>v. w_crashes v = rs \<and> b)" "scriptless (\<lambda>v. remaining (w_crashes v) < n)"
  by (auto intro!: scriptlessI)

lemma hoare_sendA: "hoare (\<lambda>v. P (w_crashes v)) (sendA sender view) (\<lambda>_ v. P (w_crashes v)) (\<lambda>_ v. P (w_crashes v))"
  by (rule hoareI) (auto simp: sendA_def split: prod.splits)

lemma remaining_candidate: "candidate now rs = Some c \<Longrightarrow> remaining (claim_alert (cr_id c) now rs) < remaining rs"
  using candidate_Some remaining_claim by blast

lemma hoare_deliver:
  "hoare (\<lambda>v. remaining (w_crashes v) < n) (deliver sender now later report) (\<lambda>_ v. remaining (w_crashes v) < n) (\<lambda>_ _. True)"
  unfolding deliver_def
  by (rule hoare_catchA [where R = "\<lambda>_ v. remaining (w_crashes v) < n"], rule hoare_thenA [OF hoare_sendA]) (rule hoare_writeS; simp)+

lemma hoare_processOne:
  "hoare (\<lambda>v. w_crashes v = rs) (processOne sender now later)
     (\<lambda>again v. if again then remaining (w_crashes v) < remaining rs else w_crashes v = rs \<and> (\<forall>r \<in> set rs. \<not> alert_ready now r))
     (\<lambda>_ _. True)"
  unfolding processOne_def
proof (rule hoare_bindA)
  let ?less = "\<lambda>v. remaining (w_crashes v) < remaining rs"
  let ?Q = "\<lambda>again v. if again then ?less v else w_crashes v = rs \<and> (\<forall>r \<in> set rs. \<not> alert_ready now r)"
  let ?rest = "\<lambda>c claimed. if claimed \<noteq> 1 then retA True
      else bindA (readS (\<lambda>w. find_crash (cr_id c) (w_crashes w))) (\<lambda>row.
           case row of None \<Rightarrow> retA True | Some report \<Rightarrow> thenA (deliver sender now later report) (retA True))"
  show "hoare (\<lambda>v. w_crashes v = rs) (readS (\<lambda>w. candidate now (w_crashes w))) (\<lambda>c v. w_crashes v = rs \<and> candidate now rs = c) (\<lambda>_ _. True)"
    by (rule hoare_readS) auto
  have rest: "hoare ?less (?rest c claimed) ?Q (\<lambda>_ _. True)" for c claimed
  proof (cases "claimed = 1")
    case True
    have "hoare ?less (bindA (readS (\<lambda>w. find_crash (cr_id c) (w_crashes w))) (\<lambda>row.
        case row of None \<Rightarrow> retA True | Some report \<Rightarrow> thenA (deliver sender now later report) (retA True))) ?Q (\<lambda>_ _. True)"
      by (rule hoare_bindA [where R = "\<lambda>_. ?less"], rule hoare_readS)
        (auto split: option.splits intro!: hoare_retA hoare_thenA [OF hoare_deliver])
    then show ?thesis using True by simp
  qed (auto intro: hoare_retA)
  show "hoare (\<lambda>v. w_crashes v = rs \<and> candidate now rs = found)
      (case found of None \<Rightarrow> retA False | Some c \<Rightarrow> bindA (claimS (cr_id c) now) (?rest c)) ?Q (\<lambda>_ _. True)" for found
  proof (cases found)
    case None
    then show ?thesis by (auto intro!: hoare_retA dest: candidate_None)
  next
    case (Some c)
    have "hoare (\<lambda>v. w_crashes v = rs \<and> candidate now rs = Some c) (claimS (cr_id c) now) (\<lambda>_. ?less) (\<lambda>_ _. True)"
      unfolding claimS_def by (rule hoare_stmt) (auto intro: remaining_candidate)
    then show ?thesis unfolding Some option.simps by (rule hoare_bindA [OF _ rest])
  qed
qed

lemma drain_ends:
  "\<exists>w' k' r. drain sender clock k w = Some (w', k', r) \<and> k' \<le> k + remaining (w_crashes w) \<and>
     (r = Inr () \<longrightarrow> (\<forall>c \<in> set (w_crashes w'). \<not> alert_ready (clock (2 * k')) c))"
proof (induction "remaining (w_crashes w)" arbitrary: k w rule: less_induct)
  case less
  obtain w1 r1 where run: "processOne sender (clock (2 * k)) (clock (2 * k + 1)) w = (w1, r1)" by fastforce
  note step = drain.simps [of sender clock k w, unfolded run]
  show ?case
  proof (cases r1)
    case (Inl e)
    then show ?thesis by (simp add: step)
  next
    case (Inr again)
    note ok = hoareD_Inr [OF hoare_processOne refl run [unfolded Inr]]
    show ?thesis
    proof (cases again)
      case True
      then have l: "remaining (w_crashes w1) < remaining (w_crashes w)" using ok by simp
      show ?thesis using less [OF l, of "Suc k"] l by (fastforce simp: step Inr True)
    next
      case False
      then show ?thesis using ok by (simp add: step Inr)
    qed
  qed
qed

text \<open>
  A poll ends: whatever the sender does, whatever statement fails and however the clock runs, \<^verbatim>\<open>tick\<close> returns after at most as
  many rounds as the table has attempts left, plus one; unless an exception paused the worker, no alert is due any more at its last clock reading.
\<close>

theorem alert_poll_ends:
  "\<exists>w' rounds r. drain sender clock 0 w = Some (w', rounds, r) \<and> tick False (Some sender) clock w = Some w' \<and> rounds \<le> remaining (w_crashes w) \<and>
     (r = Inr () \<longrightarrow> (\<forall>c \<in> set (w_crashes w'). \<not> alert_ready (clock (2 * rounds)) c))"
  using drain_ends [of sender clock 0 w] by (auto simp: tick_def)

definition sample_crash :: DesktopCrashReport where
  "sample_crash = new_crash ''r1'' 0 \<lparr>sc_reportVersion = 1, sc_consentVersion = 1, sc_appVersion = ''1'', sc_engineVersion = None, sc_platform = ''linux'',
     sc_arch = ''arm64'', sc_kind = ''unclean_exit'', sc_fingerprint = ''f'', sc_occurredAt = Some 0, sc_summary = ''s'', sc_userDescription = None, sc_context = []\<rparr> 0"

definition crash_world :: "DesktopCrashReport list \<Rightarrow> (MockState, nat) CrashWorld" where
  "crash_world rs =
     \<lparr>w_orgs = [], w_persons = [], w_codes = [], w_devices = [], w_tokens = [], w_bindings = [], w_secrets = Map.empty, w_audits = [],
      w_script = [], w_gateway = \<lparr>mk_spend = Map.empty, mk_models = Map.empty, mk_random = 0\<rparr>, w_desk = 0,
      w_crashes = rs, w_globalSubmissions = [], w_fingerprintSubmissions = Map.empty, w_lastRateLimitCleanup = 0, w_lastRetentionCleanup = 0\<rparr>"

text \<open>A sender that always fails: all eight attempts of one row may be used, if the clock jumps over the waiting times.\<close>

definition failing_sender :: "CrashAlertView \<Rightarrow> (nat, unit) act" where
  "failing_sender view n = (Suc n, Inl (PlainError ''Feishu request failed''))"

theorem alert_poll_ends_witness:
  "\<exists>w' rounds r. drain failing_sender (\<lambda>k. 10000000 * int k) 0 (crash_world [sample_crash]) = Some (w', rounds, r) \<and>
     tick False (Some failing_sender) (\<lambda>k. 10000000 * int k) (crash_world [sample_crash]) = Some w' \<and> rounds \<le> 8 \<and>
     (r = Inr () \<longrightarrow> (\<forall>c \<in> set (w_crashes w'). \<not> alert_ready (10000000 * int (2 * rounds)) c))"
proof -
  have "remaining (w_crashes (crash_world [sample_crash])) = 8"
    by (simp add: remaining_def crash_world_def sample_crash_def new_crash_def MAX_ATTEMPTS_def)
  then show ?thesis using alert_poll_ends [of failing_sender "\<lambda>k. 10000000 * int k" "crash_world [sample_crash]"] by auto
qed

subsection \<open>An exhausted claim is never released\<close>

definition stays :: "DesktopCrashReport \<Rightarrow> DesktopCrashReport list \<Rightarrow> bool" where
  "stays r rs \<longleftrightarrow> r \<in> set rs \<and> distinct (map cr_id rs)"

definition exhausted :: "DesktopCrashReport \<Rightarrow> bool" where
  "exhausted r \<longleftrightarrow> cr_alertState r = SENDING \<and> MAX_ATTEMPTS \<le> cr_alertAttempts r"

lemma stays_update: "stays r rs \<Longrightarrow> \<not> p r \<Longrightarrow> (\<And>x. cr_id (f x) = cr_id x) \<Longrightarrow> stays r (update_where p f rs)"
  unfolding stays_def update_where_def by (simp add: image_iff comp_def if_distrib [of cr_id] cong: if_cong)

lemma stays_claim: "stays r rs \<Longrightarrow> exhausted r \<Longrightarrow> stays r (claim_alert i now rs)"
  unfolding claim_alert_def by (rule stays_update) (auto simp: exhausted_def alert_ready_def)

lemma stays_finish:
  assumes "stays r rs" "i \<noteq> cr_id r"
  shows "stays r (alert_delivered i now later rs)" "stays r (alert_failed i now n m rs)"
  using assms unfolding alert_delivered_def alert_failed_def by (auto intro!: stays_update simp: owns_alert_def)

lemma scriptless_stays [simp]: "scriptless (\<lambda>v. stays r (w_crashes v))" "scriptless (\<lambda>v. stays r (w_crashes v) \<and> b)"
  by (auto intro!: scriptlessI)

lemma hoare_deliver_stays:
  assumes "cr_id report \<noteq> cr_id r"
  shows "hoare (\<lambda>v. stays r (w_crashes v)) (deliver sender now later report) (\<lambda>_ v. stays r (w_crashes v)) (\<lambda>_ v. stays r (w_crashes v))"
  unfolding deliver_def
  by (rule hoare_catchA [where R = "\<lambda>_ v. stays r (w_crashes v)"], rule hoare_thenA [OF hoare_sendA])
    (rule hoare_writeS; simp add: stays_finish assms)+

lemma candidate_other: "candidate now rs = Some c \<Longrightarrow> stays r rs \<Longrightarrow> exhausted r \<Longrightarrow> cr_id c \<noteq> cr_id r"
  using candidate_Some [of now rs c] by (auto simp: stays_def exhausted_def alert_ready_def distinct_map inj_on_def)

lemma find_crash_id: "find_crash i rs = Some x \<Longrightarrow> cr_id x = i"
  by (auto simp: find_crash_def find_Some_iff)

lemma find_crash_unique: "r \<in> set rs \<Longrightarrow> distinct (map cr_id rs) \<Longrightarrow> find_crash (cr_id r) rs = Some r"
  by (induction rs) (auto simp: find_crash_def)

lemma hoare_processOne_stays:
  assumes "exhausted r"
  shows "hoare (\<lambda>v. stays r (w_crashes v)) (processOne sender now later) (\<lambda>_ v. stays r (w_crashes v)) (\<lambda>_ v. stays r (w_crashes v))"
  unfolding processOne_def
proof (rule hoare_bindA)
  let ?S = "\<lambda>v. stays r (w_crashes v)"
  show "hoare ?S (readS (\<lambda>w. candidate now (w_crashes w))) (\<lambda>c v. ?S v \<and> (\<forall>x. c = Some x \<longrightarrow> cr_id x \<noteq> cr_id r)) (\<lambda>_. ?S)"
    by (rule hoare_readS) (auto dest: candidate_other [OF _ _ assms])
  fix found
  let ?rest = "\<lambda>c claimed. if claimed \<noteq> 1 then retA True
      else bindA (readS (\<lambda>w. find_crash (cr_id c) (w_crashes w))) (\<lambda>row.
           case row of None \<Rightarrow> retA True | Some report \<Rightarrow> thenA (deliver sender now later report) (retA True))"
  have rest: "hoare ?S (?rest c claimed) (\<lambda>_. ?S) (\<lambda>_. ?S)" if "cr_id c \<noteq> cr_id r" for c claimed
  proof (cases "claimed = 1")
    case True
    have "hoare (\<lambda>v. ?S v \<and> (\<forall>x. row = Some x \<longrightarrow> cr_id x \<noteq> cr_id r))
        (case row of None \<Rightarrow> retA True | Some report \<Rightarrow> thenA (deliver sender now later report) (retA True)) (\<lambda>_. ?S) (\<lambda>_. ?S)" for row
      by (cases row) (auto intro!: hoare_retA hoare_fact intro: hoare_thenA [OF hoare_deliver_stays])
    then have "hoare ?S (bindA (readS (\<lambda>w. find_crash (cr_id c) (w_crashes w))) (\<lambda>row.
        case row of None \<Rightarrow> retA True | Some report \<Rightarrow> thenA (deliver sender now later report) (retA True))) (\<lambda>_. ?S) (\<lambda>_. ?S)"
      by (rule hoare_bindA [rotated]) (rule hoare_readS; auto dest: find_crash_id simp: that)
    then show ?thesis using True by simp
  qed (auto intro: hoare_retA)
  show "hoare (\<lambda>v. ?S v \<and> (\<forall>x. found = Some x \<longrightarrow> cr_id x \<noteq> cr_id r))
      (case found of None \<Rightarrow> retA False | Some c \<Rightarrow> bindA (claimS (cr_id c) now) (?rest c)) (\<lambda>_. ?S) (\<lambda>_. ?S)"
  proof (cases found)
    case (Some c)
    have claim: "hoare ?S (claimS (cr_id c) now) (\<lambda>_. ?S) (\<lambda>_. ?S)"
      unfolding claimS_def by (rule hoare_stmt) (auto intro: stays_claim [OF _ assms])
    show ?thesis unfolding Some option.simps by (rule hoare_fact, rule hoare_bindA [OF claim rest]) simp
  qed (auto intro: hoare_retA)
qed

lemma drain_stays:
  assumes "drain sender clock k w = Some (w', k', x)" "exhausted r" "stays r (w_crashes w)"
  shows "stays r (w_crashes w')"
proof (rule drain.raw_induct [where P = "\<lambda>sender clock k w y. stays r (w_crashes w) \<longrightarrow> stays r (w_crashes (fst y))", OF _ assms(1), THEN mp, simplified, OF _ assms(3)],
    goal_cases)
  case (1 drain sender clock k w y)
  obtain w1 r1 where run: "processOne sender (clock (2 * k)) (clock (2 * k + 1)) w = (w1, r1)" by fastforce
  have "stays r (w_crashes w1)" if "stays r (w_crashes w)"
    using hoareD_Inr [OF hoare_processOne_stays [OF assms(2)] that] hoareD_Inl [OF hoare_processOne_stays [OF assms(2)] that] run by (cases r1) blast+
  then show ?case using 1 run by (auto split: sum.splits if_splits)
qed

text \<open>
  When a worker dies after its last claim, the alert is lost silently: a row that is being sent with all attempts used is picked up by
  no worker, although its claim has timed out, and the administrator's retry refuses it, because it never became \<^verbatim>\<open>FAILED\<close>.
\<close>

theorem exhausted_claim_is_stuck:
  assumes "stays r (w_crashes w)" "exhausted r"
  shows "r \<in> set (w_crashes (fst (processOne sender now later w))) \<and>
    (\<forall>w'. tick running (Some sender) clock w = Some w' \<longrightarrow> r \<in> set (w_crashes w')) \<and>
    isl (snd (retryAlert (cr_id r) later w)) \<and> w_crashes (fst (retryAlert (cr_id r) later w)) = w_crashes w"
proof (intro conjI)
  obtain w1 x where run: "processOne sender now later w = (w1, x)" by fastforce
  have "stays r (w_crashes w1)"
    using hoareD_Inr [OF hoare_processOne_stays [OF assms(2)] assms(1)] hoareD_Inl [OF hoare_processOne_stays [OF assms(2)] assms(1)] run by (cases x) blast+
  then show "r \<in> set (w_crashes (fst (processOne sender now later w)))" by (simp add: run stays_def)
  show "\<forall>w'. tick running (Some sender) clock w = Some w' \<longrightarrow> r \<in> set (w_crashes w')"
    using drain_stays [OF _ assms(2,1)] assms(1) by (auto simp: tick_def stays_def split: if_splits)
  have "find_crash (cr_id r) (w_crashes w) = Some r" using assms(1) find_crash_unique by (simp add: stays_def)
  then have "retryAlert (cr_id r) later w = (fst (retryAlert (cr_id r) later w), snd (retryAlert (cr_id r) later w))
      \<and> isl (snd (retryAlert (cr_id r) later w)) \<and> w_crashes (fst (retryAlert (cr_id r) later w)) = w_crashes w"
    using assms(2)
    by (auto simp: retryAlert_def get_crash_def readS_def stmt_def exhausted_def thenA_def throwUnless_def bindA_def retA_def throwA_def
        split: list.splits option.splits)
  then show "isl (snd (retryAlert (cr_id r) later w))" "w_crashes (fst (retryAlert (cr_id r) later w)) = w_crashes w" by blast+
qed

text \<open>The worker claims a row for the eighth time, and the statement that reads it back fails.\<close>

definition sample_lost :: "(MockState, nat) CrashWorld" where
  "sample_lost = fst (processOne failing_sender 100 200 ((crash_world [sample_crash\<lparr>cr_alertAttempts := 7\<rparr>])\<lparr>w_script := [None, None, Some ''connection lost'']\<rparr>))"

lemma sample_lost_row: "w_crashes sample_lost = [sample_crash\<lparr>cr_alertAttempts := 8, cr_alertState := SENDING, cr_alertClaimedAt := Some 100\<rparr>]"
  by (simp add: sample_lost_def crash_world_def processOne_def bindA_def readS_def stmt_def candidate_def claimS_def claim_alert_def claimable_alerts_def
      update_where_def count_where_def alert_ready_def sample_crash_def new_crash_def MAX_ATTEMPTS_def)

theorem exhausted_claim_is_stuck_witness:
  "\<exists>r. cr_id r = ''r1'' \<and> r \<in> set (w_crashes (fst (processOne failing_sender 900000000 900000001 sample_lost))) \<and> isl (snd (retryAlert ''r1'' 900000001 sample_lost))"
proof -
  let ?r = "sample_crash\<lparr>cr_alertAttempts := 8, cr_alertState := SENDING, cr_alertClaimedAt := Some 100\<rparr>"
  have "stays ?r (w_crashes sample_lost)" "exhausted ?r" "cr_id ?r = ''r1''"
    by (simp_all add: stays_def sample_lost_row exhausted_def MAX_ATTEMPTS_def sample_crash_def new_crash_def)
  then show ?thesis using exhausted_claim_is_stuck [of ?r sample_lost failing_sender 900000000 900000001 False "\<lambda>_. 900000000"] by metis
qed

end
