(* ===== verification/CrashOutbox.thy ===== *)
theory CrashOutbox
  imports CrashAlerts
begin

section \<open>Several alert workers on one table (crash-reports/)\<close>

text \<open>
  The statements of \<^verbatim>\<open>processOne\<close> in any number of processes, interleaved with submissions, reviews, retries and the retention sweep. A worker
  that stops (a crash, a lost connection) simply takes no further step. The system remembers what the sender accepted: pairs of report and
  generation. Claims carry distinct clock readings.
\<close>

datatype worker =
    Claimed string time
  | Loaded string time DesktopCrashReport
  | Accepted string time DesktopCrashReport
  | Refused string time DesktopCrashReport

record AlertSystem =
  as_rows :: "DesktopCrashReport list"
  as_workers :: "worker set"
  as_clock :: time
  as_accepted :: "(string \<times> int) set"

inductive alert_step :: "AlertSystem \<Rightarrow> AlertSystem \<Rightarrow> bool" where
  claim: "as_clock s < now \<Longrightarrow> claimable_alerts i now (as_rows s) = 1 \<Longrightarrow>
    alert_step s (s\<lparr>as_rows := claim_alert i now (as_rows s), as_workers := insert (Claimed i now) (as_workers s), as_clock := now\<rparr>)"
| load: "Claimed i now \<in> as_workers s \<Longrightarrow> find_crash i (as_rows s) = Some r \<Longrightarrow>
    alert_step s (s\<lparr>as_workers := insert (Loaded i now r) (as_workers s - {Claimed i now})\<rparr>)"
| accepted: "Loaded i now r \<in> as_workers s \<Longrightarrow>
    alert_step s (s\<lparr>as_workers := insert (Accepted i now r) (as_workers s - {Loaded i now r}),
                    as_accepted := insert (i, cr_alertGeneration r) (as_accepted s)\<rparr>)"
| refused: "Loaded i now r \<in> as_workers s \<Longrightarrow>
    alert_step s (s\<lparr>as_workers := insert (Refused i now r) (as_workers s - {Loaded i now r})\<rparr>)"
| unrecorded: "Accepted i now r \<in> as_workers s \<Longrightarrow>
    alert_step s (s\<lparr>as_workers := insert (Refused i now r) (as_workers s - {Accepted i now r})\<rparr>)"
| delivered: "Accepted i now r \<in> as_workers s \<Longrightarrow>
    alert_step s (s\<lparr>as_rows := alert_delivered i now later (as_rows s), as_workers := as_workers s - {Accepted i now r}\<rparr>)"
| failed: "Refused i now r \<in> as_workers s \<Longrightarrow>
    alert_step s (s\<lparr>as_rows := alert_failed i now (cr_alertAttempts r) m (as_rows s), as_workers := as_workers s - {Refused i now r}\<rparr>)"
| submitted: "newId \<notin> cr_id ` set (as_rows s) \<Longrightarrow>
    alert_step s (s\<lparr>as_rows := upsert_crash newId now dto occurredAt (as_rows s)\<rparr>)"
| reopened: "alert_step s (s\<lparr>as_rows := reopen_crash i now (as_rows s)\<rparr>)"
| retry: "find_crash i (as_rows s) = Some r \<Longrightarrow> cr_alertState r = FAILED \<Longrightarrow>
    alert_step s (s\<lparr>as_rows := update_where (\<lambda>r. cr_id r = i) (retried now) (as_rows s)\<rparr>)"
| reviewed: "alert_step s (s\<lparr>as_rows := update_where (\<lambda>r. cr_id r = i) (reviewed_crash dto actor now) (as_rows s)\<rparr>)"
| purged: "alert_step s (s\<lparr>as_rows := purge_crashes now (as_rows s)\<rparr>)"

inductive_cases alert_stepE: "alert_step s t"

inductive outbox_reachable :: "AlertSystem \<Rightarrow> bool" where
  empty: "outbox_reachable \<lparr>as_rows = [], as_workers = {}, as_clock = t, as_accepted = {}\<rparr>"
| step: "outbox_reachable s \<Longrightarrow> alert_step s t \<Longrightarrow> outbox_reachable t"

subsection \<open>The invariant\<close>

text \<open>Of a row: its attempts are bounded, it is claimed exactly while it is being sent, and a sent alert was accepted in its generation.\<close>

definition row_ok :: "(string \<times> int) set \<Rightarrow> time \<Rightarrow> DesktopCrashReport \<Rightarrow> bool" where
  "row_ok acc t r \<longleftrightarrow> 0 \<le> cr_alertAttempts r \<and> cr_alertAttempts r \<le> MAX_ATTEMPTS \<and>
     (cr_alertState r = SENDING \<longleftrightarrow> cr_alertClaimedAt r \<noteq> None) \<and> (\<forall>c. cr_alertClaimedAt r = Some c \<longrightarrow> c \<le> t) \<and>
     (cr_alertState r = SENT \<longrightarrow> (cr_id r, cr_alertGeneration r) \<in> acc)"

text \<open>Of a worker that has read its row: while it owns the row, the row is still of the generation it read.\<close>

fun worker_ok :: "AlertSystem \<Rightarrow> worker \<Rightarrow> bool" where
  "worker_ok s (Claimed i now) \<longleftrightarrow> now \<le> as_clock s"
| "worker_ok s (Loaded i now v) \<longleftrightarrow> now \<le> as_clock s \<and>
     (\<forall>r \<in> set (as_rows s). owns_alert i now r \<longrightarrow> cr_alertGeneration r = cr_alertGeneration v)"
| "worker_ok s (Accepted i now v) \<longleftrightarrow> now \<le> as_clock s \<and> (i, cr_alertGeneration v) \<in> as_accepted s \<and>
     (\<forall>r \<in> set (as_rows s). owns_alert i now r \<longrightarrow> cr_alertGeneration r = cr_alertGeneration v)"
| "worker_ok s (Refused i now v) \<longleftrightarrow> now \<le> as_clock s"

definition outbox_ok :: "AlertSystem \<Rightarrow> bool" where
  "outbox_ok s \<longleftrightarrow> distinct (map cr_id (as_rows s)) \<and> (\<forall>r \<in> set (as_rows s). row_ok (as_accepted s) (as_clock s) r) \<and>
     (\<forall>u \<in> as_workers s. worker_ok s u)"

text \<open>
  A change of the table that the workers cannot mistake: a row that some worker could own afterwards was owned before, in the same generation.
\<close>

definition rows_tame :: "time \<Rightarrow> DesktopCrashReport list \<Rightarrow> DesktopCrashReport list \<Rightarrow> bool" where
  "rows_tame t rs rs' \<longleftrightarrow> (\<forall>r' \<in> set rs'. \<forall>i now. now \<le> t \<longrightarrow> owns_alert i now r' \<longrightarrow>
     (\<exists>r \<in> set rs. owns_alert i now r \<and> cr_alertGeneration r = cr_alertGeneration r'))"

lemma workers_tame:
  assumes "\<forall>u \<in> as_workers s. worker_ok s u" "rows_tame (as_clock s) (as_rows s) rs'" "as_workers t \<subseteq> as_workers s" "as_rows t = rs'"
    "as_clock s \<le> as_clock t" "as_accepted s \<subseteq> as_accepted t"
  shows "\<forall>u \<in> as_workers t. worker_ok t u"
proof
  fix u assume "u \<in> as_workers t"
  then have "worker_ok s u" using assms(1,3) by blast
  then show "worker_ok t u" using assms(2,4-6) unfolding rows_tame_def by (cases u) (auto; metis)+
qed

lemma tame_update:
  assumes "\<And>r i now. now \<le> t \<Longrightarrow> owns_alert i now (f r) \<Longrightarrow> owns_alert i now r \<and> cr_alertGeneration (f r) = cr_alertGeneration r"
  shows "rows_tame t rs (update_where p f rs)"
  unfolding rows_tame_def
proof (intro ballI allI impI)
  fix r' i now
  assume "r' \<in> set (update_where p f rs)" "now \<le> t" "owns_alert i now r'"
  moreover from this obtain r where "r \<in> set rs" "r' = (if p r then f r else r)" by (auto simp: in_update_where)
  ultimately show "\<exists>r \<in> set rs. owns_alert i now r \<and> cr_alertGeneration r = cr_alertGeneration r'"
    using assms [of now i r] by (cases "p r") auto
qed

lemma tame_subset: "set rs' \<subseteq> set rs \<Longrightarrow> rows_tame t rs rs'"
  by (auto simp: rows_tame_def)

lemma outbox_rows:
  assumes "outbox_ok s" "distinct (map cr_id rs')" "\<forall>r \<in> set rs'. row_ok (as_accepted s) (as_clock s) r"
    "rows_tame (as_clock s) (as_rows s) rs'" "us \<subseteq> as_workers s"
  shows "outbox_ok (s\<lparr>as_rows := rs', as_workers := us\<rparr>)"
  using assms workers_tame [of s rs' "s\<lparr>as_rows := rs', as_workers := us\<rparr>"] by (auto simp: outbox_ok_def)

lemma outbox_update:
  assumes "outbox_ok s" "\<And>r. r \<in> set (as_rows s) \<Longrightarrow> p r \<Longrightarrow> row_ok (as_accepted s) (as_clock s) (f r)" "\<And>r. cr_id (f r) = cr_id r"
    "\<And>r i now. now \<le> as_clock s \<Longrightarrow> owns_alert i now (f r) \<Longrightarrow> owns_alert i now r \<and> cr_alertGeneration (f r) = cr_alertGeneration r"
    "us \<subseteq> as_workers s"
  shows "outbox_ok (s\<lparr>as_rows := update_where p f (as_rows s), as_workers := us\<rparr>)"
proof (rule outbox_rows [OF assms(1) _ _ _ assms(5)])
  show "rows_tame (as_clock s) (as_rows s) (update_where p f (as_rows s))" by (rule tame_update) (rule assms(4))
qed (use assms in \<open>auto simp: outbox_ok_def in_update_where\<close>)

lemma outbox_table:
  assumes "outbox_ok s" "\<And>r. r \<in> set (as_rows s) \<Longrightarrow> p r \<Longrightarrow> row_ok (as_accepted s) (as_clock s) (f r)" "\<And>r. cr_id (f r) = cr_id r"
    "\<And>r i now. now \<le> as_clock s \<Longrightarrow> owns_alert i now (f r) \<Longrightarrow> owns_alert i now r \<and> cr_alertGeneration (f r) = cr_alertGeneration r"
  shows "outbox_ok (s\<lparr>as_rows := update_where p f (as_rows s)\<rparr>)"
  using outbox_update [OF assms subset_refl] by simp

lemma row_ok_mono: "row_ok acc t r \<Longrightarrow> acc \<subseteq> acc' \<Longrightarrow> t \<le> t' \<Longrightarrow> row_ok acc' t' r"
  by (fastforce simp: row_ok_def)

lemma worker_ok_mono:
  "worker_ok s u \<Longrightarrow> as_rows t = as_rows s \<Longrightarrow> as_clock t = as_clock s \<Longrightarrow> as_accepted s \<subseteq> as_accepted t \<Longrightarrow> worker_ok t u"
  by (cases u) auto

text \<open>A step that only moves a worker on.\<close>

lemma outbox_worker:
  assumes "outbox_ok s" "as_accepted s \<subseteq> acc" "us \<subseteq> insert u (as_workers s)" "worker_ok (s\<lparr>as_accepted := acc\<rparr>) u"
  shows "outbox_ok (s\<lparr>as_workers := us, as_accepted := acc\<rparr>)"
  unfolding outbox_ok_def
proof (intro conjI ballI)
  let ?t = "s\<lparr>as_workers := us, as_accepted := acc\<rparr>"
  fix v assume "v \<in> as_workers ?t"
  then consider "v = u" | "worker_ok s v" using assms(1,3) by (auto simp: outbox_ok_def)
  then show "worker_ok ?t v"
    using assms(2,4) worker_ok_mono [of s v ?t] worker_ok_mono [of "s\<lparr>as_accepted := acc\<rparr>" u ?t] by cases auto
qed (use assms row_ok_mono in \<open>auto simp: outbox_ok_def\<close>)

lemma outbox_moved:
  assumes "outbox_ok s" "worker_ok s u"
  shows "outbox_ok (s\<lparr>as_workers := insert u (as_workers s - X)\<rparr>)"
  using outbox_worker [OF assms(1) subset_refl, of "insert u (as_workers s - X)" u] assms(2) by fastforce

lemma claim_ok:
  assumes "outbox_ok s" "as_clock s < now"
  shows "outbox_ok (s\<lparr>as_rows := claim_alert i now (as_rows s), as_workers := insert (Claimed i now) (as_workers s), as_clock := now\<rparr>)"
proof -
  let ?rows = "claim_alert i now (as_rows s)"
  have tame: "rows_tame (as_clock s) (as_rows s) ?rows"
    unfolding claim_alert_def by (rule tame_update) (use assms(2) in \<open>auto simp: owns_alert_def\<close>)
  have workers: "\<forall>u \<in> as_workers s. worker_ok (s\<lparr>as_rows := ?rows, as_clock := now\<rparr>) u"
    using workers_tame [OF _ tame, of "s\<lparr>as_rows := ?rows, as_clock := now\<rparr>"] assms by (auto simp: outbox_ok_def)
  have rows: "row_ok (as_accepted s) now r" if "r \<in> set ?rows" for r
  proof -
    obtain r0 where r0: "r0 \<in> set (as_rows s)"
      "r = (if cr_id r0 = i \<and> alert_ready now r0 then r0\<lparr>cr_alertState := SENDING, cr_alertAttempts := cr_alertAttempts r0 + 1, cr_alertClaimedAt := Some now\<rparr> else r0)"
      using \<open>r \<in> set ?rows\<close> by (auto simp: claim_alert_def in_update_where)
    then have "row_ok (as_accepted s) now r0" using assms row_ok_mono by (fastforce simp: outbox_ok_def)
    then show ?thesis using r0(2) by (auto simp: row_ok_def alert_ready_def)
  qed
  have "worker_ok (s\<lparr>as_rows := ?rows, as_workers := ws, as_clock := now\<rparr>) u" if "worker_ok (s\<lparr>as_rows := ?rows, as_clock := now\<rparr>) u" for u ws
    using that by (cases u) auto
  then show ?thesis using workers rows assms(1) by (auto simp: outbox_ok_def claim_alert_def)
qed

lemma load_ok:
  assumes "outbox_ok s" "Claimed i now \<in> as_workers s" "find_crash i (as_rows s) = Some r"
  shows "worker_ok s (Loaded i now r)"
proof -
  have d: "distinct (map cr_id (as_rows s))" "now \<le> as_clock s" using assms(1,2) by (auto simp: outbox_ok_def)
  have "x = r" if "x \<in> set (as_rows s)" "cr_id x = i" for x using find_crash_unique [OF that(1) d(1)] that(2) assms(3) by simp
  then show ?thesis using d(2) by (auto simp: owns_alert_def)
qed

lemma submit_ok:
  assumes "outbox_ok s" "newId \<notin> cr_id ` set (as_rows s)"
  shows "outbox_ok (s\<lparr>as_rows := upsert_crash newId now dto occurredAt (as_rows s)\<rparr>)"
proof (cases "list_ex (same_crash dto) (as_rows s)")
  case True
  have "outbox_ok (s\<lparr>as_rows := update_where (same_crash dto) (repeated_crash dto occurredAt) (as_rows s)\<rparr>)"
    by (rule outbox_table [OF assms(1)]) (use assms(1) in \<open>auto simp: outbox_ok_def row_ok_def repeated_crash_def owns_alert_def\<close>)
  then show ?thesis using True by (simp add: upsert_crash_def)
next
  case False
  have "outbox_ok (s\<lparr>as_rows := as_rows s @ [new_crash newId now dto occurredAt], as_workers := as_workers s\<rparr>)"
  proof (rule outbox_rows [OF assms(1)])
    show "rows_tame (as_clock s) (as_rows s) (as_rows s @ [new_crash newId now dto occurredAt])"
      by (auto simp: rows_tame_def owns_alert_def new_crash_def)
  qed (use assms in \<open>auto simp: outbox_ok_def row_ok_def new_crash_def MAX_ATTEMPTS_def\<close>)
  then show ?thesis using False by (simp add: upsert_crash_def)
qed

lemma delivered_ok:
  assumes "outbox_ok s" "Accepted i now v \<in> as_workers s"
  shows "outbox_ok (s\<lparr>as_rows := alert_delivered i now later (as_rows s), as_workers := as_workers s - {Accepted i now v}\<rparr>)"
  unfolding alert_delivered_def
proof (rule outbox_update [OF assms(1)])
  fix r assume r: "r \<in> set (as_rows s)" "owns_alert i now r"
  have "(i, cr_alertGeneration v) \<in> as_accepted s" "cr_alertGeneration r = cr_alertGeneration v" "cr_id r = i"
    using assms r by (auto simp: outbox_ok_def owns_alert_def)
  then have "(cr_id r, cr_alertGeneration r) \<in> as_accepted s" by simp
  then show "row_ok (as_accepted s) (as_clock s) (r\<lparr>cr_alertState := SENT, cr_alertDeliveredAt := Some later, cr_alertClaimedAt := None, cr_alertLastError := []\<rparr>)"
    using assms(1) r(1) by (auto simp: outbox_ok_def row_ok_def)
qed (auto simp: owns_alert_def)

lemma outbox_step:
  assumes "alert_step s t" "outbox_ok s"
  shows "outbox_ok t"
  using assms
proof cases
  case (load i now r)
  show ?thesis unfolding load(1) by (rule outbox_moved [OF assms(2) load_ok [OF assms(2) load(2,3)]])
next
  case (accepted i now r)
  then have "worker_ok s (Loaded i now r)" using assms(2) by (auto simp: outbox_ok_def)
  then have "worker_ok (s\<lparr>as_accepted := insert (i, cr_alertGeneration r) (as_accepted s)\<rparr>) (Accepted i now r)" by simp
  then show ?thesis unfolding accepted(1) by (intro outbox_worker [OF assms(2)]) auto
next
  case (refused i now r)
  then have "worker_ok s (Loaded i now r)" using assms(2) by (auto simp: outbox_ok_def)
  then have "worker_ok s (Refused i now r)" by simp
  then show ?thesis unfolding refused(1) by (rule outbox_moved [OF assms(2)])
next
  case (unrecorded i now r)
  then have "worker_ok s (Accepted i now r)" using assms(2) by (auto simp: outbox_ok_def)
  then have "worker_ok s (Refused i now r)" by simp
  then show ?thesis unfolding unrecorded(1) by (rule outbox_moved [OF assms(2)])
next
  case (failed i now r m)
  show ?thesis unfolding failed(1) alert_failed_def
    by (rule outbox_update [OF assms(2)]) (use assms(2) in \<open>auto simp: outbox_ok_def row_ok_def owns_alert_def\<close>)
next
  case (reopened i now)
  show ?thesis unfolding reopened reopen_crash_def
    by (rule outbox_table [OF assms(2)]) (use assms(2) in \<open>auto simp: row_ok_def reopened_def owns_alert_def MAX_ATTEMPTS_def\<close>)
next
  case (retry i r now)
  show ?thesis unfolding retry(1)
    by (rule outbox_table [OF assms(2)]) (auto simp: row_ok_def retried_def owns_alert_def MAX_ATTEMPTS_def)
next
  case (reviewed i dto actor now)
  show ?thesis unfolding reviewed
    by (rule outbox_table [OF assms(2)]) (use assms(2) in \<open>auto simp: outbox_ok_def row_ok_def reviewed_crash_def owns_alert_def\<close>)
next
  case (purged now)
  have "outbox_ok (s\<lparr>as_rows := purge_crashes now (as_rows s), as_workers := as_workers s\<rparr>)"
    by (rule outbox_rows [OF assms(2)]) (use assms(2) in \<open>auto simp: outbox_ok_def purge_crashes_def distinct_map inj_on_def intro: tame_subset\<close>)
  then show ?thesis by (simp add: purged)
qed (use assms claim_ok submit_ok delivered_ok in auto)

lemma outbox_invariant: "outbox_reachable s \<Longrightarrow> outbox_ok s"
proof (induction rule: outbox_reachable.induct)
  case (step s t)
  then show ?case using outbox_step by blast
qed (simp add: outbox_ok_def)


text \<open>A report is submitted, claimed, loaded, accepted and recorded.\<close>

definition sample_dto :: SubmitDesktopCrashReportDto where
  "sample_dto = \<lparr>sc_reportVersion = 1, sc_consentVersion = 1, sc_appVersion = ''1'', sc_engineVersion = None, sc_platform = ''linux'',
     sc_arch = ''arm64'', sc_kind = ''unclean_exit'', sc_fingerprint = ''f'', sc_occurredAt = Some 0, sc_summary = ''s'', sc_userDescription = None, sc_context = []\<rparr>"

definition sample_claimed :: DesktopCrashReport where
  "sample_claimed = (new_crash ''r1'' 0 sample_dto 0)\<lparr>cr_alertState := SENDING, cr_alertAttempts := 1, cr_alertClaimedAt := Some 5\<rparr>"

lemma sample_outbox:
  "\<exists>s. outbox_reachable s \<and> as_accepted s = {(''r1'', 1)} \<and>
     as_rows s = [sample_claimed\<lparr>cr_alertState := SENT, cr_alertDeliveredAt := Some 6, cr_alertClaimedAt := None, cr_alertLastError := []\<rparr>]"
proof -
  let ?s0 = "\<lparr>as_rows = [], as_workers = {}, as_clock = 0, as_accepted = {}\<rparr> :: AlertSystem"
  let ?s1 = "?s0\<lparr>as_rows := [new_crash ''r1'' 0 sample_dto 0]\<rparr>"
  let ?s2 = "?s1\<lparr>as_rows := [sample_claimed], as_workers := {Claimed ''r1'' 5}, as_clock := 5\<rparr>"
  let ?s3 = "?s2\<lparr>as_workers := {Loaded ''r1'' 5 sample_claimed}\<rparr>"
  let ?s4 = "?s3\<lparr>as_workers := {Accepted ''r1'' 5 sample_claimed}, as_accepted := {(''r1'', 1)}\<rparr>"
  let ?s5 = "?s4\<lparr>as_rows := alert_delivered ''r1'' 5 6 [sample_claimed], as_workers := {}\<rparr>"
  have "outbox_reachable ?s0" by (rule outbox_reachable.empty)
  moreover have "alert_step ?s0 ?s1" using alert_step.submitted [of "''r1''" ?s0 0 sample_dto 0] by (simp add: upsert_crash_def)
  moreover have "alert_step ?s1 ?s2"
    using alert_step.claim [of ?s1 5 "''r1''"]
    by (simp add: claim_alert_def claimable_alerts_def count_where_def update_where_def alert_ready_def new_crash_def sample_claimed_def MAX_ATTEMPTS_def)
  moreover have "alert_step ?s2 ?s3"
    using alert_step.load [of "''r1''" 5 ?s2 sample_claimed] by (simp add: find_crash_def sample_claimed_def new_crash_def)
  moreover have "alert_step ?s3 ?s4"
    using alert_step.accepted [of "''r1''" 5 sample_claimed ?s3] by (simp add: sample_claimed_def new_crash_def)
  moreover have "alert_step ?s4 ?s5" using alert_step.delivered [of "''r1''" 5 sample_claimed ?s4 6] by simp
  ultimately have "outbox_reachable ?s5" by (meson outbox_reachable.step)
  then show ?thesis
    by (intro exI [of _ ?s5]) (simp add: alert_delivered_def update_where_def owns_alert_def sample_claimed_def new_crash_def)
qed


end
