(* ===== verification/Feedback.thy ===== *)
theory Feedback
  imports CrashReports Secrets
begin

section \<open>Feedback tickets (feedback-tickets/, config/feedback-intake.ts)\<close>

text \<open>
  The work orders of the product: intake with idempotency on the source and a lease for the consumer, the workflow with its allowed
  transitions, and the append-only timeline. The columns' lengths matter here and are part of the insert statements. The random
  token, the identifier and the number of a new ticket and the clock readings are arguments.
\<close>

datatype FeedbackTicketSource = FEISHU | CONTROL | INTERNAL
datatype FeedbackTicketKind = BUG | SUGGESTION | CRASH | OTHER
datatype FeedbackTicketPriority = URGENT | HIGH | NORMAL | LOW
datatype FeedbackTicketStatus = RECEIVED | ACKNOWLEDGED | IN_PROGRESS | WAITING_RELEASE | WAITING_VERIFICATION | CLOSED | BLOCKED | REJECTED
datatype FeedbackTicketEventKind = EV_CREATED | EV_ACKNOWLEDGED | EV_STATUS_CHANGED | EV_NOTE | EV_RELEASED | EV_CLOSED

record FeedbackTicket =
  ft_id :: string
  ft_number :: nat
  ft_source :: FeedbackTicketSource
  ft_sourceRef :: string
  ft_sourceChatRef :: string
  ft_kind :: FeedbackTicketKind
  ft_priority :: FeedbackTicketPriority
  ft_status :: FeedbackTicketStatus
  ft_title :: string
  ft_summary :: string
  ft_reporterRef :: string
  ft_assignee :: string
  ft_fixVersion :: string
  ft_verificationSteps :: string
  ft_claimOwner :: string
  ft_claimTokenHash :: string
  ft_claimExpiresAt :: "time option"
  ft_acknowledgedAt :: "time option"
  ft_startedAt :: "time option"
  ft_releasedAt :: "time option"
  ft_closedAt :: "time option"
  ft_updatedAt :: time

record FeedbackTicketEvent =
  fe_ticketId :: string
  fe_kind :: FeedbackTicketEventKind
  fe_fromStatus :: "FeedbackTicketStatus option"
  fe_toStatus :: "FeedbackTicketStatus option"
  fe_note :: string
  fe_actor :: string

record ('g, 'd) FeedbackWorld = "('g, 'd) World" +
  w_tickets :: "FeedbackTicket list"
  w_ticketEvents :: "FeedbackTicketEvent list"

record IntakeFeedbackTicketDto =
  it_source :: FeedbackTicketSource
  it_sourceRef :: string
  it_sourceChatRef :: "string option"
  it_kind :: FeedbackTicketKind
  it_priority :: "FeedbackTicketPriority option"
  it_title :: string
  it_summary :: "string option"
  it_reporterRef :: "string option"
  it_consumerId :: string

record UpdateFeedbackTicketDto =
  ut_status :: FeedbackTicketStatus
  ut_priority :: "FeedbackTicketPriority option"
  ut_assignee :: "string option"
  ut_fixVersion :: "string option"
  ut_verificationSteps :: "string option"
  ut_note :: "string option"

subsection \<open>The intake credential (config/feedback-intake.ts, feedback-intake.guard.ts)\<close>

text \<open>
  A file as the operating system describes it: what \<^verbatim>\<open>lstat\<close> says of the path, and what opening it gives (the status of the descriptor
  and the contents). The effective user is None where the platform has none.
\<close>

record FileStat =
  st_symlink :: bool
  st_file :: bool
  st_mode :: nat
  st_uid :: int
  st_dev :: int
  st_ino :: int

record FileSystem =
  fs_lstat :: "string \<Rightarrow> FileStat option"
  fs_open :: "string \<Rightarrow> (FileStat \<times> string) option"
  fs_euid :: "int option"

definition readPrivateKeyFile :: "FileSystem \<Rightarrow> string \<Rightarrow> string res" where
  "readPrivateKeyFile fs path =
     throwIf (\<not> startsWith path ''/'') (PlainError ''HARA_FEEDBACK_INTAKE_KEYFILE must be absolute'')
    (case fs_lstat fs path of
       None \<Rightarrow> Inl (PlainError ''ENOENT'')
     | Some before \<Rightarrow>
         throwIf (st_symlink before \<or> \<not> st_file before) (PlainError ''HARA_FEEDBACK_INTAKE_KEYFILE must be a regular file'')
        (throwIf (st_mode before mod 64 \<noteq> 0) (PlainError ''HARA_FEEDBACK_INTAKE_KEYFILE must use owner-only permissions'')
        (throwIf (case fs_euid fs of None \<Rightarrow> False | Some u \<Rightarrow> st_uid before \<noteq> u) (PlainError ''HARA_FEEDBACK_INTAKE_KEYFILE must be owned by the service user'')
        (case fs_open fs path of
           None \<Rightarrow> Inl (PlainError ''open failed'')
         | Some (opened, contents) \<Rightarrow>
             throwIf (\<not> st_file opened \<or> st_dev opened \<noteq> st_dev before \<or> st_ino opened \<noteq> st_ino before)
               (PlainError ''HARA_FEEDBACK_INTAKE_KEYFILE changed while opening'')
            (Inr (trim contents))))))"

definition loadFeedbackIntakeKey :: "FileSystem \<Rightarrow> env \<Rightarrow> string option res" where
  "loadFeedbackIntakeKey fs env =
     (let inline = trim (env_text env ''HARA_FEEDBACK_INTAKE_KEY''); keyfile = trim (env_text env ''HARA_FEEDBACK_INTAKE_KEYFILE'')
      in throwIf (inline \<noteq> [] \<and> keyfile \<noteq> []) (PlainError ''configure only one feedback intake key source'')
        (if inline = [] \<and> keyfile = [] then Inr None
         else bindR (if inline \<noteq> [] then Inr inline else readPrivateKeyFile fs keyfile) (\<lambda>key.
              throwIf (length key < 32) (PlainError ''feedback intake credential is too short'') (Inr (Some key)))))"

definition secureEquals :: "string \<Rightarrow> string \<Rightarrow> bool" where
  "secureEquals actual expected \<longleftrightarrow> length (utf8 actual) = length (utf8 expected) \<and> utf8 actual = utf8 expected"

text \<open>The header \<^verbatim>\<open>x-hara-feedback-key\<close> as the list of its occurrences.\<close>

definition intake_canActivate :: "FileSystem \<Rightarrow> env \<Rightarrow> string list \<Rightarrow> unit res" where
  "intake_canActivate fs env raw =
     bindR (loadFeedbackIntakeKey fs env) (\<lambda>key.
     case key of
       None \<Rightarrow> Inl (Unauthorized ''feedback intake is not configured'')
     | Some expected \<Rightarrow>
         (let actual = (case raw of [] \<Rightarrow> [] | a # _ \<Rightarrow> a)
          in throwIf (actual = [] \<or> \<not> secureEquals actual expected) (Unauthorized ''invalid feedback intake credential'') (Inr ())))"

subsection \<open>Tickets (feedback-tickets.service.ts)\<close>

definition CLAIM_LEASE_MS :: int where "CLAIM_LEASE_MS = 15 * 60 * 1000"

definition terminal_status :: "FeedbackTicketStatus \<Rightarrow> bool" where
  "terminal_status s \<longleftrightarrow> s = CLOSED \<or> s = REJECTED"

fun ALLOWED_TRANSITIONS :: "FeedbackTicketStatus \<Rightarrow> FeedbackTicketStatus list" where
  "ALLOWED_TRANSITIONS RECEIVED = [ACKNOWLEDGED, IN_PROGRESS, BLOCKED, REJECTED]"
| "ALLOWED_TRANSITIONS ACKNOWLEDGED = [IN_PROGRESS, BLOCKED, REJECTED]"
| "ALLOWED_TRANSITIONS IN_PROGRESS = [WAITING_RELEASE, BLOCKED, REJECTED]"
| "ALLOWED_TRANSITIONS WAITING_RELEASE = [IN_PROGRESS, WAITING_VERIFICATION, BLOCKED]"
| "ALLOWED_TRANSITIONS WAITING_VERIFICATION = [IN_PROGRESS, CLOSED, BLOCKED]"
| "ALLOWED_TRANSITIONS CLOSED = [IN_PROGRESS]"
| "ALLOWED_TRANSITIONS BLOCKED = [IN_PROGRESS, REJECTED]"
| "ALLOWED_TRANSITIONS REJECTED = [IN_PROGRESS]"

text \<open>\<^verbatim>\<open>Buffer.from(s, "hex")\<close>: pairs of digits up to the first that is none.\<close>

fun hexDecode :: "string \<Rightarrow> byte list" where
  "hexDecode (a # b # s) =
     (if hex_digit a < 16 \<and> hex_digit b < 16 then of_nat (hex_digit a * 16 + hex_digit b) # hexDecode s else [])"
| "hexDecode s = []"

definition hashMatches :: "string \<Rightarrow> string \<Rightarrow> bool" where
  "hashMatches actual expected \<longleftrightarrow> hexDecode actual \<noteq> [] \<and> length (hexDecode actual) = length (hexDecode expected) \<and> hexDecode actual = hexDecode expected"

definition formatTicketNumber :: "nat \<Rightarrow> string" where
  "formatTicketNumber n = ''HARA-'' @ padStart0 6 (show_nat n)"

definition ticket_status_name :: "FeedbackTicketStatus \<Rightarrow> string" where
  "ticket_status_name s =
     (case s of RECEIVED \<Rightarrow> ''RECEIVED'' | ACKNOWLEDGED \<Rightarrow> ''ACKNOWLEDGED'' | IN_PROGRESS \<Rightarrow> ''IN_PROGRESS'' | WAITING_RELEASE \<Rightarrow> ''WAITING_RELEASE''
      | WAITING_VERIFICATION \<Rightarrow> ''WAITING_VERIFICATION'' | CLOSED \<Rightarrow> ''CLOSED'' | BLOCKED \<Rightarrow> ''BLOCKED'' | REJECTED \<Rightarrow> ''REJECTED'')"

definition find_ticket :: "string \<Rightarrow> FeedbackTicket list \<Rightarrow> FeedbackTicket option" where
  "find_ticket i ts = find (\<lambda>t. ft_id t = i) ts"

definition same_source :: "FeedbackTicketSource \<Rightarrow> string \<Rightarrow> FeedbackTicket \<Rightarrow> bool" where
  "same_source source sourceRef t \<longleftrightarrow> ft_source t = source \<and> ft_sourceRef t = sourceRef"

text \<open>The insert of an event: PostgreSQL refuses a note or an actor beyond the width of its column.\<close>

definition event_fits :: "FeedbackTicketEvent \<Rightarrow> bool" where
  "event_fits e \<longleftrightarrow> length (fe_note e) \<le> 1200 \<and> length (fe_actor e) \<le> 160"

definition value_too_long :: http_error where
  "value_too_long = PlainError ''The provided value for the column is too long''"

text \<open>\<^verbatim>\<open>feedbackTicket.create\<close> with its first event: None is the unique conflict P2002, which the ticket's own insert raises first.\<close>

definition createTicketS :: "FeedbackTicket \<Rightarrow> FeedbackTicketEvent \<Rightarrow> (('g, 'd, 'x) FeedbackWorld_scheme, FeedbackTicket option) act" where
  "createTicketS ticket event = txS (\<lambda>w.
     if list_ex (same_source (ft_source ticket) (ft_sourceRef ticket)) (w_tickets w) then Inr (None, w)
     else if \<not> event_fits event then Inl value_too_long
     else Inr (Some ticket, w\<lparr>w_tickets := w_tickets w @ [ticket], w_ticketEvents := w_ticketEvents w @ [event]\<rparr>))"

definition claim_open :: "string \<Rightarrow> time \<Rightarrow> FeedbackTicket \<Rightarrow> bool" where
  "claim_open consumerId now t \<longleftrightarrow> \<not> terminal_status (ft_status t) \<and>
     ((case ft_claimExpiresAt t of None \<Rightarrow> True | Some e \<Rightarrow> e \<le> now) \<or> ft_claimOwner t = consumerId)"

definition claim_ticket :: "string \<Rightarrow> string \<Rightarrow> string \<Rightarrow> time \<Rightarrow> time \<Rightarrow> FeedbackTicket list \<Rightarrow> FeedbackTicket list" where
  "claim_ticket i consumerId tokenHash expiresAt now ts = update_where (\<lambda>t. ft_id t = i \<and> claim_open consumerId now t)
     (\<lambda>t. t\<lparr>ft_claimOwner := consumerId, ft_claimTokenHash := tokenHash, ft_claimExpiresAt := Some expiresAt, ft_updatedAt := now\<rparr>) ts"

definition claimTicketS :: "string \<Rightarrow> string \<Rightarrow> string \<Rightarrow> time \<Rightarrow> time \<Rightarrow> (('g, 'd, 'x) FeedbackWorld_scheme, nat) act" where
  "claimTicketS i consumerId tokenHash expiresAt now =
     stmt (\<lambda>w. (w\<lparr>w_tickets := claim_ticket i consumerId tokenHash expiresAt now (w_tickets w)\<rparr>,
                count_where (\<lambda>t. ft_id t = i \<and> claim_open consumerId now t) (w_tickets w)))"

record IntakeResult =
  ir_ticket :: FeedbackTicket
  ir_created :: bool
  ir_claimGranted :: bool
  ir_claimToken :: "string option"

definition new_ticket :: "string \<Rightarrow> nat \<Rightarrow> IntakeFeedbackTicketDto \<Rightarrow> string \<Rightarrow> string \<Rightarrow> time \<Rightarrow> FeedbackTicket" where
  "new_ticket newId number dto tokenHash consumerId now =
     \<lparr>ft_id = newId, ft_number = number, ft_source = it_source dto, ft_sourceRef = sanitizeControlText (it_sourceRef dto) 200,
      ft_sourceChatRef = sanitizeControlText (nullish (it_sourceChatRef dto) []) 200, ft_kind = it_kind dto, ft_priority = nullish (it_priority dto) NORMAL,
      ft_status = RECEIVED, ft_title = orStr (sanitizeControlText (it_title dto) 240) ''Hara feedback'',
      ft_summary = sanitizeControlText (nullish (it_summary dto) []) 2000, ft_reporterRef = sanitizeControlText (nullish (it_reporterRef dto) []) 200,
      ft_assignee = [], ft_fixVersion = [], ft_verificationSteps = [], ft_claimOwner = consumerId, ft_claimTokenHash = tokenHash,
      ft_claimExpiresAt = Some (now + CLAIM_LEASE_MS), ft_acknowledgedAt = None, ft_startedAt = None, ft_releasedAt = None, ft_closedAt = None, ft_updatedAt = now\<rparr>"

definition created_event :: "FeedbackTicket \<Rightarrow> FeedbackTicketEvent" where
  "created_event t = \<lparr>fe_ticketId = ft_id t, fe_kind = EV_CREATED, fe_fromStatus = None, fe_toStatus = Some RECEIVED, fe_note = ft_summary t, fe_actor = ft_claimOwner t\<rparr>"

definition reclaim :: "(string \<Rightarrow> string) \<Rightarrow> string \<Rightarrow> time \<Rightarrow> string \<Rightarrow> FeedbackTicket \<Rightarrow> (('g, 'd, 'x) FeedbackWorld_scheme, IntakeResult) act" where
  "reclaim H claimToken now consumerId existing =
     (let unclaimed = \<lparr>ir_ticket = existing, ir_created = False, ir_claimGranted = False, ir_claimToken = None\<rparr>
      in if terminal_status (ft_status existing) then retA unclaimed
         else bindA (claimTicketS (ft_id existing) consumerId (H claimToken) (now + CLAIM_LEASE_MS) now) (\<lambda>count.
              if count = 1
              then bindA (readS (\<lambda>w. find_ticket (ft_id existing) (w_tickets w))) (\<lambda>row.
                   retA \<lparr>ir_ticket = nullish row existing, ir_created = False, ir_claimGranted = True, ir_claimToken = Some claimToken\<rparr>)
              else retA unclaimed))"

definition intake ::
  "(string \<Rightarrow> string) \<Rightarrow> string \<Rightarrow> nat \<Rightarrow> string \<Rightarrow> time \<Rightarrow> IntakeFeedbackTicketDto \<Rightarrow> (('g, 'd, 'x) FeedbackWorld_scheme, IntakeResult) act" where
  "intake H newId number claimToken now dto =
     (let sourceRef = sanitizeControlText (it_sourceRef dto) 200; consumerId = sanitizeControlText (it_consumerId dto) 160;
          ticket = new_ticket newId number dto (H claimToken) consumerId now
      in thenA (throwUnless (sourceRef \<noteq> [] \<and> consumerId \<noteq> []) (BadRequest ''feedback source and consumer identifiers must contain visible text''))
        (bindA (createTicketS ticket (created_event ticket)) (\<lambda>created.
         case created of
           Some t \<Rightarrow> retA \<lparr>ir_ticket = t, ir_created = True, ir_claimGranted = True, ir_claimToken = Some claimToken\<rparr>
         | None \<Rightarrow>
             bindA (readS (\<lambda>w. find (same_source (it_source dto) sourceRef) (w_tickets w))) (\<lambda>found.
             case found of
               None \<Rightarrow> throwA (PlainError ''Unique constraint failed'')
             | Some existing \<Rightarrow> reclaim H claimToken now consumerId existing))))"

text \<open>\<^verbatim>\<open>parseOptionalEnum\<close> over the names of an enumeration.\<close>

definition parseOptionalEnum :: "string option \<Rightarrow> (string \<times> 'e) list \<Rightarrow> string \<Rightarrow> 'e option res" where
  "parseOptionalEnum value options label =
     (let v = nullish value []
      in if v = [] then Inr None
         else case map_of options v of None \<Rightarrow> Inl (BadRequest (''invalid '' @ label)) | Some e \<Rightarrow> Inr (Some e))"

definition ticket_statuses :: "(string \<times> FeedbackTicketStatus) list" where
  "ticket_statuses = map (\<lambda>s. (ticket_status_name s, s)) [RECEIVED, ACKNOWLEDGED, IN_PROGRESS, WAITING_RELEASE, WAITING_VERIFICATION, CLOSED, BLOCKED, REJECTED]"

definition ticket_kinds :: "(string \<times> FeedbackTicketKind) list" where
  "ticket_kinds = [(''BUG'', BUG), (''SUGGESTION'', SUGGESTION), (''CRASH'', CRASH), (''OTHER'', OTHER)]"

definition ticket_priorities :: "(string \<times> FeedbackTicketPriority) list" where
  "ticket_priorities = [(''URGENT'', URGENT), (''HIGH'', HIGH), (''NORMAL'', NORMAL), (''LOW'', LOW)]"

definition priority_rank :: "FeedbackTicketPriority \<Rightarrow> int" where
  "priority_rank p = (case p of URGENT \<Rightarrow> 0 | HIGH \<Rightarrow> 1 | NORMAL \<Rightarrow> 2 | LOW \<Rightarrow> 3)"

definition list_tickets ::
  "string option \<Rightarrow> string option \<Rightarrow> string option \<Rightarrow> number \<Rightarrow> (('g, 'd, 'x) FeedbackWorld_scheme, (FeedbackTicket \<times> string) list) act" where
  "list_tickets status kind priority limit =
     bindA (liftR (parseOptionalEnum status ticket_statuses ''ticket status'')) (\<lambda>s.
     bindA (liftR (parseOptionalEnum kind ticket_kinds ''ticket kind'')) (\<lambda>k.
     bindA (liftR (parseOptionalEnum priority ticket_priorities ''ticket priority'')) (\<lambda>p.
     readS (\<lambda>w. map (\<lambda>t. (t, formatTicketNumber (ft_number t))) (take (boundedLimit limit)
       (sort_key (\<lambda>t. priority_rank (ft_priority t)) (sort_key (\<lambda>t. - ft_updatedAt t)
         (filter (\<lambda>t. (s = None \<or> s = Some (ft_status t)) \<and> (k = None \<or> k = Some (ft_kind t)) \<and> (p = None \<or> p = Some (ft_priority t))) (w_tickets w)))))))))"

definition events_of :: "string \<Rightarrow> FeedbackTicketEvent list \<Rightarrow> FeedbackTicketEvent list" where
  "events_of i es = filter (\<lambda>e. fe_ticketId e = i) es"

definition get_ticket :: "string \<Rightarrow> (('g, 'd, 'x) FeedbackWorld_scheme, FeedbackTicket \<times> FeedbackTicketEvent list) act" where
  "get_ticket i =
     bindA (readS (\<lambda>w. map_option (\<lambda>t. (t, events_of i (w_ticketEvents w))) (find_ticket i (w_tickets w)))) (\<lambda>r.
     case r of None \<Rightarrow> throwA (NotFound ''feedback ticket not found'') | Some x \<Rightarrow> retA x)"

definition given :: "string option \<Rightarrow> nat \<Rightarrow> string \<Rightarrow> string" where
  "given value limit existing = (case value of None \<Rightarrow> existing | Some v \<Rightarrow> sanitizeControlText v limit)"

definition event_kind :: "FeedbackTicketStatus \<Rightarrow> FeedbackTicketStatus \<Rightarrow> FeedbackTicketEventKind" where
  "event_kind old new =
     (if new = CLOSED then EV_CLOSED else if new = WAITING_VERIFICATION then EV_RELEASED else if new = ACKNOWLEDGED then EV_ACKNOWLEDGED
      else if new \<noteq> old then EV_STATUS_CHANGED else EV_NOTE)"

definition started_status :: "FeedbackTicketStatus \<Rightarrow> bool" where
  "started_status s \<longleftrightarrow> s \<in> {IN_PROGRESS, WAITING_RELEASE, WAITING_VERIFICATION, CLOSED}"

definition release_required :: "FeedbackTicketStatus \<Rightarrow> bool" where
  "release_required s \<longleftrightarrow> s = WAITING_VERIFICATION \<or> s = CLOSED"

definition clears_claim :: "FeedbackTicketStatus \<Rightarrow> bool" where
  "clears_claim s \<longleftrightarrow> s = WAITING_RELEASE \<or> terminal_status s"

definition moved_ticket :: "UpdateFeedbackTicketDto \<Rightarrow> time \<Rightarrow> FeedbackTicket \<Rightarrow> FeedbackTicket" where
  "moved_ticket dto now t =
     (let s = ut_status dto
      in t\<lparr>ft_status := s, ft_priority := nullish (ut_priority dto) (ft_priority t),
           ft_assignee := given (ut_assignee dto) 160 (ft_assignee t), ft_fixVersion := given (ut_fixVersion dto) 64 (ft_fixVersion t),
           ft_verificationSteps := given (ut_verificationSteps dto) 1200 (ft_verificationSteps t),
           ft_acknowledgedAt := (if ft_acknowledgedAt t = None \<and> s \<noteq> RECEIVED then Some now else ft_acknowledgedAt t),
           ft_startedAt := (if ft_startedAt t = None \<and> started_status s then Some now else ft_startedAt t),
           ft_releasedAt := (if s = WAITING_VERIFICATION then Some now else ft_releasedAt t),
           ft_closedAt := (if s = CLOSED then Some now else if ft_status t = CLOSED then None else ft_closedAt t),
           ft_claimOwner := (if clears_claim s then [] else ft_claimOwner t),
           ft_claimTokenHash := (if clears_claim s then [] else ft_claimTokenHash t),
           ft_claimExpiresAt := (if clears_claim s then None else ft_claimExpiresAt t),
           ft_updatedAt := now\<rparr>)"

definition moved_event :: "UpdateFeedbackTicketDto \<Rightarrow> string \<Rightarrow> FeedbackTicket \<Rightarrow> FeedbackTicketEvent" where
  "moved_event dto actor t =
     \<lparr>fe_ticketId = ft_id t, fe_kind = event_kind (ft_status t) (ut_status dto), fe_fromStatus = Some (ft_status t), fe_toStatus = Some (ut_status dto),
      fe_note = sanitizeControlText (nullish (ut_note dto) []) 1200, fe_actor = sanitizeControlText actor 160\<rparr>"

definition transition_tx ::
  "string \<Rightarrow> UpdateFeedbackTicketDto \<Rightarrow> string \<Rightarrow> time \<Rightarrow> ('g, 'd, 'x) FeedbackWorld_scheme \<Rightarrow> (FeedbackTicket \<times> ('g, 'd, 'x) FeedbackWorld_scheme) res" where
  "transition_tx i dto actor now w =
     (case find_ticket i (w_tickets w) of
        None \<Rightarrow> Inl (NotFound ''feedback ticket not found'')
      | Some t \<Rightarrow>
          (let moved = moved_ticket dto now t; event = moved_event dto actor t
           in throwIf (ut_status dto \<noteq> ft_status t \<and> ut_status dto \<notin> set (ALLOWED_TRANSITIONS (ft_status t)))
                (BadRequest (''invalid ticket transition '' @ ticket_status_name (ft_status t) @ '' -> '' @ ticket_status_name (ut_status dto)))
             (throwIf (ut_status dto = BLOCKED \<and> fe_note event = []) (BadRequest ''a blocked ticket requires a reason'')
             (throwIf (release_required (ut_status dto) \<and> (ft_fixVersion moved = [] \<or> ft_verificationSteps moved = []))
                (BadRequest ''released and closed tickets require a version and verification steps'')
             (throwIf (\<not> event_fits event) value_too_long
             (Inr (moved, w\<lparr>w_tickets := update_where (\<lambda>t. ft_id t = i) (moved_ticket dto now) (w_tickets w),
                            w_ticketEvents := w_ticketEvents w @ [event]\<rparr>)))))))"

definition transition :: "string \<Rightarrow> UpdateFeedbackTicketDto \<Rightarrow> string \<Rightarrow> time \<Rightarrow> (('g, 'd, 'x) FeedbackWorld_scheme, FeedbackTicket) act" where
  "transition i dto actor now = txS (transition_tx i dto actor now)"

definition update_ticket :: "string \<Rightarrow> UpdateFeedbackTicketDto \<Rightarrow> AuthedUser \<Rightarrow> time \<Rightarrow> (('g, 'd, 'x) FeedbackWorld_scheme, FeedbackTicket) act" where
  "update_ticket i dto actor now = transition i dto (orStr (us_email actor) (us_id actor)) now"

definition holds_claim :: "(string \<Rightarrow> string) \<Rightarrow> string \<Rightarrow> time \<Rightarrow> FeedbackTicket \<Rightarrow> bool" where
  "holds_claim H token now t \<longleftrightarrow> ft_claimTokenHash t \<noteq> [] \<and> (case ft_claimExpiresAt t of None \<Rightarrow> False | Some e \<Rightarrow> now < e) \<and>
     hashMatches (H token) (ft_claimTokenHash t)"

definition updateClaimed ::
  "(string \<Rightarrow> string) \<Rightarrow> string \<Rightarrow> string \<Rightarrow> UpdateFeedbackTicketDto \<Rightarrow> time \<Rightarrow> time \<Rightarrow> (('g, 'd, 'x) FeedbackWorld_scheme, FeedbackTicket) act" where
  "updateClaimed H i claimToken dto now later =
     bindA (readS (\<lambda>w. find_ticket i (w_tickets w))) (\<lambda>row.
     case row of
       None \<Rightarrow> throwA (NotFound ''feedback ticket not found'')
     | Some ticket \<Rightarrow>
         thenA (throwUnless (holds_claim H claimToken now ticket) (Unauthorized ''feedback ticket claim is expired, invalid, or superseded''))
        (transition i dto (orStr (ft_claimOwner ticket) ''feedback-monitor'') later))"

end
