(* ===== verification/FeedbackWorkflow.thy ===== *)
theory FeedbackWorkflow
  imports Feedback
begin

section \<open>The ticket workflow (feedback-tickets/)\<close>

text \<open>
  What the ticket operations keep: the timeline of a ticket replays to its status along the allowed transitions, and its columns agree
  with the status. Then the intake: idempotent on the source, one claim at a time, and what it does with long summaries.
\<close>

text \<open>The status an event list leads to, if every event is an allowed step from the status before it.\<close>

definition event_allowed :: "FeedbackTicketStatus option \<Rightarrow> FeedbackTicketStatus option \<Rightarrow> bool" where
  "event_allowed old new = (case (old, new) of
      (None, Some b) \<Rightarrow> b = RECEIVED | (Some a, Some b) \<Rightarrow> a = b \<or> b \<in> set (ALLOWED_TRANSITIONS a) | _ \<Rightarrow> False)"

fun replay :: "FeedbackTicketStatus option \<Rightarrow> FeedbackTicketEvent list \<Rightarrow> FeedbackTicketStatus option option" where
  "replay cur [] = Some cur"
| "replay cur (e # es) = (if fe_fromStatus e = cur \<and> event_allowed cur (fe_toStatus e) then replay (fe_toStatus e) es else None)"

definition ticket_ok :: "FeedbackTicket \<Rightarrow> bool" where
  "ticket_ok t \<longleftrightarrow> (release_required (ft_status t) \<longrightarrow> ft_fixVersion t \<noteq> [] \<and> ft_verificationSteps t \<noteq> []) \<and>
     (ft_closedAt t \<noteq> None \<longleftrightarrow> ft_status t = CLOSED) \<and> (ft_status t \<noteq> RECEIVED \<longrightarrow> ft_acknowledgedAt t \<noteq> None) \<and>
     (started_status (ft_status t) \<longrightarrow> ft_startedAt t \<noteq> None) \<and>
     (terminal_status (ft_status t) \<longrightarrow> ft_claimExpiresAt t = None \<and> ft_claimTokenHash t = [])"

definition timeline_ok :: "FeedbackTicketEvent list \<Rightarrow> FeedbackTicket \<Rightarrow> bool" where
  "timeline_ok es t \<longleftrightarrow> replay None (events_of (ft_id t) es) = Some (Some (ft_status t))"

definition tickets_ok :: "FeedbackTicket list \<Rightarrow> FeedbackTicketEvent list \<Rightarrow> bool" where
  "tickets_ok ts es \<longleftrightarrow> distinct (map ft_id ts) \<and> distinct (map (\<lambda>t. (ft_source t, ft_sourceRef t)) ts) \<and>
     (\<forall>t \<in> set ts. ticket_ok t \<and> timeline_ok es t) \<and> (\<forall>e \<in> set es. fe_ticketId e \<in> ft_id ` set ts)"

abbreviation feedback_ok :: "('g, 'd, 'x) FeedbackWorld_scheme \<Rightarrow> bool" where
  "feedback_ok w \<equiv> tickets_ok (w_tickets w) (w_ticketEvents w)"

lemma replay_append: "replay cur (es @ fs) = (case replay cur es of None \<Rightarrow> None | Some c \<Rightarrow> replay c fs)"
  by (induction es arbitrary: cur) auto

lemma find_ticket_Some: "find_ticket i ts = Some t \<Longrightarrow> t \<in> set ts \<and> ft_id t = i"
  by (auto simp: find_ticket_def find_Some_iff)

lemma tickets_ok_update:
  assumes "tickets_ok ts es" "\<And>t. ft_id (f t) = ft_id t \<and> ft_source (f t) = ft_source t \<and> ft_sourceRef (f t) = ft_sourceRef t"
    "\<And>t. t \<in> set ts \<Longrightarrow> p t \<Longrightarrow> ticket_ok (f t)" "\<And>t. t \<in> set ts \<Longrightarrow> timeline_ok es' (if p t then f t else t)"
    "\<And>e. e \<in> set es' \<Longrightarrow> fe_ticketId e \<in> ft_id ` set ts"
  shows "tickets_ok (update_where p f ts) es'"
proof -
  have ids: "map ft_id (update_where p f ts) = map ft_id ts"
    "map (\<lambda>t. (ft_source t, ft_sourceRef t)) (update_where p f ts) = map (\<lambda>t. (ft_source t, ft_sourceRef t)) ts"
    using assms(2) by simp_all
  have "ft_id ` set (update_where p f ts) = ft_id ` set ts" using arg_cong [OF ids(1), of set] by simp
  then show ?thesis using assms unfolding tickets_ok_def ids by (auto simp: in_update_where)
qed

lemma tickets_ok_new:
  assumes "tickets_ok ts es" "ft_id t \<notin> ft_id ` set ts" "\<not> list_ex (same_source (ft_source t) (ft_sourceRef t)) ts"
    "ticket_ok t" "fe_ticketId e = ft_id t" "fe_fromStatus e = None" "fe_toStatus e = Some RECEIVED" "ft_status t = RECEIVED"
  shows "tickets_ok (ts @ [t]) (es @ [e])"
proof -
  have "events_of (ft_id t) es = []" unfolding events_of_def filter_empty_conv using assms(1,2) unfolding tickets_ok_def by metis
  moreover have "events_of (ft_id x) (es @ [e]) = events_of (ft_id x) es" if "x \<in> set ts" for x
    using assms(2,5) that by (auto simp: events_of_def)
  ultimately show ?thesis
    using assms by (auto simp: tickets_ok_def timeline_ok_def events_of_def event_allowed_def same_source_def list_ex_iff)
qed

lemma moved_fields [simp]:
  "ft_id (moved_ticket dto now t) = ft_id t" "ft_source (moved_ticket dto now t) = ft_source t" "ft_sourceRef (moved_ticket dto now t) = ft_sourceRef t"
  "ft_status (moved_ticket dto now t) = ut_status dto"
  by (simp_all add: moved_ticket_def Let_def)

lemma moved_ok:
  assumes "ticket_ok t" "release_required (ut_status dto) \<longrightarrow> ft_fixVersion (moved_ticket dto now t) \<noteq> [] \<and> ft_verificationSteps (moved_ticket dto now t) \<noteq> []"
  shows "ticket_ok (moved_ticket dto now t)"
  using assms by (auto simp: ticket_ok_def moved_ticket_def Let_def clears_claim_def terminal_status_def)

lemma transition_ok:
  assumes "feedback_ok w" "transition_tx i dto actor now w = Inr (t', w')"
  shows "feedback_ok w'"
proof -
  obtain t where t: "find_ticket i (w_tickets w) = Some t"
    using assms(2) by (auto simp: transition_tx_def split: option.splits)
  let ?es = "w_ticketEvents w @ [moved_event dto actor t]"
  have w': "w_tickets w' = update_where (\<lambda>t. ft_id t = i) (moved_ticket dto now) (w_tickets w)" "w_ticketEvents w' = ?es"
    and ok: "ut_status dto = ft_status t \<or> ut_status dto \<in> set (ALLOWED_TRANSITIONS (ft_status t))"
      "release_required (ut_status dto) \<longrightarrow> ft_fixVersion (moved_ticket dto now t) \<noteq> [] \<and> ft_verificationSteps (moved_ticket dto now t) \<noteq> []"
    using assms(2) by (auto simp: transition_tx_def t Let_def throwIf_def split: if_splits)
  have t': "t \<in> set (w_tickets w)" "ft_id t = i" using find_ticket_Some [OF t] by auto
  have unique: "x = t" if "x \<in> set (w_tickets w)" "ft_id x = i" for x
    using assms(1) that t' by (auto simp: tickets_ok_def distinct_map inj_on_def)
  show ?thesis unfolding w'
  proof (rule tickets_ok_update [OF assms(1)])
    show "ticket_ok (moved_ticket dto now x)" if "x \<in> set (w_tickets w)" "ft_id x = i" for x
      using unique [OF that] moved_ok [OF _ ok(2)] assms(1) t'(1) by (auto simp: tickets_ok_def)
    show "timeline_ok ?es (if ft_id x = i then moved_ticket dto now x else x)" if "x \<in> set (w_tickets w)" for x
    proof (cases "ft_id x = i")
      case True
      then have "replay None (events_of i (w_ticketEvents w)) = Some (Some (ft_status t))"
        using assms(1) that unique [OF that True] t' by (auto simp: tickets_ok_def timeline_ok_def)
      then show ?thesis using True ok(1) t'(2) by (auto simp: timeline_ok_def events_of_def replay_append moved_event_def event_allowed_def)
    next
      case False
      then show ?thesis using assms(1) that t'(2) by (auto simp: tickets_ok_def timeline_ok_def events_of_def moved_event_def)
    qed
  qed (use assms(1) t' in \<open>auto simp: tickets_ok_def moved_event_def\<close>)
qed

lemma ticket_claim_ok:
  assumes "tickets_ok ts es"
  shows "tickets_ok (claim_ticket i c h e now ts) es"
  unfolding claim_ticket_def
  by (rule tickets_ok_update [OF assms]) (use assms in \<open>auto simp: tickets_ok_def ticket_ok_def timeline_ok_def claim_open_def\<close>)

lemma scriptless_feedback [simp]: "scriptless (\<lambda>v. P (w_tickets v) (w_ticketEvents v))"
  by (rule scriptlessI) simp

lemma hoare_transition: "hoare feedback_ok (transition i dto actor now) (\<lambda>_. feedback_ok) (\<lambda>_. feedback_ok)"
  unfolding transition_def by (rule hoare_txS [OF scriptless_feedback]) (auto intro: transition_ok)

lemma hoare_updateClaimed: "hoare feedback_ok (updateClaimed H i token dto now later) (\<lambda>_. feedback_ok) (\<lambda>_. feedback_ok)"
  unfolding updateClaimed_def
  by (rule hoare_bindA [where R = "\<lambda>_. feedback_ok"], rule hoare_readS [OF scriptless_feedback])
    (auto split: option.splits intro!: hoare_throwA hoare_thenA [OF hoare_throwUnless] hoare_transition)

lemma new_ticket_ok: "ticket_ok (new_ticket newId n dto h c now)"
  by (simp add: ticket_ok_def new_ticket_def release_required_def started_status_def terminal_status_def)

lemma hoare_createTicketS:
  fixes w0 :: "('g, 'd, 'x) FeedbackWorld_scheme"
  assumes "newId \<notin> ft_id ` set (w_tickets w0)" "ticket = new_ticket newId n dto h c now" "feedback_ok w0"
  shows "hoare (\<lambda>v :: ('g, 'd, 'x) FeedbackWorld_scheme. w_tickets v = w_tickets w0 \<and> w_ticketEvents v = w_ticketEvents w0)
    (createTicketS ticket (created_event ticket)) (\<lambda>_. feedback_ok) (\<lambda>_. feedback_ok)"
  unfolding createTicketS_def
proof (rule hoare_txS)
  fix w w' :: "('g, 'd, 'x) FeedbackWorld_scheme" and x
  assume "w_tickets w = w_tickets w0 \<and> w_ticketEvents w = w_ticketEvents w0"
    "(if list_ex (same_source (ft_source ticket) (ft_sourceRef ticket)) (w_tickets w) then Inr (None, w)
      else if \<not> event_fits (created_event ticket) then Inl value_too_long
      else Inr (Some ticket, w\<lparr>w_tickets := w_tickets w @ [ticket], w_ticketEvents := w_ticketEvents w @ [created_event ticket]\<rparr>)) = Inr (x, w')"
  then show "feedback_ok w'"
    using assms tickets_ok_new [of "w_tickets w0" "w_ticketEvents w0" ticket "created_event ticket"] new_ticket_ok [of newId n dto h c now]
    by (auto simp: created_event_def new_ticket_def split: if_splits)
qed (use assms in \<open>auto intro!: scriptlessI\<close>)

lemma hoare_intake:
  fixes w0 :: "('g, 'd, 'x) FeedbackWorld_scheme"
  assumes "newId \<notin> ft_id ` set (w_tickets w0)" "feedback_ok w0"
  shows "hoare (\<lambda>v :: ('g, 'd, 'x) FeedbackWorld_scheme. w_tickets v = w_tickets w0 \<and> w_ticketEvents v = w_ticketEvents w0)
    (intake H newId n token now dto) (\<lambda>_. feedback_ok) (\<lambda>_. feedback_ok)"
proof -
  let ?Same = "\<lambda>v :: ('g, 'd, 'x) FeedbackWorld_scheme. w_tickets v = w_tickets w0 \<and> w_ticketEvents v = w_ticketEvents w0"
  have "hoare feedback_ok (claimTicketS i c h e now) (\<lambda>_. feedback_ok) (\<lambda>_. feedback_ok)" for i c h e
    unfolding claimTicketS_def by (rule hoare_stmt [OF scriptless_feedback]) (auto intro: ticket_claim_ok)
  note claim = hoare_bindA [OF this]
  have "hoare feedback_ok (readS f) (\<lambda>_. feedback_ok) (\<lambda>_. feedback_ok)" for f :: "('g, 'd, 'x) FeedbackWorld_scheme \<Rightarrow> FeedbackTicket option"
    by (rule hoare_readS [OF scriptless_feedback]) auto
  note read = hoare_bindA [OF this]
  have "hoare feedback_ok (reclaim H token now c t :: (('g, 'd, 'x) FeedbackWorld_scheme, IntakeResult) act) (\<lambda>_. feedback_ok) (\<lambda>_. feedback_ok)" for c t
    unfolding reclaim_def Let_def by (auto intro!: hoare_retA claim read)
  then show ?thesis unfolding intake_def Let_def
    by (intro hoare_thenA [where R = ?Same and m = "throwUnless _ _"] hoare_throwUnless hoare_bindA [OF hoare_createTicketS [OF assms(1) refl assms(2)]])
      (auto simp: assms intro!: read hoare_retA hoare_throwA split: option.splits)
qed

text \<open>Everything the service can do, in any order, with any failing statement; the rest of the world may change in between.\<close>

inductive feedback_reachable :: "(string \<Rightarrow> string) \<Rightarrow> ('g, 'd, 'x) FeedbackWorld_scheme \<Rightarrow> bool" for H where
  start: "w_tickets w = [] \<Longrightarrow> w_ticketEvents w = [] \<Longrightarrow> feedback_reachable H w"
| elsewhere: "feedback_reachable H w \<Longrightarrow> w_tickets w' = w_tickets w \<Longrightarrow> w_ticketEvents w' = w_ticketEvents w \<Longrightarrow> feedback_reachable H w'"
| took_in: "feedback_reachable H w \<Longrightarrow> newId \<notin> ft_id ` set (w_tickets w) \<Longrightarrow> feedback_reachable H (fst (intake H newId n token now dto w))"
| updated: "feedback_reachable H w \<Longrightarrow> feedback_reachable H (fst (update_ticket i dto' actor now w))"
| claimed: "feedback_reachable H w \<Longrightarrow> feedback_reachable H (fst (updateClaimed H i token dto' now later w))"

lemma hoare_fst: "hoare P m (\<lambda>_. Q) (\<lambda>_. Q) \<Longrightarrow> P w \<Longrightarrow> Q (fst (m w))"
  by (cases "m w"; cases "snd (m w)") (auto dest: hoareD_Inr hoareD_Inl)

lemma feedback_invariant: "feedback_reachable H w \<Longrightarrow> feedback_ok w"
proof (induction rule: feedback_reachable.induct)
  case (took_in w newId n token now dto)
  then show ?case using hoare_fst [OF hoare_intake [OF took_in(2,3)]] by blast
next
  case (updated w i dto actor now)
  then show ?case unfolding update_ticket_def by (rule_tac hoare_fst [OF hoare_transition])
next
  case (claimed w i token dto now later)
  then show ?case by (rule_tac hoare_fst [OF hoare_updateClaimed])
qed (simp_all add: tickets_ok_def)


subsection \<open>Intake\<close>

text \<open>What an intake does to the tickets, as a function of the tickets alone.\<close>

definition intake_outcome ::
  "(string \<Rightarrow> string) \<Rightarrow> string \<Rightarrow> nat \<Rightarrow> string \<Rightarrow> time \<Rightarrow> IntakeFeedbackTicketDto \<Rightarrow> FeedbackTicket list \<Rightarrow> IntakeResult \<Rightarrow> FeedbackTicket list \<Rightarrow> bool" where
  "intake_outcome H newId n token now dto ts res ts' \<longleftrightarrow>
     (let consumer = sanitizeControlText (it_consumerId dto) 160
      in case find (same_source (it_source dto) (sanitizeControlText (it_sourceRef dto) 200)) ts of
           None \<Rightarrow> ir_created res \<and> ir_claimToken res = Some token \<and> ts' = ts @ [new_ticket newId n dto (H token) consumer now]
         | Some old \<Rightarrow> \<not> ir_created res \<and> ft_id (ir_ticket res) = ft_id old \<and>
             (ir_claimToken res = (if claim_open consumer now old then Some token else None)) \<and>
             ts' = (if claim_open consumer now old then claim_ticket (ft_id old) consumer (H token) (now + CLAIM_LEASE_MS) now ts else ts))"

lemma count_unique:
  assumes "distinct (map ft_id ts)" "t \<in> set ts"
  shows "count_where (\<lambda>x. ft_id x = ft_id t \<and> claim_open c now x) ts = (if claim_open c now t then 1 else 0)"
proof -
  have "filter (\<lambda>x. ft_id x = ft_id t \<and> claim_open c now x) ts = (if claim_open c now t then [t] else [])"
    using assms by (induction ts) (auto simp: filter_empty_conv image_iff)
  then show ?thesis by (simp add: count_where_def)
qed

lemma claim_ticket_closed:
  assumes "distinct (map ft_id ts)" "t \<in> set ts" "\<not> claim_open c now t"
  shows "claim_ticket (ft_id t) c h e now ts = ts"
  unfolding claim_ticket_def using assms by (intro update_where_none) (auto simp: distinct_map inj_on_def)

lemma hoare_reclaim:
  fixes ts :: "FeedbackTicket list"
  assumes "distinct (map ft_id ts)" "old \<in> set ts"
  shows "hoare (\<lambda>v. w_tickets v = ts) (reclaim H token now c old)
    (\<lambda>res v. \<not> ir_created res \<and> ft_id (ir_ticket res) = ft_id old \<and> ir_claimToken res = (if claim_open c now old then Some token else None) \<and>
       w_tickets v = (if claim_open c now old then claim_ticket (ft_id old) c (H token) (now + CLAIM_LEASE_MS) now ts else ts)) (\<lambda>_ _. True)"
proof (cases "terminal_status (ft_status old)")
  case True
  then show ?thesis by (auto simp: reclaim_def claim_open_def intro!: hoare_retA)
next
  case False
  let ?ts' = "claim_ticket (ft_id old) c (H token) (now + CLAIM_LEASE_MS) now ts"
  have id: "ft_id (nullish (find_ticket (ft_id old) x) old) = ft_id old" for x
    using find_ticket_Some by (cases "find_ticket (ft_id old) x") auto
  have claim: "hoare (\<lambda>v. w_tickets v = ts) (claimTicketS (ft_id old) c (H token) (now + CLAIM_LEASE_MS) now)
      (\<lambda>k v. w_tickets v = ?ts' \<and> k = (if claim_open c now old then 1 else 0)) (\<lambda>_ _. True)"
    unfolding claimTicketS_def using count_unique [OF assms] by (intro hoare_stmt) (auto intro!: scriptlessI)
  have read: "hoare (\<lambda>v. w_tickets v = ?ts') (readS (\<lambda>w. find_ticket (ft_id old) (w_tickets w)))
      (\<lambda>row v. ft_id (nullish row old) = ft_id old \<and> w_tickets v = ?ts') (\<lambda>_ _. True)"
    by (rule hoare_readS) (auto intro!: scriptlessI simp: id)
  show ?thesis unfolding reclaim_def Let_def if_not_P [OF False]
    using claim_ticket_closed [OF assms]
    by (intro hoare_bindA [OF claim] hoare_fact, cases "claim_open c now old") (auto intro!: hoare_bindA [OF read] hoare_retA)
qed

lemma hoare_intake_outcome:
  fixes w0 :: "('g, 'd, 'x) FeedbackWorld_scheme"
  assumes "feedback_ok w0"
  shows "hoare (\<lambda>v :: ('g, 'd, 'x) FeedbackWorld_scheme. w_tickets v = w_tickets w0)
    (intake H newId n token now dto) (\<lambda>res v. intake_outcome H newId n token now dto (w_tickets w0) res (w_tickets v)) (\<lambda>_ _. True)"
proof -
  let ?ts = "w_tickets w0" and ?c = "sanitizeControlText (it_consumerId dto) 160" and ?ref = "sanitizeControlText (it_sourceRef dto) 200"
  let ?Same = "\<lambda>v :: ('g, 'd, 'x) FeedbackWorld_scheme. w_tickets v = ?ts"
  let ?new = "new_ticket newId n dto (H token) ?c now" and ?found = "find (same_source (it_source dto) ?ref) ?ts"
  let ?Q = "\<lambda>res v. intake_outcome H newId n token now dto ?ts res (w_tickets v)"
  have src: "ft_source ?new = it_source dto" "ft_sourceRef ?new = ?ref" by (simp_all add: new_ticket_def)
  have create: "hoare ?Same (createTicketS ?new (created_event ?new))
      (\<lambda>created v. (case created of Some t \<Rightarrow> ?found = None \<and> w_tickets v = ?ts @ [?new] | None \<Rightarrow> ?Same v)) (\<lambda>_ _. True)"
    unfolding createTicketS_def src
    by (rule hoare_txS) (auto intro!: scriptlessI simp: find_None_iff list_ex_iff split: if_splits)
  have read: "hoare ?Same (readS (\<lambda>w. find (same_source (it_source dto) ?ref) (w_tickets w))) (\<lambda>x v. ?Same v \<and> ?found = x) (\<lambda>_ _. True)"
    by (rule hoare_readS) (auto intro!: scriptlessI)
  have again: "hoare ?Same (reclaim H token now ?c old) ?Q (\<lambda>_ _. True)" if "?found = Some old" for old
  proof (rule hoare_weaken [OF hoare_reclaim])
    show "distinct (map ft_id ?ts)" using assms by (simp add: tickets_ok_def)
    show "old \<in> set ?ts" using that by (auto simp: find_Some_iff)
  qed (auto simp: intake_outcome_def Let_def that)
  have late: "hoare ?Same (bindA (readS (\<lambda>w. find (same_source (it_source dto) ?ref) (w_tickets w)))
      (\<lambda>found. case found of None \<Rightarrow> throwA (PlainError ''Unique constraint failed'') | Some existing \<Rightarrow> reclaim H token now ?c existing)) ?Q (\<lambda>_ _. True)"
    by (rule hoare_bindA [OF read], rule hoare_fact) (auto intro!: hoare_throwA again split: option.splits)
  have "hoare (\<lambda>v. case created of Some t \<Rightarrow> ?found = None \<and> w_tickets v = ?ts @ [?new] | None \<Rightarrow> ?Same v)
      (case created of
         Some t \<Rightarrow> retA \<lparr>ir_ticket = t, ir_created = True, ir_claimGranted = True, ir_claimToken = Some token\<rparr>
       | None \<Rightarrow> bindA (readS (\<lambda>w. find (same_source (it_source dto) ?ref) (w_tickets w)))
           (\<lambda>found. case found of None \<Rightarrow> throwA (PlainError ''Unique constraint failed'') | Some existing \<Rightarrow> reclaim H token now ?c existing)) ?Q (\<lambda>_ _. True)" for created
    using late by (cases created) (auto intro!: hoare_retA simp: intake_outcome_def)
  then show ?thesis unfolding intake_def Let_def
    by (intro hoare_thenA [where R = ?Same and m = "throwUnless _ _"] hoare_throwUnless hoare_bindA [OF create]) auto
qed

text \<open>
  Intake is idempotent and hands out one claim at a time: the first report of a source creates its ticket with the claim; every later one
  finds the same ticket and receives a token exactly when the ticket is not finished and nobody else holds an unexpired claim, and then
  only the claim columns of that ticket change.
\<close>

theorem intake_is_idempotent:
  assumes "feedback_reachable H w" "intake H newId n token now dto w = (w', Inr res)"
  shows "intake_outcome H newId n token now dto (w_tickets w) res (w_tickets w')"
  using hoareD_Inr [OF hoare_intake_outcome [OF feedback_invariant [OF assms(1)]] refl assms(2)] .

subsection \<open>Long summaries\<close>

text \<open>Text of letters, digits and dots passes the filter unchanged.\<close>

lemma sanitize_plain:
  assumes "list_all token_char s"
  shows "sanitizeControlText s limit = take limit s"
proof -
  have t: "\<forall>c \<in> set s. \<not> is_ws c \<and> \<not> unsafe_control c \<and> c \<notin> set '':=?&/-_'' \<and> c \<noteq> CHR 0x5C"
    using assms token_char_not by (auto simp: list_all_iff)
  have none: "replace_all r f s = s" if "needs q r" "\<And>c. q c \<Longrightarrow> is_ws c \<or> unsafe_control c \<or> c \<in> set '':=?&/-_'' \<or> c = CHR 0x5C" for q r f
    by (rule replace_all_none [OF that(1)]) (use t that(2) in blast)
  have stages: "replace_all CONTROL_CHARACTERS (\<lambda>_. '' '') s = s" "replace_all CREDENTIAL_ASSIGNMENT (\<lambda>_. ''credential=***'') s = s"
    "replace_all BEARER_CREDENTIAL (\<lambda>_. ''Bearer ***'') s = s" "replace_all COMMON_SECRET (\<lambda>_. ''<secret>'') s = s"
    "replace_all WINDOWS_HOME_PATH (\<lambda>_. ''<local-path>'') s = s" "replace_all POSIX_HOME_PATH (\<lambda>_. ''<local-path>'') s = s"
    "replace_all URL_SECRET url_masked s = s" "replace_all SPACES (\<lambda>_. '' '') s = s"
    by (rule none [of unsafe_control], simp_all add: CONTROL_CHARACTERS_def)
      (rule none [of "any_of '':=''"], simp add: CREDENTIAL_ASSIGNMENT_def, force simp: any_of_def,
       rule none [of is_ws], simp add: BEARER_CREDENTIAL_def, simp,
       rule none [of "any_of ''-_''"], simp add: COMMON_SECRET_def, force simp: any_of_def,
       rule none [of "\<lambda>c. c = CHR 0x5C"], simp add: WINDOWS_HOME_PATH_def, simp,
       rule none [of "\<lambda>c. c = CHR ''/''"], simp add: POSIX_HOME_PATH_def, simp,
       rule none [of "any_of ''?&''"], simp add: URL_SECRET_def, force simp: any_of_def,
       rule none [of is_ws], simp add: SPACES_def, simp)
  have "trim s = s"
  proof -
    have "dropWhile is_ws u = u" if "set u \<subseteq> set s" for u using that t by (cases u) auto
    then show ?thesis by (simp add: trim_def)
  qed
  then show ?thesis by (simp add: sanitizeControlText_def stages)
qed

lemma hoare_throws: "hoare P m (\<lambda>_ _. False) (\<lambda>_. Q) \<Longrightarrow> P w \<Longrightarrow> isl (snd (m w)) \<and> Q (fst (m w))"
  by (cases "m w"; cases "snd (m w)") (auto dest: hoareD_Inr hoareD_Inl)

text \<open>
  A first report whose summary is longer than an event note can never be taken in: the ticket column holds 2,000 characters, but the summary
  is also the note of the first event, whose column holds 1,200; the insert fails, nothing is stored, and retrying cannot help.
\<close>

theorem long_summary_is_never_stored:
  assumes "1200 < length (sanitizeControlText (nullish (it_summary dto) []) 2000)"
    "find (same_source (it_source dto) (sanitizeControlText (it_sourceRef dto) 200)) (w_tickets w) = None"
  shows "isl (snd (intake H newId n token now dto w)) \<and> w_tickets (fst (intake H newId n token now dto w)) = w_tickets w \<and>
    w_ticketEvents (fst (intake H newId n token now dto w)) = w_ticketEvents w"
proof -
  let ?c = "sanitizeControlText (it_consumerId dto) 160" and ?ref = "sanitizeControlText (it_sourceRef dto) 200"
  let ?new = "new_ticket newId n dto (H token) ?c now"
  let ?Same = "\<lambda>v. w_tickets v = w_tickets w \<and> w_ticketEvents v = w_ticketEvents w"
  have "\<not> event_fits (created_event ?new)" "\<not> list_ex (same_source (ft_source ?new) (ft_sourceRef ?new)) (w_tickets w)"
    using assms by (auto simp: event_fits_def created_event_def new_ticket_def find_None_iff list_ex_iff)
  then have create: "hoare ?Same (createTicketS ?new (created_event ?new)) (\<lambda>_ _. False) (\<lambda>_. ?Same)"
    unfolding createTicketS_def by (intro hoare_txS) (auto intro!: scriptlessI)
  have "hoare ?Same (intake H newId n token now dto) (\<lambda>_ _. False) (\<lambda>_. ?Same)"
    unfolding intake_def Let_def
    by (intro hoare_thenA [where R = ?Same and m = "throwUnless _ _"] hoare_throwUnless hoare_bindA [OF create]) (auto simp: hoare_def)
  then show ?thesis using hoare_throws [of ?Same] by blast
qed

subsection \<open>Samples\<close>

definition feedback_world :: "(MockState, unit) FeedbackWorld" where
  "feedback_world =
     \<lparr>w_orgs = [], w_persons = [], w_codes = [], w_devices = [], w_tokens = [], w_bindings = [], w_secrets = Map.empty, w_audits = [],
      w_script = [], w_gateway = \<lparr>mk_spend = Map.empty, mk_models = Map.empty, mk_random = 0\<rparr>, w_desk = (), w_tickets = [], w_ticketEvents = []\<rparr>"

definition sample_intake :: "string \<Rightarrow> IntakeFeedbackTicketDto" where
  "sample_intake summary =
     \<lparr>it_source = FEISHU, it_sourceRef = ''m1'', it_sourceChatRef = None, it_kind = BUG, it_priority = None, it_title = ''t'',
      it_summary = Some summary, it_reporterRef = None, it_consumerId = ''bot''\<rparr>"

lemma sample_chars: "list_all token_char ''m1''" "list_all token_char ''bot''" "list_all token_char ''t''" "list_all token_char []"
  "list_all token_char (replicate n CHR ''a'')"
  by (simp_all add: token_char_def alnum_def is_digit_def is_lower_az_def is_upper_az_def list_all_iff)

lemmas sample_sanitized = sample_chars [THEN sanitize_plain]

lemma sample_taken_in:
  "intake id ''t1'' 1 ''tok'' 5 (sample_intake ''t'') feedback_world =
     (feedback_world\<lparr>w_tickets := [new_ticket ''t1'' 1 (sample_intake ''t'') ''tok'' ''bot'' 5],
        w_ticketEvents := [created_event (new_ticket ''t1'' 1 (sample_intake ''t'') ''tok'' ''bot'' 5)]\<rparr>,
      Inr \<lparr>ir_ticket = new_ticket ''t1'' 1 (sample_intake ''t'') ''tok'' ''bot'' 5, ir_created = True, ir_claimGranted = True, ir_claimToken = Some ''tok''\<rparr>)"
  by (simp add: intake_def sample_intake_def feedback_world_def createTicketS_def txS_def stmt_def thenA_def bindA_def throwUnless_def retA_def liftR_def
      sample_sanitized created_event_def new_ticket_def event_fits_def Let_def)


theorem intake_is_idempotent_witness:
  "intake_outcome id ''t1'' 1 ''tok'' 5 (sample_intake ''t'') []
     \<lparr>ir_ticket = new_ticket ''t1'' 1 (sample_intake ''t'') ''tok'' ''bot'' 5, ir_created = True, ir_claimGranted = True, ir_claimToken = Some ''tok''\<rparr>
     [new_ticket ''t1'' 1 (sample_intake ''t'') ''tok'' ''bot'' 5]"
proof -
  have "feedback_reachable id feedback_world" by (rule feedback_reachable.start) (simp_all add: feedback_world_def)
  from intake_is_idempotent [OF this sample_taken_in] show ?thesis by (simp add: feedback_world_def)
qed

theorem long_summary_is_never_stored_witness:
  "isl (snd (intake id ''t1'' 1 ''tok'' 5 (sample_intake (replicate 1201 CHR ''a'')) feedback_world))"
proof -
  have "1200 < length (sanitizeControlText (nullish (it_summary (sample_intake (replicate 1201 CHR ''a''))) []) 2000)"
    by (simp only: sample_intake_def sample_sanitized IntakeFeedbackTicketDto.simps nullish_simps length_take length_replicate)
  moreover have "find (same_source (it_source d) r) (w_tickets feedback_world) = None" for d r by (simp add: feedback_world_def)
  ultimately show ?thesis using long_summary_is_never_stored by blast
qed

end
