(* ===== verification/Learnings.thy ===== *)
theory Learnings
  imports Redact License Auth
begin

section \<open>Organisation learnings (learnings/learnings.service.ts)\<close>

text \<open>
  Devices submit what they learned with evidence, administrators review it, and every device of the organisation fetches the
  approved learnings. The clock readings, the new identifiers and the digest are arguments.
\<close>

datatype LearningKind = BUSINESS_RULE | USER_PREFERENCE | WORKFLOW | CORRECTION | FAILURE_PATTERN | ACTION_OWNERSHIP
datatype LearningStatus = L_PENDING | L_APPROVED | L_REJECTED | L_REVOKED

definition kind_rank :: "LearningKind \<Rightarrow> int" where
  "kind_rank k = (case k of BUSINESS_RULE \<Rightarrow> 0 | USER_PREFERENCE \<Rightarrow> 1 | WORKFLOW \<Rightarrow> 2 | CORRECTION \<Rightarrow> 3 | FAILURE_PATTERN \<Rightarrow> 4 | ACTION_OWNERSHIP \<Rightarrow> 5)"

definition KIND_TO_WIRE :: "LearningKind \<Rightarrow> string" where
  "KIND_TO_WIRE k =
     (case k of BUSINESS_RULE \<Rightarrow> ''business_rule'' | USER_PREFERENCE \<Rightarrow> ''user_preference'' | WORKFLOW \<Rightarrow> ''workflow'' | CORRECTION \<Rightarrow> ''correction''
      | FAILURE_PATTERN \<Rightarrow> ''failure_pattern'' | ACTION_OWNERSHIP \<Rightarrow> ''action_ownership'')"

definition status_name :: "LearningStatus \<Rightarrow> string" where
  "status_name s = (case s of L_PENDING \<Rightarrow> ''PENDING'' | L_APPROVED \<Rightarrow> ''APPROVED'' | L_REJECTED \<Rightarrow> ''REJECTED'' | L_REVOKED \<Rightarrow> ''REVOKED'')"

record LearningCandidate =
  lc_id :: string
  lc_orgId :: string
  lc_patternKey :: string
  lc_kind :: LearningKind
  lc_summary :: string
  lc_rationale :: "string option"
  lc_pendingSummary :: "string option"
  lc_pendingRationale :: "string option"
  lc_pendingAt :: "time option"
  lc_status :: LearningStatus
  lc_occurrenceCount :: nat
  lc_distinctTaskCount :: nat
  lc_revision :: int
  lc_sourceVersion :: string
  lc_reviewedAt :: "time option"
  lc_reviewedBy :: "string option"
  lc_reviewNote :: "string option"
  lc_createdAt :: time
  lc_updatedAt :: time

record LearningObservation =
  lo_id :: string
  lo_candidateId :: string
  lo_orgId :: string
  lo_deviceId :: string
  lo_clientId :: string
  lo_taskHash :: string
  lo_fingerprint :: string
  lo_summary :: string
  lo_source :: string
  lo_sourceVersion :: string
  lo_observedAt :: time

record ('g, 'd) LearningWorld = "('g, 'd) World" +
  w_candidates :: "LearningCandidate list"
  w_observations :: "LearningObservation list"
  w_learningVersion :: "string \<Rightarrow> int"

record LearningObservationDto =
  od_task_hash :: string
  od_fingerprint :: string
  od_summary :: string
  od_source :: string
  od_source_version :: string
  od_observed_at :: time

record SubmitLearningCandidateDto =
  sl_client_id :: string
  sl_pattern_key :: string
  sl_kind :: LearningKind
  sl_summary :: string
  sl_rationale :: "string option"
  sl_source_version :: string
  sl_evidence :: "LearningObservationDto list"

datatype LearningDecision = Approve | Reject | Revoke

record ReviewLearningCandidateDto =
  rl_decision :: LearningDecision
  rl_expected_revision :: int
  rl_note :: "string option"

definition MAX_OBSERVATIONS_PER_CANDIDATE :: nat where "MAX_OBSERVATIONS_PER_CANDIDATE = 5000"
definition RECURRENCE_WINDOW_MS :: int where "RECURRENCE_WINDOW_MS = 30 * 24 * 60 * 60 * 1000"
definition FUTURE_CLOCK_SKEW_MS :: int where "FUTURE_CLOCK_SKEW_MS = 5 * 60 * 1000"

subsection \<open>Text\<close>

definition UNSAFE_TEXT :: "(re \<times> string) list" where
  "UNSAFE_TEXT =
     [(seqs [Bnd, Lit ''sk-'', Reps 8 (alnum_or ''_-''), Bnd], ''API credential''),
      (seqs [Bnd, alts [LitI ''Bearer'', LitI ''Basic''], Reps 1 is_ws, Reps 12 (alnum_or ''._~+/=-'')], ''authorization credential''),
      (PRIVATE_KEY ''BEGIN'', ''private key''),
      (seqs [alts [seqs [LitI ''api'', Opt (One (any_of ''_ -'')), LitI ''key''], LitI ''token'', LitI ''password'', LitI ''secret''],
             Reps 0 is_ws, One (any_of '':=''), Reps 0 is_ws, Opt (One (any_of quotes)),
             NotAhead (alts [Lit ''***'', LitI ''<redacted>'']), Reps 8 (alnum_or ''._~+/=-'')], ''inline credential''),
      (seqs [Lit ''/Users/'', Reps 1 (free_of ''/'')], ''local user path''),
      (seqs [Lit ''/home/'', Reps 1 (free_of ''/'')], ''local user path''),
      (seqs [Bnd, One (\<lambda>c. is_lower_az c \<or> is_upper_az c), Lit ([CHR '':'', CHR 0x5C] @ ''Users'' @ [CHR 0x5C]), Reps 1 (free_of [CHR 0x5C])], ''local user path''),
      (seqs [Reps 1 (alnum_or ''._%+-''), Lit ''@'', Reps 1 (alnum_or ''.-''), Lit ''.'', Reps 2 (\<lambda>c. is_lower_az c \<or> is_upper_az c)], ''personal contact data''),
      (seqs [LitI ''ignore '', Opt (alts [LitI ''all '', LitI ''your '']), alts [LitI ''previous'', LitI ''prior'', LitI ''above''], LitI '' '',
             alts [LitI ''instructions'', seqs [LitI ''prompt'', Opt (LitI ''s'')]]], ''prompt injection''),
      (seqs [LitI ''disregard '', Opt (alts [LitI ''your '', LitI ''the '']), alts (map LitI [''system prompt'', ''instructions'', ''rules'', ''guidelines''])], ''prompt injection''),
      (seqs [Bnd, LitI ''file://'', Opt (Lit ''/''), Reps 1 (\<lambda>c. \<not> is_ws c)], ''local file URL''),
      (One unsafe_control, ''control character'')]"

definition NEWLINE :: re where
  "NEWLINE = seqs [Lit [CHR 0x0D], Opt (Lit [CHR 0x0A])]"

definition safeText :: "string option \<Rightarrow> string \<Rightarrow> string option res" where
  "safeText value label =
     (case value of
        None \<Rightarrow> Inr None
      | Some v \<Rightarrow>
          (let normalized = trim (replace_all NEWLINE (\<lambda>_. [CHR 0x0A]) v)
           in if normalized = [] then Inr None
              else case find (\<lambda>(pattern, finding). test pattern normalized) UNSAFE_TEXT of
                     Some (_, finding) \<Rightarrow> Inl (BadRequest (label @ '' contains '' @ finding @ ''; redact it before submission''))
                   | None \<Rightarrow> Inr (Some normalized)))"

definition requiredSafeText :: "string \<Rightarrow> string \<Rightarrow> string res" where
  "requiredSafeText value label =
     bindR (safeText (Some value) label) (\<lambda>safe. case safe of None \<Rightarrow> Inl (BadRequest (label @ '' is required'')) | Some s \<Rightarrow> Inr s)"

subsection \<open>Views\<close>

record PublicCandidate =
  pc_id :: string
  pc_pattern_key :: string
  pc_kind :: string
  pc_summary :: string
  pc_rationale :: "string option"
  pc_pending_summary :: "string option"
  pc_pending_rationale :: "string option"
  pc_status :: string
  pc_occurrence_count :: nat
  pc_distinct_task_count :: nat
  pc_promotion_ready :: bool
  pc_revision :: int
  pc_source_version :: string
  pc_reviewed_at :: "string option"
  pc_reviewed_by :: "string option"
  pc_review_note :: "string option"
  pc_created_at :: string
  pc_updated_at :: string

definition publicCandidate :: "LearningCandidate \<Rightarrow> PublicCandidate" where
  "publicCandidate c =
     \<lparr>pc_id = lc_id c, pc_pattern_key = lc_patternKey c, pc_kind = KIND_TO_WIRE (lc_kind c), pc_summary = lc_summary c, pc_rationale = lc_rationale c,
      pc_pending_summary = lc_pendingSummary c, pc_pending_rationale = lc_pendingRationale c, pc_status = toLowerCase (status_name (lc_status c)),
      pc_occurrence_count = lc_occurrenceCount c, pc_distinct_task_count = lc_distinctTaskCount c,
      pc_promotion_ready = (3 \<le> lc_occurrenceCount c \<and> 2 \<le> lc_distinctTaskCount c), pc_revision = lc_revision c, pc_source_version = lc_sourceVersion c,
      pc_reviewed_at = map_option toISOString (lc_reviewedAt c), pc_reviewed_by = lc_reviewedBy c, pc_review_note = lc_reviewNote c,
      pc_created_at = toISOString (lc_createdAt c), pc_updated_at = toISOString (lc_updatedAt c)\<rparr>"

subsection \<open>Submission\<close>

definition deviceIdentity :: "('g, 'd) Sys \<Rightarrow> time \<Rightarrow> string option \<Rightarrow> (('g, 'd, 'x) LearningWorld_scheme, string \<times> string) act" where
  "deviceIdentity sy now bearer =
     (let b = nullish bearer []
      in thenA (throwUnless (b \<noteq> []) (Unauthorized ''missing token''))
        (bindA (readS (\<lambda>w. let dt = find_token (sy_sha256 sy b) (w_tokens w)
                           in (dt, case dt of None \<Rightarrow> None | Some t \<Rightarrow> find_device (dt_deviceId t) (w_devices w)))) (\<lambda>(dt, device).
         thenA (liftR (assertTokenUsable now (sy_env sy) None (map_option validatable dt)))
        (case device of
           None \<Rightarrow> throwA (Unauthorized ''device identity is unavailable'')
         | Some d \<Rightarrow> retA (dv_id d, dv_orgId d)))))"

text \<open>A serializable transaction is repeated twice when the database reports a write conflict (code P2034).\<close>

definition write_conflict :: http_error where
  "write_conflict = PlainError ''P2034''"

definition serializable ::
  "(('g, 'd, 'x) LearningWorld_scheme \<Rightarrow> ('a \<times> ('g, 'd, 'x) LearningWorld_scheme) res) \<Rightarrow> (('g, 'd, 'x) LearningWorld_scheme, 'a) act" where
  "serializable operation =
     (let retry = (\<lambda>next e. if e \<noteq> write_conflict then throwA e else next)
      in catchA (txS operation) (retry (catchA (txS operation) (retry (txS operation)))))"

definition same_pattern :: "string \<Rightarrow> string \<Rightarrow> LearningKind \<Rightarrow> LearningCandidate \<Rightarrow> bool" where
  "same_pattern orgId key kind c \<longleftrightarrow> lc_orgId c = orgId \<and> lc_patternKey c = key \<and> lc_kind c = kind"

definition new_candidate :: "string \<Rightarrow> string \<Rightarrow> SubmitLearningCandidateDto \<Rightarrow> string \<Rightarrow> string option \<Rightarrow> time \<Rightarrow> LearningCandidate" where
  "new_candidate newId orgId input summary rationale now =
     \<lparr>lc_id = newId, lc_orgId = orgId, lc_patternKey = sl_pattern_key input, lc_kind = sl_kind input, lc_summary = summary, lc_rationale = rationale,
      lc_pendingSummary = None, lc_pendingRationale = None, lc_pendingAt = None, lc_status = L_PENDING, lc_occurrenceCount = 0, lc_distinctTaskCount = 0,
      lc_revision = 1, lc_sourceVersion = sl_source_version input, lc_reviewedAt = None, lc_reviewedBy = None, lc_reviewNote = None,
      lc_createdAt = now, lc_updatedAt = now\<rparr>"

definition upsert_candidate :: "(LearningCandidate \<Rightarrow> bool) \<Rightarrow> LearningCandidate \<Rightarrow> LearningCandidate list \<Rightarrow> LearningCandidate list" where
  "upsert_candidate key row cs = (if list_ex key cs then cs else cs @ [row])"

definition proposed :: "string \<Rightarrow> string option \<Rightarrow> string \<Rightarrow> time \<Rightarrow> LearningCandidate \<Rightarrow> LearningCandidate" where
  "proposed summary rationale sourceVersion now c =
     (if lc_summary c = summary \<and> lc_rationale c = rationale then c
      else if lc_status c = L_PENDING then c\<lparr>lc_summary := summary, lc_rationale := rationale, lc_sourceVersion := sourceVersion, lc_updatedAt := now\<rparr>
      else c\<lparr>lc_pendingSummary := Some summary, lc_pendingRationale := rationale, lc_pendingAt := Some now, lc_sourceVersion := sourceVersion, lc_updatedAt := now\<rparr>)"

definition same_receipt :: "LearningObservation \<Rightarrow> LearningObservation \<Rightarrow> bool" where
  "same_receipt a b \<longleftrightarrow> lo_deviceId a = lo_deviceId b \<and> lo_clientId a = lo_clientId b \<and> lo_fingerprint a = lo_fingerprint b"

text \<open>\<^verbatim>\<open>createMany\<close> with \<^verbatim>\<open>skipDuplicates\<close>\<close>

fun insert_observations :: "LearningObservation list \<Rightarrow> LearningObservation list \<Rightarrow> LearningObservation list" where
  "insert_observations rows [] = rows"
| "insert_observations rows (x # xs) = insert_observations (if list_ex (same_receipt x) rows then rows else rows @ [x]) xs"

definition observation ::
  "string \<Rightarrow> string \<times> string \<Rightarrow> string \<Rightarrow> (nat \<Rightarrow> string) \<Rightarrow> nat \<Rightarrow> LearningObservationDto \<Rightarrow> LearningObservation" where
  "observation candidateId who clientId ids k item =
     \<lparr>lo_id = ids k, lo_candidateId = candidateId, lo_orgId = snd who, lo_deviceId = fst who, lo_clientId = clientId, lo_taskHash = od_task_hash item,
      lo_fingerprint = od_fingerprint item, lo_summary = od_summary item, lo_source = od_source item, lo_sourceVersion = od_source_version item,
      lo_observedAt = od_observed_at item\<rparr>"

definition recent_evidence :: "string \<Rightarrow> time \<Rightarrow> LearningObservation list \<Rightarrow> LearningObservation list" where
  "recent_evidence candidateId since rows = filter (\<lambda>x. lo_candidateId x = candidateId \<and> since \<le> lo_observedAt x) rows"

definition counted :: "LearningObservation list \<Rightarrow> string \<Rightarrow> time \<Rightarrow> LearningCandidate \<Rightarrow> LearningCandidate" where
  "counted recent sourceVersion now c =
     c\<lparr>lc_occurrenceCount := length recent, lc_distinctTaskCount := length (nub (map lo_taskHash recent)), lc_sourceVersion := sourceVersion, lc_updatedAt := now\<rparr>"

definition submit_tx ::
  "string \<Rightarrow> (nat \<Rightarrow> string) \<Rightarrow> string \<times> string \<Rightarrow> SubmitLearningCandidateDto \<Rightarrow> string \<Rightarrow> string option \<Rightarrow> LearningObservationDto list \<Rightarrow> time \<Rightarrow>
   ('g, 'd, 'x) LearningWorld_scheme \<Rightarrow> (LearningCandidate \<times> ('g, 'd, 'x) LearningWorld_scheme) res" where
  "submit_tx newId ids who input summary rationale observations now w =
     (let key = same_pattern (snd who) (sl_pattern_key input) (sl_kind input);
          upserted = upsert_candidate key (new_candidate newId (snd who) input summary rationale now) (w_candidates w)
      in case find key upserted of
           None \<Rightarrow> Inl (PlainError ''upsert returned no row'')
         | Some c \<Rightarrow>
             (let existingCount = count_where (\<lambda>x. lo_candidateId x = lc_id c) (w_observations w);
                  batch = map (\<lambda>(k, item). observation (lc_id c) who (sl_client_id input) ids k item)
                            (enumerate 0 (take (MAX_OBSERVATIONS_PER_CANDIDATE - existingCount) observations));
                  rows = insert_observations (w_observations w) batch;
                  finish = (\<lambda>c. counted (recent_evidence (lc_id c) (now - RECURRENCE_WINDOW_MS) rows) (sl_source_version input) now
                                  (proposed summary rationale (sl_source_version input) now c))
              in throwIf (MAX_OBSERVATIONS_PER_CANDIDATE \<le> existingCount) (BadRequest ''learning candidate reached its bounded evidence capacity'')
                (Inr (finish c, w\<lparr>w_candidates := update_where (\<lambda>x. lc_id x = lc_id c) finish upserted, w_observations := rows\<rparr>))))"

definition submit_learning ::
  "('g, 'd) Sys \<Rightarrow> LicenseService \<Rightarrow> string \<Rightarrow> string \<Rightarrow> (nat \<Rightarrow> string) \<Rightarrow> time \<Rightarrow> string option \<Rightarrow> SubmitLearningCandidateDto \<Rightarrow>
   (('g, 'd, 'x) LearningWorld_scheme, PublicCandidate) act" where
  "submit_learning sy ls auId newId ids now bearer input =
     bindA (deviceIdentity sy now bearer) (\<lambda>who.
     thenA (liftR (entitlement_assert ls (num (now div 1000)) ''agent-org''))
    (bindA (liftR (requiredSafeText (sl_summary input) ''summary'')) (\<lambda>summary.
     bindA (liftR (safeText (sl_rationale input) ''rationale'')) (\<lambda>rationale.
     bindA (liftR (mapR (\<lambda>item. bindR (requiredSafeText (od_summary item) ''evidence summary'') (\<lambda>s. Inr (item\<lparr>od_summary := s\<rparr>))) (sl_evidence input))) (\<lambda>observations.
     thenA (throwUnless (\<not> list_ex (\<lambda>item. now + FUTURE_CLOCK_SKEW_MS < od_observed_at item) observations) (BadRequest ''evidence timestamp is too far in the future''))
    (bindA (serializable (submit_tx newId ids who input summary rationale observations now)) (\<lambda>candidate.
     thenA (auditLogA (sy_sha256 sy) auId now (snd who) ''learning.candidate.submit'' ''device'' (fst who)
        (JObj [(''candidateId'', JStr (lc_id candidate)), (''occurrenceCount'', JNum (num (int (lc_occurrenceCount candidate)))),
               (''distinctTaskCount'', JNum (num (int (lc_distinctTaskCount candidate)))),
               (''hasPendingUpdate'', JBool (nullish (lc_pendingSummary candidate) [] \<noteq> []))]))
     (retA (publicCandidate candidate)))))))))"

subsection \<open>Review and distribution\<close>

record LearningLine =
  ll_id :: string
  ll_pattern_key :: string
  ll_kind :: string
  ll_summary :: string
  ll_rationale :: "string option"
  ll_occurrence_count :: nat
  ll_distinct_task_count :: nat
  ll_revision :: int
  ll_updated_at :: string

definition learning_line :: "LearningCandidate \<Rightarrow> LearningLine" where
  "learning_line c =
     \<lparr>ll_id = lc_id c, ll_pattern_key = lc_patternKey c, ll_kind = KIND_TO_WIRE (lc_kind c), ll_summary = lc_summary c, ll_rationale = lc_rationale c,
      ll_occurrence_count = lc_occurrenceCount c, ll_distinct_task_count = lc_distinctTaskCount c, ll_revision = lc_revision c,
      ll_updated_at = toISOString (lc_updatedAt c)\<rparr>"

definition approved :: "string \<Rightarrow> LearningCandidate list \<Rightarrow> LearningCandidate list" where
  "approved orgId cs = filter (\<lambda>c. lc_orgId c = orgId \<and> lc_status c = L_APPROVED) cs"

definition learning_bundle ::
  "('g, 'd) Sys \<Rightarrow> (string \<Rightarrow> 'k::linorder) \<Rightarrow> LicenseService \<Rightarrow> time \<Rightarrow> string option \<Rightarrow> (('g, 'd, 'x) LearningWorld_scheme, int \<times> LearningLine list) act" where
  "learning_bundle sy collate ls now bearer =
     bindA (deviceIdentity sy now bearer) (\<lambda>who.
     thenA (liftR (entitlement_assert ls (num (now div 1000)) ''agent-org''))
    (bindA (readS (\<lambda>w. (list_ex (\<lambda>r. org_id r = snd who) (w_orgs w), w_learningVersion w (snd who),
        sort_key (\<lambda>c. kind_rank (lc_kind c)) (sort_key (\<lambda>c. collate (lc_patternKey c)) (approved (snd who) (w_candidates w)))))) (\<lambda>(known, version, candidates).
     thenA (throwUnless known (NotFound ''organization not found'')) (retA (version, map learning_line candidates)))))"

definition parseLearningStatus :: "string \<Rightarrow> LearningStatus option" where
  "parseLearningStatus s = find (\<lambda>x. status_name x = s) [L_PENDING, L_APPROVED, L_REJECTED, L_REVOKED]"

definition upper_char :: "char \<Rightarrow> char" where
  "upper_char c = (if is_lower_az c then char_of (code c - 32) else c)"

definition status_rank :: "LearningStatus \<Rightarrow> int" where
  "status_rank s = (case s of L_PENDING \<Rightarrow> 0 | L_APPROVED \<Rightarrow> 1 | L_REJECTED \<Rightarrow> 2 | L_REVOKED \<Rightarrow> 3)"

record ObservationLine =
  ol_id :: string
  ol_summary :: string
  ol_source :: string
  ol_source_version :: string
  ol_observed_at :: string

definition observation_line :: "LearningObservation \<Rightarrow> ObservationLine" where
  "observation_line x =
     \<lparr>ol_id = lo_id x, ol_summary = lo_summary x, ol_source = lo_source x, ol_source_version = lo_sourceVersion x, ol_observed_at = toISOString (lo_observedAt x)\<rparr>"

definition list_learnings ::
  "LicenseService \<Rightarrow> time \<Rightarrow> string \<Rightarrow> string option \<Rightarrow> (('g, 'd, 'x) LearningWorld_scheme, (PublicCandidate \<times> ObservationLine list) list) act" where
  "list_learnings ls now orgId status =
     (let s = map upper_char (nullish status [])
      in thenA (liftR (entitlement_assert ls (num (now div 1000)) ''agent-org''))
        (thenA (throwUnless (s = [] \<or> parseLearningStatus s \<noteq> None) (BadRequest ''invalid learning status''))
        (readS (\<lambda>w. map (\<lambda>c. (publicCandidate c, map observation_line (take 8 (sort_key (\<lambda>x. - lo_observedAt x) (filter (\<lambda>x. lo_candidateId x = lc_id c) (w_observations w))))))
           (take 1000 (sort_key (\<lambda>c. status_rank (lc_status c)) (sort_key (\<lambda>c. - lc_updatedAt c)
              (filter (\<lambda>c. lc_orgId c = orgId \<and> (s = [] \<or> parseLearningStatus s = Some (lc_status c))) (w_candidates w)))))))))"

definition find_candidate :: "string \<Rightarrow> LearningCandidate list \<Rightarrow> LearningCandidate option" where
  "find_candidate i cs = find (\<lambda>c. lc_id c = i) cs"

definition cleared :: "LearningCandidate \<Rightarrow> LearningCandidate" where
  "cleared c = c\<lparr>lc_pendingSummary := None, lc_pendingRationale := None, lc_pendingAt := None\<rparr>"

text \<open>The text an approval makes active. An empty pending summary would not count for the rationale, as in the source.\<close>

definition reviewed_text :: "LearningCandidate \<Rightarrow> string \<times> string option" where
  "reviewed_text c = (nullish (lc_pendingSummary c) (lc_summary c), if nullish (lc_pendingSummary c) [] \<noteq> [] then lc_pendingRationale c else lc_rationale c)"

text \<open>The decision: whether the active bundle changes, and the new row.\<close>

definition decide :: "LearningDecision \<Rightarrow> LearningCandidate \<Rightarrow> (bool \<times> LearningCandidate) res" where
  "decide decision c =
     (case decision of
        Approve \<Rightarrow>
          (case reviewed_text c of (summary, rationale) \<Rightarrow>
             Inr (lc_status c \<noteq> L_APPROVED \<or> summary \<noteq> lc_summary c \<or> rationale \<noteq> lc_rationale c,
                  (cleared c)\<lparr>lc_status := L_APPROVED, lc_summary := summary, lc_rationale := rationale\<rparr>))
      | Reject \<Rightarrow>
          (if lc_status c = L_APPROVED
           then throwIf (nullish (lc_pendingSummary c) [] = []) (BadRequest ''approved learning has no pending update to reject; revoke it instead'') (Inr (False, cleared c))
           else Inr (False, (cleared c)\<lparr>lc_status := L_REJECTED\<rparr>))
      | Revoke \<Rightarrow>
          throwIf (lc_status c \<noteq> L_APPROVED) (BadRequest ''only approved learning can be revoked'') (Inr (True, (cleared c)\<lparr>lc_status := L_REVOKED\<rparr>)))"

definition stamped :: "ReviewLearningCandidateDto \<Rightarrow> string \<Rightarrow> time \<Rightarrow> LearningCandidate \<Rightarrow> LearningCandidate" where
  "stamped input email now row =
     row\<lparr>lc_revision := lc_revision row + 1, lc_reviewedAt := Some now, lc_reviewedBy := Some email,
         lc_reviewNote := (let note = trim (nullish (rl_note input) []) in if note = [] then None else Some note), lc_updatedAt := now\<rparr>"

definition review_tx ::
  "string \<Rightarrow> ReviewLearningCandidateDto \<Rightarrow> string \<Rightarrow> time \<Rightarrow> ('g, 'd, 'x) LearningWorld_scheme \<Rightarrow>
   ((LearningCandidate \<times> string \<times> int \<times> bool) \<times> ('g, 'd, 'x) LearningWorld_scheme) res" where
  "review_tx i input email now w =
     (case find_candidate i (w_candidates w) of
        None \<Rightarrow> Inl (NotFound ''learning candidate not found'')
      | Some current \<Rightarrow>
          throwIf (lc_revision current \<noteq> rl_expected_revision input)
            (Conflict (''learning candidate changed (current revision '' @ show_int (lc_revision current) @ '')''))
         (bindR (decide (rl_decision input) current) (\<lambda>(activeChanged, row).
          let updated = stamped input email now row;
              orgId = lc_orgId current;
              version = w_learningVersion w orgId + (if activeChanged then 1 else 0)
          in throwIf (activeChanged \<and> \<not> list_ex (\<lambda>r. org_id r = orgId) (w_orgs w)) (PlainError ''Record to update not found.'')
            (Inr ((updated, orgId, version, activeChanged),
               w\<lparr>w_candidates := update_where (\<lambda>x. lc_id x = i) (\<lambda>_. updated) (w_candidates w), w_learningVersion := (w_learningVersion w)(orgId := version)\<rparr>)))))"

definition decision_name :: "LearningDecision \<Rightarrow> string" where
  "decision_name d = (case d of Approve \<Rightarrow> ''approve'' | Reject \<Rightarrow> ''reject'' | Revoke \<Rightarrow> ''revoke'')"

definition review_learning ::
  "('g, 'd) Sys \<Rightarrow> LicenseService \<Rightarrow> string \<Rightarrow> time \<Rightarrow> string \<Rightarrow> ReviewLearningCandidateDto \<Rightarrow> AuthedUser \<Rightarrow>
   (('g, 'd, 'x) LearningWorld_scheme, PublicCandidate \<times> int) act" where
  "review_learning sy ls auId now i input actor =
     thenA (liftR (entitlement_assert ls (num (now div 1000)) ''agent-org''))
    (bindA (serializable (review_tx i input (us_email actor) now)) (\<lambda>(updated, orgId, version, activeChanged).
     thenA (auditLogA (sy_sha256 sy) auId now orgId (''learning.candidate.'' @ decision_name (rl_decision input)) ''admin'' (us_id actor)
        (JObj [(''candidateId'', JStr (lc_id updated)), (''revision'', JNum (num (lc_revision updated))), (''activeChanged'', JBool activeChanged),
               (''learningVersion'', JNum (num version))]))
     (retA (publicCandidate updated, version))))"

definition candidateOrgId :: "LicenseService \<Rightarrow> time \<Rightarrow> string \<Rightarrow> (('g, 'd, 'x) LearningWorld_scheme, string) act" where
  "candidateOrgId ls now i =
     thenA (liftR (entitlement_assert ls (num (now div 1000)) ''agent-org''))
    (bindA (readS (\<lambda>w. find_candidate i (w_candidates w))) (\<lambda>c. case c of None \<Rightarrow> throwA (NotFound ''learning candidate not found'') | Some c \<Rightarrow> retA (lc_orgId c)))"

text \<open>The administrator's endpoint (learnings.controller.ts).\<close>

definition review_endpoint ::
  "('g, 'd) Sys \<Rightarrow> LicenseService \<Rightarrow> string \<Rightarrow> time \<Rightarrow> string \<Rightarrow> ReviewLearningCandidateDto \<Rightarrow> AuthedUser \<Rightarrow>
   (('g, 'd, 'x) LearningWorld_scheme, PublicCandidate \<times> int) act" where
  "review_endpoint sy ls auId now i input user =
     bindA (candidateOrgId ls now i) (\<lambda>orgId.
     thenA (liftR (assertAdminOrgAccess user orgId)) (review_learning sy ls auId now i input user))"

end
