(* ===== verification/LearningReview.thy ===== *)
theory LearningReview
  imports Learnings
begin

section \<open>What devices are told to have learned (learnings/)\<close>

text \<open>
  The active learnings of an organisation are what its devices act on; the version is how they notice a change. The properties: the active
  learnings change only together with the version, and what the revision check of a review does not protect.
\<close>

definition learning_text :: "LearningCandidate \<Rightarrow> string \<times> string \<times> LearningKind \<times> string \<times> string option" where
  "learning_text c = (lc_id c, lc_patternKey c, lc_kind c, lc_summary c, lc_rationale c)"

definition active :: "string \<Rightarrow> ('g, 'd, 'x) LearningWorld_scheme \<Rightarrow> (string \<times> string \<times> LearningKind \<times> string \<times> string option) list" where
  "active orgId w = map learning_text (approved orgId (w_candidates w))"

text \<open>The committed transactions of the service, with fresh identifiers for new candidates; other tables may change in between.\<close>

inductive learning_step :: "('g, 'd, 'x) LearningWorld_scheme \<Rightarrow> ('g, 'd, 'x) LearningWorld_scheme \<Rightarrow> bool" where
  submitted: "newId \<notin> lc_id ` set (w_candidates w) \<Longrightarrow> submit_tx newId ids who input summary rationale observations now w = Inr (c, w') \<Longrightarrow> learning_step w w'"
| reviewed: "review_tx i dto email now w = Inr (x, w') \<Longrightarrow> learning_step w w'"
| other: "w_candidates w' = w_candidates w \<Longrightarrow> w_learningVersion w' = w_learningVersion w \<Longrightarrow> learning_step w w'"

definition candidates_wf :: "LearningCandidate list \<Rightarrow> bool" where
  "candidates_wf cs \<longleftrightarrow> distinct (map lc_id cs)"

lemma map_filter_kept:
  assumes "\<And>x. x \<in> set xs \<Longrightarrow> p x \<Longrightarrow> q (f x) = q x" "\<And>x. x \<in> set xs \<Longrightarrow> p x \<Longrightarrow> q x \<Longrightarrow> g (f x) = g x"
  shows "map g (filter q (update_where p f xs)) = map g (filter q xs)"
  using assms by (induction xs) (auto simp: update_where_def)

lemma proposed_fields [simp]:
  "lc_id (proposed s r v now c) = lc_id c" "lc_orgId (proposed s r v now c) = lc_orgId c" "lc_status (proposed s r v now c) = lc_status c"
  "lc_patternKey (proposed s r v now c) = lc_patternKey c" "lc_kind (proposed s r v now c) = lc_kind c" "lc_revision (proposed s r v now c) = lc_revision c"
  by (simp_all add: proposed_def)

lemma proposed_active: "lc_status c = L_APPROVED \<Longrightarrow> learning_text (proposed s r v now c) = learning_text c"
  by (simp add: proposed_def learning_text_def)

lemma counted_fields [simp]:
  "lc_id (counted r v now c) = lc_id c" "lc_orgId (counted r v now c) = lc_orgId c" "lc_status (counted r v now c) = lc_status c"
  "lc_summary (counted r v now c) = lc_summary c" "lc_revision (counted r v now c) = lc_revision c" "lc_pendingSummary (counted r v now c) = lc_pendingSummary c"
  "lc_rationale (counted r v now c) = lc_rationale c" "learning_text (counted r v now c) = learning_text c"
  by (simp_all add: counted_def learning_text_def)

definition finished :: "LearningObservation list \<Rightarrow> SubmitLearningCandidateDto \<Rightarrow> string \<Rightarrow> string option \<Rightarrow> time \<Rightarrow> LearningCandidate \<Rightarrow> LearningCandidate" where
  "finished rows input summary rationale now c =
     counted (recent_evidence (lc_id c) (now - RECURRENCE_WINDOW_MS) rows) (sl_source_version input) now
       (proposed summary rationale (sl_source_version input) now c)"

lemma finished_fields [simp]:
  "lc_id (finished rows input s r now c) = lc_id c" "lc_orgId (finished rows input s r now c) = lc_orgId c"
  "lc_status (finished rows input s r now c) = lc_status c" "lc_revision (finished rows input s r now c) = lc_revision c"
  by (simp_all add: finished_def)

lemma finished_active: "lc_status c = L_APPROVED \<Longrightarrow> learning_text (finished rows input s r now c) = learning_text c"
  by (simp add: finished_def proposed_active)

lemma submit_frame:
  assumes "submit_tx newId ids who input summary rationale observations now w = Inr (c', w')"
  shows "\<exists>c rows. let key = same_pattern (snd who) (sl_pattern_key input) (sl_kind input);
                      cs = upsert_candidate key (new_candidate newId (snd who) input summary rationale now) (w_candidates w)
           in find key cs = Some c \<and> c' = finished rows input summary rationale now c \<and>
              w_candidates w' = update_where (\<lambda>x. lc_id x = lc_id c) (finished rows input summary rationale now) cs \<and>
              w_learningVersion w' = w_learningVersion w \<and> w_orgs w' = w_orgs w"
  using assms by (auto simp: submit_tx_def Let_def throwIf_def finished_def [abs_def] split: option.splits if_splits)

lemma upsert_active: "map learning_text (approved orgId (upsert_candidate key (new_candidate i o' input s r now) cs)) = map learning_text (approved orgId cs)"
  by (simp add: upsert_candidate_def approved_def new_candidate_def)

lemma upsert_wf: "candidates_wf cs \<Longrightarrow> i \<notin> lc_id ` set cs \<Longrightarrow> candidates_wf (upsert_candidate key (new_candidate i o' input s r now) cs)"
  by (simp add: upsert_candidate_def candidates_wf_def new_candidate_def)

lemma submit_keeps:
  assumes "submit_tx newId ids who input summary rationale observations now w = Inr (c', w')"
  shows "active orgId w' = active orgId w \<and> w_learningVersion w' = w_learningVersion w \<and>
         (newId \<notin> lc_id ` set (w_candidates w) \<longrightarrow> candidates_wf (w_candidates w) \<longrightarrow> candidates_wf (w_candidates w'))"
proof -
  define cs where "cs = upsert_candidate (same_pattern (snd who) (sl_pattern_key input) (sl_kind input)) (new_candidate newId (snd who) input summary rationale now) (w_candidates w)"
  obtain c :: LearningCandidate and rows where f: "w_candidates w' = update_where (\<lambda>x. lc_id x = lc_id c) (finished rows input summary rationale now) cs"
    "w_learningVersion w' = w_learningVersion w"
    using submit_frame [OF assms] unfolding Let_def cs_def by blast
  have "active orgId w' = map learning_text (approved orgId cs)"
    unfolding active_def approved_def f(1) by (rule map_filter_kept) (auto simp: finished_active)
  then show ?thesis using f upsert_wf by (auto simp: cs_def upsert_active active_def candidates_wf_def)
qed

lemma decide_active:
  assumes "decide d c = Inr (changed, row)"
  shows "lc_id row = lc_id c \<and> lc_orgId row = lc_orgId c \<and>
         (\<not> changed \<longrightarrow> (lc_status row = L_APPROVED \<longleftrightarrow> lc_status c = L_APPROVED) \<and> (lc_status c = L_APPROVED \<longrightarrow> learning_text row = learning_text c))"
  using assms by (auto simp: decide_def cleared_def throwIf_def learning_text_def split: LearningDecision.splits if_splits prod.splits)

lemma find_candidate_in: "find_candidate i cs = Some c \<Longrightarrow> c \<in> set cs \<and> lc_id c = i"
  by (auto simp: find_candidate_def find_Some_iff)

lemma candidates_wf_unique: "candidates_wf cs \<Longrightarrow> x \<in> set cs \<Longrightarrow> y \<in> set cs \<Longrightarrow> lc_id x = lc_id y \<Longrightarrow> x = y"
  by (auto simp: candidates_wf_def distinct_map dest: inj_onD)

lemma stamped_fields [simp]:
  "lc_id (stamped input email now row) = lc_id row" "lc_orgId (stamped input email now row) = lc_orgId row"
  "lc_status (stamped input email now row) = lc_status row" "learning_text (stamped input email now row) = learning_text row"
  by (simp_all add: stamped_def learning_text_def)

lemma review_frame:
  assumes "review_tx i input email now w = Inr (x, w')"
  shows "\<exists>c row changed. find_candidate i (w_candidates w) = Some c \<and> decide (rl_decision input) c = Inr (changed, row) \<and>
     w_candidates w' = update_where (\<lambda>y. lc_id y = i) (\<lambda>_. stamped input email now row) (w_candidates w) \<and>
     w_learningVersion w' = (w_learningVersion w)(lc_orgId c := w_learningVersion w (lc_orgId c) + (if changed then 1 else 0))"
proof (cases "find_candidate i (w_candidates w)")
  case None then show ?thesis using assms by (simp add: review_tx_def)
next
  case (Some c)
  show ?thesis
  proof (cases "decide (rl_decision input) c")
    case (Inl e) then show ?thesis using assms Some by (simp add: review_tx_def throwIf_def split: if_splits)
  next
    case (Inr p)
    then show ?thesis using assms Some by (cases p) (auto simp: review_tx_def throwIf_def Let_def split: if_splits)
  qed
qed

lemma review_keeps:
  assumes "review_tx i input email now w = Inr (x, w')" and wf: "candidates_wf (w_candidates w)"
  shows "(active orgId w' = active orgId w \<and> w_learningVersion w' orgId = w_learningVersion w orgId \<or> w_learningVersion w' orgId = w_learningVersion w orgId + 1) \<and>
         candidates_wf (w_candidates w')"
proof -
  obtain c row changed where f: "find_candidate i (w_candidates w) = Some c" "decide (rl_decision input) c = Inr (changed, row)"
    "w_candidates w' = update_where (\<lambda>y. lc_id y = i) (\<lambda>_. stamped input email now row) (w_candidates w)"
    "w_learningVersion w' = (w_learningVersion w)(lc_orgId c := w_learningVersion w (lc_orgId c) + (if changed then 1 else 0))"
    using review_frame [OF assms(1)] by blast
  note d = decide_active [OF f(2)] and c = find_candidate_in [OF f(1)]
  have only: "y = c" if "y \<in> set (w_candidates w)" "lc_id y = i" for y
    using candidates_wf_unique [OF wf] c that by metis
  have same: "active orgId w' = active orgId w" if "\<not> (changed \<and> orgId = lc_orgId c)"
    unfolding active_def approved_def f(3)
  proof (rule map_filter_kept, goal_cases)
    case (1 y) then show ?case using only [of y] d that by auto
  next
    case (2 y) then show ?case using only [of y] d that by (auto simp: learning_text_def [of c])
  qed
  have "map lc_id (w_candidates w') = map lc_id (w_candidates w)"
    unfolding f(3) using only c d by (auto simp: update_where_def)
  then show ?thesis using same wf f(4) by (auto simp: candidates_wf_def)
qed

lemma step_active:
  assumes "learning_step w w'" "candidates_wf (w_candidates w)"
  shows "(active orgId w' = active orgId w \<and> w_learningVersion w' orgId = w_learningVersion w orgId \<or> w_learningVersion w orgId < w_learningVersion w' orgId) \<and>
         candidates_wf (w_candidates w')"
  using assms
proof (cases rule: learning_step.cases)
  case submitted then show ?thesis using submit_keeps [of _ _ _ _ _ _ _ _ w _ w' orgId] assms(2) by metis
next
  case reviewed then show ?thesis using review_keeps [of _ _ _ _ w _ w' orgId] assms(2) by fastforce
next
  case other then show ?thesis using assms(2) by (simp add: active_def)
qed

text \<open>
  Property C36. An organisation's version tells its devices whether the learnings changed: as submissions and reviews commit in any order, the
  version never decreases, and while it is the same the active learnings, with the texts the devices act on, are the same.
\<close>

theorem bundle_changes_with_version:
  assumes "learning_step\<^sup>*\<^sup>* w w'" "candidates_wf (w_candidates w)"
  shows "w_learningVersion w orgId \<le> w_learningVersion w' orgId \<and>
         (w_learningVersion w' orgId = w_learningVersion w orgId \<longrightarrow> active orgId w' = active orgId w)"
proof -
  have "(active orgId w' = active orgId w \<and> w_learningVersion w' orgId = w_learningVersion w orgId \<or> w_learningVersion w orgId < w_learningVersion w' orgId) \<and>
        candidates_wf (w_candidates w')"
    using assms by (induction rule: rtranclp_induct) (fastforce dest: step_active [where orgId = orgId])+
  then show ?thesis by auto
qed

lemma find_updated:
  assumes "find p xs = Some x" "\<And>y. lc_id (f y) = lc_id y" "candidates_wf xs"
  shows "find_candidate (lc_id x) (update_where (\<lambda>y. lc_id y = lc_id x) f xs) = Some (f x)"
  using assms by (induction xs) (auto simp: find_candidate_def update_where_def candidates_wf_def find_Some_iff split: if_splits)

definition sample_candidate :: LearningCandidate where
  "sample_candidate =
     \<lparr>lc_id = ''l'', lc_orgId = ''c'', lc_patternKey = ''k'', lc_kind = WORKFLOW, lc_summary = ''read'', lc_rationale = None, lc_pendingSummary = None,
      lc_pendingRationale = None, lc_pendingAt = None, lc_status = L_PENDING, lc_occurrenceCount = 0, lc_distinctTaskCount = 0, lc_revision = 1,
      lc_sourceVersion = ''1'', lc_reviewedAt = None, lc_reviewedBy = None, lc_reviewNote = None, lc_createdAt = 0, lc_updatedAt = 0\<rparr>"

definition sample_learnings :: "LearningCandidate \<Rightarrow> (MockState, unit) LearningWorld" where
  "sample_learnings c =
     \<lparr>w_orgs = [\<lparr>org_id = ''c'', org_name = ''C'', org_type = COMPANY, org_parentId = None\<rparr>], w_persons = [], w_codes = [],
      w_devices = [], w_tokens = [], w_bindings = [], w_secrets = Map.empty, w_audits = [], w_script = [],
      w_gateway = \<lparr>mk_spend = Map.empty, mk_models = Map.empty, mk_random = 0\<rparr>, w_desk = (),
      w_candidates = [c], w_observations = [], w_learningVersion = (\<lambda>_. 0)\<rparr>"

definition sample_evidence :: LearningObservationDto where
  "sample_evidence = \<lparr>od_task_hash = ''t'', od_fingerprint = ''f'', od_summary = ''e'', od_source = ''user'', od_source_version = ''1'', od_observed_at = 5\<rparr>"

definition sample_submission :: SubmitLearningCandidateDto where
  "sample_submission =
     \<lparr>sl_client_id = ''m'', sl_pattern_key = ''k'', sl_kind = WORKFLOW, sl_summary = ''new'', sl_rationale = None, sl_source_version = ''2'', sl_evidence = [sample_evidence]\<rparr>"

lemma sample_submit:
  assumes "lc_id c = ''l''" "same_pattern ''c'' ''k'' WORKFLOW c"
  shows "\<exists>c' w'. submit_tx ''n'' (\<lambda>_. ''o1'') (''d'', ''c'') sample_submission ''new'' None [sample_evidence] 6 (sample_learnings c) = Inr (c', w') \<and> w_learningVersion w' ''c'' = 0"
  using assms by (simp add: submit_tx_def sample_learnings_def sample_submission_def upsert_candidate_def count_where_def MAX_OBSERVATIONS_PER_CANDIDATE_def throwIf_def Let_def)

text \<open>A device proposes another text for an approved learning: the version and the active text stay, the proposal waits for a review.\<close>

theorem bundle_changes_with_version_witness:
  "\<exists>c' w'. submit_tx ''n'' (\<lambda>_. ''o1'') (''d'', ''c'') sample_submission ''new'' None [sample_evidence] 6
      (sample_learnings (sample_candidate\<lparr>lc_status := L_APPROVED\<rparr>)) = Inr (c', w') \<and>
      w_learningVersion w' ''c'' = 0 \<and> active ''c'' w' = [(''l'', ''k'', WORKFLOW, ''read'', None)]"
proof -
  let ?w = "sample_learnings (sample_candidate\<lparr>lc_status := L_APPROVED\<rparr>)"
  obtain c' w' where s: "submit_tx ''n'' (\<lambda>_. ''o1'') (''d'', ''c'') sample_submission ''new'' None [sample_evidence] 6 ?w = Inr (c', w')" "w_learningVersion w' ''c'' = 0"
    using sample_submit [of "sample_candidate\<lparr>lc_status := L_APPROVED\<rparr>"] by (auto simp: sample_candidate_def same_pattern_def)
  have "learning_step ?w w'" by (rule learning_step.submitted [OF _ s(1)]) (simp add: sample_learnings_def sample_candidate_def)
  then have "active ''c'' w' = active ''c'' ?w"
    using bundle_changes_with_version [of ?w w' "''c''"] s(2) by (simp add: sample_learnings_def candidates_wf_def r_into_rtranclp)
  then show ?thesis using s by (auto simp: active_def approved_def learning_text_def sample_learnings_def sample_candidate_def)
qed

text \<open>
  The revision a reviewer names does not pin the text: only reviews advance it. When a device submits another summary for a pending
  candidate after the reviewer read it, an approval with the revision the reviewer saw is accepted and makes the new summary, which nobody
  reviewed, an active learning of the organisation.
\<close>

theorem approval_accepts_unseen_text:
  assumes "submit_tx newId ids who input summary rationale observations now w = Inr (c', w')" "candidates_wf (w_candidates w)"
    and found: "find (same_pattern (snd who) (sl_pattern_key input) (sl_kind input)) (w_candidates w) = Some c"
    and pending: "lc_status c = L_PENDING" "lc_pendingSummary c = None" and org: "list_ex (\<lambda>r. org_id r = lc_orgId c) (w_orgs w)"
  shows "\<exists>x w''. review_tx (lc_id c) \<lparr>rl_decision = Approve, rl_expected_revision = lc_revision c, rl_note = note\<rparr> email later w' = Inr (x, w'') \<and>
           (lc_id c, lc_patternKey c, lc_kind c, summary, rationale) \<in> set (active (lc_orgId c) w'')"
proof -
  have cs: "upsert_candidate (same_pattern (snd who) (sl_pattern_key input) (sl_kind input)) row (w_candidates w) = w_candidates w" for row
    using found find_None_iff [of "same_pattern (snd who) (sl_pattern_key input) (sl_kind input)" "w_candidates w"] by (auto simp: upsert_candidate_def list_ex_iff)
  obtain rows where f: "w_candidates w' = update_where (\<lambda>x. lc_id x = lc_id c) (finished rows input summary rationale now) (w_candidates w)" "w_orgs w' = w_orgs w"
    using submit_frame [OF assms(1)] found unfolding Let_def cs by auto
  define c1 where "c1 = finished rows input summary rationale now c"
  have c1: "lc_id c1 = lc_id c" "lc_orgId c1 = lc_orgId c" "lc_status c1 = L_PENDING" "lc_revision c1 = lc_revision c"
    "learning_text c1 = (lc_id c, lc_patternKey c, lc_kind c, summary, rationale)" "lc_pendingSummary c1 = None"
    using pending by (auto simp: c1_def finished_def proposed_def counted_def learning_text_def)
  have f1: "find_candidate (lc_id c) (w_candidates w') = Some c1"
    unfolding f(1) c1_def by (rule find_updated [OF found _ assms(2)]) simp
  define row where "row = (cleared c1)\<lparr>lc_status := L_APPROVED, lc_summary := lc_summary c1, lc_rationale := lc_rationale c1\<rparr>"
  have d: "decide Approve c1 = Inr (True, row)" using c1 by (simp add: decide_def reviewed_text_def row_def)
  have row: "learning_text row = learning_text c1" "lc_orgId row = lc_orgId c" "lc_status row = L_APPROVED"
    using c1 by (simp_all add: row_def cleared_def learning_text_def)
  define input' where "input' = \<lparr>rl_decision = Approve, rl_expected_revision = lc_revision c, rl_note = note\<rparr>"
  have "\<exists>x w''. review_tx (lc_id c) input' email later w' = Inr (x, w'') \<and>
          w_candidates w'' = update_where (\<lambda>x. lc_id x = lc_id c) (\<lambda>_. stamped input' email later row) (w_candidates w')"
    using f1 d org c1(2,4) f(2) by (simp add: review_tx_def throwIf_def Let_def input'_def) blast
  then obtain x w'' where rv: "review_tx (lc_id c) input' email later w' = Inr (x, w'')"
    "w_candidates w'' = update_where (\<lambda>x. lc_id x = lc_id c) (\<lambda>_. stamped input' email later row) (w_candidates w')" by blast
  have "stamped input' email later row \<in> set (approved (lc_orgId c) (w_candidates w''))"
    using find_candidate_in [OF f1] row(2,3) by (auto simp: rv(2) approved_def in_update_where)
  then have "learning_text row \<in> set (active (lc_orgId c) w'')"
    unfolding active_def by (metis image_eqI list.set_map stamped_fields(4))
  then show ?thesis using rv(1) unfolding row(1) c1(5) input'_def by blast
qed

theorem approval_accepts_unseen_text_witness:
  "\<exists>c' w' x w''. submit_tx ''n'' (\<lambda>_. ''o1'') (''d'', ''c'') sample_submission ''new'' None [sample_evidence] 6 (sample_learnings sample_candidate) = Inr (c', w') \<and>
     lc_summary sample_candidate = ''read'' \<and>
     review_tx ''l'' \<lparr>rl_decision = Approve, rl_expected_revision = 1, rl_note = None\<rparr> ''admin@c'' 7 w' = Inr (x, w'') \<and>
     (''l'', ''k'', WORKFLOW, ''new'', None) \<in> set (active ''c'' w'')"
proof -
  obtain c' w' where s: "submit_tx ''n'' (\<lambda>_. ''o1'') (''d'', ''c'') sample_submission ''new'' None [sample_evidence] 6 (sample_learnings sample_candidate) = Inr (c', w')"
    using sample_submit [of sample_candidate] by (auto simp: sample_candidate_def same_pattern_def)
  have "\<exists>x w''. review_tx (lc_id sample_candidate) \<lparr>rl_decision = Approve, rl_expected_revision = lc_revision sample_candidate, rl_note = None\<rparr> ''admin@c'' 7 w' = Inr (x, w'') \<and>
     (lc_id sample_candidate, lc_patternKey sample_candidate, lc_kind sample_candidate, ''new'', None) \<in> set (active (lc_orgId sample_candidate) w'')"
    by (rule approval_accepts_unseen_text [OF s])
      (simp_all add: sample_learnings_def sample_candidate_def candidates_wf_def sample_submission_def same_pattern_def)
  then show ?thesis using s by (simp add: sample_candidate_def)
qed

end
