(* ===== verification/SkillCapabilities.thy ===== *)
theory SkillCapabilities
  imports Redact JsNumber
begin

section \<open>Capabilities of skills (assets/skill-capabilities.ts)\<close>

text \<open>
  A skill declares the capabilities it needs, a reviewer grants some of them, and an execution host asks for what it is about to use.
  The three checks, and that what a host lets through was declared and granted.
\<close>

datatype AssetKind = SKILL | SNIPPET | PLAYBOOK | CONVENTION | KNOWLEDGE
datatype AssetLifecycle = DRAFT | IN_REVIEW | PUBLISHED | DEPRECATED

definition lifecycle_name :: "AssetLifecycle \<Rightarrow> string" where
  "lifecycle_name l = (case l of DRAFT \<Rightarrow> ''DRAFT'' | IN_REVIEW \<Rightarrow> ''IN_REVIEW'' | PUBLISHED \<Rightarrow> ''PUBLISHED'' | DEPRECATED \<Rightarrow> ''DEPRECATED'')"

definition MAX_SKILL_CAPABILITIES :: nat where "MAX_SKILL_CAPABILITIES = 64"
definition MAX_SKILL_CAPABILITY_LENGTH :: nat where "MAX_SKILL_CAPABILITY_LENGTH = 160"

definition CAPABILITY_PATTERN :: re where
  "CAPABILITY_PATTERN =
     seqs [One is_lower_az, Reps 0 (\<lambda>c. is_lower_az c \<or> is_digit c),
           Star (Seq (One (any_of ''._:-'')) (Reps 1 (\<lambda>c. is_lower_az c \<or> is_digit c)))]"

definition assertAssetLifecycleState :: "AssetLifecycle \<Rightarrow> AssetLifecycle \<Rightarrow> string \<Rightarrow> unit res" where
  "assertAssetLifecycleState actual expected operation =
     throwIf (actual \<noteq> expected) (BadRequest (operation @ '' requires '' @ lifecycle_name expected @ '', received '' @ lifecycle_name actual)) (Inr ())"

definition capability_name :: "string \<Rightarrow> bool" where
  "capability_name value \<longleftrightarrow> length value \<le> MAX_SKILL_CAPABILITY_LENGTH \<and> test_all CAPABILITY_PATTERN value"

definition normalizeCapabilityNames :: "string list \<Rightarrow> string \<Rightarrow> string list res" where
  "normalizeCapabilityNames vs label =
     throwIf (MAX_SKILL_CAPABILITIES < length vs) (BadRequest (label @ '' may contain at most 64 capabilities''))
    (throwIf (\<not> list_all capability_name vs) (BadRequest (label @ '' must use exact lowercase capability names without wildcards''))
    (Inr (sort (nub vs))))"

definition normalizeRequiredCapabilities :: "AssetKind \<Rightarrow> string list \<Rightarrow> string list res" where
  "normalizeRequiredCapabilities kind vs =
     bindR (normalizeCapabilityNames vs ''requiredCapabilities'') (\<lambda>normalized.
     throwIf (kind \<noteq> SKILL \<and> normalized \<noteq> []) (BadRequest ''Only SKILL assets may declare execution capabilities'') (Inr normalized))"

definition normalizeGrantedCapabilities :: "AssetKind \<Rightarrow> string list \<Rightarrow> string list \<Rightarrow> string list res" where
  "normalizeGrantedCapabilities kind requiredValues grantedValues =
     bindR (normalizeRequiredCapabilities kind requiredValues) (\<lambda>required.
     bindR (normalizeCapabilityNames grantedValues ''grantedCapabilities'') (\<lambda>granted.
     throwIf (kind \<noteq> SKILL \<and> granted \<noteq> []) (BadRequest ''Only SKILL assets may receive execution capabilities'')
    (throwIf (\<not> list_all (\<lambda>c. c \<in> set required) granted) (BadRequest ''A reviewed skill may only receive capabilities it declared'')
    (Inr granted))))"

definition assertSkillCapabilitiesGranted :: "string list \<Rightarrow> string list \<Rightarrow> string list \<Rightarrow> string list res" where
  "assertSkillCapabilitiesGranted requiredValues grantedValues requestedValues =
     bindR (normalizeCapabilityNames requiredValues ''requiredCapabilities'') (\<lambda>required.
     bindR (normalizeCapabilityNames grantedValues ''grantedCapabilities'') (\<lambda>granted.
     bindR (normalizeCapabilityNames requestedValues ''requestedCapabilities'') (\<lambda>requested.
     case find (\<lambda>c. c \<notin> set required \<or> c \<notin> set granted) requested of
       Some c \<Rightarrow> Inl (Forbidden (''Skill capability is not approved: '' @ c))
     | None \<Rightarrow> Inr requested)))"

lemma normalize_names_Inr:
  "normalizeCapabilityNames vs label = Inr r \<longleftrightarrow>
     length vs \<le> MAX_SKILL_CAPABILITIES \<and> list_all capability_name vs \<and> r = sort (nub vs)"
  by (auto simp: normalizeCapabilityNames_def throwIf_def)

lemma normalize_names_again:
  assumes "normalizeCapabilityNames vs label = Inr r"
  shows "normalizeCapabilityNames r label' = Inr r" "set r = set vs" "distinct r"
proof -
  have "length (nub vs) \<le> length vs" by (rule length_nub)
  then show "normalizeCapabilityNames r label' = Inr r" "set r = set vs" "distinct r"
    using assms by (auto simp: normalize_names_Inr list_all_iff nub_distinct sorted_sort_id)
qed

lemma granted_within_required:
  assumes "normalizeGrantedCapabilities kind required granted = Inr r"
  shows "set r \<subseteq> set required \<and> set r = set granted \<and> (kind = SKILL \<or> r = []) \<and> normalizeCapabilityNames r l = Inr r"
proof -
  obtain q where q: "normalizeCapabilityNames required ''requiredCapabilities'' = Inr q" "normalizeCapabilityNames granted ''grantedCapabilities'' = Inr r"
    "set r \<subseteq> set q" "kind = SKILL \<or> r = []"
    using assms by (auto simp: normalizeGrantedCapabilities_def normalizeRequiredCapabilities_def bindR_eq_Inr throwIf_def list_all_iff split: if_splits)
  show ?thesis using q(3,4) normalize_names_again [OF q(1)] normalize_names_again [OF q(2)] by simp
qed

text \<open>With the capabilities a review stored, a host lets exactly the requests through that are well-formed and granted.\<close>

lemma host_follows_review:
  assumes "normalizeGrantedCapabilities kind required granted = Inr r" "normalizeRequiredCapabilities kind required = Inr q"
  shows "(\<exists>x. assertSkillCapabilitiesGranted q r requested = Inr x) \<longleftrightarrow>
         length requested \<le> MAX_SKILL_CAPABILITIES \<and> set requested \<subseteq> set granted"
proof -
  have "normalizeCapabilityNames required ''requiredCapabilities'' = Inr q"
    using assms(2) by (auto simp: normalizeRequiredCapabilities_def bindR_eq_Inr throwIf_def split: if_splits)
  note q = normalize_names_again(1,2) [OF this]
  have r: "set r \<subseteq> set required" "set r = set granted" "normalizeCapabilityNames r ''grantedCapabilities'' = Inr r"
    using granted_within_required [OF assms(1)] by auto
  have names: "\<forall>c \<in> set granted. capability_name c" using r by (simp add: normalize_names_Inr list_all_iff)
  show ?thesis
  proof (cases "normalizeCapabilityNames requested ''requestedCapabilities''")
    case (Inl e)
    then have "\<not> (length requested \<le> MAX_SKILL_CAPABILITIES \<and> set requested \<subseteq> set granted)"
      using names by (auto simp: normalizeCapabilityNames_def throwIf_def list_all_iff split: if_splits)
    then show ?thesis using Inl q r by (simp add: assertSkillCapabilitiesGranted_def)
  next
    case (Inr t)
    then have t: "set t = set requested" "length requested \<le> MAX_SKILL_CAPABILITIES" using normalize_names_again(2) [OF Inr] by (auto simp: normalize_names_Inr)
    have "find (\<lambda>c. c \<notin> set q \<or> c \<notin> set r) t = None \<longleftrightarrow> set requested \<subseteq> set granted"
      using r q t by (auto simp: find_None_iff)
    then show ?thesis using Inr q r t by (auto simp: assertSkillCapabilitiesGranted_def split: option.splits)
  qed
qed

end
