(* ===== verification/Assets.thy ===== *)
theory Assets
  imports Roles SkillCapabilities
begin

section \<open>Shared assets (assets/assets.service.ts, embed/embedding.service.ts)\<close>

text \<open>
  Devices contribute versions of skills, snippets and documents; an administrator reviews, promotes and deprecates them; devices list,
  fetch and search what is published. The clock readings, the new identifiers, the digest, \<^verbatim>\<open>Date.parse\<close>, the HTTP client and the
  distance operator of pgvector are arguments.
\<close>

datatype AssetScope = A_PERSONAL | A_TEAM | A_ORG | A_PUBLIC
datatype AssetOrigin = AUTHORED | PROMOTED | IMPORTED

record Asset =
  at_id :: string
  at_orgId :: string
  at_teamId :: "string option"
  at_ownerDeviceId :: "string option"
  at_scope :: AssetScope
  at_kind :: AssetKind
  at_lifecycle :: AssetLifecycle
  at_origin :: AssetOrigin
  at_slug :: string
  at_title :: string
  at_summary :: "string option"
  at_lang :: "string option"
  at_tags :: "string list"
  at_promotedFromId :: "string option"
  at_supersededById :: "string option"
  at_searchText :: string
  at_updatedAt :: time

record AssetVersion =
  av_id :: string
  av_assetId :: string
  av_body :: string
  av_contentHash :: string
  av_redactions :: "string list"
  av_createdByDeviceId :: "string option"
  av_createdAt :: time
  av_requiredCapabilities :: "string list"
  av_grantedCapabilities :: "string list"
  av_reviewedAt :: "time option"
  av_embedding :: "string option"
  av_embedModel :: "string option"
  av_embedDim :: "nat option"

record ('g, 'd) AssetWorld = "('g, 'd) RolesWorld" +
  w_assets :: "Asset list"
  w_versions :: "AssetVersion list"

definition SCOPE_TIER :: "AssetScope \<Rightarrow> int" where
  "SCOPE_TIER s = (case s of A_PERSONAL \<Rightarrow> 3 | A_TEAM \<Rightarrow> 2 | A_ORG \<Rightarrow> 2 | A_PUBLIC \<Rightarrow> 1)"

definition scope_name :: "AssetScope \<Rightarrow> string" where
  "scope_name s = (case s of A_PERSONAL \<Rightarrow> ''PERSONAL'' | A_TEAM \<Rightarrow> ''TEAM'' | A_ORG \<Rightarrow> ''ORG'' | A_PUBLIC \<Rightarrow> ''PUBLIC'')"

definition asset_kind_name :: "AssetKind \<Rightarrow> string" where
  "asset_kind_name k = (case k of SKILL \<Rightarrow> ''SKILL'' | SNIPPET \<Rightarrow> ''SNIPPET'' | PLAYBOOK \<Rightarrow> ''PLAYBOOK'' | CONVENTION \<Rightarrow> ''CONVENTION'' | KNOWLEDGE \<Rightarrow> ''KNOWLEDGE'')"

record ContributeInput =
  ci_kind :: AssetKind
  ci_scope :: AssetScope
  ci_teamId :: "string option"
  ci_slug :: string
  ci_title :: "string option"
  ci_summary :: "string option"
  ci_lang :: "string option"
  ci_tags :: "string list option"
  ci_requiredCapabilities :: "string list option"
  ci_body :: string

definition deviceFromBearer :: "('g, 'd) Sys \<Rightarrow> time \<Rightarrow> string option \<Rightarrow> (('g, 'd, 'x) World_scheme, Device) act" where
  "deviceFromBearer sy now bearer =
     (case truthyStr bearer of
        None \<Rightarrow> throwA (Unauthorized ''missing token'')
      | Some b \<Rightarrow>
          bindA (readS (\<lambda>w. let dt = find_token (sy_sha256 sy b) (w_tokens w)
                            in (dt, case dt of None \<Rightarrow> None | Some t \<Rightarrow> find_device (dt_deviceId t) (w_devices w)))) (\<lambda>(dt, device).
          thenA (liftR (assertTokenUsable now (sy_env sy) None (map_option validatable dt)))
         (case device of
            None \<Rightarrow> throwA (PlainError ''Cannot read properties of null'')
          | Some d \<Rightarrow> retA d)))"

definition searchTextFor :: "string \<Rightarrow> string option \<Rightarrow> string list \<Rightarrow> string option \<Rightarrow> string \<Rightarrow> string" where
  "searchTextFor title summary tags lang body = toLowerCase (join [CHR 0x0A] [title, nullish summary [], join '' '' tags, nullish lang [], body])"

subsection \<open>Contribution\<close>

text \<open>The columns of \<^verbatim>\<open>@@unique([orgId, scope, teamId, kind, slug])\<close>, as \<^verbatim>\<open>findFirst\<close> compares them.\<close>

definition same_asset :: "string \<Rightarrow> AssetScope \<Rightarrow> string option \<Rightarrow> AssetKind \<Rightarrow> string \<Rightarrow> Asset \<Rightarrow> bool" where
  "same_asset orgId scope teamId kind slug a \<longleftrightarrow>
     at_orgId a = orgId \<and> at_scope a = scope \<and> at_teamId a = teamId \<and> at_kind a = kind \<and> at_slug a = slug"

text \<open>
  What the database checks when a row is created: the team must exist, and the unique index, for which a null in a column differs from
  every other null, must not have the key.
\<close>

definition insert_asset :: "Asset \<Rightarrow> ('g, 'd, 'x) AssetWorld_scheme \<Rightarrow> ('g, 'd, 'x) AssetWorld_scheme res" where
  "insert_asset a w =
     throwIf (\<exists>t \<in> set (case at_teamId a of None \<Rightarrow> [] | Some t \<Rightarrow> [t]). \<not> list_ex (\<lambda>team. te_id team = t) (w_teams w)) (PlainError ''P2003'')
    (throwIf (at_teamId a \<noteq> None \<and> list_ex (same_asset (at_orgId a) (at_scope a) (at_teamId a) (at_kind a) (at_slug a)) (w_assets w)) (PlainError ''P2002'')
    (Inr (w\<lparr>w_assets := w_assets w @ [a]\<rparr>)))"

definition resubmitted :: "string \<Rightarrow> string option \<Rightarrow> string option \<Rightarrow> string list \<Rightarrow> time \<Rightarrow> Asset \<Rightarrow> Asset" where
  "resubmitted title summary lang tags now a =
     a\<lparr>at_lifecycle := IN_REVIEW, at_title := title, at_summary := summary, at_lang := lang, at_tags := tags, at_updatedAt := now\<rparr>"

definition authored :: "string \<Rightarrow> Device \<Rightarrow> ContributeInput \<Rightarrow> string \<Rightarrow> string list \<Rightarrow> time \<Rightarrow> Asset" where
  "authored newId device input title tags now =
     \<lparr>at_id = newId, at_orgId = dv_orgId device, at_teamId = ci_teamId input, at_ownerDeviceId = Some (dv_id device), at_scope = ci_scope input,
      at_kind = ci_kind input, at_lifecycle = IN_REVIEW, at_origin = AUTHORED, at_slug = ci_slug input, at_title = title, at_summary = ci_summary input,
      at_lang = ci_lang input, at_tags = tags, at_promotedFromId = None, at_supersededById = None, at_searchText = [], at_updatedAt = now\<rparr>"

definition new_version ::
  "(string \<Rightarrow> string) \<Rightarrow> string \<Rightarrow> string \<Rightarrow> string \<Rightarrow> string list \<Rightarrow> string option \<Rightarrow> string list \<Rightarrow> time \<Rightarrow> AssetVersion" where
  "new_version H newId assetId body redactions deviceId required now =
     \<lparr>av_id = newId, av_assetId = assetId, av_body = body, av_contentHash = H body, av_redactions = redactions, av_createdByDeviceId = deviceId,
      av_createdAt = now, av_requiredCapabilities = required, av_grantedCapabilities = [], av_reviewedAt = None, av_embedding = None,
      av_embedModel = None, av_embedDim = None\<rparr>"

definition contribute_tx ::
  "(string \<Rightarrow> string) \<Rightarrow> string \<Rightarrow> string \<Rightarrow> Device \<Rightarrow> ContributeInput \<Rightarrow> string \<Rightarrow> string list \<Rightarrow> string \<Rightarrow> string list \<Rightarrow> string list \<Rightarrow> time \<Rightarrow> time \<Rightarrow>
   ('g, 'd, 'x) AssetWorld_scheme \<Rightarrow> ((string \<times> string) \<times> ('g, 'd, 'x) AssetWorld_scheme) res" where
  "contribute_tx H newId versionId device input title tags body redactions required now later w =
     (let version = (\<lambda>assetId. new_version H versionId assetId body redactions (Some (dv_id device)) required later)
      in case find (same_asset (dv_orgId device) (ci_scope input) (ci_teamId input) (ci_kind input) (ci_slug input)) (w_assets w) of
           Some existing \<Rightarrow>
             Inr ((at_id existing, versionId),
               w\<lparr>w_assets := update_where (\<lambda>a. at_id a = at_id existing) (resubmitted title (ci_summary input) (ci_lang input) tags now) (w_assets w),
                 w_versions := w_versions w @ [version (at_id existing)]\<rparr>)
         | None \<Rightarrow>
             bindR (insert_asset (authored newId device input title tags now) w) (\<lambda>w'.
             Inr ((newId, versionId), w'\<lparr>w_versions := w_versions w' @ [version newId]\<rparr>)))"

record ContributeResult =
  co_asset_id :: string
  co_version_id :: string
  co_state :: AssetLifecycle
  co_redactions :: "string list"

definition contribute ::
  "('g, 'd) Sys \<Rightarrow> LicenseService \<Rightarrow> string \<Rightarrow> string \<Rightarrow> string \<Rightarrow> time \<Rightarrow> time \<Rightarrow> string option \<Rightarrow> ContributeInput \<Rightarrow>
   (('g, 'd, 'x) AssetWorld_scheme, ContributeResult) act" where
  "contribute sy ls auId newId versionId now later bearer input =
     thenA (liftR (entitlement_assert ls (num (now div 1000)) ''code-assets''))
    (bindA (deviceFromBearer sy now bearer) (\<lambda>device.
     case scanForInjection (ci_body input) of (ok, hits) \<Rightarrow>
     thenA (throwUnless ok (BadRequest (''blocked (cannot redact): '' @ join '', '' hits)))
    (case redactSecrets (ci_body input) of (body, redactions) \<Rightarrow>
     bindA (liftR (normalizeRequiredCapabilities (ci_kind input) (nullish (ci_requiredCapabilities input) []))) (\<lambda>required.
     bindA (txS (contribute_tx (sy_sha256 sy) newId versionId device input (nullish (ci_title input) (ci_slug input)) (nullish (ci_tags input) []) body redactions required now later)) (\<lambda>(assetId, version).
     thenA (auditLogA (sy_sha256 sy) auId later (dv_orgId device) ''asset.contribute'' ''device'' (dv_id device)
        (JObj [(''assetId'', JStr assetId), (''scope'', JStr (scope_name (ci_scope input))), (''kind'', JStr (asset_kind_name (ci_kind input))),
               (''slug'', JStr (ci_slug input)), (''redactions'', JArr (map JStr redactions)), (''requiredCapabilities'', JArr (map JStr required))]))
    (retA \<lparr>co_asset_id = assetId, co_version_id = version, co_state = IN_REVIEW, co_redactions = redactions\<rparr>))))))"

subsection \<open>What devices read\<close>

text \<open>\<^verbatim>\<open>versions: { orderBy: { createdAt: "desc" }, take: 1 }\<close>\<close>

definition newest_version :: "string \<Rightarrow> AssetVersion list \<Rightarrow> AssetVersion option" where
  "newest_version assetId vs = (case sort_key (\<lambda>v. - av_createdAt v) (filter (\<lambda>v. av_assetId v = assetId) vs) of [] \<Rightarrow> None | v # _ \<Rightarrow> Some v)"

record ManifestLine =
  ma_id :: string
  ma_kind :: AssetKind
  ma_scope :: AssetScope
  ma_slug :: string
  ma_team_id :: "string option"
  ma_content_hash :: string
  ma_updated_at :: time
  ma_required_capabilities :: "string list"
  ma_granted_capabilities :: "string list"

definition manifest_line :: "AssetVersion list \<Rightarrow> Asset \<Rightarrow> ManifestLine" where
  "manifest_line vs a =
     (let v = newest_version (at_id a) vs
      in \<lparr>ma_id = at_id a, ma_kind = at_kind a, ma_scope = at_scope a, ma_slug = at_slug a, ma_team_id = at_teamId a,
          ma_content_hash = nullish (map_option av_contentHash v) [], ma_updated_at = at_updatedAt a,
          ma_required_capabilities = nullish (map_option av_requiredCapabilities v) [], ma_granted_capabilities = nullish (map_option av_grantedCapabilities v) []\<rparr>)"

definition manifest ::
  "('g, 'd) Sys \<Rightarrow> (string \<Rightarrow> time option) \<Rightarrow> time \<Rightarrow> string option \<Rightarrow> AssetScope option \<Rightarrow> AssetKind option \<Rightarrow> string option \<Rightarrow>
   (('g, 'd, 'x) AssetWorld_scheme, ManifestLine list) act" where
  "manifest sy dateParse now bearer scope kind since =
     bindA (deviceFromBearer sy now bearer) (\<lambda>device.
     thenA (throwUnless (case truthyStr since of None \<Rightarrow> True | Some s \<Rightarrow> dateParse s \<noteq> None) (PlainError ''Provided Date object is invalid''))
    (readS (\<lambda>w. map (manifest_line (w_versions w)) (sort_key (\<lambda>a. - at_updatedAt a)
       (filter (\<lambda>a. at_orgId a = dv_orgId device \<and> at_lifecycle a = PUBLISHED \<and> (case scope of None \<Rightarrow> True | Some s \<Rightarrow> at_scope a = s) \<and>
          (case kind of None \<Rightarrow> True | Some k \<Rightarrow> at_kind a = k) \<and>
          (case truthyStr since of None \<Rightarrow> True | Some s \<Rightarrow> (case dateParse s of None \<Rightarrow> False | Some t \<Rightarrow> t < at_updatedAt a))) (w_assets w))))))"

record AssetContent =
  ac_id :: string
  ac_kind :: AssetKind
  ac_scope :: AssetScope
  ac_slug :: string
  ac_body :: string
  ac_content_hash :: string
  ac_required_capabilities :: "string list"
  ac_granted_capabilities :: "string list"

definition asset_content :: "Asset \<Rightarrow> AssetVersion \<Rightarrow> AssetContent" where
  "asset_content a v =
     \<lparr>ac_id = at_id a, ac_kind = at_kind a, ac_scope = at_scope a, ac_slug = at_slug a, ac_body = av_body v, ac_content_hash = av_contentHash v,
      ac_required_capabilities = av_requiredCapabilities v, ac_granted_capabilities = av_grantedCapabilities v\<rparr>"

definition served :: "string \<Rightarrow> string \<Rightarrow> ('g, 'd, 'x) AssetWorld_scheme \<Rightarrow> (Asset \<times> AssetVersion) option" where
  "served orgId i w =
     (case find (\<lambda>a. at_id a = i \<and> at_orgId a = orgId \<and> at_lifecycle a = PUBLISHED) (w_assets w) of
        None \<Rightarrow> None
      | Some a \<Rightarrow> map_option (\<lambda>v. (a, v)) (newest_version (at_id a) (w_versions w)))"

definition getAsset :: "('g, 'd) Sys \<Rightarrow> time \<Rightarrow> string option \<Rightarrow> string \<Rightarrow> (('g, 'd, 'x) AssetWorld_scheme, AssetContent) act" where
  "getAsset sy now bearer i =
     bindA (deviceFromBearer sy now bearer) (\<lambda>device.
     bindA (readS (served (dv_orgId device) i)) (\<lambda>r.
     case r of None \<Rightarrow> throwA (NotFound ''asset not found or not published'') | Some (a, v) \<Rightarrow> retA (asset_content a v)))"

subsection \<open>Embeddings (embed/embedding.service.ts)\<close>

definition embed_base :: "env \<Rightarrow> string" where
  "embed_base env = (let base = nullish (truthyStr (env ''HARA_EMBED_BASE_URL'')) [] in if base \<noteq> [] \<and> last base = CHR ''/'' then butlast base else base)"

definition modelId :: "env \<Rightarrow> string" where
  "modelId env = nullish (truthyStr (env ''HARA_EMBED_MODEL'')) []"

definition embed_enabled :: "env \<Rightarrow> bool" where
  "embed_enabled env \<longleftrightarrow> embed_base env \<noteq> [] \<and> modelId env \<noteq> []"

text \<open>
  \<^verbatim>\<open>j.data.map((d) => d.embedding)\<close>: None where it throws. The optional bearer credential is the same for every request and the text of a
  refused answer is only logged, so neither appears here.
\<close>

definition embeddings_of :: "jsval \<Rightarrow> jsval list option" where
  "embeddings_of j = (case prop_of j ''data'' of JArr ds \<Rightarrow> if JNull \<in> set ds \<or> JUndef \<in> set ds then None else Some (map (\<lambda>d. prop_of d ''embedding'') ds) | _ \<Rightarrow> None)"

definition embed :: "('g, 'd) Sys \<Rightarrow> string list \<Rightarrow> (('g, 'd, 'x) World_scheme, jsval list option) act" where
  "embed sy texts =
     (if \<not> embed_enabled (sy_env sy) \<or> texts = [] then retA None
      else bindA (fetchA sy ''POST'' (embed_base (sy_env sy) @ ''/embeddings'')
                    (JObj [(''model'', JStr (modelId (sy_env sy))), (''input'', JArr (map JStr texts))])) (\<lambda>r.
           case r of
             Inl message \<Rightarrow> throwA (PlainError message)
           | Inr res \<Rightarrow>
               thenA (throwUnless (hr_ok res) (PlainError (''embeddings HTTP '' @ show_int (hr_status res))))
              (case hr_body res of
                 Some (_, Some j) \<Rightarrow> (case embeddings_of j of None \<Rightarrow> throwA (PlainError ''TypeError'') | Some vs \<Rightarrow> retA (Some vs))
               | _ \<Rightarrow> throwA (PlainError ''SyntaxError''))))"

definition embedOne :: "('g, 'd) Sys \<Rightarrow> string \<Rightarrow> (('g, 'd, 'x) World_scheme, jsval option) act" where
  "embedOne sy t = bindA (embed sy [t]) (\<lambda>v. retA (case v of None \<Rightarrow> None | Some [] \<Rightarrow> None | Some (x # _) \<Rightarrow> if x = JUndef \<or> x = JNull then None else Some x))"

text \<open>\<^verbatim>\<open>vec.join\<close> throws on anything but an array.\<close>

definition toVectorLiteral :: "jsval \<Rightarrow> string res" where
  "toVectorLiteral vec = (case vec of JArr vs \<Rightarrow> Inr (''['' @ String_js vec @ '']'') | _ \<Rightarrow> Inl (PlainError ''vec.join is not a function''))"

definition vector_length :: "jsval \<Rightarrow> nat" where
  "vector_length vec = (case vec of JArr vs \<Rightarrow> length vs | _ \<Rightarrow> 0)"

text \<open>What pgvector does: whether it reads a literal, and the distance of two vectors (None when it raises an error).\<close>

record PgVector =
  pg_vector :: "string \<Rightarrow> bool"
  pg_distance :: "string \<Rightarrow> string \<Rightarrow> rat option"

subsection \<open>Search\<close>

fun words_from :: "string \<Rightarrow> string \<Rightarrow> string list" where
  "words_from acc [] = (if acc = [] then [] else [acc])"
| "words_from acc (c # s) = (if is_ws c then (if acc = [] then [] else [acc]) @ words_from [] s else words_from (acc @ [c]) s)"

text \<open>\<^verbatim>\<open>haystack.includes(w)\<close>\<close>

fun includes_text :: "string \<Rightarrow> string \<Rightarrow> bool" where
  "includes_text [] w = (w = [])"
| "includes_text (c # s) w = (startsWith (c # s) w \<or> includes_text s w)"

definition lexRanked :: "string list \<Rightarrow> Asset list \<Rightarrow> string list" where
  "lexRanked ws candidates =
     (let score = (\<lambda>a. length (filter (includes_text (at_searchText a)) ws))
      in map at_id (sort_key (\<lambda>a. - int (score a)) (sort_key (\<lambda>a. length (at_slug a)) (filter (\<lambda>a. 0 < score a) candidates))))"

text \<open>The query of the vector index: the published assets whose newest version has a vector of this model, nearest first.\<close>

definition nearest :: "PgVector \<Rightarrow> string \<Rightarrow> string \<Rightarrow> string \<Rightarrow> ('g, 'd, 'x) AssetWorld_scheme \<Rightarrow> string list res" where
  "nearest pg orgId model literal w =
     (let rows = concat (map (\<lambda>a. case newest_version (at_id a) (w_versions w) of
                                    None \<Rightarrow> []
                                  | Some v \<Rightarrow> (case av_embedding v of None \<Rightarrow> [] | Some e \<Rightarrow> if av_embedModel v = Some model then [(at_id a, pg_distance pg e literal)] else []))
                   (filter (\<lambda>a. at_orgId a = orgId \<and> at_lifecycle a = PUBLISHED) (w_assets w)))
      in throwIf (\<not> pg_vector pg literal \<or> None \<in> snd ` set rows) (PlainError ''vector error'')
        (Inr (take 50 (map fst (sort_key (\<lambda>(_, d). the d) rows)))))"

definition vecRanked ::
  "('g, 'd) Sys \<Rightarrow> PgVector \<Rightarrow> string \<Rightarrow> string \<Rightarrow> Asset list \<Rightarrow> (('g, 'd, 'x) AssetWorld_scheme, string list) act" where
  "vecRanked sy pg orgId query candidates =
     (if \<not> embed_enabled (sy_env sy) then retA []
      else catchA
        (bindA (embedOne sy query) (\<lambda>qvec.
         case qvec of
           None \<Rightarrow> retA []
         | Some v \<Rightarrow>
             bindA (liftR (toVectorLiteral v)) (\<lambda>literal.
             bindA (txS (\<lambda>w. bindR (nearest pg orgId (modelId (sy_env sy)) literal w) (\<lambda>ids. Inr (ids, w)))) (\<lambda>ids.
             retA (filter (\<lambda>i. i \<in> at_id ` set candidates) ids)))))
        (\<lambda>_. retA []))"

text \<open>The \<^verbatim>\<open>Map\<close> of fused scores, in the order of first insertion.\<close>

fun fuse_put :: "string \<Rightarrow> number \<Rightarrow> (string \<times> number) list \<Rightarrow> (string \<times> number) list" where
  "fuse_put i x [] = [(i, num_add (num 0) x)]"
| "fuse_put i x ((j, y) # m) = (if j = i then (j, num_add y x) # m else (j, y) # fuse_put i x m)"

definition fuse :: "string list \<Rightarrow> (string \<times> number) list \<Rightarrow> (string \<times> number) list" where
  "fuse ids m = foldl (\<lambda>m (k, i). fuse_put i (num_div (num 1) (of_nat (60 + k))) m) m (enumerate 0 ids)"

record SearchHit =
  sh_id :: string
  sh_kind :: AssetKind
  sh_scope :: AssetScope
  sh_slug :: string
  sh_title :: string
  sh_score :: number

text \<open>Scores are finite and positive; the comparison by difference has the sign of the comparison of the numbers.\<close>

definition score_value :: "number \<Rightarrow> rat" where
  "score_value n = (case n of Fin x \<Rightarrow> x | _ \<Rightarrow> 0)"

definition find_asset :: "string \<Rightarrow> Asset list \<Rightarrow> Asset option" where
  "find_asset i as = find (\<lambda>a. at_id a = i) as"

definition ranked_hits :: "Asset list \<Rightarrow> nat \<Rightarrow> (string \<times> number) list \<Rightarrow> SearchHit list" where
  "ranked_hits candidates limit fused =
     take limit (sort_key (\<lambda>h. - score_value (sh_score h))
       (concat (map (\<lambda>(i, rrf). case find_asset i candidates of
                                  None \<Rightarrow> []
                                | Some a \<Rightarrow> [\<lparr>sh_id = at_id a, sh_kind = at_kind a, sh_scope = at_scope a, sh_slug = at_slug a, sh_title = at_title a,
                                              sh_score = num_mult rrf (num (SCOPE_TIER (at_scope a)))\<rparr>]) fused)))"

definition search_candidates :: "string \<Rightarrow> AssetKind option \<Rightarrow> Asset list \<Rightarrow> Asset list" where
  "search_candidates orgId kind as =
     take 500 (filter (\<lambda>a. at_orgId a = orgId \<and> at_lifecycle a = PUBLISHED \<and> (case kind of None \<Rightarrow> True | Some k \<Rightarrow> at_kind a = k)) as)"

definition search_assets ::
  "('g, 'd) Sys \<Rightarrow> PgVector \<Rightarrow> time \<Rightarrow> string option \<Rightarrow> string \<Rightarrow> AssetKind option \<Rightarrow> nat option \<Rightarrow> (('g, 'd, 'x) AssetWorld_scheme, SearchHit list) act" where
  "search_assets sy pg now bearer query kind limit =
     bindA (deviceFromBearer sy now bearer) (\<lambda>device.
     bindA (readS (\<lambda>w. search_candidates (dv_orgId device) kind (w_assets w))) (\<lambda>candidates.
     bindA (vecRanked sy pg (dv_orgId device) query candidates) (\<lambda>vec.
     retA (ranked_hits candidates (nullish limit 10) (fuse vec (fuse (lexRanked (words_from [] (toLowerCase query)) candidates) []))))))"

subsection \<open>Review, promotion, deprecation\<close>

definition embedOnPublish :: "('g, 'd) Sys \<Rightarrow> PgVector \<Rightarrow> string \<Rightarrow> string \<Rightarrow> (('g, 'd, 'x) AssetWorld_scheme, unit) act" where
  "embedOnPublish sy pg versionId haystack =
     (if \<not> embed_enabled (sy_env sy) then retA ()
      else catchA
        (bindA (embedOne sy haystack) (\<lambda>vec.
         case vec of
           None \<Rightarrow> retA ()
         | Some v \<Rightarrow>
             bindA (liftR (toVectorLiteral v)) (\<lambda>literal.
             txS (\<lambda>w. throwIf (\<not> pg_vector pg literal) (PlainError ''vector error'')
               (Inr ((), w\<lparr>w_versions := update_where (\<lambda>x. av_id x = versionId)
                  (\<lambda>x. x\<lparr>av_embedding := Some literal, av_embedModel := Some (modelId (sy_env sy)), av_embedDim := Some (vector_length v)\<rparr>) (w_versions w)\<rparr>))))))
        (\<lambda>_. retA ()))"

text \<open>The condition of the conditional updates: the row is still as the handler read it.\<close>

definition unchanged :: "string \<Rightarrow> AssetLifecycle \<Rightarrow> time \<Rightarrow> Asset \<Rightarrow> bool" where
  "unchanged i lifecycle updatedAt a \<longleftrightarrow> at_id a = i \<and> at_lifecycle a = lifecycle \<and> at_updatedAt a = updatedAt"

definition changed_during :: "string \<Rightarrow> http_error" where
  "changed_during what = Conflict (''The asset changed during '' @ what @ ''; reload the latest version'')"

definition reject_tx :: "Asset \<Rightarrow> time \<Rightarrow> ('g, 'd, 'x) AssetWorld_scheme \<Rightarrow> (unit \<times> ('g, 'd, 'x) AssetWorld_scheme) res" where
  "reject_tx asset now w =
     throwIf (count_where (unchanged (at_id asset) IN_REVIEW (at_updatedAt asset)) (w_assets w) \<noteq> 1) (changed_during ''review'')
    (Inr ((), w\<lparr>w_assets := update_where (unchanged (at_id asset) IN_REVIEW (at_updatedAt asset)) (\<lambda>a. a\<lparr>at_lifecycle := DRAFT, at_updatedAt := now\<rparr>) (w_assets w)\<rparr>))"

definition publish_tx ::
  "Asset \<Rightarrow> AssetVersion \<Rightarrow> string list \<Rightarrow> string \<Rightarrow> time \<Rightarrow> ('g, 'd, 'x) AssetWorld_scheme \<Rightarrow> (unit \<times> ('g, 'd, 'x) AssetWorld_scheme) res" where
  "publish_tx asset version approvedCapabilities haystack now w =
     (let open = (\<lambda>v. av_id v = av_id version \<and> av_assetId v = at_id asset \<and> av_reviewedAt v = None)
      in throwIf (count_where (unchanged (at_id asset) IN_REVIEW (at_updatedAt asset)) (w_assets w) \<noteq> 1 \<or> count_where open (w_versions w) \<noteq> 1) (changed_during ''review'')
        (Inr ((), w\<lparr>w_assets := update_where (unchanged (at_id asset) IN_REVIEW (at_updatedAt asset))
                       (\<lambda>a. a\<lparr>at_lifecycle := PUBLISHED, at_searchText := haystack, at_updatedAt := now\<rparr>) (w_assets w),
                     w_versions := update_where open (\<lambda>v. v\<lparr>av_grantedCapabilities := approvedCapabilities, av_reviewedAt := Some now\<rparr>) (w_versions w)\<rparr>)))"

text \<open>What the review checks before it publishes: the capabilities to grant, and the search text.\<close>

definition approval :: "Asset \<Rightarrow> AssetVersion \<Rightarrow> string list \<Rightarrow> (string list \<times> string) res" where
  "approval asset version grantedCapabilities =
     bindR (normalizeGrantedCapabilities (at_kind asset) (av_requiredCapabilities version) grantedCapabilities) (\<lambda>approvedCapabilities.
     case scanForInjection (av_body version) of (ok, hits) \<Rightarrow>
     throwIf (\<not> ok) (BadRequest (''blocked on publish: '' @ join '', '' hits))
    (throwIf (snd (redactSecrets (av_body version)) \<noteq> []) (BadRequest ''blocked on publish: asset version contains secret-shaped content and must be resubmitted'')
    (Inr (approvedCapabilities, searchTextFor (at_title asset) (at_summary asset) (at_tags asset) (at_lang asset) (av_body version)))))"

definition read_asset :: "string \<Rightarrow> ('g, 'd, 'x) AssetWorld_scheme \<Rightarrow> (Asset \<times> AssetVersion option) option" where
  "read_asset i w = map_option (\<lambda>a. (a, newest_version i (w_versions w))) (find_asset i (w_assets w))"

text \<open>The decision is \<^verbatim>\<open>"approve"\<close> (True) or \<^verbatim>\<open>"reject"\<close>.\<close>

definition review_asset ::
  "('g, 'd) Sys \<Rightarrow> PgVector \<Rightarrow> LicenseService \<Rightarrow> string \<Rightarrow> time \<Rightarrow> string \<Rightarrow> bool \<Rightarrow> string list \<Rightarrow> (('g, 'd, 'x) AssetWorld_scheme, AssetLifecycle) act" where
  "review_asset sy pg ls auId now assetId approve grantedCapabilities =
     thenA (liftR (entitlement_assert ls (num (now div 1000)) ''code-assets''))
    (bindA (readS (read_asset assetId)) (\<lambda>found.
     case found of
       None \<Rightarrow> throwA (NotFound ''asset not found'')
     | Some (asset, newest) \<Rightarrow>
         thenA (liftR (assertAssetLifecycleState (at_lifecycle asset) IN_REVIEW ''Asset review''))
        (if \<not> approve then
           thenA (txS (reject_tx asset now))
          (thenA (auditLogA (sy_sha256 sy) auId now (at_orgId asset) ''asset.review'' ''admin'' assetId (JObj [(''decision'', JStr ''reject'')])) (retA DRAFT))
         else case newest of
           None \<Rightarrow> throwA (NotFound ''asset version not found'')
         | Some version \<Rightarrow>
             bindA (liftR (approval asset version grantedCapabilities)) (\<lambda>(approvedCapabilities, haystack).
             thenA (txS (publish_tx asset version approvedCapabilities haystack now))
            (thenA (embedOnPublish sy pg (av_id version) haystack)
            (thenA (auditLogA (sy_sha256 sy) auId now (at_orgId asset) ''asset.review'' ''admin'' assetId
               (JObj [(''decision'', JStr ''approve''), (''versionId'', JStr (av_id version)), (''grantedCapabilities'', JArr (map JStr approvedCapabilities))]))
            (retA PUBLISHED)))))))"

definition promoted_asset :: "string \<Rightarrow> Asset \<Rightarrow> AssetScope \<Rightarrow> string option \<Rightarrow> time \<Rightarrow> Asset" where
  "promoted_asset newId src toScope toTeamId now =
     \<lparr>at_id = newId, at_orgId = at_orgId src, at_teamId = toTeamId, at_ownerDeviceId = None, at_scope = toScope, at_kind = at_kind src, at_lifecycle = IN_REVIEW,
      at_origin = PROMOTED, at_slug = at_slug src, at_title = at_title src, at_summary = None, at_lang = at_lang src, at_tags = at_tags src,
      at_promotedFromId = Some (at_id src), at_supersededById = None, at_searchText = [], at_updatedAt = now\<rparr>"

definition promote_asset ::
  "('g, 'd) Sys \<Rightarrow> LicenseService \<Rightarrow> string \<Rightarrow> string \<Rightarrow> string \<Rightarrow> time \<Rightarrow> time \<Rightarrow> string \<Rightarrow> AssetScope \<Rightarrow> string option \<Rightarrow> (('g, 'd, 'x) AssetWorld_scheme, string) act" where
  "promote_asset sy ls auId newId versionId now later assetId toScope toTeamId =
     thenA (liftR (entitlement_assert ls (num (now div 1000)) ''code-assets''))
    (bindA (readS (read_asset assetId)) (\<lambda>found.
     case found of
       Some (src, Some version) \<Rightarrow>
         thenA (liftR (assertAssetLifecycleState (at_lifecycle src) PUBLISHED ''Asset promotion''))
        (case scanForInjection (av_body version) of (ok, hits) \<Rightarrow>
         thenA (throwUnless ok (BadRequest (''blocked on promote: '' @ join '', '' hits)))
        (case redactSecrets (av_body version) of (redacted, redactions) \<Rightarrow>
         thenA (txS (\<lambda>w. bindR (insert_asset (promoted_asset newId src toScope toTeamId now) w) (\<lambda>w'. Inr ((), w'))))
        (thenA (writeS (\<lambda>w. w\<lparr>w_versions := w_versions w @ [new_version (sy_sha256 sy) versionId newId redacted redactions None (av_requiredCapabilities version) later]\<rparr>))
        (thenA (auditLogA (sy_sha256 sy) auId later (at_orgId src) ''asset.promote'' ''admin'' newId
            (JObj [(''from'', JStr assetId), (''fromScope'', JStr (scope_name (at_scope src))), (''toScope'', JStr (scope_name toScope))]))
        (retA newId)))))
     | _ \<Rightarrow> throwA (NotFound ''asset/version not found'')))"

definition deprecate_tx :: "Asset \<Rightarrow> string option \<Rightarrow> time \<Rightarrow> ('g, 'd, 'x) AssetWorld_scheme \<Rightarrow> (unit \<times> ('g, 'd, 'x) AssetWorld_scheme) res" where
  "deprecate_tx current supersededById now w =
     throwIf (count_where (unchanged (at_id current) PUBLISHED (at_updatedAt current)) (w_assets w) \<noteq> 1) (changed_during ''deprecation'')
    (Inr ((), w\<lparr>w_assets := update_where (unchanged (at_id current) PUBLISHED (at_updatedAt current))
       (\<lambda>a. a\<lparr>at_lifecycle := DEPRECATED, at_supersededById := supersededById, at_updatedAt := now\<rparr>) (w_assets w)\<rparr>))"

definition deprecate_asset ::
  "('g, 'd) Sys \<Rightarrow> LicenseService \<Rightarrow> string \<Rightarrow> time \<Rightarrow> string \<Rightarrow> string option \<Rightarrow> (('g, 'd, 'x) AssetWorld_scheme, AssetLifecycle) act" where
  "deprecate_asset sy ls auId now assetId supersededById =
     thenA (liftR (entitlement_assert ls (num (now div 1000)) ''code-assets''))
    (bindA (readS (\<lambda>w. find_asset assetId (w_assets w))) (\<lambda>found.
     case found of
       None \<Rightarrow> throwA (NotFound ''asset not found'')
     | Some current \<Rightarrow>
         thenA (liftR (assertAssetLifecycleState (at_lifecycle current) PUBLISHED ''Asset deprecation''))
        (thenA (txS (deprecate_tx current supersededById now))
        (thenA (auditLogA (sy_sha256 sy) auId now (at_orgId current) ''asset.deprecate'' ''admin'' assetId
           (JObj [(''supersededById'', case supersededById of None \<Rightarrow> JUndef | Some s \<Rightarrow> JStr s)]))
        (retA DEPRECATED)))))"

end
