(* ===== verification/AssetReview.thy ===== *)
theory AssetReview
  imports Assets
begin

section \<open>What a device can fetch was reviewed (assets/assets.service.ts)\<close>

text \<open>
  A review reads the asset and its newest version, decides, and publishes on the condition that the row has not changed. Here the
  statements of concurrent handlers are interleaved: the published version is always the one that was reviewed, as long as a promotion is not
  interleaved. The second property shows what happens when it is.
\<close>

subsection \<open>The newest version\<close>

lemma newest_in:
  assumes "newest_version i vs = Some v"
  shows "v \<in> set vs \<and> av_assetId v = i"
proof -
  obtain rest where "sort_key (\<lambda>v. - av_createdAt v) (filter (\<lambda>v. av_assetId v = i) vs) = v # rest"
    using assms by (auto simp: newest_version_def split: list.splits)
  then have "v \<in> set (filter (\<lambda>v. av_assetId v = i) vs)" by (metis list.set_intros(1) set_sort)
  then show ?thesis by simp
qed

lemma sort_key_front:
  assumes "\<forall>y \<in> set xs. k x < k y"
  shows "sort_key k (xs @ [x]) = x # sort_key k xs"
  using assms by (induction xs) (auto simp: not_le)

lemma newest_update:
  assumes "\<And>v. av_assetId (f v) = av_assetId v" "\<And>v. av_createdAt (f v) = av_createdAt v"
  shows "newest_version i (update_where p f vs) = map_option (\<lambda>v. if p v then f v else v) (newest_version i vs)"
proof -
  let ?g = "\<lambda>v. if p v then f v else v"
  have "filter (\<lambda>v. av_assetId v = i) (map ?g vs) = map ?g (filter (\<lambda>v. av_assetId v = i) vs)"
    using assms(1) by (induction vs) auto
  moreover have "sort_key (\<lambda>v. - av_createdAt v) (map ?g xs) = map ?g (sort_key (\<lambda>v. - av_createdAt v) xs)" for xs
    by (simp add: sort_key_map comp_def if_distrib [of av_createdAt] assms(2) cong: if_cong)
  ultimately show ?thesis by (simp add: newest_version_def update_where_def split: list.splits)
qed

lemma newest_append:
  assumes "\<And>v. v \<in> set vs \<Longrightarrow> av_createdAt v < av_createdAt x"
  shows "newest_version i (vs @ [x]) = (if av_assetId x = i then Some x else newest_version i vs)"
  using sort_key_front [of "filter (\<lambda>v. av_assetId v = i) vs" "\<lambda>v. - av_createdAt v" x] assms by (auto simp: newest_version_def)

subsection \<open>Interleaved handlers\<close>

text \<open>The tables, what the running reviews, promotions and deprecations have read, and a clock no two writes share a reading of.\<close>

record ('g, 'd) ReviewSystem =
  rs_world :: "('g, 'd) AssetWorld"
  rs_reads :: "(Asset \<times> AssetVersion option) set"
  rs_clock :: time

definition fresh_asset :: "string \<Rightarrow> string \<Rightarrow> ('g, 'd, 'x) AssetWorld_scheme \<Rightarrow> bool" where
  "fresh_asset newId versionId w \<longleftrightarrow> newId \<notin> at_id ` set (w_assets w) \<and> versionId \<notin> av_id ` set (w_versions w)"

definition promote_stmts ::
  "(string \<Rightarrow> string) \<Rightarrow> string \<Rightarrow> string \<Rightarrow> Asset \<Rightarrow> AssetVersion \<Rightarrow> AssetScope \<Rightarrow> string option \<Rightarrow> time \<Rightarrow> time \<Rightarrow> ('g, 'd, 'x) AssetWorld_scheme \<Rightarrow> ('g, 'd, 'x) AssetWorld_scheme res" where
  "promote_stmts H newId versionId src version toScope toTeamId now later w =
     bindR (insert_asset (promoted_asset newId src toScope toTeamId now) w) (\<lambda>w'.
     Inr (w'\<lparr>w_versions := w_versions w' @ [case redactSecrets (av_body version) of (redacted, redactions) \<Rightarrow>
        new_version H versionId newId redacted redactions None (av_requiredCapabilities version) later]\<rparr>))"

inductive review_step :: "('g, 'd) ReviewSystem \<Rightarrow> ('g, 'd) ReviewSystem \<Rightarrow> bool" where
  contributed: "fresh_asset newId versionId (rs_world s) \<Longrightarrow> rs_clock s < now \<Longrightarrow> now \<le> later \<Longrightarrow>
    contribute_tx H newId versionId device input title tags body redactions required now later (rs_world s) = Inr (r, w') \<Longrightarrow>
    review_step s (s\<lparr>rs_world := w', rs_clock := later\<rparr>)"
| read: "read_asset i (rs_world s) = Some p \<Longrightarrow> review_step s (s\<lparr>rs_reads := insert p (rs_reads s)\<rparr>)"
| rejected: "(a, v) \<in> rs_reads s \<Longrightarrow> rs_clock s < now \<Longrightarrow> reject_tx a now (rs_world s) = Inr ((), w') \<Longrightarrow>
    review_step s (s\<lparr>rs_world := w', rs_clock := now\<rparr>)"
| published: "(a, Some v) \<in> rs_reads s \<Longrightarrow> rs_clock s < now \<Longrightarrow> approval a v granted = Inr (approved, haystack) \<Longrightarrow>
    publish_tx a v approved haystack now (rs_world s) = Inr ((), w') \<Longrightarrow> review_step s (s\<lparr>rs_world := w', rs_clock := now\<rparr>)"
| embedded: "review_step s (s\<lparr>rs_world := (rs_world s)\<lparr>w_versions := update_where (\<lambda>v. av_id v = i)
    (\<lambda>v. v\<lparr>av_embedding := e, av_embedModel := m, av_embedDim := d\<rparr>) (w_versions (rs_world s))\<rparr>\<rparr>)"
| promoted: "(a, Some v) \<in> rs_reads s \<Longrightarrow> fresh_asset newId versionId (rs_world s) \<Longrightarrow> rs_clock s < now \<Longrightarrow> now \<le> later \<Longrightarrow>
    promote_stmts H newId versionId a v toScope toTeamId now later (rs_world s) = Inr w' \<Longrightarrow> review_step s (s\<lparr>rs_world := w', rs_clock := later\<rparr>)"
| deprecated: "(a, v) \<in> rs_reads s \<Longrightarrow> rs_clock s < now \<Longrightarrow> deprecate_tx a supersededById now (rs_world s) = Inr ((), w') \<Longrightarrow>
    review_step s (s\<lparr>rs_world := w', rs_clock := now\<rparr>)"
| elsewhere: "w_assets w' = w_assets (rs_world s) \<Longrightarrow> w_versions w' = w_versions (rs_world s) \<Longrightarrow> review_step s (s\<lparr>rs_world := w'\<rparr>)"

inductive review_reachable :: "('g, 'd) ReviewSystem \<Rightarrow> bool" where
  empty: "w_assets (rs_world s) = [] \<Longrightarrow> w_versions (rs_world s) = [] \<Longrightarrow> rs_reads s = {} \<Longrightarrow> review_reachable s"
| step: "review_reachable s \<Longrightarrow> review_step s s' \<Longrightarrow> review_reachable s'"

subsection \<open>The invariant\<close>

definition reviewed_version :: "Asset \<Rightarrow> AssetVersion \<Rightarrow> bool" where
  "reviewed_version a v \<longleftrightarrow>
     av_reviewedAt v \<noteq> None \<and> set (av_grantedCapabilities v) \<subseteq> set (av_requiredCapabilities v) \<and> (at_kind a = SKILL \<or> av_grantedCapabilities v = []) \<and>
     fst (scanForInjection (av_body v)) \<and> snd (redactSecrets (av_body v)) = [] \<and>
     at_searchText a = searchTextFor (at_title a) (at_summary a) (at_tags a) (at_lang a) (av_body v)"

text \<open>A version keeps its identity and content; only the grant, the review and the embedding are filled in later.\<close>

definition content_of :: "AssetVersion \<Rightarrow> string \<times> string \<times> string \<times> string list" where
  "content_of v = (av_id v, av_assetId v, av_body v, av_requiredCapabilities v)"

definition tables_ok :: "Asset list \<Rightarrow> AssetVersion list \<Rightarrow> time \<Rightarrow> bool" where
  "tables_ok as vs clock \<longleftrightarrow>
     distinct (map at_id as) \<and> distinct (map av_id vs) \<and> av_assetId ` set vs \<subseteq> at_id ` set as \<and>
     (\<forall>a \<in> set as. at_updatedAt a \<le> clock) \<and> (\<forall>v \<in> set vs. av_createdAt v \<le> clock)"

definition published_ok :: "Asset list \<Rightarrow> AssetVersion list \<Rightarrow> bool" where
  "published_ok as vs \<longleftrightarrow>
     (\<forall>a \<in> set as. at_lifecycle a = PUBLISHED \<longrightarrow> (\<exists>v. newest_version (at_id a) vs = Some v \<and> reviewed_version a v))"

text \<open>What a handler has read is still so if the row still has the time it had.\<close>

definition read_ok :: "Asset list \<Rightarrow> AssetVersion list \<Rightarrow> Asset \<times> AssetVersion option \<Rightarrow> bool" where
  "read_ok as vs p \<longleftrightarrow>
     at_id (fst p) \<in> at_id ` set as \<and>
     (\<forall>a \<in> set as. at_id a = at_id (fst p) \<longrightarrow> at_updatedAt a = at_updatedAt (fst p) \<longrightarrow>
        a = fst p \<and> map_option content_of (newest_version (at_id a) vs) = map_option content_of (snd p))"

definition assets_inv :: "Asset list \<Rightarrow> AssetVersion list \<Rightarrow> (Asset \<times> AssetVersion option) set \<Rightarrow> time \<Rightarrow> bool" where
  "assets_inv as vs reads clock \<longleftrightarrow>
     tables_ok as vs clock \<and> published_ok as vs \<and> (\<forall>p \<in> reads. read_ok as vs p \<and> at_updatedAt (fst p) \<le> clock)"

lemma read_ok_update:
  assumes "read_ok as vs q" "at_updatedAt (fst q) < now"
    and "\<And>a. at_id (f a) = at_id a" "\<And>a. at_updatedAt (f a) = now"
    and "\<And>a. a \<in> set as \<Longrightarrow> \<not> p a \<Longrightarrow> map_option content_of (newest_version (at_id a) vs') = map_option content_of (newest_version (at_id a) vs)"
  shows "read_ok (update_where p f as) vs' q"
proof -
  have "at_id ` set (update_where p f as) = at_id ` set as" using assms(3) by (metis list.set_map map_update_where)
  moreover have "a = fst q \<and> map_option content_of (newest_version (at_id a) vs') = map_option content_of (snd q)"
    if "a \<in> set (update_where p f as)" "at_id a = at_id (fst q)" "at_updatedAt a = at_updatedAt (fst q)" for a
  proof -
    note a = that
    obtain a0 where a0: "a0 \<in> set as" "a = (if p a0 then f a0 else a0)" using a(1) by (auto simp: in_update_where)
    have "\<not> p a0" using a0(2) a(3) assms(2) assms(4) [of a0] by auto
    with a0 have "a \<in> set as" "\<not> p a" by simp_all
    moreover have "a = fst q \<and> map_option content_of (newest_version (at_id a) vs) = map_option content_of (snd q)"
      using assms(1) a(2,3) \<open>a \<in> set as\<close> unfolding read_ok_def by blast
    ultimately show ?thesis using assms(5) [of a] by metis
  qed
  ultimately show ?thesis using assms(1) by (simp add: read_ok_def)
qed

lemma read_ok_insert:
  assumes "read_ok as vs q" "at_updatedAt (fst q) < at_updatedAt b" "at_id b \<notin> at_id ` set as"
    and "\<And>a. a \<in> set as \<Longrightarrow> newest_version (at_id a) vs' = newest_version (at_id a) vs"
  shows "read_ok (as @ [b]) vs' q"
  using assms by (auto simp: read_ok_def)

lemma published_ok_update:
  assumes "published_ok as vs"
    and "\<And>a v. a \<in> set as \<Longrightarrow> \<not> p a \<Longrightarrow> newest_version (at_id a) vs = Some v \<Longrightarrow> reviewed_version a v \<Longrightarrow>
           \<exists>v'. newest_version (at_id a) vs' = Some v' \<and> reviewed_version a v'"
    and "\<And>a. a \<in> set as \<Longrightarrow> p a \<Longrightarrow> at_lifecycle (f a) = PUBLISHED \<Longrightarrow> \<exists>v'. newest_version (at_id (f a)) vs' = Some v' \<and> reviewed_version (f a) v'"
  shows "published_ok (update_where p f as) vs'"
  unfolding published_ok_def
proof (intro ballI impI)
  fix a assume a: "a \<in> set (update_where p f as)" "at_lifecycle a = PUBLISHED"
  then obtain a0 where a0: "a0 \<in> set as" "a = (if p a0 then f a0 else a0)" by (auto simp: in_update_where)
  show "\<exists>v. newest_version (at_id a) vs' = Some v \<and> reviewed_version a v"
  proof (cases "p a0")
    case True then show ?thesis using assms(3) [OF a0(1)] a0(2) a(2) by simp
  next
    case False then show ?thesis using assms(1,2) a0 a(2) by (auto simp: published_ok_def)
  qed
qed

lemma tables_ok_update:
  assumes "tables_ok as vs clock" "clock < now" "\<And>a. at_id (f a) = at_id a" "\<And>a. at_updatedAt (f a) = now"
  shows "tables_ok (update_where p f as) vs now"
proof -
  have m: "map at_id (update_where p f as) = map at_id as" using assms(3) by simp
  then have "at_id ` set (update_where p f as) = at_id ` set as" by (metis list.set_map)
  with m show ?thesis using assms by (fastforce simp: tables_ok_def in_update_where split: if_splits)
qed

lemma tables_ok_versions:
  assumes "tables_ok as vs clock" "\<And>v. av_id (f v) = av_id v" "\<And>v. av_assetId (f v) = av_assetId v" "\<And>v. av_createdAt (f v) = av_createdAt v"
  shows "tables_ok as (update_where p f vs) clock"
proof -
  have "map av_id (update_where p f vs) = map av_id vs" "av_assetId ` set (update_where p f vs) = av_assetId ` set vs"
    using assms(2,3) by (auto simp: in_update_where image_iff split: if_splits) (metis in_update_where assms(3))+
  then show ?thesis using assms(1,4) by (auto simp: tables_ok_def in_update_where split: if_splits)
qed

lemma tables_ok_append:
  assumes "tables_ok as vs clock" "av_id v \<notin> av_id ` set vs" "av_assetId v \<in> at_id ` set as" "clock \<le> av_createdAt v"
  shows "tables_ok as (vs @ [v]) (av_createdAt v)"
  using assms by (force simp: tables_ok_def)

lemma asset_unique: "tables_ok as vs clock \<Longrightarrow> a \<in> set as \<Longrightarrow> b \<in> set as \<Longrightarrow> at_id a = at_id b \<Longrightarrow> a = b"
  unfolding tables_ok_def distinct_map by (blast dest: inj_onD)

lemma version_unique: "tables_ok as vs clock \<Longrightarrow> v \<in> set vs \<Longrightarrow> x \<in> set vs \<Longrightarrow> av_id v = av_id x \<Longrightarrow> v = x"
  unfolding tables_ok_def distinct_map by (blast dest: inj_onD)

subsection \<open>Every step keeps it\<close>

lemma keeps_update:
  assumes inv: "assets_inv as vs reads clock" and now: "clock < now"
    and f: "\<And>a. at_id (f a) = at_id a" "\<And>a. at_updatedAt (f a) = now" "\<And>a. at_lifecycle (f a) \<noteq> PUBLISHED"
  shows "assets_inv (update_where p f as) vs reads now"
  unfolding assets_inv_def
proof (intro conjI ballI)
  note i = inv [unfolded assets_inv_def]
  show "tables_ok (update_where p f as) vs now" by (rule tables_ok_update [OF _ now f(1,2)]) (use i in blast)
  show "published_ok (update_where p f as) vs" by (rule published_ok_update) (use i f(3) in auto)
  fix q assume q: "q \<in> reads"
  show "at_updatedAt (fst q) \<le> now" using i q now by fastforce
  show "read_ok (update_where p f as) vs q" by (rule read_ok_update [OF _ _ f(1,2)]) (use i q now in fastforce)+
qed

lemma keeps_version:
  assumes inv: "assets_inv as vs reads clock" and later: "clock \<le> av_createdAt v" "\<forall>x \<in> set vs. av_createdAt x < av_createdAt v"
    and fresh: "av_id v \<notin> av_id ` set vs"
    and owner: "a \<in> set as" "at_id a = av_assetId v" "at_lifecycle a \<noteq> PUBLISHED" "\<forall>q \<in> reads. at_id (fst q) = at_id a \<longrightarrow> at_updatedAt (fst q) < at_updatedAt a"
  shows "assets_inv as (vs @ [v]) reads (av_createdAt v)"
  unfolding assets_inv_def
proof (intro conjI ballI)
  note i = inv [unfolded assets_inv_def]
  have newest: "newest_version k (vs @ [v]) = (if av_assetId v = k then Some v else newest_version k vs)" for k
    by (rule newest_append) (use later in blast)
  have only: "b = a" if "b \<in> set as" "at_id b = at_id a" for b
    using asset_unique i owner(1) that by blast
  show "tables_ok as (vs @ [v]) (av_createdAt v)" by (rule tables_ok_append) (use i fresh owner(1) owner(2) [symmetric] later in auto)
  show "published_ok as (vs @ [v])"
    unfolding published_ok_def newest
  proof (intro ballI impI)
    fix b assume b: "b \<in> set as" "at_lifecycle b = PUBLISHED"
    then have "av_assetId v \<noteq> at_id b" using only [of b] owner(2,3) by metis
    then show "\<exists>x. (if av_assetId v = at_id b then Some v else newest_version (at_id b) vs) = Some x \<and> reviewed_version b x"
      using i b by (simp add: published_ok_def)
  qed
  fix q assume q: "q \<in> reads"
  show "at_updatedAt (fst q) \<le> av_createdAt v" using i q later by fastforce
  have old: "read_ok as vs q" using i q by blast
  show "read_ok as (vs @ [v]) q"
    unfolding read_ok_def newest
  proof (intro conjI ballI impI)
    show "at_id (fst q) \<in> at_id ` set as" using old by (simp add: read_ok_def)
    fix b assume b: "b \<in> set as" "at_id b = at_id (fst q)" "at_updatedAt b = at_updatedAt (fst q)"
    then have "b = fst q \<and> map_option content_of (newest_version (at_id b) vs) = map_option content_of (snd q)"
      using old unfolding read_ok_def by blast
    moreover have "av_assetId v \<noteq> at_id b" using only [OF b(1)] owner(2,4) b(2,3) q by force
    ultimately show "b = fst q" "map_option content_of (if av_assetId v = at_id b then Some v else newest_version (at_id b) vs) = map_option content_of (snd q)"
      by auto
  qed
qed

lemma keeps_insert:
  assumes inv: "assets_inv as vs reads clock" and now: "clock < at_updatedAt a" and a: "at_id a \<notin> at_id ` set as" "at_lifecycle a \<noteq> PUBLISHED"
  shows "assets_inv (as @ [a]) vs reads (at_updatedAt a)"
  unfolding assets_inv_def
proof (intro conjI ballI)
  note i = inv [unfolded assets_inv_def]
  show "tables_ok (as @ [a]) vs (at_updatedAt a)" using i now a(1) by (auto simp: tables_ok_def intro: order.trans less_imp_le)
  show "published_ok (as @ [a]) vs" using i a(2) by (auto simp: published_ok_def)
  fix q assume q: "q \<in> reads"
  show "at_updatedAt (fst q) \<le> at_updatedAt a" using i q now by fastforce
  show "read_ok (as @ [a]) vs q" by (rule read_ok_insert) (use i q now a(1) in fastforce)+
qed

lemma keeps_read:
  assumes inv: "assets_inv as vs reads clock" and a: "find_asset i as = Some a"
  shows "assets_inv as vs (insert (a, newest_version i vs) reads) clock"
proof -
  have "a \<in> set as" "at_id a = i" using a by (auto simp: find_asset_def find_Some_iff)
  moreover have "\<forall>b \<in> set as. at_id b = at_id a \<longrightarrow> b = a"
    using asset_unique inv calculation(1) unfolding assets_inv_def by blast
  ultimately have "read_ok as vs (a, newest_version i vs)" unfolding read_ok_def fst_conv snd_conv by (metis image_eqI)
  moreover have "at_updatedAt a \<le> clock" using inv \<open>a \<in> set as\<close> by (simp add: assets_inv_def tables_ok_def)
  ultimately show ?thesis using inv by (simp add: assets_inv_def)
qed

lemma keeps_embedding:
  assumes inv: "assets_inv as vs reads clock"
    and f: "\<And>v. content_of (f v) = content_of v" "\<And>v. av_createdAt (f v) = av_createdAt v" "\<And>a v. reviewed_version a v \<Longrightarrow> reviewed_version a (f v)"
  shows "assets_inv as (update_where p f vs) reads clock"
proof -
  have c: "av_id (f v) = av_id v" "av_assetId (f v) = av_assetId v" for v using f(1) [of v] by (simp_all add: content_of_def)
  have newest: "newest_version i (update_where p f vs) = map_option (\<lambda>v. if p v then f v else v) (newest_version i vs)" for i
    by (rule newest_update [OF c(2) f(2)])
  have "map_option content_of (newest_version i (update_where p f vs)) = map_option content_of (newest_version i vs)" for i
    unfolding newest by (cases "newest_version i vs") (simp_all add: f(1))
  moreover have "tables_ok as (update_where p f vs) clock" by (rule tables_ok_versions [OF _ c f(2)]) (use inv in \<open>simp add: assets_inv_def\<close>)
  moreover have "published_ok as (update_where p f vs)"
    using inv f(3) unfolding published_ok_def newest assets_inv_def by fastforce
  ultimately show ?thesis using inv by (simp add: assets_inv_def read_ok_def)
qed

lemma keeps_publish:
  assumes inv: "assets_inv as vs reads clock" and now: "clock < now" and q: "(a, Some v) \<in> reads"
    and ok: "approval a v granted = Inr (approved, haystack)"
    and one: "b \<in> set as" "unchanged (at_id a) IN_REVIEW (at_updatedAt a) b" "x \<in> set vs" "av_id x = av_id v" "av_assetId x = at_id a" "av_reviewedAt x = None"
  shows "assets_inv (update_where (unchanged (at_id a) IN_REVIEW (at_updatedAt a)) (\<lambda>a. a\<lparr>at_lifecycle := PUBLISHED, at_searchText := haystack, at_updatedAt := now\<rparr>) as)
           (update_where (\<lambda>x. av_id x = av_id v \<and> av_assetId x = at_id a \<and> av_reviewedAt x = None)
              (\<lambda>x. x\<lparr>av_grantedCapabilities := approved, av_reviewedAt := Some now\<rparr>) vs) reads now"
    (is "assets_inv (update_where ?p ?f as) (update_where ?o ?g vs) reads now")
proof -
  note i = inv [unfolded assets_inv_def]
  have "read_ok as vs (a, Some v)" using i q by blast
  with one(1,2) have b: "b = a" "map_option content_of (newest_version (at_id a) vs) = Some (content_of v)"
    by (auto simp: read_ok_def unchanged_def)
  then obtain y where y: "newest_version (at_id a) vs = Some y" "content_of y = content_of v" by auto
  have "y = x" using newest_in [OF y(1)] y(2) one(3,4) version_unique [of as vs clock y x] i by (simp add: content_of_def)
  have only: "c = a" if "c \<in> set as" "at_id c = at_id a" for c
    using asset_unique i one(1) b(1) that by blast
  have newest: "newest_version k (update_where ?o ?g vs) = map_option (\<lambda>v. if ?o v then ?g v else v) (newest_version k vs)" for k
    by (rule newest_update) simp_all
  have other: "newest_version k (update_where ?o ?g vs) = newest_version k vs" if "k \<noteq> at_id a" for k
    unfolding newest using newest_in [of k vs] that by (cases "newest_version k vs") auto
  have reviewed: "reviewed_version (?f a) (?g x)"
    using ok y(2) \<open>y = x\<close> granted_within_required [of "at_kind a" "av_requiredCapabilities v" granted approved]
    by (auto simp: reviewed_version_def approval_def content_of_def bindR_eq_Inr throwIf_def split: if_splits prod.splits)
  show ?thesis unfolding assets_inv_def
  proof (intro conjI ballI)
    show "tables_ok (update_where ?p ?f as) (update_where ?o ?g vs) now"
      by (rule tables_ok_versions, rule tables_ok_update [OF _ now]) (use i in simp_all)
    show "published_ok (update_where ?p ?f as) (update_where ?o ?g vs)"
    proof (rule published_ok_update)
      show "published_ok as vs" using i by blast
    next
      fix c u assume c: "c \<in> set as" "\<not> ?p c" "newest_version (at_id c) vs = Some u" "reviewed_version c u"
      then have "at_id c \<noteq> at_id a" using only [OF c(1)] one(2) b(1) by auto
      then show "\<exists>v'. newest_version (at_id c) (update_where ?o ?g vs) = Some v' \<and> reviewed_version c v'" using c other by simp
    next
      fix c assume c: "c \<in> set as" "?p c"
      then have "c = a" using only by (simp add: unchanged_def)
      then show "\<exists>v'. newest_version (at_id (?f c)) (update_where ?o ?g vs) = Some v' \<and> reviewed_version (?f c) v'"
        using reviewed y(1) \<open>y = x\<close> one(4-6) by (simp add: newest)
    qed
    fix r assume r: "r \<in> reads"
    show "at_updatedAt (fst r) \<le> now" using i r now by fastforce
    show "read_ok (update_where ?p ?f as) (update_where ?o ?g vs) r"
    proof (rule read_ok_update)
      show "read_ok as vs r" "at_updatedAt (fst r) < now" using i r now by fastforce+
    next
      fix c assume c: "c \<in> set as" "\<not> ?p c"
      then have "at_id c \<noteq> at_id a" using only [OF c(1)] one(2) b(1) by auto
      then show "map_option content_of (newest_version (at_id c) (update_where ?o ?g vs)) = map_option content_of (newest_version (at_id c) vs)"
        by (simp add: other)
    qed simp_all
  qed
qed

definition system_inv :: "('g, 'd) ReviewSystem \<Rightarrow> bool" where
  "system_inv s \<longleftrightarrow> assets_inv (w_assets (rs_world s)) (w_versions (rs_world s)) (rs_reads s) (rs_clock s)"

lemma insert_asset_Inr:
  "insert_asset a w = Inr w' \<Longrightarrow> w_assets w' = w_assets w @ [a] \<and> w_versions w' = w_versions w"
  by (auto simp: insert_asset_def throwIf_def split: if_splits)

lemma one_row: "count_where p rs = 1 \<Longrightarrow> \<exists>r \<in> set rs. p r"
  by (cases "filter p rs") (auto simp: count_where_def filter_eq_Cons_iff)

lemma keeps_new_asset:
  assumes inv: "assets_inv as vs reads clock" and a: "at_id a \<notin> at_id ` set as" "at_lifecycle a = IN_REVIEW" "clock < at_updatedAt a"
    and v: "av_assetId v = at_id a" "at_updatedAt a \<le> av_createdAt v" "av_id v \<notin> av_id ` set vs"
  shows "assets_inv (as @ [a]) (vs @ [v]) reads (av_createdAt v)"
proof (rule keeps_version)
  show "assets_inv (as @ [a]) vs reads (at_updatedAt a)" by (rule keeps_insert [OF inv]) (use a in simp_all)
  show "at_updatedAt a \<le> av_createdAt v" "av_id v \<notin> av_id ` set vs" "a \<in> set (as @ [a])" "at_id a = av_assetId v" "at_lifecycle a \<noteq> PUBLISHED"
    using a v by simp_all
  show "\<forall>x \<in> set vs. av_createdAt x < av_createdAt v" "\<forall>q \<in> reads. at_id (fst q) = at_id a \<longrightarrow> at_updatedAt (fst q) < at_updatedAt a"
    using inv a(3) v(2) unfolding assets_inv_def tables_ok_def by fastforce+
qed

lemma keeps_resubmitted:
  assumes inv: "assets_inv as vs reads clock" and now: "clock < now" "now \<le> later" and a: "a \<in> set as" "at_id a = i" and fresh: "versionId \<notin> av_id ` set vs"
  shows "assets_inv (update_where (\<lambda>a. at_id a = i) (resubmitted title summary lang tags now) as)
           (vs @ [new_version H versionId i body redactions d required later]) reads later"
proof -
  let ?v = "new_version H versionId i body redactions d required later" and ?a = "resubmitted title summary lang tags now a"
  have "assets_inv (update_where (\<lambda>a. at_id a = i) (resubmitted title summary lang tags now) as) (vs @ [?v]) reads (av_createdAt ?v)"
  proof (rule keeps_version)
    show "assets_inv (update_where (\<lambda>a. at_id a = i) (resubmitted title summary lang tags now) as) vs reads now"
      by (rule keeps_update [OF inv now(1)]) (simp_all add: resubmitted_def)
    show "?a \<in> set (update_where (\<lambda>a. at_id a = i) (resubmitted title summary lang tags now) as)" using a by (auto simp: in_update_where)
    show "now \<le> av_createdAt ?v" "av_id ?v \<notin> av_id ` set vs" "at_id ?a = av_assetId ?v" "at_lifecycle ?a \<noteq> PUBLISHED"
      using now(2) fresh a by (simp_all add: new_version_def resubmitted_def)
    show "\<forall>x \<in> set vs. av_createdAt x < av_createdAt ?v" "\<forall>q \<in> reads. at_id (fst q) = at_id ?a \<longrightarrow> at_updatedAt (fst q) < at_updatedAt ?a"
      using inv now unfolding assets_inv_def tables_ok_def new_version_def resubmitted_def by fastforce+
  qed
  then show ?thesis by (simp add: new_version_def)
qed

lemma contribute_keeps:
  assumes inv: "assets_inv (w_assets w) (w_versions w) reads clock" and now: "clock < now" "now \<le> later" and fresh: "fresh_asset newId versionId w"
    and tx: "contribute_tx H newId versionId device input title tags body redactions required now later w = Inr (r, w')"
  shows "assets_inv (w_assets w') (w_versions w') reads later"
proof (cases "find (same_asset (dv_orgId device) (ci_scope input) (ci_teamId input) (ci_kind input) (ci_slug input)) (w_assets w)")
  case None
  then obtain w1 where w1: "insert_asset (authored newId device input title tags now) w = Inr w1"
    "w' = w1\<lparr>w_versions := w_versions w1 @ [new_version H versionId newId body redactions (Some (dv_id device)) required later]\<rparr>"
    using tx by (auto simp: contribute_tx_def Let_def bindR_eq_Inr)
  show ?thesis
    using keeps_new_asset [OF inv, of "authored newId device input title tags now" "new_version H versionId newId body redactions (Some (dv_id device)) required later"]
      insert_asset_Inr [OF w1(1)] fresh now by (simp add: w1(2) fresh_asset_def authored_def new_version_def)
next
  case (Some a)
  then have "a \<in> set (w_assets w)" by (auto simp: find_Some_iff)
  then show ?thesis
    using keeps_resubmitted [OF inv now _ refl, of a versionId] fresh tx Some by (auto simp: contribute_tx_def Let_def fresh_asset_def)
qed

lemma publish_keeps:
  assumes inv: "assets_inv (w_assets w) (w_versions w) reads clock" and now: "clock < now" and q: "(a, Some v) \<in> reads"
    and ok: "approval a v granted = Inr (approved, haystack)" and tx: "publish_tx a v approved haystack now w = Inr ((), w')"
  shows "assets_inv (w_assets w') (w_versions w') reads now"
proof -
  let ?p = "unchanged (at_id a) IN_REVIEW (at_updatedAt a)" and ?o = "\<lambda>x. av_id x = av_id v \<and> av_assetId x = at_id a \<and> av_reviewedAt x = None"
  have one: "count_where ?p (w_assets w) = 1" "count_where ?o (w_versions w) = 1"
    and w': "w' = w\<lparr>w_assets := update_where ?p (\<lambda>a. a\<lparr>at_lifecycle := PUBLISHED, at_searchText := haystack, at_updatedAt := now\<rparr>) (w_assets w),
                     w_versions := update_where ?o (\<lambda>v. v\<lparr>av_grantedCapabilities := approved, av_reviewedAt := Some now\<rparr>) (w_versions w)\<rparr>"
    using tx by (auto simp: publish_tx_def Let_def throwIf_def split: if_splits)
  obtain b x where "b \<in> set (w_assets w)" "?p b" "x \<in> set (w_versions w)" "?o x" using one_row [OF one(1)] one_row [OF one(2)] by blast
  then show ?thesis using keeps_publish [OF inv now q ok, of b x] by (simp add: w')
qed

lemma step_inv:
  assumes "review_step s s'" "system_inv s"
  shows "system_inv s'"
  using assms
proof (induction rule: review_step.induct)
  case (contributed newId versionId s now later H device input title tags body redactions required r w')
  then show ?case using contribute_keeps [OF _ contributed(2,3,1,4)] by (simp add: system_inv_def)
next
  case (read i s p)
  then show ?case using keeps_read by (fastforce simp: system_inv_def read_asset_def)
next
  case (rejected a v s now w')
  then show ?case
    using keeps_update [OF _ rejected(2), of _ _ _ "\<lambda>a. a\<lparr>at_lifecycle := DRAFT, at_updatedAt := now\<rparr>"]
    by (auto simp: system_inv_def reject_tx_def throwIf_def split: if_splits)
next
  case (published a v s now granted approved haystack w')
  then show ?case using publish_keeps [OF _ published(2,1,3,4)] by (simp add: system_inv_def)
next
  case (embedded s i e m d)
  then show ?case
    unfolding system_inv_def by (simp, intro keeps_embedding) (simp_all add: content_of_def reviewed_version_def)
next
  case (promoted a v s newId versionId now later H toScope toTeamId w')
  obtain redacted redactions where red: "redactSecrets (av_body v) = (redacted, redactions)" by fastforce
  let ?a = "promoted_asset newId a toScope toTeamId now" and ?v = "new_version H versionId newId redacted redactions None (av_requiredCapabilities v) later"
  have "w_assets w' = w_assets (rs_world s) @ [?a] \<and> w_versions w' = w_versions (rs_world s) @ [?v]"
    using promoted(5) insert_asset_Inr by (fastforce simp: promote_stmts_def bindR_eq_Inr red)
  then show ?case
    using keeps_new_asset [of "w_assets (rs_world s)" "w_versions (rs_world s)" "rs_reads s" "rs_clock s" ?a ?v] promoted
    by (simp add: system_inv_def fresh_asset_def promoted_asset_def new_version_def)
next
  case (deprecated a v s now supersededById w')
  then show ?case
    using keeps_update [OF _ deprecated(2), of _ _ _ "\<lambda>a. a\<lparr>at_lifecycle := DEPRECATED, at_supersededById := supersededById, at_updatedAt := now\<rparr>"]
    by (auto simp: system_inv_def deprecate_tx_def throwIf_def split: if_splits)
next
  case (elsewhere w' s)
  then show ?case by (simp add: system_inv_def)
qed

lemma reachable_inv: "review_reachable s \<Longrightarrow> system_inv s"
proof (induction rule: review_reachable.induct)
  case (empty s) then show ?case by (simp add: system_inv_def assets_inv_def tables_ok_def published_ok_def)
next
  case (step s s') then show ?case using step_inv by blast
qed


subsection \<open>An interleaved promotion\<close>

lemma update_fresh: "\<forall>r \<in> set rs. \<not> p r \<Longrightarrow> update_where p f (rs @ xs) = rs @ update_where p f xs"
  by (induction rs) (auto simp: update_where_def)

lemma count_fresh: "\<forall>r \<in> set rs. \<not> p r \<Longrightarrow> count_where p (rs @ xs) = count_where p xs"
  by (induction rs) (auto simp: count_where_def)

lemma find_fresh: "\<forall>r \<in> set rs. \<not> p r \<Longrightarrow> find p (rs @ xs) = find p xs"
  by (induction rs) auto

text \<open>
  Property C31. A promotion writes the asset and its version in two statements, and the second leaves the row's time alone. When a device contributes to
  the promoted asset and a reviewer reads it in between, the reviewer's approval of the contributed version is accepted, and what devices are
  given from then on is the promoted version, which nobody reviewed in its new scope.
\<close>

theorem promotion_race_publishes_unreviewed:
  assumes ok: "tables_ok (w_assets w) (w_versions w) clock" and times: "clock < t1" "t1 < t2" "t2 < t3"
    and fresh: "n \<notin> at_id ` set (w_assets w)" "vc \<notin> av_id ` set (w_versions w)" "vp \<notin> av_id ` set (w_versions w)" "vc \<noteq> vp"
    and none: "find (same_asset (at_orgId src) scope None (at_kind src) (at_slug src)) (w_assets w) = None"
    and create: "insert_asset (promoted_asset n src scope None t1) w = Inr w1"
    and key: "dv_orgId device = at_orgId src" "ci_scope input = scope" "ci_teamId input = None" "ci_kind input = at_kind src" "ci_slug input = at_slug src"
    and contribution: "contribute_tx H x vc device input title tags body labels required t2 t2 w1 = Inr (r, w2)"
    and read: "read_asset n w2 = Some (a, Some v)" and ok_v: "approval a v granted = Inr (approved, haystack)"
    and pv: "pv = new_version H vp n copy copied None needed t3"
  shows "av_body v = body \<and> av_reviewedAt pv = None \<and>
         (\<exists>w4 a'. publish_tx a v approved haystack t4 (w2\<lparr>w_versions := w_versions w2 @ [pv]\<rparr>) = Inr ((), w4) \<and> served (at_orgId src) n w4 = Some (a', pv))"
proof -
  let ?as = "w_assets w" and ?vs = "w_versions w" and ?b = "promoted_asset n src scope None t1"
  let ?a = "resubmitted title (ci_summary input) (ci_lang input) tags t2 ?b" and ?v = "new_version H vc n body labels (Some (dv_id device)) required t2"
  have w1: "w_assets w1 = ?as @ [?b]" "w_versions w1 = ?vs" using insert_asset_Inr [OF create] by auto
  have "find (same_asset (at_orgId src) scope None (at_kind src) (at_slug src)) (w_assets w1) = Some ?b"
    unfolding w1 by (rule find_snoc [OF none]) (simp add: same_asset_def promoted_asset_def)
  moreover have b: "at_id ?b = n" by (simp add: promoted_asset_def)
  moreover have as: "\<forall>b \<in> set ?as. at_id b \<noteq> n" using fresh(1) by auto
  then have "update_where (\<lambda>a. at_id a = n) f (?as @ [?b]) = ?as @ [f ?b]" for f using b by (simp add: update_fresh) (simp add: update_where_def)
  ultimately have w2: "w_assets w2 = ?as @ [?a]" "w_versions w2 = ?vs @ [?v]"
    using contribution key by (auto simp: contribute_tx_def Let_def w1)
  have vs: "\<forall>u \<in> set ?vs. av_id u \<noteq> vc" using fresh(1,2) by auto
  have old: "\<forall>u \<in> set (?vs @ [?v]). av_createdAt u < t3" "\<forall>u \<in> set ?vs. av_createdAt u < t2"
    using ok times by (fastforce simp: tables_ok_def new_version_def)+
  have "find_asset n (w_assets w2) = Some ?a" "newest_version n (w_versions w2) = Some ?v"
    using as old(2) by (simp_all add: find_asset_def w2 find_fresh newest_append resubmitted_def promoted_asset_def new_version_def)
  then have av: "a = ?a" "v = ?v" using read by (auto simp: read_asset_def)
  let ?p = "unchanged (at_id a) IN_REVIEW (at_updatedAt a)" and ?o = "\<lambda>x. av_id x = av_id v \<and> av_assetId x = at_id a \<and> av_reviewedAt x = None"
  let ?f = "\<lambda>a. a\<lparr>at_lifecycle := PUBLISHED, at_searchText := haystack, at_updatedAt := t4\<rparr>"
  let ?g = "\<lambda>v. v\<lparr>av_grantedCapabilities := approved, av_reviewedAt := Some t4\<rparr>"
  have ids: "at_id a = n" "at_orgId a = at_orgId src" "at_lifecycle a = IN_REVIEW" "av_id v = vc" "av_assetId v = n" "av_reviewedAt v = None" "av_createdAt v = t2"
    by (simp_all add: av resubmitted_def promoted_asset_def new_version_def)
  have pvs: "av_id pv = vp" "av_assetId pv = n" "av_createdAt pv = t3" "av_reviewedAt pv = None" by (simp_all add: pv new_version_def)
  have no: "\<forall>b \<in> set ?as. \<not> ?p b" "\<forall>u \<in> set ?vs. \<not> ?o u" using as vs ids by (auto simp: unchanged_def)
  have "count_where ?p (w_assets w2) = 1" "count_where ?o (w_versions w2 @ [pv]) = 1"
    using no ids pvs fresh(4) unfolding w2 append_assoc by (simp_all add: count_fresh av [symmetric]) (simp_all add: count_where_def unchanged_def)
  moreover have "update_where ?p ?f (w_assets w2) = ?as @ [?f a]" "update_where ?o ?g (w_versions w2 @ [pv]) = (?vs @ [?g v]) @ [pv]"
    using no ids pvs fresh(4) unfolding w2 append_assoc by (simp_all add: update_fresh av [symmetric]) (simp_all add: update_where_def unchanged_def)
  moreover have "newest_version n ((?vs @ [?g v]) @ [pv]) = Some pv"
    using old(1) pvs times(3) ids by (subst newest_append) auto
  ultimately have "publish_tx a v approved haystack t4 (w2\<lparr>w_versions := w_versions w2 @ [pv]\<rparr>) =
      Inr ((), w2\<lparr>w_versions := (?vs @ [?g v]) @ [pv], w_assets := ?as @ [?f a]\<rparr>)"
    "served (at_orgId src) n (w2\<lparr>w_versions := (?vs @ [?g v]) @ [pv], w_assets := ?as @ [?f a]\<rparr>) = Some (?f a, pv)"
    using as ids by (simp_all add: publish_tx_def throwIf_def served_def find_fresh)
  then show ?thesis using pvs by (auto simp: av(2) new_version_def)
qed

subsection \<open>Witnesses\<close>

definition asset_device :: Device where
  "asset_device =
     \<lparr>dv_id = ''d'', dv_orgId = ''c'', dv_name = ''laptop'', dv_os = [], dv_haraVersion = [], dv_enrolledAt = 1, dv_lastSeenAt = 1,
      dv_revocationRequestedAt = None, dv_revocationCompletedAt = None, dv_deskProvisionedAt = None, dv_deskCleanupPendingAt = None,
      dv_deskOwner = None, dv_deskOrigin = None, dv_enrollCodeId = None, dv_personId = None\<rparr>"

definition asset_input :: ContributeInput where
  "asset_input = \<lparr>ci_kind = SNIPPET, ci_scope = A_ORG, ci_teamId = None, ci_slug = ''s'', ci_title = None, ci_summary = None, ci_lang = None, ci_tags = None,
     ci_requiredCapabilities = None, ci_body = ''hi''\<rparr>"

definition asset_world :: "Asset list \<Rightarrow> AssetVersion list \<Rightarrow> (MockState, unit) AssetWorld" where
  "asset_world as vs =
     \<lparr>w_orgs = [], w_persons = [], w_codes = [], w_devices = [], w_tokens = [], w_bindings = [], w_secrets = Map.empty, w_audits = [], w_script = [],
      w_gateway = \<lparr>mk_spend = Map.empty, mk_models = Map.empty, mk_random = 0\<rparr>, w_desk = (),
      w_roles = [], w_teams = [], w_members = [], w_assignments = [], w_orgPolicy = (\<lambda>_. JObj []), w_assets = as, w_versions = vs\<rparr>"

definition sample_asset :: Asset where
  "sample_asset = authored ''a'' asset_device asset_input ''s'' [] 1"

definition sample_version :: AssetVersion where
  "sample_version = new_version (\<lambda>b. b) ''v'' ''a'' ''hi'' [] (Some ''d'') [] 1"

lemma approval_sample:
  assumes "at_kind a = SNIPPET" "av_body v = ''hi''" "av_requiredCapabilities v = []"
  shows "approval a v [] = Inr ([], searchTextFor (at_title a) (at_summary a) (at_tags a) (at_lang a) ''hi'')"
proof -
  have "scanForInjection ''hi'' = (True, [])" "redactSecrets ''hi'' = (''hi'', [])" "normalizeGrantedCapabilities SNIPPET [] [] = Inr []" by code_simp+
  then show ?thesis using assms by (simp add: approval_def)
qed

lemma sample_published:
  "\<exists>s a v. review_reachable (s :: (MockState, unit) ReviewSystem) \<and> served ''c'' ''a'' (rs_world s) = Some (a, v) \<and> av_body v = ''hi''"
proof -
  let ?h = "searchTextFor ''s'' None [] None ''hi''"
  let ?s0 = "\<lparr>rs_world = asset_world [] [], rs_reads = {}, rs_clock = 0\<rparr>"
  let ?s1 = "?s0\<lparr>rs_world := asset_world [sample_asset] [sample_version], rs_clock := 1\<rparr>"
  let ?s2 = "?s1\<lparr>rs_reads := {(sample_asset, Some sample_version)}\<rparr>"
  let ?a = "sample_asset\<lparr>at_lifecycle := PUBLISHED, at_searchText := ?h, at_updatedAt := 2\<rparr>"
  let ?v = "sample_version\<lparr>av_grantedCapabilities := [], av_reviewedAt := Some 2\<rparr>"
  let ?s3 = "?s2\<lparr>rs_world := asset_world [?a] [?v], rs_clock := 2\<rparr>"
  note defs = asset_world_def sample_asset_def sample_version_def authored_def new_version_def asset_device_def asset_input_def
  have "review_reachable ?s0" by (rule review_reachable.empty) (simp_all add: asset_world_def)
  moreover have "review_step ?s0 ?s1"
    using review_step.contributed [of "''a''" "''v''" ?s0 1 1 "\<lambda>b. b" asset_device asset_input "''s''" "[]" "''hi''" "[]" "[]"]
    by (simp add: fresh_asset_def contribute_tx_def insert_asset_def throwIf_def defs)
  moreover have "review_step ?s1 ?s2"
    using review_step.read [of "''a''" ?s1] by (simp add: read_asset_def find_asset_def newest_version_def defs)
  moreover have "review_step ?s2 ?s3"
    using review_step.published [of sample_asset sample_version ?s2 2 "[]" "[]" ?h "asset_world [?a] [?v]"] approval_sample [of sample_asset sample_version]
    by (simp add: publish_tx_def throwIf_def count_where_def update_where_def unchanged_def defs)
  ultimately have "review_reachable ?s3" by (meson review_reachable.step)
  moreover have "served ''c'' ''a'' (rs_world ?s3) = Some (?a, ?v)" by (simp add: served_def newest_version_def defs)
  moreover have "av_body ?v = ''hi''" by (simp add: sample_version_def new_version_def)
  ultimately show ?thesis by blast
qed


theorem promotion_race_publishes_unreviewed_witness:
  "\<exists>w1 r w2 a v w4 a'. insert_asset (promoted_asset ''n'' (sample_asset\<lparr>at_scope := A_PERSONAL\<rparr>) A_ORG None 2) (asset_world [] []) = Inr w1 \<and>
     contribute_tx (\<lambda>b. b) ''x'' ''c'' asset_device asset_input ''s'' [] ''hi'' [] [] 3 3 w1 = Inr (r, w2) \<and> read_asset ''n'' w2 = Some (a, Some v) \<and>
     publish_tx a v [] (searchTextFor ''s'' None [] None ''hi'') 5 (w2\<lparr>w_versions := w_versions w2 @ [new_version (\<lambda>b. b) ''p'' ''n'' ''other'' [] None [] 4]\<rparr>) = Inr ((), w4) \<and>
     served ''c'' ''n'' w4 = Some (a', new_version (\<lambda>b. b) ''p'' ''n'' ''other'' [] None [] 4)"
proof -
  let ?src = "sample_asset\<lparr>at_scope := A_PERSONAL\<rparr>"
  let ?b = "promoted_asset ''n'' ?src A_ORG None 2"
  let ?a = "resubmitted ''s'' None None [] 3 ?b" and ?v = "new_version (\<lambda>b. b) ''c'' ''n'' ''hi'' [] (Some ''d'') [] 3"
  note defs = asset_world_def sample_asset_def authored_def asset_device_def asset_input_def promoted_asset_def
  have 1: "insert_asset ?b (asset_world [] []) = Inr (asset_world [?b] [])" by (simp add: insert_asset_def throwIf_def defs)
  have 2: "contribute_tx (\<lambda>b. b) ''x'' ''c'' asset_device asset_input ''s'' [] ''hi'' [] [] 3 3 (asset_world [?b] []) = Inr ((''n'', ''c''), asset_world [?a] [?v])"
    by (simp add: contribute_tx_def update_where_def same_asset_def defs)
  have 3: "read_asset ''n'' (asset_world [?a] [?v]) = Some (?a, Some ?v)"
    by (simp add: read_asset_def find_asset_def newest_version_def resubmitted_def new_version_def defs)
  have 4: "approval ?a ?v [] = Inr ([], searchTextFor ''s'' None [] None ''hi'')"
    using approval_sample [of ?a ?v] by (simp add: resubmitted_def new_version_def defs)
  have "\<exists>w4 a'. publish_tx ?a ?v [] (searchTextFor ''s'' None [] None ''hi'') 5
           ((asset_world [?a] [?v])\<lparr>w_versions := w_versions (asset_world [?a] [?v]) @ [new_version (\<lambda>b. b) ''p'' ''n'' ''other'' [] None [] 4]\<rparr>) = Inr ((), w4) \<and>
         served (at_orgId ?src) ''n'' w4 = Some (a', new_version (\<lambda>b. b) ''p'' ''n'' ''other'' [] None [] 4)"
    by (rule promotion_race_publishes_unreviewed [OF _ _ _ _ _ _ _ _ _ 1 _ _ _ _ _ 2 3 4 refl, of 1, THEN conjunct2, THEN conjunct2])
      (simp_all add: tables_ok_def defs)
  then show ?thesis using 1 2 3 by (auto simp: sample_asset_def authored_def asset_device_def)
qed

end
