(* ===== verification/Work.thy ===== *)
theory Work
  imports Assets
begin

section \<open>Work sessions (work/work.service.ts)\<close>

text \<open>
  Devices report batches of completed work sessions. Each row carries the hash of its device's row with the greatest sequence number at the time,
  and a hash of its own. \<^verbatim>\<open>deviceFromBearer\<close> is the same text as in the asset service.
\<close>

datatype WorkSessionKind = CODING | REVIEW | AGENT_RUN | CHAT
datatype WorkOutcome = COMMITTED | ABANDONED | BLOCKED | W_ERROR | UNKNOWN

definition session_kind_name :: "WorkSessionKind \<Rightarrow> string" where
  "session_kind_name k = (case k of CODING \<Rightarrow> ''CODING'' | REVIEW \<Rightarrow> ''REVIEW'' | AGENT_RUN \<Rightarrow> ''AGENT_RUN'' | CHAT \<Rightarrow> ''CHAT'')"

definition outcome_name :: "WorkOutcome \<Rightarrow> string" where
  "outcome_name x = (case x of COMMITTED \<Rightarrow> ''COMMITTED'' | ABANDONED \<Rightarrow> ''ABANDONED'' | BLOCKED \<Rightarrow> ''BLOCKED'' | W_ERROR \<Rightarrow> ''ERROR'' | UNKNOWN \<Rightarrow> ''UNKNOWN'')"

record WorkSession =
  ws_id :: string
  ws_orgId :: string
  ws_deviceId :: string
  ws_personId :: "string option"
  ws_roleKey :: string
  ws_kind :: WorkSessionKind
  ws_repoHash :: string
  ws_taskTitle :: string
  ws_toolCalls :: jsval
  ws_tasksCount :: int
  ws_filesTouched :: int
  ws_filePathsHashed :: "string list"
  ws_approvalsRequested :: int
  ws_approvalsGranted :: int
  ws_outcome :: WorkOutcome
  ws_commitShas :: "string list"
  ws_model :: string
  ws_tokensIn :: int
  ws_tokensOut :: int
  ws_latencyMs :: int
  ws_startedAt :: time
  ws_endedAt :: "time option"
  ws_at :: time
  ws_seq :: int
  ws_prevHash :: string
  ws_rowHash :: string

record WorkSessionInput =
  wi_seq :: int
  wi_startedAt :: string
  wi_endedAt :: "string option"
  wi_kind :: "WorkSessionKind option"
  wi_roleKey :: "string option"
  wi_repoHash :: "string option"
  wi_taskTitle :: "string option"
  wi_toolCalls :: "(string \<times> number) list option"
  wi_tasksCount :: "int option"
  wi_filesTouched :: "int option"
  wi_filePathsHashed :: "string list option"
  wi_approvalsRequested :: "int option"
  wi_approvalsGranted :: "int option"
  wi_outcome :: "WorkOutcome option"
  wi_commitShas :: "string list option"
  wi_model :: "string option"
  wi_tokensIn :: "int option"
  wi_tokensOut :: "int option"
  wi_latencyMs :: "int option"

record ('g, 'd) WorkWorld = "('g, 'd) World" +
  w_sessions :: "WorkSession list"

text \<open>\<^verbatim>\<open>JSON.stringify\<close> of an object of strings and numbers, its members in the order they are written.\<close>

definition stringify_flat :: "(string \<times> jsval) list \<Rightarrow> string" where
  "stringify_flat kvs = ''{'' @ join '','' (map (\<lambda>(k, v). json_string k @ '':'' @ canonicalJson v) kvs) @ ''}''"

definition work_chainHash :: "(string \<Rightarrow> string) \<Rightarrow> (string \<times> jsval) list \<Rightarrow> string \<Rightarrow> string" where
  "work_chainHash H members prevHash = H (stringify_flat members @ prevHash)"

definition session_identity :: "string \<Rightarrow> string \<Rightarrow> WorkSessionInput \<Rightarrow> (string \<times> jsval) list" where
  "session_identity deviceId taskTitle s =
     [(''deviceId'', JStr deviceId), (''seq'', JNum (num (wi_seq s))), (''kind'', JStr (session_kind_name (nullish (wi_kind s) CODING))),
      (''repoHash'', JStr (nullish (wi_repoHash s) [])), (''outcome'', JStr (outcome_name (nullish (wi_outcome s) UNKNOWN))),
      (''startedAt'', JStr (wi_startedAt s)), (''tasksCount'', JNum (num (nullish (wi_tasksCount s) 0))), (''taskTitle'', JStr taskTitle)]"

definition session_row ::
  "(string \<Rightarrow> string) \<Rightarrow> string \<Rightarrow> Device \<Rightarrow> WorkSessionInput \<Rightarrow> string \<Rightarrow> time \<Rightarrow> time option \<Rightarrow> time \<Rightarrow> string \<Rightarrow> WorkSession" where
  "session_row H newId device s taskTitle started ended now prevHash =
     \<lparr>ws_id = newId, ws_orgId = dv_orgId device, ws_deviceId = dv_id device, ws_personId = dv_personId device, ws_roleKey = nullish (wi_roleKey s) [],
      ws_kind = nullish (wi_kind s) CODING, ws_repoHash = nullish (wi_repoHash s) [], ws_taskTitle = taskTitle,
      ws_toolCalls = JObj (map (\<lambda>(k, n). (k, JNum n)) (nullish (wi_toolCalls s) [])), ws_tasksCount = nullish (wi_tasksCount s) 0,
      ws_filesTouched = nullish (wi_filesTouched s) 0, ws_filePathsHashed = nullish (wi_filePathsHashed s) [],
      ws_approvalsRequested = nullish (wi_approvalsRequested s) 0, ws_approvalsGranted = nullish (wi_approvalsGranted s) 0,
      ws_outcome = nullish (wi_outcome s) UNKNOWN, ws_commitShas = nullish (wi_commitShas s) [], ws_model = nullish (wi_model s) [],
      ws_tokensIn = nullish (wi_tokensIn s) 0, ws_tokensOut = nullish (wi_tokensOut s) 0, ws_latencyMs = nullish (wi_latencyMs s) 0,
      ws_startedAt = started, ws_endedAt = ended, ws_at = now, ws_seq = wi_seq s, ws_prevHash = prevHash,
      ws_rowHash = work_chainHash H (session_identity (dv_id device) taskTitle s) prevHash\<rparr>"

definition device_rows :: "string \<Rightarrow> WorkSession list \<Rightarrow> WorkSession list" where
  "device_rows deviceId rows = sort_key ws_seq (filter (\<lambda>r. ws_deviceId r = deviceId) rows)"

definition last_session :: "string \<Rightarrow> WorkSession list \<Rightarrow> WorkSession option" where
  "last_session deviceId rows = (let rs = device_rows deviceId rows in if rs = [] then None else Some (last rs))"

definition has_session :: "string \<Rightarrow> int \<Rightarrow> WorkSession list \<Rightarrow> bool" where
  "has_session deviceId sq rows \<longleftrightarrow> list_ex (\<lambda>r. ws_deviceId r = deviceId \<and> ws_seq r = sq) rows"

text \<open>One round of the loop: whether a row was written.\<close>

definition ingest_one ::
  "(string \<Rightarrow> string) \<Rightarrow> (string \<Rightarrow> time option) \<Rightarrow> string \<Rightarrow> time \<Rightarrow> Device \<Rightarrow> WorkSessionInput \<Rightarrow> (('g, 'd, 'x) WorkWorld_scheme, bool) act" where
  "ingest_one H dateParse newId now device s =
     bindA (readS (\<lambda>w. has_session (dv_id device) (wi_seq s) (w_sessions w))) (\<lambda>exists.
     if exists then retA False
     else
       bindA (readS (\<lambda>w. last_session (dv_id device) (w_sessions w))) (\<lambda>prev.
       case (dateParse (wi_startedAt s), truthyStr (wi_endedAt s), Option.bind (truthyStr (wi_endedAt s)) dateParse) of
         (None, _, _) \<Rightarrow> throwA (PlainError ''Provided Date object is invalid'')
       | (Some _, Some _, None) \<Rightarrow> throwA (PlainError ''Provided Date object is invalid'')
       | (Some started, _, ended) \<Rightarrow>
           thenA (writeS (\<lambda>w. w\<lparr>w_sessions := w_sessions w @
                     [session_row H newId device s (fst (redactSecrets (nullish (wi_taskTitle s) []))) started ended now (nullish (map_option ws_rowHash prev) [])]\<rparr>))
          (retA True)))"

fun ingest_loop ::
  "(string \<Rightarrow> string) \<Rightarrow> (string \<Rightarrow> time option) \<Rightarrow> (nat \<Rightarrow> string) \<Rightarrow> time \<Rightarrow> Device \<Rightarrow> nat \<times> nat \<Rightarrow> WorkSessionInput list \<Rightarrow>
   (('g, 'd, 'x) WorkWorld_scheme, nat \<times> nat) act" where
  "ingest_loop H dateParse ids now device counts [] = retA counts"
| "ingest_loop H dateParse ids now device (ingested, skipped) (s # ss) =
     bindA (ingest_one H dateParse (ids (ingested + skipped)) now device s) (\<lambda>new.
     ingest_loop H dateParse ids now device (if new then (Suc ingested, skipped) else (ingested, Suc skipped)) ss)"

definition ingest ::
  "('g, 'd) Sys \<Rightarrow> LicenseService \<Rightarrow> (string \<Rightarrow> time option) \<Rightarrow> string \<Rightarrow> (nat \<Rightarrow> string) \<Rightarrow> time \<Rightarrow> string option \<Rightarrow> WorkSessionInput list \<Rightarrow>
   (('g, 'd, 'x) WorkWorld_scheme, nat \<times> nat) act" where
  "ingest sy ls dateParse auId ids now bearer sessions =
     thenA (liftR (entitlement_assert ls (num (now div 1000)) ''work-audit''))
    (bindA (deviceFromBearer sy now bearer) (\<lambda>device.
     bindA (ingest_loop (sy_sha256 sy) dateParse ids now device (0, 0) (sort_key wi_seq sessions)) (\<lambda>(ingested, skipped).
     thenA (auditLogA (sy_sha256 sy) auId now (dv_orgId device) ''work.session.ingest'' ''device'' (dv_id device)
        (JObj [(''ingested'', JNum (num (int ingested))), (''skipped'', JNum (num (int skipped)))]))
     (retA (ingested, skipped)))))"

definition list_sessions :: "string \<Rightarrow> string option \<Rightarrow> nat option \<Rightarrow> (('g, 'd, 'x) WorkWorld_scheme, WorkSession list) act" where
  "list_sessions orgId personId limit =
     readS (\<lambda>w. take (nullish limit 100) (sort_key (\<lambda>r. - ws_at r)
       (filter (\<lambda>r. ws_orgId r = orgId \<and> (case truthyStr personId of None \<Rightarrow> True | p \<Rightarrow> ws_personId r = p)) (w_sessions w))))"

end
