(* ===== verification/WorkChain.thy ===== *)
theory WorkChain
  imports Work
begin

section \<open>The chain of a device's work sessions (work/work.service.ts)\<close>

text \<open>
  What an auditor can check of the stored rows: the hash of each row is the hash of its columns and of the row before it. Ingestion keeps this as long
  as sequence numbers grow and start times are written the way the database prints them; what follows shows that both are needed.
\<close>

subsection \<open>Checking the stored rows\<close>

definition stored_identity :: "WorkSession \<Rightarrow> (string \<times> jsval) list" where
  "stored_identity r =
     [(''deviceId'', JStr (ws_deviceId r)), (''seq'', JNum (num (ws_seq r))), (''kind'', JStr (session_kind_name (ws_kind r))),
      (''repoHash'', JStr (ws_repoHash r)), (''outcome'', JStr (outcome_name (ws_outcome r))), (''startedAt'', JStr (toISOString (ws_startedAt r))),
      (''tasksCount'', JNum (num (ws_tasksCount r))), (''taskTitle'', JStr (ws_taskTitle r))]"

definition session_chain :: "string \<Rightarrow> WorkSession list \<Rightarrow> (string \<times> string) list" where
  "session_chain deviceId rows = map (\<lambda>r. (stringify_flat (stored_identity r), ws_rowHash r)) (device_rows deviceId rows)"

text \<open>The texts end where their brace closes, so a chain of them is as strong as its digest.\<close>

definition flat_texts :: "string set" where
  "flat_texts = range stringify_flat"

lemma scan_flat: "scan 0 False (stringify_flat kvs @ r) = Some r"
proof -
  let ?body = "join '','' (map (\<lambda>(k, v). json_string k @ '':'' @ canonicalJson v) kvs)"
  have "scan 1 False (?body @ CHR ''}'' # r) = scan 1 False (CHR ''}'' # r)"
    by (intro scan_join) (auto simp: scan_json_string scan_json)
  then show ?thesis by (simp add: stringify_flat_def)
qed

interpretation session_texts: chained_texts flat_texts
proof unfold_locales
  fix s t p q assume "s \<in> flat_texts" "t \<in> flat_texts" "s @ p = t @ q"
  then show "s = t \<and> p = q" unfolding flat_texts_def using scan_flat by (metis imageE option.inject append_same_eq)
qed

lemma sessions_with_same_head:
  assumes "\<And>x. H x \<noteq> []" "linked H [] (session_chain d rows)" "linked H [] (session_chain d rows')"
    "head_hash [] (session_chain d rows) = head_hash [] (session_chain d rows')"
  shows "session_chain d rows = session_chain d rows' \<or>
         (\<exists>x \<in> set (preimages [] (session_chain d rows)). \<exists>y \<in> set (preimages [] (session_chain d rows')). x \<noteq> y \<and> H x = H y)"
  by (rule session_texts.same_head_same_chain) (use assms in \<open>auto simp: session_chain_def flat_texts_def\<close>)

subsection \<open>Appending a session\<close>

lemma device_rows_append:
  assumes "\<And>r. r \<in> set rows \<Longrightarrow> ws_deviceId r = ws_deviceId x \<Longrightarrow> ws_seq r < ws_seq x"
  shows "device_rows d (rows @ [x]) = (if ws_deviceId x = d then device_rows d rows @ [x] else device_rows d rows)"
  using assms by (auto simp: device_rows_def less_imp_le intro!: sort_key_snoc)

lemma last_hash: "nullish (map_option ws_rowHash (last_session d rows)) [] = head_hash [] (session_chain d rows)"
  by (simp add: last_session_def session_chain_def head_hash_def last_map Let_def)

lemma row_fields [simp]:
  "ws_deviceId (session_row H i device s t st en now p) = dv_id device" "ws_seq (session_row H i device s t st en now p) = wi_seq s"
  "ws_prevHash (session_row H i device s t st en now p) = p"
  by (simp_all add: session_row_def)

lemma row_link:
  assumes "toISOString started = wi_startedAt s"
  shows "ws_rowHash (session_row H i device s t started ended now p) =
         H (stringify_flat (stored_identity (session_row H i device s t started ended now p)) @ p)"
  using assms by (simp add: session_row_def stored_identity_def session_identity_def work_chainHash_def)

text \<open>The columns do not tell how the client spelled the start time, but the hash depends on it.\<close>

lemma spelling_is_not_stored:
  "(session_row H i device (s\<lparr>wi_startedAt := other\<rparr>) t started ended now p)\<lparr>ws_rowHash := h\<rparr> = (session_row H i device s t started ended now p)\<lparr>ws_rowHash := h\<rparr>"
  by (simp add: session_row_def)

definition printed_times :: "(string \<Rightarrow> time option) \<Rightarrow> WorkSessionInput list \<Rightarrow> bool" where
  "printed_times dateParse ss \<longleftrightarrow> (\<forall>s \<in> set ss. \<forall>t. dateParse (wi_startedAt s) = Some t \<longrightarrow> toISOString t = wi_startedAt s)"

definition growing :: "string \<Rightarrow> WorkSessionInput list \<Rightarrow> WorkSession list \<Rightarrow> bool" where
  "growing d ss rows \<longleftrightarrow> (\<forall>s \<in> set ss. has_session d (wi_seq s) rows \<or> (\<forall>r \<in> set rows. ws_deviceId r = d \<longrightarrow> ws_seq r < wi_seq s))"

definition ingest_inv :: "(string \<Rightarrow> string) \<Rightarrow> string \<Rightarrow> (string \<Rightarrow> (string \<times> string) list) \<Rightarrow> WorkSessionInput list \<Rightarrow> ('g, 'd, 'x) WorkWorld_scheme \<Rightarrow> bool" where
  "ingest_inv H d others ss w \<longleftrightarrow>
     linked H [] (session_chain d (w_sessions w)) \<and> growing d ss (w_sessions w) \<and> (\<forall>e. e \<noteq> d \<longrightarrow> session_chain e (w_sessions w) = others e)"

lemma scriptless_ingest_inv [simp]: "scriptless (ingest_inv H d others ss)" "scriptless (\<lambda>w. ingest_inv H d others ss w \<and> Q (w_sessions w))"
  by (auto intro!: scriptlessI simp: ingest_inv_def)

lemma append_keeps:
  assumes "ingest_inv H (dv_id device) others (s # ss) w" "\<not> has_session (dv_id device) (wi_seq s) (w_sessions w)" "sorted (map wi_seq (s # ss))"
    and started: "toISOString started = wi_startedAt s"
    and x: "x = session_row H i device s t started ended now (head_hash [] (session_chain (dv_id device) (w_sessions w)))"
  shows "ingest_inv H (dv_id device) others ss (w\<lparr>w_sessions := w_sessions w @ [x]\<rparr>)"
proof -
  have dx: "ws_deviceId x = dv_id device" by (simp add: x)
  have less: "ws_seq r < ws_seq x" if "r \<in> set (w_sessions w)" "ws_deviceId r = ws_deviceId x" for r
    using assms(1,2) that by (auto simp: ingest_inv_def growing_def x)
  have chain: "session_chain d (w_sessions w @ [x]) = session_chain d (w_sessions w) @ (if dv_id device = d then [(stringify_flat (stored_identity x), ws_rowHash x)] else [])" for d
    using device_rows_append [of "w_sessions w" x d] less dx by (auto simp: session_chain_def)
  have "growing (dv_id device) ss (w_sessions w @ [x])"
    unfolding growing_def
  proof
    fix s' assume "s' \<in> set ss"
    then have "wi_seq s \<le> wi_seq s'"
      "has_session (dv_id device) (wi_seq s') (w_sessions w) \<or> (\<forall>r \<in> set (w_sessions w). ws_deviceId r = dv_id device \<longrightarrow> ws_seq r < wi_seq s')"
      using assms(1,3) by (auto simp: ingest_inv_def growing_def)
    then show "has_session (dv_id device) (wi_seq s') (w_sessions w @ [x]) \<or>
      (\<forall>r \<in> set (w_sessions w @ [x]). ws_deviceId r = dv_id device \<longrightarrow> ws_seq r < wi_seq s')"
      by (cases "wi_seq s = wi_seq s'") (auto simp: has_session_def x)
  qed
  then show ?thesis
    using assms(1) row_link [OF started, of H i device t ended now] by (auto simp: ingest_inv_def chain linked_snoc) (simp_all add: x)
qed

lemma ingest_inv_weaken: "ingest_inv H d others (s # ss) w \<Longrightarrow> ingest_inv H d others ss w" "ingest_inv H d others ss w \<Longrightarrow> ingest_inv H d others [] w"
  by (auto simp: ingest_inv_def growing_def)

lemma hoare_ingest_one:
  assumes "sorted (map wi_seq (s # ss))" "printed_times dateParse (s # ss)"
  shows "hoare (ingest_inv H (dv_id device) others (s # ss)) (ingest_one H dateParse newId now device s)
           (\<lambda>_. ingest_inv H (dv_id device) others ss) (\<lambda>_. ingest_inv H (dv_id device) others [])"
proof -
  let ?I = "ingest_inv H (dv_id device) others"
  have quiet: "scriptless (\<lambda>w. ?I (s # ss) w \<and> (\<not> has_session (dv_id device) (wi_seq s) (w_sessions w) \<and> prev = last_session (dv_id device) (w_sessions w)))" for prev
    by (auto intro!: scriptlessI simp: ingest_inv_def)
  have writing: "hoare (\<lambda>w. ?I (s # ss) w \<and> (\<not> has_session (dv_id device) (wi_seq s) (w_sessions w) \<and> prev = last_session (dv_id device) (w_sessions w)))
      (thenA (writeS (\<lambda>w. w\<lparr>w_sessions := w_sessions w @ [session_row H newId device s t started ended now (nullish (map_option ws_rowHash prev) [])]\<rparr>)) (retA True))
      (\<lambda>_. ?I ss) (\<lambda>_. ?I [])"
    if "toISOString started = wi_startedAt s" for prev t started ended
    by (rule hoare_thenA [where R = "?I ss"], rule hoare_writeS [OF quiet])
      (auto simp: last_hash intro!: hoare_retA append_keeps [OF _ _ assms(1) that refl] intro: ingest_inv_weaken)
  have iso: "toISOString t = wi_startedAt s" if "dateParse (wi_startedAt s) = Some t" for t
    using assms(2) that by (auto simp: printed_times_def)
  show ?thesis
    unfolding ingest_one_def
  proof (rule hoare_bindA [where R = "\<lambda>e w. ?I (s # ss) w \<and> (e \<longleftrightarrow> has_session (dv_id device) (wi_seq s) (w_sessions w))"], goal_cases)
    case 1 show ?case by (rule hoare_readS) (auto intro: ingest_inv_weaken)
  next
    case (2 e)
    show ?case
    proof (rule hoare_split, goal_cases)
      case 1 then show ?case by (intro hoare_retA) (blast intro: ingest_inv_weaken)
    next
      case 2
      show ?case
      proof (rule hoare_bindA [where R = "\<lambda>prev w. ?I (s # ss) w \<and> (\<not> has_session (dv_id device) (wi_seq s) (w_sessions w) \<and> prev = last_session (dv_id device) (w_sessions w))"], goal_cases)
        case 1 show ?case using 2 by (intro hoare_readS) (auto intro!: scriptlessI simp: ingest_inv_def growing_def)
      next
        case (2 prev)
        show ?case by (cases "dateParse (wi_startedAt s)"; cases "truthyStr (wi_endedAt s)"; cases "Option.bind (truthyStr (wi_endedAt s)) dateParse")
          (auto intro!: hoare_throwA writing dest: iso intro: ingest_inv_weaken)
      qed
    qed
  qed
qed

lemma hoare_ingest_loop:
  assumes "sorted (map wi_seq ss)" "printed_times dateParse ss"
  shows "hoare (ingest_inv H (dv_id device) others ss) (ingest_loop H dateParse ids now device counts ss)
           (\<lambda>c w. ingest_inv H (dv_id device) others [] w \<and> fst c + snd c = fst counts + snd counts + length ss) (\<lambda>_. ingest_inv H (dv_id device) others [])"
  using assms
proof (induction ss arbitrary: counts)
  case Nil show ?case by (cases counts) (simp add: hoare_retA)
next
  case (Cons s ss)
  obtain a b where c: "counts = (a, b)" by fastforce
  show ?case
    unfolding c ingest_loop.simps
  proof (rule hoare_bindA [OF hoare_ingest_one [OF Cons.prems]], goal_cases)
    case (1 new)
    have "printed_times dateParse ss" using Cons.prems(2) by (simp add: printed_times_def)
    then show ?case
      using Cons.IH [of "if new then (Suc a, b) else (a, Suc b)"] Cons.prems(1) by (auto elim!: hoare_weaken split: if_splits)
  qed
qed


subsection \<open>Sessions that arrive late\<close>

definition newest_session :: "string \<Rightarrow> WorkSession \<Rightarrow> WorkSession list \<Rightarrow> bool" where
  "newest_session d r rows \<longleftrightarrow> r \<in> set rows \<and> ws_deviceId r = d \<and> (\<forall>y \<in> set rows. ws_deviceId y = d \<longrightarrow> y = r \<or> ws_seq y < ws_seq r)"

lemma sorted_last: "sorted (map k xs) \<Longrightarrow> x \<in> set xs \<Longrightarrow> k x \<le> k (last xs)"
  by (induction xs) auto

lemma last_of_newest:
  assumes "newest_session d r rows"
  shows "last_session d rows = Some r"
proof -
  have r: "r \<in> set (device_rows d rows)" using assms by (simp add: device_rows_def newest_session_def)
  then have ne: "device_rows d rows \<noteq> []" by auto
  have "sorted (map ws_seq (device_rows d rows))" by (simp add: device_rows_def)
  then have "ws_seq r \<le> ws_seq (last (device_rows d rows))"
    by (rule sorted_last [OF _ r])
  moreover have "last (device_rows d rows) \<in> set rows" "ws_deviceId (last (device_rows d rows)) = d"
    using last_in_set [OF ne] by (auto simp: device_rows_def)
  ultimately have "last (device_rows d rows) = r" using assms by (fastforce simp: newest_session_def)
  then show ?thesis using ne by (simp add: last_session_def)
qed

lemma ingest_one_runs:
  assumes "w_script w = []" "\<not> has_session (dv_id device) (wi_seq s) (w_sessions w)" "newest_session (dv_id device) r (w_sessions w)"
    "dateParse (wi_startedAt s) = Some started" "wi_endedAt s = None"
  shows "\<exists>t. ingest_one H dateParse i now device s w =
           (w\<lparr>w_sessions := w_sessions w @ [session_row H i device s t started None now (ws_rowHash r)]\<rparr>, Inr True)"
  using assms last_of_newest [OF assms(3)]
  by (auto simp: ingest_one_def bindA_def thenA_def readS_def writeS_def stmt_def retA_def truthyStr_def)

text \<open>
  Property C33. A session with a smaller number than the device's newest row is accepted, is linked to that newer row, and the next session is linked to
  the same row: the chain forks, and no later row depends on the late one.
\<close>

theorem late_session_forks_chain:
  assumes "w_script w = []" and r: "newest_session (dv_id device) r (w_sessions w)"
    and late: "wi_seq late < ws_seq r" "\<not> has_session (dv_id device) (wi_seq late) (w_sessions w)" "ws_seq r < wi_seq next"
    and dates: "dateParse (wi_startedAt late) = Some t1" "dateParse (wi_startedAt next) = Some t2" "wi_endedAt late = None" "wi_endedAt next = None"
  shows "\<exists>w' x y. ingest_loop H dateParse ids now device (0, 0) (sort_key wi_seq [next, late]) w = (w', Inr (2, 0)) \<and> w_sessions w' = w_sessions w @ [x, y] \<and>
           ws_seq x < ws_seq r \<and> ws_seq r < ws_seq y \<and> ws_prevHash x = ws_rowHash r \<and> ws_prevHash y = ws_rowHash r"
proof -
  obtain a where a: "ingest_one H dateParse (ids 0) now device late w =
      (w\<lparr>w_sessions := w_sessions w @ [session_row H (ids 0) device late a t1 None now (ws_rowHash r)]\<rparr>, Inr True)"
    using ingest_one_runs [of w device late r dateParse t1] assms(1) late(2) r dates(1,3) by blast
  let ?x = "session_row H (ids 0) device late a t1 None now (ws_rowHash r)"
  let ?w = "w\<lparr>w_sessions := w_sessions w @ [?x]\<rparr>"
  have "newest_session (dv_id device) r (w_sessions ?w)" using r late(1) by (auto simp: newest_session_def)
  moreover have "\<not> has_session (dv_id device) (wi_seq next) (w_sessions ?w)"
    using r late(1,3) by (auto simp: newest_session_def has_session_def list_ex_iff)
  ultimately obtain b where b: "ingest_one H dateParse (ids 1) now device next ?w =
      (?w\<lparr>w_sessions := w_sessions ?w @ [session_row H (ids 1) device next b t2 None now (ws_rowHash r)]\<rparr>, Inr True)"
    using ingest_one_runs [of ?w device "next" r dateParse t2 H "ids 1" now] assms(1) dates(2,4) by (auto simp del: One_nat_def)
  have "sort_key wi_seq [next, late] = [late, next]" using late(1,3) by simp
  then show ?thesis using a b late(1,3) by (simp add: bindA_def retA_def numeral_2_eq_2)
qed

subsection \<open>Witnesses\<close>

definition work_device :: Device where
  "work_device =
     \<lparr>dv_id = ''d'', dv_orgId = ''c'', dv_name = ''laptop'', dv_os = [], dv_haraVersion = [], dv_enrolledAt = 1, dv_lastSeenAt = 1,
      dv_revocationRequestedAt = None, dv_revocationCompletedAt = None, dv_deskProvisionedAt = None, dv_deskCleanupPendingAt = None,
      dv_deskOwner = None, dv_deskOrigin = None, dv_enrollCodeId = None, dv_personId = None\<rparr>"

definition work_session :: "int \<Rightarrow> string \<Rightarrow> WorkSessionInput" where
  "work_session n startedAt =
     \<lparr>wi_seq = n, wi_startedAt = startedAt, wi_endedAt = None, wi_kind = None, wi_roleKey = None, wi_repoHash = None, wi_taskTitle = None, wi_toolCalls = None,
      wi_tasksCount = None, wi_filesTouched = None, wi_filePathsHashed = None, wi_approvalsRequested = None, wi_approvalsGranted = None, wi_outcome = None,
      wi_commitShas = None, wi_model = None, wi_tokensIn = None, wi_tokensOut = None, wi_latencyMs = None\<rparr>"

definition work_world :: "WorkSession list \<Rightarrow> (MockState, unit) WorkWorld" where
  "work_world rows =
     \<lparr>w_orgs = [], w_persons = [], w_codes = [], w_devices = [], w_tokens = [], w_bindings = [], w_secrets = Map.empty, w_audits = [], w_script = [],
      w_gateway = \<lparr>mk_spend = Map.empty, mk_models = Map.empty, mk_random = 0\<rparr>, w_desk = (), w_sessions = rows\<rparr>"

definition parse_epoch :: "string \<Rightarrow> time option" where
  "parse_epoch s = (if s = toISOString 0 then Some 0 else None)"


theorem late_session_forks_chain_witness:
  "\<exists>r w' x y. newest_session ''d'' r [r] \<and>
     ingest_loop (\<lambda>t. t) parse_epoch (\<lambda>_. ''i'') 1 work_device (0, 0) (sort_key wi_seq [work_session 7 (toISOString 0), work_session 4 (toISOString 0)]) (work_world [r]) = (w', Inr (2, 0)) \<and>
     w_sessions w' = [r, x, y] \<and> ws_seq x < ws_seq r \<and> ws_seq r < ws_seq y \<and> ws_prevHash x = ws_rowHash r \<and> ws_prevHash y = ws_rowHash r"
proof -
  define r where "r = session_row (\<lambda>t. t) ''i'' work_device (work_session 5 (toISOString 0)) [] 0 None 0 []"
  have r: "newest_session ''d'' r [r]" "ws_seq r = 5" "ws_deviceId r = ''d''" by (simp_all add: newest_session_def r_def work_device_def work_session_def)
  have "\<exists>w' x y. ingest_loop (\<lambda>t. t) parse_epoch (\<lambda>_. ''i'') 1 work_device (0, 0)
        (sort_key wi_seq [work_session 7 (toISOString 0), work_session 4 (toISOString 0)]) (work_world [r]) = (w', Inr (2, 0)) \<and>
      w_sessions w' = w_sessions (work_world [r]) @ [x, y] \<and> ws_seq x < ws_seq r \<and> ws_seq r < ws_seq y \<and> ws_prevHash x = ws_rowHash r \<and> ws_prevHash y = ws_rowHash r"
    by (rule late_session_forks_chain [of _ _ _ _ _ parse_epoch 0 0])
      (use r in \<open>simp_all add: work_world_def work_session_def parse_epoch_def has_session_def work_device_def\<close>)
  then show ?thesis using r(1) by (auto simp: work_world_def)
qed

end
