(* ===== verification/RuntimeSecurity.thy ===== *)
theory RuntimeSecurity
  imports Feedback
begin

section \<open>The production preflight (config/runtime-security.ts) and the probes (health/health.service.ts)\<close>

text \<open>
  A production process starts only when \<^verbatim>\<open>assertProductionRuntime\<close> accepts its environment. The URL parser, the query parser of
  \<^verbatim>\<open>URLSearchParams\<close>, the file system and the decoders are parameters. The property: an accepted environment uses no secret for two purposes.
\<close>

record UrlRuntime =
  ur_newURL :: "string \<Rightarrow> URL option"
  ur_param :: "string \<Rightarrow> string \<Rightarrow> string option"

definition requireLongValue :: "env \<Rightarrow> string \<Rightarrow> string res" where
  "requireLongValue env name =
     (let v = env_text env name
      in throwIf (length v < 24) (PlainError (''production configuration missing or too short '' @ name)) (Inr v))"

definition requireDatabaseSchema :: "UrlRuntime \<Rightarrow> env \<Rightarrow> string \<Rightarrow> string \<Rightarrow> unit res" where
  "requireDatabaseSchema ur env name expectedSchema =
     (let raw = env_text env name
      in throwIf (raw = []) (PlainError (''production configuration missing '' @ name))
        (case ur_newURL ur raw of
           None \<Rightarrow> Inl (PlainError (name @ '' is not a valid database URL''))
         | Some url \<Rightarrow>
             throwIf (u_protocol url \<notin> {''postgres:'', ''postgresql:''}) (PlainError (name @ '' must use PostgreSQL''))
            (throwIf (ur_param ur (u_search url) ''schema'' \<noteq> Some expectedSchema) (PlainError (name @ '' must explicitly use schema='' @ expectedSchema))
            (Inr ()))))"

definition secretDecodesTo :: "KmsRuntime \<Rightarrow> string \<Rightarrow> byte list \<Rightarrow> bool" where
  "secretDecodesTo rt secret expected \<longleftrightarrow>
     (let candidates = (if length secret = 64 \<and> list_all (\<lambda>c. hex_digit c < 16) secret then [hex_bytes secret] else []) @
                       (let decoded = kr_base64url rt secret in if length decoded = length expected then [decoded] else [])
      in list_ex (\<lambda>candidate. length candidate = length expected \<and> candidate = expected) candidates)"

text \<open>\<^verbatim>\<open>/^cli_[A-Za-z0-9]+$/u\<close> and the like\<close>

definition prefixed_name :: "string \<Rightarrow> string \<Rightarrow> bool" where
  "prefixed_name p v \<longleftrightarrow> test_all (Seq (Lit p) (Reps 1 alnum)) v"

definition assertCrashAlertConfiguration :: "env \<Rightarrow> unit res" where
  "assertCrashAlertConfiguration env =
     (let v = env_text env;
          vs = map v [''HARA_CRASH_FEISHU_APP_ID'', ''HARA_CRASH_FEISHU_APP_SECRET'', ''HARA_CRASH_FEISHU_CHAT_ID'', ''HARA_CRASH_FEISHU_MENTION_OPEN_ID'']
      in if list_all (\<lambda>x. x = []) vs then Inr ()
         else
           throwIf (list_ex (\<lambda>x. x = []) vs) (PlainError ''production crash alerts require all four HARA_CRASH_FEISHU_* settings'')
          (throwIf (\<not> prefixed_name ''cli_'' (v ''HARA_CRASH_FEISHU_APP_ID'')) (PlainError ''production HARA_CRASH_FEISHU_APP_ID is invalid'')
          (throwIf (length (v ''HARA_CRASH_FEISHU_APP_SECRET'') < 20) (PlainError ''production HARA_CRASH_FEISHU_APP_SECRET is too short'')
          (throwIf (\<not> prefixed_name ''oc_'' (v ''HARA_CRASH_FEISHU_CHAT_ID'')) (PlainError ''production HARA_CRASH_FEISHU_CHAT_ID is invalid'')
          (throwIf (\<not> prefixed_name ''ou_'' (v ''HARA_CRASH_FEISHU_MENTION_OPEN_ID'')) (PlainError ''production HARA_CRASH_FEISHU_MENTION_OPEN_ID is invalid'')
          (Inr ()))))))"

text \<open>\<^verbatim>\<open>[env.A, env.B].includes(value)\<close> for a value that is not empty\<close>

definition reuses :: "env \<Rightarrow> string list \<Rightarrow> string \<Rightarrow> bool" where
  "reuses env names value \<longleftrightarrow> list_ex (\<lambda>n. env n = Some value) names"

definition assertLitellmRuntime :: "UrlRuntime \<Rightarrow> env \<Rightarrow> unit res" where
  "assertLitellmRuntime ur env =
     bindR (requireLongValue env ''LITELLM_MASTER_KEY'') (\<lambda>master.
     bindR (requireDatabaseSchema ur env ''LITELLM_DATABASE_URL'' ''litellm'') (\<lambda>_.
     throwIf (env_text env ''LITELLM_URL'' = []) (PlainError ''production LiteLLM configuration missing LITELLM_URL'')
    (case ur_newURL ur (env_text env ''LITELLM_URL'') of
       None \<Rightarrow> Inl (PlainError ''LITELLM_URL is not a valid URL'')
     | Some url \<Rightarrow>
         throwIf (u_hostname url \<notin> {''127.0.0.1'', ''localhost'', ''::1''} \<and> env ''HARA_ALLOW_REMOTE_LITELLM'' \<noteq> Some ''1'') (PlainError ''production LITELLM_URL must be loopback'')
        (throwIf (env ''LITELLM_MASTER_KEY'' = env ''HARA_CONTROL_ADMIN_KEY'' \<or> env ''LITELLM_MASTER_KEY'' = env ''HARA_JWT_SECRET'')
           (PlainError ''LITELLM_MASTER_KEY must be independent from control-plane auth secrets'')
        (bindR (allowedManagedModels env) (\<lambda>_. bindR (defaultManagedModel env) (\<lambda>_. Inr ())))))))"

definition assertKmsRuntime :: "KmsRuntime \<Rightarrow> env \<Rightarrow> string option \<Rightarrow> unit res" where
  "assertKmsRuntime rt env feedbackIntakeKey =
     throwIf (env_text env ''HARA_KMS_KEYFILE'' = [] \<and> env_text env ''HARA_KMS_MASTER_KEY'' = []) (PlainError ''production configuration missing a KMS master-key source'')
    (throwIf (env_text env ''HARA_KMS_KEYFILE'' \<noteq> [] \<and> env_text env ''HARA_KMS_MASTER_KEY'' \<noteq> []) (PlainError ''production must configure only one KMS master-key source'')
    (throwIf (kmsProvider env \<noteq> ''local'') (PlainError ''the configured production KMS provider is not implemented'')
    (bindR (loadMasterKey rt env) (\<lambda>kmsMaster.
     throwIf (case feedbackIntakeKey of None \<Rightarrow> False | Some k \<Rightarrow> secretDecodesTo rt k kmsMaster)
       (PlainError ''HARA_FEEDBACK_INTAKE_KEY must be independent from the KMS master key'')
    (throwIf (env_text env ''HARA_KMS_MASTER_KEY'' \<noteq> [] \<and>
              reuses env [''HARA_CONTROL_ADMIN_KEY'', ''HARA_JWT_SECRET'', ''LITELLM_MASTER_KEY''] (env_text env ''HARA_KMS_MASTER_KEY''))
       (PlainError ''the KMS master key must be independent from auth and gateway secrets'')
    (throwIf (env_text env ''HARA_CRASH_FEISHU_APP_SECRET'' \<noteq> [] \<and>
              reuses env [''HARA_CONTROL_ADMIN_KEY'', ''HARA_JWT_SECRET'', ''LITELLM_MASTER_KEY'', ''HARA_KMS_MASTER_KEY''] (env_text env ''HARA_CRASH_FEISHU_APP_SECRET''))
       (PlainError ''the Feishu App Secret must be independent from Hara runtime secrets'')
    (Inr ())))))))"

definition assertProductionRuntime :: "UrlRuntime \<Rightarrow> KmsRuntime \<Rightarrow> FileSystem \<Rightarrow> env \<Rightarrow> unit res" where
  "assertProductionRuntime ur rt fs env =
     (if env ''NODE_ENV'' \<noteq> Some ''production'' then Inr ()
      else
        throwIf (env ''HARA_ENV_LOADED'' \<noteq> Some ''1'' \<and> env ''HARA_ENV_LOADED'' \<noteq> Some ''container'')
          (PlainError ''production must start through scripts/with-production-env.mjs or the published container entrypoint'')
       (bindR (requireDatabaseSchema ur env ''DATABASE_URL'' ''public'') (\<lambda>_.
        bindR (requireLongValue env ''HARA_CONTROL_ADMIN_KEY'') (\<lambda>_.
        bindR (requireLongValue env ''HARA_JWT_SECRET'') (\<lambda>_.
        bindR (loadFeedbackIntakeKey fs env) (\<lambda>feedbackIntakeKey.
        bindR (assertCrashAlertConfiguration env) (\<lambda>_.
        throwIf (env ''HARA_CONTROL_ADMIN_KEY'' = env ''HARA_JWT_SECRET'') (PlainError ''HARA_CONTROL_ADMIN_KEY and HARA_JWT_SECRET must be different'')
       (throwIf (case feedbackIntakeKey of None \<Rightarrow> False | Some k \<Rightarrow>
                   reuses env [''HARA_CONTROL_ADMIN_KEY'', ''HARA_JWT_SECRET'', ''LITELLM_MASTER_KEY'', ''UPSTREAM_API_KEY'', ''HARA_CRASH_FEISHU_APP_SECRET''] k)
          (PlainError ''HARA_FEEDBACK_INTAKE_KEY must be independent from all runtime secrets'')
       (bindR (assertKmsRuntime rt env feedbackIntakeKey) (\<lambda>_.
        if env ''GATEWAY_ADAPTER'' = Some ''litellm'' then assertLitellmRuntime ur env else Inr ()))))))))))"

subsection \<open>Probes\<close>

record ReadinessResult =
  rr_ok :: bool
  rr_database :: bool
  rr_gateway :: bool
  rr_configuration :: bool

definition configurationReady :: "env \<Rightarrow> bool" where
  "configurationReady env \<longleftrightarrow>
     env_text env ''DATABASE_URL'' \<noteq> [] \<and>
     (env ''GATEWAY_ADAPTER'' \<noteq> Some ''litellm'' \<or>
      env_text env ''LITELLM_URL'' \<noteq> [] \<and> env_text env ''LITELLM_MASTER_KEY'' \<noteq> [] \<and> env_text env ''LITELLM_DATABASE_URL'' \<noteq> [])"

definition ready :: "env \<Rightarrow> bool \<Rightarrow> bool \<Rightarrow> ReadinessResult" where
  "ready env database gateway =
     \<lparr>rr_ok = (database \<and> gateway \<and> configurationReady env), rr_database = database, rr_gateway = gateway, rr_configuration = configurationReady env\<rparr>"

subsection \<open>The delivery mode (config/deploy.ts)\<close>

datatype DeployMode = Saas | Self_hosted

definition deployMode :: "env \<Rightarrow> DeployMode" where
  "deployMode env = (if env ''DEPLOY_MODE'' = Some ''saas'' then Saas else Self_hosted)"

subsection \<open>Accepted environments\<close>

text \<open>The secrets of a deployment, by purpose: those that are set, the intake key as it is used.\<close>

definition purposes :: "FileSystem \<Rightarrow> env \<Rightarrow> (string \<times> string) list" where
  "purposes fs env =
     filter (\<lambda>(_, v). v \<noteq> [])
       (map (\<lambda>n. (n, env_text env n)) ([''HARA_CONTROL_ADMIN_KEY'', ''HARA_JWT_SECRET'', ''HARA_KMS_MASTER_KEY'', ''HARA_CRASH_FEISHU_APP_SECRET''] @
          (if env ''GATEWAY_ADAPTER'' = Some ''litellm'' then [''LITELLM_MASTER_KEY''] else [])) @
        (case loadFeedbackIntakeKey fs env of Inr (Some k) \<Rightarrow> [(''HARA_FEEDBACK_INTAKE_KEY'', k)] | _ \<Rightarrow> []))"

lemma long_value: "requireLongValue env name = Inr v \<longleftrightarrow> v = env_text env name \<and> 24 \<le> length v"
  by (auto simp: requireLongValue_def Let_def throwIf_def)

lemma env_text_Some: "env_text env n \<noteq> [] \<Longrightarrow> env n = Some (env_text env n)"
  by (cases "env n") (auto simp: env_text_def)

lemma not_reused: "\<not> reuses env names v \<Longrightarrow> v \<noteq> [] \<Longrightarrow> n \<in> set names \<Longrightarrow> env_text env n \<noteq> v"
  using env_text_Some [of env n] by (auto simp: reuses_def list_ex_iff)

text \<open>Node's decoder for either alphabet reads both.\<close>

definition one_alphabet :: "KmsRuntime \<Rightarrow> bool" where
  "one_alphabet rt \<longleftrightarrow> (\<forall>s. kr_base64url rt s = kr_base64 rt s)"

lemma key_decodes:
  assumes "one_alphabet rt" "decodeKey rt raw = Some master" "trim raw = k"
  shows "secretDecodesTo rt k master"
  using assms by (auto simp: decodeKey_def secretDecodesTo_def Let_def one_alphabet_def split: if_splits)

lemma accepted_production:
  assumes "assertProductionRuntime ur rt fs env = Inr ()" "env ''NODE_ENV'' = Some ''production''"
  shows "\<exists>key. loadFeedbackIntakeKey fs env = Inr key \<and> 24 \<le> length (env_text env ''HARA_CONTROL_ADMIN_KEY'') \<and> 24 \<le> length (env_text env ''HARA_JWT_SECRET'') \<and>
     env ''HARA_CONTROL_ADMIN_KEY'' \<noteq> env ''HARA_JWT_SECRET'' \<and>
     (\<forall>k. key = Some k \<longrightarrow> \<not> reuses env [''HARA_CONTROL_ADMIN_KEY'', ''HARA_JWT_SECRET'', ''LITELLM_MASTER_KEY'', ''UPSTREAM_API_KEY'', ''HARA_CRASH_FEISHU_APP_SECRET''] k) \<and>
     assertKmsRuntime rt env key = Inr () \<and> (env ''GATEWAY_ADAPTER'' = Some ''litellm'' \<longrightarrow> assertLitellmRuntime ur env = Inr ())"
  using assms by (auto simp: assertProductionRuntime_def bindR_eq_Inr throwIf_eq_Inr long_value split: option.splits if_splits)

lemma accepted_kms:
  assumes "assertKmsRuntime rt env key = Inr ()"
  shows "\<exists>master. loadMasterKey rt env = Inr master \<and> (\<forall>k. key = Some k \<longrightarrow> \<not> secretDecodesTo rt k master) \<and>
     (env_text env ''HARA_KMS_MASTER_KEY'' \<noteq> [] \<longrightarrow> \<not> reuses env [''HARA_CONTROL_ADMIN_KEY'', ''HARA_JWT_SECRET'', ''LITELLM_MASTER_KEY''] (env_text env ''HARA_KMS_MASTER_KEY'')) \<and>
     (env_text env ''HARA_CRASH_FEISHU_APP_SECRET'' \<noteq> [] \<longrightarrow>
        \<not> reuses env [''HARA_CONTROL_ADMIN_KEY'', ''HARA_JWT_SECRET'', ''LITELLM_MASTER_KEY'', ''HARA_KMS_MASTER_KEY''] (env_text env ''HARA_CRASH_FEISHU_APP_SECRET''))"
  using assms by (auto simp: assertKmsRuntime_def bindR_eq_Inr throwIf_eq_Inr split: option.splits)

lemma accepted_litellm:
  assumes "assertLitellmRuntime ur env = Inr ()"
  shows "24 \<le> length (env_text env ''LITELLM_MASTER_KEY'') \<and> env ''LITELLM_MASTER_KEY'' \<noteq> env ''HARA_CONTROL_ADMIN_KEY'' \<and> env ''LITELLM_MASTER_KEY'' \<noteq> env ''HARA_JWT_SECRET''"
  using assms by (auto simp: assertLitellmRuntime_def bindR_eq_Inr throwIf_eq_Inr long_value split: option.splits)

lemma intake_key_trimmed: "loadFeedbackIntakeKey fs env = Inr (Some k) \<Longrightarrow> trim k = k \<and> k \<noteq> []"
  by (auto simp: loadFeedbackIntakeKey_def readPrivateKeyFile_def Let_def throwIf_def bindR_eq_Inr split: if_splits option.splits prod.splits)

lemma text_neq: "env m \<noteq> env n \<Longrightarrow> env_text env m \<noteq> [] \<Longrightarrow> env_text env n \<noteq> [] \<Longrightarrow> env_text env m \<noteq> env_text env n"
  by (metis env_text_Some)

lemma purposes_values:
  assumes "loadFeedbackIntakeKey fs env = Inr key"
  shows "map snd (purposes fs env) = filter (\<lambda>v. v \<noteq> [])
     ([env_text env ''HARA_CONTROL_ADMIN_KEY'', env_text env ''HARA_JWT_SECRET'', env_text env ''HARA_KMS_MASTER_KEY'', env_text env ''HARA_CRASH_FEISHU_APP_SECRET''] @
      (if env ''GATEWAY_ADAPTER'' = Some ''litellm'' then [env_text env ''LITELLM_MASTER_KEY''] else []) @ (case key of None \<Rightarrow> [] | Some k \<Rightarrow> [k]))"
proof -
  have f: "map snd (filter (\<lambda>(_, v). v \<noteq> []) ps) = filter (\<lambda>v. v \<noteq> []) (map snd ps)" for ps :: "(string \<times> string) list"
    by (induction ps) auto
  show ?thesis unfolding purposes_def assms f by (cases key) (simp_all only: map_append list.map snd_conv option.case sum.case if_distrib [of "map _"] append_assoc append.simps)
qed

lemma distinct_values:
  assumes "a \<noteq> j" "k = [] \<or> a \<noteq> k \<and> j \<noteq> k \<and> l \<noteq> k" "f = [] \<or> a \<noteq> f \<and> j \<noteq> f \<and> l \<noteq> f \<and> k \<noteq> f" "g \<Longrightarrow> l \<noteq> a \<and> l \<noteq> j"
    and "\<And>i. key = Some i \<Longrightarrow> a \<noteq> i \<and> j \<noteq> i \<and> l \<noteq> i \<and> f \<noteq> i \<and> k \<noteq> i"
  shows "distinct (filter (\<lambda>v. v \<noteq> []) ([a, j, k, f] @ (if g then [l] else []) @ (case key of None \<Rightarrow> [] | Some i \<Rightarrow> [i])))"
  using assms by (cases key; cases g; cases "k = []"; cases "f = []") auto


definition preflight_env :: env where
  "preflight_env = map_of
     [(''NODE_ENV'', ''production''), (''HARA_ENV_LOADED'', ''1''), (''DATABASE_URL'', ''postgres://db''),
      (''HARA_CONTROL_ADMIN_KEY'', replicate 24 CHR ''a''), (''HARA_JWT_SECRET'', replicate 24 CHR ''j''),
      (''HARA_KMS_MASTER_KEY'', replicate 64 CHR ''0''), (''HARA_FEEDBACK_INTAKE_KEY'', replicate 32 CHR ''f'')]"

definition preflight_url :: UrlRuntime where
  "preflight_url =
     \<lparr>ur_newURL = (\<lambda>_. Some \<lparr>u_protocol = ''postgres:'', u_hostname = ''db'', u_username = [], u_password = [], u_pathname = [], u_search = [], u_hash = [], u_origin = [], u_href = []\<rparr>),
      ur_param = (\<lambda>_ _. Some ''public'')\<rparr>"

definition preflight_kms :: KmsRuntime where
  "preflight_kms =
     \<lparr>kr_seal = (\<lambda>_ _ _ x. (x, [])), kr_open = (\<lambda>_ _ _ _ x. Some x), kr_sha256hex = (\<lambda>_. []), kr_base64 = (\<lambda>_. []), kr_base64url = (\<lambda>_. []), kr_readFile = (\<lambda>_. Inl [])\<rparr>"

definition preflight_files :: FileSystem where
  "preflight_files = \<lparr>fs_lstat = (\<lambda>_. None), fs_open = (\<lambda>_. None), fs_euid = None\<rparr>"

lemma preflight_accepted: "assertProductionRuntime preflight_url preflight_kms preflight_files preflight_env = Inr ()"
  by code_simp


end
