(* ===== verification/Providers.thy ===== *)
theory Providers
  imports RuntimeSecurity
begin

section \<open>Provider credentials (providers/provider-credentials.service.ts, ops/provider-secret.ts)\<close>

text \<open>
  The provider key lives in the encrypted store; a supervisor starts the provider's process with it and records which version it loaded. The
  administrator sees whether the running process has the stored key. The ciphers, the probes' network, the file system and the process table are
  parameters or arguments; clearing buffers and the timers have no counterpart.
\<close>

definition DEEPSEEK_SECRET :: string where "DEEPSEEK_SECRET = ''provider.deepseek.api_key''"
definition DEEPSEEK_PROBE_URL :: string where "DEEPSEEK_PROBE_URL = ''https://api.deepseek.com/chat/completions''"
definition DEEPSEEK_DIRECT_PROBE_MODEL :: string where "DEEPSEEK_DIRECT_PROBE_MODEL = ''deepseek-v4-flash''"

datatype CredentialSource = NoSource | RuntimeSource | EncryptedStore | EncryptedStoreAndRuntime

record DeepSeekStatus =
  ds_provider :: string
  ds_models :: "string list"
  ds_stored :: bool
  ds_stored_at :: "time option"
  ds_storage_readable :: bool
  ds_runtime_configured :: bool
  ds_runtime_reachable :: bool
  ds_active :: bool
  ds_source :: CredentialSource
  ds_requires_activation :: bool
  ds_activation :: string
  ds_activated_at :: "time option"

definition find_activation :: "string \<Rightarrow> ProviderActivation list \<Rightarrow> ProviderActivation option" where
  "find_activation provider rs = find (\<lambda>a. pv_provider a = provider) rs"

text \<open>The answer, from the description of the secret, the activation, whether the secret could be read and whether the gateway answers.\<close>

definition is_active :: "SecretDescription \<Rightarrow> ProviderActivation option \<Rightarrow> bool \<Rightarrow> bool \<Rightarrow> bool" where
  "is_active metadata activation storageReadable runtimeReachable \<longleftrightarrow>
     sd_exists metadata \<and> storageReadable \<and> runtimeReachable \<and>
     (case activation of None \<Rightarrow> False | Some a \<Rightarrow> pv_secretName a = DEEPSEEK_SECRET \<and> Some (pv_secretVersion a) = sd_version metadata)"

definition status_of :: "string list \<Rightarrow> SecretDescription \<Rightarrow> ProviderActivation option \<Rightarrow> bool \<Rightarrow> bool \<Rightarrow> DeepSeekStatus" where
  "status_of models metadata activation storageReadable runtimeReachable =
     (let active = is_active metadata activation storageReadable runtimeReachable
      in \<lparr>ds_provider = ''deepseek'', ds_models = models, ds_stored = sd_exists metadata, ds_stored_at = sd_updatedAt metadata, ds_storage_readable = storageReadable,
          ds_runtime_configured = (activation \<noteq> None), ds_runtime_reachable = runtimeReachable, ds_active = active,
          ds_source = (if sd_exists metadata then (if activation \<noteq> None then EncryptedStoreAndRuntime else EncryptedStore)
                       else (if activation \<noteq> None then RuntimeSource else NoSource)),
          ds_requires_activation = (sd_exists metadata \<and> \<not> active),
          ds_activation = (if sd_exists metadata \<and> \<not> active then ''deploy-restart-required'' else ''none''), ds_activated_at = map_option pv_activatedAt activation\<rparr>)"

definition deepSeekStatus :: "env \<Rightarrow> decrypter \<Rightarrow> bool \<Rightarrow> (('g, 'd, 'x) SecretsWorld_scheme, DeepSeekStatus) act" where
  "deepSeekStatus env decrypt gatewayOk =
     bindA (describe None DEEPSEEK_SECRET) (\<lambda>metadata.
     bindA (readS (\<lambda>w. find_activation ''deepseek'' (w_activations w))) (\<lambda>activation.
     bindA (if sd_exists metadata
            then catchA (bindA (get_secret decrypt None DEEPSEEK_SECRET) (\<lambda>stored. retA (stored \<noteq> None))) (\<lambda>_. retA False)
            else retA True) (\<lambda>storageReadable.
     bindA (liftR (allowedManagedModels env)) (\<lambda>models.
     retA (status_of models metadata activation storageReadable (activation \<noteq> None \<and> gatewayOk))))))"

definition actor_type :: "AuthedUser \<Rightarrow> string" where
  "actor_type actor = (if us_viaSharedKey actor then ''shared-admin-key'' else ''admin-user'')"

definition putDeepSeek ::
  "env \<Rightarrow> encrypter \<Rightarrow> decrypter \<Rightarrow> bool \<Rightarrow> string \<Rightarrow> time \<Rightarrow> string \<Rightarrow> AuthedUser \<Rightarrow> (('g, 'd, 'x) SecretsWorld_scheme, DeepSeekStatus) act" where
  "putDeepSeek env encrypt decrypt gatewayOk newId now apiKey actor =
     thenA (putWithSystemAudit encrypt newId now None DEEPSEEK_SECRET (utf8 (trim apiKey))
       \<lparr>sa_action = ''provider.credential.store'', sa_actorType = actor_type actor, sa_actorId = us_id actor,
        sa_payload = JObj [(''provider'', JStr ''deepseek''), (''operation'', JStr ''replace'')]\<rparr>)
     (deepSeekStatus env decrypt gatewayOk)"

definition logSystemA :: "string \<Rightarrow> string \<Rightarrow> string \<Rightarrow> jsval \<Rightarrow> (('g, 'd, 'x) SecretsWorld_scheme, unit) act" where
  "logSystemA action actorType actorId payload =
     writeS (\<lambda>w. w\<lparr>w_systemAudits := w_systemAudits w @ [\<lparr>sa_action = action, sa_actorType = actorType, sa_actorId = actorId, sa_payload = payload\<rparr>]\<rparr>)"

text \<open>A probe: the network is given the URL, the bearer and the body, and answers whether the response was ok, or None when the request failed.\<close>

type_synonym prober = "string \<Rightarrow> byte list \<Rightarrow> jsval \<Rightarrow> bool option"

definition probe_body :: jsval where
  "probe_body = JObj [(''model'', JStr DEEPSEEK_DIRECT_PROBE_MODEL), (''messages'', JArr [JObj [(''role'', JStr ''user''), (''content'', JStr ''Reply with OK.'')]]),
     (''max_tokens'', JNum (num 1)), (''stream'', JBool False)]"

definition probeDeepSeek :: "prober \<Rightarrow> byte list \<Rightarrow> bool" where
  "probeDeepSeek net credential = (net DEEPSEEK_PROBE_URL credential probe_body = Some True)"

definition strip_slashes :: "string \<Rightarrow> string" where
  "strip_slashes s = rev (dropWhile (\<lambda>c. c = CHR ''/'') (rev s))"

definition probeActiveGateway :: "prober \<Rightarrow> env \<Rightarrow> bool res" where
  "probeActiveGateway net env =
     (let base = strip_slashes (env_text env ''LITELLM_URL''); masterKey = env_text env ''LITELLM_MASTER_KEY''
      in throwIf (base = [] \<or> masterKey = []) (BadRequest ''no active DeepSeek runtime is configured'')
        (Inr (net (base @ ''/chat/completions'') (utf8 masterKey) probe_body = Some True)))"

datatype TestTarget = STORED | RUNTIME

definition testDeepSeek ::
  "env \<Rightarrow> decrypter \<Rightarrow> prober \<Rightarrow> prober \<Rightarrow> TestTarget \<Rightarrow> AuthedUser \<Rightarrow> (('g, 'd, 'x) SecretsWorld_scheme, unit) act" where
  "testDeepSeek env decrypt direct safe target actor =
     bindA (if target = STORED then get_secret decrypt None DEEPSEEK_SECRET else retA None) (\<lambda>credential.
     thenA (throwUnless (target \<noteq> STORED \<or> credential \<noteq> None) (BadRequest ''no encrypted DeepSeek credential is stored''))
    (bindA (case credential of Some c \<Rightarrow> retA (probeDeepSeek direct c) | None \<Rightarrow> liftR (probeActiveGateway safe env)) (\<lambda>ok.
     thenA (logSystemA ''provider.credential.test'' (actor_type actor) (us_id actor)
       (JObj [(''provider'', JStr ''deepseek''), (''target'', JStr (if target = STORED then ''stored'' else ''runtime'')), (''ok'', JBool ok)]))
     (throwUnless ok (BadGateway ''DeepSeek credential check failed'')))))"

subsection \<open>The bootstrap file (ops/provider-secret.ts)\<close>

definition privateFileStat :: "FileSystem \<Rightarrow> string \<Rightarrow> FileStat res" where
  "privateFileStat fs path =
     (case fs_lstat fs path of
        None \<Rightarrow> Inl (PlainError ''ENOENT'')
      | Some st \<Rightarrow>
          throwIf (st_symlink st \<or> \<not> st_file st) (PlainError (path @ '' must be a regular, non-symlink file''))
         (throwIf (st_mode st mod 64 \<noteq> 0) (PlainError (path @ '' must be owner-only (chmod 600)''))
         (throwIf (case fs_euid fs of None \<Rightarrow> False | Some u \<Rightarrow> st_uid st \<noteq> u) (PlainError (path @ '' must be owned by the deployment user''))
         (Inr st))))"

definition line_end :: "char \<Rightarrow> bool" where
  "line_end c \<longleftrightarrow> c = CHR 0x0A \<or> c = CHR 0x0D"

definition BOOTSTRAP_LINE :: string where "BOOTSTRAP_LINE = ''UPSTREAM_API_KEY=''"

text \<open>
  The lines of a text, as \<^verbatim>\<open>^\<close> and \<^verbatim>\<open>$\<close> with the flag \<^verbatim>\<open>m\<close> see them, and the first match of \<^verbatim>\<open>/^UPSTREAM_API_KEY=.*$/m\<close> replaced.
\<close>

function text_lines :: "string \<Rightarrow> string list" where
  "text_lines s = takeWhile (\<lambda>c. \<not> line_end c) s # (case dropWhile (\<lambda>c. \<not> line_end c) s of [] \<Rightarrow> [] | _ # rest \<Rightarrow> text_lines rest)"
  by pat_completeness auto
termination
proof (relation "measure length", goal_cases)
  case (2 s x rest)
  then have "length (x # rest) \<le> length s" by (metis length_dropWhile_le)
  then show ?case by simp
qed simp

declare text_lines.simps [simp del]

function replace_first_line :: "string \<Rightarrow> string" where
  "replace_first_line s =
     (let line = takeWhile (\<lambda>c. \<not> line_end c) s; more_text = dropWhile (\<lambda>c. \<not> line_end c) s
      in if startsWith line BOOTSTRAP_LINE then BOOTSTRAP_LINE @ more_text
         else line @ (case more_text of [] \<Rightarrow> [] | c # rest \<Rightarrow> c # replace_first_line rest))"
  by pat_completeness auto
termination
proof (relation "measure length", goal_cases)
  case (2 s x y z w)
  then have "length (z # w) \<le> length s" by (metis length_dropWhile_le)
  then show ?case by simp
qed simp

declare replace_first_line.simps [simp del]

definition has_bootstrap_line :: "string \<Rightarrow> bool" where
  "has_bootstrap_line contents \<longleftrightarrow> list_ex (\<lambda>l. startsWith l BOOTSTRAP_LINE) (text_lines contents)"

text \<open>\<^verbatim>\<open>/^UPSTREAM_API_KEY=\s*$/m\<close>: some line assigns nothing.\<close>

definition has_empty_line :: "string \<Rightarrow> bool" where
  "has_empty_line contents \<longleftrightarrow> list_ex (\<lambda>l. startsWith l BOOTSTRAP_LINE \<and> list_all is_ws (drop (length BOOTSTRAP_LINE) l)) (text_lines contents)"

definition scrub_text :: "string \<Rightarrow> string option" where
  "scrub_text contents = (if \<not> has_bootstrap_line contents \<or> has_empty_line contents then None else Some (replace_first_line contents))"

text \<open>
  The file before, as opened, and as it is again before the rename; the result is the new contents of the path, or None when nothing is written.
\<close>

definition scrubBootstrapKeyFromEnvFile :: "FileSystem \<Rightarrow> FileSystem \<Rightarrow> string \<Rightarrow> string option res" where
  "scrubBootstrapKeyFromEnvFile fs later path =
     bindR (privateFileStat fs path) (\<lambda>before.
     case fs_open fs path of
       None \<Rightarrow> Inl (PlainError ''open failed'')
     | Some (opened, contents) \<Rightarrow>
         throwIf (st_dev opened \<noteq> st_dev before \<or> st_ino opened \<noteq> st_ino before) (PlainError ''.env changed while it was being opened'')
        (case scrub_text contents of
           None \<Rightarrow> Inr None
         | Some next_text \<Rightarrow>
             bindR (privateFileStat later path) (\<lambda>current.
             throwIf (st_dev current \<noteq> st_dev before \<or> st_ino current \<noteq> st_ino before) (PlainError ''.env changed during credential scrubbing'')
            (Inr (Some next_text)))))"

definition bootstrapDeepSeekEnv ::
  "env \<Rightarrow> encrypter \<Rightarrow> decrypter \<Rightarrow> string \<Rightarrow> time \<Rightarrow> (string option res) option \<Rightarrow> (('g, 'd, 'x) SecretsWorld_scheme, bool \<times> string option) act" where
  "bootstrapDeepSeekEnv env encrypt decrypt newId now scrub =
     (let raw = env_text env ''UPSTREAM_API_KEY'';
          scrubbed = (case scrub of None \<Rightarrow> retA None | Some r \<Rightarrow> liftR r)
      in bindA (getVersioned decrypt None DEEPSEEK_SECRET) (\<lambda>existing.
         thenA (throwUnless (existing \<noteq> None \<or> raw \<noteq> []) (PlainError ''no encrypted DeepSeek credential exists; set UPSTREAM_API_KEY once for bootstrap''))
        (case existing of
           Some e \<Rightarrow>
             thenA (throwUnless (raw = [] \<or> utf8 raw = vs_value e) (PlainError ''UPSTREAM_API_KEY differs from the encrypted source; refusing to overwrite it''))
            (bindA (if raw \<noteq> [] then scrubbed else retA None) (\<lambda>file. retA (False, file)))
         | None \<Rightarrow>
             thenA (putWithSystemAudit encrypt newId now None DEEPSEEK_SECRET (utf8 raw)
               \<lparr>sa_action = ''provider.credential.import'', sa_actorType = ''deployment'', sa_actorId = ''provider-secret-cli'',
                sa_payload = JObj [(''provider'', JStr ''deepseek''), (''source'', JStr ''bootstrap-environment'')]\<rparr>)
            (bindA scrubbed (\<lambda>file. retA (True, file))))))"

subsection \<open>The supervisor\<close>

definition withheld :: "string list" where
  "withheld = [''HARA_CONTROL_ADMIN_KEY'', ''HARA_JWT_SECRET'', ''HARA_KMS_MASTER_KEY'', ''HARA_KMS_KEYFILE'', ''LITELLM_DATABASE_URL'']"

definition childEnv :: "env \<Rightarrow> string \<Rightarrow> string \<Rightarrow> env" where
  "childEnv env url credentialText =
     (\<lambda>n. if n \<in> set withheld then None else (env(''DATABASE_URL'' \<mapsto> url, ''UPSTREAM_API_KEY'' \<mapsto> credentialText)) n)"

definition load_run :: "env \<Rightarrow> decrypter \<Rightarrow> string \<Rightarrow> (('g, 'd, 'x) SecretsWorld_scheme, VersionedSecret \<times> string) act" where
  "load_run env decrypt command =
     (let url = env_text env ''LITELLM_DATABASE_URL''
      in thenA (throwUnless (command \<noteq> []) (PlainError ''run-deepseek requires a command after --''))
        (thenA (throwUnless (url \<noteq> []) (PlainError ''LITELLM_DATABASE_URL is required for the isolated LiteLLM schema''))
        (bindA (getVersioned decrypt None DEEPSEEK_SECRET) (\<lambda>loaded.
         case loaded of None \<Rightarrow> throwA (PlainError ''no encrypted DeepSeek credential is stored'') | Some v \<Rightarrow> retA (v, url)))))"

definition upsert_activation :: "string \<Rightarrow> int \<Rightarrow> time \<Rightarrow> ProviderActivation list \<Rightarrow> ProviderActivation list" where
  "upsert_activation runtimeId version now rs =
     (if list_ex (\<lambda>a. pv_provider a = ''deepseek'') rs
      then update_where (\<lambda>a. pv_provider a = ''deepseek'')
             (\<lambda>a. a\<lparr>pv_secretName := DEEPSEEK_SECRET, pv_secretVersion := version, pv_runtimeId := runtimeId, pv_activatedAt := now\<rparr>) rs
      else rs @ [\<lparr>pv_provider = ''deepseek'', pv_secretName = DEEPSEEK_SECRET, pv_secretVersion = version, pv_runtimeId = runtimeId, pv_activatedAt = now\<rparr>])"

definition record_run :: "string \<Rightarrow> VersionedSecret \<Rightarrow> time \<Rightarrow> (('g, 'd, 'x) SecretsWorld_scheme, unit) act" where
  "record_run runtimeId loaded now =
     writeS (\<lambda>w. w\<lparr>w_activations := upsert_activation runtimeId (vs_version loaded) now (w_activations w),
       w_systemAudits := w_systemAudits w @ [\<lparr>sa_action = ''provider.credential.activate'', sa_actorType = ''deployment'', sa_actorId = ''provider-runtime'',
         sa_payload = JObj [(''provider'', JStr ''deepseek''), (''secretVersion'', JNum (num (vs_version loaded))), (''runtime'', JStr ''supervised-process'')]\<rparr>]\<rparr>)"

definition drop_activation :: "string \<Rightarrow> ProviderActivation list \<Rightarrow> ProviderActivation list" where
  "drop_activation runtimeId rs = filter (\<lambda>a. \<not> (pv_provider a = ''deepseek'' \<and> pv_runtimeId a = runtimeId)) rs"

text \<open>
  The supervised run: the child is given its environment (None when it cannot be started) and its exit code when it ends. A failure before the child
  is recorded kills it and is reported.
\<close>

definition runDeepSeek ::
  "env \<Rightarrow> decrypter \<Rightarrow> (byte list \<Rightarrow> string) \<Rightarrow> string \<Rightarrow> time \<Rightarrow> string \<Rightarrow> (env \<Rightarrow> (int option) option) \<Rightarrow> (('g, 'd, 'x) SecretsWorld_scheme, int) act" where
  "runDeepSeek env decrypt unutf8 runtimeId now command spawn =
     bindA (load_run env decrypt command) (\<lambda>(loaded, url).
     case spawn (childEnv env url (unutf8 (vs_value loaded))) of
       None \<Rightarrow> throwA (PlainError ''spawn failed'')
     | Some exitCode \<Rightarrow>
         thenA (record_run runtimeId loaded now)
        (thenA (writeS (\<lambda>w. w\<lparr>w_activations := drop_activation runtimeId (w_activations w)\<rparr>))
        (retA (nullish exitCode 1))))"

text \<open>The command line: \<^verbatim>\<open>argv.indexOf\<close> and what follows.\<close>

datatype ProviderCommand = Bootstrap "string option" | RunProvider string "string list"

fun after_first :: "string \<Rightarrow> string list \<Rightarrow> string list option" where
  "after_first x [] = None"
| "after_first x (y # ys) = (if y = x then Some ys else after_first x ys)"

definition parse_command :: "string list \<Rightarrow> ProviderCommand res" where
  "parse_command argv =
     (case argv of
        c # _ \<Rightarrow>
          if c = ''bootstrap-deepseek-env'' then
            Inr (Bootstrap (case after_first ''--scrub-env-file'' argv of Some (f # _) \<Rightarrow> if f = [] then None else Some f | _ \<Rightarrow> None))
          else if c = ''run-deepseek'' then
            (case after_first ''--'' argv of
               Some (command # args) \<Rightarrow>
                 throwIf (command = []) (PlainError ''usage: provider-secret run-deepseek -- <command> [args...]'') (Inr (RunProvider command args))
             | _ \<Rightarrow> Inl (PlainError ''usage: provider-secret run-deepseek -- <command> [args...]''))
          else Inl (PlainError ''usage: provider-secret bootstrap-deepseek-env [--scrub-env-file .env] | run-deepseek -- <command> [args...]'')
      | [] \<Rightarrow> Inl (PlainError ''usage: provider-secret bootstrap-deepseek-env [--scrub-env-file .env] | run-deepseek -- <command> [args...]''))"

end
