(* ===== verification/ProviderRuntime.thy ===== *)
theory ProviderRuntime
  imports Providers
begin

section \<open>The key a running provider has (providers/, ops/provider-secret.ts)\<close>

text \<open>
  Administrators store keys while supervisors load, record and drop theirs. The first property: when the console says that the stored key is active, the
  recorded process was started with exactly the key that is stored now. The second is about the bootstrap file.
\<close>

subsection \<open>Stores, starts and exits\<close>

datatype Child = Starting string VersionedSecret | Running string VersionedSecret

fun child_secret :: "Child \<Rightarrow> VersionedSecret" where
  "child_secret (Starting i v) = v"
| "child_secret (Running i v) = v"

record ProviderSystem =
  ps_secrets :: "Secret list"
  ps_activations :: "ProviderActivation list"
  ps_children :: "Child set"

inductive provider_step :: "decrypter \<Rightarrow> ProviderSystem \<Rightarrow> ProviderSystem \<Rightarrow> bool" for decrypt :: decrypter where
  stored: "newId \<notin> se_id ` set (ps_secrets s) \<Longrightarrow>
    provider_step decrypt s (s\<lparr>ps_secrets := put_rows newId now orgId name e (ps_secrets s)\<rparr>)"
| removed: "(orgId, name) \<noteq> (None, DEEPSEEK_SECRET) \<Longrightarrow>
    provider_step decrypt s (s\<lparr>ps_secrets := filter (\<lambda>r. \<not> secret_key orgId name r) (ps_secrets s)\<rparr>)"
| started: "find_secret None DEEPSEEK_SECRET (ps_secrets s) = Some r \<Longrightarrow> open_row decrypt None r = Inr v \<Longrightarrow>
    provider_step decrypt s (s\<lparr>ps_children := insert (Starting i v) (ps_children s)\<rparr>)"
| failed: "Starting i v \<in> ps_children s \<Longrightarrow> provider_step decrypt s (s\<lparr>ps_children := ps_children s - {Starting i v}\<rparr>)"
| recorded: "Starting i v \<in> ps_children s \<Longrightarrow>
    provider_step decrypt s (s\<lparr>ps_activations := upsert_activation i (vs_version v) now (ps_activations s),
      ps_children := insert (Running i v) (ps_children s - {Starting i v})\<rparr>)"
| exited: "Running i v \<in> ps_children s \<Longrightarrow>
    provider_step decrypt s (s\<lparr>ps_activations := drop_activation i (ps_activations s), ps_children := ps_children s - {Running i v}\<rparr>)"

inductive provider_reachable :: "decrypter \<Rightarrow> ProviderSystem \<Rightarrow> bool" for decrypt :: decrypter where
  empty: "provider_reachable decrypt \<lparr>ps_secrets = [], ps_activations = [], ps_children = {}\<rparr>"
| step: "provider_reachable decrypt s \<Longrightarrow> provider_step decrypt s s' \<Longrightarrow> provider_reachable decrypt s'"

subsection \<open>The invariant\<close>

text \<open>What a child was given is not newer than the store, and is the stored value if it has its version.\<close>

definition child_ok :: "decrypter \<Rightarrow> Secret list \<Rightarrow> Child \<Rightarrow> bool" where
  "child_ok decrypt rows c \<longleftrightarrow>
     (\<exists>r. find_secret None DEEPSEEK_SECRET rows = Some r \<and> vs_version (child_secret c) \<le> se_version r \<and>
          (vs_version (child_secret c) = se_version r \<longrightarrow> open_row decrypt None r = Inr (child_secret c)))"

definition activation_ok :: "Child set \<Rightarrow> ProviderActivation \<Rightarrow> bool" where
  "activation_ok cs a \<longleftrightarrow> (\<exists>v. Running (pv_runtimeId a) v \<in> cs \<and> vs_version v = pv_secretVersion a)"

definition providers_inv :: "decrypter \<Rightarrow> ProviderSystem \<Rightarrow> bool" where
  "providers_inv decrypt s \<longleftrightarrow>
     secrets_wf (ps_secrets s) \<and> (\<forall>c \<in> ps_children s. child_ok decrypt (ps_secrets s) c) \<and>
     (\<forall>a \<in> set (ps_activations s). pv_provider a = ''deepseek'' \<and> activation_ok (ps_children s) a)"

lemma open_row_version: "open_row decrypt orgId r = Inr v \<Longrightarrow> vs_version v = se_version r"
  by (auto simp: open_row_def bindR_eq_Inr)

lemma child_ok_put:
  assumes "child_ok decrypt rows c" "secrets_wf rows"
  shows "child_ok decrypt (put_rows newId now orgId name e rows) c"
proof -
  obtain row where row: "se_version row = put_version orgId name rows"
    "\<And>o' n'. find_secret o' n' (put_rows newId now orgId name e rows) = (if o' = orgId \<and> n' = name then Some row else find_secret o' n' rows)"
    using find_put_rows [OF assms(2)] by metis
  obtain r0 where r0: "find_secret None DEEPSEEK_SECRET rows = Some r0" "vs_version (child_secret c) \<le> se_version r0"
    using assms(1) by (auto simp: child_ok_def)
  show ?thesis
  proof (cases "None = orgId \<and> DEEPSEEK_SECRET = name")
    case True
    then have "find_secret None DEEPSEEK_SECRET (put_rows newId now orgId name e rows) = Some row" "se_version row = se_version r0 + 1"
      using row r0(1) by (auto simp: put_version_def)
    then show ?thesis using r0(2) by (simp add: child_ok_def)
  next
    case False
    then have "find_secret None DEEPSEEK_SECRET (put_rows newId now orgId name e rows) = find_secret None DEEPSEEK_SECRET rows" by (auto simp: row(2))
    then show ?thesis using assms(1) by (simp add: child_ok_def)
  qed
qed

lemma find_secret_filter:
  "(orgId, name) \<noteq> (o', n') \<Longrightarrow> find_secret o' n' (filter (\<lambda>r. \<not> secret_key orgId name r) rs) = find_secret o' n' rs"
  by (induction rs) (auto simp: find_secret_def secret_key_def)

lemma secrets_wf_filter: "secrets_wf rs \<Longrightarrow> secrets_wf (filter p rs)"
  by (auto simp: secrets_wf_def distinct_map_filter)

lemma upsert_ok:
  assumes "\<forall>a \<in> set rs. pv_provider a = ''deepseek'' \<and> activation_ok cs a"
  shows "\<forall>a \<in> set (upsert_activation i (vs_version v) now rs). pv_provider a = ''deepseek'' \<and> activation_ok (insert (Running i v) (cs - {Starting i v})) a"
  using assms by (fastforce simp: upsert_activation_def in_update_where activation_ok_def split: if_splits)

lemma drop_ok:
  assumes "\<forall>a \<in> set rs. pv_provider a = ''deepseek'' \<and> activation_ok cs a"
  shows "\<forall>a \<in> set (drop_activation i rs). pv_provider a = ''deepseek'' \<and> activation_ok (cs - {Running i v}) a"
  using assms by (auto simp: drop_activation_def activation_ok_def)

lemma provider_step_inv:
  assumes "provider_step decrypt s s'" "providers_inv decrypt s"
  shows "providers_inv decrypt s'"
  using assms
proof (induction rule: provider_step.induct)
  case (stored newId s now orgId name e)
  then show ?case using child_ok_put secrets_wf_put by (auto simp: providers_inv_def)
next
  case (removed orgId name s)
  then show ?case using find_secret_filter [OF removed(1)] by (simp add: providers_inv_def child_ok_def secrets_wf_filter)
next
  case (started s r v i)
  then show ?case using open_row_version by (auto simp: providers_inv_def child_ok_def activation_ok_def)
next
  case (failed i v s)
  then show ?case by (auto simp: providers_inv_def activation_ok_def)
next
  case (recorded i v s now)
  then show ?case using upsert_ok [of "ps_activations s" "ps_children s" i v now] by (auto simp: providers_inv_def child_ok_def)
next
  case (exited i v s)
  then show ?case using drop_ok [of "ps_activations s" "ps_children s" i v] by (auto simp: providers_inv_def)
qed

lemma provider_invariant: "provider_reachable decrypt s \<Longrightarrow> providers_inv decrypt s"
proof (induction rule: provider_reachable.induct)
  case empty then show ?case by (simp add: providers_inv_def secrets_wf_def)
next
  case (step s s') then show ?case using provider_step_inv by blast
qed

subsection \<open>What the console says\<close>

definition tables :: "Secret list \<Rightarrow> ProviderActivation list \<Rightarrow> ('g, 'd, 'x) SecretsWorld_scheme \<Rightarrow> bool" where
  "tables rows acts w \<longleftrightarrow> w_secretRows w = rows \<and> w_activations w = acts"

lemma scriptless_tables [simp]: "scriptless (tables rows acts)" "scriptless (\<lambda>w. tables rows acts w \<and> b)"
  by (auto intro!: scriptlessI simp: tables_def)

definition description :: "Secret list \<Rightarrow> SecretDescription" where
  "description rows =
     (case find_secret None DEEPSEEK_SECRET rows of
        Some r \<Rightarrow> \<lparr>sd_exists = True, sd_version = Some (se_version r), sd_createdAt = Some (se_createdAt r), sd_updatedAt = Some (se_updatedAt r)\<rparr>
      | None \<Rightarrow> \<lparr>sd_exists = False, sd_version = None, sd_createdAt = None, sd_updatedAt = None\<rparr>)"

lemma hoare_describe: "hoare (tables rows acts) (describe None DEEPSEEK_SECRET) (\<lambda>m w. tables rows acts w \<and> m = description rows) (\<lambda>_ _. True)"
  unfolding describe_def
  by (rule hoare_bindA [where R = "\<lambda>row w. tables rows acts w \<and> row = find_secret None DEEPSEEK_SECRET rows"], rule hoare_readS)
    (auto simp: tables_def description_def intro!: hoare_retA scriptlessI)

lemma hoare_readable:
  "hoare (tables rows acts) (catchA (bindA (get_secret decrypt None DEEPSEEK_SECRET) (\<lambda>stored. retA (stored \<noteq> None))) (\<lambda>_. retA False))
     (\<lambda>_. tables rows acts) (\<lambda>_ _. True)"
proof (rule hoare_catchA [where R = "\<lambda>_. tables rows acts"])
  have "hoare (tables rows acts) (get_secret decrypt None DEEPSEEK_SECRET) (\<lambda>_. tables rows acts) (\<lambda>_. tables rows acts)"
    unfolding get_secret_def getVersioned_def
    by (intro hoare_bindA [where R = "\<lambda>_. tables rows acts"] hoare_readS hoare_retA) (auto split: option.splits intro!: hoare_retA hoare_bindA [where R = "\<lambda>_. tables rows acts"] hoare_liftR)
  then show "hoare (tables rows acts) (bindA (get_secret decrypt None DEEPSEEK_SECRET) (\<lambda>stored. retA (stored \<noteq> None))) (\<lambda>_. tables rows acts) (\<lambda>_. tables rows acts)"
    by (rule hoare_bindA) (simp add: hoare_retA)
qed (simp add: hoare_retA)

lemma hoare_status:
  "hoare (tables rows acts) (deepSeekStatus env decrypt gatewayOk)
     (\<lambda>st _. \<exists>b c. ds_active st = is_active (description rows) (find_activation ''deepseek'' acts) b c) (\<lambda>_ _. True)"
  unfolding deepSeekStatus_def
proof (rule hoare_bindA [OF hoare_describe], goal_cases)
  case (1 m)
  show ?case
  proof (rule hoare_bindA [where R = "\<lambda>a w. tables rows acts w \<and> (m = description rows \<and> a = find_activation ''deepseek'' acts)"], goal_cases)
    case 1 show ?case by (rule hoare_readS) (auto simp: tables_def intro!: scriptlessI)
  next
    case (2 a)
    have "hoare (\<lambda>w. tables rows acts w \<and> b) (if sd_exists m
         then catchA (bindA (get_secret decrypt None DEEPSEEK_SECRET) (\<lambda>stored. retA (stored \<noteq> None))) (\<lambda>_. retA False) else retA True) (\<lambda>_ w. tables rows acts w \<and> b) (\<lambda>_ _. True)" for b
      using hoare_readable [of rows acts decrypt] by (cases b) (auto simp: hoare_def retA_def [of True])
    then show ?case
      by (rule hoare_bindA) (auto intro!: hoare_liftR_bind hoare_retA simp: status_of_def Let_def, blast+)
  qed
qed


definition sample_decrypter :: decrypter where
  "sample_decrypter c d k i = Inr c"

definition sample_key_row :: Secret where
  "sample_key_row = new_secret ''s'' None DEEPSEEK_SECRET \<lparr>ev_ciphertext = [7], ev_wrappedDek = [], ev_keyRef = []\<rparr> 1"

definition sample_activation :: ProviderActivation where
  "sample_activation = \<lparr>pv_provider = ''deepseek'', pv_secretName = DEEPSEEK_SECRET, pv_secretVersion = 1, pv_runtimeId = ''p'', pv_activatedAt = 2\<rparr>"

definition sample_provider :: ProviderSystem where
  "sample_provider = \<lparr>ps_secrets = [sample_key_row], ps_activations = [sample_activation],
     ps_children = {Running ''p'' \<lparr>vs_value = [7], vs_version = 1, vs_updatedAt = 1\<rparr>}\<rparr>"

definition provider_world :: "(MockState, unit) SecretsWorld" where
  "provider_world =
     \<lparr>w_orgs = [], w_persons = [], w_codes = [], w_devices = [], w_tokens = [], w_bindings = [], w_secrets = Map.empty, w_audits = [], w_script = [],
      w_gateway = \<lparr>mk_spend = Map.empty, mk_models = Map.empty, mk_random = 0\<rparr>, w_desk = (),
      w_secretRows = [sample_key_row], w_systemAudits = [], w_activations = [sample_activation]\<rparr>"

lemma sample_provider_reachable: "provider_reachable sample_decrypter sample_provider"
proof -
  let ?v = "\<lparr>vs_value = [7], vs_version = 1, vs_updatedAt = 1\<rparr>"
  let ?s0 = "\<lparr>ps_secrets = [], ps_activations = [], ps_children = {}\<rparr>"
  let ?s1 = "?s0\<lparr>ps_secrets := [sample_key_row]\<rparr>"
  let ?s2 = "?s1\<lparr>ps_children := {Starting ''p'' ?v}\<rparr>"
  have "provider_reachable sample_decrypter ?s0" by (rule provider_reachable.empty)
  moreover have "provider_step sample_decrypter ?s0 ?s1"
    using provider_step.stored [of "''s''" ?s0 sample_decrypter 1 None DEEPSEEK_SECRET "se_envelope sample_key_row"]
    by (simp add: put_rows_def find_secret_def sample_key_row_def new_secret_def)
  moreover have "provider_step sample_decrypter ?s1 ?s2"
    using provider_step.started [of ?s1 sample_key_row sample_decrypter ?v "''p''"]
    by (simp add: find_secret_def secret_key_def sample_key_row_def new_secret_def open_row_def sample_decrypter_def)
  moreover have "provider_step sample_decrypter ?s2 sample_provider"
    using provider_step.recorded [of "''p''" ?v ?s2 sample_decrypter 2]
    by (simp add: upsert_activation_def sample_provider_def sample_activation_def insert_commute)
  ultimately show ?thesis by (meson provider_reachable.step)
qed


subsection \<open>The bootstrap file\<close>

lemma lines_append: "\<forall>c \<in> set l. \<not> line_end c \<Longrightarrow> line_end e \<Longrightarrow> text_lines (l @ e # s) = l # text_lines s"
  by (subst text_lines.simps) (auto simp: takeWhile_append2 dropWhile_append2)

lemma lines_single: "\<forall>c \<in> set l. \<not> line_end c \<Longrightarrow> text_lines l = [l]"
  by (subst text_lines.simps) (auto simp: takeWhile_eq_all_conv [THEN iffD2] dropWhile_eq_Nil_conv [THEN iffD2])

lemma replace_at_first: "\<forall>c \<in> set l. \<not> line_end c \<Longrightarrow> line_end e \<Longrightarrow> startsWith l BOOTSTRAP_LINE \<Longrightarrow> replace_first_line (l @ e # s) = BOOTSTRAP_LINE @ e # s"
  by (subst replace_first_line.simps) (auto simp: takeWhile_append2 dropWhile_append2 Let_def)

lemma bootstrap_plain [simp]: "c \<in> set BOOTSTRAP_LINE \<Longrightarrow> \<not> line_end c" "startsWith (BOOTSTRAP_LINE @ v) BOOTSTRAP_LINE" "startsWith BOOTSTRAP_LINE BOOTSTRAP_LINE"
  by (auto simp: BOOTSTRAP_LINE_def line_end_def startsWith_def)

definition key_text :: "string \<Rightarrow> bool" where
  "key_text v \<longleftrightarrow> (\<forall>c \<in> set v. \<not> line_end c) \<and> (\<exists>c \<in> set v. \<not> is_ws c)"

text \<open>
  The scrubbing of the bootstrap file only handles one assignment. Of two assignments of the key the second stays in the file, in clear
  text, and the run counts as scrubbed; an empty assignment in front of a real one makes the scrubbing do nothing at all.
\<close>

theorem second_assignment_survives_scrub:
  assumes "key_text k1" "key_text k2"
  shows "scrub_text (BOOTSTRAP_LINE @ k1 @ CHR 0x0A # BOOTSTRAP_LINE @ k2) = Some (BOOTSTRAP_LINE @ CHR 0x0A # BOOTSTRAP_LINE @ k2) \<and>
         scrub_text (BOOTSTRAP_LINE @ CHR 0x0A # BOOTSTRAP_LINE @ k2) = None"
proof -
  have nl: "line_end (CHR 0x0A)" by (simp add: line_end_def)
  have plain: "\<forall>c \<in> set (BOOTSTRAP_LINE @ v). \<not> line_end c" if "key_text v \<or> v = []" for v using that by (auto simp: key_text_def)
  have ls: "text_lines ((BOOTSTRAP_LINE @ v) @ CHR 0x0A # BOOTSTRAP_LINE @ k2) = [BOOTSTRAP_LINE @ v, BOOTSTRAP_LINE @ k2]" if "key_text v \<or> v = []" for v
    using lines_append [OF plain [OF that] nl] lines_single [OF plain, of k2] assms(2) by simp
  have "\<not> list_all is_ws k1" "\<not> list_all is_ws k2" using assms by (auto simp: key_text_def list_all_iff)
  then have "scrub_text ((BOOTSTRAP_LINE @ k1) @ CHR 0x0A # BOOTSTRAP_LINE @ k2) = Some (BOOTSTRAP_LINE @ CHR 0x0A # BOOTSTRAP_LINE @ k2)"
    using ls [of k1] assms(1) replace_at_first [OF plain nl, of k1] by (simp add: scrub_text_def has_bootstrap_line_def has_empty_line_def)
  moreover have "scrub_text ((BOOTSTRAP_LINE @ []) @ CHR 0x0A # BOOTSTRAP_LINE @ k2) = None"
    using ls [of "[]"] by (simp add: scrub_text_def has_empty_line_def)
  ultimately show ?thesis by simp
qed

theorem second_assignment_survives_scrub_witness:
  "scrub_text (BOOTSTRAP_LINE @ ''sk-1'' @ CHR 0x0A # BOOTSTRAP_LINE @ ''sk-2'') = Some (BOOTSTRAP_LINE @ CHR 0x0A # BOOTSTRAP_LINE @ ''sk-2'') \<and>
   scrub_text (BOOTSTRAP_LINE @ CHR 0x0A # BOOTSTRAP_LINE @ ''sk-2'') = None"
  by (rule second_assignment_survives_scrub) (simp_all add: key_text_def line_end_def is_ws_def)

end
