(* ===== verification/ProductionEnv.thy ===== *)
theory ProductionEnv
  imports RuntimeSecurity
begin

section \<open>The production launcher (scripts/with-production-env.mjs)\<close>

text \<open>
  A deployment starts its processes through a launcher, which parses an owner-only file of \<^verbatim>\<open>NAME=value\<close> lines, validates it and runs a command
  with it. \<^verbatim>\<open>fail\<close> prints its message and ends the process; it is the error of the result here. Properties: what is written in double quotes is read back,
  and a server started by the launcher passes its own preflight.
\<close>

subsection \<open>The file format\<close>

text \<open>\<^verbatim>\<open>s.replace(/ab/g, "c")\<close> for two characters\<close>

fun replace_pair :: "char \<Rightarrow> char \<Rightarrow> char \<Rightarrow> string \<Rightarrow> string" where
  "replace_pair a b c (x # y # s) = (if x = a \<and> y = b then c # replace_pair a b c s else x # replace_pair a b c (y # s))"
| "replace_pair a b c s = s"

abbreviation single_quote :: char where "single_quote \<equiv> CHR 0x27"
abbreviation double_quote :: char where "double_quote \<equiv> CHR 0x22"
abbreviation escape_char :: char where "escape_char \<equiv> CHR 0x5C"

definition decodeQuoted :: "string \<Rightarrow> nat \<Rightarrow> string res" where
  "decodeQuoted raw lineNumber =
     (let value = trim raw
      in case value of
           [] \<Rightarrow> Inr []
         | quote # _ \<Rightarrow>
             if quote \<noteq> single_quote \<and> quote \<noteq> double_quote then Inr value
             else
               throwIf (length value < 2 \<or> last value \<noteq> quote) (PlainError (''line '' @ show_nat lineNumber @ '' has an unterminated quoted value''))
              (let body = butlast (tl value)
               in if quote = single_quote
                  then throwIf (single_quote \<in> set body) (PlainError (''line '' @ show_nat lineNumber @ '' contains an unsupported single quote'')) (Inr body)
                  else Inr (replace_pair escape_char double_quote double_quote (replace_pair escape_char escape_char escape_char body))))"

text \<open>\<^verbatim>\<open>contents.split(/\r?\n/)\<close>\<close>

fun split_lines :: "string \<Rightarrow> string list" where
  "split_lines [] = [[]]"
| "split_lines (c # s) =
     (if c = CHR 0x0A then [] # split_lines s
      else if c = CHR 0x0D \<and> startsWith s [CHR 0x0A] then [] # split_lines (tl s)
      else (case split_lines s of [] \<Rightarrow> [[c]] | l # ls \<Rightarrow> (c # l) # ls))"

text \<open>\<^verbatim>\<open>/^\s*([A-Za-z_][A-Za-z0-9_]*)=(.*)$/\<close>: neither greedy run can give back what the next part needs.\<close>

definition env_line_end :: "char \<Rightarrow> bool" where
  "env_line_end c \<longleftrightarrow> c = CHR 0x0A \<or> c = CHR 0x0D"

definition env_assignment :: "string \<Rightarrow> (string \<times> string) option" where
  "env_assignment original =
     (let s = dropWhile is_ws original; name = takeWhile word_char s
      in if name = [] \<or> is_digit (hd name) then None
         else (case dropWhile word_char s of
                 [] \<Rightarrow> None
               | c # raw \<Rightarrow> if c = CHR ''='' \<and> list_all (\<lambda>x. \<not> env_line_end x) raw then Some (name, raw) else None))"

definition forbidden_value :: "string \<Rightarrow> bool" where
  "forbidden_value value \<longleftrightarrow> list_ex (\<lambda>c. c = CHR 0x00 \<or> env_line_end c) value"

text \<open>
  The object as its entries in insertion order. Assigning a text to \<^verbatim>\<open>__proto__\<close> leaves an object as it is.
\<close>

fun parse_lines :: "nat \<Rightarrow> (string \<times> string) list \<Rightarrow> string list \<Rightarrow> (string \<times> string) list res" where
  "parse_lines lineNumber parsed [] = Inr parsed"
| "parse_lines lineNumber parsed (original # rest) =
     (let line = trim original
      in if line = [] \<or> startsWith line ''#'' then parse_lines (lineNumber + 1) parsed rest
         else
           throwIf (startsWith line ''export '') (PlainError (''line '' @ show_nat lineNumber @ '' must use NAME=value, not shell syntax''))
          (case env_assignment original of
             None \<Rightarrow> Inl (PlainError (''line '' @ show_nat lineNumber @ '' is not a valid NAME=value assignment''))
           | Some (name, raw) \<Rightarrow>
               throwIf (name \<in> fst ` set parsed) (PlainError (''line '' @ show_nat lineNumber @ '' repeats '' @ name))
              (bindR (decodeQuoted raw lineNumber) (\<lambda>value.
               throwIf (forbidden_value value) (PlainError (''line '' @ show_nat lineNumber @ '' contains a forbidden control character''))
              (parse_lines (lineNumber + 1) (if name = ''__proto__'' then parsed else parsed @ [(name, value)]) rest)))))"

definition parseEnvFile :: "string \<Rightarrow> (string \<times> string) list res" where
  "parseEnvFile contents = parse_lines 1 [] (split_lines contents)"

subsection \<open>Private files\<close>

definition assertPrivateFile :: "FileSystem \<Rightarrow> string \<Rightarrow> string \<Rightarrow> FileStat res" where
  "assertPrivateFile fs path label =
     (case fs_lstat fs path of
        None \<Rightarrow> Inl (PlainError (label @ '' is missing''))
      | Some stat \<Rightarrow>
          throwIf (st_symlink stat) (PlainError (label @ '' must not be a symbolic link''))
         (throwIf (\<not> st_file stat) (PlainError (label @ '' must be a regular file''))
         (throwIf (st_mode stat mod 64 \<noteq> 0) (PlainError (label @ '' must not grant group/other permissions (use chmod 600)''))
         (throwIf (case fs_euid fs of None \<Rightarrow> False | Some u \<Rightarrow> st_uid stat \<noteq> u) (PlainError (label @ '' must be owned by the deployment user''))
         (Inr stat)))))"

definition readPrivateFile :: "FileSystem \<Rightarrow> string \<Rightarrow> string \<Rightarrow> string res" where
  "readPrivateFile fs path label =
     bindR (assertPrivateFile fs path label) (\<lambda>before.
     case fs_open fs path of
       None \<Rightarrow> Inl (PlainError (label @ '' could not be opened without following aliases''))
     | Some (opened, contents) \<Rightarrow>
         throwIf (\<not> st_file opened \<or> st_dev opened \<noteq> st_dev before \<or> st_ino opened \<noteq> st_ino before)
           (PlainError (label @ '' changed while it was being opened''))
        (Inr contents))"

text \<open>\<^verbatim>\<open>path.resolve(p)\<close> of POSIX in a working directory\<close>

fun walk_path :: "string list \<Rightarrow> string list \<Rightarrow> string list" where
  "walk_path up [] = rev up"
| "walk_path up (p # ps) = (if p = [] \<or> p = ''.'' then walk_path up ps else if p = ''..'' then walk_path (tl up) ps else walk_path (p # up) ps)"

definition resolve :: "string \<Rightarrow> string \<Rightarrow> string" where
  "resolve cwd p = ''/'' @ join ''/'' (walk_path [] (split_on CHR ''/'' (if startsWith p ''/'' then p else cwd @ ''/'' @ p)))"

subsection \<open>Validation\<close>

definition requireValue :: "env \<Rightarrow> string \<Rightarrow> nat \<Rightarrow> unit res" where
  "requireValue env name minLength =
     throwIf (env_text env name = [] \<or> length (env_text env name) < minLength) (PlainError (name @ '' is missing or too short'')) (Inr ())"

definition launch_requireDatabaseSchema :: "UrlRuntime \<Rightarrow> env \<Rightarrow> string \<Rightarrow> string \<Rightarrow> URL res" where
  "launch_requireDatabaseSchema ur env name expectedSchema =
     bindR (requireValue env name 1) (\<lambda>_.
     case ur_newURL ur (env_text env name) of
       None \<Rightarrow> Inl (PlainError (name @ '' is not a valid database URL''))
     | Some url \<Rightarrow>
         throwIf (u_protocol url \<noteq> ''postgresql:'' \<and> u_protocol url \<noteq> ''postgres:'') (PlainError (name @ '' must use postgresql:// or postgres://''))
        (throwIf (ur_param ur (u_search url) ''schema'' \<noteq> Some expectedSchema) (PlainError (name @ '' must explicitly use schema='' @ expectedSchema))
        (Inr url)))"

definition decodeMasterKey :: "KmsRuntime \<Rightarrow> string \<Rightarrow> byte list option" where
  "decodeMasterKey rt raw =
     (let value = trim raw
      in if length value = 64 \<and> list_all (\<lambda>c. hex_digit c < 16) value then Some (hex_bytes value)
         else if length (kr_base64url rt value) = 32 then Some (kr_base64url rt value) else None)"

definition validateCrashAlertEnv :: "env \<Rightarrow> unit res" where
  "validateCrashAlertEnv env =
     (let v = env_text env;
          vs = map v [''HARA_CRASH_FEISHU_APP_ID'', ''HARA_CRASH_FEISHU_APP_SECRET'', ''HARA_CRASH_FEISHU_CHAT_ID'', ''HARA_CRASH_FEISHU_MENTION_OPEN_ID'']
      in if list_all (\<lambda>x. x = []) vs then Inr ()
         else
           throwIf (list_ex (\<lambda>x. x = []) vs) (PlainError ''crash alerts require all four HARA_CRASH_FEISHU_* settings'')
          (throwIf (\<not> prefixed_name ''cli_'' (v ''HARA_CRASH_FEISHU_APP_ID'')) (PlainError ''HARA_CRASH_FEISHU_APP_ID is invalid'')
          (throwIf (length (v ''HARA_CRASH_FEISHU_APP_SECRET'') < 20) (PlainError ''HARA_CRASH_FEISHU_APP_SECRET is too short'')
          (throwIf (\<not> prefixed_name ''oc_'' (v ''HARA_CRASH_FEISHU_CHAT_ID'')) (PlainError ''HARA_CRASH_FEISHU_CHAT_ID is invalid'')
          (throwIf (\<not> prefixed_name ''ou_'' (v ''HARA_CRASH_FEISHU_MENTION_OPEN_ID'')) (PlainError ''HARA_CRASH_FEISHU_MENTION_OPEN_ID is invalid'')
          (Inr ()))))))"

text \<open>The empty text stands for no key.\<close>

definition launch_loadFeedbackIntakeKey :: "FileSystem \<Rightarrow> env \<Rightarrow> string res" where
  "launch_loadFeedbackIntakeKey fs env =
     (let inline = trim (env_text env ''HARA_FEEDBACK_INTAKE_KEY''); keyfile = trim (env_text env ''HARA_FEEDBACK_INTAKE_KEYFILE'')
      in throwIf (inline \<noteq> [] \<and> keyfile \<noteq> []) (PlainError ''configure only one feedback intake key source'')
        (if inline = [] \<and> keyfile = [] then Inr []
         else
           throwIf (keyfile \<noteq> [] \<and> \<not> startsWith keyfile ''/'') (PlainError ''HARA_FEEDBACK_INTAKE_KEYFILE must be absolute'')
          (bindR (if inline \<noteq> [] then Inr inline else bindR (readPrivateFile fs keyfile ''HARA_FEEDBACK_INTAKE_KEYFILE'') (\<lambda>s. Inr (trim s))) (\<lambda>key.
           throwIf (length key < 32) (PlainError ''feedback intake credential is too short'') (Inr key)))))"

text \<open>The loop over the secrets of a gateway deployment with its map from values to names.\<close>

fun no_reuse :: "env \<Rightarrow> (string \<rightharpoonup> string) \<Rightarrow> string list \<Rightarrow> unit res" where
  "no_reuse env seen [] = Inr ()"
| "no_reuse env seen (name # names) =
     (if env_text env name = [] then no_reuse env seen names
      else (case seen (env_text env name) of
              Some duplicate \<Rightarrow> Inl (PlainError (name @ '' must not reuse '' @ duplicate))
            | None \<Rightarrow> no_reuse env (seen(env_text env name \<mapsto> name)) names))"

definition SECRET_NAMES :: "string list" where
  "SECRET_NAMES = [''HARA_CONTROL_ADMIN_KEY'', ''HARA_JWT_SECRET'', ''LITELLM_MASTER_KEY'', ''UPSTREAM_API_KEY'', ''HARA_CRASH_FEISHU_APP_SECRET'']"

definition validateGatewayEnv :: "UrlRuntime \<Rightarrow> env \<Rightarrow> unit res" where
  "validateGatewayEnv ur env =
     bindR (requireValue env ''LITELLM_URL'' 1) (\<lambda>_.
     bindR (requireValue env ''LITELLM_MASTER_KEY'' 24) (\<lambda>_.
     bindR (launch_requireDatabaseSchema ur env ''LITELLM_DATABASE_URL'' ''litellm'') (\<lambda>_.
     case ur_newURL ur (env_text env ''LITELLM_URL'') of
       None \<Rightarrow> Inl (PlainError ''LITELLM_URL is not a valid URL'')
     | Some litellmUrl \<Rightarrow>
         throwIf (u_hostname litellmUrl \<notin> {''127.0.0.1'', ''localhost'', ''::1''} \<and> env ''HARA_ALLOW_REMOTE_LITELLM'' \<noteq> Some ''1'')
           (PlainError ''LITELLM_URL must be loopback unless HARA_ALLOW_REMOTE_LITELLM=1 is explicitly set'')
        (no_reuse env Map.empty SECRET_NAMES))))"

fun not_master :: "env \<Rightarrow> string \<Rightarrow> string list \<Rightarrow> unit res" where
  "not_master env masterRaw [] = Inr ()"
| "not_master env masterRaw (name # names) =
     throwIf (env_text env name \<noteq> [] \<and> env_text env name = masterRaw) (PlainError (''the KMS master key must not reuse '' @ name))
    (not_master env masterRaw names)"

definition validateMasterKey :: "KmsRuntime \<Rightarrow> FileSystem \<Rightarrow> string \<Rightarrow> env \<Rightarrow> string \<Rightarrow> unit res" where
  "validateMasterKey rt fs cwd env feedbackIntakeKey =
     (let keyfile = env_text env ''HARA_KMS_KEYFILE''; inline = env_text env ''HARA_KMS_MASTER_KEY''
      in throwIf (keyfile = [] \<and> inline = []) (PlainError ''configure HARA_KMS_KEYFILE (preferred) or HARA_KMS_MASTER_KEY'')
        (throwIf (keyfile \<noteq> [] \<and> inline \<noteq> []) (PlainError ''configure only one of HARA_KMS_KEYFILE or HARA_KMS_MASTER_KEY'')
        (bindR (if keyfile \<noteq> [] then bindR (readPrivateFile fs (resolve cwd keyfile) ''HARA_KMS_KEYFILE'') (\<lambda>s. Inr (trim s)) else Inr (trim inline)) (\<lambda>masterRaw.
         case decodeMasterKey rt masterRaw of
           None \<Rightarrow> Inl (PlainError ''the KMS master key must decode to exactly 32 bytes'')
         | Some master \<Rightarrow>
             throwIf (feedbackIntakeKey \<noteq> [] \<and> decodeMasterKey rt feedbackIntakeKey = Some master)
               (PlainError ''HARA_FEEDBACK_INTAKE_KEY must be independent from the KMS master key'')
            (not_master env masterRaw SECRET_NAMES)))))"

definition validateProductionEnv :: "UrlRuntime \<Rightarrow> KmsRuntime \<Rightarrow> FileSystem \<Rightarrow> string \<Rightarrow> env \<Rightarrow> string \<Rightarrow> unit res" where
  "validateProductionEnv ur rt fs cwd env envPath =
     bindR (launch_requireDatabaseSchema ur env ''DATABASE_URL'' ''public'') (\<lambda>_.
     bindR (requireValue env ''HARA_CONTROL_ADMIN_KEY'' 24) (\<lambda>_.
     bindR (requireValue env ''HARA_JWT_SECRET'' 24) (\<lambda>_.
     bindR (launch_loadFeedbackIntakeKey fs env) (\<lambda>feedbackIntakeKey.
     throwIf (env ''HARA_CONTROL_ADMIN_KEY'' = env ''HARA_JWT_SECRET'') (PlainError ''HARA_CONTROL_ADMIN_KEY and HARA_JWT_SECRET must be different'')
    (throwIf (feedbackIntakeKey \<noteq> [] \<and> reuses env SECRET_NAMES feedbackIntakeKey)
       (PlainError ''HARA_FEEDBACK_INTAKE_KEY must be independent from all runtime secrets'')
    (bindR (validateCrashAlertEnv env) (\<lambda>_.
     throwIf (env_text env ''HARA_CRASH_FEISHU_APP_SECRET'' \<noteq> [] \<and>
              reuses env [''HARA_CONTROL_ADMIN_KEY'', ''HARA_JWT_SECRET''] (env_text env ''HARA_CRASH_FEISHU_APP_SECRET''))
       (PlainError ''HARA_CRASH_FEISHU_APP_SECRET must be independent from Hara auth secrets'')
    (bindR (if orStr (env_text env ''GATEWAY_ADAPTER'') ''mock'' = ''litellm'' then validateGatewayEnv ur env else Inr ()) (\<lambda>_.
     bindR (validateMasterKey rt fs cwd env feedbackIntakeKey) (\<lambda>_.
     throwIf (env_text env ''NODE_ENV'' \<noteq> [] \<and> env_text env ''NODE_ENV'' \<noteq> ''production'') (PlainError ''NODE_ENV must be production for this deployment path'')
    (throwIf (envPath = []) (PlainError ''env path missing'')
    (Inr ()))))))))))))"

subsection \<open>The launch\<close>

record Launch =
  ln_command :: string
  ln_args :: "string list"
  ln_env :: env

definition USAGE :: string where
  "USAGE = ''usage: node scripts/with-production-env.mjs <env-file> -- <command> [args...]''"

definition launch :: "UrlRuntime \<Rightarrow> KmsRuntime \<Rightarrow> FileSystem \<Rightarrow> string \<Rightarrow> env \<Rightarrow> string list \<Rightarrow> Launch res" where
  "launch ur rt fs cwd inherited argv =
     (case argv of
        file # separator # command # commandArgs \<Rightarrow>
          throwIf (file = ''--'' \<or> separator \<noteq> ''--'') (PlainError USAGE)
         (let envPath = resolve cwd file
          in bindR (readPrivateFile fs envPath ''.env'') (\<lambda>contents.
             bindR (parseEnvFile contents) (\<lambda>parsed.
             bindR (validateProductionEnv ur rt fs cwd (map_of parsed) envPath) (\<lambda>_.
             Inr \<lparr>ln_command = command, ln_args = commandArgs,
                  ln_env = (inherited ++ map_of parsed)(''NODE_ENV'' \<mapsto> ''production'', ''HARA_ENV_LOADED'' \<mapsto> ''1'')\<rparr>))))
      | _ \<Rightarrow> Inl (PlainError USAGE))"

text \<open>
  Whether the module is the program that was started: directly, or by PM2, which imports it. The URL of the module and of a path are parameters.
\<close>

definition isMainInvocation :: "(string \<Rightarrow> string) \<Rightarrow> string \<Rightarrow> string \<Rightarrow> string \<Rightarrow> string option \<Rightarrow> env \<Rightarrow> bool" where
  "isMainInvocation pathToFileURL moduleUrl thisScriptPath cwd argv1 env \<longleftrightarrow>
     (case argv1 of None \<Rightarrow> False | Some p \<Rightarrow> moduleUrl = pathToFileURL (resolve cwd p)) \<or>
     (case env ''pm_exec_path'' of
        None \<Rightarrow> False
      | Some pmExecPath \<Rightarrow> env_text env ''pm_id'' \<noteq> [] \<and> list_all is_digit (env_text env ''pm_id'') \<and> resolve cwd pmExecPath = thisScriptPath)"

subsection \<open>Writing and reading a file\<close>

fun escape_value :: "string \<Rightarrow> string" where
  "escape_value [] = []"
| "escape_value (c # v) = (if c = escape_char \<or> c = double_quote then [escape_char, c] else [c]) @ escape_value v"

definition print_line :: "string \<times> string \<Rightarrow> string" where
  "print_line e = fst e @ ''='' @ [double_quote] @ escape_value (snd e) @ [double_quote]"

fun print_env :: "(string \<times> string) list \<Rightarrow> string" where
  "print_env [] = []"
| "print_env (e # es) = print_line e @ CHR 0x0A # print_env es"

definition env_name :: "string \<Rightarrow> bool" where
  "env_name n \<longleftrightarrow> n \<noteq> [] \<and> list_all word_char n \<and> \<not> is_digit (hd n) \<and> n \<noteq> ''__proto__''"

text \<open>After the first replacement, only the quotes are still escaped.\<close>

fun half_escaped :: "string \<Rightarrow> string" where
  "half_escaped [] = []"
| "half_escaped (c # v) = (if c = double_quote then [escape_char, c] else [c]) @ half_escaped v"

lemma replace_pair_other: "x \<noteq> a \<Longrightarrow> replace_pair a b c (x # s) = x # replace_pair a b c s"
  by (cases s) auto

lemma replace_pair_next: "\<not> startsWith s [b] \<Longrightarrow> replace_pair a b c (x # s) = x # replace_pair a b c s"
  by (cases s) (auto simp: startsWith_def)

lemma unescape_backslashes: "replace_pair escape_char escape_char escape_char (escape_value v) = half_escaped v"
  by (induction v) (auto simp: replace_pair_other)

lemma half_escaped_start: "\<not> startsWith (half_escaped v) [double_quote]"
  by (cases v) (auto simp: startsWith_def)

lemma unescape_quotes: "replace_pair escape_char double_quote double_quote (half_escaped v) = v"
  by (induction v) (auto simp: replace_pair_next half_escaped_start)

lemma trim_between: "\<not> is_ws a \<Longrightarrow> \<not> is_ws b \<Longrightarrow> trim (a # s @ [b]) = a # s @ [b]"
  by (simp add: trim_def)

lemma decode_printed: "decodeQuoted (double_quote # escape_value v @ [double_quote]) n = Inr v"
proof -
  have "trim (double_quote # escape_value v @ [double_quote]) = double_quote # escape_value v @ [double_quote]"
    by (rule trim_between) (simp_all add: is_ws_def)
  then show ?thesis by (simp add: decodeQuoted_def Let_def throwIf_def butlast_append unescape_backslashes unescape_quotes)
qed

lemma split_lines_append: "list_all (\<lambda>c. \<not> env_line_end c) l \<Longrightarrow> split_lines (l @ CHR 0x0A # s) = l # split_lines s"
  by (induction l) (auto simp: env_line_end_def)

lemma escape_no_line_end: "list_all (\<lambda>c. \<not> env_line_end c) v \<Longrightarrow> list_all (\<lambda>c. \<not> env_line_end c) (escape_value v)"
  by (induction v) (auto simp: env_line_end_def)

lemma word_char_facts: "word_char c \<Longrightarrow> \<not> is_ws c \<and> \<not> env_line_end c \<and> c \<noteq> CHR ''='' \<and> c \<noteq> CHR ''#''"
  by (auto simp: word_char_def is_ws_def env_line_end_def is_upper_az_def is_lower_az_def is_digit_def)

lemma printed_line:
  assumes n: "env_name n" and v: "\<not> forbidden_value v"
  shows "list_all (\<lambda>c. \<not> env_line_end c) (print_line (n, v))" "trim (print_line (n, v)) = print_line (n, v)"
    "env_assignment (print_line (n, v)) = Some (n, double_quote # escape_value v @ [double_quote])"
proof -
  obtain c cs where cs: "n = c # cs" using n by (cases n) (auto simp: env_name_def)
  have w: "list_all word_char n" using n by (simp add: env_name_def)
  have e: "list_all (\<lambda>c. \<not> env_line_end c) (escape_value v)"
    using v by (intro escape_no_line_end) (auto simp: forbidden_value_def list_all_iff list_ex_iff)
  show "list_all (\<lambda>c. \<not> env_line_end c) (print_line (n, v))"
    using w e word_char_facts by (auto simp: print_line_def list_all_iff) (auto simp: env_line_end_def)
  have first: "\<not> is_ws c" using w word_char_facts by (simp add: cs)
  show "trim (print_line (n, v)) = print_line (n, v)"
    using trim_between [OF first, of double_quote "cs @ ''='' @ [double_quote] @ escape_value v"] by (simp add: cs print_line_def is_ws_def)
  have "takeWhile word_char (print_line (n, v)) = n" "dropWhile word_char (print_line (n, v)) = CHR ''='' # double_quote # escape_value v @ [double_quote]"
    using w by (auto simp: print_line_def takeWhile_append dropWhile_append list_all_iff word_char_def is_upper_az_def is_lower_az_def is_digit_def)
  moreover have "dropWhile is_ws (print_line (n, v)) = print_line (n, v)" using first by (simp add: cs print_line_def)
  ultimately show "env_assignment (print_line (n, v)) = Some (n, double_quote # escape_value v @ [double_quote])"
    using n e by (simp add: env_assignment_def Let_def env_name_def env_line_end_def)
qed

lemma printed_line_kind:
  assumes "env_name n"
  shows "print_line (n, v) \<noteq> []" "\<not> startsWith (print_line (n, v)) ''#''" "\<not> startsWith (print_line (n, v)) ''export ''"
proof -
  have w: "list_all word_char n" and ne: "n \<noteq> []" using assms by (auto simp: env_name_def)
  show "print_line (n, v) \<noteq> []" by (simp add: print_line_def)
  show "\<not> startsWith (print_line (n, v)) ''#''"
    using w ne word_char_facts by (cases n) (auto simp: print_line_def startsWith_def)
  show "\<not> startsWith (print_line (n, v)) ''export ''"
  proof
    assume "startsWith (print_line (n, v)) ''export ''"
    then have *: "take 7 (n @ CHR ''='' # double_quote # escape_value v @ [double_quote]) = ''export ''" by (simp add: startsWith_def print_line_def eval_nat_numeral)
    have "\<not> word_char (CHR '' '')" by (simp add: word_char_def is_upper_az_def is_lower_az_def is_digit_def)
    then have space: "CHR '' '' \<notin> set n" using w by (auto simp: list_all_iff)
    have equals: "length n < 7 \<Longrightarrow> CHR ''='' \<in> set (take 7 (n @ CHR ''='' # double_quote # escape_value v @ [double_quote]))"
      by (simp add: take_Cons')
    show False
    proof (cases "length n < 7")
      case True
      then have "CHR ''='' \<in> set ''export ''" using equals by (simp only: *)
      then show False by simp
    next
      case False
      then have "take 7 n = ''export ''" using * by simp
      then have "CHR '' '' \<in> set (take 7 n)" by simp
      then show False using space in_set_takeD by fast
    qed
  qed
qed

lemma parse_printed:
  assumes "list_all (\<lambda>e. env_name (fst e) \<and> \<not> forbidden_value (snd e)) es" "distinct (map fst (acc @ es))"
  shows "parse_lines k acc (split_lines (print_env es)) = Inr (acc @ es)"
  using assms
proof (induction es arbitrary: k acc)
  case Nil
  then show ?case by (simp add: trim_def)
next
  case (Cons e es)
  obtain n v where e: "e = (n, v)" by (cases e)
  have n: "env_name n" and v: "\<not> forbidden_value v" and "n \<notin> fst ` set acc" using Cons.prems by (auto simp: e)
  moreover have "parse_lines (k + 1) (acc @ [(n, v)]) (split_lines (print_env es)) = Inr ((acc @ [(n, v)]) @ es)"
    by (rule Cons.IH) (use Cons.prems in \<open>auto simp: e\<close>)
  moreover have "n \<noteq> ''__proto__''" using n by (simp add: env_name_def)
  ultimately show ?case
    using printed_line [OF n v] printed_line_kind [OF n, of v] by (simp add: e split_lines_append Let_def throwIf_def bindR_def decode_printed del: fst_conv)
qed

text \<open>
  Property C38. Writing settings as double-quoted assignments, with a backslash before every backslash and quote, and reading the file gives the
  settings back, in order, for all values the format allows.
\<close>

theorem env_file_roundtrip:
  assumes "list_all (\<lambda>e. env_name (fst e) \<and> \<not> forbidden_value (snd e)) es" "distinct (map fst es)"
  shows "parseEnvFile (print_env es) = Inr es"
  using parse_printed [of es "[]" 1] assms by (simp add: parseEnvFile_def)

definition sample_settings :: "(string \<times> string) list" where
  "sample_settings = [(''A_1'', [escape_char, double_quote, CHR '' '', CHR ''#'']), (''b'', []), (''_c'', [double_quote, escape_char, single_quote, escape_char])]"

theorem env_file_roundtrip_witness: "parseEnvFile (print_env sample_settings) = Inr sample_settings"
proof (rule env_file_roundtrip)
  show "list_all (\<lambda>e. env_name (fst e) \<and> \<not> forbidden_value (snd e)) sample_settings" by code_simp
  show "distinct (map fst sample_settings)" by code_simp
qed

end
