(* ===== verification/LaunchedServer.thy ===== *)
theory LaunchedServer
  imports ProductionEnv
begin

section \<open>The launcher and the server's preflight\<close>

text \<open>
  The launcher (scripts/with-production-env.mjs) and the server (config/runtime-security.ts) check the same deployment in two programs written
  separately. The property says when the first check implies the second: what the launcher leaves open is exactly in its hypotheses.
\<close>

text \<open>Node's decoder reads both alphabets and gives three bytes for four characters.\<close>

definition node_decoder :: "KmsRuntime \<Rightarrow> bool" where
  "node_decoder rt \<longleftrightarrow> one_alphabet rt \<and> kr_base64url rt [] = [] \<and> (\<forall>s. length s = 64 \<and> list_all (\<lambda>c. hex_digit c < 16) s \<longrightarrow> length (kr_base64url rt s) = 48)"

text \<open>Both programs see the same files from the same directory.\<close>

definition same_files :: "KmsRuntime \<Rightarrow> FileSystem \<Rightarrow> string \<Rightarrow> bool" where
  "same_files rt fs cwd \<longleftrightarrow> (\<forall>p st contents. fs_open fs (resolve cwd p) = Some (st, contents) \<longrightarrow> kr_readFile rt p = Inr contents)"

lemma requireValue_ok: "requireValue env name n = Inr u \<longleftrightarrow> env_text env name \<noteq> [] \<and> n \<le> length (env_text env name)"
  by (auto simp: requireValue_def throwIf_def)

lemma schema_agrees: "launch_requireDatabaseSchema ur env name schema = Inr url \<Longrightarrow> requireDatabaseSchema ur env name schema = Inr ()"
  by (auto simp: launch_requireDatabaseSchema_def requireDatabaseSchema_def Let_def bindR_eq_Inr throwIf_eq_Inr requireValue_ok split: option.splits)

lemma crash_alerts_agree: "validateCrashAlertEnv env = Inr () \<Longrightarrow> assertCrashAlertConfiguration env = Inr ()"
  unfolding validateCrashAlertEnv_def assertCrashAlertConfiguration_def Let_def by (simp add: throwIf_eq_Inr split: if_splits)

lemma intake_file_agrees:
  "readPrivateFile fs p label = Inr s \<Longrightarrow> startsWith p ''/'' \<Longrightarrow> readPrivateKeyFile fs p = Inr (trim s)"
  by (auto simp: readPrivateFile_def assertPrivateFile_def readPrivateKeyFile_def bindR_eq_Inr throwIf_eq_Inr split: option.splits prod.splits)

lemma intake_agrees:
  assumes "launch_loadFeedbackIntakeKey fs env = Inr k"
  shows "loadFeedbackIntakeKey fs env = Inr (if k = [] then None else Some k)"
proof (cases "trim (env_text env ''HARA_FEEDBACK_INTAKE_KEY'') = [] \<and> trim (env_text env ''HARA_FEEDBACK_INTAKE_KEYFILE'') = []")
  case True
  then show ?thesis using assms by (auto simp: launch_loadFeedbackIntakeKey_def loadFeedbackIntakeKey_def Let_def throwIf_def)
next
  case False
  then show ?thesis
    using assms intake_file_agrees [of fs "trim (env_text env ''HARA_FEEDBACK_INTAKE_KEYFILE'')" "''HARA_FEEDBACK_INTAKE_KEYFILE''"]
    by (auto simp: launch_loadFeedbackIntakeKey_def loadFeedbackIntakeKey_def Let_def bindR_eq_Inr throwIf_eq_Inr split: if_splits)
qed

lemma intake_trimmed: "launch_loadFeedbackIntakeKey fs env = Inr k \<Longrightarrow> trim k = k"
  by (auto simp: launch_loadFeedbackIntakeKey_def Let_def bindR_eq_Inr throwIf_eq_Inr split: if_splits)

lemma master_key_agrees:
  assumes "node_decoder rt" "decodeMasterKey rt raw = Some master"
  shows "decodeKey rt raw = Some master"
  using assms by (auto simp: decodeMasterKey_def decodeKey_def node_decoder_def one_alphabet_def Let_def KEY_BYTES_def split: if_splits)

lemma intake_is_master:
  assumes "node_decoder rt" "trim k = k" "length master = 32"
  shows "secretDecodesTo rt k master \<longleftrightarrow> decodeMasterKey rt k = Some master"
proof (cases "length k = 64 \<and> list_all (\<lambda>c. hex_digit c < 16) k")
  case True
  then have "length (kr_base64url rt k) = 48" using assms(1) by (auto simp: node_decoder_def)
  then show ?thesis using True assms(2,3) by (auto simp: secretDecodesTo_def decodeMasterKey_def Let_def length_hex_bytes)
qed (use assms(2,3) in \<open>auto simp: secretDecodesTo_def decodeMasterKey_def Let_def\<close>)

lemma not_master_ok: "not_master env raw names = Inr () \<longleftrightarrow> (\<forall>n \<in> set names. env_text env n = [] \<or> env_text env n \<noteq> raw)"
  by (induction names) (auto simp: throwIf_eq_Inr)

lemma no_reuse_ok:
  "no_reuse env seen names = Inr () \<Longrightarrow>
     distinct (filter (\<lambda>v. v \<noteq> []) (map (env_text env) names)) \<and> (\<forall>n \<in> set names. env_text env n = [] \<or> seen (env_text env n) = None)"
  by (induction names arbitrary: seen) (force split: if_splits option.splits)+

lemma reuses_text: "v \<noteq> [] \<Longrightarrow> reuses env names v \<longleftrightarrow> (\<exists>n \<in> set names. env_text env n = v)"
  using env_text_Some [of env] by (force simp: reuses_def list_ex_iff env_text_def nullish_def split: option.splits)

lemma master_accepted:
  assumes "validateMasterKey rt fs cwd env k = Inr ()" "node_decoder rt" "same_files rt fs cwd" "kmsProvider env = ''local''" "trim k = k"
    "trim (env_text env ''HARA_KMS_KEYFILE'') = env_text env ''HARA_KMS_KEYFILE''" "trim (env_text env ''HARA_KMS_MASTER_KEY'') = env_text env ''HARA_KMS_MASTER_KEY''"
  shows "\<exists>master. loadMasterKey rt env = Inr master \<and> (k \<noteq> [] \<longrightarrow> \<not> secretDecodesTo rt k master) \<and>
    (env_text env ''HARA_KMS_KEYFILE'' = []) \<noteq> (env_text env ''HARA_KMS_MASTER_KEY'' = []) \<and>
    (\<forall>n \<in> set SECRET_NAMES. env_text env n = [] \<or> env_text env n \<noteq> env_text env ''HARA_KMS_MASTER_KEY'')"
proof -
  let ?F = "env_text env ''HARA_KMS_KEYFILE''" and ?K = "env_text env ''HARA_KMS_MASTER_KEY''"
  obtain raw master where one: "(?F = []) \<noteq> (?K = [])"
    and raw: "(if ?F \<noteq> [] then bindR (readPrivateFile fs (resolve cwd ?F) ''HARA_KMS_KEYFILE'') (\<lambda>s. Inr (trim s)) else Inr ?K) = Inr raw"
    and master: "decodeMasterKey rt raw = Some master" and other: "k \<noteq> [] \<longrightarrow> decodeMasterKey rt k \<noteq> Some master" and names: "not_master env raw SECRET_NAMES = Inr ()"
    using assms(1,7) by (auto simp: validateMasterKey_def Let_def bindR_eq_Inr throwIf_eq_Inr split: if_splits option.splits)
  have key: "decodeKey rt raw = Some master" by (rule master_key_agrees [OF assms(2) master])
  have len: "length master = 32" using decodeKey_length [OF key] by (simp add: KEY_BYTES_def)
  have "loadMasterKey rt env = Inr master"
  proof (cases "?F = []")
    case True
    then show ?thesis using raw key assms(7) one by (simp add: loadMasterKey_def Let_def)
  next
    case False
    then obtain st contents where "fs_open fs (resolve cwd ?F) = Some (st, contents)" "raw = trim contents"
      using raw by (auto simp: bindR_eq_Inr throwIf_eq_Inr readPrivateFile_def split: option.splits)
    then have "kr_readFile rt ?F = Inr contents" "decodeKey rt contents = Some master" using assms(3) key by (auto simp: same_files_def decodeKey_def Let_def)
    then show ?thesis using False one assms(6) by (simp add: loadMasterKey_def Let_def trim_def)
  qed
  moreover have "\<forall>n \<in> set SECRET_NAMES. env_text env n = [] \<or> env_text env n \<noteq> ?K"
    using names raw one by (cases "?F = []") (auto simp: not_master_ok)
  ultimately show ?thesis using other one intake_is_master [OF assms(2,5) len] by blast
qed

lemma gateway_accepted:
  assumes "validateGatewayEnv ur env = Inr ()" "allowedManagedModels env = Inr ms" "defaultManagedModel env = Inr m" "24 \<le> length (env_text env ''HARA_CONTROL_ADMIN_KEY'')"
    "24 \<le> length (env_text env ''HARA_JWT_SECRET'')"
  shows "assertLitellmRuntime ur env = Inr () \<and> distinct (filter (\<lambda>v. v \<noteq> []) (map (env_text env) SECRET_NAMES))"
proof -
  have d: "distinct (filter (\<lambda>v. v \<noteq> []) (map (env_text env) SECRET_NAMES))"
    using assms(1) no_reuse_ok [of env Map.empty SECRET_NAMES] by (auto simp: validateGatewayEnv_def bindR_eq_Inr throwIf_eq_Inr split: option.splits)
  have L: "env_text env ''LITELLM_MASTER_KEY'' \<noteq> []" using assms(1) by (auto simp: validateGatewayEnv_def bindR_eq_Inr requireValue_ok)
  have "env ''LITELLM_MASTER_KEY'' \<noteq> env ''HARA_CONTROL_ADMIN_KEY''" "env ''LITELLM_MASTER_KEY'' \<noteq> env ''HARA_JWT_SECRET''"
    using d L assms(4,5) by (auto simp: SECRET_NAMES_def env_text_def split: if_splits)
  then show ?thesis
    using assms(1,2,3) d schema_agrees by (auto simp: validateGatewayEnv_def assertLitellmRuntime_def bindR_eq_Inr throwIf_eq_Inr requireValue_ok long_value split: option.splits)
qed

subsection \<open>The environment of the server\<close>

text \<open>The settings both checks read, but for the provider of the key store and the models.\<close>

definition RUNTIME_NAMES :: "string list" where
  "RUNTIME_NAMES =
     [''DATABASE_URL'', ''HARA_CONTROL_ADMIN_KEY'', ''HARA_JWT_SECRET'', ''HARA_FEEDBACK_INTAKE_KEY'', ''HARA_FEEDBACK_INTAKE_KEYFILE'',
      ''HARA_CRASH_FEISHU_APP_ID'', ''HARA_CRASH_FEISHU_APP_SECRET'', ''HARA_CRASH_FEISHU_CHAT_ID'', ''HARA_CRASH_FEISHU_MENTION_OPEN_ID'',
      ''LITELLM_MASTER_KEY'', ''UPSTREAM_API_KEY'', ''HARA_KMS_KEYFILE'', ''HARA_KMS_MASTER_KEY'', ''GATEWAY_ADAPTER'', ''LITELLM_DATABASE_URL'', ''LITELLM_URL'',
      ''HARA_ALLOW_REMOTE_LITELLM'']"

lemma no_reuse_agrees: "\<forall>n \<in> set names. env_text e n = env_text c n \<Longrightarrow> no_reuse e m names = no_reuse c m names"
  by (induction names arbitrary: m) (auto split: option.splits)

lemma not_master_agrees: "\<forall>n \<in> set names. env_text e n = env_text c n \<Longrightarrow> not_master e raw names = not_master c raw names"
  by (induction names) auto

lemma validation_transfers:
  assumes agree: "\<forall>n \<in> set RUNTIME_NAMES. e n = c n" and "validateProductionEnv ur rt fs cwd c p = Inr ()" and "e ''NODE_ENV'' = Some ''production''"
  shows "validateProductionEnv ur rt fs cwd e p = Inr ()"
proof -
  note E = agree [unfolded RUNTIME_NAMES_def list.set ball_simps, simplified]
  have T: "n \<in> set RUNTIME_NAMES \<Longrightarrow> env_text e n = env_text c n" for n using agree by (simp add: env_text_def)
  note T' = T [unfolded RUNTIME_NAMES_def, simplified]
  have "\<forall>n \<in> set SECRET_NAMES. env_text e n = env_text c n" using T' by (simp add: SECRET_NAMES_def)
  note shared = no_reuse_agrees [OF this] not_master_agrees [OF this]
  have "reuses e SECRET_NAMES k = reuses c SECRET_NAMES k" "reuses e [''HARA_CONTROL_ADMIN_KEY'', ''HARA_JWT_SECRET''] k = reuses c [''HARA_CONTROL_ADMIN_KEY'', ''HARA_JWT_SECRET''] k" for k
    by (simp_all add: reuses_def E SECRET_NAMES_def)
  note lists = this shared
  have "launch_loadFeedbackIntakeKey fs e = launch_loadFeedbackIntakeKey fs c" "validateCrashAlertEnv e = validateCrashAlertEnv c"
    "launch_requireDatabaseSchema ur e ''DATABASE_URL'' s = launch_requireDatabaseSchema ur c ''DATABASE_URL'' s"
    "requireValue e ''HARA_CONTROL_ADMIN_KEY'' l = requireValue c ''HARA_CONTROL_ADMIN_KEY'' l" "requireValue e ''HARA_JWT_SECRET'' l = requireValue c ''HARA_JWT_SECRET'' l" for s l
    by (simp_all add: launch_loadFeedbackIntakeKey_def validateCrashAlertEnv_def launch_requireDatabaseSchema_def requireValue_def Let_def T')
  moreover have "validateGatewayEnv ur e = validateGatewayEnv ur c"
    by (simp add: validateGatewayEnv_def launch_requireDatabaseSchema_def requireValue_def lists T' E cong: option.case_cong)
  moreover have "validateMasterKey rt fs cwd e k = validateMasterKey rt fs cwd c k" for k by (simp add: validateMasterKey_def Let_def lists T' cong: option.case_cong)
  ultimately show ?thesis using assms(2,3) by (simp add: validateProductionEnv_def lists T' E bindR_eq_Inr throwIf_eq_Inr) (auto simp: env_text_def)
qed

lemma accepted_launch:
  assumes "validateProductionEnv ur rt fs cwd e p = Inr ()"
  shows "\<exists>url k. launch_requireDatabaseSchema ur e ''DATABASE_URL'' ''public'' = Inr url \<and> 24 \<le> length (env_text e ''HARA_CONTROL_ADMIN_KEY'') \<and>
    24 \<le> length (env_text e ''HARA_JWT_SECRET'') \<and> launch_loadFeedbackIntakeKey fs e = Inr k \<and> e ''HARA_CONTROL_ADMIN_KEY'' \<noteq> e ''HARA_JWT_SECRET'' \<and>
    (k \<noteq> [] \<longrightarrow> \<not> reuses e SECRET_NAMES k) \<and> validateCrashAlertEnv e = Inr () \<and>
    (env_text e ''HARA_CRASH_FEISHU_APP_SECRET'' \<noteq> [] \<longrightarrow> \<not> reuses e [''HARA_CONTROL_ADMIN_KEY'', ''HARA_JWT_SECRET''] (env_text e ''HARA_CRASH_FEISHU_APP_SECRET'')) \<and>
    (e ''GATEWAY_ADAPTER'' = Some ''litellm'' \<longrightarrow> validateGatewayEnv ur e = Inr ()) \<and> validateMasterKey rt fs cwd e k = Inr ()"
proof -
  have "e ''GATEWAY_ADAPTER'' = Some ''litellm'' \<Longrightarrow> orStr (env_text e ''GATEWAY_ADAPTER'') ''mock'' = ''litellm''" by (simp add: env_text_def)
  then show ?thesis using assms by (auto simp: validateProductionEnv_def bindR_eq_Inr throwIf_eq_Inr requireValue_ok)
qed

lemma preflight_after_validation:
  assumes valid: "validateProductionEnv ur rt fs cwd e p = Inr ()" and started: "e ''NODE_ENV'' = Some ''production''" "e ''HARA_ENV_LOADED'' = Some ''1''"
    and runtime: "node_decoder rt" "same_files rt fs cwd" and kms: "kmsProvider e = ''local''"
    and spaces: "trim (env_text e ''HARA_KMS_KEYFILE'') = env_text e ''HARA_KMS_KEYFILE''" "trim (env_text e ''HARA_KMS_MASTER_KEY'') = env_text e ''HARA_KMS_MASTER_KEY''"
    and gateway: "e ''GATEWAY_ADAPTER'' = Some ''litellm'' \<or> env_text e ''LITELLM_MASTER_KEY'' = []"
    and models: "allowedManagedModels e = Inr ms" "defaultManagedModel e = Inr m"
  shows "assertProductionRuntime ur rt fs e = Inr ()"
proof -
  let ?F = "env_text e ''HARA_CRASH_FEISHU_APP_SECRET''"
  obtain url k where db: "launch_requireDatabaseSchema ur e ''DATABASE_URL'' ''public'' = Inr url" and long: "24 \<le> length (env_text e ''HARA_CONTROL_ADMIN_KEY'')"
      "24 \<le> length (env_text e ''HARA_JWT_SECRET'')"
    and k: "launch_loadFeedbackIntakeKey fs e = Inr k" and aj: "e ''HARA_CONTROL_ADMIN_KEY'' \<noteq> e ''HARA_JWT_SECRET''" and fresh: "k \<noteq> [] \<longrightarrow> \<not> reuses e SECRET_NAMES k"
    and crash: "validateCrashAlertEnv e = Inr ()" and feishu: "?F \<noteq> [] \<longrightarrow> \<not> reuses e [''HARA_CONTROL_ADMIN_KEY'', ''HARA_JWT_SECRET''] ?F"
    and lite: "e ''GATEWAY_ADAPTER'' = Some ''litellm'' \<longrightarrow> validateGatewayEnv ur e = Inr ()" and master: "validateMasterKey rt fs cwd e k = Inr ()"
    using accepted_launch [OF valid] by metis
  obtain key where key: "loadMasterKey rt e = Inr key" "k \<noteq> [] \<longrightarrow> \<not> secretDecodesTo rt k key" and one: "(env_text e ''HARA_KMS_KEYFILE'' = []) \<noteq> (env_text e ''HARA_KMS_MASTER_KEY'' = [])"
    and apart: "\<forall>n \<in> set SECRET_NAMES. env_text e n = [] \<or> env_text e n \<noteq> env_text e ''HARA_KMS_MASTER_KEY''"
    using master_accepted [OF master runtime kms intake_trimmed [OF k] spaces] by blast
  have G: "assertLitellmRuntime ur e = Inr () \<and> distinct (filter (\<lambda>v. v \<noteq> []) (map (env_text e) SECRET_NAMES))" if "e ''GATEWAY_ADAPTER'' = Some ''litellm''"
    using gateway_accepted [OF _ models long] lite that by blast
  have "env_text e ''HARA_KMS_MASTER_KEY'' \<noteq> [] \<longrightarrow> \<not> reuses e [''HARA_CONTROL_ADMIN_KEY'', ''HARA_JWT_SECRET'', ''LITELLM_MASTER_KEY''] (env_text e ''HARA_KMS_MASTER_KEY'')"
    using apart by (auto simp: reuses_text SECRET_NAMES_def)
  moreover have "?F \<noteq> [] \<longrightarrow> env_text e ''LITELLM_MASTER_KEY'' \<noteq> ?F" using gateway G by (auto simp: SECRET_NAMES_def split: if_splits)
  then have "?F \<noteq> [] \<longrightarrow> \<not> reuses e [''HARA_CONTROL_ADMIN_KEY'', ''HARA_JWT_SECRET'', ''LITELLM_MASTER_KEY'', ''HARA_KMS_MASTER_KEY''] ?F"
    using feishu apart by (auto simp: reuses_text SECRET_NAMES_def)
  ultimately have "assertKmsRuntime rt e (if k = [] then None else Some k) = Inr ()"
    using key one kms by (auto simp: assertKmsRuntime_def bindR_eq_Inr throwIf_eq_Inr)
  then show ?thesis
    using started schema_agrees [OF db] long intake_agrees [OF k] crash_alerts_agree [OF crash] aj fresh G
    by (auto simp: assertProductionRuntime_def bindR_eq_Inr throwIf_eq_Inr long_value SECRET_NAMES_def)
qed


definition launch_settings :: "(string \<times> string) list" where
  "launch_settings =
     [(''DATABASE_URL'', ''postgres://db''), (''HARA_CONTROL_ADMIN_KEY'', replicate 24 CHR ''a''), (''HARA_JWT_SECRET'', replicate 24 CHR ''j''),
      (''HARA_KMS_MASTER_KEY'', replicate 64 CHR ''0''), (''HARA_FEEDBACK_INTAKE_KEY'', replicate 32 CHR ''f'')]"

definition launch_files :: FileSystem where
  "launch_files =
     (let st = \<lparr>st_symlink = False, st_file = True, st_mode = 384, st_uid = 1, st_dev = 1, st_ino = 1\<rparr>
      in \<lparr>fs_lstat = (\<lambda>p. if p = ''/srv/.env'' then Some st else None), fs_open = (\<lambda>p. if p = ''/srv/.env'' then Some (st, print_env launch_settings) else None), fs_euid = Some 1\<rparr>)"

definition launch_kms :: KmsRuntime where
  "launch_kms = preflight_kms\<lparr>kr_base64 := (\<lambda>s. if length s = 64 then replicate 48 0 else []), kr_base64url := (\<lambda>s. if length s = 64 then replicate 48 0 else []),
     kr_readFile := (\<lambda>p. if resolve ''/srv'' p = ''/srv/.env'' then Inr (print_env launch_settings) else Inl [])\<rparr>"

definition launched :: Launch where
  "launched = \<lparr>ln_command = ''node'', ln_args = [''main.js''], ln_env = (Map.empty ++ map_of launch_settings)(''NODE_ENV'' \<mapsto> ''production'', ''HARA_ENV_LOADED'' \<mapsto> ''1'')\<rparr>"

lemma launch_reads: "readPrivateFile launch_files (resolve ''/srv'' ''.env'') ''.env'' = Inr (print_env launch_settings)"
  by code_simp

lemma launch_parses: "parseEnvFile (print_env launch_settings) = Inr launch_settings"
  by code_simp

lemma launch_validates: "validateProductionEnv preflight_url launch_kms launch_files ''/srv'' (map_of launch_settings) (resolve ''/srv'' ''.env'') = Inr ()"
  by code_simp

lemma sample_launch: "launch preflight_url launch_kms launch_files ''/srv'' Map.empty [''.env'', ''--'', ''node'', ''main.js''] = Inr launched"
  by (simp add: launch_def Let_def launch_reads launch_parses launch_validates throwIf_def launched_def)


end
