(* ===== verification/Bootstrap.thy ===== *)
theory Bootstrap
  imports Providers ProductionEnv
begin

section \<open>The security bootstrap (scripts/bootstrap-production-security.mjs)\<close>

text \<open>
  Before the first start a script fills in what the settings file lacks: random secrets, the key file, the isolated database of the gateway. It edits the text by
  regular expressions. Properties: a second run leaves the file as it is, so no secret is rotated behind the operator's back; and a dollar sign in the
  password of the database is read as a replacement pattern.
\<close>

subsection \<open>Editing a setting\<close>

text \<open>\<^verbatim>\<open>contents.match(/^NAME=(.*)$/m)?.[1]?.trim()\<close>\<close>

definition assigns :: "string \<Rightarrow> string \<Rightarrow> bool" where
  "assigns name line \<longleftrightarrow> startsWith line (name @ ''='')"

definition currentValue :: "string \<Rightarrow> string \<Rightarrow> string option" where
  "currentValue contents name = map_option (\<lambda>l. trim (drop (length name + 1) l)) (List.find (assigns name) (text_lines contents))"

text \<open>The first match of \<^verbatim>\<open>/^NAME=.*$/m\<close> with what is before and after it\<close>

function find_match :: "string \<Rightarrow> string \<Rightarrow> string \<Rightarrow> (string \<times> string \<times> string) option" where
  "find_match name before s =
     (let line = takeWhile (\<lambda>c. \<not> line_end c) s; after = dropWhile (\<lambda>c. \<not> line_end c) s
      in if assigns name line then Some (before, line, after)
         else (case after of [] \<Rightarrow> None | c # rest \<Rightarrow> find_match name (before @ line @ [c]) rest))"
  by pat_completeness auto
termination
proof (relation "measure (\<lambda>(name, before, s). length s)", goal_cases)
  case (2 name before s x y c rest)
  then have "length (c # rest) \<le> length s" by (metis length_dropWhile_le)
  then show ?case by simp
qed simp

declare find_match.simps [simp del]

text \<open>The replacement text of \<^verbatim>\<open>replace\<close>, whose patterns start with a dollar sign; the expressions here have no groups.\<close>

fun expand :: "string \<Rightarrow> string \<Rightarrow> string \<Rightarrow> string \<Rightarrow> string" where
  "expand before matched after (a # b # s) =
     (if a = CHR ''$''
      then if b = CHR ''$'' then CHR ''$'' # expand before matched after s
           else if b = CHR ''&'' then matched @ expand before matched after s
           else if b = CHR 0x60 then before @ expand before matched after s
           else if b = CHR 0x27 then after @ expand before matched after s
           else a # expand before matched after (b # s)
      else a # expand before matched after (b # s))"
| "expand before matched after s = s"

definition replace_line :: "string \<Rightarrow> string \<Rightarrow> string \<Rightarrow> string" where
  "replace_line contents name replacement =
     (case find_match name [] contents of None \<Rightarrow> contents | Some (before, matched, after) \<Rightarrow> before @ expand before matched after replacement @ after)"

definition append_line :: "string \<Rightarrow> string \<Rightarrow> string" where
  "append_line contents line = contents @ (if contents \<noteq> [] \<and> last contents = CHR 0x0A then [] else [CHR 0x0A]) @ line @ [CHR 0x0A]"

definition has_line :: "string \<Rightarrow> string \<Rightarrow> bool" where
  "has_line contents name \<longleftrightarrow> list_ex (assigns name) (text_lines contents)"

text \<open>\<^verbatim>\<open>/^__SET/\<close> and \<^verbatim>\<open>/change-me/i\<close>\<close>

definition placeholder :: "string \<Rightarrow> bool" where
  "placeholder v \<longleftrightarrow> startsWith v ''__SET'' \<or> list_ex (\<lambda>i. startsWith (drop i (toLowerCase v)) ''change-me'') [0..<length v]"

text \<open>No caller passes the third argument, which defaults to true.\<close>

definition setValue :: "string \<Rightarrow> string \<Rightarrow> string \<Rightarrow> string" where
  "setValue name value contents =
     (let existing = nullish (currentValue contents name) [];
          shouldReplace = (existing = [] \<or> placeholder existing)
      in if has_line contents name then (if shouldReplace then replace_line contents name (name @ ''='' @ value) else contents)
         else append_line contents (name @ ''='' @ value))"

definition setProduction :: "string \<Rightarrow> string" where
  "setProduction contents =
     (if has_line contents ''NODE_ENV'' then replace_line contents ''NODE_ENV'' ''NODE_ENV=production'' else append_line contents ''NODE_ENV=production'')"

definition decodedCurrentValue :: "string \<Rightarrow> string \<Rightarrow> string option" where
  "decodedCurrentValue contents name =
     (case currentValue contents name of
        None \<Rightarrow> None
      | Some value \<Rightarrow>
          Some (if value \<noteq> [] \<and> (hd value = single_quote \<or> hd value = double_quote) \<and> last value = hd value then butlast (tl value) else value))"

text \<open>\<^verbatim>\<open>url.searchParams.set("schema", s)\<close> followed by \<^verbatim>\<open>url.toString()\<close> is the parameter \<^verbatim>\<open>withSchema\<close>.\<close>

definition isolatedLiteLLMDatabaseUrl :: "UrlRuntime \<Rightarrow> (URL \<Rightarrow> string \<Rightarrow> string) \<Rightarrow> string \<Rightarrow> string res" where
  "isolatedLiteLLMDatabaseUrl ur withSchema contents =
     (let raw = nullish (decodedCurrentValue contents ''DATABASE_URL'') []
      in throwIf (raw = []) (PlainError ''DATABASE_URL is required before production security bootstrap'')
        (case ur_newURL ur raw of
           None \<Rightarrow> Inl (PlainError ''DATABASE_URL is not a valid URL'')
         | Some url \<Rightarrow>
             throwIf (u_protocol url \<noteq> ''postgresql:'' \<and> u_protocol url \<noteq> ''postgres:'') (PlainError ''DATABASE_URL must use postgresql:// or postgres://'')
            (throwIf (ur_param ur (u_search url) ''schema'' \<noteq> Some ''public'') (PlainError ''DATABASE_URL must explicitly use schema=public'')
            (Inr (withSchema url ''litellm'')))))"

subsection \<open>The script\<close>

text \<open>The three random secrets as hexadecimal text\<close>

record FreshSecrets =
  fr_admin :: string
  fr_jwt :: string
  fr_master :: string

definition set_secrets :: "FreshSecrets \<Rightarrow> string \<Rightarrow> string \<Rightarrow> string" where
  "set_secrets fr keyfile contents =
     setValue ''HARA_KMS_KEYFILE'' keyfile
    (setValue ''HARA_KMS_PROVIDER'' ''local''
    (setValue ''LITELLM_MASTER_KEY'' (''sk-hara-'' @ fr_master fr)
    (setValue ''HARA_JWT_SECRET'' (fr_jwt fr)
    (setValue ''HARA_CONTROL_ADMIN_KEY'' (fr_admin fr) contents))))"

definition set_gateway :: "UrlRuntime \<Rightarrow> (URL \<Rightarrow> string \<Rightarrow> string) \<Rightarrow> string \<Rightarrow> string res" where
  "set_gateway ur withSchema contents =
     (if decodedCurrentValue contents ''GATEWAY_ADAPTER'' = Some ''litellm''
      then bindR (isolatedLiteLLMDatabaseUrl ur withSchema contents) (\<lambda>url.
           Inr (setValue ''HARA_DEFAULT_MODEL'' ''deepseek-v4-flash''
               (setValue ''HARA_ALLOWED_MODELS'' ''deepseek-v4-flash,deepseek-v4-pro,deepseek-v4-flash-vision-exp''
               (setValue ''LITELLM_DATABASE_URL'' url contents))))
      else Inr contents)"

definition check_secrets :: "string \<Rightarrow> unit res" where
  "check_secrets contents =
     (let admin = nullish (currentValue contents ''HARA_CONTROL_ADMIN_KEY'') []; jwt = nullish (currentValue contents ''HARA_JWT_SECRET'') [];
          master = nullish (currentValue contents ''LITELLM_MASTER_KEY'') []
      in throwIf (admin = [] \<or> jwt = [] \<or> master = []) (PlainError ''required security values could not be established'')
        (throwIf (\<not> distinct [admin, jwt, master]) (PlainError ''admin, JWT and LiteLLM secrets must be distinct'') (Inr ())))"

definition bootstrap_text :: "UrlRuntime \<Rightarrow> (URL \<Rightarrow> string \<Rightarrow> string) \<Rightarrow> FreshSecrets \<Rightarrow> string \<Rightarrow> string \<Rightarrow> string res" where
  "bootstrap_text ur withSchema fr keyfile contents =
     bindR (set_gateway ur withSchema (set_secrets fr keyfile (setProduction contents))) (\<lambda>contents'.
     bindR (check_secrets contents') (\<lambda>_. Inr contents'))"

text \<open>
  The files: the settings file before, as opened, and once more before the rename; the key file, which is created when there is none. The result is the new text of the
  settings file with the path of the key file, and whether the key file is created. A path whose link leads nowhere fails in either branch, with another message.
\<close>

record BootstrapResult =
  br_contents :: string
  br_keyfile :: string
  br_createsKey :: bool

definition own_regular :: "FileSystem \<Rightarrow> FileStat \<Rightarrow> string \<Rightarrow> string \<Rightarrow> unit res" where
  "own_regular fs st notRegular notOwned =
     throwIf (st_symlink st \<or> \<not> st_file st) (PlainError notRegular)
    (throwIf (case fs_euid fs of None \<Rightarrow> False | Some u \<Rightarrow> st_uid st \<noteq> u) (PlainError notOwned) (Inr ()))"

definition existing_keyfile :: "FileSystem \<Rightarrow> string \<Rightarrow> bool res" where
  "existing_keyfile fs keyfile =
     (case fs_lstat fs keyfile of
        None \<Rightarrow> Inr True
      | Some st \<Rightarrow>
          bindR (own_regular fs st ''KMS keyfile must be a regular, non-symlink file'' ''existing KMS keyfile must be owned by the deployment user'') (\<lambda>_.
          throwIf (st_mode st mod 64 \<noteq> 0) (PlainError ''existing KMS keyfile must be owner-only (chmod 600)'') (Inr False)))"

definition bootstrap_security ::
  "UrlRuntime \<Rightarrow> (URL \<Rightarrow> string \<Rightarrow> string) \<Rightarrow> FreshSecrets \<Rightarrow> FileSystem \<Rightarrow> FileSystem \<Rightarrow> string \<Rightarrow> string \<Rightarrow> string \<Rightarrow> BootstrapResult res" where
  "bootstrap_security ur withSchema fr fs later cwd envArg keyArg =
     (let envPath = resolve cwd (orStr envArg ''.env'')
      in case fs_lstat fs envPath of
           None \<Rightarrow> Inl (PlainError (envPath @ '' is missing''))
         | Some envStat \<Rightarrow>
             bindR (own_regular fs envStat ''.env must be a regular, non-symlink file'' ''.env must be owned by the deployment user'') (\<lambda>_.
             case fs_open fs envPath of
               None \<Rightarrow> Inl (PlainError ''open failed'')
             | Some (opened, contents) \<Rightarrow>
                 throwIf (st_dev opened \<noteq> st_dev envStat \<or> st_ino opened \<noteq> st_ino envStat \<or> \<not> st_file opened) (PlainError ''.env changed while it was being opened'')
                (let keyfile = resolve cwd (orStr keyArg (orStr (nullish (currentValue contents ''HARA_KMS_KEYFILE'') []) ''/etc/hara-control/kms-master.key''))
                 in bindR (existing_keyfile fs keyfile) (\<lambda>creates.
                    bindR (bootstrap_text ur withSchema fr keyfile contents) (\<lambda>contents'.
                    case fs_lstat later envPath of
                      None \<Rightarrow> Inl (PlainError ''ENOENT'')
                    | Some st \<Rightarrow>
                        throwIf (st_symlink st \<or> \<not> st_file st \<or> st_dev st \<noteq> st_dev envStat \<or> st_ino st \<noteq> st_ino envStat)
                          (PlainError ''.env changed during security bootstrap'')
                       (Inr \<lparr>br_contents = contents', br_keyfile = keyfile, br_createsKey = creates\<rparr>))))))"

subsection \<open>Lines\<close>

abbreviation one_line :: "string \<Rightarrow> bool" where
  "one_line v \<equiv> list_all (\<lambda>c. \<not> line_end c) v"

lemma text_lines_one: "one_line v \<Longrightarrow> text_lines v = [v]"
  by (subst text_lines.simps) (auto simp: list_all_iff split: list.splits simp flip: takeWhile_eq_all_conv dest: dropWhile_eq_Cons_conv [THEN iffD1])

lemma text_lines_cut:
  assumes "line_end c"
  shows "text_lines (x @ c # y) = text_lines x @ text_lines y"
proof (induction x rule: text_lines.induct)
  case (1 x)
  show ?case
  proof (cases "dropWhile (\<lambda>c. \<not> line_end c) x")
    case Nil
    then have "\<forall>z \<in> set x. \<not> line_end z" by simp
    then have "takeWhile (\<lambda>c. \<not> line_end c) (x @ c # y) = x" "dropWhile (\<lambda>c. \<not> line_end c) (x @ c # y) = c # y" "text_lines x = [x]"
      using assms by (simp_all add: takeWhile_append2 dropWhile_append2 text_lines_one list_all_iff)
    then show ?thesis by (subst text_lines.simps) simp
  next
    case (Cons z rest)
    then have z: "line_end z" using dropWhile_eq_Cons_conv [of "\<lambda>c. \<not> line_end c" x z rest] by simp
    have x: "x = takeWhile (\<lambda>c. \<not> line_end c) x @ z # rest" by (metis Cons takeWhile_dropWhile_id)
    have "takeWhile (\<lambda>c. \<not> line_end c) (x @ c # y) = takeWhile (\<lambda>c. \<not> line_end c) x" "dropWhile (\<lambda>c. \<not> line_end c) (x @ c # y) = z # rest @ c # y"
      using z Cons by (auto simp: takeWhile_append1 dropWhile_append dropWhile_eq_Nil_conv [symmetric] simp del: dropWhile_eq_Nil_conv) (metis Cons dropWhile_eq_Nil_conv list.discI takeWhile_append1)
    then show ?thesis using 1 [OF Cons] by (subst (1 2) text_lines.simps) (simp add: Cons)
  qed
qed

text \<open>The line \<^verbatim>\<open>l\<close> of a text, between \<^verbatim>\<open>y\<close> and \<^verbatim>\<open>r\<close>: putting another line there changes nothing else.\<close>

definition line_at :: "string \<Rightarrow> string \<Rightarrow> string \<Rightarrow> string list \<Rightarrow> string list \<Rightarrow> bool" where
  "line_at y l r pre post \<longleftrightarrow> one_line l \<and> (\<forall>v. one_line v \<longrightarrow> text_lines (y @ v @ r) = pre @ v # post)"

lemma one_line_first: "one_line (takeWhile (\<lambda>c. \<not> line_end c) s)"
  by (auto simp: list_all_iff dest: set_takeWhileD)

lemma first_line_at:
  "line_at [] (takeWhile (\<lambda>c. \<not> line_end c) s) (dropWhile (\<lambda>c. \<not> line_end c) s) [] (case dropWhile (\<lambda>c. \<not> line_end c) s of [] \<Rightarrow> [] | _ # rest \<Rightarrow> text_lines rest)"
proof (cases "dropWhile (\<lambda>c. \<not> line_end c) s")
  case Nil
  show ?thesis unfolding Nil line_at_def using one_line_first text_lines_one by simp
next
  case (Cons c rest)
  then have "line_end c" using dropWhile_eq_Cons_conv [of "\<lambda>c. \<not> line_end c" s c rest] by simp
  then show ?thesis unfolding Cons line_at_def using one_line_first by (simp add: text_lines_cut text_lines_one)
qed

lemma later_line_at: "one_line f \<Longrightarrow> line_end c \<Longrightarrow> line_at y l r pre post \<Longrightarrow> line_at (f @ c # y) l r (f # pre) post"
  by (simp add: line_at_def text_lines_cut text_lines_one)

lemma find_match_lines:
  assumes "find_match name b s = Some (x, l, r)"
  shows "\<exists>y pre post. x = b @ y \<and> s = y @ l @ r \<and> line_at y l r pre post \<and> assigns name l \<and> list_all (\<lambda>q. \<not> assigns name q) pre"
  using assms
proof (induction name b s rule: find_match.induct)
  case (1 name b s)
  let ?f = "takeWhile (\<lambda>c. \<not> line_end c) s" and ?d = "dropWhile (\<lambda>c. \<not> line_end c) s"
  show ?case
  proof (cases "assigns name ?f")
    case True
    then have "x = b" "l = ?f" "r = ?d" using 1(2) by (auto simp: find_match.simps [of name b s] Let_def)
    then show ?thesis using first_line_at [of s] True by (intro exI [of _ "[]"] exI) auto
  next
    case False
    then obtain c rest where d: "?d = c # rest" and m: "find_match name (b @ ?f @ [c]) rest = Some (x, l, r)"
      using 1(2) by (auto simp: find_match.simps [of name b s] Let_def split: list.splits)
    from 1(1) [OF refl refl False d m] obtain y pre post where y: "x = (b @ ?f @ [c]) @ y" "rest = y @ l @ r" "line_at y l r pre post" "assigns name l"
      "list_all (\<lambda>q. \<not> assigns name q) pre" by blast
    have c: "line_end c" using d dropWhile_eq_Cons_conv [of "\<lambda>c. \<not> line_end c" s c rest] by simp
    have f: "one_line ?f" by (rule one_line_first)
    have "s = (?f @ c # y) @ l @ r" using y(2) d takeWhile_dropWhile_id [of "\<lambda>c. \<not> line_end c" s] by simp
    moreover note later_line_at [OF f c y(3)]
    moreover have "x = b @ (?f @ c # y)" using y(1) by simp
    moreover have "list_all (\<lambda>q. \<not> assigns name q) (?f # pre)" using False y(5) by simp
    ultimately show ?thesis using y(4) by blast
  qed
qed

lemma find_match_None: "find_match name b s = None \<longleftrightarrow> \<not> has_line s name"
proof (induction name b s rule: find_match.induct)
  case (1 name b s)
  let ?f = "takeWhile (\<lambda>c. \<not> line_end c) s" and ?d = "dropWhile (\<lambda>c. \<not> line_end c) s"
  have m: "find_match name b s = (if assigns name ?f then Some (b, ?f, ?d) else (case ?d of [] \<Rightarrow> None | c # rest \<Rightarrow> find_match name (b @ ?f @ [c]) rest))"
    by (subst find_match.simps) (simp only: Let_def)
  have t: "text_lines s = ?f # (case ?d of [] \<Rightarrow> [] | _ # rest \<Rightarrow> text_lines rest)" by (rule text_lines.simps)
  show ?case
  proof (cases "assigns name ?f")
    case False
    show ?thesis
    proof (cases ?d)
      case (Cons c rest)
      from 1 [OF refl refl False Cons] show ?thesis unfolding has_line_def m t Cons using False by simp
    next
      case Nil
      show ?thesis unfolding has_line_def m t Nil using False by simp
    qed
  qed (use m t in \<open>simp add: has_line_def\<close>)
qed

subsection \<open>What an edit changes\<close>

abbreviation lookup_line :: "string \<Rightarrow> string \<Rightarrow> string option" where
  "lookup_line contents name \<equiv> List.find (assigns name) (text_lines contents)"

definition plain_name :: "string \<Rightarrow> bool" where
  "plain_name n \<longleftrightarrow> CHR ''='' \<notin> set n"

text \<open>A value that is written as it is, and not read as a placeholder\<close>

definition good_value :: "string \<Rightarrow> bool" where
  "good_value v \<longleftrightarrow> v \<noteq> [] \<and> one_line v \<and> CHR ''$'' \<notin> set v \<and> trim v = v \<and> \<not> placeholder v"

lemma find_append: "List.find P (xs @ ys) = (case List.find P xs of None \<Rightarrow> List.find P ys | Some x \<Rightarrow> Some x)"
  by (induction xs) auto

lemma find_None_list: "list_all (\<lambda>x. \<not> P x) xs \<Longrightarrow> List.find P xs = None"
  by (induction xs) auto

lemma assigns_once: "assigns n l \<Longrightarrow> assigns q l \<Longrightarrow> plain_name n \<Longrightarrow> plain_name q \<Longrightarrow> n = q"
proof -
  have "n = takeWhile (\<lambda>c. c \<noteq> CHR ''='') l" if "assigns n l" "plain_name n" for n
  proof -
    have "take (Suc (length n)) l = n @ ''=''" using that(1) by (simp add: assigns_def startsWith_def)
    then obtain rest where l: "l = n @ CHR ''='' # rest" by (metis append.assoc append_Cons append_Nil append_take_drop_id)
    have "\<forall>c \<in> set n. c \<noteq> CHR ''=''" using that(2) by (auto simp: plain_name_def)
    then show ?thesis by (simp add: l takeWhile_append2)
  qed
  then show "assigns n l \<Longrightarrow> assigns q l \<Longrightarrow> plain_name n \<Longrightarrow> plain_name q \<Longrightarrow> n = q" by metis
qed

lemma assigns_line [simp]: "assigns n (n @ CHR ''='' # v)"
  by (simp add: assigns_def startsWith_def)

lemma assigns_empty [simp]: "\<not> assigns n []"
  by (simp add: assigns_def startsWith_def)

lemma expand_plain: "CHR ''$'' \<notin> set v \<Longrightarrow> expand b m a v = v"
  by (induction b m a v rule: expand.induct) auto

lemma lookup_expanded:
  assumes "has_line c n" "one_line v" "\<And>x l r. expand x l r u = v" "assigns n v" "plain_name n" "plain_name q"
  shows "lookup_line (replace_line c n u) q = (if q = n then Some v else lookup_line c q)"
proof -
  obtain x l r where m: "find_match n [] c = Some (x, l, r)" using assms(1) find_match_None [of n "[]" c] by (cases "find_match n [] c") auto
  from find_match_lines [OF m] obtain pre post where c: "c = x @ l @ r" and at: "line_at x l r pre post" and l: "assigns n l" and pre: "list_all (\<lambda>q. \<not> assigns n q) pre"
    by auto
  have "text_lines c = pre @ l # post" "text_lines (replace_line c n u) = pre @ v # post"
    using at assms(2,3) by (auto simp: c line_at_def replace_line_def m [unfolded c])
  moreover have "q \<noteq> n \<Longrightarrow> \<not> assigns q v \<and> \<not> assigns q l" using assigns_once assms(4-6) l by blast
  ultimately show ?thesis using find_None_list [OF pre] assms(4) by (auto simp: find_append split: option.splits)
qed

lemmas lookup_replaced = lookup_expanded [OF _ _ expand_plain]

lemma lookup_appended:
  assumes "one_line v"
  shows "lookup_line (append_line c v) q = (case lookup_line c q of None \<Rightarrow> if assigns q v then Some v else None | Some l \<Rightarrow> Some l)"
proof -
  have nl: "line_end (CHR 0x0A)" by (simp add: line_end_def)
  have e: "text_lines [] = [[]]" by (simp add: text_lines_one)
  have tail: "text_lines (v @ [CHR 0x0A]) = [v, []]" using text_lines_cut [OF nl, of v "[]"] by (simp add: text_lines_one [OF assms] e)
  show ?thesis
  proof (cases "c \<noteq> [] \<and> last c = CHR 0x0A")
    case True
    then obtain d where c: "c = d @ [CHR 0x0A]" by (metis append_butlast_last_id)
    have "text_lines c = text_lines d @ [[]]" using text_lines_cut [OF nl, of d "[]"] e by (simp add: c)
    moreover have "text_lines (append_line c v) = text_lines d @ [v, []]"
      using text_lines_cut [OF nl, of d "v @ [CHR 0x0A]"] tail by (simp add: append_line_def c)
    ultimately show ?thesis by (auto simp: find_append split: option.splits)
  next
    case False
    then have "text_lines (append_line c v) = text_lines c @ [v, []]"
      using text_lines_cut [OF nl, of c "v @ [CHR 0x0A]"] tail by (auto simp: append_line_def)
    then show ?thesis by (auto simp: find_append split: option.splits)
  qed
qed

definition settled :: "string \<Rightarrow> string \<Rightarrow> bool" where
  "settled c n \<longleftrightarrow> (\<exists>v. currentValue c n = Some v \<and> v \<noteq> [] \<and> \<not> placeholder v)"

lemma has_line_lookup: "has_line c n \<longleftrightarrow> lookup_line c n \<noteq> None"
  by (auto simp: has_line_def find_None_iff list_ex_iff)

lemma current_lookup: "lookup_line c q = lookup_line d q \<Longrightarrow> currentValue c q = currentValue d q"
  by (simp add: currentValue_def)

lemma settled_kept: "settled c n \<Longrightarrow> setValue n v c = c"
  by (auto simp: settled_def setValue_def Let_def has_line_lookup currentValue_def)

lemma set_others:
  assumes "one_line v" "CHR ''$'' \<notin> set v" "plain_name n" "plain_name q" "q \<noteq> n" "one_line n" "CHR ''$'' \<notin> set n"
  shows "lookup_line (setValue n v c) q = lookup_line c q"
proof -
  have w: "one_line (n @ ''='' @ v)" "CHR ''$'' \<notin> set (n @ ''='' @ v)" using assms by (auto simp: line_end_def)
  have "\<not> assigns q (n @ CHR ''='' # v)" using assigns_once assms(3-5) assigns_line by blast
  then show ?thesis
    using lookup_replaced [OF _ w, where c = c and n = n and q = q] lookup_appended [OF w(1), where c = c and q = q] assms(3-5) by (auto simp: setValue_def Let_def split: option.splits)
qed

lemma set_settles:
  assumes "good_value v" "plain_name n" "one_line n" "CHR ''$'' \<notin> set n"
  shows "settled (setValue n v c) n"
proof (cases "settled c n")
  case True
  then show ?thesis by (simp add: settled_kept)
next
  case False
  have w: "one_line (n @ ''='' @ v)" "CHR ''$'' \<notin> set (n @ ''='' @ v)" using assms by (auto simp: line_end_def good_value_def)
  have "setValue n v c = (if has_line c n then replace_line c n (n @ ''='' @ v) else append_line c (n @ ''='' @ v))"
    using False by (auto simp: settled_def setValue_def Let_def nullish_def split: option.splits)
  moreover have "lookup_line (append_line c (n @ ''='' @ v)) n = Some (n @ ''='' @ v)" if "\<not> has_line c n"
    using lookup_appended [OF w(1), where c = c and q = n] that by (simp add: has_line_lookup)
  moreover have "lookup_line (replace_line c n (n @ ''='' @ v)) n = Some (n @ ''='' @ v)" if "has_line c n"
    using lookup_replaced [OF that w, where q = n] assms(2) by simp
  ultimately have "lookup_line (setValue n v c) n = Some (n @ ''='' @ v)" by simp
  then show ?thesis using assms(1) by (simp add: settled_def currentValue_def good_value_def)
qed

subsection \<open>Running it twice\<close>

definition setting :: "string \<times> string \<Rightarrow> bool" where
  "setting e \<longleftrightarrow> plain_name (fst e) \<and> one_line (fst e) \<and> CHR ''$'' \<notin> set (fst e) \<and> good_value (snd e)"

definition edits :: "(string \<times> string) list \<Rightarrow> string \<Rightarrow> string" where
  "edits es c = fold (\<lambda>e. setValue (fst e) (snd e)) es c"

lemma set_keeps:
  assumes "setting (n, v)" "plain_name q" "settled c q \<or> q \<noteq> n"
  shows "lookup_line (setValue n v c) q = lookup_line c q"
  using assms set_others [of v n q c] settled_kept [of c n v] by (cases "q = n") (auto simp: setting_def good_value_def)

lemma settled_lookup: "lookup_line c q = lookup_line d q \<Longrightarrow> settled c q \<longleftrightarrow> settled d q"
  by (simp add: settled_def currentValue_def)

lemma edits_keep:
  "list_all setting es \<Longrightarrow> plain_name q \<Longrightarrow> settled c q \<or> q \<notin> fst ` set es \<Longrightarrow> lookup_line (edits es c) q = lookup_line c q"
proof (induction es arbitrary: c)
  case (Cons e es)
  obtain n v where e: "e = (n, v)" by (cases e)
  have k: "lookup_line (setValue n v c) q = lookup_line c q" using Cons.prems by (intro set_keeps) (auto simp: e)
  have "lookup_line (edits es (setValue n v c)) q = lookup_line (setValue n v c) q"
    by (rule Cons.IH) (use Cons.prems settled_lookup [OF k] in \<open>auto simp: e\<close>)
  then show ?case using k by (simp add: edits_def e)
qed (simp add: edits_def)

lemma edits_settle:
  "list_all setting es \<Longrightarrow> n \<in> fst ` set es \<Longrightarrow> settled (edits es c) n"
proof (induction es arbitrary: c)
  case (Cons e es)
  obtain m v where e: "e = (m, v)" by (cases e)
  have step: "edits (e # es) c = edits es (setValue m v c)" by (simp add: edits_def e)
  show ?case
  proof (cases "n = m")
    case True
    then have "settled (setValue m v c) n" using Cons.prems set_settles by (auto simp: e setting_def)
    moreover have "list_all setting es" "plain_name n" using Cons.prems(1) True by (simp_all add: e) (simp add: setting_def)
    ultimately show ?thesis unfolding step using edits_keep settled_lookup by metis
  next
    case False
    then show ?thesis unfolding step using Cons by (auto simp: e)
  qed
qed simp

lemma edits_stay: "\<forall>e \<in> set es. settled c (fst e) \<Longrightarrow> edits es c = c"
  by (induction es) (auto simp: edits_def settled_kept)

abbreviation production_line :: string where
  "production_line \<equiv> ''NODE_ENV=production''"

lemma production_stays:
  assumes "lookup_line c ''NODE_ENV'' = Some production_line"
  shows "setProduction c = c"
proof -
  obtain x l r where m: "find_match ''NODE_ENV'' [] c = Some (x, l, r)" using assms find_match_None [of "''NODE_ENV''" "[]" c] by (auto simp: has_line_lookup)
  from find_match_lines [OF m] obtain pre post where c: "c = x @ l @ r" "line_at x l r pre post" "assigns ''NODE_ENV'' l" "list_all (\<lambda>q. \<not> assigns ''NODE_ENV'' q) pre" by auto
  have "text_lines c = pre @ l # post" using c(1,2) by (auto simp: line_at_def)
  then have "l = production_line" using assms c(3,4) by (simp add: find_append find_None_list)
  moreover have "expand x l r production_line = production_line" by (rule expand_plain) simp
  ultimately have "replace_line c ''NODE_ENV'' production_line = c" unfolding replace_line_def m using c(1) by simp
  moreover have "has_line c ''NODE_ENV''" using assms by (simp add: has_line_lookup)
  ultimately show ?thesis by (simp only: setProduction_def if_True)
qed

lemma production_lookup:
  assumes "plain_name q"
  shows "lookup_line (setProduction c) q = (if q = ''NODE_ENV'' then Some production_line else lookup_line c q)"
proof -
  have w: "one_line production_line" "CHR ''$'' \<notin> set production_line" "assigns ''NODE_ENV'' production_line" "plain_name ''NODE_ENV''"
    by (simp_all add: line_end_def assigns_def startsWith_def plain_name_def)
  have "q \<noteq> ''NODE_ENV'' \<Longrightarrow> \<not> assigns q production_line" using assigns_once [OF w(3) _ w(4) assms] by blast
  then show ?thesis
    using lookup_replaced [OF _ w assms, where c = c] lookup_appended [OF w(1), where c = c and q = q] w(3) by (auto simp: setProduction_def has_line_lookup split: option.splits)
qed

definition secret_edits :: "FreshSecrets \<Rightarrow> string \<Rightarrow> (string \<times> string) list" where
  "secret_edits fr keyfile =
     [(''HARA_CONTROL_ADMIN_KEY'', fr_admin fr), (''HARA_JWT_SECRET'', fr_jwt fr), (''LITELLM_MASTER_KEY'', ''sk-hara-'' @ fr_master fr), (''HARA_KMS_PROVIDER'', ''local''),
      (''HARA_KMS_KEYFILE'', keyfile)]"

definition gateway_edits :: "string \<Rightarrow> (string \<times> string) list" where
  "gateway_edits url =
     [(''LITELLM_DATABASE_URL'', url), (''HARA_ALLOWED_MODELS'', ''deepseek-v4-flash,deepseek-v4-pro,deepseek-v4-flash-vision-exp''), (''HARA_DEFAULT_MODEL'', ''deepseek-v4-flash'')]"

lemma set_secrets_edits: "set_secrets fr keyfile c = edits (secret_edits fr keyfile) c"
  by (simp add: set_secrets_def edits_def secret_edits_def)

lemma decoded_lookup: "lookup_line c q = lookup_line d q \<Longrightarrow> decodedCurrentValue c q = decodedCurrentValue d q"
  by (simp add: decodedCurrentValue_def currentValue_def)

lemma isolated_lookup:
  "lookup_line c ''DATABASE_URL'' = lookup_line d ''DATABASE_URL'' \<Longrightarrow> isolatedLiteLLMDatabaseUrl ur withSchema c = isolatedLiteLLMDatabaseUrl ur withSchema d"
  unfolding isolatedLiteLLMDatabaseUrl_def by (drule decoded_lookup) (simp only:)

text \<open>The edits one run makes: the last group only for a gateway.\<close>

definition all_edits :: "UrlRuntime \<Rightarrow> (URL \<Rightarrow> string \<Rightarrow> string) \<Rightarrow> FreshSecrets \<Rightarrow> string \<Rightarrow> string \<Rightarrow> (string \<times> string) list res" where
  "all_edits ur withSchema fr keyfile c =
     (if decodedCurrentValue c ''GATEWAY_ADAPTER'' = Some ''litellm''
      then bindR (isolatedLiteLLMDatabaseUrl ur withSchema c) (\<lambda>url. Inr (secret_edits fr keyfile @ gateway_edits url))
      else Inr (secret_edits fr keyfile))"

lemma bootstrap_is_edits:
  assumes "list_all setting (secret_edits fr keyfile)"
  shows "bootstrap_text ur withSchema fr keyfile c =
    bindR (all_edits ur withSchema fr keyfile c) (\<lambda>es. bindR (check_secrets (edits es (setProduction c))) (\<lambda>_. Inr (edits es (setProduction c))))"
proof -
  let ?d = "edits (secret_edits fr keyfile) (setProduction c)"
  have "lookup_line ?d q = lookup_line c q" if "plain_name q" "q \<notin> fst ` set (secret_edits fr keyfile)" "q \<noteq> ''NODE_ENV''" for q
    using edits_keep [OF assms that(1)] production_lookup [OF that(1)] that by simp
  then have l: "lookup_line ?d ''GATEWAY_ADAPTER'' = lookup_line c ''GATEWAY_ADAPTER''" "lookup_line ?d ''DATABASE_URL'' = lookup_line c ''DATABASE_URL''"
    by (simp_all add: plain_name_def secret_edits_def)
  have "set_gateway ur withSchema ?d = bindR (all_edits ur withSchema fr keyfile c) (\<lambda>es. Inr (edits es (setProduction c)))"
    unfolding set_gateway_def all_edits_def decoded_lookup [OF l(1)] isolated_lookup [OF l(2)]
    by (cases "isolatedLiteLLMDatabaseUrl ur withSchema c") (simp_all add: edits_def gateway_edits_def)
  then show ?thesis unfolding bootstrap_text_def set_secrets_edits by (cases "all_edits ur withSchema fr keyfile c") simp_all
qed

lemma settled_current: "lookup_line c q = lookup_line d q \<Longrightarrow> currentValue c q = currentValue d q"
  by (simp add: currentValue_def)

lemma fixed_settings: "setting (''HARA_KMS_PROVIDER'', ''local'')" "setting (''HARA_ALLOWED_MODELS'', ''deepseek-v4-flash,deepseek-v4-pro,deepseek-v4-flash-vision-exp'')"
    "setting (''HARA_DEFAULT_MODEL'', ''deepseek-v4-flash'')"
  by code_simp+

lemma given_settings: "good_value v \<Longrightarrow> n \<in> {''HARA_CONTROL_ADMIN_KEY'', ''HARA_JWT_SECRET'', ''LITELLM_MASTER_KEY'', ''HARA_KMS_KEYFILE'', ''LITELLM_DATABASE_URL''} \<Longrightarrow> setting (n, v)"
  by (auto simp: setting_def plain_name_def line_end_def)

definition fresh_ok :: "FreshSecrets \<Rightarrow> string \<Rightarrow> bool" where
  "fresh_ok fr keyfile \<longleftrightarrow> good_value (fr_admin fr) \<and> good_value (fr_jwt fr) \<and> good_value (''sk-hara-'' @ fr_master fr) \<and> good_value keyfile"

lemma fresh_settings: "fresh_ok fr keyfile \<Longrightarrow> list_all setting (secret_edits fr keyfile)"
  using fixed_settings(1) by (simp add: fresh_ok_def secret_edits_def given_settings)


definition sample_urls :: UrlRuntime where
  "sample_urls = \<lparr>ur_newURL = (\<lambda>s. map_option (\<lambda>u. u\<lparr>u_href := s\<rparr>) (ur_newURL preflight_url s)), ur_param = ur_param preflight_url\<rparr>"

definition other_schema :: "URL \<Rightarrow> string \<Rightarrow> string" where
  "other_schema url schema = u_href url @ ''?schema='' @ schema"

definition sample_secrets :: FreshSecrets where
  "sample_secrets = \<lparr>fr_admin = ''aa'', fr_jwt = ''bb'', fr_master = ''cc''\<rparr>"

definition sample_file :: string where
  "sample_file = ''HARA_JWT_SECRET=change-me'' @ [CHR 0x0A] @ ''DATABASE_URL=postgres://db''"

lemma sample_isolated: "isolatedLiteLLMDatabaseUrl sample_urls other_schema sample_file = Inr ''postgres://db?schema=litellm''"
  by code_simp

lemma sample_values: "fresh_ok sample_secrets ''/k''" "fresh_ok (sample_secrets\<lparr>fr_admin := ''dd''\<rparr>) ''/other''" "good_value ''postgres://db?schema=litellm''"
  by code_simp+

lemma sample_bootstrap: "case bootstrap_text sample_urls other_schema sample_secrets ''/k'' sample_file of Inl _ \<Rightarrow> False | Inr c \<Rightarrow> True"
  by code_simp


subsection \<open>Dollar signs\<close>

lemma expand_dollars: "CHR ''$'' \<notin> set a \<Longrightarrow> CHR ''$'' \<notin> set b \<Longrightarrow> expand x l r (a @ ''$$'' @ b) = a @ ''$'' @ b"
proof (induction a)
  case (Cons z a)
  obtain y ys where "a @ ''$$'' @ b = y # ys" by (cases a) auto
  then show ?case using Cons by auto
qed (simp add: expand_plain)

text \<open>
  Property C40. Where the settings file has an empty line for the gateway's database, two dollar signs in the password of the database reach it as one: the address
  is used as a replacement text. The gateway is then configured with another password than the control plane.
\<close>

theorem dollars_in_password_are_lost:
  assumes "decodedCurrentValue c ''GATEWAY_ADAPTER'' = Some ''litellm''" "isolatedLiteLLMDatabaseUrl ur withSchema c = Inr (a @ ''$$'' @ b)"
    and "currentValue c ''LITELLM_DATABASE_URL'' = Some []" "one_line (a @ b)" "CHR ''$'' \<notin> set (a @ b)"
  shows "\<exists>c'. set_gateway ur withSchema c = Inr c' \<and> currentValue c' ''LITELLM_DATABASE_URL'' = Some (trim (a @ ''$'' @ b))"
proof -
  let ?n = "''LITELLM_DATABASE_URL''" and ?u = "a @ ''$$'' @ b" and ?v = "a @ ''$'' @ b"
  let ?c1 = "setValue ?n ?u c"
  let ?es = "[(''HARA_ALLOWED_MODELS'', ''deepseek-v4-flash,deepseek-v4-pro,deepseek-v4-flash-vision-exp''), (''HARA_DEFAULT_MODEL'', ''deepseek-v4-flash'')]"
  have n: "plain_name ?n" "one_line ?n" by (simp_all add: plain_name_def line_end_def)
  have line: "has_line c ?n" using assms(3) by (auto simp: has_line_lookup currentValue_def)
  then have c1: "?c1 = replace_line c ?n (?n @ ''='' @ ?u)" using assms(3) by (simp add: setValue_def Let_def)
  have e: "expand x l r (?n @ ''='' @ ?u) = ?n @ ''='' @ ?v" for x l r using expand_dollars [of "?n @ ''='' @ a" b x l r] assms(5) by simp
  have one: "one_line (?n @ ''='' @ ?v)" using assms(4) by (simp add: line_end_def)
  have "lookup_line ?c1 ?n = Some (?n @ ''='' @ ?v)" unfolding c1 using lookup_expanded [OF line one e _ n(1) n(1)] by (simp add: assigns_def startsWith_def)
  moreover have "lookup_line (edits ?es ?c1) ?n = lookup_line ?c1 ?n"
    by (rule edits_keep) (use fixed_settings(2,3) n(1) in auto)
  ultimately have "currentValue (edits ?es ?c1) ?n = Some (trim ?v)" by (simp add: currentValue_def)
  moreover have "set_gateway ur withSchema c = Inr (edits ?es ?c1)" by (simp add: set_gateway_def assms(1,2) edits_def)
  ultimately show ?thesis by blast
qed

definition dollar_file :: string where
  "dollar_file = ''GATEWAY_ADAPTER=litellm'' @ [CHR 0x0A] @ ''LITELLM_DATABASE_URL='' @ [CHR 0x0A] @ ''DATABASE_URL=postgres://u:p$$w@db''"

theorem dollars_in_password_are_lost_witness:
  "\<exists>c'. set_gateway sample_urls other_schema dollar_file = Inr c' \<and> currentValue c' ''LITELLM_DATABASE_URL'' = Some ''postgres://u:p$w@db?schema=litellm''"
proof -
  have "isolatedLiteLLMDatabaseUrl sample_urls other_schema dollar_file = Inr (''postgres://u:p'' @ ''$$'' @ ''w@db?schema=litellm'')" by code_simp
  moreover have "decodedCurrentValue dollar_file ''GATEWAY_ADAPTER'' = Some ''litellm''" by code_simp
  moreover have "currentValue dollar_file ''LITELLM_DATABASE_URL'' = Some []" by code_simp
  moreover have "trim (''postgres://u:p'' @ ''$'' @ ''w@db?schema=litellm'') = ''postgres://u:p$w@db?schema=litellm''" by code_simp
  ultimately show ?thesis
    using dollars_in_password_are_lost [of dollar_file sample_urls other_schema "''postgres://u:p''" "''w@db?schema=litellm''"] by (simp add: line_end_def)
qed

end
