(* ===== verification/DeployChecks.thy ===== *)
theory DeployChecks
  imports Redact ProductionEnv
begin

section \<open>Checks of a deployment (scripts/assert-pm2-env-safe.mjs, scripts/recover-known-failed-migration.mjs)\<close>

text \<open>
  The process manager keeps the environment a process was started with in its own files, so a script refuses a deployment in which a secret is there. Another
  decides whether a failed migration is the one known defect that can be marked as rolled back. Both are stated over the JSON they are given.
\<close>

subsection \<open>The environment the process manager keeps\<close>

definition FORBIDDEN_ENV_NAMES :: "string list" where
  "FORBIDDEN_ENV_NAMES =
     [''DATABASE_URL'', ''LITELLM_DATABASE_URL'', ''HARA_CONTROL_ADMIN_KEY'', ''HARA_JWT_SECRET'', ''HARA_KMS_MASTER_KEY'', ''HARA_KMS_KEYFILE'', ''LITELLM_MASTER_KEY'',
      ''UPSTREAM_API_KEY'', ''HARA_CRASH_FEISHU_APP_ID'', ''HARA_CRASH_FEISHU_APP_SECRET'', ''HARA_CRASH_FEISHU_CHAT_ID'', ''HARA_CRASH_FEISHU_MENTION_OPEN_ID'']"

text \<open>\<^verbatim>\<open>v?.k ?? {}\<close> and \<^verbatim>\<open>Object.hasOwn\<close>, which is false of these keys on anything but an object\<close>

definition or_object :: "jsval \<Rightarrow> jsval" where
  "or_object v = (if v = JUndef \<or> v = JNull then JObj [] else v)"

fun hasOwn :: "jsval \<Rightarrow> string \<Rightarrow> bool" where
  "hasOwn (JObj kvs) key \<longleftrightarrow> key \<in> fst ` set kvs"
| "hasOwn _ key \<longleftrightarrow> False"

definition process_name :: "jsval \<Rightarrow> jsval" where
  "process_name entry = prop_of entry ''name''"

definition snapshots :: "jsval \<Rightarrow> jsval list" where
  "snapshots entry = (let pm2Env = or_object (prop_of entry ''pm2_env'') in [pm2Env, or_object (prop_of pm2Env ''env'')])"

fun unsafePm2Environment :: "jsval list \<Rightarrow> string list \<Rightarrow> (jsval \<times> string) list" where
  "unsafePm2Environment [] expectedNames = []"
| "unsafePm2Environment (entry # processes) expectedNames =
     (if process_name entry \<in> JStr ` set expectedNames
      then map (\<lambda>key. (process_name entry, key)) (filter (\<lambda>key. list_ex (\<lambda>env. hasOwn env key) (snapshots entry)) FORBIDDEN_ENV_NAMES)
      else []) @ unsafePm2Environment processes expectedNames"

text \<open>
  The script: the arguments, then what the manager answers, which is None when its status is not zero; the parser of JSON is a parameter, and a list that
  is none ends the script with a TypeError.
\<close>

definition pm2_main :: "(string \<Rightarrow> jsval option) \<Rightarrow> string option \<Rightarrow> string list \<Rightarrow> unit res" where
  "pm2_main parseJson answer argv =
     (case argv of
        pm2Bin # expectedNames \<Rightarrow>
          throwIf (pm2Bin = [] \<or> expectedNames = []) (PlainError ''usage: assert-pm2-env-safe.mjs <pm2-bin> <process-name> [...]'')
         (case answer of
            None \<Rightarrow> Inl (PlainError ''could not inspect the PM2 process list'')
          | Some stdout \<Rightarrow>
              (case parseJson stdout of
                 None \<Rightarrow> Inl (PlainError ''PM2 returned an unreadable process list'')
               | Some (JArr processes) \<Rightarrow>
                   (let missing = filter (\<lambda>n. JStr n \<notin> process_name ` set processes) expectedNames; unsafe = unsafePm2Environment processes expectedNames
                    in throwIf (missing \<noteq> []) (PlainError (''expected managed process is missing: '' @ join '', '' missing))
                      (throwIf (unsafe \<noteq> []) (PlainError (''forbidden variables are serialized for '' @ join '', '' (map (\<lambda>(n, k). String_js n @ '':'' @ k) unsafe)))
                      (Inr ())))
               | Some _ \<Rightarrow> Inl (PlainError ''TypeError'')))
      | [] \<Rightarrow> Inl (PlainError ''usage: assert-pm2-env-safe.mjs <pm2-bin> <process-name> [...]''))"

lemma unsafe_iff:
  "unsafePm2Environment processes expectedNames = [] \<longleftrightarrow>
     (\<forall>entry \<in> set processes. process_name entry \<in> JStr ` set expectedNames \<longrightarrow>
        (\<forall>env \<in> set (snapshots entry). \<forall>key \<in> set FORBIDDEN_ENV_NAMES. \<not> hasOwn env key))"
  by (induction processes) (auto simp: filter_empty_conv list_ex_iff)

text \<open>An accepted deployment runs every expected process, and none of them has a forbidden name in what the manager keeps.\<close>

lemma accepted_processes_are_clean:
  assumes "pm2_main parseJson answer (pm2Bin # expectedNames) = Inr ()" "n \<in> set expectedNames"
  shows "\<exists>stdout processes. answer = Some stdout \<and> parseJson stdout = Some (JArr processes) \<and> JStr n \<in> process_name ` set processes \<and>
    (\<forall>entry \<in> set processes. process_name entry = JStr n \<longrightarrow> (\<forall>env \<in> set (snapshots entry). \<forall>key \<in> set FORBIDDEN_ENV_NAMES. \<not> hasOwn env key))"
proof -
  obtain stdout processes where p: "answer = Some stdout" "parseJson stdout = Some (JArr processes)"
      "filter (\<lambda>n. JStr n \<notin> process_name ` set processes) expectedNames = []" "unsafePm2Environment processes expectedNames = []"
    using assms(1) by (auto simp: pm2_main_def Let_def throwIf_eq_Inr split: option.splits jsval.splits)
  then show ?thesis using assms(2) unfolding unsafe_iff by (auto simp: filter_empty_conv)
qed

text \<open>The intake key of the feedback desk is not among the forbidden names.\<close>

lemma intake_key_is_not_forbidden:
  "unsafePm2Environment [JObj [(''name'', JStr ''hara''), (''pm2_env'', JObj [(''HARA_FEEDBACK_INTAKE_KEY'', JStr k)])]] [''hara''] = []"
  by (simp add: process_name_def snapshots_def prop_of_def or_object_def FORBIDDEN_ENV_NAMES_def)

subsection \<open>The failed migration\<close>

definition KNOWN_MIGRATION :: string where "KNOWN_MIGRATION = ''20260720000000_add_system_audit_log''"
definition FAILED_RELEASE_CHECKSUM :: string where
  "FAILED_RELEASE_CHECKSUM = ''5acd6e84d3558ed0287c434b5cd8e120ec467189a4482b74c5926dcd4fe5d16f''"

record MigrationRow =
  mg_name :: string
  mg_checksum :: string
  mg_logs :: "string option"
  mg_started :: "time option"
  mg_finished :: "time option"
  mg_rolledBack :: "time option"

text \<open>What the inspection found: which of the objects of the migration exist, and whether the index it collided with is as expected.\<close>

record Inspection =
  in_failed :: "MigrationRow list"
  in_newObjects :: "string list"
  in_globalSecretIndexMatches :: bool

datatype Recovery = No_recovery | Recover

definition refuse :: "string \<Rightarrow> 'a res" where
  "refuse reason = Inl (PlainError (''automatic migration recovery refused: '' @ reason))"

definition contains :: "string \<Rightarrow> string \<Rightarrow> bool" where
  "contains s p \<longleftrightarrow> list_ex (\<lambda>i. startsWith (drop i s) p) [0..<length s + 1]"

definition decideKnownMigrationRecovery :: "Inspection \<Rightarrow> Recovery res" where
  "decideKnownMigrationRecovery state =
     (case in_failed state of
        [] \<Rightarrow> Inr No_recovery
      | _ # _ # _ \<Rightarrow> refuse ''unexpected number of active failed migrations''
      | [row] \<Rightarrow>
          if mg_name row \<noteq> KNOWN_MIGRATION then refuse ''failure is not the known migration''
          else if mg_checksum row \<noteq> FAILED_RELEASE_CHECKSUM then refuse ''failure checksum does not match the released defect''
          else if mg_started row = None \<or> mg_finished row \<noteq> None \<or> mg_rolledBack row \<noteq> None then refuse ''migration state is not an active failed attempt''
          else
            (let logs = toLowerCase (nullish (mg_logs row) [])
             in if \<not> contains logs ''42p07'' \<or> \<not> contains logs ''secret_global_name_key'' \<or> \<not> contains logs ''already exists''
                then refuse ''failure signature does not match the duplicate-index defect''
                else if in_newObjects state \<noteq> [] then refuse ''the failed transaction may have partially applied''
                else if \<not> in_globalSecretIndexMatches state then refuse ''the pre-existing global secret index is absent or has unexpected semantics''
                else Inr Recover))"

text \<open>The script with what \<^verbatim>\<open>prisma migrate resolve\<close> ends with; the result says whether the attempt is marked as rolled back.\<close>

definition recovery_main :: "Inspection \<Rightarrow> bool \<Rightarrow> bool res" where
  "recovery_main state resolved =
     bindR (decideKnownMigrationRecovery state) (\<lambda>decision.
     if decision = No_recovery then Inr False
     else if \<not> resolved then refuse ''Prisma could not mark the known attempt rolled back''
     else Inr True)"

text \<open>An attempt is only marked when it is alone, and when nothing of the migration is there.\<close>

lemma marked_attempt_is_the_known_one:
  "recovery_main state resolved = Inr True \<Longrightarrow>
     \<exists>row. in_failed state = [row] \<and> mg_name row = KNOWN_MIGRATION \<and> mg_checksum row = FAILED_RELEASE_CHECKSUM \<and> mg_finished row = None \<and> in_newObjects state = []"
  by (auto simp: recovery_main_def decideKnownMigrationRecovery_def refuse_def bindR_eq_Inr Let_def split: list.splits if_splits)

end
