(* ===== verification/Spec2Isabelle.thy ===== *)
theory Spec2Isabelle
  imports KeyPolicy TokenDiscipline ModelPolicy AuditLog OrgTree Auth EnrollSafety Revocation Tenancy Fleet AgentOrg Ssrf Secrets CrashOutbox FeedbackWorkflow LearningReview AssetReview WorkChain ProviderRuntime LaunchedServer Bootstrap DeployChecks
begin

text \<open>
  \<^bold>\<open>Hara Control.\<close> A verification library of the control plane under \<^verbatim>\<open>src/src\<close>: the service that registers the devices of
  an organisation, issues and revokes their model-gateway keys, governs what they may run and keeps an audit trail of it.

  \<^bold>\<open>The program and the theories.\<close> An administrator (auth/, common/) creates organisations, enrollment codes and the agent
  organisation (admin/, roles/); a device exchanges a code for a token and a gateway key (enroll/, gateway/) and, where the
  organisation has bound one, a Desk installation (service-bindings/, enroll/desk-provisioner.ts); afterwards it sends heartbeats
  and fetches its bundle; an administrator can bind it to a person and revoke it. Every mutation is one transaction with one
  row of the hash-chained audit trail (audit/).

  \<^item> \<^verbatim>\<open>Prelude\<close>: errors, computations that may throw, JavaScript strings and insertion-ordered sets. \<^verbatim>\<open>JsNumber\<close>: IEEE-754
    doubles, JSON values, number parsing and printing, dates.
  \<^item> \<^verbatim>\<open>KeyPolicy\<close> (gateway/key-policy.ts), \<^verbatim>\<open>TokenDiscipline\<close> (security/token-discipline.ts), \<^verbatim>\<open>ModelPolicy\<close>
    (providers/model-policy.ts): the pure policies. Acceptance is characterised exactly, stored policies read back, expiry
    times are exact in double arithmetic, a resolved model is in the catalog.
  \<^item> \<^verbatim>\<open>HashChain\<close>, \<^verbatim>\<open>Totp\<close>, \<^verbatim>\<open>Auth\<close> (common/crypto.ts, common/admin-auth.guard.ts, auth/): canonical JSON and chains,
    Base32 and one-time codes, passwords, session tokens, guards, login with its rate limit, accounts.
  \<^item> \<^verbatim>\<open>AuditLog\<close> (audit/audit.service.ts): appending, verifying, and the retry loop of \<^verbatim>\<open>transact\<close>. What verification
    detects, up to a collision of the hash, and what it does not.
  \<^item> \<^verbatim>\<open>OrgTree\<close> (org/org-tree.service.ts): ancestors and descendants are the walk to the root and the subtree.
  \<^item> \<^verbatim>\<open>Gateway\<close> (gateway/): the contract of a gateway adapter as a locale, interpreted on the mock and on the LiteLLM adapter.
  \<^item> \<^verbatim>\<open>Store\<close>: the tables (prisma/schema.prisma) as lists of rows in one world record, the effect type of a handler and its
    Hoare rules. \<^verbatim>\<open>ServiceBindings\<close>, \<^verbatim>\<open>DeskProvisioner\<close>, \<^verbatim>\<open>License\<close>, \<^verbatim>\<open>Enroll\<close>, \<^verbatim>\<open>Admin\<close>, \<^verbatim>\<open>Fleet\<close>: the handlers,
    statement by statement. \<^verbatim>\<open>EnrollSafety\<close>, \<^verbatim>\<open>Revocation\<close>, \<^verbatim>\<open>Tenancy\<close>: what they guarantee as a whole.
  \<^item> \<^verbatim>\<open>GovernancePolicy\<close>, \<^verbatim>\<open>Roles\<close>, \<^verbatim>\<open>AgentOrg\<close> (roles/): policies and their merge, roles, teams, assignments and the
    bundle of a device, and the isolation of tenants across all requests of the roles controller.
  \<^item> \<^verbatim>\<open>Ssrf\<close> (security/ssrf.ts): which addresses an outgoing request may reach, on every redirect. \<^verbatim>\<open>Secrets\<close> (security/kms/,
    security/secrets.service.ts): envelope encryption and the store, which behaves as a map bound to the organisation.
  \<^item> \<^verbatim>\<open>Redact\<close> (common/redact.ts, assets/guard.ts): the regular expressions of the filters and a matcher for them.
  \<^item> \<^verbatim>\<open>CrashReports\<close>, \<^verbatim>\<open>CrashAlerts\<close>, \<^verbatim>\<open>CrashOutbox\<close> (crash-reports/): intake, the alert worker, and any number of workers interleaved:
    an alert is marked as sent only after a send under a claim. \<^verbatim>\<open>Feedback\<close>, \<^verbatim>\<open>FeedbackWorkflow\<close> (feedback-tickets/): intake, leases and the
    workflow; in every reachable state the timeline of a ticket replays its status.
  \<^item> \<^verbatim>\<open>Learnings\<close>, \<^verbatim>\<open>LearningReview\<close> (learnings/): submissions, reviews and the bundle, whose version changes with its contents.
    \<^verbatim>\<open>SkillCapabilities\<close>, \<^verbatim>\<open>Assets\<close>, \<^verbatim>\<open>AssetReview\<close> (assets/, embed/): contributions, search, reviews and promotion; what is served was reviewed.
  \<^item> \<^verbatim>\<open>Work\<close>, \<^verbatim>\<open>WorkChain\<close> (work/): ingested sessions and their hash chain per device, through the locale of chained texts.
  \<^item> \<^verbatim>\<open>RuntimeSecurity\<close> (config/, health/): the production preflight and the probes. \<^verbatim>\<open>Providers\<close>, \<^verbatim>\<open>ProviderRuntime\<close> (providers/,
    ops/provider-secret.ts): the provider's key, and the supervisors that run with it as a step relation.
  \<^item> \<^verbatim>\<open>ProductionEnv\<close>, \<^verbatim>\<open>LaunchedServer\<close>, \<^verbatim>\<open>Bootstrap\<close>, \<^verbatim>\<open>DeployChecks\<close> (src/scripts): the launcher with its file format, what its check implies for
    the preflight, the script that fills in missing secrets, and two checks of a deployment.

  \<^bold>\<open>Failures and interleavings.\<close> A handler maps a world to a world and a result or an exception; an exception keeps the effects
  so far. Every database statement can fail: the world holds a script that says which ones do, and the theorems
  quantify over it. Remote services answer with an arbitrary function of their state. Concurrency appears where the code has
  it: racing claims of a code, overlapping logins, a revocation that overtakes an enrollment, verification results that arrive late, several
  alert workers, reviews between the statements of a promotion, keys stored while supervisors start and exit.

  \<^bold>\<open>Parameters.\<close> SHA-256, HMAC, scrypt, Ed25519, the WHATWG URL parser, \<^verbatim>\<open>fetch\<close>, the LiteLLM proxy, the Desk, the collation of
  the database, clocks and fresh identifiers are arguments of the definitions that use them; a theorem that relies on their documented
  behaviour states it as a hypothesis and has a witness.

  \<^bold>\<open>Bounds.\<close> Strings are code units up to U+00FF. The walks of the organisation tree carry the depth bound of the code
  (\<^verbatim>\<open>MAX_ORG_DEPTH\<close>), the retry loop its four attempts, normalising a budget its depth of four; no other fuel is used, every loop
  of the model terminates by structural recursion or a measure.

  \<^bold>\<open>Not modelled.\<close> The HTTP surface (main.ts, the modules and the controllers without logic of their own), the validation decorators, which a library
  interprets, and the Prisma client are glue around the services. The console (src/public) renders pages over the HTTP interface. The command line and the
  probe scripts are input and output around calls of remote services. Timers, signals, temporary files and the wiping of buffers have no counterpart:
  a theorem about them would need a model of the operating system or of memory.
\<close>

end
